(* ===== verification/Prelude.thy ===== *)
theory Prelude
  imports Main "HOL-Library.State_Monad" "HOL-Library.Finite_Map" "HOL-Library.List_Lexorder"
    "HOL-Library.Char_ord" "HOL-Library.Sublist" "HOL-Library.Multiset"
begin

text \<open>
  Shared vocabulary of the development: Go's errors as values, the functions of package
  \<open>strings\<close> that the sources call, \<open>sort.Slice\<close>, clock arithmetic on \<open>int64\<close> nanoseconds,
  effectful calls as state transformers over an arbitrary world, and the proof rules for them.
\<close>

section \<open>Collections of rewrite and introduction rules\<close>

named_theorems preserves_intros \<open>rules that push an invariant through an effectful program\<close>
named_theorems go_string_simps \<open>evaluation of the string functions\<close>

section \<open>Errors\<close>

text \<open>
  A Kubernetes client call fails with a \<open>StatusError\<close> that carries a machine readable reason;
  the sources test it with \<open>errors.IsNotFound\<close>, \<open>errors.IsAlreadyExists\<close> and
  \<open>errors.IsInvalid\<close>, all of which look through errors wrapped by \<open>fmt.Errorf\<close> with \<open>%w\<close>.
\<close>

datatype status_reason = ReasonNotFound | ReasonAlreadyExists | ReasonInvalid | ReasonOther string

datatype go_error =
    StatusError status_reason string
  | Errorf string "go_error option"
  | Aggregate "go_error list"

fun ReasonForError :: "go_error \<Rightarrow> status_reason option" where
  "ReasonForError (StatusError r _) = Some r"
| "ReasonForError (Errorf _ (Some e)) = ReasonForError e"
| "ReasonForError (Errorf _ None) = None"
| "ReasonForError (Aggregate _) = None"

definition IsNotFound :: "go_error \<Rightarrow> bool" where
  "IsNotFound e \<longleftrightarrow> ReasonForError e = Some ReasonNotFound"

definition IsAlreadyExists :: "go_error \<Rightarrow> bool" where
  "IsAlreadyExists e \<longleftrightarrow> ReasonForError e = Some ReasonAlreadyExists"

definition IsInvalid :: "go_error \<Rightarrow> bool" where
  "IsInvalid e \<longleftrightarrow> ReasonForError e = Some ReasonInvalid"

text \<open>
  A Go function with result type \<open>error\<close> gives \<open>None\<close> for \<open>nil\<close>;
  \<open>utilerrors.NewAggregate\<close> gives \<open>nil\<close> for an empty list.
\<close>

type_synonym err = "go_error option"

definition NewAggregate :: "go_error list \<Rightarrow> err" where
  "NewAggregate es = (if es = [] then None else Some (Aggregate es))"

definition errs_append :: "go_error list \<Rightarrow> err \<Rightarrow> go_error list" where
  "errs_append es e = (case e of None \<Rightarrow> es | Some x \<Rightarrow> es @ [x])"

section \<open>Package strings\<close>

definition HasPrefix :: "string \<Rightarrow> string \<Rightarrow> bool" where
  "HasPrefix s p \<longleftrightarrow> prefix p s"

definition TrimPrefix :: "string \<Rightarrow> string \<Rightarrow> string" where
  "TrimPrefix s p = (if HasPrefix s p then drop (length p) s else s)"

definition HasSuffix :: "string \<Rightarrow> string \<Rightarrow> bool" where
  "HasSuffix s p \<longleftrightarrow> suffix p s"

fun Contains :: "string \<Rightarrow> string \<Rightarrow> bool" where
  "Contains [] sub = (sub = [])"
| "Contains (c # s) sub = (prefix sub (c # s) \<or> Contains s sub)"

fun Join :: "string list \<Rightarrow> string \<Rightarrow> string" where
  "Join [] sep = []"
| "Join [x] sep = x"
| "Join (x # y # ys) sep = x @ sep @ Join (y # ys) sep"

text \<open>\<open>strings.SplitN(s, sep, n)\<close> for a separator of one character.\<close>

fun SplitN :: "nat \<Rightarrow> char \<Rightarrow> string \<Rightarrow> string list" where
  "SplitN 0 c s = []"
| "SplitN (Suc 0) c s = [s]"
| "SplitN (Suc (Suc n)) c s =
     (if c \<in> set s then takeWhile (\<lambda>x. x \<noteq> c) s # SplitN (Suc n) c (tl (dropWhile (\<lambda>x. x \<noteq> c) s))
      else [s])"

section \<open>Error texts\<close>

text \<open>\<open>strings.Split\<close> for a separator of one character.\<close>

fun Split :: "char \<Rightarrow> string \<Rightarrow> string list" where
  "Split c [] = [[]]"
| "Split c (x # xs) =
     (if x = c then [] # Split c xs else (case Split c xs of [] \<Rightarrow> [[x]] | p # ps \<Rightarrow> (x # p) # ps))"

text \<open>
  \<open>err.Error()\<close>. An error wrapped with \<open>%w\<close> follows the text and a colon; an aggregate lists the
  different messages of its flattened errors, in brackets if there are several.
\<close>

fun flat_messages :: "string list \<Rightarrow> string" where
  "flat_messages [] = ''''"
| "flat_messages [m] = m"
| "flat_messages ms = ''['' @ Join ms '', '' @ '']''"

fun error_messages :: "go_error \<Rightarrow> string list" where
  "error_messages (StatusError _ m) = [m]"
| "error_messages (Errorf s None) = [s]"
| "error_messages (Errorf s (Some e)) = [s @ '': '' @ flat_messages (rev (remdups (rev (error_messages e))))]"
| "error_messages (Aggregate es) = concat (map error_messages es)"

definition Error :: "go_error \<Rightarrow> string" where
  "Error e = flat_messages (rev (remdups (rev (error_messages e))))"

text \<open>
  \<open>fmt.Sprintf(format, arg)\<close> with one string: without a verb in the format the argument is
  reported as extra. Formats with verbs are left to the given function.
\<close>

definition Sprintf1 :: "(string \<Rightarrow> string \<Rightarrow> string) \<Rightarrow> string \<Rightarrow> string \<Rightarrow> string" where
  "Sprintf1 verbs format arg =
     (if CHR ''%'' \<in> set format then verbs format arg else format @ ''%!(EXTRA string='' @ arg @ '')'')"

section \<open>sort.Slice\<close>

text \<open>
  Insertion sort as package \<open>sort\<close> runs it on slices of up to twelve elements: the next element
  moves left past every element it is less than. The accumulator is the sorted part, last element
  first. For longer slices the package makes no promise on equal elements; where the elements are
  pairwise ordered the result is the same list (\<open>sort_slice_unique\<close> below).
\<close>

fun sort_insert :: "('a \<Rightarrow> 'a \<Rightarrow> bool) \<Rightarrow> 'a \<Rightarrow> 'a list \<Rightarrow> 'a list" where
  "sort_insert lt x [] = [x]"
| "sort_insert lt x (y # ys) = (if lt x y then y # sort_insert lt x ys else x # y # ys)"

definition sort_slice :: "('a \<Rightarrow> 'a \<Rightarrow> bool) \<Rightarrow> 'a list \<Rightarrow> 'a list" where
  "sort_slice lt xs = rev (foldl (\<lambda>acc x. sort_insert lt x acc) [] xs)"

section \<open>Time and durations\<close>

text \<open>
  Instants are nanoseconds since Go's zero time, so \<open>IsZero\<close> is equality with 0. Durations are
  \<open>int64\<close> nanoseconds: multiplication wraps around, \<open>time.Since\<close> saturates.
\<close>

type_synonym time = int
type_synonym duration = int

definition wrap64 :: "int \<Rightarrow> int" where
  "wrap64 x = (x + 2 ^ 63) mod 2 ^ 64 - 2 ^ 63"

definition minDuration :: duration where "minDuration = - (2 ^ 63)"
definition maxDuration :: duration where "maxDuration = 2 ^ 63 - 1"

definition time_Sub :: "time \<Rightarrow> time \<Rightarrow> duration" where
  "time_Sub t u = max minDuration (min maxDuration (t - u))"

definition Second :: duration where "Second = 1000000000"
definition Minute :: duration where "Minute = 60 * Second"

text \<open>\<open>metav1.NewTime(t.UTC().Truncate(time.Second))\<close> and integer division towards zero.\<close>

definition truncate_second :: "time \<Rightarrow> time" where
  "truncate_second t = t - t mod Second"

definition go_div :: "int \<Rightarrow> int \<Rightarrow> int" where
  "go_div a b = sgn a * sgn b * (\<bar>a\<bar> div \<bar>b\<bar>)"

section \<open>Effectful calls\<close>

text \<open>
  A call to a Kubernetes API server, an informer cache or a work queue is a state transformer on
  a world of arbitrary type: nothing is assumed about what such a call does. A program preserves a
  property of worlds if every run from a world that has it ends in a world that has it; a theorem
  that holds for every property preserved by some calls says that no other call is made.
\<close>

type_synonym ('w, 'a) io = "('w, 'a) state"
type_synonym ('w, 'a) call = "('w, go_error + 'a) state"

definition preserves :: "('w \<Rightarrow> bool) \<Rightarrow> ('w, 'a) io \<Rightarrow> bool" where
  "preserves P m \<longleftrightarrow> (\<forall>w. P w \<longrightarrow> P (snd (run_state m w)))"

text \<open>The error of a call whose value is dropped, as in \<open>_, err := f()\<close>.\<close>

definition err_of :: "go_error + 'a \<Rightarrow> err" where
  "err_of r = (case r of Inl e \<Rightarrow> Some e | Inr _ \<Rightarrow> None)"

section \<open>Lemmas on errors\<close>

lemma reason_tests_exclusive:
  "IsNotFound e \<Longrightarrow> \<not> IsAlreadyExists e"
  "IsNotFound e \<Longrightarrow> \<not> IsInvalid e"
  by (simp_all add: IsNotFound_def IsAlreadyExists_def IsInvalid_def)

lemma IsNotFound_StatusError [simp]:
  "IsNotFound (StatusError r m) \<longleftrightarrow> r = ReasonNotFound"
  by (simp add: IsNotFound_def)

lemma IsNotFound_wrapped [simp]: "IsNotFound (Errorf m (Some e)) = IsNotFound e"
  by (simp add: IsNotFound_def)

lemma NewAggregate_None [simp]: "NewAggregate es = None \<longleftrightarrow> es = []"
  by (simp add: NewAggregate_def)

lemma errs_append_Nil [simp]: "errs_append es e = [] \<longleftrightarrow> es = [] \<and> e = None"
  by (simp add: errs_append_def split: option.split)

lemma err_of_None [simp]: "err_of r = None \<longleftrightarrow> (\<exists>x. r = Inr x)"
  by (simp add: err_of_def split: sum.split)

lemma err_of_simps [simp]: "err_of (Inl e) = Some e" "err_of (Inr x) = None"
  by (simp_all add: err_of_def)

section \<open>Lemmas on strings\<close>

lemma TrimPrefix_append [simp, go_string_simps]: "TrimPrefix (p @ s) p = s"
  by (simp add: TrimPrefix_def HasPrefix_def)

lemma HasPrefix_append [simp, go_string_simps]: "HasPrefix (p @ s) p"
  by (simp add: HasPrefix_def)

lemma TrimPrefix_id: "\<not> HasPrefix s p \<Longrightarrow> TrimPrefix s p = s"
  by (simp add: TrimPrefix_def)

lemma TrimPrefix_changes: "p \<noteq> [] \<Longrightarrow> TrimPrefix s p \<noteq> s \<longleftrightarrow> HasPrefix s p"
  by (auto simp: TrimPrefix_def HasPrefix_def prefix_def)

lemma SplitN_no_sep [simp]: "c \<notin> set s \<Longrightarrow> SplitN (Suc (Suc n)) c s = [s]"
  by simp

lemma SplitN_sep:
  "c \<notin> set a \<Longrightarrow> SplitN (Suc (Suc n)) c (a @ c # s) = a # SplitN (Suc n) c s"
  by (simp add: takeWhile_append dropWhile_append)

lemma SplitN_nonempty: "SplitN (Suc n) c s \<noteq> []"
  by (cases n) auto

lemma first_sep_unique:
  fixes c :: char
  assumes "a @ c # s = b @ c # t" and "c \<notin> set a" and "c \<notin> set b"
  shows "a = b \<and> s = t"
proof -
  have "a # SplitN (Suc 0) c s = b # SplitN (Suc 0) c t"
    using SplitN_sep [OF assms(2), of 0 s] SplitN_sep [OF assms(3), of 0 t] assms(1) by metis
  then show ?thesis by simp
qed

section \<open>Lemmas on sorting\<close>

lemma mset_sort_insert [simp]: "mset (sort_insert lt x ys) = add_mset x (mset ys)"
  by (induction ys) auto

lemma mset_foldl_sort_insert:
  "mset (foldl (\<lambda>acc x. sort_insert lt x acc) acc xs) = mset acc + mset xs"
  by (induction xs arbitrary: acc) auto

lemma mset_sort_slice [simp]: "mset (sort_slice lt xs) = mset xs"
  by (simp add: sort_slice_def mset_foldl_sort_insert)

lemma set_sort_slice [simp]: "set (sort_slice lt xs) = set xs"
  by (metis mset_sort_slice set_mset_mset)

lemma length_sort_slice [simp]: "length (sort_slice lt xs) = length xs"
  by (metis mset_sort_slice size_mset)

lemma distinct_map_sort_slice [simp]:
  "distinct (map f (sort_slice lt xs)) = distinct (map f xs)"
  by (metis mset_sort_slice mset_map mset_eq_imp_distinct_iff)

lemma set_sort_insert: "set (sort_insert lt x ys) = insert x (set ys)"
  by (metis mset_sort_insert set_mset_add_mset_insert set_mset_mset)

text \<open>A comparison function the package may be called with: a strict weak order.\<close>

definition weak_order :: "('a \<Rightarrow> 'a \<Rightarrow> bool) \<Rightarrow> bool" where
  "weak_order lt \<longleftrightarrow>
     (\<forall>a b. lt a b \<longrightarrow> \<not> lt b a) \<and>
     (\<forall>a b c. \<not> lt a b \<longrightarrow> \<not> lt b c \<longrightarrow> \<not> lt a c)"

lemma weak_order_asym: "weak_order lt \<Longrightarrow> lt a b \<Longrightarrow> \<not> lt b a"
  unfolding weak_order_def by blast

lemma weak_order_trans: "weak_order lt \<Longrightarrow> \<not> lt a b \<Longrightarrow> \<not> lt b c \<Longrightarrow> \<not> lt a c"
  unfolding weak_order_def by blast

lemma sorted_sort_insert:
  assumes "weak_order lt" and "sorted_wrt (\<lambda>a b. \<not> lt a b) ys"
  shows "sorted_wrt (\<lambda>a b. \<not> lt a b) (sort_insert lt x ys)"
  using assms(2)
proof (induction ys)
  case Nil
  then show ?case by simp
next
  case (Cons y ys)
  then have below: "\<not> lt y z" if "z \<in> set ys" for z using that by simp
  show ?case
  proof (cases "lt x y")
    case True
    then have "\<not> lt y x" by (rule weak_order_asym [OF assms(1)])
    with True Cons below show ?thesis by (auto simp: set_sort_insert)
  next
    case False
    then have "\<not> lt x z" if "z \<in> set ys" for z
      using below [OF that] by (rule weak_order_trans [OF assms(1)])
    with False Cons.prems show ?thesis by simp
  qed
qed

lemma sorted_foldl_sort_insert:
  assumes "weak_order lt" and "sorted_wrt (\<lambda>a b. \<not> lt a b) acc"
  shows "sorted_wrt (\<lambda>a b. \<not> lt a b) (foldl (\<lambda>acc x. sort_insert lt x acc) acc xs)"
  using assms(2) by (induction xs arbitrary: acc) (auto intro: sorted_sort_insert [OF assms(1)])

lemma sorted_sort_slice:
  "weak_order lt \<Longrightarrow> sorted_wrt (\<lambda>a b. \<not> lt b a) (sort_slice lt xs)"
  by (simp add: sort_slice_def sorted_wrt_rev sorted_foldl_sort_insert)

lemma sorted_perm_unique:
  assumes "mset xs = mset ys" and "sorted_wrt R xs" and "sorted_wrt R ys"
    and "\<And>a b. a \<in> set xs \<Longrightarrow> b \<in> set xs \<Longrightarrow> R a b \<Longrightarrow> R b a \<Longrightarrow> a = b"
  shows "xs = ys"
  using assms
proof (induction xs arbitrary: ys)
  case Nil
  then show ?case by simp
next
  case (Cons x xs)
  then obtain y ys' where ys: "ys = y # ys'" by (cases ys) auto
  have sets: "set (x # xs) = set ys" using Cons.prems(1) by (metis set_mset_mset)
  have "x = y"
  proof (rule ccontr)
    assume "x \<noteq> y"
    moreover have "x \<in> set ys'" and "y \<in> set xs"
      using sets ys \<open>x \<noteq> y\<close> by auto
    ultimately have "R x y" and "R y x" using Cons.prems(2,3) ys by auto
    with Cons.prems(4) \<open>y \<in> set xs\<close> \<open>x \<noteq> y\<close> show False by auto
  qed
  moreover have "xs = ys'"
    using Cons.prems ys \<open>x = y\<close> by (intro Cons.IH) auto
  ultimately show ?case using ys by simp
qed

text \<open>Where no two elements are equivalent, every correct sort gives the list of the model.\<close>

lemma sort_slice_unique:
  assumes "weak_order lt" and "mset ys = mset xs"
    and "sorted_wrt (\<lambda>a b. \<not> lt b a) ys"
    and "\<And>a b. a \<in> set xs \<Longrightarrow> b \<in> set xs \<Longrightarrow> \<not> lt a b \<Longrightarrow> \<not> lt b a \<Longrightarrow> a = b"
  shows "ys = sort_slice lt xs"
proof (rule sorted_perm_unique [OF _ assms(3)])
  show "mset ys = mset (sort_slice lt xs)" using assms(2) by simp
  show "sorted_wrt (\<lambda>a b. \<not> lt b a) (sort_slice lt xs)"
    by (rule sorted_sort_slice [OF assms(1)])
  show "a = b" if "a \<in> set ys" "b \<in> set ys" "\<not> lt b a" "\<not> lt a b" for a b
    using assms(4) [of a b] that mset_eq_setD [OF assms(2)] by auto
qed

section \<open>Lookup by key in lists with distinct keys\<close>

lemma find_key_iff:
  "distinct (map f xs) \<Longrightarrow> List.find (\<lambda>x. f x = k) xs = Some x \<longleftrightarrow> x \<in> set xs \<and> f x = k"
  by (induction xs) (auto simp: rev_image_eqI)

lemma find_key_None: "List.find (\<lambda>x. f x = k) xs = None \<longleftrightarrow> k \<notin> f ` set xs"
  by (auto simp: find_None_iff)

lemma find_key_perm:
  assumes "distinct (map f xs)" and "mset xs = mset ys"
  shows "List.find (\<lambda>x. f x = k) xs = List.find (\<lambda>x. f x = k) ys"
proof -
  have "distinct (map f ys)" by (metis assms mset_map mset_eq_imp_distinct_iff)
  moreover have "set xs = set ys" using assms(2) by (rule mset_eq_setD)
  ultimately have "List.find (\<lambda>x. f x = k) xs = Some x \<longleftrightarrow> List.find (\<lambda>x. f x = k) ys = Some x" for x
    using assms(1) by (simp add: find_key_iff)
  then show ?thesis by (metis option.exhaust)
qed

lemma find_filter: "List.find P (filter Q xs) = List.find (\<lambda>x. P x \<and> Q x) xs"
  by (induction xs) auto

lemma find_append:
  "List.find P (xs @ ys) = (case List.find P xs of None \<Rightarrow> List.find P ys | Some x \<Rightarrow> Some x)"
  by (induction xs) auto

section \<open>Lemmas on time\<close>

lemma wrap64_range: "- (2 ^ 63) \<le> wrap64 x \<and> wrap64 x < 2 ^ 63"
proof -
  have "0 \<le> (x + 2 ^ 63) mod 2 ^ 64" and "(x + 2 ^ 63) mod 2 ^ 64 < (2::int) ^ 64"
    by simp_all
  then show ?thesis by (simp add: wrap64_def)
qed

lemma wrap64_id: "- (2 ^ 63) \<le> x \<Longrightarrow> x < 2 ^ 63 \<Longrightarrow> wrap64 x = x"
  by (simp add: wrap64_def)

lemma truncate_second_le: "truncate_second t \<le> t" "t - Second < truncate_second t"
proof -
  have "0 \<le> t mod Second" and "t mod Second < Second" by (simp_all add: Second_def)
  then show "truncate_second t \<le> t" "t - Second < truncate_second t"
    by (simp_all add: truncate_second_def)
qed

section \<open>Rules for effectful programs\<close>

lemma preserves_return [preserves_intros, simp]: "preserves P (State_Monad.return x)"
  by (simp add: preserves_def)

lemma preserves_bind [preserves_intros]:
  assumes "preserves P m" and "\<And>x. preserves P (f x)"
  shows "preserves P (State_Monad.bind m f)"
  using assms by (auto simp: preserves_def split: prod.split)

lemma preserves_if [preserves_intros]:
  "(b \<Longrightarrow> preserves P m) \<Longrightarrow> (\<not> b \<Longrightarrow> preserves P n) \<Longrightarrow> preserves P (if b then m else n)"
  by simp

lemma preserves_sum [preserves_intros]:
  "(\<And>e. r = Inl e \<Longrightarrow> preserves P (f e)) \<Longrightarrow> (\<And>x. r = Inr x \<Longrightarrow> preserves P (g x)) \<Longrightarrow>
   preserves P (case r of Inl e \<Rightarrow> f e | Inr x \<Rightarrow> g x)"
  by (cases r) simp_all

lemma preserves_option [preserves_intros]:
  "(r = None \<Longrightarrow> preserves P m) \<Longrightarrow> (\<And>x. r = Some x \<Longrightarrow> preserves P (g x)) \<Longrightarrow>
   preserves P (case r of None \<Rightarrow> m | Some x \<Rightarrow> g x)"
  by (cases r) simp_all

lemma preserves_Let [preserves_intros]:
  "(\<And>y. y = x \<Longrightarrow> preserves P (f y)) \<Longrightarrow> preserves P (Let x f)"
  by simp

lemma preserves_prod [preserves_intros]:
  "(\<And>a b. r = (a, b) \<Longrightarrow> preserves P (f a b)) \<Longrightarrow> preserves P (case r of (a, b) \<Rightarrow> f a b)"
  by (cases r) simp

lemma preservesD: "preserves P m \<Longrightarrow> P w \<Longrightarrow> run_state m w = (a, w') \<Longrightarrow> P w'"
  by (auto simp: preserves_def)

section \<open>Traces of calls\<close>

text \<open>
  To state in which order a program makes its calls, and what it knew at each of them, the calls
  are recorded: \<open>logged ev m\<close> runs \<open>m\<close> and appends an event built from its result to the trace.
  A policy says which event may follow which history; \<open>guarded G h tr\<close> means that every event of
  \<open>tr\<close> was allowed by \<open>G\<close> after the history \<open>h\<close> and the events before it.
\<close>

definition logged :: "('a \<Rightarrow> 'c) \<Rightarrow> ('w, 'a) io \<Rightarrow> ('w \<times> 'c list, 'a) io" where
  "logged ev m = State (\<lambda>(w, tr). case run_state m w of (a, w') \<Rightarrow> (a, (w', tr @ [ev a])))"

fun guarded :: "('c list \<Rightarrow> 'c \<Rightarrow> bool) \<Rightarrow> 'c list \<Rightarrow> 'c list \<Rightarrow> bool" where
  "guarded G h [] = True"
| "guarded G h (c # tr) = (G h c \<and> guarded G (h @ [c]) tr)"

definition wp :: "('s, 'a) io \<Rightarrow> ('a \<Rightarrow> 's \<Rightarrow> bool) \<Rightarrow> 's \<Rightarrow> bool" where
  "wp m Q s = (case run_state m s of (a, s') \<Rightarrow> Q a s')"

lemma guarded_snoc [simp]: "guarded G h (tr @ [c]) \<longleftrightarrow> guarded G h tr \<and> G (h @ tr) c"
  by (induction tr arbitrary: h) auto

lemma guarded_append: "guarded G h (tr @ us) \<longleftrightarrow> guarded G h tr \<and> guarded G (h @ tr) us"
  by (induction tr arbitrary: h) auto

lemma guarded_mono: "guarded G h tr \<Longrightarrow> (\<And>h c. G h c \<Longrightarrow> G' h c) \<Longrightarrow> guarded G' h tr"
  by (induction tr arbitrary: h) auto

lemma guarded_iff:
  "guarded G [] tr \<longleftrightarrow> (\<forall>pre c post. tr = pre @ c # post \<longrightarrow> G pre c)"
proof
  assume "guarded G [] tr"
  then show "\<forall>pre c post. tr = pre @ c # post \<longrightarrow> G pre c" by (auto simp: guarded_append)
next
  assume "\<forall>pre c post. tr = pre @ c # post \<longrightarrow> G pre c"
  then show "guarded G [] tr" by (induction tr rule: rev_induct) auto
qed

named_theorems wp_intros \<open>rules that turn a statement about a program into one per path\<close>

lemma wp_return [wp_intros]: "Q x s \<Longrightarrow> wp (State_Monad.return x) Q s"
  by (simp add: wp_def)

lemma wp_bind [wp_intros]: "wp m (\<lambda>a. wp (f a) Q) s \<Longrightarrow> wp (State_Monad.bind m f) Q s"
  by (simp add: wp_def split: prod.splits)

lemma wp_if [wp_intros]:
  "(b \<Longrightarrow> wp m Q s) \<Longrightarrow> (\<not> b \<Longrightarrow> wp n Q s) \<Longrightarrow> wp (if b then m else n) Q s"
  by simp

lemma wp_sum [wp_intros]:
  "(\<And>e. r = Inl e \<Longrightarrow> wp (f e) Q s) \<Longrightarrow> (\<And>x. r = Inr x \<Longrightarrow> wp (g x) Q s) \<Longrightarrow>
   wp (case r of Inl e \<Rightarrow> f e | Inr x \<Rightarrow> g x) Q s"
  by (cases r) simp_all

lemma wp_option [wp_intros]:
  "(r = None \<Longrightarrow> wp m Q s) \<Longrightarrow> (\<And>x. r = Some x \<Longrightarrow> wp (g x) Q s) \<Longrightarrow>
   wp (case r of None \<Rightarrow> m | Some x \<Rightarrow> g x) Q s"
  by (cases r) simp_all

lemma wp_Let [wp_intros]: "(\<And>y. y = x \<Longrightarrow> wp (f y) Q s) \<Longrightarrow> wp (Let x f) Q s"
  by simp

lemma wp_prod [wp_intros]:
  "(\<And>a b. r = (a, b) \<Longrightarrow> wp (f a b) Q s) \<Longrightarrow> wp (case r of (a, b) \<Rightarrow> f a b) Q s"
  by (cases r) simp

lemma wp_logged [wp_intros]:
  "(\<And>a w'. run_state m w = (a, w') \<Longrightarrow> Q a (w', tr @ [ev a])) \<Longrightarrow> wp (logged ev m) Q (w, tr)"
  by (simp add: wp_def logged_def split: prod.split)

lemma wp_weaken: "wp m Q s \<Longrightarrow> (\<And>a s'. Q a s' \<Longrightarrow> R a s') \<Longrightarrow> wp m R s"
  by (auto simp: wp_def split: prod.splits)

lemma wp_any: "(\<And>a s'. Q a s') \<Longrightarrow> wp m Q s"
  by (simp add: wp_def split: prod.split)

lemma wp_chain: "wp m Q s \<Longrightarrow> (\<And>a s'. Q a s' \<Longrightarrow> wp (f a) R s') \<Longrightarrow> wp (State_Monad.bind m f) R s"
  by (rule wp_bind) (rule wp_weaken)

lemma wp_call: "(\<And>a s'. wp (f a) R s') \<Longrightarrow> wp (State_Monad.bind m f) R s"
  by (rule wp_chain [OF wp_any [of "\<lambda>_ _. True"]]) simp_all

lemma wpD: "wp m Q s \<Longrightarrow> run_state m s = (a, s') \<Longrightarrow> Q a s'"
  by (simp add: wp_def)

lemma wp_conj: "wp m (\<lambda>a s. Q a s \<and> R a s) s \<longleftrightarrow> wp m Q s \<and> wp m R s"
  by (simp add: wp_def split: prod.splits)

text \<open>A call that leaves no trace.\<close>

definition unlogged :: "('w, 'a) io \<Rightarrow> ('w \<times> 'c list, 'a) io" where
  "unlogged m = State (\<lambda>(w, tr). case run_state m w of (a, w') \<Rightarrow> (a, (w', tr)))"

lemma wp_unlogged: "(\<And>a w'. Q a (w', tr)) \<Longrightarrow> wp (unlogged m) Q (w, tr)"
  by (simp add: wp_def unlogged_def split: prod.split)

section \<open>Retries\<close>

text \<open>\<open>retry.OnError\<close> and \<open>retry.RetryOnConflict\<close>, with the number of tries after the first one.\<close>

definition IsConflict :: "go_error \<Rightarrow> bool" where
  "IsConflict e \<longleftrightarrow> ReasonForError e = Some (ReasonOther ''Conflict'')"

fun OnError :: "nat \<Rightarrow> (go_error \<Rightarrow> bool) \<Rightarrow> ('w, 'a) call \<Rightarrow> ('w, 'a) call" where
  "OnError 0 retriable f = f"
| "OnError (Suc n) retriable f = do {
     r \<leftarrow> f;
     (case r of
        Inl e \<Rightarrow> (if retriable e then OnError n retriable f else State_Monad.return (Inl e))
      | Inr x \<Rightarrow> State_Monad.return (Inr x)) }"

definition RetryOnConflict :: "nat \<Rightarrow> ('w, 'a) call \<Rightarrow> ('w, 'a) call" where
  "RetryOnConflict n f = OnError n IsConflict f"

lemma wp_OnError:
  assumes f: "\<And>s. I s \<Longrightarrow> wp f Q s" and again: "\<And>e s. Q (Inl e) s \<Longrightarrow> I s" and "I s"
  shows "wp (OnError n retriable f) Q s"
  using assms(3)
proof (induction n arbitrary: s)
  case (Suc n)
  have "wp (case r of Inl e \<Rightarrow> if retriable e then OnError n retriable f else State_Monad.return (Inl e)
      | Inr x \<Rightarrow> State_Monad.return (Inr x)) Q s'" if "Q r s'" for r s'
    using that again Suc.IH by (auto intro!: wp_intros split: sum.splits)
  then show ?case using f [OF Suc.prems] by (auto intro: wp_chain)
qed (use f in simp)

lemma wp_retry:
  assumes "\<And>s. I s \<Longrightarrow> wp f Q s" and "\<And>e s. Q (Inl e) s \<Longrightarrow> I s" and "I s"
  shows "wp (RetryOnConflict n f) Q s"
  unfolding RetryOnConflict_def using assms by (rule wp_OnError)

section \<open>Names joined with a separator\<close>

lemma joined_apart:
  assumes "a @ c # x = b @ c # y" and "\<not> prefix (a @ [c]) b" and "\<not> prefix (b @ [c]) a"
  shows "a = b \<and> x = y"
proof -
  from assms(1) obtain us where "a = b @ us \<and> us @ c # x = c # y \<or> a @ us = b \<and> c # x = us @ c # y"
    by (auto simp: append_eq_append_conv2)
  then show ?thesis
  proof
    assume "a = b @ us \<and> us @ c # x = c # y"
    then show ?thesis using assms(3) by (cases us) auto
  next
    assume "a @ us = b \<and> c # x = us @ c # y"
    then show ?thesis using assms(2) by (cases us) auto
  qed
qed

lemma last_part_unique:
  fixes c :: 'a
  assumes "c \<notin> set x" and "c \<notin> set y" and "a @ c # x = b @ c # y"
  shows "x = y"
proof -
  have tw: "takeWhile (\<lambda>d. d \<noteq> c) (rev z @ c # rev e) = rev z" if "c \<notin> set z" for z e :: "'a list"
    using that by (subst takeWhile_append2) auto
  have "rev x @ c # rev a = rev y @ c # rev b" using arg_cong [OF assms(3), of rev] by simp
  then have "rev x = rev y" using tw [OF assms(1), of a] tw [OF assms(2), of b] by metis
  then show ?thesis by simp
qed

section \<open>Go maps as association lists\<close>

text \<open>\<open>delete(m, key)\<close> on a map kept in some iteration order.\<close>

definition remove_key :: "string \<Rightarrow> (string \<times> 'a) list \<Rightarrow> (string \<times> 'a) list" where
  "remove_key key s = filter (\<lambda>(k, _). k \<noteq> key) s"

lemma map_of_remove_key: "map_of (remove_key key s) k = (if k = key then None else map_of s k)"
  by (induction s) (auto simp: remove_key_def)

lemma keys_remove_key: "fst ` set (remove_key key s) = fst ` set s - {key}"
  by (auto simp: remove_key_def rev_image_eqI)

lemma distinct_remove_key [simp]: "distinct (map fst s) \<Longrightarrow> distinct (map fst (remove_key key s))"
  unfolding remove_key_def by (rule distinct_map_filter)

section \<open>Panics\<close>

text \<open>A call returns or panics.\<close>

datatype 'a outcome = Returns 'a | Panics

section \<open>Command lines\<close>

text \<open>A flag is a name with the variable that it sets in the options.\<close>

datatype 'o flag = StringVar string "string \<Rightarrow> 'o \<Rightarrow> 'o" | IntVar string "int \<Rightarrow> 'o \<Rightarrow> 'o"

fun flag_name :: "'o flag \<Rightarrow> string" where
  "flag_name (StringVar name _) = name"
| "flag_name (IntVar name _) = name"

end
