(* ===== verification/Conditions.thy ===== *)
theory Conditions
  imports Prelude
begin

text \<open>
  The status conditions library (\<open>sdk/apis/third_party/conditions\<close>): the \<open>Condition\<close> type,
  getters, setters, the merge that computes the \<open>Ready\<close> summary, and three-way condition
  patches. A Go object that implements \<open>conditions.Setter\<close> is a value together with a dictionary
  of the interface's methods (\<open>setter\<close>); the contract of these methods is the locale
  \<open>condition_setter\<close>, which the API types interpret.
\<close>

section \<open>Data\<close>

datatype condition_status =
  ConditionTrue | ConditionFalse | ConditionUnknown | ConditionStatusOther string

datatype condition_severity =
    ConditionSeverityError | ConditionSeverityWarning | ConditionSeverityInfo
  | ConditionSeverityNone | ConditionSeverityOther string

record condition =
  cond_Type :: string
  cond_Status :: condition_status
  cond_Severity :: condition_severity
  cond_LastTransitionTime :: time
  cond_Reason :: string
  cond_Message :: string

definition ReadyCondition :: string where "ReadyCondition = ''Ready''"

text \<open>The methods of \<open>conditions.Getter\<close> and \<open>conditions.Setter\<close> that the package calls.\<close>

record 'o setter =
  GetConditions :: "'o \<Rightarrow> condition list"
  SetConditions :: "condition list \<Rightarrow> 'o \<Rightarrow> 'o"
  GetName :: "'o \<Rightarrow> string"
  GetKind :: "'o \<Rightarrow> string"

section \<open>Getters\<close>

definition Get :: "'o setter \<Rightarrow> 'o \<Rightarrow> string \<Rightarrow> condition option" where
  "Get S from t = List.find (\<lambda>c. cond_Type c = t) (GetConditions S from)"

definition Has :: "'o setter \<Rightarrow> 'o \<Rightarrow> string \<Rightarrow> bool" where
  "Has S from t \<longleftrightarrow> Get S from t \<noteq> None"

definition IsTrue :: "'o setter \<Rightarrow> 'o \<Rightarrow> string \<Rightarrow> bool" where
  "IsTrue S from t = (case Get S from t of Some c \<Rightarrow> cond_Status c = ConditionTrue | None \<Rightarrow> False)"

definition IsFalse :: "'o setter \<Rightarrow> 'o \<Rightarrow> string \<Rightarrow> bool" where
  "IsFalse S from t = (case Get S from t of Some c \<Rightarrow> cond_Status c = ConditionFalse | None \<Rightarrow> False)"

definition IsUnknown :: "'o setter \<Rightarrow> 'o \<Rightarrow> string \<Rightarrow> bool" where
  "IsUnknown S from t = (case Get S from t of Some c \<Rightarrow> cond_Status c = ConditionUnknown | None \<Rightarrow> True)"

definition GetReason :: "'o setter \<Rightarrow> 'o \<Rightarrow> string \<Rightarrow> string" where
  "GetReason S from t = (case Get S from t of Some c \<Rightarrow> cond_Reason c | None \<Rightarrow> '''')"

definition GetMessage :: "'o setter \<Rightarrow> 'o \<Rightarrow> string \<Rightarrow> string" where
  "GetMessage S from t = (case Get S from t of Some c \<Rightarrow> cond_Message c | None \<Rightarrow> '''')"

definition GetSeverity :: "'o setter \<Rightarrow> 'o \<Rightarrow> string \<Rightarrow> condition_severity option" where
  "GetSeverity S from t = map_option cond_Severity (Get S from t)"

definition GetLastTransitionTime :: "'o setter \<Rightarrow> 'o \<Rightarrow> string \<Rightarrow> time option" where
  "GetLastTransitionTime S from t = map_option cond_LastTransitionTime (Get S from t)"

section \<open>Setters\<close>

definition lexicographicLess :: "condition \<Rightarrow> condition \<Rightarrow> bool" where
  "lexicographicLess i j \<longleftrightarrow>
     (cond_Type i = ReadyCondition \<or> cond_Type i < cond_Type j) \<and> cond_Type j \<noteq> ReadyCondition"

definition hasSameState :: "condition \<Rightarrow> condition \<Rightarrow> bool" where
  "hasSameState i j \<longleftrightarrow>
     cond_Type i = cond_Type j \<and> cond_Status i = cond_Status j \<and> cond_Reason i = cond_Reason j \<and>
     cond_Severity i = cond_Severity j \<and> cond_Message i = cond_Message j"

text \<open>
  The loop of \<open>Set\<close> over the existing conditions: whether a condition of the type exists, and
  the list with the first such condition replaced, stamped with the current time, if its state
  differs.
\<close>

fun set_loop :: "time \<Rightarrow> condition \<Rightarrow> condition list \<Rightarrow> bool \<times> condition list" where
  "set_loop now c [] = (False, [])"
| "set_loop now c (e # es) =
     (if cond_Type e = cond_Type c
      then (True, (if hasSameState e c then e
                   else c\<lparr>cond_LastTransitionTime := truncate_second now\<rparr>) # es)
      else (let (exists, es') = set_loop now c es in (exists, e # es')))"

definition set_condition :: "time \<Rightarrow> condition \<Rightarrow> condition list \<Rightarrow> condition list" where
  "set_condition now c cs =
     (let (exists, cs') = set_loop now c cs;
          cs'' = (if exists then cs'
                  else cs' @ [if cond_LastTransitionTime c = 0
                              then c\<lparr>cond_LastTransitionTime := truncate_second now\<rparr> else c])
      in sort_slice lexicographicLess cs'')"

definition Set :: "'o setter \<Rightarrow> time \<Rightarrow> 'o \<Rightarrow> condition option \<Rightarrow> 'o" where
  "Set S now to co =
     (case co of
        None \<Rightarrow> to
      | Some c \<Rightarrow> SetConditions S (set_condition now c (GetConditions S to)) to)"

definition TrueCondition :: "string \<Rightarrow> condition" where
  "TrueCondition t = \<lparr>cond_Type = t, cond_Status = ConditionTrue,
     cond_Severity = ConditionSeverityNone, cond_LastTransitionTime = 0, cond_Reason = '''',
     cond_Message = ''''\<rparr>"

text \<open>The message argument of the next two is the result of \<open>fmt.Sprintf\<close>.\<close>

definition FalseCondition :: "string \<Rightarrow> string \<Rightarrow> condition_severity \<Rightarrow> string \<Rightarrow> condition" where
  "FalseCondition t reason severity message = \<lparr>cond_Type = t, cond_Status = ConditionFalse,
     cond_Severity = severity, cond_LastTransitionTime = 0, cond_Reason = reason,
     cond_Message = message\<rparr>"

definition UnknownCondition :: "string \<Rightarrow> string \<Rightarrow> string \<Rightarrow> condition" where
  "UnknownCondition t reason message = \<lparr>cond_Type = t, cond_Status = ConditionUnknown,
     cond_Severity = ConditionSeverityNone, cond_LastTransitionTime = 0, cond_Reason = reason,
     cond_Message = message\<rparr>"

definition MarkTrue :: "'o setter \<Rightarrow> time \<Rightarrow> 'o \<Rightarrow> string \<Rightarrow> 'o" where
  "MarkTrue S now to t = Set S now to (Some (TrueCondition t))"

definition MarkUnknown :: "'o setter \<Rightarrow> time \<Rightarrow> 'o \<Rightarrow> string \<Rightarrow> string \<Rightarrow> string \<Rightarrow> 'o" where
  "MarkUnknown S now to t reason message = Set S now to (Some (UnknownCondition t reason message))"

definition MarkFalse ::
    "'o setter \<Rightarrow> time \<Rightarrow> 'o \<Rightarrow> string \<Rightarrow> string \<Rightarrow> condition_severity \<Rightarrow> string \<Rightarrow> 'o" where
  "MarkFalse S now to t reason severity message =
     Set S now to (Some (FalseCondition t reason severity message))"

definition Delete :: "'o setter \<Rightarrow> 'o \<Rightarrow> string \<Rightarrow> 'o" where
  "Delete S to t = SetConditions S (filter (\<lambda>c. cond_Type c \<noteq> t) (GetConditions S to)) to"

section \<open>Merging conditions\<close>

record 'o localizedCondition =
  lc_Condition :: "condition option"
  lc_Getter :: 'o

record 'o conditionGroup =
  cg_status :: condition_status
  cg_severity :: condition_severity
  cg_conditions :: "'o localizedCondition list"

record mergeOptions =
  conditionTypes :: "string list option"
  addSourceRef :: bool
  addStepCounter :: bool
  addStepCounterIfOnlyConditionTypes :: "string list option"
  stepCounter :: nat

type_synonym MergeOption = "mergeOptions \<Rightarrow> mergeOptions"

definition zero_mergeOptions :: mergeOptions where
  "zero_mergeOptions = \<lparr>conditionTypes = None, addSourceRef = False, addStepCounter = False,
     addStepCounterIfOnlyConditionTypes = None, stepCounter = 0\<rparr>"

definition WithConditions :: "string list option \<Rightarrow> MergeOption" where
  "WithConditions t = (\<lambda>c. c\<lparr>conditionTypes := t\<rparr>)"

definition WithStepCounter :: MergeOption where
  "WithStepCounter = (\<lambda>c. c\<lparr>addStepCounter := True\<rparr>)"

definition WithStepCounterIf :: "bool \<Rightarrow> MergeOption" where
  "WithStepCounterIf v = (\<lambda>c. c\<lparr>addStepCounter := v\<rparr>)"

definition WithStepCounterIfOnly :: "string list option \<Rightarrow> MergeOption" where
  "WithStepCounterIfOnly t = (\<lambda>c. c\<lparr>addStepCounterIfOnlyConditionTypes := t\<rparr>)"

definition AddSourceRef :: MergeOption where
  "AddSourceRef = (\<lambda>c. c\<lparr>addSourceRef := True\<rparr>)"

definition mergePriority :: "'o conditionGroup \<Rightarrow> int" where
  "mergePriority g =
     (case cg_status g of
        ConditionFalse \<Rightarrow>
          (case cg_severity g of
             ConditionSeverityError \<Rightarrow> 0
           | ConditionSeverityWarning \<Rightarrow> 1
           | ConditionSeverityInfo \<Rightarrow> 2
           | _ \<Rightarrow> 99)
      | ConditionTrue \<Rightarrow> 3
      | ConditionUnknown \<Rightarrow> 4
      | _ \<Rightarrow> 99)"

text \<open>The inner loop of \<open>getConditionGroups\<close>: add a condition to the first group of its kind.\<close>

fun add_to_groups :: "condition \<Rightarrow> 'o localizedCondition \<Rightarrow> 'o conditionGroup list \<Rightarrow>
    'o conditionGroup list" where
  "add_to_groups c lc [] =
     [\<lparr>cg_status = cond_Status c, cg_severity = cond_Severity c, cg_conditions = [lc]\<rparr>]"
| "add_to_groups c lc (g # gs) =
     (if cg_status g = cond_Status c \<and> cg_severity g = cond_Severity c
      then g\<lparr>cg_conditions := cg_conditions g @ [lc]\<rparr> # gs
      else g # add_to_groups c lc gs)"

fun group_loop :: "'o localizedCondition list \<Rightarrow> 'o conditionGroup list \<Rightarrow> 'o conditionGroup list" where
  "group_loop [] groups = groups"
| "group_loop (lc # lcs) groups =
     (case lc_Condition lc of
        None \<Rightarrow> group_loop lcs groups
      | Some c \<Rightarrow> group_loop lcs (add_to_groups c lc groups))"

definition localized_less :: "'o setter \<Rightarrow> 'o localizedCondition \<Rightarrow> 'o localizedCondition \<Rightarrow> bool" where
  "localized_less S a b =
     (case (lc_Condition a, lc_Condition b) of
        (Some ca, Some cb) \<Rightarrow>
          (if cond_Type ca \<noteq> cond_Type cb then lexicographicLess ca cb
           else GetName S (lc_Getter a) < GetName S (lc_Getter b))
      | _ \<Rightarrow> False)"

definition getConditionGroups :: "'o setter \<Rightarrow> 'o localizedCondition list \<Rightarrow> 'o conditionGroup list" where
  "getConditionGroups S lcs =
     (let groups = sort_slice (\<lambda>a b. mergePriority a < mergePriority b) (group_loop lcs [])
      in case groups of
           [] \<Rightarrow> []
         | g # gs \<Rightarrow> g\<lparr>cg_conditions := sort_slice (localized_less S) (cg_conditions g)\<rparr> # gs)"

definition TopGroup :: "'o conditionGroup list \<Rightarrow> 'o conditionGroup option" where
  "TopGroup gs = (case gs of [] \<Rightarrow> None | g # _ \<Rightarrow> Some g)"

definition getByStatusAndSeverity ::
    "'o conditionGroup list \<Rightarrow> condition_status \<Rightarrow> condition_severity \<Rightarrow> 'o conditionGroup option" where
  "getByStatusAndSeverity gs st sev = List.find (\<lambda>g. cg_status g = st \<and> cg_severity g = sev) gs"

definition TrueGroup :: "'o conditionGroup list \<Rightarrow> 'o conditionGroup option" where
  "TrueGroup gs = getByStatusAndSeverity gs ConditionTrue ConditionSeverityNone"

definition ErrorGroup :: "'o conditionGroup list \<Rightarrow> 'o conditionGroup option" where
  "ErrorGroup gs = getByStatusAndSeverity gs ConditionFalse ConditionSeverityError"

definition WarningGroup :: "'o conditionGroup list \<Rightarrow> 'o conditionGroup option" where
  "WarningGroup gs = getByStatusAndSeverity gs ConditionFalse ConditionSeverityWarning"

text \<open>The nested loops over the priorities and the top group's conditions.\<close>

fun first_by_priority :: "string list \<Rightarrow> 'o localizedCondition list \<Rightarrow> 'o localizedCondition option" where
  "first_by_priority [] lcs = None"
| "first_by_priority (p # ps) lcs =
     (case List.find (\<lambda>lc. case lc_Condition lc of Some c \<Rightarrow> cond_Type c = p | None \<Rightarrow> False) lcs of
        Some lc \<Rightarrow> Some lc
      | None \<Rightarrow> first_by_priority ps lcs)"

definition getFirstCondition :: "'o conditionGroup list \<Rightarrow> string list option \<Rightarrow>
    'o localizedCondition option" where
  "getFirstCondition gs priority =
     (case TopGroup gs of
        None \<Rightarrow> None
      | Some tg \<Rightarrow>
          (case cg_conditions tg of
             [] \<Rightarrow> None
           | [lc] \<Rightarrow> Some lc
           | lc # lcs \<Rightarrow>
               (case first_by_priority (case priority of None \<Rightarrow> [] | Some ps \<Rightarrow> ps) (lc # lcs) of
                  Some x \<Rightarrow> Some x
                | None \<Rightarrow> Some lc)))"

definition localizeReason :: "'o setter \<Rightarrow> string \<Rightarrow> 'o \<Rightarrow> string" where
  "localizeReason S reason from =
     (if Contains reason ''@'' then reason
      else reason @ '' @ '' @ GetKind S from @ ''/'' @ GetName S from)"

definition getFirstReason :: "'o setter \<Rightarrow> 'o conditionGroup list \<Rightarrow> string list option \<Rightarrow> bool \<Rightarrow> string" where
  "getFirstReason S g order srcref =
     (case getFirstCondition g order of
        None \<Rightarrow> ''''
      | Some lc \<Rightarrow>
          (let reason = (case lc_Condition lc of Some c \<Rightarrow> cond_Reason c | None \<Rightarrow> '''')
           in if srcref then localizeReason S reason (lc_Getter lc) else reason))"

definition getReason :: "'o setter \<Rightarrow> 'o conditionGroup list \<Rightarrow> mergeOptions \<Rightarrow> string" where
  "getReason S groups options = getFirstReason S groups (conditionTypes options) (addSourceRef options)"

fun string_of_nat :: "nat \<Rightarrow> string" where
  "string_of_nat n =
     (if n < 10 then [char_of (48 + n)] else string_of_nat (n div 10) @ [char_of (48 + n mod 10)])"

declare string_of_nat.simps [simp del]

definition getStepCounterMessage :: "'o conditionGroup list \<Rightarrow> nat \<Rightarrow> string" where
  "getStepCounterMessage groups to =
     (let ct = (case TrueGroup groups of None \<Rightarrow> 0 | Some g \<Rightarrow> length (cg_conditions g))
      in string_of_nat ct @ '' of '' @ string_of_nat to @ '' completed'')"

definition getFirstMessage :: "'o conditionGroup list \<Rightarrow> string list option \<Rightarrow> string" where
  "getFirstMessage groups order =
     (case getFirstCondition groups order of
        None \<Rightarrow> ''''
      | Some lc \<Rightarrow> (case lc_Condition lc of Some c \<Rightarrow> cond_Message c | None \<Rightarrow> ''''))"

definition getMessage :: "'o conditionGroup list \<Rightarrow> mergeOptions \<Rightarrow> string" where
  "getMessage groups options =
     (if addStepCounter options then getStepCounterMessage groups (stepCounter options)
      else getFirstMessage groups (conditionTypes options))"

definition merge :: "'o setter \<Rightarrow> 'o localizedCondition list \<Rightarrow> string \<Rightarrow> mergeOptions \<Rightarrow>
    condition option" where
  "merge S conditions targetCondition options =
     (let g = getConditionGroups S conditions
      in case TopGroup g of
           None \<Rightarrow> None
         | Some tg \<Rightarrow>
             (if cg_status tg = ConditionTrue then Some (TrueCondition targetCondition)
              else let targetReason = getReason S g options; targetMessage = getMessage g options
                   in if cg_status tg = ConditionFalse
                      then Some (FalseCondition targetCondition targetReason (cg_severity tg) targetMessage)
                      else Some (UnknownCondition targetCondition targetReason targetMessage)))"

section \<open>Summary, mirror and aggregate\<close>

definition in_scope :: "mergeOptions \<Rightarrow> condition \<Rightarrow> bool" where
  "in_scope opt c \<longleftrightarrow>
     cond_Type c \<noteq> ReadyCondition \<and>
     (case conditionTypes opt of None \<Rightarrow> True | Some ts \<Rightarrow> cond_Type c \<in> set ts)"

definition summary :: "'o setter \<Rightarrow> 'o \<Rightarrow> MergeOption list \<Rightarrow> condition option" where
  "summary S from options =
     (let mergeOpt = foldl (\<lambda>m f. f m) zero_mergeOptions options;
          scope = filter (in_scope mergeOpt) (GetConditions S from);
          conditionsInScope = map (\<lambda>c. \<lparr>lc_Condition = Some c, lc_Getter = from\<rparr>) scope;
          mergeOpt1 =
            (case addStepCounterIfOnlyConditionTypes mergeOpt of
               None \<Rightarrow> mergeOpt
             | Some ts \<Rightarrow> (if list_all (\<lambda>c. cond_Type c \<in> set ts) scope then mergeOpt
                          else mergeOpt\<lparr>addStepCounter := False\<rparr>));
          mergeOpt2 =
            (if addStepCounter mergeOpt1
             then mergeOpt1\<lparr>stepCounter :=
               (case addStepCounterIfOnlyConditionTypes mergeOpt1 of
                  Some ts \<Rightarrow> length ts
                | None \<Rightarrow> (case conditionTypes mergeOpt1 of
                            Some ts \<Rightarrow> length ts
                          | None \<Rightarrow> length conditionsInScope))\<rparr>
             else mergeOpt1)
      in merge S conditionsInScope ReadyCondition mergeOpt2)"

definition SetSummary :: "'o setter \<Rightarrow> time \<Rightarrow> 'o \<Rightarrow> MergeOption list \<Rightarrow> 'o" where
  "SetSummary S now to options = Set S now to (summary S to options)"

text \<open>The fallback of \<open>WithFallbackValue\<close>: value, reason, severity and message.\<close>

type_synonym mirrorOptions = "(bool \<times> string \<times> condition_severity \<times> string) option"

definition mirror :: "'s setter \<Rightarrow> 's \<Rightarrow> string \<Rightarrow> mirrorOptions \<Rightarrow> condition option" where
  "mirror S from targetCondition mirrorOpt =
     (let condition =
            (case (mirrorOpt, Get S from ReadyCondition) of
               (Some (True, _), None) \<Rightarrow> Some (TrueCondition targetCondition)
             | (Some (False, reason, severity, message), None) \<Rightarrow>
                 Some (FalseCondition targetCondition reason severity message)
             | (_, c) \<Rightarrow> c)
      in map_option (\<lambda>c. c\<lparr>cond_Type := targetCondition\<rparr>) condition)"

definition SetMirror :: "'o setter \<Rightarrow> time \<Rightarrow> 'o \<Rightarrow> string \<Rightarrow> 's setter \<Rightarrow> 's \<Rightarrow> mirrorOptions \<Rightarrow> 'o" where
  "SetMirror S now to targetCondition F from options = Set S now to (mirror F from targetCondition options)"

definition aggregate :: "'s setter \<Rightarrow> 's list \<Rightarrow> string \<Rightarrow> MergeOption list \<Rightarrow> condition option" where
  "aggregate S from targetCondition options =
     (let conditionsInScope =
            map (\<lambda>f. \<lparr>lc_Condition = Get S f ReadyCondition, lc_Getter = f\<rparr>) from;
          mergeOpt = foldl (\<lambda>m f. f m)
            (zero_mergeOptions\<lparr>addStepCounter := True, stepCounter := length from\<rparr>) options
      in merge S conditionsInScope targetCondition mergeOpt)"

definition SetAggregate :: "'o setter \<Rightarrow> time \<Rightarrow> 'o \<Rightarrow> string \<Rightarrow> 's setter \<Rightarrow> 's list \<Rightarrow>
    MergeOption list \<Rightarrow> 'o" where
  "SetAggregate S now to targetCondition F from options =
     Set S now to (aggregate F from targetCondition options)"

section \<open>Patches\<close>

datatype PatchOperation =
    AddConditionPatch condition
  | ChangeConditionPatch condition condition
  | RemoveConditionPatch condition

definition patch_target :: "'o setter \<Rightarrow> 'o \<Rightarrow> condition \<Rightarrow> PatchOperation list" where
  "patch_target S before targetCondition =
     (case Get S before (cond_Type targetCondition) of
        None \<Rightarrow> [AddConditionPatch targetCondition]
      | Some currentCondition \<Rightarrow>
          (if targetCondition \<noteq> currentCondition
           then [ChangeConditionPatch currentCondition targetCondition] else []))"

definition patch_base :: "'o setter \<Rightarrow> 'o \<Rightarrow> condition \<Rightarrow> PatchOperation list" where
  "patch_base S after baseCondition =
     (case Get S after (cond_Type baseCondition) of
        None \<Rightarrow> [RemoveConditionPatch baseCondition]
      | Some _ \<Rightarrow> [])"

definition NewPatch :: "'o setter \<Rightarrow> 'o \<Rightarrow> 'o \<Rightarrow> PatchOperation list" where
  "NewPatch S before after =
     concat (map (patch_target S before) (GetConditions S after)) @
     concat (map (patch_base S after) (GetConditions S before))"

record applyOptions =
  ownedConditions :: "string list"
  forceOverwrite :: bool

definition isOwnedCondition :: "applyOptions \<Rightarrow> string \<Rightarrow> bool" where
  "isOwnedCondition opt t \<longleftrightarrow> t \<in> set (ownedConditions opt)"

datatype patch_error =
    AddConflict string condition condition
  | ChangeDeleted string
  | ChangeConflict string condition condition
  | RemoveConflict string condition condition

definition apply_op :: "'o setter \<Rightarrow> time \<Rightarrow> applyOptions \<Rightarrow> 'o \<Rightarrow> PatchOperation \<Rightarrow> patch_error + 'o" where
  "apply_op S now opt latest p =
     (case p of
        AddConditionPatch after \<Rightarrow>
          (if forceOverwrite opt \<or> isOwnedCondition opt (cond_Type after) then Inr (Set S now latest (Some after))
           else case Get S latest (cond_Type after) of
             Some latestCondition \<Rightarrow>
               (if \<not> hasSameState latestCondition after
                then Inl (AddConflict (cond_Type after) latestCondition after)
                else Inr latest)
           | None \<Rightarrow> Inr (Set S now latest (Some after)))
      | ChangeConditionPatch before after \<Rightarrow>
          (if forceOverwrite opt \<or> isOwnedCondition opt (cond_Type after) then Inr (Set S now latest (Some after))
           else case Get S latest (cond_Type after) of
             None \<Rightarrow> Inl (ChangeDeleted (cond_Type after))
           | Some latestCondition \<Rightarrow>
               (if latestCondition \<noteq> before
                then (if \<not> hasSameState latestCondition after
                      then Inl (ChangeConflict (cond_Type after) latestCondition after)
                      else Inr latest)
                else Inr (Set S now latest (Some after))))
      | RemoveConditionPatch before \<Rightarrow>
          (if forceOverwrite opt \<or> isOwnedCondition opt (cond_Type before) then Inr (Delete S latest (cond_Type before))
           else case Get S latest (cond_Type before) of
             Some latestCondition \<Rightarrow>
               (if \<not> hasSameState latestCondition before
                then Inl (RemoveConflict (cond_Type before) latestCondition before)
                else Inr (Delete S latest (cond_Type before)))
           | None \<Rightarrow> Inr (Delete S latest (cond_Type before))))"

fun Apply :: "'o setter \<Rightarrow> time \<Rightarrow> applyOptions \<Rightarrow> PatchOperation list \<Rightarrow> 'o \<Rightarrow> patch_error + 'o" where
  "Apply S now opt [] latest = Inr latest"
| "Apply S now opt (p # ps) latest =
     (case apply_op S now opt latest p of
        Inl e \<Rightarrow> Inl e
      | Inr latest' \<Rightarrow> Apply S now opt ps latest')"

text \<open>The condition type an operation is about, and the state it leads to.\<close>

fun op_type :: "PatchOperation \<Rightarrow> string" where
  "op_type (AddConditionPatch a) = cond_Type a"
| "op_type (ChangeConditionPatch b a) = cond_Type a"
| "op_type (RemoveConditionPatch b) = cond_Type b"

fun op_after :: "PatchOperation \<Rightarrow> condition option" where
  "op_after (AddConditionPatch a) = Some a"
| "op_after (ChangeConditionPatch b a) = Some a"
| "op_after (RemoveConditionPatch b) = None"

fun op_before :: "PatchOperation \<Rightarrow> condition option" where
  "op_before (AddConditionPatch a) = None"
| "op_before (ChangeConditionPatch b a) = Some b"
| "op_before (RemoveConditionPatch b) = Some b"

section \<open>Lists of conditions\<close>

text \<open>The canonical form: one condition per type, \<open>Ready\<close> first, the others by type.\<close>

definition wf_conditions :: "condition list \<Rightarrow> bool" where
  "wf_conditions cs \<longleftrightarrow>
     distinct (map cond_Type cs) \<and> sorted_wrt (\<lambda>a b. \<not> lexicographicLess b a) cs"

abbreviation find_type :: "string \<Rightarrow> condition list \<Rightarrow> condition option" where
  "find_type t cs \<equiv> List.find (\<lambda>c. cond_Type c = t) cs"

text \<open>What \<open>Set\<close> stores for a condition: the existing one if its state is the same.\<close>

definition stored_condition :: "time \<Rightarrow> condition \<Rightarrow> condition list \<Rightarrow> condition" where
  "stored_condition now c cs =
     (case find_type (cond_Type c) cs of
        Some e \<Rightarrow> (if hasSameState e c then e
                   else c\<lparr>cond_LastTransitionTime := truncate_second now\<rparr>)
      | None \<Rightarrow> (if cond_LastTransitionTime c = 0
                 then c\<lparr>cond_LastTransitionTime := truncate_second now\<rparr> else c))"

lemma weak_order_lexicographicLess: "weak_order lexicographicLess"
  unfolding weak_order_def lexicographicLess_def by force

lemma hasSameState_refl [simp]: "hasSameState c c"
  by (simp add: hasSameState_def)

lemma hasSameState_stamp [simp]:
  "hasSameState (c\<lparr>cond_LastTransitionTime := t\<rparr>) d = hasSameState c d"
  "hasSameState d (c\<lparr>cond_LastTransitionTime := t\<rparr>) = hasSameState d c"
  by (simp_all add: hasSameState_def)

lemma stored_condition_state [simp]: "hasSameState (stored_condition now c cs) c"
  by (auto simp: stored_condition_def split: option.split)

lemma stored_condition_Type [simp]: "cond_Type (stored_condition now c cs) = cond_Type c"
  using stored_condition_state by (simp add: hasSameState_def)

lemma stored_condition_Status [simp]: "cond_Status (stored_condition now c cs) = cond_Status c"
  using stored_condition_state [of now c cs] by (simp add: hasSameState_def del: stored_condition_state)

lemma set_loop_fst: "fst (set_loop now c cs) \<longleftrightarrow> cond_Type c \<in> cond_Type ` set cs"
  by (induction cs) (auto split: prod.split)

lemma set_loop_types: "map cond_Type (snd (set_loop now c cs)) = map cond_Type cs"
  by (induction cs) (auto simp: hasSameState_def split: prod.split)

lemma set_loop_find:
  "find_type t (snd (set_loop now c cs)) =
     (if t = cond_Type c then map_option (\<lambda>_. stored_condition now c cs) (find_type t cs)
      else find_type t cs)"
  by (induction cs) (auto simp: stored_condition_def hasSameState_def split: prod.split)

lemma set_condition_unfold:
  "set_condition now c cs = sort_slice lexicographicLess
     (snd (set_loop now c cs) @
      (if cond_Type c \<in> cond_Type ` set cs then [] else [stored_condition now c cs]))"
proof (cases "cond_Type c \<in> cond_Type ` set cs")
  case True
  then show ?thesis
    using set_loop_fst [of now c cs] by (simp add: set_condition_def case_prod_beta Let_def)
next
  case False
  then have "find_type (cond_Type c) cs = None" by (simp add: find_key_None)
  then show ?thesis
    using False set_loop_fst [of now c cs]
    by (simp add: set_condition_def stored_condition_def case_prod_beta Let_def)
qed

lemma set_condition_presorted:
  assumes "distinct (map cond_Type cs)"
  shows "distinct (map cond_Type (snd (set_loop now c cs) @
      (if cond_Type c \<in> cond_Type ` set cs then [] else [stored_condition now c cs])))"
  using assms set_loop_types [of now c cs]
  by (auto simp: set_loop_types)

lemma set_condition_wf:
  "distinct (map cond_Type cs) \<Longrightarrow> wf_conditions (set_condition now c cs)"
  using set_condition_presorted [of cs now c]
  by (simp add: wf_conditions_def set_condition_unfold sorted_sort_slice
      weak_order_lexicographicLess del: map_append)

lemma set_condition_find:
  assumes "distinct (map cond_Type cs)"
  shows "find_type t (set_condition now c cs) =
           (if t = cond_Type c then Some (stored_condition now c cs) else find_type t cs)"
proof -
  let ?pre = "snd (set_loop now c cs) @
      (if cond_Type c \<in> cond_Type ` set cs then [] else [stored_condition now c cs])"
  have "find_type t (set_condition now c cs) = find_type t ?pre"
    unfolding set_condition_unfold
    by (rule find_key_perm) (use set_condition_presorted [OF assms, of now c] in simp_all)
  also have "\<dots> = (if t = cond_Type c then Some (stored_condition now c cs) else find_type t cs)"
  proof -
    have "cond_Type c \<in> cond_Type ` set cs \<longleftrightarrow> find_type (cond_Type c) cs \<noteq> None"
      by (simp add: find_key_None)
    then show ?thesis by (auto simp: find_append set_loop_find split: option.split)
  qed
  finally show ?thesis .
qed

section \<open>Grouping and the top group\<close>

definition group_wf :: "'o conditionGroup \<Rightarrow> bool" where
  "group_wf g \<longleftrightarrow> cg_conditions g \<noteq> [] \<and>
     (\<forall>lc \<in> set (cg_conditions g). \<exists>c. lc_Condition lc = Some c \<and>
        cond_Status c = cg_status g \<and> cond_Severity c = cg_severity g)"

text \<open>The merge priority of a single condition.\<close>

definition condition_priority :: "condition \<Rightarrow> int" where
  "condition_priority c =
     mergePriority \<lparr>cg_status = cond_Status c, cg_severity = cond_Severity c,
                     cg_conditions = ([] :: unit localizedCondition list)\<rparr>"

lemma mergePriority_cong:
  "cg_status g = cond_Status c \<Longrightarrow> cg_severity g = cond_Severity c \<Longrightarrow>
   mergePriority g = condition_priority c"
  by (simp add: mergePriority_def condition_priority_def split: condition_status.split)

lemma add_to_groups_wf:
  assumes "\<forall>g \<in> set gs. group_wf g" and "lc_Condition lc = Some c"
  shows "\<forall>g \<in> set (add_to_groups c lc gs). group_wf g"
  using assms by (induction gs) (auto simp: group_wf_def)

lemma add_to_groups_members:
  "(\<Union>g \<in> set (add_to_groups c lc gs). set (cg_conditions g)) =
     insert lc (\<Union>g \<in> set gs. set (cg_conditions g))"
  by (induction gs) auto

lemma group_loop_wf:
  "\<forall>g \<in> set gs. group_wf g \<Longrightarrow> \<forall>g \<in> set (group_loop lcs gs). group_wf g"
proof (induction lcs arbitrary: gs)
  case (Cons lc lcs)
  then show ?case
    by (cases "lc_Condition lc") (auto dest: add_to_groups_wf)
qed simp

lemma group_loop_members:
  "(\<Union>g \<in> set (group_loop lcs gs). set (cg_conditions g)) =
     {lc \<in> set lcs. lc_Condition lc \<noteq> None} \<union> (\<Union>g \<in> set gs. set (cg_conditions g))"
  by (induction lcs arbitrary: gs) (auto simp: add_to_groups_members split: option.split)

lemma sorted_groups:
  "sorted_wrt (\<lambda>a b. \<not> mergePriority b < mergePriority a)
     (sort_slice (\<lambda>a b. mergePriority a < mergePriority b) gs)"
  by (rule sorted_sort_slice) (auto simp: weak_order_def)

text \<open>
  The top group: it is non-empty, uniform, made of the given conditions, and no given condition has
  a higher priority.
\<close>

lemma TopGroup_getConditionGroups:
  assumes "TopGroup (getConditionGroups S lcs) = Some g"
  shows "group_wf g" and "set (cg_conditions g) \<subseteq> set lcs"
    and "\<And>lc c. lc \<in> set lcs \<Longrightarrow> lc_Condition lc = Some c \<Longrightarrow> mergePriority g \<le> condition_priority c"
proof -
  let ?gs = "sort_slice (\<lambda>a b. mergePriority a < mergePriority b) (group_loop lcs [])"
  obtain h hs where gs: "?gs = h # hs"
    and g: "g = h\<lparr>cg_conditions := sort_slice (localized_less S) (cg_conditions h)\<rparr>"
    using assms by (auto simp: getConditionGroups_def TopGroup_def Let_def split: list.splits)
  have set_gs: "set (group_loop lcs []) = set (h # hs)" using set_sort_slice gs by metis
  have wf: "\<forall>k \<in> set (h # hs). group_wf k" using group_loop_wf [of "[]" lcs] set_gs by simp
  have members: "(\<Union>k \<in> set (h # hs). set (cg_conditions k)) = {lc \<in> set lcs. lc_Condition lc \<noteq> None}"
    using group_loop_members [of lcs "[]"] set_gs by simp
  have least: "mergePriority h \<le> mergePriority k" if "k \<in> set (h # hs)" for k
    using sorted_groups [of "group_loop lcs []"] gs that by auto
  have prio: "mergePriority g = mergePriority h" using g by (simp add: mergePriority_def split: condition_status.split)
  show "group_wf g" using wf g
    by (auto simp: group_wf_def) (metis length_0_conv length_sort_slice)
  show "set (cg_conditions g) \<subseteq> set lcs" using members g by auto
  show "mergePriority g \<le> condition_priority c" if lc: "lc \<in> set lcs" "lc_Condition lc = Some c" for lc c
  proof -
    obtain k where "k \<in> set (h # hs)" and "lc \<in> set (cg_conditions k)"
      using members lc by blast
    then show ?thesis using wf least prio lc
      by (metis group_wf_def mergePriority_cong option.inject)
  qed
qed

lemma group_loop_Nil_iff:
  "group_loop lcs [] = [] \<longleftrightarrow> (\<forall>lc \<in> set lcs. lc_Condition lc = None)"
proof
  assume "group_loop lcs [] = []"
  then show "\<forall>lc \<in> set lcs. lc_Condition lc = None" using group_loop_members [of lcs "[]"] by auto
next
  assume none: "\<forall>lc \<in> set lcs. lc_Condition lc = None"
  then show "group_loop lcs [] = []" by (induction lcs) auto
qed

lemma TopGroup_None_iff:
  "TopGroup (getConditionGroups S lcs) = None \<longleftrightarrow> (\<forall>lc \<in> set lcs. lc_Condition lc = None)"
proof -
  have "TopGroup (getConditionGroups S lcs) = None \<longleftrightarrow>
      length (sort_slice (\<lambda>a b. mergePriority a < mergePriority b) (group_loop lcs [])) = 0"
    by (simp add: getConditionGroups_def TopGroup_def Let_def split: list.splits del: length_sort_slice)
  then show ?thesis by (simp add: group_loop_Nil_iff)
qed

lemma first_by_priority_mem:
  "first_by_priority ps lcs = Some lc \<Longrightarrow> lc \<in> set lcs"
  by (induction ps) (auto simp: find_Some_iff split: option.splits)

lemma getFirstCondition_mem:
  assumes "TopGroup gs = Some g" and "cg_conditions g \<noteq> []"
  shows "\<exists>lc \<in> set (cg_conditions g). getFirstCondition gs pr = Some lc"
  using assms by (auto simp: getFirstCondition_def split: list.splits option.splits
      dest: first_by_priority_mem)

section \<open>The summary condition\<close>

definition non_ready :: "'o setter \<Rightarrow> 'o \<Rightarrow> condition set" where
  "non_ready S x = {c \<in> set (GetConditions S x). cond_Type c \<noteq> ReadyCondition}"

text \<open>The summary without options, as every reconciler of the repository calls it.\<close>

lemma summary_no_options:
  "summary S x [] =
     merge S (map (\<lambda>c. \<lparr>lc_Condition = Some c, lc_Getter = x\<rparr>)
                  (filter (\<lambda>c. cond_Type c \<noteq> ReadyCondition) (GetConditions S x)))
       ReadyCondition zero_mergeOptions"
  by (simp add: summary_def zero_mergeOptions_def in_scope_def [abs_def])

lemma summary_None_iff: "summary S x [] = None \<longleftrightarrow> non_ready S x = {}"
proof -
  let ?lcs = "map (\<lambda>c. \<lparr>lc_Condition = Some c, lc_Getter = x\<rparr>)
                  (filter (\<lambda>c. cond_Type c \<noteq> ReadyCondition) (GetConditions S x))"
  have "summary S x [] = None \<longleftrightarrow> TopGroup (getConditionGroups S ?lcs) = None"
    by (simp add: summary_no_options merge_def Let_def split: option.split)
  then show ?thesis by (auto simp: TopGroup_None_iff non_ready_def)
qed

text \<open>What the summary reports of a condition it is derived from.\<close>

definition reported :: "condition \<Rightarrow> condition" where
  "reported c =
     (case cond_Status c of
        ConditionTrue \<Rightarrow> TrueCondition ReadyCondition
      | ConditionFalse \<Rightarrow> FalseCondition ReadyCondition (cond_Reason c) (cond_Severity c) (cond_Message c)
      | _ \<Rightarrow> UnknownCondition ReadyCondition (cond_Reason c) (cond_Message c))"

lemma summary_reports:
  assumes "summary S x [] = Some r"
  shows "\<exists>c \<in> non_ready S x. (\<forall>d \<in> non_ready S x. condition_priority c \<le> condition_priority d) \<and>
           r = reported c"
proof -
  let ?lcs = "map (\<lambda>c. \<lparr>lc_Condition = Some c, lc_Getter = x\<rparr>)
                  (filter (\<lambda>c. cond_Type c \<noteq> ReadyCondition) (GetConditions S x))"
  let ?g = "getConditionGroups S ?lcs"
  obtain g where g: "TopGroup ?g = Some g"
    using assms by (auto simp: summary_no_options merge_def Let_def split: option.splits)
  note tg = TopGroup_getConditionGroups [OF g]
  then obtain lc where lc: "lc \<in> set (cg_conditions g)" "getFirstCondition ?g None = Some lc"
    using getFirstCondition_mem [OF g, of None] by (auto simp: group_wf_def)
  with tg obtain c where c: "lc = \<lparr>lc_Condition = Some c, lc_Getter = x\<rparr>" "c \<in> non_ready S x"
    and st: "cond_Status c = cg_status g" "cond_Severity c = cg_severity g"
    by (fastforce simp: group_wf_def non_ready_def)
  have "mergePriority g = condition_priority c" using st by (intro mergePriority_cong) auto
  moreover have "mergePriority g \<le> condition_priority d" if "d \<in> non_ready S x" for d
    using tg(3) [of "\<lparr>lc_Condition = Some d, lc_Getter = x\<rparr>" d] that by (auto simp: non_ready_def)
  moreover have "r = reported c"
    using assms g lc(2) c(1) st
    by (auto simp: summary_no_options merge_def reported_def getReason_def getFirstReason_def
        getMessage_def getFirstMessage_def zero_mergeOptions_def Let_def split: condition_status.splits)
  ultimately show ?thesis using c(2) by auto
qed

lemma reported_Type [simp]: "cond_Type (reported c) = ReadyCondition"
  by (simp add: reported_def TrueCondition_def FalseCondition_def UnknownCondition_def
      split: condition_status.split)

lemma reported_True_iff: "cond_Status (reported c) = ConditionTrue \<longleftrightarrow> cond_Status c = ConditionTrue"
  by (simp add: reported_def TrueCondition_def FalseCondition_def UnknownCondition_def
      split: condition_status.split)

text \<open>A failure: a condition with status \<open>False\<close> and one of the three severities.\<close>

definition failing :: "condition \<Rightarrow> bool" where
  "failing c \<longleftrightarrow> cond_Status c = ConditionFalse \<and>
     cond_Severity c \<in> {ConditionSeverityError, ConditionSeverityWarning, ConditionSeverityInfo}"

lemma priority_failing: "condition_priority c \<le> 2 \<longleftrightarrow> failing c"
  by (auto simp: condition_priority_def mergePriority_def failing_def
      split: condition_status.splits condition_severity.splits)

lemma priority_true: "condition_priority c = 3 \<longleftrightarrow> cond_Status c = ConditionTrue"
  by (auto simp: condition_priority_def mergePriority_def
      split: condition_status.splits condition_severity.splits)

lemma priority_range: "condition_priority c \<le> 2 \<or> condition_priority c = 3 \<or> 4 \<le> condition_priority c"
  by (auto simp: condition_priority_def mergePriority_def
      split: condition_status.splits condition_severity.splits)

lemma summary_True_iff:
  assumes "summary S x [] = Some r"
  shows "cond_Status r = ConditionTrue \<longleftrightarrow>
    (\<exists>c \<in> non_ready S x. cond_Status c = ConditionTrue) \<and> (\<forall>c \<in> non_ready S x. \<not> failing c)"
proof -
  obtain c where c: "c \<in> non_ready S x" "r = reported c"
    and least: "\<And>d. d \<in> non_ready S x \<Longrightarrow> condition_priority c \<le> condition_priority d"
    using summary_reports [OF assms] by auto
  have "cond_Status r = ConditionTrue \<longleftrightarrow> condition_priority c = 3"
    using c(2) by (simp add: reported_True_iff priority_true)
  moreover have "condition_priority c = 3 \<longleftrightarrow>
    (\<exists>d \<in> non_ready S x. condition_priority d = 3) \<and> (\<forall>d \<in> non_ready S x. \<not> condition_priority d \<le> 2)"
    using c(1) least priority_range [of c] by force
  ultimately show ?thesis by (simp add: priority_failing priority_true)
qed

section \<open>The contract of conditions.Setter\<close>

locale condition_setter =
  fixes S :: "'o setter"
  assumes get_set [simp]: "GetConditions S (SetConditions S cs x) = cs"
    and set_set [simp]: "SetConditions S cs (SetConditions S ds x) = SetConditions S cs x"
    and set_get [simp]: "SetConditions S (GetConditions S x) x = x"
begin

definition unique_types :: "'o \<Rightarrow> bool" where
  "unique_types x \<longleftrightarrow> distinct (map cond_Type (GetConditions S x))"

lemma GetConditions_Set [simp]:
  "GetConditions S (Set S now x (Some c)) = set_condition now c (GetConditions S x)"
  by (simp add: Set_def)

lemma Set_None [simp]: "Set S now x None = x"
  by (simp add: Set_def)

lemma Set_unique: "unique_types x \<Longrightarrow> unique_types (Set S now x co)"
  using set_condition_wf [of "GetConditions S x" now]
  by (cases co) (auto simp: unique_types_def wf_conditions_def)

lemma Get_Set:
  "unique_types x \<Longrightarrow> Get S (Set S now x (Some c)) t =
     (if t = cond_Type c then Some (stored_condition now c (GetConditions S x)) else Get S x t)"
  by (simp add: Get_def unique_types_def set_condition_find)

lemma Get_MarkTrue_other: "unique_types x \<Longrightarrow> t \<noteq> u \<Longrightarrow> Get S (MarkTrue S now x u) t = Get S x t"
  by (simp add: MarkTrue_def Get_Set TrueCondition_def)

lemma Get_MarkFalse_other:
  "unique_types x \<Longrightarrow> t \<noteq> u \<Longrightarrow> Get S (MarkFalse S now x u r sv m) t = Get S x t"
  by (simp add: MarkFalse_def Get_Set FalseCondition_def)

lemma IsTrue_MarkTrue: "unique_types x \<Longrightarrow> IsTrue S (MarkTrue S now x t) t"
  by (simp add: MarkTrue_def IsTrue_def Get_Set TrueCondition_def)

lemma IsFalse_MarkFalse: "unique_types x \<Longrightarrow> IsFalse S (MarkFalse S now x t r sv m) t"
  by (simp add: MarkFalse_def IsFalse_def Get_Set FalseCondition_def)

lemma GetReason_MarkFalse: "unique_types x \<Longrightarrow> GetReason S (MarkFalse S now x t r sv m) t = r"
  using stored_condition_state [of now "FalseCondition t r sv m" "GetConditions S x"]
  by (simp add: MarkFalse_def GetReason_def Get_Set FalseCondition_def hasSameState_def
      del: stored_condition_state)

lemma GetMessage_MarkFalse: "unique_types x \<Longrightarrow> GetMessage S (MarkFalse S now x t r sv m) t = m"
  using stored_condition_state [of now "FalseCondition t r sv m" "GetConditions S x"]
  by (simp add: MarkFalse_def GetMessage_def Get_Set FalseCondition_def hasSameState_def
      del: stored_condition_state)

lemma unique_Mark [simp]:
  "unique_types x \<Longrightarrow> unique_types (MarkTrue S now x t)"
  "unique_types x \<Longrightarrow> unique_types (MarkFalse S now x t r sv m)"
  "unique_types x \<Longrightarrow> unique_types (MarkUnknown S now x t r m)"
  "unique_types x \<Longrightarrow> unique_types (SetSummary S now x opts)"
  by (simp_all add: MarkTrue_def MarkFalse_def MarkUnknown_def SetSummary_def Set_unique)

lemma Delete_unique [simp]: "unique_types x \<Longrightarrow> unique_types (Delete S x t)"
  by (simp add: unique_types_def Delete_def distinct_map_filter)

lemma Get_Delete: "Get S (Delete S x t) u = (if u = t then None else Get S x u)"
  by (auto simp: Get_def Delete_def find_filter find_None_iff
      intro!: arg_cong [where f = "\<lambda>p. List.find p (GetConditions S x)"])

lemma Get_SetSummary_other:
  assumes "unique_types x" and "t \<noteq> ReadyCondition"
  shows "Get S (SetSummary S now x []) t = Get S x t"
proof (cases "summary S x []")
  case None
  then show ?thesis by (simp add: SetSummary_def)
next
  case (Some r)
  then have "cond_Type r = ReadyCondition" using summary_reports by fastforce
  with Some assms show ?thesis by (simp add: SetSummary_def Get_Set)
qed

lemma IsTrue_Ready_SetSummary:
  assumes "unique_types x" and "non_ready S x \<noteq> {}"
  shows "IsTrue S (SetSummary S now x []) ReadyCondition \<longleftrightarrow>
    (\<exists>c \<in> non_ready S x. cond_Status c = ConditionTrue) \<and> (\<forall>c \<in> non_ready S x. \<not> failing c)"
proof -
  obtain r where r: "summary S x [] = Some r" using assms(2) summary_None_iff [of S x] by auto
  then have "cond_Type r = ReadyCondition" using summary_reports by fastforce
  with r assms(1) show ?thesis
    by (simp add: SetSummary_def IsTrue_def Get_Set summary_True_iff)
qed

lemma GetE: "Get S x t = Some c \<Longrightarrow> cond_Type c = t"
  by (auto simp: Get_def find_Some_iff)

lemma Get_mem: "unique_types x \<Longrightarrow> c \<in> set (GetConditions S x) \<longleftrightarrow> Get S x (cond_Type c) = Some c"
  by (simp add: Get_def unique_types_def find_key_iff)

lemma apply_op_Set:
  assumes "unique_types x" and "cond_Type c = t" and "y = Set S now x (Some c)"
  shows "unique_types y \<and> rel_option hasSameState (Get S y t) (Some c) \<and>
    (\<forall>u. u \<noteq> t \<longrightarrow> Get S y u = Get S x u)"
  using assms by (auto simp: Set_unique Get_Set)

lemma apply_op_ok:
  assumes "unique_types x" and "Get S x (op_type p) = op_before p"
  shows "\<exists>y. apply_op S now opt x p = Inr y \<and> unique_types y \<and>
    rel_option hasSameState (Get S y (op_type p)) (op_after p) \<and>
    (\<forall>u. u \<noteq> op_type p \<longrightarrow> Get S y u = Get S x u)"
proof (cases p)
  case (AddConditionPatch a)
  then show ?thesis using assms apply_op_Set [OF assms(1), of a "cond_Type a" _ now]
    by (simp add: apply_op_def)
next
  case (ChangeConditionPatch b a)
  then show ?thesis using assms apply_op_Set [OF assms(1), of a "cond_Type a" _ now]
    by (simp add: apply_op_def)
next
  case (RemoveConditionPatch b)
  then show ?thesis using assms by (simp add: apply_op_def Get_Delete)
qed

lemma Apply_ok:
  assumes "unique_types x" and "distinct (map op_type ps)"
    and "\<And>p. p \<in> set ps \<Longrightarrow> Get S x (op_type p) = op_before p"
  shows "\<exists>y. Apply S now opt ps x = Inr y \<and> unique_types y \<and>
    (\<forall>p \<in> set ps. rel_option hasSameState (Get S y (op_type p)) (op_after p)) \<and>
    (\<forall>u. u \<notin> op_type ` set ps \<longrightarrow> Get S y u = Get S x u)"
  using assms
proof (induction ps arbitrary: x)
  case Nil
  then show ?case by simp
next
  case (Cons p ps)
  obtain z where z: "apply_op S now opt x p = Inr z" "unique_types z"
    "rel_option hasSameState (Get S z (op_type p)) (op_after p)"
    "\<And>u. u \<noteq> op_type p \<Longrightarrow> Get S z u = Get S x u"
    using apply_op_ok [of x p now opt] Cons.prems by auto
  have "Get S z (op_type q) = op_before q" if "q \<in> set ps" for q
  proof -
    have "op_type q \<noteq> op_type p" using that Cons.prems(2) by (metis distinct.simps(2) image_eqI list.set_map list.simps(9))
    then show ?thesis using that Cons.prems(3) [of q] z(4) by simp
  qed
  with Cons.IH [of z] z(2) Cons.prems(2) obtain y where y: "Apply S now opt ps z = Inr y" "unique_types y"
    "\<And>q. q \<in> set ps \<Longrightarrow> rel_option hasSameState (Get S y (op_type q)) (op_after q)"
    "\<And>u. u \<notin> op_type ` set ps \<Longrightarrow> Get S y u = Get S z u"
    by auto
  have "rel_option hasSameState (Get S y (op_type p)) (op_after p)"
    using y(4) [of "op_type p"] z(3) Cons.prems(2) by simp
  with z y show ?case by auto
qed

lemma patch_targets_types:
  "map op_type (concat (map (patch_target S b) cs)) =
     map cond_Type (filter (\<lambda>c. Get S b (cond_Type c) \<noteq> Some c) cs)"
  by (induction cs) (auto simp: patch_target_def split: option.split)

lemma patch_bases_types:
  "map op_type (concat (map (patch_base S a) cs)) =
     map cond_Type (filter (\<lambda>c. Get S a (cond_Type c) = None) cs)"
  by (induction cs) (auto simp: patch_base_def split: option.split)

lemma NewPatch_distinct:
  assumes "unique_types a" and "unique_types b"
  shows "distinct (map op_type (NewPatch S b a))"
proof -
  have "Get S a (cond_Type c) \<noteq> None" if "c \<in> set (GetConditions S a)" for c
    using that assms(1) by (simp add: Get_mem)
  with assms show ?thesis
    unfolding NewPatch_def map_append patch_targets_types patch_bases_types
    by (fastforce simp: unique_types_def distinct_map_filter)
qed

lemma patch_target_mem:
  assumes "Get S a (cond_Type c) = Some c" and "p \<in> set (patch_target S b c)"
  shows "op_before p = Get S b (op_type p) \<and> op_after p = Get S a (op_type p)"
  using assms by (cases "Get S b (cond_Type c)") (auto simp: patch_target_def split: if_splits)

lemma patch_base_mem:
  assumes "Get S b (cond_Type c) = Some c" and "p \<in> set (patch_base S a c)"
  shows "op_before p = Get S b (op_type p) \<and> op_after p = Get S a (op_type p)"
  using assms by (cases "Get S a (cond_Type c)") (auto simp: patch_base_def)

lemma NewPatch_mem:
  assumes "unique_types a" and "unique_types b" and "p \<in> set (NewPatch S b a)"
  shows "op_before p = Get S b (op_type p) \<and> op_after p = Get S a (op_type p)"
proof -
  consider c where "c \<in> set (GetConditions S a)" "p \<in> set (patch_target S b c)"
    | c where "c \<in> set (GetConditions S b)" "p \<in> set (patch_base S a c)"
    using assms(3) unfolding NewPatch_def by auto
  then show ?thesis
  proof cases
    case 1
    with assms(1) show ?thesis by (intro patch_target_mem) (simp_all add: Get_mem)
  next
    case 2
    with assms(2) show ?thesis by (intro patch_base_mem) (simp_all add: Get_mem)
  qed
qed

lemma NewPatch_types:
  assumes "unique_types a" and "unique_types b"
  shows "t \<in> op_type ` set (NewPatch S b a) \<longleftrightarrow> Get S b t \<noteq> Get S a t"
proof -
  have mem: "t \<in> cond_Type ` {c \<in> set (GetConditions S x). P c} \<longleftrightarrow> (\<exists>c. Get S x t = Some c \<and> P c)"
    if "unique_types x" for x P
  proof
    show "\<exists>c. Get S x t = Some c \<and> P c" if "t \<in> cond_Type ` {c \<in> set (GetConditions S x). P c}"
      using that Get_mem [OF \<open>unique_types x\<close>] by blast
    show "t \<in> cond_Type ` {c \<in> set (GetConditions S x). P c}" if "\<exists>c. Get S x t = Some c \<and> P c"
      using that Get_mem [OF \<open>unique_types x\<close>] GetE [of x t] by blast
  qed
  have "op_type ` set (NewPatch S b a) = set (map op_type (NewPatch S b a))" by simp
  also have "\<dots> = cond_Type ` {c \<in> set (GetConditions S a). Get S b (cond_Type c) \<noteq> Some c} \<union>
      cond_Type ` {c \<in> set (GetConditions S b). Get S a (cond_Type c) = None}"
    unfolding NewPatch_def map_append patch_targets_types patch_bases_types by simp
  finally have "t \<in> op_type ` set (NewPatch S b a) \<longleftrightarrow>
      (\<exists>c. Get S a t = Some c \<and> Get S b (cond_Type c) \<noteq> Some c) \<or>
      (\<exists>c. Get S b t = Some c \<and> Get S a (cond_Type c) = None)"
    by (simp only: Un_iff mem [OF assms(1)] mem [OF assms(2)])
  moreover have "cond_Type c = t" if "Get S a t = Some c \<or> Get S b t = Some c" for c
    using that GetE by blast
  ultimately show ?thesis by (metis not_Some_eq)
qed

text \<open>
  The three-way merge of a patch: where the latest object still has the conditions the patch
  changes, the patch applies, brings these conditions to their new state and touches no other.
\<close>

lemma Apply_NewPatch:
  assumes "unique_types b" and "unique_types a" and "unique_types x"
    and "\<And>t. Get S b t \<noteq> Get S a t \<Longrightarrow> Get S x t = Get S b t"
  shows "\<exists>y. Apply S now opt (NewPatch S b a) x = Inr y \<and> unique_types y \<and>
    (\<forall>t. if Get S b t = Get S a t then Get S y t = Get S x t
         else rel_option hasSameState (Get S y t) (Get S a t))"
proof -
  have "Get S x (op_type p) = op_before p" if "p \<in> set (NewPatch S b a)" for p
    using NewPatch_mem [OF assms(2,1) that] NewPatch_types [OF assms(2,1), of "op_type p"] that assms(4)
    by auto
  from Apply_ok [OF assms(3) NewPatch_distinct [OF assms(2,1)] this, of now opt]
  obtain y where y: "Apply S now opt (NewPatch S b a) x = Inr y" "unique_types y"
    "\<And>p. p \<in> set (NewPatch S b a) \<Longrightarrow> rel_option hasSameState (Get S y (op_type p)) (op_after p)"
    "\<And>u. u \<notin> op_type ` set (NewPatch S b a) \<Longrightarrow> Get S y u = Get S x u"
    by auto
  have "rel_option hasSameState (Get S y t) (Get S a t)" if ne: "Get S b t \<noteq> Get S a t" for t
  proof -
    obtain p where "p \<in> set (NewPatch S b a)" and "op_type p = t"
      using ne NewPatch_types [OF assms(2,1), of t] by auto
    with y(3) NewPatch_mem [OF assms(2,1)] show ?thesis by metis
  qed
  moreover have "Get S y t = Get S x t" if "Get S b t = Get S a t" for t
    using y(4) that NewPatch_types [OF assms(2,1), of t] by simp
  ultimately show ?thesis using y(1,2) by auto
qed

end

section \<open>Set\<close>

text \<open>
  C27. \<open>Set\<close> keeps the conditions of an object in canonical form (one condition per type, \<open>Ready\<close>
  first, the others sorted by type) and changes only the condition of the given type. An existing
  condition with the same state stays as it is, with its last transition time; a changed one gets
  the current time, truncated to seconds; a new one without a time does too.
\<close>

theorem set_condition_canonical:
  assumes "distinct (map cond_Type cs)"
  shows "wf_conditions (set_condition now c cs) \<and>
    (\<forall>t. find_type t (set_condition now c cs) =
      (if t \<noteq> cond_Type c then find_type t cs
       else case find_type t cs of
         Some e \<Rightarrow> Some (if hasSameState e c then e else c\<lparr>cond_LastTransitionTime := truncate_second now\<rparr>)
       | None \<Rightarrow> Some (if cond_LastTransitionTime c = 0
                       then c\<lparr>cond_LastTransitionTime := truncate_second now\<rparr> else c)))"
  using set_condition_wf [OF assms] set_condition_find [OF assms]
  by (simp add: stored_condition_def split: option.split)

theorem set_condition_canonical_witness:
  "wf_conditions (set_condition 7 (TrueCondition ''Ready'')
      [TrueCondition ''Heartbeating'', TrueCondition ''Connected'']) \<and>
   find_type ''Connected'' (set_condition 7 (TrueCondition ''Ready'')
      [TrueCondition ''Heartbeating'', TrueCondition ''Connected'']) = Some (TrueCondition ''Connected'')"
  using set_condition_canonical
    [of "[TrueCondition ''Heartbeating'', TrueCondition ''Connected'']" 7 "TrueCondition ''Ready''"]
  by (simp add: TrueCondition_def)

end
