(* ===== verification/Api_Types.thy ===== *)
theory Api_Types
  imports Conditions
begin

text \<open>
  The API types of \<open>sdk/apis/kubebind/v1alpha2\<close>: object metadata, unstructured objects, the
  kube-bind kinds with their \<open>GetConditions\<close>/\<open>SetConditions\<close> methods as interpretations of the
  \<open>condition_setter\<close> contract, condition types, the claimable APIs and the small helpers on them.
  Go maps of labels and annotations are finite maps; a nil map is the empty one, as every reader of
  them in the sources treats both alike.
\<close>

section \<open>Object metadata and unstructured objects\<close>

text \<open>The content of an unstructured object below a top level field, as \<open>encoding/json\<close> reads it.\<close>

datatype json =
    JNull
  | JBool bool
  | JInt int
  | JString string
  | JArray "json list"
  | JObject "(string, json) fmap"

record OwnerReference =
  or_APIVersion :: string
  or_Kind :: string
  or_Name :: string
  or_UID :: string
  or_Controller :: "bool option"
  or_BlockOwnerDeletion :: "bool option"

record ObjectMeta =
  om_Name :: string
  om_Namespace :: string
  om_UID :: string
  om_ResourceVersion :: string
  om_Generation :: int
  om_CreationTimestamp :: time
  om_DeletionTimestamp :: "time option"
  om_DeletionGracePeriodSeconds :: "int option"
  om_Labels :: "(string, string) fmap"
  om_Annotations :: "(string, string) fmap"
  om_OwnerReferences :: "OwnerReference list"
  om_Finalizers :: "string list"
  om_ManagedFields :: "json list"

definition zero_ObjectMeta :: ObjectMeta where
  "zero_ObjectMeta = \<lparr>om_Name = '''', om_Namespace = '''', om_UID = '''', om_ResourceVersion = '''',
     om_Generation = 0, om_CreationTimestamp = 0, om_DeletionTimestamp = None,
     om_DeletionGracePeriodSeconds = None, om_Labels = fmempty, om_Annotations = fmempty,
     om_OwnerReferences = [], om_Finalizers = [], om_ManagedFields = []\<rparr>"

text \<open>
  An unstructured object: the metadata the accessors of \<open>unstructured.Unstructured\<close> read and write,
  and the other top level fields (\<open>spec\<close>, \<open>status\<close>, \<open>data\<close>, ...).
\<close>

record unstructured =
  u_APIVersion :: string
  u_Kind :: string
  u_Meta :: ObjectMeta
  u_Fields :: "(string, json) fmap"

definition u_Name :: "unstructured \<Rightarrow> string" where "u_Name u = om_Name (u_Meta u)"
definition u_Namespace :: "unstructured \<Rightarrow> string" where "u_Namespace u = om_Namespace (u_Meta u)"

definition zero_unstructured :: unstructured where
  "zero_unstructured = \<lparr>u_APIVersion = '''', u_Kind = '''', u_Meta = zero_ObjectMeta, u_Fields = fmempty\<rparr>"

text \<open>
  \<open>NestedFieldNoCopy\<close> with one field name: the value and whether the field is there (a missing
  field reads as nil). With a single name neither it nor \<open>SetNestedField\<close> can fail.
\<close>

definition NestedField :: "unstructured \<Rightarrow> string \<Rightarrow> json \<times> bool" where
  "NestedField u f = (case fmlookup (u_Fields u) f of Some v \<Rightarrow> (v, True) | None \<Rightarrow> (JNull, False))"

definition SetNestedField :: "unstructured \<Rightarrow> json \<Rightarrow> string \<Rightarrow> unstructured" where
  "SetNestedField u v f = u\<lparr>u_Fields := fmupd f v (u_Fields u)\<rparr>"

definition RemoveNestedField :: "unstructured \<Rightarrow> string \<Rightarrow> unstructured" where
  "RemoveNestedField u f = u\<lparr>u_Fields := fmdrop f (u_Fields u)\<rparr>"

text \<open>\<open>obj.GetDeletionTimestamp() != nil && !obj.GetDeletionTimestamp().IsZero()\<close>.\<close>

definition deleting :: "ObjectMeta \<Rightarrow> bool" where
  "deleting m = (case om_DeletionTimestamp m of None \<Rightarrow> False | Some t \<Rightarrow> t \<noteq> 0)"

text \<open>\<open>metav1.NewControllerRef\<close> for an object of the given API version and kind.\<close>

definition NewControllerRef :: "ObjectMeta \<Rightarrow> string \<Rightarrow> string \<Rightarrow> OwnerReference" where
  "NewControllerRef m apiVersion kind = \<lparr>or_APIVersion = apiVersion, or_Kind = kind,
     or_Name = om_Name m, or_UID = om_UID m, or_Controller = Some True,
     or_BlockOwnerDeletion = Some True\<rparr>"

text \<open>\<open>cache.SplitMetaNamespaceKey\<close> and the key \<open>namespace/name\<close> it splits.\<close>

definition MetaNamespaceKey :: "string \<Rightarrow> string \<Rightarrow> string" where
  "MetaNamespaceKey ns name = (if ns = '''' then name else ns @ ''/'' @ name)"

definition GroupName :: string where "GroupName = ''kube-bind.io''"
definition GroupVersion :: string where "GroupVersion = ''v1alpha2''"
definition SchemeGroupVersion :: string where "SchemeGroupVersion = GroupName @ ''/'' @ GroupVersion"

section \<open>Resources, claims and selectors\<close>

record GroupVersionResource =
  gvr_Group :: string
  gvr_Version :: string
  gvr_Resource :: string

record GroupResource =
  gr_Group :: string
  gr_Resource :: string

definition GroupResource_String :: "GroupResource \<Rightarrow> string" where
  "GroupResource_String r = gr_Resource r @ ''.'' @ gr_Group r"

record NamedResource =
  nr_Name :: string
  nr_Namespace :: string

text \<open>A \<open>metav1.LabelSelector\<close> with its requirements as operator and values.\<close>

record LabelSelectorRequirement =
  lsr_Key :: string
  lsr_Operator :: string
  lsr_Values :: "string list"

record LabelSelector =
  ls_MatchLabels :: "(string, string) fmap"
  ls_MatchExpressions :: "LabelSelectorRequirement list"

record Selector =
  sel_NamedResources :: "NamedResource list"
  sel_LabelSelector :: "LabelSelector option"

record PermissionClaim =
  pc_GroupResource :: GroupResource
  pc_Selector :: Selector

record APIServiceExportRequestResource =
  rr_GroupResource :: GroupResource
  rr_Versions :: "string list"

definition ResourceGroupName :: "APIServiceExportRequestResource \<Rightarrow> string" where
  "ResourceGroupName r =
     (let group = (if gr_Group (rr_GroupResource r) = '''' then ''core'' else gr_Group (rr_GroupResource r))
      in gr_Resource (rr_GroupResource r) @ ''.'' @ group)"

datatype Owner = OwnerProvider | OwnerConsumer

definition Owner_String :: "Owner \<Rightarrow> string" where
  "Owner_String ow = (case ow of OwnerProvider \<Rightarrow> ''provider'' | OwnerConsumer \<Rightarrow> ''consumer'')"

datatype InformerScope = ClusterScope | NamespacedScope | InformerScopeOther string

datatype Isolation = IsolationPrefixed | IsolationNamespaced | IsolationNone | IsolationOther string

datatype ResourceScope = RS_ClusterScoped | RS_NamespaceScoped | RS_Other string

section \<open>APIServiceExport\<close>

record APIServiceExportSpec =
  exs_Resources :: "APIServiceExportRequestResource list"
  exs_PermissionClaims :: "PermissionClaim list"
  exs_InformerScope :: InformerScope
  exs_ClusterScopedIsolation :: Isolation

text \<open>The field \<open>_Kind\<close> of an object is the kind in its \<open>TypeMeta\<close>, which need not be set; conditions refer to it.\<close>

record APIServiceExport =
  ex_Kind :: string
  ex_Meta :: ObjectMeta
  ex_Spec :: APIServiceExportSpec
  ex_Conditions :: "condition list"

definition SourceSpecHashAnnotationKey :: string where
  "SourceSpecHashAnnotationKey = ''kube-bind.io/source-spec-hash''"
definition ObjectOwnerLabel :: string where "ObjectOwnerLabel = ''kube-bind.io/owner''"
definition APIServiceExportConditionConnected :: string where
  "APIServiceExportConditionConnected = ''Connected''"
definition APIServiceExportConditionProviderInSync :: string where
  "APIServiceExportConditionProviderInSync = ''ProviderInSync''"
definition APIServiceExportConditionConsumerInSync :: string where
  "APIServiceExportConditionConsumerInSync = ''ConsumerInSync''"
definition APIServiceExportConditionPermissionClaim :: string where
  "APIServiceExportConditionPermissionClaim = ''PermissionClaim''"

definition APIServiceExport_setter :: "APIServiceExport setter" where
  "APIServiceExport_setter = \<lparr>GetConditions = ex_Conditions,
     SetConditions = (\<lambda>cs x. x\<lparr>ex_Conditions := cs\<rparr>),
     GetName = (\<lambda>x. om_Name (ex_Meta x)), GetKind = ex_Kind\<rparr>"

section \<open>APIServiceBinding\<close>

record LocalSecretKeyRef =
  lsk_Name :: string
  lsk_Key :: string

record ClusterSecretKeyRef =
  csk_Local :: LocalSecretKeyRef
  csk_Namespace :: string

record APIServiceBindingStatus =
  bis_ProviderPrettyName :: string
  bis_Conditions :: "condition list"
  bis_BoundSchemas :: "GroupResource list"
  bis_PermissionClaims :: "PermissionClaim list"

record APIServiceBinding =
  bi_Kind :: string
  bi_Meta :: ObjectMeta
  bi_KubeconfigSecretRef :: ClusterSecretKeyRef
  bi_Status :: APIServiceBindingStatus

definition APIServiceBindingConditionSecretValid :: string where
  "APIServiceBindingConditionSecretValid = ''SecretValid''"
definition APIServiceBindingConditionInformersSynced :: string where
  "APIServiceBindingConditionInformersSynced = ''InformersSynced''"
definition APIServiceBindingConditionHeartbeating :: string where
  "APIServiceBindingConditionHeartbeating = ''Heartbeating''"
definition APIServiceBindingConditionConnected :: string where
  "APIServiceBindingConditionConnected = ''Connected''"
definition APIServiceBindingConditionSchemaInSync :: string where
  "APIServiceBindingConditionSchemaInSync = ''SchemaInSync''"
definition DownstreamFinalizer :: string where "DownstreamFinalizer = ''kubebind.io/syncer''"

definition APIServiceBinding_setter :: "APIServiceBinding setter" where
  "APIServiceBinding_setter = \<lparr>GetConditions = (\<lambda>x. bis_Conditions (bi_Status x)),
     SetConditions = (\<lambda>cs x. x\<lparr>bi_Status := (bi_Status x)\<lparr>bis_Conditions := cs\<rparr>\<rparr>),
     GetName = (\<lambda>x. om_Name (bi_Meta x)), GetKind = bi_Kind\<rparr>"

section \<open>APIServiceExportRequest\<close>

datatype APIServiceExportRequestPhase = PhaseUnset | PhasePending | PhaseFailed | PhaseSucceeded

record APIServiceExportRequestSpec =
  ers_Parameters :: "string option"
  ers_Resources :: "APIServiceExportRequestResource list"
  ers_PermissionClaims :: "PermissionClaim list"
  ers_Namespaces :: "string list"

record APIServiceExportRequestStatus =
  ert_Phase :: APIServiceExportRequestPhase
  ert_TerminalMessage :: string
  ert_Conditions :: "condition list"

record APIServiceExportRequest =
  er_Kind :: string
  er_Meta :: ObjectMeta
  er_Spec :: APIServiceExportRequestSpec
  er_Status :: APIServiceExportRequestStatus

definition APIServiceExportRequestConditionExportsReady :: string where
  "APIServiceExportRequestConditionExportsReady = ''ExportsReady''"

definition APIServiceExportRequest_setter :: "APIServiceExportRequest setter" where
  "APIServiceExportRequest_setter = \<lparr>GetConditions = (\<lambda>x. ert_Conditions (er_Status x)),
     SetConditions = (\<lambda>cs x. x\<lparr>er_Status := (er_Status x)\<lparr>ert_Conditions := cs\<rparr>\<rparr>),
     GetName = (\<lambda>x. om_Name (er_Meta x)), GetKind = er_Kind\<rparr>"

section \<open>ClusterBinding\<close>

record ClusterBindingSpec =
  cbs_KubeconfigSecretRef :: LocalSecretKeyRef
  cbs_ProviderPrettyName :: string
  cbs_ServiceProviderSpec :: "string option"

record ClusterBindingStatus =
  cbt_LastHeartbeatTime :: time
  cbt_HeartbeatInterval :: duration
  cbt_KonnectorVersion :: string
  cbt_Conditions :: "condition list"

record ClusterBinding =
  cb_Kind :: string
  cb_Meta :: ObjectMeta
  cb_Spec :: ClusterBindingSpec
  cb_Status :: ClusterBindingStatus

definition ClusterBindingConditionSecretValid :: string where
  "ClusterBindingConditionSecretValid = ''SecretValid''"
definition ClusterBindingConditionValidVersion :: string where
  "ClusterBindingConditionValidVersion = ''ValidVersion''"
definition ClusterBindingConditionHealthy :: string where
  "ClusterBindingConditionHealthy = ''Healthy''"

definition ClusterBinding_setter :: "ClusterBinding setter" where
  "ClusterBinding_setter = \<lparr>GetConditions = (\<lambda>x. cbt_Conditions (cb_Status x)),
     SetConditions = (\<lambda>cs x. x\<lparr>cb_Status := (cb_Status x)\<lparr>cbt_Conditions := cs\<rparr>\<rparr>),
     GetName = (\<lambda>x. om_Name (cb_Meta x)), GetKind = cb_Kind\<rparr>"

section \<open>APIServiceNamespace\<close>

record APIServiceNamespace =
  sn_Meta :: ObjectMeta
  sn_StatusNamespace :: string

definition APIServiceNamespaceAnnotationKey :: string where
  "APIServiceNamespaceAnnotationKey = ''kube-bind.io/api-service-namespace''"

definition APIServiceNamespaceFromExport :: "APIServiceExport \<Rightarrow> string \<Rightarrow> APIServiceNamespace" where
  "APIServiceNamespaceFromExport export namespaceName =
     \<lparr>sn_Meta = zero_ObjectMeta\<lparr>om_Name := namespaceName, om_Namespace := om_Namespace (ex_Meta export),
        om_Labels := fmupd ObjectOwnerLabel (Owner_String OwnerProvider) fmempty,
        om_OwnerReferences := [NewControllerRef (ex_Meta export) SchemeGroupVersion ''APIServiceExport'']\<rparr>,
      sn_StatusNamespace = ''''\<rparr>"

section \<open>BoundSchema\<close>

record CustomResourceDefinitionNames =
  crn_Plural :: string
  crn_Singular :: string
  crn_ShortNames :: "string list"
  crn_Kind :: string
  crn_ListKind :: string
  crn_Categories :: "string list"

record WebhookClientConfig =
  wcc_URL :: "string option"
  wcc_CABundle :: string

record WebhookConversion =
  whc_ClientConfig :: "WebhookClientConfig option"
  whc_ConversionReviewVersions :: "string list"

record CustomResourceConversion =
  crc_Strategy :: string
  crc_Webhook :: "WebhookConversion option"

record CustomResourceColumnDefinition =
  ccd_Name :: string
  ccd_Type :: string
  ccd_JSONPath :: string
  ccd_Priority :: int

text \<open>\<open>CustomResourceSubresources\<close>: whether there is a status subresource, and the scale one.\<close>

record CustomResourceSubresources =
  csr_Status :: bool
  csr_Scale :: "json option"

record APIResourceVersion =
  arv_Name :: string
  arv_Served :: bool
  arv_Storage :: bool
  arv_Deprecated :: bool
  arv_DeprecationWarning :: "string option"
  arv_Schema :: "string option"
  arv_Subresources :: CustomResourceSubresources
  arv_AdditionalPrinterColumns :: "CustomResourceColumnDefinition list"

record BoundSchemaSpec =
  bss_InformerScope :: InformerScope
  bss_Group :: string
  bss_Names :: CustomResourceDefinitionNames
  bss_Scope :: ResourceScope
  bss_Versions :: "APIResourceVersion list"
  bss_Conversion :: "CustomResourceConversion option"

record BoundSchema =
  bs_Kind :: string
  bs_Meta :: ObjectMeta
  bs_Spec :: BoundSchemaSpec
  bs_AcceptedNames :: CustomResourceDefinitionNames
  bs_StoredVersions :: "string list"
  bs_Conditions :: "condition list"
  bs_Instantiations :: int

definition zero_Names :: CustomResourceDefinitionNames where
  "zero_Names = \<lparr>crn_Plural = '''', crn_Singular = '''', crn_ShortNames = [], crn_Kind = '''',
     crn_ListKind = '''', crn_Categories = []\<rparr>"

definition BoundSchema_ResourceGroupName :: "BoundSchema \<Rightarrow> string" where
  "BoundSchema_ResourceGroupName b = crn_Plural (bss_Names (bs_Spec b)) @ ''.'' @ bss_Group (bs_Spec b)"

definition BoundSchemaValid :: string where "BoundSchemaValid = ''Valid''"
definition BoundSchemaInvalid :: string where "BoundSchemaInvalid = ''Invalid''"

definition BoundSchema_setter :: "BoundSchema setter" where
  "BoundSchema_setter = \<lparr>GetConditions = bs_Conditions,
     SetConditions = (\<lambda>cs x. x\<lparr>bs_Conditions := cs\<rparr>),
     GetName = (\<lambda>x. om_Name (bs_Meta x)), GetKind = bs_Kind\<rparr>"

section \<open>Claimable APIs and ownership\<close>

record InternalAPI =
  ia_Names :: CustomResourceDefinitionNames
  ia_GroupVersionResource :: GroupVersionResource
  ia_ResourceScope :: ResourceScope
  ia_HasStatus :: bool

definition core_api :: "string \<Rightarrow> string \<Rightarrow> string \<Rightarrow> InternalAPI" where
  "core_api plural singular kind =
     \<lparr>ia_Names = zero_Names\<lparr>crn_Plural := plural, crn_Singular := singular, crn_Kind := kind\<rparr>,
      ia_GroupVersionResource = \<lparr>gvr_Group = '''', gvr_Version = ''v1'', gvr_Resource = plural\<rparr>,
      ia_ResourceScope = RS_NamespaceScoped, ia_HasStatus = False\<rparr>"

definition ClaimableAPIs :: "InternalAPI list" where
  "ClaimableAPIs =
     [core_api ''configmaps'' ''configmap'' ''ConfigMap'',
      core_api ''secrets'' ''secret'' ''Secret'',
      core_api ''serviceaccounts'' ''serviceaccount'' ''ServiceAccount'']"

definition ResolveClaimableAPI :: "PermissionClaim \<Rightarrow> go_error + GroupVersionResource" where
  "ResolveClaimableAPI claim =
     (case List.find (\<lambda>api. crn_Plural (ia_Names api) = gr_Resource (pc_GroupResource claim) \<and>
                            gvr_Group (ia_GroupVersionResource api) = gr_Group (pc_GroupResource claim))
             ClaimableAPIs of
        Some api \<Rightarrow> Inr (ia_GroupVersionResource api)
      | None \<Rightarrow> Inl (Errorf ''no matching API found'' None))"

definition IsOwnedByBinding :: "string \<Rightarrow> string \<Rightarrow> OwnerReference list \<Rightarrow> bool" where
  "IsOwnedByBinding name uid refs =
     list_ex (\<lambda>ref. hd (SplitN 2 (CHR ''/'') (or_APIVersion ref)) = GroupName \<and>
                    or_Kind ref = ''APIServiceBinding'' \<and> or_Name ref = name \<and>
                    (uid = '''' \<or> or_UID ref = uid)) refs"

section \<open>The kinds implement conditions.Setter\<close>

interpretation exp: condition_setter APIServiceExport_setter
  by unfold_locales (simp_all add: APIServiceExport_setter_def)

interpretation bnd: condition_setter APIServiceBinding_setter
  by unfold_locales (simp_all add: APIServiceBinding_setter_def)

interpretation req: condition_setter APIServiceExportRequest_setter
  by unfold_locales (simp_all add: APIServiceExportRequest_setter_def)

interpretation clb: condition_setter ClusterBinding_setter
  by unfold_locales (simp_all add: ClusterBinding_setter_def)

interpretation bsc: condition_setter BoundSchema_setter
  by unfold_locales (simp_all add: BoundSchema_setter_def)

section \<open>Lemmas\<close>

lemma NestedField_Set [simp]:
  "NestedField (SetNestedField u v f) g = (if g = f then (v, True) else NestedField u g)"
  by (simp add: NestedField_def SetNestedField_def)

lemma NestedField_Remove [simp]:
  "NestedField (RemoveNestedField u f) g = (if g = f then (JNull, False) else NestedField u g)"
  by (simp add: NestedField_def RemoveNestedField_def)

lemma NestedField_meta [simp]: "NestedField (u\<lparr>u_Meta := m\<rparr>) f = NestedField u f"
  by (simp add: NestedField_def)

lemma nested_meta [simp]:
  "u_Meta (SetNestedField u v f) = u_Meta u" "u_Meta (RemoveNestedField u f) = u_Meta u"
  by (simp_all add: SetNestedField_def RemoveNestedField_def)

section \<open>Conditions of a binding\<close>

definition example_binding :: "condition list \<Rightarrow> APIServiceBinding" where
  "example_binding cs = \<lparr>bi_Kind = ''APIServiceBinding'', bi_Meta = zero_ObjectMeta\<lparr>om_Name := ''b''\<rparr>,
     bi_KubeconfigSecretRef = \<lparr>csk_Local = \<lparr>lsk_Name = ''s'', lsk_Key = ''k''\<rparr>, csk_Namespace = ''n''\<rparr>,
     bi_Status = \<lparr>bis_ProviderPrettyName = '''', bis_Conditions = cs, bis_BoundSchemas = [],
       bis_PermissionClaims = []\<rparr>\<rparr>"

lemma unique_binding [simp]:
  "bnd.unique_types x \<longleftrightarrow> distinct (map cond_Type (bis_Conditions (bi_Status x)))"
  unfolding bnd.unique_types_def by (simp add: APIServiceBinding_setter_def)

text \<open>
  C31. The \<open>Ready\<close> condition that \<open>SetSummary\<close> gives an \<open>APIServiceBinding\<close> with some other condition
  is true exactly if one of these is true and none is false with a severity: a failure of any
  severity makes the binding not ready, an unknown condition beside a true one does not.
\<close>

theorem binding_ready_iff:
  assumes "distinct (map cond_Type (bis_Conditions (bi_Status x)))"
    and "non_ready APIServiceBinding_setter x \<noteq> {}"
  shows "IsTrue APIServiceBinding_setter (SetSummary APIServiceBinding_setter now x []) ReadyCondition \<longleftrightarrow>
    (\<exists>c \<in> non_ready APIServiceBinding_setter x. cond_Status c = ConditionTrue) \<and>
    (\<forall>c \<in> non_ready APIServiceBinding_setter x. \<not> failing c)"
  using bnd.IsTrue_Ready_SetSummary [OF _ assms(2)] assms(1) by simp

theorem binding_ready_iff_witness:
  "\<not> IsTrue APIServiceBinding_setter
      (SetSummary APIServiceBinding_setter 9
        (example_binding [TrueCondition ''Connected'',
           FalseCondition ''SecretValid'' ''SecretNotFound'' ConditionSeverityError '''']) [])
      ReadyCondition"
proof -
  let ?c = "FalseCondition ''SecretValid'' ''SecretNotFound'' ConditionSeverityError ''''"
  let ?x = "example_binding [TrueCondition ''Connected'', ?c]"
  have mem: "?c \<in> non_ready APIServiceBinding_setter ?x"
    by (simp add: non_ready_def example_binding_def APIServiceBinding_setter_def FalseCondition_def
        ReadyCondition_def)
  have "distinct (map cond_Type (bis_Conditions (bi_Status ?x)))"
    by (simp add: example_binding_def TrueCondition_def FalseCondition_def)
  moreover have "failing ?c" by (simp add: failing_def FalseCondition_def)
  ultimately show ?thesis using mem binding_ready_iff [of ?x 9] by blast
qed

text \<open>
  C28. Condition patches are a three-way merge. If the latest binding still has the conditions by
  which \<open>before\<close> and \<open>after\<close> differ as they are in \<open>before\<close>, the patch from \<open>before\<close> to \<open>after\<close> applies to
  it without a conflict, whatever the options; it brings exactly these conditions to their state
  in \<open>after\<close> (present with the same status, severity, reason and message, or absent) and leaves
  every other condition of the latest binding as it is.
\<close>

theorem binding_patch_three_way:
  assumes "distinct (map cond_Type (bis_Conditions (bi_Status before)))"
    and "distinct (map cond_Type (bis_Conditions (bi_Status after)))"
    and "distinct (map cond_Type (bis_Conditions (bi_Status latest)))"
    and "\<And>t. Get APIServiceBinding_setter before t \<noteq> Get APIServiceBinding_setter after t \<Longrightarrow>
           Get APIServiceBinding_setter latest t = Get APIServiceBinding_setter before t"
  shows "\<exists>y. Apply APIServiceBinding_setter now opt (NewPatch APIServiceBinding_setter before after) latest = Inr y \<and>
    (\<forall>t. if Get APIServiceBinding_setter before t = Get APIServiceBinding_setter after t
         then Get APIServiceBinding_setter y t = Get APIServiceBinding_setter latest t
         else rel_option hasSameState (Get APIServiceBinding_setter y t) (Get APIServiceBinding_setter after t))"
  using bnd.Apply_NewPatch [of before after latest now opt] assms unfolding unique_binding by blast

theorem binding_patch_three_way_witness:
  "\<exists>y. Apply APIServiceBinding_setter 5 \<lparr>ownedConditions = [], forceOverwrite = False\<rparr>
         (NewPatch APIServiceBinding_setter (example_binding []) (example_binding [TrueCondition ''Connected'']))
         (example_binding [TrueCondition ''Ready'']) = Inr y \<and>
       IsTrue APIServiceBinding_setter y ''Connected'' \<and> IsTrue APIServiceBinding_setter y ''Ready''"
proof -
  let ?S = APIServiceBinding_setter and ?a = "example_binding [TrueCondition ''Connected'']"
    and ?x = "example_binding [TrueCondition ''Ready'']"
  have "Get ?S ?x t = Get ?S (example_binding []) t"
    if "Get ?S (example_binding []) t \<noteq> Get ?S ?a t" for t
    using that by (simp add: Get_def APIServiceBinding_setter_def example_binding_def TrueCondition_def
        split: if_splits) auto
  then obtain y where y: "Apply ?S 5 \<lparr>ownedConditions = [], forceOverwrite = False\<rparr>
      (NewPatch ?S (example_binding []) ?a) ?x = Inr y"
    "\<And>t. if Get ?S (example_binding []) t = Get ?S ?a t then Get ?S y t = Get ?S ?x t
          else rel_option hasSameState (Get ?S y t) (Get ?S ?a t)"
    using binding_patch_three_way [of "example_binding []" ?a ?x 5
        "\<lparr>ownedConditions = [], forceOverwrite = False\<rparr>"]
    by (auto simp: example_binding_def)
  have "IsTrue ?S y ''Connected''" and "IsTrue ?S y ''Ready''"
    using y(2) [of "''Connected''"] y(2) [of "''Ready''"]
    by (auto simp: IsTrue_def Get_def APIServiceBinding_setter_def example_binding_def TrueCondition_def
        option_rel_Some2 hasSameState_def)
  with y(1) show ?thesis by blast
qed

end
