(* ===== verification/Kube_Client.thy ===== *)
theory Kube_Client
  imports Api_Types
begin

text \<open>
  The interfaces of client-go that several controllers share, as parameters of the model: dynamic
  clients, work queues, and the functions that build and split cache keys. The code behind them
  is not part of the repository; a property that relies on their documented behaviour says so in
  a hypothesis.
\<close>

section \<open>Clients and queues\<close>

text \<open>
  A dynamic client: resource, namespace (empty for cluster-scoped requests), then the request's
  arguments. \<open>dc_Apply\<close> is \<open>Patch\<close> with \<open>ApplyPatchType\<close>, field manager \<open>kube-bind.io\<close> and force, the
  patch being the JSON form of the object.
\<close>

record 'w dynamic_client =
  dc_Get :: "GroupVersionResource \<Rightarrow> string \<Rightarrow> string \<Rightarrow> ('w, unstructured) call"
  dc_Create :: "GroupVersionResource \<Rightarrow> string \<Rightarrow> unstructured \<Rightarrow> ('w, unstructured) call"
  dc_Update :: "GroupVersionResource \<Rightarrow> string \<Rightarrow> unstructured \<Rightarrow> ('w, unstructured) call"
  dc_UpdateStatus :: "GroupVersionResource \<Rightarrow> string \<Rightarrow> unstructured \<Rightarrow> ('w, unstructured) call"
  dc_Apply :: "GroupVersionResource \<Rightarrow> string \<Rightarrow> string \<Rightarrow> unstructured \<Rightarrow> ('w, unstructured) call"
  dc_Delete :: "GroupVersionResource \<Rightarrow> string \<Rightarrow> string \<Rightarrow> ('w, err) io"

record 'w queue =
  q_Add :: "string \<Rightarrow> ('w, unit) io"
  q_AddAfter :: "string \<Rightarrow> duration \<Rightarrow> ('w, unit) io"

text \<open>
  The key functions: \<open>DeletionHandlingMetaNamespaceKeyFunc\<close> on the object of an informer event,
  \<open>MetaNamespaceKeyFunc\<close> on an object, and \<open>SplitMetaNamespaceKey\<close>.
\<close>

record 'e cache_keys =
  ck_DeletionHandlingKey :: "'e \<Rightarrow> go_error + string"
  ck_Key :: "ObjectMeta \<Rightarrow> go_error + string"
  ck_Split :: "string \<Rightarrow> go_error + (string \<times> string)"

text \<open>Their documented behaviour: keys are \<open>namespace/name\<close>, or the name alone.\<close>

definition keys_documented :: "'e cache_keys \<Rightarrow> bool" where
  "keys_documented ck \<longleftrightarrow>
     (\<forall>m. ck_Key ck m = Inr (MetaNamespaceKey (om_Namespace m) (om_Name m))) \<and>
     (\<forall>ns name. CHR ''/'' \<notin> set ns \<longrightarrow> CHR ''/'' \<notin> set name \<longrightarrow>
        ck_Split ck (MetaNamespaceKey ns name) = Inr (ns, name))"

text \<open>An instance, for the event type of object metadata.\<close>

definition example_keys :: "ObjectMeta cache_keys" where
  "example_keys = \<lparr>ck_DeletionHandlingKey = (\<lambda>m. Inr (MetaNamespaceKey (om_Namespace m) (om_Name m))),
     ck_Key = (\<lambda>m. Inr (MetaNamespaceKey (om_Namespace m) (om_Name m))),
     ck_Split = (\<lambda>k. case SplitN 3 (CHR ''/'') k of
        [name] \<Rightarrow> Inr ('''', name)
      | [ns, name] \<Rightarrow> Inr (ns, name)
      | _ \<Rightarrow> Inl (Errorf ''unexpected key format'' None))\<rparr>"

lemma example_keys_documented: "keys_documented example_keys"
proof -
  have "ck_Split example_keys (MetaNamespaceKey ns name) = Inr (ns, name)"
    if "CHR ''/'' \<notin> set ns" "CHR ''/'' \<notin> set name" for ns name
  proof -
    have "SplitN 3 (CHR ''/'') (ns @ CHR ''/'' # name) = [ns, name]"
      using SplitN_sep [OF that(1), of 1 name] SplitN_no_sep [OF that(2), of 0]
      by (simp only: numeral_3_eq_3 One_nat_def)
    moreover have "SplitN 3 (CHR ''/'') name = [name]"
      using SplitN_no_sep [OF that(2), of 1] by (simp only: numeral_3_eq_3 One_nat_def)
    ultimately show ?thesis by (simp add: example_keys_def MetaNamespaceKey_def)
  qed
  then show ?thesis by (simp add: keys_documented_def example_keys_def)
qed

section \<open>Finalizers\<close>

definition set_finalizers :: "string list \<Rightarrow> unstructured \<Rightarrow> unstructured" where
  "set_finalizers fs obj = obj\<lparr>u_Meta := (u_Meta obj)\<lparr>om_Finalizers := fs\<rparr>\<rparr>"

definition has_finalizer :: "unstructured \<Rightarrow> bool" where
  "has_finalizer obj \<longleftrightarrow> DownstreamFinalizer \<in> set (om_Finalizers (u_Meta obj))"

section \<open>Sequencing\<close>

text \<open>\<open>for _, x := range xs { f(x) }\<close>, where the body has no early exit.\<close>

fun for_each :: "('a \<Rightarrow> ('w, unit) io) \<Rightarrow> 'a list \<Rightarrow> ('w, unit) io" where
  "for_each f [] = State_Monad.return ()"
| "for_each f (x # xs) = do { f x; for_each f xs }"

lemma preserves_for_each [preserves_intros]:
  "(\<And>x. x \<in> set xs \<Longrightarrow> preserves P (f x)) \<Longrightarrow> preserves P (for_each f xs)"
  by (induction xs) (auto intro: preserves_intros)

text \<open>Adding keys to a queue whose content is the world.\<close>

definition list_queue :: "string list queue" where
  "list_queue = \<lparr>q_Add = (\<lambda>k. State (\<lambda>q. ((), q @ [k]))), q_AddAfter = (\<lambda>k d. State (\<lambda>q. ((), q @ [k])))\<rparr>"

lemma for_each_list_queue:
  "run_state (for_each (\<lambda>x. q_Add list_queue (f x)) xs) q = ((), q @ map f xs)"
  by (induction xs arbitrary: q) (simp_all add: list_queue_def)

text \<open>A client whose requests succeed and store nothing, for concrete instances.\<close>

definition unit_client :: "unit dynamic_client" where
  "unit_client = \<lparr>
     dc_Get = (\<lambda>_ _ _. State_Monad.return (Inl (StatusError ReasonNotFound ''''))),
     dc_Create = (\<lambda>_ _ u. State_Monad.return (Inr u)),
     dc_Update = (\<lambda>_ _ u. State_Monad.return (Inr u)),
     dc_UpdateStatus = (\<lambda>_ _ u. State_Monad.return (Inr u)),
     dc_Apply = (\<lambda>_ _ _ u. State_Monad.return (Inr u)),
     dc_Delete = (\<lambda>_ _ _. State_Monad.return None)\<rparr>"

end
