(* ===== verification/Cluster_Scoped.thy ===== *)
theory Cluster_Scoped
  imports Kube_Client
begin

text \<open>
  Translation of cluster-scoped objects between consumer and provider
  (\<open>cluster-scoped/utils.go\<close>): upstream names carry the consumer's cluster namespace as a prefix,
  upstream objects an annotation and an owner reference that name it. A function that mutates its
  argument returns the new object.
\<close>

section \<open>Definitions\<close>

definition ClusterNsAnnotationKey :: string where
  "ClusterNsAnnotationKey = ''kube-bind.io/cluster-namespace''"

definition Prepend :: "string \<Rightarrow> string \<Rightarrow> string" where
  "Prepend name clusterNs = clusterNs @ ''-'' @ name"

definition Behead :: "string \<Rightarrow> string \<Rightarrow> string" where
  "Behead name clusterNs = TrimPrefix name (clusterNs @ ''-'')"

definition set_name :: "string \<Rightarrow> unstructured \<Rightarrow> unstructured" where
  "set_name n obj = obj\<lparr>u_Meta := (u_Meta obj)\<lparr>om_Name := n\<rparr>\<rparr>"

definition set_annotations :: "(string, string) fmap \<Rightarrow> unstructured \<Rightarrow> unstructured" where
  "set_annotations a obj = obj\<lparr>u_Meta := (u_Meta obj)\<lparr>om_Annotations := a\<rparr>\<rparr>"

definition set_ownerReferences :: "OwnerReference list \<Rightarrow> unstructured \<Rightarrow> unstructured" where
  "set_ownerReferences rs obj = obj\<lparr>u_Meta := (u_Meta obj)\<lparr>om_OwnerReferences := rs\<rparr>\<rparr>"

definition SwitchToUpstreamName :: "unstructured \<Rightarrow> string \<Rightarrow> unstructured" where
  "SwitchToUpstreamName obj clusterNs = set_name (Prepend (u_Name obj) clusterNs) obj"

definition SwitchToDownstreamName :: "unstructured \<Rightarrow> string \<Rightarrow> unstructured" where
  "SwitchToDownstreamName obj clusterNs = set_name (Behead (u_Name obj) clusterNs) obj"

text \<open>The index of the first owner reference to the namespace.\<close>

fun find_index :: "nat \<Rightarrow> ('a \<Rightarrow> bool) \<Rightarrow> 'a list \<Rightarrow> nat option" where
  "find_index i P [] = None"
| "find_index i P (x # xs) = (if P x then Some i else find_index (Suc i) P xs)"

definition findOwnerReferenceToClusterNs :: "OwnerReference list \<Rightarrow> string \<Rightarrow> nat option" where
  "findOwnerReferenceToClusterNs ors clusterNs =
     find_index 0 (\<lambda>r. or_Kind r = ''Namespace'' \<and> or_Name r = clusterNs) ors"

definition cluster_ns_reference :: "string \<Rightarrow> string \<Rightarrow> OwnerReference" where
  "cluster_ns_reference clusterNs clusterNsUID = \<lparr>or_APIVersion = ''v1'', or_Kind = ''Namespace'',
     or_Name = clusterNs, or_UID = clusterNsUID, or_Controller = None, or_BlockOwnerDeletion = None\<rparr>"

definition mismatch_error :: go_error where
  "mismatch_error = Errorf ''mismatch between existing cluster namespace and given cluster namespace'' None"

definition InjectClusterNs :: "unstructured \<Rightarrow> string \<Rightarrow> string \<Rightarrow> go_error + unstructured" where
  "InjectClusterNs obj clusterNs clusterNsUID =
     (let ans = om_Annotations (u_Meta obj);
          existing = fmlookup ans ClusterNsAnnotationKey;
          ors = om_OwnerReferences (u_Meta obj);
          idx = findOwnerReferenceToClusterNs ors clusterNs
      in if existing \<noteq> None \<and> existing \<noteq> Some clusterNs then Inl mismatch_error
         else if (case idx of Some i \<Rightarrow> or_Name (ors ! i) \<noteq> clusterNs | None \<Rightarrow> False)
           then Inl mismatch_error
         else
           let obj1 = (if existing = None
                       then set_annotations (fmupd ClusterNsAnnotationKey clusterNs ans) obj else obj);
               obj2 = (if idx = None
                       then set_ownerReferences (ors @ [cluster_ns_reference clusterNs clusterNsUID]) obj1
                       else obj1)
           in Inr obj2)"

definition ExtractClusterNs :: "unstructured \<Rightarrow> go_error + string" where
  "ExtractClusterNs obj =
     (case fmlookup (om_Annotations (u_Meta obj)) ClusterNsAnnotationKey of
        None \<Rightarrow> Inl (Errorf ''cluster namespace annotation not found'' None)
      | Some clusterNs \<Rightarrow> Inr clusterNs)"

definition ClearClusterNs :: "unstructured \<Rightarrow> string \<Rightarrow> unstructured" where
  "ClearClusterNs obj clusterNs =
     (let obj1 = set_annotations (fmdrop ClusterNsAnnotationKey (om_Annotations (u_Meta obj))) obj;
          ors = om_OwnerReferences (u_Meta obj)
      in case findOwnerReferenceToClusterNs ors clusterNs of
           Some idx \<Rightarrow> set_ownerReferences (butlast (ors[idx := last ors])) obj1
         | None \<Rightarrow> obj1)"

definition TranslateFromDownstream :: "unstructured \<Rightarrow> string \<Rightarrow> string \<Rightarrow> go_error + unstructured" where
  "TranslateFromDownstream obj clusterNs clusterNsUID =
     (case InjectClusterNs obj clusterNs clusterNsUID of
        Inl e \<Rightarrow> Inl e
      | Inr copy \<Rightarrow> Inr (SwitchToUpstreamName copy clusterNs))"

definition TranslateFromUpstream :: "unstructured \<Rightarrow> go_error + unstructured" where
  "TranslateFromUpstream obj =
     (case ExtractClusterNs obj of
        Inl e \<Rightarrow> Inl e
      | Inr clusterNs \<Rightarrow> Inr (SwitchToDownstreamName (ClearClusterNs obj clusterNs) clusterNs))"

section \<open>Names\<close>

lemma Behead_Prepend [simp]: "Behead (Prepend name ns) ns = name"
  using TrimPrefix_append [of "ns @ ''-''" name] by (simp add: Behead_def Prepend_def)

text \<open>
  \<open>Behead\<close> changes a key exactly if it has the prefix, which is how the controllers tell whether an
  upstream object belongs to their consumer.
\<close>

lemma Behead_changes: "Behead key ns \<noteq> key \<longleftrightarrow> (\<exists>n. key = Prepend n ns)"
  unfolding Behead_def Prepend_def
  by (subst TrimPrefix_changes) (auto simp: HasPrefix_def prefix_def)

section \<open>Objects\<close>

text \<open>An object of the consumer that carries no trace of the translation yet.\<close>

definition untranslated :: "string \<Rightarrow> unstructured \<Rightarrow> bool" where
  "untranslated clusterNs obj \<longleftrightarrow>
     fmlookup (om_Annotations (u_Meta obj)) ClusterNsAnnotationKey = None \<and>
     findOwnerReferenceToClusterNs (om_OwnerReferences (u_Meta obj)) clusterNs = None"

lemma find_index_None: "find_index i P xs = None \<longleftrightarrow> (\<forall>x \<in> set xs. \<not> P x)"
  by (induction xs arbitrary: i) auto

lemma find_index_Some:
  "find_index i P xs = Some j \<Longrightarrow> i \<le> j \<and> j < i + length xs \<and> P (xs ! (j - i))"
proof (induction xs arbitrary: i)
  case (Cons x xs)
  show ?case
  proof (cases "P x")
    case False
    then have "find_index (Suc i) P xs = Some j" using Cons.prems by simp
    then have "Suc i \<le> j" "j < Suc i + length xs" "P (xs ! (j - Suc i))"
      using Cons.IH [of "Suc i"] by simp_all
    moreover have "(x # xs) ! (j - i) = xs ! (j - Suc i)" using \<open>Suc i \<le> j\<close> by (simp add: nth_Cons')
    ultimately show ?thesis by simp
  qed (use Cons.prems in simp)
qed simp

lemma find_index_append:
  "find_index i P xs = None \<Longrightarrow> P x \<Longrightarrow> find_index i P (xs @ [x]) = Some (i + length xs)"
  by (induction xs arbitrary: i) (auto split: if_splits)

text \<open>The second mismatch test of \<open>InjectClusterNs\<close> never fires: the reference was found by name.\<close>

lemma found_reference_name:
  "findOwnerReferenceToClusterNs ors ns = Some i \<Longrightarrow> or_Name (ors ! i) = ns"
  using find_index_Some [of 0 _ ors i] by (auto simp: findOwnerReferenceToClusterNs_def)

lemma InjectClusterNs_untranslated:
  assumes "untranslated ns obj"
  shows "InjectClusterNs obj ns uid = Inr
     (set_ownerReferences (om_OwnerReferences (u_Meta obj) @ [cluster_ns_reference ns uid])
       (set_annotations (fmupd ClusterNsAnnotationKey ns (om_Annotations (u_Meta obj))) obj))"
  using assms by (simp add: InjectClusterNs_def untranslated_def Let_def)

lemma InjectClusterNs_error_iff:
  "(\<exists>e. InjectClusterNs obj ns uid = Inl e) \<longleftrightarrow>
     (\<exists>other. fmlookup (om_Annotations (u_Meta obj)) ClusterNsAnnotationKey = Some other \<and> other \<noteq> ns)"
  by (auto simp: InjectClusterNs_def Let_def found_reference_name split: option.splits if_splits)

lemma TranslateFromDownstream_untranslated:
  assumes "untranslated ns obj"
  shows "\<exists>up. TranslateFromDownstream obj ns uid = Inr up \<and> u_Name up = Prepend (u_Name obj) ns \<and>
     ExtractClusterNs up = Inr ns \<and> u_Fields up = u_Fields obj"
  unfolding TranslateFromDownstream_def InjectClusterNs_untranslated [OF assms]
  by (simp add: SwitchToUpstreamName_def ExtractClusterNs_def u_Name_def set_name_def
      set_ownerReferences_def set_annotations_def)

lemma fmdrop_fmupd_same: "fmlookup m k = None \<Longrightarrow> fmdrop k (fmupd k v m) = m"
  by (rule fmap_ext) auto

lemma translate_round_trip:
  assumes "untranslated ns obj" and "TranslateFromDownstream obj ns uid = Inr up"
  shows "TranslateFromUpstream up = Inr obj"
proof -
  let ?ors = "om_OwnerReferences (u_Meta obj)"
  have idx: "findOwnerReferenceToClusterNs (?ors @ [cluster_ns_reference ns uid]) ns = Some (length ?ors)"
    using assms(1) find_index_append [of 0 _ ?ors "cluster_ns_reference ns uid"]
    by (simp add: untranslated_def findOwnerReferenceToClusterNs_def cluster_ns_reference_def)
  have up: "up = SwitchToUpstreamName
      (set_ownerReferences (?ors @ [cluster_ns_reference ns uid])
        (set_annotations (fmupd ClusterNsAnnotationKey ns (om_Annotations (u_Meta obj))) obj)) ns"
    using assms(2) by (simp add: TranslateFromDownstream_def InjectClusterNs_untranslated [OF assms(1)])
  have "fmlookup (om_Annotations (u_Meta obj)) ClusterNsAnnotationKey = None"
    using assms(1) by (simp add: untranslated_def)
  then show ?thesis
    using idx
    by (simp add: up TranslateFromUpstream_def ExtractClusterNs_def ClearClusterNs_def
        SwitchToUpstreamName_def SwitchToDownstreamName_def u_Name_def set_name_def
        set_ownerReferences_def set_annotations_def fmdrop_fmupd_same butlast_append list_update_append)
qed

section \<open>The contract of the translation\<close>

text \<open>
  What the controllers rely on: translating a plain object up succeeds, and down again gives the
  object back, so distinct objects have distinct images and an image is read back unchanged.
\<close>

locale object_translation =
  fixes up :: "'o \<Rightarrow> 'e + 'o" and down :: "'o \<Rightarrow> 'e + 'o" and plain :: "'o \<Rightarrow> bool"
  assumes up_defined: "plain x \<Longrightarrow> \<exists>y. up x = Inr y"
    and down_up: "plain x \<Longrightarrow> up x = Inr y \<Longrightarrow> down y = Inr x"
begin

lemma up_inj: "plain x \<Longrightarrow> plain x' \<Longrightarrow> up x = up x' \<Longrightarrow> x = x'"
  using up_defined down_up by (metis sum.inject(2))

lemma read_back: "plain x \<Longrightarrow> (case up x of Inl e \<Rightarrow> Inl e | Inr y \<Rightarrow> down y) = Inr x"
  using up_defined [of x] down_up by auto

end

interpretation cst: object_translation "\<lambda>x. TranslateFromDownstream x ns uid" TranslateFromUpstream
    "untranslated ns" for ns uid
proof unfold_locales
  show "\<exists>y. TranslateFromDownstream x ns uid = Inr y" if "untranslated ns x" for x
    using TranslateFromDownstream_untranslated [OF that] by blast
  show "TranslateFromUpstream y = Inr x"
    if "untranslated ns x" and "TranslateFromDownstream x ns uid = Inr y" for x y
    using translate_round_trip that .
qed

text \<open>
  C22. Translating a cluster-scoped consumer object to the provider side and back gives the object
  unchanged, metadata and all, if it carried no annotation and no owner reference of the
  translation before; on the provider side its name has the consumer's prefix, its annotation
  names the consumer's cluster namespace, and its fields other than metadata are the same.
\<close>

theorem cluster_scoped_round_trip:
  assumes "untranslated ns obj"
  shows "\<exists>up. TranslateFromDownstream obj ns uid = Inr up \<and> TranslateFromUpstream up = Inr obj \<and>
    u_Name up = Prepend (u_Name obj) ns \<and> ExtractClusterNs up = Inr ns \<and> u_Fields up = u_Fields obj"
  using TranslateFromDownstream_untranslated [OF assms, of uid] cst.down_up [OF assms, of uid] by auto

theorem cluster_scoped_round_trip_witness:
  "\<exists>up. TranslateFromDownstream (set_name ''foo'' zero_unstructured) ''kube-bind-abc'' ''uid'' = Inr up \<and>
     u_Name up = ''kube-bind-abc-foo'' \<and>
     TranslateFromUpstream up = Inr (set_name ''foo'' zero_unstructured)"
proof -
  have "untranslated ''kube-bind-abc'' (set_name ''foo'' zero_unstructured)"
    by (simp add: untranslated_def set_name_def zero_unstructured_def zero_ObjectMeta_def
        findOwnerReferenceToClusterNs_def)
  from cluster_scoped_round_trip [OF this, of "''uid''"] show ?thesis
    by (auto simp: Prepend_def u_Name_def set_name_def)
qed

text \<open>
  Two upstream names that different consumers are given for their cluster-scoped objects clash
  only if the cluster namespace of one, followed by a dash, is a prefix of the other's; within one
  consumer they never clash.
\<close>

lemma upstream_names_apart:
  assumes "\<not> prefix (ns @ ''-'') ns'" and "\<not> prefix (ns' @ ''-'') ns"
  shows "Prepend n ns = Prepend m ns' \<longleftrightarrow> ns = ns' \<and> n = m"
  using joined_apart [of ns "CHR ''-''" n ns' m] assms by (auto simp: Prepend_def)

end
