(* ===== verification/Spec_Sync.thy ===== *)
theory Spec_Sync
  imports Cluster_Scoped
begin

text \<open>
  The spec controller of the konnector (\<open>serviceexport/spec\<close>): it copies the consumer's objects to
  the provider cluster. \<open>reconciler\<close> is the Go struct of function fields; the fields act on an
  arbitrary world. \<open>new_reconciler\<close> is how \<open>NewController\<close> fills the fields from clients and caches.
\<close>

section \<open>The reconciler\<close>

text \<open>
  \<open>createProviderObject\<close> also returns its argument as the call leaves it: for cluster-scoped objects
  the function translates the object it was given in place.
\<close>

record 'w reconciler =
  providerNamespace :: string
  apiServiceExport :: "APIServiceExport option"
  getServiceNamespace :: "string \<Rightarrow> ('w, APIServiceNamespace) call"
  createServiceNamespace :: "APIServiceNamespace \<Rightarrow> ('w, APIServiceNamespace) call"
  getProviderObject :: "string \<Rightarrow> string \<Rightarrow> ('w, unstructured) call"
  createProviderObject :: "unstructured \<Rightarrow> ('w, (go_error + unstructured) \<times> unstructured) io"
  updateProviderObject :: "unstructured \<Rightarrow> ('w, unstructured) call"
  deleteProviderObject :: "string \<Rightarrow> string \<Rightarrow> ('w, err) io"
  updateConsumerObject :: "unstructured \<Rightarrow> ('w, unstructured) call"
  requeue :: "unstructured \<Rightarrow> duration \<Rightarrow> ('w, err) io"

definition ensureDownstreamFinalizer :: "'w reconciler \<Rightarrow> unstructured \<Rightarrow> ('w, unstructured) call" where
  "ensureDownstreamFinalizer r obj =
     (if \<not> has_finalizer obj
      then updateConsumerObject r
             (set_finalizers (om_Finalizers (u_Meta obj) @ [DownstreamFinalizer]) obj)
      else State_Monad.return (Inr obj))"

definition removeDownstreamFinalizer :: "'w reconciler \<Rightarrow> unstructured \<Rightarrow> ('w, unstructured) call" where
  "removeDownstreamFinalizer r obj =
     (let finalizers = filter (\<lambda>f. f \<noteq> DownstreamFinalizer) (om_Finalizers (u_Meta obj))
      in if has_finalizer obj then updateConsumerObject r (set_finalizers finalizers obj)
         else State_Monad.return (Inr obj))"

text \<open>The copy of a consumer object that is created upstream.\<close>

definition clean_object :: "string \<Rightarrow> unstructured \<Rightarrow> unstructured" where
  "clean_object ns obj =
     RemoveNestedField
       (obj\<lparr>u_Meta := (u_Meta obj)\<lparr>om_UID := '''', om_ResourceVersion := '''', om_Namespace := ns,
          om_ManagedFields := [], om_DeletionTimestamp := None, om_DeletionGracePeriodSeconds := None,
          om_OwnerReferences := [], om_Finalizers := []\<rparr>\<rparr>) ''status''"

text \<open>The upstream object with the spec of the downstream one.\<close>

definition with_spec_of :: "unstructured \<Rightarrow> unstructured \<Rightarrow> unstructured" where
  "with_spec_of obj upstream =
     (case NestedField obj ''spec'' of
        (downstreamSpec, found) \<Rightarrow>
          (let up = (if found then SetNestedField upstream downstreamSpec ''spec''
                     else RemoveNestedField upstream ''spec'')
           in up\<lparr>u_Meta := (u_Meta up)\<lparr>om_ManagedFields := []\<rparr>\<rparr>))"

text \<open>The second half of \<open>reconcile\<close>: the upstream object exists.\<close>

definition sync_existing :: "'w reconciler \<Rightarrow> string \<Rightarrow> unstructured \<Rightarrow> unstructured \<Rightarrow> ('w, err) io" where
  "sync_existing r ns obj upstream =
     (if deleting (u_Meta obj) then
        (if deleting (u_Meta upstream) then State_Monad.return None
         else do {
           d \<leftarrow> deleteProviderObject r ns (u_Name obj);
           (case d of
              Some e \<Rightarrow>
                (if IsNotFound e then do { x \<leftarrow> removeDownstreamFinalizer r obj; State_Monad.return (err_of x) }
                 else State_Monad.return (Some e))
            | None \<Rightarrow> do { x \<leftarrow> removeDownstreamFinalizer r obj; State_Monad.return (err_of x) }) })
      else do {
        o' \<leftarrow> ensureDownstreamFinalizer r obj;
        (case o' of
           Inl e \<Rightarrow> State_Monad.return (Some e)
         | Inr obj' \<Rightarrow>
             (if fst (NestedField obj' ''spec'') = fst (NestedField upstream ''spec'')
              then State_Monad.return None
              else do {
                u \<leftarrow> updateProviderObject r (with_spec_of obj' upstream);
                State_Monad.return (err_of u) })) })"

text \<open>From the lookup of the upstream object on; \<open>ns\<close> is the upstream namespace.\<close>

definition sync_object :: "'w reconciler \<Rightarrow> string \<Rightarrow> unstructured \<Rightarrow> ('w, err) io" where
  "sync_object r ns obj = do {
     g \<leftarrow> getProviderObject r ns (u_Name obj);
     (case g of
        Inr upstream \<Rightarrow> sync_existing r ns obj upstream
      | Inl e \<Rightarrow>
          (if \<not> IsNotFound e then State_Monad.return (Some e)
           else if deleting (u_Meta obj) then do {
             x \<leftarrow> removeDownstreamFinalizer r obj;
             State_Monad.return (err_of x) }
           else do {
             o' \<leftarrow> ensureDownstreamFinalizer r obj;
             (case o' of
                Inl e' \<Rightarrow> State_Monad.return (Some e')
              | Inr obj' \<Rightarrow> do {
                  c \<leftarrow> createProviderObject r (clean_object ns obj');
                  (case c of (created, upstream) \<Rightarrow>
                    (case created of
                       Inl e' \<Rightarrow> (if IsAlreadyExists e' then sync_existing r ns obj' upstream
                                 else State_Monad.return (Some e'))
                     | Inr _ \<Rightarrow> sync_existing r ns obj' upstream)) }) })) }"

definition new_service_namespace :: "'w reconciler \<Rightarrow> APIServiceExport \<Rightarrow> string \<Rightarrow> APIServiceNamespace" where
  "new_service_namespace r export ns =
     \<lparr>sn_Meta = zero_ObjectMeta\<lparr>om_Name := ns, om_Namespace := providerNamespace r,
        om_OwnerReferences := [NewControllerRef (ex_Meta export) SchemeGroupVersion ''APIServiceExport'']\<rparr>,
      sn_StatusNamespace = ''''\<rparr>"

definition reconcile :: "'w reconciler \<Rightarrow> unstructured \<Rightarrow> ('w, err) io" where
  "reconcile r obj =
     (case apiServiceExport r of
        None \<Rightarrow> State_Monad.return (Some (Errorf ''internal error: apiServiceExport is nil'' None))
      | Some export \<Rightarrow>
          (let ns = u_Namespace obj
           in if ns = '''' then sync_object r '''' obj
              else do {
                g \<leftarrow> getServiceNamespace r ns;
                s \<leftarrow> (case g of
                        Inr sn \<Rightarrow> State_Monad.return (Inr sn)
                      | Inl e \<Rightarrow>
                          (if \<not> IsNotFound e then State_Monad.return (Inl e)
                           else createServiceNamespace r (new_service_namespace r export ns)));
                (case s of
                   Inl e \<Rightarrow> State_Monad.return (Some e)
                 | Inr sn \<Rightarrow>
                     (if sn_StatusNamespace sn = '''' then requeue r obj Second
                      else sync_object r (sn_StatusNamespace sn) obj)) }))"

section \<open>The controller\<close>

text \<open>
  What \<open>NewController\<close> is given: clients, caches and the queue. Informers are read through \<open>Get\<close> and
  \<open>ByIndex\<close> calls.
\<close>

record ('w, 'e) controller =
  c_apiServiceExport :: "APIServiceExport option"
  c_gvr :: GroupVersionResource
  c_providerNamespace :: string
  c_providerNamespaceUID :: string
  c_consumerClient :: "'w dynamic_client"
  c_providerClient :: "'w dynamic_client"
  c_consumerLister_Get :: "string \<Rightarrow> string \<Rightarrow> ('w, unstructured) call"
  c_consumerIndexer_ByNamespace :: "string \<Rightarrow> ('w, ObjectMeta list) call"
  c_providerInformer_Get :: "string \<Rightarrow> string \<Rightarrow> ('w, unstructured) call"
  c_serviceNamespace_Get :: "string \<Rightarrow> string \<Rightarrow> ('w, APIServiceNamespace) call"
  c_serviceNamespace_Create :: "string \<Rightarrow> APIServiceNamespace \<Rightarrow> ('w, APIServiceNamespace) call"
  c_serviceNamespace_ByStatusNamespace :: "string \<Rightarrow> ('w, APIServiceNamespace list) call"
  c_queue :: "'w queue"
  c_keys :: "'e cache_keys"

definition get_provider_object :: "('w, 'e) controller \<Rightarrow> string \<Rightarrow> string \<Rightarrow> ('w, unstructured) call" where
  "get_provider_object c ns name =
     (if ns \<noteq> '''' then c_providerInformer_Get c ns name
      else do {
        got \<leftarrow> c_providerInformer_Get c ns (Prepend name (c_providerNamespace c));
        State_Monad.return (case got of Inl e \<Rightarrow> Inl e | Inr obj \<Rightarrow> TranslateFromUpstream obj) })"

definition create_provider_object ::
    "('w, 'e) controller \<Rightarrow> unstructured \<Rightarrow> ('w, (go_error + unstructured) \<times> unstructured) io" where
  "create_provider_object c obj =
     (if u_Namespace obj \<noteq> '''' then
        (case InjectClusterNs obj (c_providerNamespace c) (c_providerNamespaceUID c) of
           Inl e \<Rightarrow> State_Monad.return (Inl e, obj)
         | Inr copy \<Rightarrow> do {
             res \<leftarrow> dc_Create (c_providerClient c) (c_gvr c) (u_Namespace copy) copy;
             State_Monad.return (res, obj) })
      else
        (case TranslateFromDownstream obj (c_providerNamespace c) (c_providerNamespaceUID c) of
           Inl e \<Rightarrow> State_Monad.return (Inl e, obj)
         | Inr obj' \<Rightarrow> do {
             res \<leftarrow> dc_Create (c_providerClient c) (c_gvr c) (u_Namespace obj') obj';
             State_Monad.return
               (case res of Inl e \<Rightarrow> Inl e | Inr created \<Rightarrow> TranslateFromUpstream created, obj') }))"

definition update_provider_object :: "('w, 'e) controller \<Rightarrow> unstructured \<Rightarrow> ('w, unstructured) call" where
  "update_provider_object c obj =
     (let ns = u_Namespace obj
      in case (if ns = '''' then TranslateFromDownstream obj (c_providerNamespace c) (c_providerNamespaceUID c)
               else Inr obj) of
           Inl e \<Rightarrow> State_Monad.return (Inl e)
         | Inr obj' \<Rightarrow> do {
             patched \<leftarrow> dc_Apply (c_providerClient c) (c_gvr c) (u_Namespace obj') (u_Name obj') obj';
             State_Monad.return
               (case patched of
                  Inl e \<Rightarrow> Inl e
                | Inr p \<Rightarrow> (if ns = '''' then TranslateFromUpstream p else Inr p)) })"

definition delete_provider_object :: "('w, 'e) controller \<Rightarrow> string \<Rightarrow> string \<Rightarrow> ('w, err) io" where
  "delete_provider_object c ns name =
     dc_Delete (c_providerClient c) (c_gvr c) ns
       (if ns = '''' then Prepend name (c_providerNamespace c) else name)"

definition requeue_object :: "('w, 'e) controller \<Rightarrow> unstructured \<Rightarrow> duration \<Rightarrow> ('w, err) io" where
  "requeue_object c obj after =
     (case ck_Key (c_keys c) (u_Meta obj) of
        Inl e \<Rightarrow> State_Monad.return (Some e)
      | Inr key \<Rightarrow> do { q_AddAfter (c_queue c) key after; State_Monad.return None })"

definition new_reconciler :: "('w, 'e) controller \<Rightarrow> 'w reconciler" where
  "new_reconciler c = \<lparr>
     providerNamespace = c_providerNamespace c,
     apiServiceExport = c_apiServiceExport c,
     getServiceNamespace = (\<lambda>name. c_serviceNamespace_Get c (c_providerNamespace c) name),
     createServiceNamespace = (\<lambda>sn. c_serviceNamespace_Create c (c_providerNamespace c) sn),
     getProviderObject = get_provider_object c,
     createProviderObject = create_provider_object c,
     updateProviderObject = update_provider_object c,
     deleteProviderObject = delete_provider_object c,
     updateConsumerObject = (\<lambda>obj. dc_Update (c_consumerClient c) (c_gvr c) (u_Namespace obj) obj),
     requeue = requeue_object c\<rparr>"

definition enqueueConsumer :: "('w, 'e) controller \<Rightarrow> 'e \<Rightarrow> ('w, unit) io" where
  "enqueueConsumer c obj =
     (case ck_DeletionHandlingKey (c_keys c) obj of
        Inl _ \<Rightarrow> State_Monad.return ()
      | Inr key \<Rightarrow> q_Add (c_queue c) key)"

definition enqueueProvider :: "('w, 'e) controller \<Rightarrow> 'e \<Rightarrow> ('w, unit) io" where
  "enqueueProvider c obj =
     (case ck_DeletionHandlingKey (c_keys c) obj of
        Inl _ \<Rightarrow> State_Monad.return ()
      | Inr upstreamKey \<Rightarrow>
          (case ck_Split (c_keys c) upstreamKey of
             Inl _ \<Rightarrow> State_Monad.return ()
           | Inr (ns, name) \<Rightarrow>
               (if ns \<noteq> '''' then do {
                  sns \<leftarrow> c_serviceNamespace_ByStatusNamespace c ns;
                  (case sns of
                     Inl _ \<Rightarrow> State_Monad.return ()
                   | Inr objs \<Rightarrow>
                       (case List.find (\<lambda>sn. om_Namespace (sn_Meta sn) = c_providerNamespace c) objs of
                          None \<Rightarrow> State_Monad.return ()
                        | Some sn \<Rightarrow> q_Add (c_queue c) (om_Name (sn_Meta sn) @ ''/'' @ name))) }
                else if Behead upstreamKey (c_providerNamespace c) = upstreamKey
                then State_Monad.return ()
                else q_Add (c_queue c) (Behead upstreamKey (c_providerNamespace c)))))"

definition enqueueServiceNamespace :: "('w, 'e) controller \<Rightarrow> 'e \<Rightarrow> ('w, unit) io" where
  "enqueueServiceNamespace c obj =
     (case ck_DeletionHandlingKey (c_keys c) obj of
        Inl _ \<Rightarrow> State_Monad.return ()
      | Inr snKey \<Rightarrow>
          (case ck_Split (c_keys c) snKey of
             Inl _ \<Rightarrow> State_Monad.return ()
           | Inr (ns, name) \<Rightarrow>
               (if ns \<noteq> c_providerNamespace c then State_Monad.return ()
                else do {
                  objs \<leftarrow> c_consumerIndexer_ByNamespace c name;
                  (case objs of
                     Inl _ \<Rightarrow> State_Monad.return ()
                   | Inr ms \<Rightarrow>
                       for_each (\<lambda>m. case ck_Key (c_keys c) m of
                           Inl _ \<Rightarrow> State_Monad.return ()
                         | Inr key \<Rightarrow> q_Add (c_queue c) key) ms) })))"

definition process :: "('w, 'e) controller \<Rightarrow> string \<Rightarrow> ('w, err) io" where
  "process c key =
     (case ck_Split (c_keys c) key of
        Inl _ \<Rightarrow> State_Monad.return None
      | Inr (ns, name) \<Rightarrow> do {
          got \<leftarrow> c_consumerLister_Get c ns name;
          (case got of
             Inl e \<Rightarrow> State_Monad.return (if IsNotFound e then None else Some e)
           | Inr obj \<Rightarrow> reconcile (new_reconciler c) obj) })"

section \<open>The calls of a reconciliation\<close>

datatype event =
    EvGetServiceNamespace string "go_error + APIServiceNamespace"
  | EvCreateServiceNamespace APIServiceNamespace "go_error + APIServiceNamespace"
  | EvGet string string "go_error + unstructured"
  | EvCreate unstructured "go_error + unstructured" unstructured
  | EvUpdate unstructured "go_error + unstructured"
  | EvDelete string string err
  | EvUpdateConsumer unstructured "go_error + unstructured"
  | EvRequeue unstructured duration err

definition traced :: "'w reconciler \<Rightarrow> ('w \<times> event list) reconciler" where
  "traced r = \<lparr>
     providerNamespace = providerNamespace r,
     apiServiceExport = apiServiceExport r,
     getServiceNamespace = (\<lambda>n. logged (EvGetServiceNamespace n) (getServiceNamespace r n)),
     createServiceNamespace = (\<lambda>sn. logged (EvCreateServiceNamespace sn) (createServiceNamespace r sn)),
     getProviderObject = (\<lambda>ns n. logged (EvGet ns n) (getProviderObject r ns n)),
     createProviderObject = (\<lambda>u. logged (\<lambda>(res, u'). EvCreate u res u') (createProviderObject r u)),
     updateProviderObject = (\<lambda>u. logged (EvUpdate u) (updateProviderObject r u)),
     deleteProviderObject = (\<lambda>ns n. logged (EvDelete ns n) (deleteProviderObject r ns n)),
     updateConsumerObject = (\<lambda>u. logged (EvUpdateConsumer u) (updateConsumerObject r u)),
     requeue = (\<lambda>u d. logged (EvRequeue u d) (requeue r u d))\<rparr>"

lemma spec_traced_simps [simp]:
  "providerNamespace (traced r) = providerNamespace r"
  "apiServiceExport (traced r) = apiServiceExport r"
  "getServiceNamespace (traced r) n = logged (EvGetServiceNamespace n) (getServiceNamespace r n)"
  "createServiceNamespace (traced r) sn = logged (EvCreateServiceNamespace sn) (createServiceNamespace r sn)"
  "getProviderObject (traced r) ns n = logged (EvGet ns n) (getProviderObject r ns n)"
  "createProviderObject (traced r) u = logged (\<lambda>(res, u'). EvCreate u res u') (createProviderObject r u)"
  "updateProviderObject (traced r) u = logged (EvUpdate u) (updateProviderObject r u)"
  "deleteProviderObject (traced r) ns n = logged (EvDelete ns n) (deleteProviderObject r ns n)"
  "updateConsumerObject (traced r) u = logged (EvUpdateConsumer u) (updateConsumerObject r u)"
  "requeue (traced r) u d = logged (EvRequeue u d) (requeue r u d)"
  by (simp_all add: traced_def)

text \<open>
  What a history of calls says: the namespace upstream that belongs to the consumer object, the
  states of the consumer object the reconciler has seen, and the states of the provider object.
\<close>

definition upstream_namespace :: "unstructured \<Rightarrow> event list \<Rightarrow> string \<Rightarrow> bool" where
  "upstream_namespace obj h ns \<longleftrightarrow>
     (if u_Namespace obj = '''' then ns = ''''
      else ns \<noteq> '''' \<and> (\<exists>sn. sn_StatusNamespace sn = ns \<and>
             (EvGetServiceNamespace (u_Namespace obj) (Inr sn) \<in> set h \<or>
              (\<exists>sn'. om_Name (sn_Meta sn') = u_Namespace obj \<and>
                     EvCreateServiceNamespace sn' (Inr sn) \<in> set h))))"

definition consumer_state :: "unstructured \<Rightarrow> event list \<Rightarrow> unstructured \<Rightarrow> bool" where
  "consumer_state obj h x \<longleftrightarrow> x = obj \<or> (\<exists>u. EvUpdateConsumer u (Inr x) \<in> set h)"

definition provider_state :: "event list \<Rightarrow> string \<Rightarrow> unstructured \<Rightarrow> bool" where
  "provider_state h ns up \<longleftrightarrow> (\<exists>n. EvGet ns n (Inr up) \<in> set h) \<or>
     (\<exists>u res. EvCreate u res up \<in> set h \<and> u_Namespace u = ns \<and>
        (case res of Inl e \<Rightarrow> IsAlreadyExists e | Inr _ \<Rightarrow> True))"

definition provider_gone :: "event list \<Rightarrow> string \<Rightarrow> string \<Rightarrow> bool" where
  "provider_gone h ns n \<longleftrightarrow> (\<exists>e. EvGet ns n (Inl e) \<in> set h \<and> IsNotFound e) \<or>
     EvDelete ns n None \<in> set h \<or> (\<exists>e. EvDelete ns n (Some e) \<in> set h \<and> IsNotFound e)"

text \<open>
  The policy of the spec controller: which call it may make after which history.

  \<^item> A service namespace is created only if the consumer namespace has none.
  \<^item> An upstream object is created only if there is none, in the upstream namespace, as a cleaned
    copy of a consumer object that is not being deleted and that carries the finalizer.
  \<^item> An upstream object is updated only if its spec differs from the consumer's, and only its spec.
  \<^item> An upstream object is deleted only if the consumer object is being deleted and it is not.
  \<^item> The consumer object is only written to add the finalizer while it is not being deleted, or to
    remove it while it is, after the upstream object is known to be gone or told to go.
\<close>

fun policy :: "'w reconciler \<Rightarrow> unstructured \<Rightarrow> event list \<Rightarrow> event \<Rightarrow> bool" where
  "policy r obj h (EvGetServiceNamespace n _) \<longleftrightarrow> n = u_Namespace obj"
| "policy r obj h (EvCreateServiceNamespace sn _) \<longleftrightarrow>
     (\<exists>e. EvGetServiceNamespace (u_Namespace obj) (Inl e) \<in> set h \<and> IsNotFound e) \<and>
     (\<exists>export. apiServiceExport r = Some export \<and> sn = new_service_namespace r export (u_Namespace obj))"
| "policy r obj h (EvGet ns n _) \<longleftrightarrow> upstream_namespace obj h ns \<and> n = u_Name obj"
| "policy r obj h (EvCreate u _ _) \<longleftrightarrow>
     (\<exists>ns e x. upstream_namespace obj h ns \<and> EvGet ns (u_Name obj) (Inl e) \<in> set h \<and> IsNotFound e \<and>
        \<not> deleting (u_Meta obj) \<and> u = clean_object ns x \<and>
        (x = obj \<and> has_finalizer obj \<or>
         EvUpdateConsumer (set_finalizers (om_Finalizers (u_Meta obj) @ [DownstreamFinalizer]) obj) (Inr x)
           \<in> set h))"
| "policy r obj h (EvUpdate u _) \<longleftrightarrow>
     (\<exists>ns x up. upstream_namespace obj h ns \<and> consumer_state obj h x \<and> provider_state h ns up \<and>
        fst (NestedField x ''spec'') \<noteq> fst (NestedField up ''spec'') \<and> u = with_spec_of x up)"
| "policy r obj h (EvDelete ns n _) \<longleftrightarrow>
     (\<exists>x up. upstream_namespace obj h ns \<and> consumer_state obj h x \<and> deleting (u_Meta x) \<and> n = u_Name x \<and>
        provider_state h ns up \<and> \<not> deleting (u_Meta up))"
| "policy r obj h (EvUpdateConsumer u _) \<longleftrightarrow>
     (\<exists>x. consumer_state obj h x \<and>
        (if deleting (u_Meta x)
         then u = set_finalizers (filter (\<lambda>f. f \<noteq> DownstreamFinalizer) (om_Finalizers (u_Meta x))) x \<and>
              (\<exists>ns. upstream_namespace obj h ns \<and> provider_gone h ns (u_Name x))
         else u = set_finalizers (om_Finalizers (u_Meta x) @ [DownstreamFinalizer]) x \<and> \<not> has_finalizer x))"
| "policy r obj h (EvRequeue u d _) \<longleftrightarrow> u = obj \<and> d = Second"

lemma history_mono [simp]:
  "upstream_namespace obj h ns \<Longrightarrow> upstream_namespace obj (h @ h') ns"
  "consumer_state obj h x \<Longrightarrow> consumer_state obj (h @ h') x"
  "provider_state h ns up \<Longrightarrow> provider_state (h @ h') ns up"
  by (auto simp: upstream_namespace_def consumer_state_def provider_state_def split: if_splits)

lemma history_last [simp]:
  "consumer_state obj (h @ [EvUpdateConsumer u (Inr x)]) x"
  "consumer_state obj h obj"
  "provider_state (h @ [EvGet ns n (Inr up)]) ns up"
  "provider_gone (h @ [EvDelete ns n None]) ns n"
  "IsNotFound e \<Longrightarrow> provider_gone (h @ [EvDelete ns n (Some e)]) ns n"
  "IsNotFound e \<Longrightarrow> provider_gone (h @ [EvGet ns n (Inl e)]) ns n"
  by (auto simp: consumer_state_def provider_state_def provider_gone_def)

lemma history_created [simp]:
  "u_Namespace u = ns \<Longrightarrow> provider_state (h @ [EvCreate u (Inr y) up]) ns up"
  "u_Namespace u = ns \<Longrightarrow> IsAlreadyExists e \<Longrightarrow> provider_state (h @ [EvCreate u (Inl e) up]) ns up"
  unfolding provider_state_def by (rule disjI2, rule exI [of _ u], force)+

lemma u_Namespace_clean [simp]: "u_Namespace (clean_object ns x) = ns"
  by (simp add: clean_object_def u_Namespace_def)

lemmas finalizer_defs = ensureDownstreamFinalizer_def removeDownstreamFinalizer_def Let_def

lemma new_service_namespace_traced [simp]:
  "new_service_namespace (traced r) = new_service_namespace r"
  by (intro ext) (simp add: new_service_namespace_def)

lemma new_service_namespace_Name [simp]: "om_Name (sn_Meta (new_service_namespace r ex ns)) = ns"
  by (simp add: new_service_namespace_def)

text \<open>How each call of the second half is justified; \<open>ns\<close> is the upstream namespace.\<close>

lemma spec_policy_intros:
  "consumer_state obj h x \<Longrightarrow> deleting (u_Meta x) \<Longrightarrow> upstream_namespace obj h ns \<Longrightarrow>
   provider_gone h ns (u_Name x) \<Longrightarrow>
   policy r obj h (EvUpdateConsumer
     (set_finalizers (filter (\<lambda>f. f \<noteq> DownstreamFinalizer) (om_Finalizers (u_Meta x))) x) res)"
  "consumer_state obj h x \<Longrightarrow> \<not> deleting (u_Meta x) \<Longrightarrow> \<not> has_finalizer x \<Longrightarrow>
   policy r obj h (EvUpdateConsumer
     (set_finalizers (om_Finalizers (u_Meta x) @ [DownstreamFinalizer]) x) res)"
  "upstream_namespace obj h ns \<Longrightarrow> consumer_state obj h x \<Longrightarrow> provider_state h ns up \<Longrightarrow>
   fst (NestedField x ''spec'') \<noteq> fst (NestedField up ''spec'') \<Longrightarrow>
   policy r obj h (EvUpdate (with_spec_of x up) res')"
  by auto

lemma policy_delete:
  "upstream_namespace obj h ns \<Longrightarrow> consumer_state obj h x \<Longrightarrow> deleting (u_Meta x) \<Longrightarrow>
   provider_state h ns up \<Longrightarrow> \<not> deleting (u_Meta up) \<Longrightarrow> policy r obj h (EvDelete ns (u_Name x) d)"
  by auto

lemma policy_create:
  "upstream_namespace obj h ns \<Longrightarrow> EvGet ns (u_Name obj) (Inl e) \<in> set h \<Longrightarrow> IsNotFound e \<Longrightarrow>
   \<not> deleting (u_Meta obj) \<Longrightarrow> has_finalizer obj \<Longrightarrow> policy r obj h (EvCreate (clean_object ns obj) res u')"
  "upstream_namespace obj h ns \<Longrightarrow> EvGet ns (u_Name obj) (Inl e) \<in> set h \<Longrightarrow> IsNotFound e \<Longrightarrow>
   \<not> deleting (u_Meta obj) \<Longrightarrow>
   EvUpdateConsumer (set_finalizers (om_Finalizers (u_Meta obj) @ [DownstreamFinalizer]) obj) (Inr x)
     \<in> set h \<Longrightarrow>
   policy r obj h (EvCreate (clean_object ns x) res u')"
  by auto

lemma sync_existing_policy:
  assumes "guarded (policy r obj) [] tr" and "upstream_namespace obj tr ns"
    and "consumer_state obj tr x" and "provider_state tr ns up"
  shows "wp (sync_existing (traced r) ns x up) (\<lambda>_ (w, tr). guarded (policy r obj) [] tr) (w, tr)"
  using assms unfolding sync_existing_def finalizer_defs spec_traced_simps
  by (intro wp_intros) (auto simp del: append_assoc policy.simps
      intro!: spec_policy_intros(1,3) [where ns = ns] spec_policy_intros(2) policy_delete [where up = up])

lemma sync_object_policy:
  assumes "guarded (policy r obj) [] tr" and "upstream_namespace obj tr ns"
  shows "wp (sync_object (traced r) ns obj) (\<lambda>_ (w, tr). guarded (policy r obj) [] tr) (w, tr)"
  using assms unfolding sync_object_def finalizer_defs spec_traced_simps
  by (intro wp_intros sync_existing_policy) (auto simp del: append_assoc policy.simps(4-7)
      intro!: spec_policy_intros(1,3) [where ns = ns] spec_policy_intros(2) intro: policy_create)

text \<open>
  What a reconciliation that returns no error has achieved: it is queued again because the
  upstream namespace is not ready; or the consumer object is being deleted and so is the upstream
  one, or the upstream one is gone and the consumer object free of the finalizer; or the consumer
  object is not being deleted and carries the finalizer, and the upstream object, as last seen, has
  its spec or was updated to it.
\<close>

definition finalized :: "event list \<Rightarrow> unstructured \<Rightarrow> unstructured \<Rightarrow> bool" where
  "finalized h z x \<longleftrightarrow> \<not> deleting (u_Meta z) \<and>
     (x = z \<and> has_finalizer z \<or>
      EvUpdateConsumer (set_finalizers (om_Finalizers (u_Meta z) @ [DownstreamFinalizer]) z) (Inr x) \<in> set h)"

definition spec_done :: "unstructured \<Rightarrow> event list \<Rightarrow> bool" where
  "spec_done obj tr \<longleftrightarrow>
     EvRequeue obj Second None \<in> set tr \<or>
     (\<exists>ns x. upstream_namespace obj tr ns \<and> consumer_state obj tr x \<and> deleting (u_Meta x) \<and>
        ((\<exists>up. provider_state tr ns up \<and> deleting (u_Meta up)) \<or>
         provider_gone tr ns (u_Name x) \<and>
         (has_finalizer x \<longrightarrow> (\<exists>y. EvUpdateConsumer
            (set_finalizers (filter (\<lambda>f. f \<noteq> DownstreamFinalizer) (om_Finalizers (u_Meta x))) x)
            (Inr y) \<in> set tr)))) \<or>
     (\<exists>ns z x up. upstream_namespace obj tr ns \<and> consumer_state obj tr z \<and> finalized tr z x \<and>
        provider_state tr ns up \<and>
        (fst (NestedField x ''spec'') = fst (NestedField up ''spec'') \<or>
         (\<exists>y. EvUpdate (with_spec_of x up) (Inr y) \<in> set tr)))"

lemma provider_gone_mono [simp]: "provider_gone h ns n \<Longrightarrow> provider_gone (h @ h') ns n"
  by (auto simp: provider_gone_def)

lemma finalized_facts [simp]:
  "finalized h z x \<Longrightarrow> finalized (h @ h') z x"
  "\<not> deleting (u_Meta x) \<Longrightarrow> has_finalizer x \<Longrightarrow> finalized h x x"
  "\<not> deleting (u_Meta z) \<Longrightarrow> finalized (h @ [EvUpdateConsumer
     (set_finalizers (om_Finalizers (u_Meta z) @ [DownstreamFinalizer]) z) (Inr x)]) z x"
  by (auto simp: finalized_def)

lemma settled_intros:
  "EvRequeue obj Second None \<in> set tr \<Longrightarrow> spec_done obj tr"
  "upstream_namespace obj tr ns \<Longrightarrow> consumer_state obj tr x \<Longrightarrow> deleting (u_Meta x) \<Longrightarrow>
     provider_state tr ns up \<Longrightarrow> deleting (u_Meta up) \<Longrightarrow> spec_done obj tr"
  "upstream_namespace obj tr ns \<Longrightarrow> consumer_state obj tr x \<Longrightarrow> deleting (u_Meta x) \<Longrightarrow>
     provider_gone tr ns (u_Name x) \<Longrightarrow> \<not> has_finalizer x \<Longrightarrow> spec_done obj tr"
  "upstream_namespace obj tr ns \<Longrightarrow> consumer_state obj tr x \<Longrightarrow> deleting (u_Meta x) \<Longrightarrow>
     provider_gone tr ns (u_Name x) \<Longrightarrow> EvUpdateConsumer
        (set_finalizers (filter (\<lambda>f. f \<noteq> DownstreamFinalizer) (om_Finalizers (u_Meta x))) x) (Inr y)
        \<in> set tr \<Longrightarrow> spec_done obj tr"
  "fst (NestedField x ''spec'') = fst (NestedField up ''spec'') \<Longrightarrow> upstream_namespace obj tr ns \<Longrightarrow>
     consumer_state obj tr z \<Longrightarrow> finalized tr z x \<Longrightarrow> provider_state tr ns up \<Longrightarrow> spec_done obj tr"
  unfolding spec_done_def by blast+

lemma settled_update:
  assumes "upstream_namespace obj h ns" and "consumer_state obj h z" and "finalized h z x"
    and "provider_state h ns up"
  shows "spec_done obj (h @ [EvUpdate (with_spec_of x up) (Inr y)])"
  unfolding spec_done_def
  by (rule disjI2, rule disjI2, rule exI [of _ ns], rule exI [of _ z],
      rule exI [of _ x], rule exI [of _ up]) (auto simp: assms)

lemma sync_existing_settled:
  assumes "upstream_namespace obj tr ns" and "consumer_state obj tr x" and "provider_state tr ns up"
  shows "wp (sync_existing (traced r) ns x up) (\<lambda>res (w, tr). res = None \<longrightarrow> spec_done obj tr) (w, tr)"
  using assms unfolding sync_existing_def finalizer_defs spec_traced_simps
  by (intro wp_intros) (auto simp del: append_assoc intro: settled_intros(2-4) [where ns = ns and x = x]
      settled_intros(5) [where ns = ns and up = up and z = x]
      settled_update [where ns = ns and z = x])

lemma sync_object_settled:
  assumes "upstream_namespace obj tr ns"
  shows "wp (sync_object (traced r) ns obj) (\<lambda>res (w, tr). res = None \<longrightarrow> spec_done obj tr) (w, tr)"
  using assms unfolding sync_object_def finalizer_defs spec_traced_simps
  by (intro wp_intros sync_existing_settled)
    (auto simp del: append_assoc intro: settled_intros(3,4) [where ns = ns and x = obj])

text \<open>
  The same field by field, without the functions of the code. \<open>spec_of\<close> reads a missing spec as nil,
  as the comparison of the code does.
\<close>

definition spec_of :: "unstructured \<Rightarrow> json" where
  "spec_of u = (case fmlookup (u_Fields u) ''spec'' of Some v \<Rightarrow> v | None \<Rightarrow> JNull)"

definition updated_spec :: "unstructured \<Rightarrow> unstructured \<Rightarrow> unstructured \<Rightarrow> bool" where
  "updated_spec x up u \<longleftrightarrow> u_APIVersion u = u_APIVersion up \<and> u_Kind u = u_Kind up \<and>
     u_Meta u = (u_Meta up)\<lparr>om_ManagedFields := []\<rparr> \<and>
     (\<forall>k. fmlookup (u_Fields u) k = (if k = ''spec'' then fmlookup (u_Fields x) k else fmlookup (u_Fields up) k))"

definition with_finalizers :: "(string list \<Rightarrow> string list) \<Rightarrow> unstructured \<Rightarrow> unstructured" where
  "with_finalizers f x = x\<lparr>u_Meta := (u_Meta x)\<lparr>om_Finalizers := f (om_Finalizers (u_Meta x))\<rparr>\<rparr>"

definition seen_upstream :: "event list \<Rightarrow> string \<Rightarrow> unstructured \<Rightarrow> bool" where
  "seen_upstream tr ns up \<longleftrightarrow> (\<exists>n. EvGet ns n (Inr up) \<in> set tr) \<or>
     (\<exists>u r. EvCreate u (Inr r) up \<in> set tr \<and> om_Namespace (u_Meta u) = ns)"

definition settled :: "unstructured \<Rightarrow> event list \<Rightarrow> bool" where
  "settled obj tr \<longleftrightarrow>
     EvRequeue obj Second None \<in> set tr \<or>
     (\<exists>ns x. upstream_namespace obj tr ns \<and> consumer_state obj tr x \<and> deleting (u_Meta x) \<and>
        ((\<exists>up. seen_upstream tr ns up \<and> deleting (u_Meta up)) \<or>
         provider_gone tr ns (om_Name (u_Meta x)) \<and>
         (''kubebind.io/syncer'' \<in> set (om_Finalizers (u_Meta x)) \<longrightarrow> (\<exists>y. EvUpdateConsumer
            (with_finalizers (filter (\<lambda>f. f \<noteq> ''kubebind.io/syncer'')) x) (Inr y) \<in> set tr)))) \<or>
     (\<exists>ns z x up. upstream_namespace obj tr ns \<and> consumer_state obj tr z \<and> \<not> deleting (u_Meta z) \<and>
        (x = z \<and> ''kubebind.io/syncer'' \<in> set (om_Finalizers (u_Meta z)) \<or>
         EvUpdateConsumer (with_finalizers (\<lambda>fs. fs @ [''kubebind.io/syncer'']) z) (Inr x) \<in> set tr) \<and>
        seen_upstream tr ns up \<and>
        (spec_of x = spec_of up \<or> (\<exists>u y. EvUpdate u (Inr y) \<in> set tr \<and> updated_spec x up u))) \<or>
     (\<exists>u e up. EvCreate u (Inl e) up \<in> set tr \<and> IsAlreadyExists e)"

lemma spec_of_nested: "fst (NestedField u ''spec'') = spec_of u"
  by (simp add: NestedField_def spec_of_def split: option.split)

lemma updated_spec_of: "updated_spec x up (with_spec_of x up)"
  by (simp add: updated_spec_def with_spec_of_def NestedField_def SetNestedField_def RemoveNestedField_def
      split: option.split)

lemma has_finalizer_iff: "has_finalizer x \<longleftrightarrow> ''kubebind.io/syncer'' \<in> set (om_Finalizers (u_Meta x))"
  by (simp add: has_finalizer_def DownstreamFinalizer_def)

lemma provider_state_seen:
  "provider_state tr ns up \<Longrightarrow> seen_upstream tr ns up \<or> (\<exists>u e. EvCreate u (Inl e) up \<in> set tr \<and> IsAlreadyExists e)"
  unfolding provider_state_def seen_upstream_def u_Namespace_def by (metis old.sum.exhaust sum.case(1))

lemma finalizers_simps:
  "set_finalizers (filter (\<lambda>f. f \<noteq> DownstreamFinalizer) (om_Finalizers (u_Meta x))) x =
     with_finalizers (filter (\<lambda>f. f \<noteq> ''kubebind.io/syncer'')) x"
  "set_finalizers (om_Finalizers (u_Meta x) @ [DownstreamFinalizer]) x = with_finalizers (\<lambda>fs. fs @ [''kubebind.io/syncer'']) x"
  by (simp_all add: set_finalizers_def with_finalizers_def DownstreamFinalizer_def)

lemma spec_done_settled:
  assumes "spec_done obj tr"
  shows "settled obj tr"
proof (cases "\<exists>u e up. EvCreate u (Inl e) up \<in> set tr \<and> IsAlreadyExists e")
  case False
  then have seen: "provider_state tr ns up \<Longrightarrow> seen_upstream tr ns up" for ns up using provider_state_seen by blast
  consider (queued) "EvRequeue obj Second None \<in> set tr"
    | (deleted) ns x where "upstream_namespace obj tr ns" "consumer_state obj tr x" "deleting (u_Meta x)"
        "(\<exists>up. provider_state tr ns up \<and> deleting (u_Meta up)) \<or> provider_gone tr ns (u_Name x) \<and>
         (has_finalizer x \<longrightarrow> (\<exists>y. EvUpdateConsumer
            (set_finalizers (filter (\<lambda>f. f \<noteq> DownstreamFinalizer) (om_Finalizers (u_Meta x))) x) (Inr y) \<in> set tr))"
    | (synced) ns z x up where "upstream_namespace obj tr ns" "consumer_state obj tr z" "finalized tr z x"
        "provider_state tr ns up" "fst (NestedField x ''spec'') = fst (NestedField up ''spec'') \<or>
         (\<exists>y. EvUpdate (with_spec_of x up) (Inr y) \<in> set tr)"
    using assms unfolding spec_done_def by blast
  then show ?thesis
  proof cases
    case queued
    then show ?thesis by (simp add: settled_def)
  next
    case deleted
    then have "(\<exists>up. seen_upstream tr ns up \<and> deleting (u_Meta up)) \<or> provider_gone tr ns (om_Name (u_Meta x)) \<and>
         (''kubebind.io/syncer'' \<in> set (om_Finalizers (u_Meta x)) \<longrightarrow> (\<exists>y. EvUpdateConsumer
            (with_finalizers (filter (\<lambda>f. f \<noteq> ''kubebind.io/syncer'')) x) (Inr y) \<in> set tr))"
      using seen unfolding finalizers_simps has_finalizer_iff u_Name_def by blast
    with deleted(1-3) show ?thesis unfolding settled_def by blast
  next
    case synced
    then have "\<not> deleting (u_Meta z) \<and> (x = z \<and> ''kubebind.io/syncer'' \<in> set (om_Finalizers (u_Meta z)) \<or>
         EvUpdateConsumer (with_finalizers (\<lambda>fs. fs @ [''kubebind.io/syncer'']) z) (Inr x) \<in> set tr)"
      unfolding finalized_def finalizers_simps has_finalizer_iff by blast
    moreover have "spec_of x = spec_of up \<or> (\<exists>u y. EvUpdate u (Inr y) \<in> set tr \<and> updated_spec x up u)"
      using synced(5) updated_spec_of unfolding spec_of_nested by blast
    ultimately show ?thesis using synced(1,2) seen [OF synced(4)] unfolding settled_def by blast
  qed
qed (simp add: settled_def)

definition example_reconciler :: "unit reconciler" where
  "example_reconciler = \<lparr>
     providerNamespace = ''kube-bind-abc'',
     apiServiceExport = Some \<lparr>ex_Kind = ''APIServiceExport'', ex_Meta = zero_ObjectMeta,
       ex_Spec = \<lparr>exs_Resources = [], exs_PermissionClaims = [], exs_InformerScope = ClusterScope,
                  exs_ClusterScopedIsolation = IsolationPrefixed\<rparr>, ex_Conditions = []\<rparr>,
     getServiceNamespace = (\<lambda>n. State_Monad.return
       (Inr \<lparr>sn_Meta = zero_ObjectMeta\<lparr>om_Name := n\<rparr>, sn_StatusNamespace = ''upstream''\<rparr>)),
     createServiceNamespace = (\<lambda>sn. State_Monad.return (Inr sn)),
     getProviderObject = (\<lambda>ns n. State_Monad.return (Inl (StatusError ReasonNotFound ''''))),
     createProviderObject = (\<lambda>u. State_Monad.return (Inr u, u)),
     updateProviderObject = (\<lambda>u. State_Monad.return (Inr u)),
     deleteProviderObject = (\<lambda>ns n. State_Monad.return None),
     updateConsumerObject = (\<lambda>u. State_Monad.return (Inr u)),
     requeue = (\<lambda>u d. State_Monad.return None)\<rparr>"

definition example_object :: unstructured where
  "example_object = zero_unstructured\<lparr>
     u_Meta := zero_ObjectMeta\<lparr>om_Name := ''foo'', om_Namespace := ''default''\<rparr>,
     u_Fields := fmupd ''spec'' (JInt 1) fmempty\<rparr>"

lemmas example_defs = example_reconciler_def example_object_def zero_unstructured_def zero_ObjectMeta_def

definition example_trace :: "event list" where
  "example_trace =
     [EvGetServiceNamespace ''default''
        (Inr \<lparr>sn_Meta = zero_ObjectMeta\<lparr>om_Name := ''default''\<rparr>, sn_StatusNamespace = ''upstream''\<rparr>),
      EvGet ''upstream'' ''foo'' (Inl (StatusError ReasonNotFound '''')),
      EvUpdateConsumer (set_finalizers [DownstreamFinalizer] example_object)
        (Inr (set_finalizers [DownstreamFinalizer] example_object)),
      EvCreate (clean_object ''upstream'' (set_finalizers [DownstreamFinalizer] example_object))
        (Inr (clean_object ''upstream'' (set_finalizers [DownstreamFinalizer] example_object)))
        (clean_object ''upstream'' (set_finalizers [DownstreamFinalizer] example_object))]"

lemma spec_example_run:
  "run_state (reconcile (traced example_reconciler) example_object) ((), []) = (None, ((), example_trace))"
  by (simp add: reconcile_def sync_object_def sync_existing_def finalizer_defs has_finalizer_def
      set_finalizers_def deleting_def NestedField_def u_Namespace_def u_Name_def clean_object_def
      RemoveNestedField_def logged_def example_trace_def example_defs)

text \<open>
  C1. Every call the spec reconciler makes is allowed by the policy, whatever the clients and caches
  do: in particular nothing is created upstream before the consumer object carries the finalizer,
  everything upstream happens in the namespace assigned to the consumer namespace, and the
  finalizer is only removed once the upstream object is gone or told to go.
\<close>

theorem spec_reconcile_policy:
  assumes "run_state (reconcile (traced r) obj) (w, []) = (res, (w', tr))"
  shows "guarded (policy r obj) [] tr"
proof -
  have "wp (reconcile (traced r) obj) (\<lambda>_ (w, tr). guarded (policy r obj) [] tr) (w, [])"
    unfolding reconcile_def spec_traced_simps Let_def
    by (intro wp_intros sync_object_policy) (fastforce simp: guarded_append upstream_namespace_def)+
  from wpD [OF this assms] show ?thesis by simp
qed

theorem spec_reconcile_policy_witness:
  "guarded (policy example_reconciler example_object) [] example_trace \<and>
   (\<exists>u res u'. last example_trace = EvCreate u res u')"
proof
  show "guarded (policy example_reconciler example_object) [] example_trace"
    by (rule spec_reconcile_policy [OF spec_example_run])
  show "\<exists>u res u'. last example_trace = EvCreate u res u'" by (simp add: example_trace_def)
qed

text \<open>
  C15. A reconciliation without an error leaves the object settled: queued again because its namespace
  is not ready; or deleted on both sides, its finalizer gone with the upstream object; or with the
  finalizer and, upstream, an object that has its spec or was updated to it, which keeps all else of
  what was there; or its creation found an object that exists already, whose event queues it again.
\<close>

theorem reconcile_settled:
  assumes "run_state (reconcile (traced r) obj) (w, []) = (None, (w', tr))"
  shows "settled obj tr"
proof -
  have "wp (reconcile (traced r) obj) (\<lambda>res (w, tr). res = None \<longrightarrow> spec_done obj tr) (w, [])"
    unfolding reconcile_def spec_traced_simps Let_def
    by (intro wp_intros sync_object_settled) (auto simp: upstream_namespace_def intro: settled_intros)
  from wpD [OF this assms] show ?thesis by (simp add: spec_done_settled)
qed

theorem reconcile_settled_witness:
  "settled example_object example_trace"
  using reconcile_settled [OF spec_example_run] by simp

section \<open>The closures of the controller\<close>

lemma run_get_provider_object_cluster:
  "run_state (get_provider_object c '''' n) w =
     (case run_state (c_providerInformer_Get c '''' (Prepend n (c_providerNamespace c))) w of
        (got, w') \<Rightarrow> (case got of Inl e \<Rightarrow> Inl e | Inr up \<Rightarrow> TranslateFromUpstream up, w'))"
  by (simp add: get_provider_object_def split: prod.split)

text \<open>A controller whose provider cache holds one object under every name.\<close>

definition example_controller :: "unstructured \<Rightarrow> (unit, ObjectMeta) controller" where
  "example_controller up = \<lparr>
     c_apiServiceExport = None,
     c_gvr = \<lparr>gvr_Group = ''g'', gvr_Version = ''v1'', gvr_Resource = ''foos''\<rparr>,
     c_providerNamespace = ''kube-bind-abc'', c_providerNamespaceUID = ''uid'',
     c_consumerClient = unit_client, c_providerClient = unit_client,
     c_consumerLister_Get = (\<lambda>_ _. State_Monad.return (Inl (StatusError ReasonNotFound ''''))),
     c_consumerIndexer_ByNamespace = (\<lambda>_. State_Monad.return (Inr [])),
     c_providerInformer_Get = (\<lambda>_ _. State_Monad.return (Inr up)),
     c_serviceNamespace_Get = (\<lambda>_ _. State_Monad.return (Inl (StatusError ReasonNotFound ''''))),
     c_serviceNamespace_Create = (\<lambda>_ sn. State_Monad.return (Inr sn)),
     c_serviceNamespace_ByStatusNamespace = (\<lambda>_. State_Monad.return (Inr [])),
     c_queue = \<lparr>q_Add = (\<lambda>_. State_Monad.return ()), q_AddAfter = (\<lambda>_ _. State_Monad.return ())\<rparr>,
     c_keys = example_keys\<rparr>"

text \<open>
  C32. For a cluster-scoped object that is not translated yet, the controller creates on the provider
  side one object, named with the consumer's prefix, and reading that object back through the
  provider cache gives the object that was to be created, unchanged.
\<close>

theorem cluster_scoped_create_then_get:
  assumes "u_Namespace obj = ''''" and "untranslated (c_providerNamespace c) obj"
    and "TranslateFromDownstream obj (c_providerNamespace c) (c_providerNamespaceUID c) = Inr up"
  shows "u_Name up = Prepend (u_Name obj) (c_providerNamespace c) \<and>
    snd (run_state (create_provider_object c obj) w) =
      snd (run_state (dc_Create (c_providerClient c) (c_gvr c) '''' up) w) \<and>
    (run_state (c_providerInformer_Get c '''' (u_Name up)) w = (Inr up, w') \<longrightarrow>
       run_state (get_provider_object c '''' (u_Name obj)) w = (Inr obj, w'))"
proof (intro conjI impI)
  show name: "u_Name up = Prepend (u_Name obj) (c_providerNamespace c)"
    using TranslateFromDownstream_untranslated [OF assms(2)] assms(3) by (metis sum.inject(2))
  have "u_Namespace up = ''''"
    using assms(1,3) unfolding TranslateFromDownstream_def InjectClusterNs_untranslated [OF assms(2)]
    by (auto simp: SwitchToUpstreamName_def u_Namespace_def set_name_def set_ownerReferences_def
        set_annotations_def)
  then show "snd (run_state (create_provider_object c obj) w) =
      snd (run_state (dc_Create (c_providerClient c) (c_gvr c) '''' up) w)"
    using assms(1,3) by (simp add: create_provider_object_def split: prod.split)
  show "run_state (get_provider_object c '''' (u_Name obj)) w = (Inr obj, w')"
    if "run_state (c_providerInformer_Get c '''' (u_Name up)) w = (Inr up, w')"
    using that name cst.down_up [OF assms(2,3)] by (simp add: run_get_provider_object_cluster)
qed

theorem cluster_scoped_create_then_get_witness:
  "\<exists>up. u_Name up = ''kube-bind-abc-foo'' \<and>
     run_state (get_provider_object (example_controller up) '''' ''foo'') () =
       (Inr (set_name ''foo'' zero_unstructured), ())"
proof -
  let ?obj = "set_name ''foo'' zero_unstructured"
  have name: "u_Name ?obj = ''foo''" "u_Namespace ?obj = ''''"
    by (simp_all add: set_name_def u_Name_def u_Namespace_def zero_unstructured_def zero_ObjectMeta_def)
  have plain: "untranslated ''kube-bind-abc'' ?obj"
    by (simp add: untranslated_def set_name_def zero_unstructured_def zero_ObjectMeta_def
        findOwnerReferenceToClusterNs_def)
  then obtain up where "TranslateFromDownstream ?obj ''kube-bind-abc'' ''uid'' = Inr up"
    using cst.up_defined by blast
  with plain name cluster_scoped_create_then_get [of ?obj "example_controller up" up "()" "()"]
  show ?thesis by (auto simp: example_controller_def Prepend_def)
qed

end
