(* ===== verification/Status_Sync.thy ===== *)
theory Status_Sync
  imports Cluster_Scoped
begin

text \<open>
  The status controller of the konnector (\<open>serviceexport/status\<close>): it copies the status of
  provider objects to the consumer's objects, and deletes provider objects whose consumer object
  is gone.
\<close>

section \<open>The reconciler\<close>

record 'w reconciler =
  getServiceNamespace :: "string \<Rightarrow> ('w, APIServiceNamespace) call"
  getConsumerObject :: "string \<Rightarrow> string \<Rightarrow> ('w, unstructured) call"
  updateConsumerObjectStatus :: "unstructured \<Rightarrow> ('w, unstructured) call"
  deleteProviderObject :: "string \<Rightarrow> string \<Rightarrow> ('w, err) io"

text \<open>The consumer object with the status of the provider object, or without one.\<close>

definition with_status_of :: "unstructured \<Rightarrow> unstructured \<Rightarrow> unstructured" where
  "with_status_of obj downstream =
     (case NestedField obj ''status'' of
        (status, found) \<Rightarrow>
          (if found then SetNestedField downstream status ''status''
           else RemoveNestedField downstream ''status''))"

definition sync_status :: "'w reconciler \<Rightarrow> string \<Rightarrow> unstructured \<Rightarrow> ('w, err) io" where
  "sync_status r ns obj = do {
     g \<leftarrow> getConsumerObject r ns (u_Name obj);
     (case g of
        Inl e \<Rightarrow>
          (if IsNotFound e then deleteProviderObject r (u_Namespace obj) (u_Name obj)
           else State_Monad.return (Some e))
      | Inr orig \<Rightarrow>
          (let downstream = with_status_of obj orig
           in if orig \<noteq> downstream
              then do { u \<leftarrow> updateConsumerObjectStatus r downstream; State_Monad.return (err_of u) }
              else State_Monad.return None)) }"

text \<open>With an empty status namespace the function returns \<open>err\<close>, which is nil at that point.\<close>

definition reconcile :: "'w reconciler \<Rightarrow> unstructured \<Rightarrow> ('w, err) io" where
  "reconcile r obj =
     (let ns = u_Namespace obj
      in if ns = '''' then sync_status r '''' obj
         else do {
           g \<leftarrow> getServiceNamespace r ns;
           (case g of
              Inl e \<Rightarrow> State_Monad.return (Some e)
            | Inr sn \<Rightarrow>
                (if sn_StatusNamespace sn = '''' then State_Monad.return None
                 else sync_status r (om_Name (sn_Meta sn)) obj)) })"

section \<open>The controller\<close>

record ('w, 'e) controller =
  c_gvr :: GroupVersionResource
  c_providerNamespace :: string
  c_providerNamespaceUID :: string
  c_consumerClient :: "'w dynamic_client"
  c_providerClient :: "'w dynamic_client"
  c_consumerLister_Get :: "string \<Rightarrow> string \<Rightarrow> ('w, unstructured) call"
  c_providerInformer_Get :: "string \<Rightarrow> string \<Rightarrow> ('w, unstructured) call"
  c_providerInformer_List :: "string \<Rightarrow> ('w, ObjectMeta list) call"
  c_serviceNamespace_Get :: "string \<Rightarrow> string \<Rightarrow> ('w, APIServiceNamespace) call"
  c_serviceNamespace_ByStatusNamespace :: "string \<Rightarrow> ('w, APIServiceNamespace list) call"
  c_queue :: "'w queue"
  c_keys :: "'e cache_keys"

definition get_service_namespace :: "('w, 'e) controller \<Rightarrow> string \<Rightarrow> ('w, APIServiceNamespace) call" where
  "get_service_namespace c upstreamNamespace = do {
     sns \<leftarrow> c_serviceNamespace_ByStatusNamespace c upstreamNamespace;
     State_Monad.return
       (case sns of
          Inl e \<Rightarrow> Inl e
        | Inr [] \<Rightarrow> Inl (StatusError ReasonNotFound upstreamNamespace)
        | Inr (sn # _) \<Rightarrow> Inr sn) }"

definition get_consumer_object :: "('w, 'e) controller \<Rightarrow> string \<Rightarrow> string \<Rightarrow> ('w, unstructured) call" where
  "get_consumer_object c ns name =
     (if ns \<noteq> '''' then c_consumerLister_Get c ns name
      else do {
        got \<leftarrow> c_consumerLister_Get c '''' (Behead name (c_providerNamespace c));
        State_Monad.return
          (case got of
             Inl e \<Rightarrow> Inl e
           | Inr obj \<Rightarrow> TranslateFromDownstream obj (c_providerNamespace c) (c_providerNamespaceUID c)) })"

definition update_consumer_object_status :: "('w, 'e) controller \<Rightarrow> unstructured \<Rightarrow> ('w, unstructured) call" where
  "update_consumer_object_status c obj =
     (let ns = u_Namespace obj
      in case (if ns = '''' then TranslateFromUpstream obj else Inr obj) of
           Inl e \<Rightarrow> State_Monad.return (Inl e)
         | Inr obj' \<Rightarrow> do {
             updated \<leftarrow> dc_UpdateStatus (c_consumerClient c) (c_gvr c) (u_Namespace obj') obj';
             State_Monad.return
               (case updated of
                  Inl e \<Rightarrow> Inl e
                | Inr u \<Rightarrow>
                    (if ns = '''' then TranslateFromDownstream u (c_providerNamespace c) (c_providerNamespaceUID c)
                     else Inr u)) })"

definition new_reconciler :: "('w, 'e) controller \<Rightarrow> 'w reconciler" where
  "new_reconciler c = \<lparr>
     getServiceNamespace = get_service_namespace c,
     getConsumerObject = get_consumer_object c,
     updateConsumerObjectStatus = update_consumer_object_status c,
     deleteProviderObject = (\<lambda>ns name. dc_Delete (c_providerClient c) (c_gvr c) ns name)\<rparr>"

definition enqueueProvider :: "('w, 'e) controller \<Rightarrow> 'e \<Rightarrow> ('w, unit) io" where
  "enqueueProvider c obj =
     (case ck_DeletionHandlingKey (c_keys c) obj of
        Inl _ \<Rightarrow> State_Monad.return ()
      | Inr key \<Rightarrow>
          (case ck_Split (c_keys c) key of
             Inl _ \<Rightarrow> State_Monad.return ()
           | Inr (ns, _) \<Rightarrow>
               (if ns \<noteq> '''' then do {
                  sns \<leftarrow> c_serviceNamespace_ByStatusNamespace c ns;
                  (case sns of
                     Inl _ \<Rightarrow> State_Monad.return ()
                   | Inr objs \<Rightarrow>
                       (if list_ex (\<lambda>sn. om_Namespace (sn_Meta sn) = c_providerNamespace c) objs
                        then q_Add (c_queue c) key else State_Monad.return ())) }
                else if Behead key (c_providerNamespace c) = key then State_Monad.return ()
                else q_Add (c_queue c) key)))"

definition enqueueConsumer :: "('w, 'e) controller \<Rightarrow> 'e \<Rightarrow> ('w, unit) io" where
  "enqueueConsumer c obj =
     (case ck_DeletionHandlingKey (c_keys c) obj of
        Inl _ \<Rightarrow> State_Monad.return ()
      | Inr downstreamKey \<Rightarrow>
          (case ck_Split (c_keys c) downstreamKey of
             Inl _ \<Rightarrow> State_Monad.return ()
           | Inr (ns, name) \<Rightarrow>
               (if ns \<noteq> '''' then do {
                  g \<leftarrow> c_serviceNamespace_Get c (c_providerNamespace c) ns;
                  (case g of
                     Inl _ \<Rightarrow> State_Monad.return ()
                   | Inr sn \<Rightarrow>
                       (if om_Namespace (sn_Meta sn) = c_providerNamespace c \<and> sn_StatusNamespace sn \<noteq> ''''
                        then q_Add (c_queue c) (sn_StatusNamespace sn @ ''/'' @ name)
                        else State_Monad.return ())) }
                else q_Add (c_queue c) (Prepend downstreamKey (c_providerNamespace c)))))"

definition enqueueServiceNamespace :: "('w, 'e) controller \<Rightarrow> 'e \<Rightarrow> ('w, unit) io" where
  "enqueueServiceNamespace c obj =
     (case ck_DeletionHandlingKey (c_keys c) obj of
        Inl _ \<Rightarrow> State_Monad.return ()
      | Inr snKey \<Rightarrow>
          (case ck_Split (c_keys c) snKey of
             Inl _ \<Rightarrow> State_Monad.return ()
           | Inr (ns, name) \<Rightarrow>
               (if ns \<noteq> c_providerNamespace c then State_Monad.return ()
                else do {
                  g \<leftarrow> c_serviceNamespace_Get c ns name;
                  (case g of
                     Inl _ \<Rightarrow> State_Monad.return ()
                   | Inr sn \<Rightarrow>
                       (if sn_StatusNamespace sn = '''' then State_Monad.return ()
                        else do {
                          objs \<leftarrow> c_providerInformer_List c (sn_StatusNamespace sn);
                          (case objs of
                             Inl _ \<Rightarrow> State_Monad.return ()
                           | Inr ms \<Rightarrow>
                               for_each (\<lambda>m. case ck_Key (c_keys c) m of
                                   Inl _ \<Rightarrow> State_Monad.return ()
                                 | Inr key \<Rightarrow> q_Add (c_queue c) key) ms) })) })))"

text \<open>A missing consumer object is no error here; the update's result is then nil.\<close>

definition removeDownstreamFinalizer :: "('w, 'e) controller \<Rightarrow> unstructured \<Rightarrow> ('w, err) io" where
  "removeDownstreamFinalizer c obj =
     (let finalizers = filter (\<lambda>f. f \<noteq> DownstreamFinalizer) (om_Finalizers (u_Meta obj))
      in if has_finalizer obj then do {
           u \<leftarrow> dc_Update (c_consumerClient c) (c_gvr c) (u_Namespace obj) (set_finalizers finalizers obj);
           State_Monad.return (case u of Inl e \<Rightarrow> (if IsNotFound e then None else Some e) | Inr _ \<Rightarrow> None) }
         else State_Monad.return None)"

definition process :: "('w, 'e) controller \<Rightarrow> string \<Rightarrow> ('w, err) io" where
  "process c key =
     (case ck_Split (c_keys c) key of
        Inl _ \<Rightarrow> State_Monad.return None
      | Inr (ns, name) \<Rightarrow> do {
          got \<leftarrow> c_providerInformer_Get c ns name;
          (case got of
             Inr obj \<Rightarrow> reconcile (new_reconciler c) obj
           | Inl e \<Rightarrow>
               (if \<not> IsNotFound e then State_Monad.return (Some e)
                else do {
                  d \<leftarrow> c_consumerLister_Get c ns name;
                  (case d of
                     Inl e' \<Rightarrow> State_Monad.return (if IsNotFound e' then None else Some e')
                   | Inr downstream \<Rightarrow> removeDownstreamFinalizer c downstream) })) })"

section \<open>The calls of a reconciliation\<close>

datatype event =
    EvGetServiceNamespace string "go_error + APIServiceNamespace"
  | EvGetConsumer string string "go_error + unstructured"
  | EvUpdateStatus unstructured "go_error + unstructured"
  | EvDelete string string err

definition traced :: "'w reconciler \<Rightarrow> ('w \<times> event list) reconciler" where
  "traced r = \<lparr>
     getServiceNamespace = (\<lambda>n. logged (EvGetServiceNamespace n) (getServiceNamespace r n)),
     getConsumerObject = (\<lambda>ns n. logged (EvGetConsumer ns n) (getConsumerObject r ns n)),
     updateConsumerObjectStatus = (\<lambda>u. logged (EvUpdateStatus u) (updateConsumerObjectStatus r u)),
     deleteProviderObject = (\<lambda>ns n. logged (EvDelete ns n) (deleteProviderObject r ns n))\<rparr>"

lemma status_traced_simps [simp]:
  "getServiceNamespace (traced r) n = logged (EvGetServiceNamespace n) (getServiceNamespace r n)"
  "getConsumerObject (traced r) ns n = logged (EvGetConsumer ns n) (getConsumerObject r ns n)"
  "updateConsumerObjectStatus (traced r) u = logged (EvUpdateStatus u) (updateConsumerObjectStatus r u)"
  "deleteProviderObject (traced r) ns n = logged (EvDelete ns n) (deleteProviderObject r ns n)"
  by (simp_all add: traced_def)

definition consumer_namespace :: "unstructured \<Rightarrow> event list \<Rightarrow> string \<Rightarrow> bool" where
  "consumer_namespace obj h ns \<longleftrightarrow>
     (if u_Namespace obj = '''' then ns = ''''
      else \<exists>sn. EvGetServiceNamespace (u_Namespace obj) (Inr sn) \<in> set h \<and>
                sn_StatusNamespace sn \<noteq> '''' \<and> ns = om_Name (sn_Meta sn))"

text \<open>
  The policy of the status controller: the consumer object is looked up in the consumer namespace
  that owns the upstream one; only its status is written, and only if it differs from the provider
  object's; the provider object is deleted only if the consumer object does not exist.
\<close>

fun policy :: "unstructured \<Rightarrow> event list \<Rightarrow> event \<Rightarrow> bool" where
  "policy obj h (EvGetServiceNamespace n _) \<longleftrightarrow> n = u_Namespace obj"
| "policy obj h (EvGetConsumer ns n _) \<longleftrightarrow> consumer_namespace obj h ns \<and> n = u_Name obj"
| "policy obj h (EvUpdateStatus u _) \<longleftrightarrow>
     (\<exists>ns d. EvGetConsumer ns (u_Name obj) (Inr d) \<in> set h \<and>
        NestedField d ''status'' \<noteq> NestedField obj ''status'' \<and>
        NestedField u ''status'' = NestedField obj ''status'' \<and> u_Meta u = u_Meta d \<and>
        (\<forall>f. f \<noteq> ''status'' \<longrightarrow> NestedField u f = NestedField d f))"
| "policy obj h (EvDelete ns n _) \<longleftrightarrow>
     ns = u_Namespace obj \<and> n = u_Name obj \<and>
     (\<exists>cns e. consumer_namespace obj h cns \<and> EvGetConsumer cns n (Inl e) \<in> set h \<and> IsNotFound e)"

lemma with_status_of_simps [simp]:
  "NestedField (with_status_of obj d) ''status'' = NestedField obj ''status''"
  "f \<noteq> ''status'' \<Longrightarrow> NestedField (with_status_of obj d) f = NestedField d f"
  "u_Meta (with_status_of obj d) = u_Meta d"
  by (auto simp: with_status_of_def NestedField_def SetNestedField_def RemoveNestedField_def
      split: option.split)

lemma with_status_of_same:
  assumes "NestedField d ''status'' = NestedField obj ''status''"
  shows "with_status_of obj d = d"
proof -
  have "fmlookup (u_Fields d) ''status'' = fmlookup (u_Fields obj) ''status''"
    using assms by (auto simp: NestedField_def split: option.splits)
  then show ?thesis
    by (auto simp: with_status_of_def NestedField_def SetNestedField_def RemoveNestedField_def
        split: option.split intro!: unstructured.equality fmap_ext)
qed

lemma with_status_of_eq_iff:
  "d = with_status_of obj d \<longleftrightarrow> NestedField d ''status'' = NestedField obj ''status''"
  by (metis with_status_of_same with_status_of_simps(1))

definition status_settled :: "unstructured \<Rightarrow> event list \<Rightarrow> bool" where
  "status_settled obj tr \<longleftrightarrow>
     (\<exists>sn. EvGetServiceNamespace (u_Namespace obj) (Inr sn) \<in> set tr \<and> sn_StatusNamespace sn = '''') \<or>
     EvDelete (u_Namespace obj) (u_Name obj) None \<in> set tr \<or>
     (\<exists>ns d. EvGetConsumer ns (u_Name obj) (Inr d) \<in> set tr \<and>
        (NestedField d ''status'' = NestedField obj ''status'' \<or>
         (\<exists>y. EvUpdateStatus (with_status_of obj d) (Inr y) \<in> set tr)))"

lemma status_policy_intros:
  "EvGetConsumer ns (u_Name obj) (Inr d) \<in> set h \<Longrightarrow>
     NestedField d ''status'' \<noteq> NestedField obj ''status'' \<Longrightarrow>
     policy obj h (EvUpdateStatus (with_status_of obj d) res)"
  "EvGetConsumer ns (u_Name obj) (Inl e) \<in> set h \<Longrightarrow> IsNotFound e \<Longrightarrow> consumer_namespace obj h ns \<Longrightarrow>
     policy obj h (EvDelete (u_Namespace obj) (u_Name obj) res')"
  by auto

lemma consumer_namespace_mono [simp]:
  "consumer_namespace obj h ns \<Longrightarrow> consumer_namespace obj (h @ h') ns"
  by (auto simp: consumer_namespace_def split: if_splits)

lemma status_settled_intros:
  "EvGetServiceNamespace (u_Namespace obj) (Inr sn) \<in> set tr \<Longrightarrow> sn_StatusNamespace sn = '''' \<Longrightarrow>
     status_settled obj tr"
  "EvDelete (u_Namespace obj) (u_Name obj) None \<in> set tr \<Longrightarrow> status_settled obj tr"
  "EvGetConsumer ns (u_Name obj) (Inr d) \<in> set tr \<Longrightarrow>
     NestedField d ''status'' = NestedField obj ''status'' \<Longrightarrow> status_settled obj tr"
  "EvGetConsumer ns (u_Name obj) (Inr d) \<in> set tr \<Longrightarrow>
     EvUpdateStatus (with_status_of obj d) (Inr y) \<in> set tr \<Longrightarrow> status_settled obj tr"
  unfolding status_settled_def by blast+

lemma sync_status_policy:
  assumes "guarded (policy obj) [] tr" and "consumer_namespace obj tr ns"
  shows "wp (sync_status (traced r) ns obj) (\<lambda>res (w, tr). guarded (policy obj) [] tr \<and>
    (res = None \<longrightarrow> status_settled obj tr)) (w, tr)"
  using assms unfolding sync_status_def status_traced_simps Let_def
  by (intro wp_intros)
    (auto simp del: policy.simps(3,4) append_assoc simp: with_status_of_eq_iff
      intro!: status_policy_intros [where ns = ns] intro: status_settled_intros(2) status_settled_intros(3,4) [where ns = ns])

text \<open>
  C11. The status reconciler writes nothing but the status of the consumer object, to the value of
  the provider object and only if they differ, and deletes the provider object only after the
  consumer object was found to be missing, looked up in the namespace that owns the upstream one.
  Without an error, either the consumer object has the status of the provider object, or it was
  written, or the provider object was deleted, or its namespace is not ready.
\<close>

theorem status_reconcile_policy:
  assumes "run_state (reconcile (traced r) obj) (w, []) = (res, (w', tr))"
  shows "guarded (policy obj) [] tr \<and> (res = None \<longrightarrow> status_settled obj tr)"
proof -
  have "wp (reconcile (traced r) obj) (\<lambda>res (w, tr). guarded (policy obj) [] tr \<and>
      (res = None \<longrightarrow> status_settled obj tr)) (w, [])"
    unfolding reconcile_def status_traced_simps Let_def
    by (intro wp_intros sync_status_policy)
      (auto simp: consumer_namespace_def status_settled_def)
  from wpD [OF this assms] show ?thesis by simp
qed

definition example_reconciler :: "unit reconciler" where
  "example_reconciler = \<lparr>
     getServiceNamespace = (\<lambda>n. State_Monad.return
       (Inr \<lparr>sn_Meta = zero_ObjectMeta\<lparr>om_Name := ''default''\<rparr>, sn_StatusNamespace = n\<rparr>)),
     getConsumerObject = (\<lambda>ns n. State_Monad.return (Inr zero_unstructured)),
     updateConsumerObjectStatus = (\<lambda>u. State_Monad.return (Inr u)),
     deleteProviderObject = (\<lambda>ns n. State_Monad.return None)\<rparr>"

definition example_object :: unstructured where
  "example_object = zero_unstructured\<lparr>
     u_Meta := zero_ObjectMeta\<lparr>om_Name := ''foo'', om_Namespace := ''upstream''\<rparr>,
     u_Fields := fmupd ''status'' (JInt 1) fmempty\<rparr>"

definition example_trace :: "event list" where
  "example_trace =
     [EvGetServiceNamespace ''upstream''
        (Inr \<lparr>sn_Meta = zero_ObjectMeta\<lparr>om_Name := ''default''\<rparr>, sn_StatusNamespace = ''upstream''\<rparr>),
      EvGetConsumer ''default'' ''foo'' (Inr zero_unstructured),
      EvUpdateStatus (SetNestedField zero_unstructured (JInt 1) ''status'')
        (Inr (SetNestedField zero_unstructured (JInt 1) ''status''))]"

lemma status_example_run:
  "run_state (reconcile (traced example_reconciler) example_object) ((), []) = (None, ((), example_trace))"
proof -
  have "with_status_of example_object zero_unstructured =
      SetNestedField zero_unstructured (JInt 1) ''status''"
    by (simp add: with_status_of_def example_object_def NestedField_def)
  moreover have "zero_unstructured \<noteq> with_status_of example_object zero_unstructured"
    by (simp add: with_status_of_eq_iff NestedField_def zero_unstructured_def example_object_def)
  ultimately show ?thesis
    by (simp add: reconcile_def sync_status_def logged_def example_reconciler_def example_trace_def
        u_Namespace_def u_Name_def example_object_def zero_unstructured_def zero_ObjectMeta_def Let_def)
qed

theorem status_reconcile_policy_witness:
  "guarded (policy example_object) [] example_trace \<and> status_settled example_object example_trace"
  using status_reconcile_policy [OF status_example_run] by blast

section \<open>A provider object that is gone\<close>

text \<open>
  When the provider object is gone, \<open>process\<close> looks the consumer object up under the namespace and
  name of the provider object, not under those of the consumer: the finalizer stays on a consumer
  object whose name upstream differs.
\<close>

lemma process_gone_keeps_finalizer:
  assumes "ck_Split (c_keys c) key = Inr (ns, name)"
    and "run_state (c_providerInformer_Get c ns name) w = (Inl e, w')" and "IsNotFound e"
    and "run_state (c_consumerLister_Get c ns name) w' = (Inl e', w'')" and "IsNotFound e'"
  shows "run_state (process c key) w = (None, w'')"
  using assms by (simp add: process_def)

end
