(* ===== verification/Context_Store.thy ===== *)
theory Context_Store
  imports Prelude
begin

text \<open>
  The store of running syncers (\<open>contextstore/contextstore.go\<close>): a map from keys to contexts with a
  cancel function. Its state also records which contexts were cancelled, in order; a cancel
  function is represented by the number of the context it cancels. The Go map is an association
  list in some iteration order. The mutex makes each operation one step.
\<close>

section \<open>The store\<close>

record SyncContext =
  sc_key :: string
  sc_Generation :: int
  sc_Cancel :: nat

record contextStore =
  store :: "(string \<times> SyncContext) list"
  cancelled :: "nat list"

definition NewKey :: "string \<Rightarrow> string \<Rightarrow> string list \<Rightarrow> string" where
  "NewKey exportNamespace exportName suff =
     (if suff = [] then exportNamespace @ ''.'' @ exportName
      else exportNamespace @ ''.'' @ exportName @ ''.'' @ Join suff ''.'')"

definition New :: contextStore where
  "New = \<lparr>store = [], cancelled = []\<rparr>"

definition cs_Get :: "contextStore \<Rightarrow> string \<Rightarrow> SyncContext option" where
  "cs_Get c key = map_of (store c) key"

definition ListPrefixed :: "contextStore \<Rightarrow> string \<Rightarrow> SyncContext list" where
  "ListPrefixed c pfx = map snd (filter (\<lambda>(k, _). HasPrefix k pfx) (store c))"

definition cs_Set :: "contextStore \<Rightarrow> string \<Rightarrow> SyncContext \<Rightarrow> contextStore" where
  "cs_Set c key value = c\<lparr>store := (key, value\<lparr>sc_key := key\<rparr>) # remove_key key (store c)\<rparr>"

definition cs_Delete :: "contextStore \<Rightarrow> string \<Rightarrow> contextStore" where
  "cs_Delete c key =
     (case cs_Get c key of
        None \<Rightarrow> c
      | Some ctx \<Rightarrow> \<lparr>store = remove_key key (store c), cancelled = cancelled c @ [sc_Cancel ctx]\<rparr>)"

definition BulkDeletePrefixed :: "contextStore \<Rightarrow> string \<Rightarrow> SyncContext list \<times> contextStore" where
  "BulkDeletePrefixed c pfx =
     (let deleted = filter (\<lambda>(k, _). HasPrefix k pfx) (store c)
      in (map snd deleted,
          \<lparr>store = filter (\<lambda>(k, _). \<not> HasPrefix k pfx) (store c),
           cancelled = cancelled c @ map (\<lambda>(_, v). sc_Cancel v) deleted\<rparr>))"

section \<open>Well-formed stores\<close>

text \<open>Keys are unique and every context knows its key.\<close>

definition wf_store :: "contextStore \<Rightarrow> bool" where
  "wf_store c \<longleftrightarrow> distinct (map fst (store c)) \<and> (\<forall>(k, v) \<in> set (store c). sc_key v = k)"

lemma map_of_filter_key:
  "map_of (filter (\<lambda>(k, _). P k) s) k = (if P k then map_of s k else None)"
  by (induction s) auto

lemma distinct_filter_keys [simp]: "distinct (map fst s) \<Longrightarrow> distinct (map fst (filter P s))"
  by (rule distinct_map_filter)

lemma wf_store_ops [simp]:
  "wf_store New"
  "wf_store c \<Longrightarrow> wf_store (cs_Set c key v)"
  "wf_store c \<Longrightarrow> wf_store (cs_Delete c key)"
  "wf_store c \<Longrightarrow> wf_store (snd (BulkDeletePrefixed c pfx))"
proof -
  show "wf_store New" by (simp add: wf_store_def New_def)
  assume c: "wf_store c"
  then show "wf_store (cs_Set c key v)"
    using keys_remove_key [of key "store c"]
    by (auto simp: wf_store_def cs_Set_def remove_key_def)
  show "wf_store (cs_Delete c key)"
    using c by (auto simp: wf_store_def cs_Delete_def remove_key_def split: option.split)
  show "wf_store (snd (BulkDeletePrefixed c pfx))"
    using c by (auto simp: wf_store_def BulkDeletePrefixed_def Let_def)
qed

lemma cs_Get_mem: "wf_store c \<Longrightarrow> cs_Get c k = Some v \<longleftrightarrow> (k, v) \<in> set (store c)"
  by (simp add: cs_Get_def wf_store_def)

lemma cs_Get_key: "wf_store c \<Longrightarrow> cs_Get c k = Some v \<Longrightarrow> sc_key v = k"
  by (auto simp: cs_Get_mem wf_store_def)

section \<open>The contract of Store\<close>

text \<open>
  The laws a client of the interface \<open>contextstore.Store\<close> relies on: lookup after every update,
  which contexts an operation cancels, what a listing holds.
\<close>

locale sync_store =
  fixes get :: "'s \<Rightarrow> string \<Rightarrow> SyncContext option"
    and lst :: "'s \<Rightarrow> string \<Rightarrow> SyncContext list"
    and put :: "'s \<Rightarrow> string \<Rightarrow> SyncContext \<Rightarrow> 's"
    and del :: "'s \<Rightarrow> string \<Rightarrow> 's"
    and bulk :: "'s \<Rightarrow> string \<Rightarrow> SyncContext list \<times> 's"
    and cnc :: "'s \<Rightarrow> nat list"
    and wf :: "'s \<Rightarrow> bool"
  assumes wf_put: "wf s \<Longrightarrow> wf (put s k v)"
    and wf_del: "wf s \<Longrightarrow> wf (del s k)"
    and wf_bulk: "wf s \<Longrightarrow> wf (snd (bulk s p))"
    and get_put: "get (put s k v) k' = (if k' = k then Some (v\<lparr>sc_key := k\<rparr>) else get s k')"
    and get_del: "get (del s k) k' = (if k' = k then None else get s k')"
    and get_bulk: "get (snd (bulk s p)) k' = (if HasPrefix k' p then None else get s k')"
    and get_key: "wf s \<Longrightarrow> get s k = Some v \<Longrightarrow> sc_key v = k"
    and cnc_put: "cnc (put s k v) = cnc s"
    and cnc_del: "cnc (del s k) = cnc s @ (case get s k of None \<Rightarrow> [] | Some v \<Rightarrow> [sc_Cancel v])"
    and cnc_bulk: "wf s \<Longrightarrow> set (cnc (snd (bulk s p))) =
          set (cnc s) \<union> {sc_Cancel v | k v. get s k = Some v \<and> HasPrefix k p}"
    and lst_mem: "wf s \<Longrightarrow> v \<in> set (lst s p) \<longleftrightarrow> HasPrefix (sc_key v) p \<and> get s (sc_key v) = Some v"
begin

text \<open>
  The invariant of a client that numbers the contexts it starts 0, 1, ...: no context is stored
  twice, a stored one is not cancelled, and every context started is stored or cancelled. So no
  syncer runs that the store does not know.
\<close>

definition live :: "'s \<Rightarrow> nat set" where
  "live s = {sc_Cancel v | k v. get s k = Some v}"

definition no_leak :: "'s \<Rightarrow> nat \<Rightarrow> bool" where
  "no_leak s n \<longleftrightarrow> wf s \<and>
     (\<forall>k k' v v'. get s k = Some v \<longrightarrow> get s k' = Some v' \<longrightarrow> sc_Cancel v = sc_Cancel v' \<longrightarrow> k = k') \<and>
     live s \<inter> set (cnc s) = {} \<and> live s \<union> set (cnc s) = {..<n}"

lemma live_mem: "get s k = Some v \<Longrightarrow> sc_Cancel v \<in> live s"
  by (auto simp: live_def)

lemma no_leakD:
  assumes "no_leak s n" and "get s k = Some v"
  shows "sc_Cancel v \<notin> set (cnc s)" and "sc_Cancel v < n"
  using assms(1) live_mem [OF assms(2)] by (auto simp: no_leak_def)

lemma no_leak_inj:
  "no_leak s n \<Longrightarrow> get s k = Some v \<Longrightarrow> get s k' = Some v' \<Longrightarrow> sc_Cancel v = sc_Cancel v' \<Longrightarrow> k = k'"
  unfolding no_leak_def by blast

text \<open>What is left alive when the contexts under some keys go.\<close>

lemma live_restrict:
  assumes "no_leak s n" and "\<And>k. get t k = (if P k then None else get s k)"
  shows "live t = live s - {sc_Cancel v | k v. get s k = Some v \<and> P k}"
proof -
  have "x \<in> live t \<longleftrightarrow> (\<exists>k v. get s k = Some v \<and> \<not> P k \<and> x = sc_Cancel v)" for x
    unfolding live_def assms(2) by (auto split: if_splits)
  moreover have "(\<exists>k v. get s k = Some v \<and> \<not> P k \<and> x = sc_Cancel v) \<longleftrightarrow>
      x \<in> live s \<and> \<not> (\<exists>k v. get s k = Some v \<and> P k \<and> x = sc_Cancel v)" for x
    using no_leak_inj [OF assms(1)] unfolding live_def by blast
  ultimately show ?thesis by blast
qed

lemma live_del:
  assumes "no_leak s n" and "get s k = Some v"
  shows "live (del s k) = live s - {sc_Cancel v}"
  using live_restrict [OF assms(1), of "del s k" "\<lambda>k'. k' = k"] assms(2) by (simp add: get_del)

lemma no_leak_del: "no_leak s n \<Longrightarrow> no_leak (del s k) n"
proof (cases "get s k")
  case None
  assume s: "no_leak s n"
  have "get (del s k) = get s" using None by (auto simp: get_del fun_eq_iff)
  then show ?thesis using s None by (simp add: no_leak_def live_def cnc_del wf_del)
next
  case (Some v)
  assume s: "no_leak s n"
  have mem: "sc_Cancel v \<in> live s" using Some by (auto simp: live_def)
  have "live (del s k) = live s - {sc_Cancel v}" by (rule live_del [OF s Some])
  moreover have "set (cnc (del s k)) = insert (sc_Cancel v) (set (cnc s))" using Some by (simp add: cnc_del)
  moreover have "k1 = k2" if "get (del s k) k1 = Some v1" "get (del s k) k2 = Some v2"
    "sc_Cancel v1 = sc_Cancel v2" for k1 k2 v1 v2
    using that no_leak_inj [OF s, of k1 v1 k2 v2] by (simp add: get_del split: if_splits)
  ultimately show ?thesis using s mem unfolding no_leak_def by (auto simp: wf_del)
qed

lemma live_bulk:
  assumes "no_leak s n"
  shows "live (snd (bulk s p)) = live s - {sc_Cancel v | k v. get s k = Some v \<and> HasPrefix k p}"
  by (rule live_restrict [OF assms get_bulk])

lemma no_leak_bulk: "no_leak s n \<Longrightarrow> no_leak (snd (bulk s p)) n"
proof -
  assume s: "no_leak s n"
  define d where "d = {sc_Cancel v | k v. get s k = Some v \<and> HasPrefix k p}"
  have d: "d \<subseteq> live s" by (auto simp: live_def d_def)
  have "wf s" using s by (simp add: no_leak_def)
  note c = cnc_bulk [OF this, of p, folded d_def] and l = live_bulk [OF s, of p, folded d_def]
  have "k1 = k2" if "get (snd (bulk s p)) k1 = Some v1" "get (snd (bulk s p)) k2 = Some v2"
    "sc_Cancel v1 = sc_Cancel v2" for k1 k2 v1 v2
    using that no_leak_inj [OF s, of k1 v1 k2 v2] by (simp add: get_bulk split: if_splits)
  moreover have "live (snd (bulk s p)) \<inter> set (cnc (snd (bulk s p))) = {}"
    unfolding c l using s unfolding no_leak_def by blast
  moreover have "live (snd (bulk s p)) \<union> set (cnc (snd (bulk s p))) = {..<n}"
    unfolding c l using s d unfolding no_leak_def by blast
  ultimately show ?thesis using wf_bulk [OF \<open>wf s\<close>] unfolding no_leak_def by blast
qed

text \<open>Storing a new context under a free key.\<close>

lemma no_leak_put:
  assumes "no_leak s n" and "get s k = None" and "sc_Cancel v = n"
  shows "no_leak (put s k v) (Suc n)"
proof -
  have "live (put s k v) = insert n (live s)"
    using assms(2,3) by (auto simp: live_def get_put split: if_splits) (metis option.distinct(1))
  moreover have fresh: "n \<notin> set (cnc s)" using assms(1) by (auto simp: no_leak_def)
  moreover have "k1 = k2" if "get (put s k v) k1 = Some v1" "get (put s k v) k2 = Some v2"
    "sc_Cancel v1 = sc_Cancel v2" for k1 k2 v1 v2
  proof (rule ccontr)
    assume "k1 \<noteq> k2"
    then show False
      using that assms(3) no_leakD(2) [OF assms(1), of k1 v1] no_leakD(2) [OF assms(1), of k2 v2]
        no_leak_inj [OF assms(1), of k1 v1 k2 v2]
      by (auto simp: get_put split: if_splits)
  qed
  ultimately show ?thesis using assms(1) unfolding no_leak_def
    by (auto simp: wf_put cnc_put)
qed

end

interpretation sst: sync_store cs_Get ListPrefixed cs_Set cs_Delete BulkDeletePrefixed cancelled wf_store
proof unfold_locales
  fix s :: contextStore and k k' p :: string and v :: SyncContext
  show "wf_store s \<Longrightarrow> wf_store (cs_Set s k v)" "wf_store s \<Longrightarrow> wf_store (cs_Delete s k)"
    "wf_store s \<Longrightarrow> wf_store (snd (BulkDeletePrefixed s p))" by simp_all
  show "cs_Get (cs_Set s k v) k' = (if k' = k then Some (v\<lparr>sc_key := k\<rparr>) else cs_Get s k')"
    by (simp add: cs_Get_def cs_Set_def map_of_remove_key)
  show "cs_Get (cs_Delete s k) k' = (if k' = k then None else cs_Get s k')"
    by (simp add: cs_Get_def cs_Delete_def map_of_remove_key split: option.split)
  show "cs_Get (snd (BulkDeletePrefixed s p)) k' = (if HasPrefix k' p then None else cs_Get s k')"
    by (simp add: cs_Get_def BulkDeletePrefixed_def Let_def map_of_filter_key)
  show "wf_store s \<Longrightarrow> cs_Get s k = Some v \<Longrightarrow> sc_key v = k" by (rule cs_Get_key)
  show "cancelled (cs_Set s k v) = cancelled s" by (simp add: cs_Set_def)
  show "cancelled (cs_Delete s k) =
      cancelled s @ (case cs_Get s k of None \<Rightarrow> [] | Some v \<Rightarrow> [sc_Cancel v])"
    by (simp add: cs_Delete_def split: option.split)
  show "set (cancelled (snd (BulkDeletePrefixed s p))) =
      set (cancelled s) \<union> {sc_Cancel v | k v. cs_Get s k = Some v \<and> HasPrefix k p}" if "wf_store s"
    using that by (auto simp: BulkDeletePrefixed_def Let_def cs_Get_mem)
  show "v \<in> set (ListPrefixed s p) \<longleftrightarrow> HasPrefix (sc_key v) p \<and> cs_Get s (sc_key v) = Some v" if "wf_store s"
    using that by (force simp: ListPrefixed_def cs_Get_mem wf_store_def)
qed

end
