(* ===== verification/Bound_Schema.thy ===== *)
theory Bound_Schema
  imports Api_Types
begin

text \<open>
  Conversion between CustomResourceDefinitions and BoundSchemas
  (\<open>v1alpha2/helpers/boundschema.go\<close>). JSON encoding and decoding of schemas, and the hash
  function, are parameters; schemas are represented by their JSON value.
\<close>

section \<open>CustomResourceDefinitions\<close>

record CRDCondition =
  cc_Type :: string
  cc_Status :: condition_status
  cc_LastTransitionTime :: time
  cc_Reason :: string
  cc_Message :: string

text \<open>The webhook client configuration of a CRD has a service reference that a BoundSchema has not.\<close>

record CRDWebhookClientConfig =
  kwc_URL :: "string option"
  kwc_Service :: "json option"
  kwc_CABundle :: string

record CRDWebhookConversion =
  kwh_ClientConfig :: "CRDWebhookClientConfig option"
  kwh_ConversionReviewVersions :: "string list"

record CRDConversion =
  kcc_Strategy :: string
  kcc_Webhook :: "CRDWebhookConversion option"

text \<open>
  \<open>cdv_Schema\<close> is the validation, if any, with its OpenAPI v3 schema, if any. The selectable fields, given by
  their JSON paths, are in a CRD only: a version of a BoundSchema has no such field.
\<close>

record CustomResourceDefinitionVersion =
  cdv_Name :: string
  cdv_Served :: bool
  cdv_Storage :: bool
  cdv_Deprecated :: bool
  cdv_DeprecationWarning :: "string option"
  cdv_Schema :: "json option option"
  cdv_Subresources :: "CustomResourceSubresources option"
  cdv_AdditionalPrinterColumns :: "CustomResourceColumnDefinition list"
  cdv_SelectableFields :: "string list"

record CustomResourceDefinition =
  crd_Meta :: ObjectMeta
  crd_Group :: string
  crd_Names :: CustomResourceDefinitionNames
  crd_Scope :: ResourceScope
  crd_Versions :: "CustomResourceDefinitionVersion list"
  crd_Conversion :: "CRDConversion option"
  crd_PreserveUnknownFields :: bool
  crd_Conditions :: "CRDCondition list"
  crd_AcceptedNames :: CustomResourceDefinitionNames
  crd_StoredVersions :: "string list"

section \<open>From CRD to BoundSchema\<close>

definition InformerScope_of :: "ResourceScope \<Rightarrow> InformerScope" where
  "InformerScope_of s =
     (case s of RS_ClusterScoped \<Rightarrow> ClusterScope | RS_NamespaceScoped \<Rightarrow> NamespacedScope
      | RS_Other x \<Rightarrow> InformerScopeOther x)"

text \<open>\<open>None\<close> is the nil dereference of a webhook strategy without a webhook.\<close>

definition convert_conversion :: "CRDConversion \<Rightarrow> CustomResourceConversion option" where
  "convert_conversion cv =
     (if kcc_Strategy cv = ''Webhook'' then
        (case kcc_Webhook cv of
           None \<Rightarrow> None
         | Some wh \<Rightarrow> Some \<lparr>crc_Strategy = kcc_Strategy cv,
             crc_Webhook = Some \<lparr>
               whc_ClientConfig = map_option (\<lambda>cc. \<lparr>wcc_URL = kwc_URL cc, wcc_CABundle = kwc_CABundle cc\<rparr>)
                 (kwh_ClientConfig wh),
               whc_ConversionReviewVersions = kwh_ConversionReviewVersions wh\<rparr>\<rparr>)
      else Some \<lparr>crc_Strategy = kcc_Strategy cv, crc_Webhook = None\<rparr>)"

definition zero_subresources :: CustomResourceSubresources where
  "zero_subresources = \<lparr>csr_Status = False, csr_Scale = None\<rparr>"

definition convert_version ::
    "(json \<Rightarrow> go_error + string) \<Rightarrow> CustomResourceDefinitionVersion \<Rightarrow> go_error + APIResourceVersion" where
  "convert_version marshal v =
     (let base = \<lparr>arv_Name = cdv_Name v, arv_Served = cdv_Served v, arv_Storage = cdv_Storage v,
            arv_Deprecated = cdv_Deprecated v, arv_DeprecationWarning = cdv_DeprecationWarning v,
            arv_Schema = None, arv_Subresources = zero_subresources,
            arv_AdditionalPrinterColumns = cdv_AdditionalPrinterColumns v\<rparr>;
          withSub = (\<lambda>b. case cdv_Subresources v of None \<Rightarrow> b | Some s \<Rightarrow> b\<lparr>arv_Subresources := s\<rparr>)
      in case cdv_Schema v of
           Some (Some s) \<Rightarrow>
             (case marshal s of
                Inl e \<Rightarrow> Inl (Errorf (''error converting schema for version '' @ cdv_Name v) (Some e))
              | Inr raw \<Rightarrow> Inr (withSub (base\<lparr>arv_Schema := Some raw\<rparr>)))
         | _ \<Rightarrow> Inr (withSub base))"

fun convert_versions ::
    "(json \<Rightarrow> go_error + string) \<Rightarrow> CustomResourceDefinitionVersion list \<Rightarrow> go_error + APIResourceVersion list" where
  "convert_versions marshal [] = Inr []"
| "convert_versions marshal (v # vs) =
     (case convert_version marshal v of
        Inl e \<Rightarrow> Inl e
      | Inr a \<Rightarrow> (case convert_versions marshal vs of Inl e \<Rightarrow> Inl e | Inr as \<Rightarrow> Inr (a # as)))"

text \<open>\<open>None\<close> stands for a panic.\<close>

definition CRDToBoundSchema ::
    "(json \<Rightarrow> go_error + string) \<Rightarrow> CustomResourceDefinition \<Rightarrow> string \<Rightarrow> (go_error + BoundSchema) option" where
  "CRDToBoundSchema marshal crd pfx =
     (let name = (if pfx \<noteq> '''' then pfx @ ''.'' @ om_Name (crd_Meta crd) else om_Name (crd_Meta crd))
      in if crd_Versions crd = []
         then Some (Inl (Errorf (''no versions specified for CRD '' @ om_Name (crd_Meta crd)) None))
         else if length (crd_Versions crd) > 1 \<and> crd_Conversion crd = None
         then Some (Inl (Errorf (''multiple versions specified for CRD '' @ om_Name (crd_Meta crd) @
                '' but no conversion strategy'') None))
         else case (case crd_Conversion crd of None \<Rightarrow> Some None | Some cv \<Rightarrow> map_option Some (convert_conversion cv)) of
           None \<Rightarrow> None
         | Some conversion \<Rightarrow>
             Some (case convert_versions marshal (crd_Versions crd) of
                Inl e \<Rightarrow> Inl e
              | Inr vs \<Rightarrow> Inr \<lparr>
                  bs_Kind = ''BoundSchema'', bs_Meta = zero_ObjectMeta\<lparr>om_Name := name\<rparr>,
                  bs_Spec = \<lparr>bss_InformerScope = InformerScope_of (crd_Scope crd),
                    bss_Group = crd_Group crd, bss_Names = crd_Names crd, bss_Scope = crd_Scope crd,
                    bss_Versions = vs, bss_Conversion = conversion\<rparr>,
                  bs_AcceptedNames = zero_Names, bs_StoredVersions = [], bs_Conditions = [],
                  bs_Instantiations = 0\<rparr>))"

section \<open>The hash of schemas\<close>

text \<open>The encodings are fed to the hash in the order of the schemas.\<close>

fun encode_all :: "(BoundSchema \<Rightarrow> go_error + string) \<Rightarrow> BoundSchema list \<Rightarrow> go_error + string" where
  "encode_all encode [] = Inr ''''"
| "encode_all encode (s # ss) =
     (case encode s of
        Inl e \<Rightarrow> Inl (Errorf (''failed to encode schema '' @ om_Name (bs_Meta s)) (Some e))
      | Inr x \<Rightarrow> (case encode_all encode ss of Inl e \<Rightarrow> Inl e | Inr y \<Rightarrow> Inr (x @ y)))"

definition BoundSchemasSpecHash ::
    "(BoundSchema \<Rightarrow> go_error + string) \<Rightarrow> (string \<Rightarrow> string) \<Rightarrow> BoundSchema list \<Rightarrow> go_error + string" where
  "BoundSchemasSpecHash encode sha256_hex schemas =
     (case encode_all encode schemas of Inl e \<Rightarrow> Inl e | Inr x \<Rightarrow> Inr (sha256_hex x))"

section \<open>From BoundSchema to CRD\<close>

definition convert_conversion_back :: "CustomResourceConversion \<Rightarrow> CRDConversion" where
  "convert_conversion_back cv = \<lparr>kcc_Strategy = crc_Strategy cv,
     kcc_Webhook =
       (if crc_Strategy cv = ''Webhook'' then
          map_option (\<lambda>wh. \<lparr>
            kwh_ClientConfig = map_option (\<lambda>cc. \<lparr>kwc_URL = wcc_URL cc, kwc_Service = None,
              kwc_CABundle = wcc_CABundle cc\<rparr>) (whc_ClientConfig wh),
            kwh_ConversionReviewVersions = whc_ConversionReviewVersions wh\<rparr>) (crc_Webhook cv)
        else None)\<rparr>"

text \<open>
  The raw schema is decoded as a validation first, and as a plain schema if that fails or has no
  OpenAPI schema; if both fail the version has no schema.
\<close>

definition decode_schema ::
    "(string \<Rightarrow> go_error + json option) \<Rightarrow> (string \<Rightarrow> go_error + json) \<Rightarrow> string option \<Rightarrow> json option option" where
  "decode_schema unmarshalValidation unmarshalSchema raw =
     (case raw of
        None \<Rightarrow> None
      | Some r \<Rightarrow>
          (if r = '''' then None
           else case unmarshalValidation r of
             Inr (Some s) \<Rightarrow> Some (Some s)
           | _ \<Rightarrow> (case unmarshalSchema r of Inr s \<Rightarrow> Some (Some s) | Inl _ \<Rightarrow> None)))"

definition convert_version_back ::
    "(string \<Rightarrow> go_error + json option) \<Rightarrow> (string \<Rightarrow> go_error + json) \<Rightarrow> APIResourceVersion \<Rightarrow>
     CustomResourceDefinitionVersion" where
  "convert_version_back uv us v = \<lparr>cdv_Name = arv_Name v, cdv_Served = arv_Served v,
     cdv_Storage = arv_Storage v, cdv_Deprecated = arv_Deprecated v,
     cdv_DeprecationWarning = arv_DeprecationWarning v,
     cdv_Schema = decode_schema uv us (arv_Schema v), cdv_Subresources = Some (arv_Subresources v),
     cdv_AdditionalPrinterColumns = arv_AdditionalPrinterColumns v, cdv_SelectableFields = []\<rparr>"

definition BoundSchemaToCRD ::
    "(string \<Rightarrow> go_error + json option) \<Rightarrow> (string \<Rightarrow> go_error + json) \<Rightarrow> BoundSchema \<Rightarrow>
     CustomResourceDefinition" where
  "BoundSchemaToCRD uv us schema =
     (let spec = bs_Spec schema
      in \<lparr>crd_Meta = zero_ObjectMeta\<lparr>om_Name := crn_Plural (bss_Names spec) @ ''.'' @ bss_Group spec\<rparr>,
          crd_Group = bss_Group spec, crd_Names = bss_Names spec, crd_Scope = bss_Scope spec,
          crd_Versions = map (convert_version_back uv us) (bss_Versions spec),
          crd_Conversion = map_option convert_conversion_back (bss_Conversion spec),
          crd_PreserveUnknownFields = False, crd_Conditions = [], crd_AcceptedNames = zero_Names,
          crd_StoredVersions = []\<rparr>)"

section \<open>The round trip\<close>

text \<open>
  The documented behaviour of the JSON functions: encoding a schema gives a non-empty text that
  decodes to the schema, and that has no field \<open>openAPIV3Schema\<close>.
\<close>

definition json_inverse ::
    "(json \<Rightarrow> go_error + string) \<Rightarrow> (string \<Rightarrow> go_error + json option) \<Rightarrow> (string \<Rightarrow> go_error + json) \<Rightarrow> bool" where
  "json_inverse marshal uv us \<longleftrightarrow>
     (\<forall>s raw. marshal s = Inr raw \<longrightarrow> raw \<noteq> '''' \<and> us raw = Inr s \<and> uv raw = Inr None)"

text \<open>
  What survives: everything but the selectable fields, the service of a webhook and the absence of
  subresources.
\<close>

definition normal_version :: "CustomResourceDefinitionVersion \<Rightarrow> CustomResourceDefinitionVersion" where
  "normal_version v = v\<lparr>
     cdv_Schema := (case cdv_Schema v of Some None \<Rightarrow> None | s \<Rightarrow> s),
     cdv_Subresources := Some (case cdv_Subresources v of None \<Rightarrow> \<lparr>csr_Status = False, csr_Scale = None\<rparr> | Some s \<Rightarrow> s),
     cdv_SelectableFields := []\<rparr>"

definition normal_conversion :: "CRDConversion \<Rightarrow> CRDConversion" where
  "normal_conversion cv = cv\<lparr>kcc_Webhook :=
     (if kcc_Strategy cv = ''Webhook'' then
        map_option (\<lambda>wh. wh\<lparr>kwh_ClientConfig := map_option (\<lambda>cc. cc\<lparr>kwc_Service := None\<rparr>)
          (kwh_ClientConfig wh)\<rparr>) (kcc_Webhook cv)
      else None)\<rparr>"

lemma convert_version_round_trip:
  assumes "json_inverse marshal uv us" and "convert_version marshal v = Inr a"
  shows "convert_version_back uv us a = normal_version v"
proof -
  have inv: "raw \<noteq> '''' \<and> us raw = Inr s \<and> uv raw = Inr None" if "marshal s = Inr raw" for s raw
    using assms(1) that by (simp add: json_inverse_def)
  show ?thesis
  proof (cases "cdv_Schema v")
    case None
    then show ?thesis using assms(2)
      by (auto simp: convert_version_def convert_version_back_def normal_version_def decode_schema_def zero_subresources_def
          Let_def split: option.splits)
  next
    case (Some sch)
    then show ?thesis using assms(2) inv
      by (cases sch) (auto simp: convert_version_def convert_version_back_def normal_version_def
          decode_schema_def Let_def zero_subresources_def split: option.splits sum.splits)
  qed
qed

lemma convert_versions_round_trip:
  assumes "json_inverse marshal uv us" and "convert_versions marshal vs = Inr as"
  shows "map (convert_version_back uv us) as = map normal_version vs"
  using assms(2)
proof (induction vs arbitrary: as)
  case (Cons v vs)
  then show ?case
    using convert_version_round_trip [OF assms(1)] by (auto split: sum.splits)
qed simp

lemma convert_conversion_round_trip:
  "convert_conversion cv = Some cv' \<Longrightarrow> convert_conversion_back cv' = normal_conversion cv"
  by (cases "kcc_Webhook cv")
    (auto simp: convert_conversion_def convert_conversion_back_def normal_conversion_def
      option.map_comp comp_def split: if_splits intro!: CRDConversion.equality CRDWebhookConversion.equality
      option.map_cong0 CRDWebhookClientConfig.equality)

text \<open>
  C34. A CRD that is turned into a BoundSchema, sent to the other cluster and turned back into a CRD
  there keeps its group, names, scope, conversion and all of its versions, in order, with their names, flags,
  schemas, subresources and printer columns. Dropped are a webhook's service reference and the
  selectable fields of the versions, for which a BoundSchema has no place; missing subresources become empty ones, and the name is
  the plural and group.
\<close>

theorem crd_bound_schema_round_trip:
  assumes "json_inverse marshal uv us" and "CRDToBoundSchema marshal crd pfx = Some (Inr schema)"
  shows "BoundSchemaToCRD uv us schema =
    crd\<lparr>crd_Meta := zero_ObjectMeta\<lparr>om_Name := crn_Plural (crd_Names crd) @ ''.'' @ crd_Group crd\<rparr>,
        crd_Versions := map normal_version (crd_Versions crd),
        crd_Conversion := map_option normal_conversion (crd_Conversion crd),
        crd_PreserveUnknownFields := False, crd_Conditions := [], crd_AcceptedNames := zero_Names,
        crd_StoredVersions := []\<rparr>"
proof -
  obtain conversion vs where conversion: "(case crd_Conversion crd of None \<Rightarrow> Some None
      | Some cv \<Rightarrow> map_option Some (convert_conversion cv)) = Some conversion"
    and vs: "convert_versions marshal (crd_Versions crd) = Inr vs"
    and schema: "bs_Spec schema = \<lparr>bss_InformerScope = InformerScope_of (crd_Scope crd),
                    bss_Group = crd_Group crd, bss_Names = crd_Names crd, bss_Scope = crd_Scope crd,
                    bss_Versions = vs, bss_Conversion = conversion\<rparr>"
    using assms(2) by (auto simp: CRDToBoundSchema_def Let_def split: if_splits option.splits sum.splits)
  have "map_option convert_conversion_back conversion = map_option normal_conversion (crd_Conversion crd)"
    using conversion convert_conversion_round_trip by (auto split: option.splits)
  then show ?thesis
    using convert_versions_round_trip [OF assms(1) vs] schema
    by (simp add: BoundSchemaToCRD_def)
qed

definition example_crd :: CustomResourceDefinition where
  "example_crd = \<lparr>crd_Meta = zero_ObjectMeta\<lparr>om_Name := ''foos.g''\<rparr>, crd_Group = ''g'',
     crd_Names = zero_Names\<lparr>crn_Plural := ''foos''\<rparr>, crd_Scope = RS_NamespaceScoped,
     crd_Versions = [\<lparr>cdv_Name = ''v1'', cdv_Served = True, cdv_Storage = True, cdv_Deprecated = False,
       cdv_DeprecationWarning = None, cdv_Schema = Some (Some JNull), cdv_Subresources = None,
       cdv_AdditionalPrinterColumns = [], cdv_SelectableFields = [''.spec.x'']\<rparr>],
     crd_Conversion = None, crd_PreserveUnknownFields = False, crd_Conditions = [],
     crd_AcceptedNames = zero_Names, crd_StoredVersions = []\<rparr>"

text \<open>JSON functions that know one schema.\<close>

definition example_marshal :: "json \<Rightarrow> go_error + string" where
  "example_marshal s = (if s = JNull then Inr ''null'' else Inl (Errorf '''' None))"

theorem crd_bound_schema_round_trip_witness:
  "\<exists>schema. CRDToBoundSchema example_marshal example_crd '''' = Some (Inr schema) \<and>
     crd_Versions (BoundSchemaToCRD (\<lambda>_. Inr None) (\<lambda>_. Inr JNull) schema) =
       [\<lparr>cdv_Name = ''v1'', cdv_Served = True, cdv_Storage = True, cdv_Deprecated = False,
         cdv_DeprecationWarning = None, cdv_Schema = Some (Some JNull),
         cdv_Subresources = Some \<lparr>csr_Status = False, csr_Scale = None\<rparr>, cdv_AdditionalPrinterColumns = [],
         cdv_SelectableFields = []\<rparr>]"
proof -
  have inv: "json_inverse example_marshal (\<lambda>_. Inr None) (\<lambda>_. Inr JNull)"
    by (simp add: json_inverse_def example_marshal_def)
  obtain schema where schema: "CRDToBoundSchema example_marshal example_crd '''' = Some (Inr schema)"
    by (simp add: CRDToBoundSchema_def example_crd_def convert_version_def example_marshal_def)
  show ?thesis
    using crd_bound_schema_round_trip [OF inv schema] schema
    by (simp add: example_crd_def normal_version_def)
qed

text \<open>
  The two \<open>ResourceGroupName\<close> methods, which a comment asks to keep the same, agree exactly on
  groups other than the core group.
\<close>

lemma ResourceGroupName_agree_iff:
  assumes "gr_Resource (rr_GroupResource r) = crn_Plural (bss_Names (bs_Spec b))"
    and "gr_Group (rr_GroupResource r) = bss_Group (bs_Spec b)"
  shows "ResourceGroupName r = BoundSchema_ResourceGroupName b \<longleftrightarrow> bss_Group (bs_Spec b) \<noteq> ''''"
  using assms by (simp add: ResourceGroupName_def BoundSchema_ResourceGroupName_def)

end
