(* ===== verification/Service_Export.thy ===== *)
theory Service_Export
  imports Context_Store Bound_Schema Kube_Client
begin

text \<open>
  The APIServiceExport reconciler of the konnector (\<open>serviceexport/serviceexport_reconcile.go\<close>):
  it starts and stops the syncers of an export's schemas and permission claims and copies
  conditions. The state is the store of running syncers, the number of contexts created so far,
  and the world of clients, caches and other controllers, which is arbitrary. Creating a
  controller and starting it are calls into that world.
\<close>

section \<open>State and calls\<close>

record 'w sync_world =
  sw_store :: contextStore
  sw_next :: nat
  sw_ext :: 'w

definition ext :: "('w, 'a) io \<Rightarrow> ('w sync_world, 'a) io" where
  "ext m = State (\<lambda>s. case run_state m (sw_ext s) of (a, w) \<Rightarrow> (a, s\<lparr>sw_ext := w\<rparr>))"

definition store_get :: "string \<Rightarrow> ('w sync_world, SyncContext option) io" where
  "store_get k = State (\<lambda>s. (cs_Get (sw_store s) k, s))"

definition store_list :: "string \<Rightarrow> ('w sync_world, SyncContext list) io" where
  "store_list p = State (\<lambda>s. (ListPrefixed (sw_store s) p, s))"

definition store_set :: "string \<Rightarrow> SyncContext \<Rightarrow> ('w sync_world, unit) io" where
  "store_set k v = State (\<lambda>s. ((), s\<lparr>sw_store := cs_Set (sw_store s) k v\<rparr>))"

definition store_delete :: "string \<Rightarrow> ('w sync_world, unit) io" where
  "store_delete k = State (\<lambda>s. ((), s\<lparr>sw_store := cs_Delete (sw_store s) k\<rparr>))"

definition store_bulk_delete :: "string \<Rightarrow> ('w sync_world, unit) io" where
  "store_bulk_delete p = State (\<lambda>s. ((), s\<lparr>sw_store := snd (BulkDeletePrefixed (sw_store s) p)\<rparr>))"

text \<open>\<open>context.WithCancel\<close>: the number of the new context.\<close>

definition with_cancel :: "('w sync_world, nat) io" where
  "with_cancel = State (\<lambda>s. (sw_next s, s\<lparr>sw_next := Suc (sw_next s)\<rparr>))"

text \<open>
  The fields of the reconciler, and the functions of other packages it calls to create and start
  controllers and informers. The boolean arguments tell whether the provider informer is cluster
  wide; \<open>startSyncers\<close> and \<open>startClaim\<close> run informers and controllers under the given context.
\<close>

record 'w reconciler =
  providerNamespace :: string
  getCRD :: "string \<Rightarrow> ('w, CustomResourceDefinition) call"
  getServiceBinding :: "string \<Rightarrow> ('w, APIServiceBinding) call"
  getRemoteBoundSchema :: "string \<Rightarrow> ('w, BoundSchema) call"
  updateRemoteBoundSchema :: "BoundSchema \<Rightarrow> ('w, err) io"
  getProviderNamespaceUID :: "('w, string) call"
  newMultiNamespaceInformer :: "GroupVersionResource \<Rightarrow> LabelSelector option \<Rightarrow> ('w, err) io"
  newSpecController :: "APIServiceExport \<Rightarrow> GroupVersionResource \<Rightarrow> string \<Rightarrow> bool \<Rightarrow> ('w, err) io"
  newStatusController :: "GroupVersionResource \<Rightarrow> string \<Rightarrow> bool \<Rightarrow> ('w, err) io"
  startSyncers :: "nat \<Rightarrow> GroupVersionResource \<Rightarrow> ('w, unit) io"
  labelSelectorAsSelector :: "LabelSelector \<Rightarrow> go_error + string"
  newClaimedController :: "GroupVersionResource \<Rightarrow> PermissionClaim \<Rightarrow> APIServiceExport \<Rightarrow> bool \<Rightarrow> ('w, err) io"
  newClaimedNamespacesController :: "GroupVersionResource \<Rightarrow> PermissionClaim \<Rightarrow> APIServiceExport \<Rightarrow> ('w, err) io"
  startClaim :: "nat \<Rightarrow> GroupVersionResource \<Rightarrow> ('w, unit) io"
  gvr_String :: "GroupVersionResource \<Rightarrow> string"

section \<open>Syncers of schemas\<close>

definition cluster_wide :: "BoundSchema \<Rightarrow> bool" where
  "cluster_wide schema \<longleftrightarrow> bss_Scope (bs_Spec schema) = RS_ClusterScoped \<or>
     bss_InformerScope (bs_Spec schema) = ClusterScope"

definition syncVersion :: "BoundSchema \<Rightarrow> string" where
  "syncVersion schema =
     (case List.find arv_Served (bss_Versions (bs_Spec schema)) of Some v \<Rightarrow> arv_Name v | None \<Rightarrow> '''')"

definition schema_gvr :: "BoundSchema \<Rightarrow> GroupVersionResource" where
  "schema_gvr schema = \<lparr>gvr_Group = bss_Group (bs_Spec schema), gvr_Version = syncVersion schema,
     gvr_Resource = crn_Plural (bss_Names (bs_Spec schema))\<rparr>"

text \<open>From the choice of the version on: there is no syncer under the key.\<close>

definition start_schema_syncer :: "'w reconciler \<Rightarrow> APIServiceExport \<Rightarrow> BoundSchema \<Rightarrow> string \<Rightarrow>
    ('w sync_world, err) io" where
  "start_schema_syncer r export schema key =
     (if syncVersion schema = '''' then
        State_Monad.return (Some (Errorf (''no served version found for BoundSchema '' @ om_Name (bs_Meta schema)) None))
      else do {
        uid \<leftarrow> ext (getProviderNamespaceUID r);
        (case uid of
           Inl e \<Rightarrow> State_Monad.return (Some e)
         | Inr providerNamespaceUID \<Rightarrow> do {
             i \<leftarrow> (if cluster_wide schema then State_Monad.return None
                   else ext (newMultiNamespaceInformer r (schema_gvr schema) None));
             (case i of
                Some e \<Rightarrow> State_Monad.return (Some e)
              | None \<Rightarrow> do {
                  c \<leftarrow> ext (newSpecController r export (schema_gvr schema) providerNamespaceUID (cluster_wide schema));
                  (case c of
                     Some _ \<Rightarrow> State_Monad.return None
                   | None \<Rightarrow> do {
                       c' \<leftarrow> ext (newStatusController r (schema_gvr schema) providerNamespaceUID (cluster_wide schema));
                       (case c' of
                          Some _ \<Rightarrow> State_Monad.return None
                        | None \<Rightarrow> do {
                            h \<leftarrow> with_cancel;
                            ext (startSyncers r h (schema_gvr schema));
                            store_set key \<lparr>sc_key = '''', sc_Generation = om_Generation (ex_Meta export), sc_Cancel = h\<rparr>;
                            State_Monad.return None }) }) }) }) })"

definition ensureControllerForSchema :: "'w reconciler \<Rightarrow> APIServiceExport \<Rightarrow> BoundSchema \<Rightarrow>
    ('w sync_world, err) io" where
  "ensureControllerForSchema r export schema =
     (let key = NewKey (om_Namespace (ex_Meta export)) (om_Name (ex_Meta export)) [om_Name (bs_Meta schema)]
      in do {
        c \<leftarrow> store_get key;
        (case c of
           Some ctx \<Rightarrow>
             (if sc_Generation ctx = om_Generation (ex_Meta export) then State_Monad.return None
              else do { store_delete key; start_schema_syncer r export schema key })
         | None \<Rightarrow> start_schema_syncer r export schema key) })"

section \<open>Controllers of permission claims\<close>

definition ensureControllerForPermissionClaim :: "'w reconciler \<Rightarrow> APIServiceBinding \<Rightarrow> PermissionClaim \<Rightarrow>
    APIServiceExport \<Rightarrow> GroupVersionResource \<Rightarrow> bool \<Rightarrow> string \<Rightarrow> ('w sync_world, err) io" where
  "ensureControllerForPermissionClaim r binding claim export claimGVR isClusterScoped claimKey =
     (case (case sel_LabelSelector (pc_Selector claim) of
              None \<Rightarrow> Inr ''''
            | Some ls \<Rightarrow> labelSelectorAsSelector r ls) of
        Inl e \<Rightarrow> State_Monad.return (Some (Errorf ''failed to convert label selector'' (Some e)))
      | Inr selectorStr \<Rightarrow> do {
          i \<leftarrow> (if isClusterScoped then State_Monad.return None
                else ext (newMultiNamespaceInformer r claimGVR (sel_LabelSelector (pc_Selector claim))));
          (case i of
             Some e \<Rightarrow> State_Monad.return (Some e)
           | None \<Rightarrow> do {
               c \<leftarrow> ext (newClaimedController r claimGVR claim export isClusterScoped);
               (case c of
                  Some e \<Rightarrow> State_Monad.return (Some e)
                | None \<Rightarrow> do {
                    c' \<leftarrow> ext (newClaimedNamespacesController r claimGVR claim export);
                    (case c' of
                       Some e \<Rightarrow> State_Monad.return (Some e)
                     | None \<Rightarrow> do {
                         h \<leftarrow> with_cancel;
                         ext (startClaim r h claimGVR);
                         store_set claimKey \<lparr>sc_key = '''', sc_Generation = om_Generation (bi_Meta binding), sc_Cancel = h\<rparr>;
                         State_Monad.return None }) }) }) })"

definition claim_key :: "'w reconciler \<Rightarrow> APIServiceExport \<Rightarrow> GroupVersionResource \<Rightarrow> string" where
  "claim_key r export gvr = NewKey (om_Namespace (ex_Meta export)) (om_Name (ex_Meta export)) [''claim'', gvr_String r gvr]"

fun claims_loop :: "'w reconciler \<Rightarrow> APIServiceExport \<Rightarrow> APIServiceBinding \<Rightarrow> bool \<Rightarrow> PermissionClaim list \<Rightarrow>
    go_error list \<Rightarrow> string list \<Rightarrow> ('w sync_world, go_error list \<times> string list) io" where
  "claims_loop r export binding isClusterScoped [] errs processed = State_Monad.return (errs, processed)"
| "claims_loop r export binding isClusterScoped (claim # claims) errs processed =
     (case ResolveClaimableAPI claim of
        Inl _ \<Rightarrow> claims_loop r export binding isClusterScoped claims errs processed
      | Inr claimGVR \<Rightarrow>
          (let key = claim_key r export claimGVR
           in do {
             c \<leftarrow> store_get key;
             e \<leftarrow> (case c of
                    Some ctx \<Rightarrow>
                      (if sc_Generation ctx = om_Generation (bi_Meta binding) then State_Monad.return None
                       else do {
                         store_delete key;
                         ensureControllerForPermissionClaim r binding claim export claimGVR isClusterScoped key })
                  | None \<Rightarrow> ensureControllerForPermissionClaim r binding claim export claimGVR isClusterScoped key);
             claims_loop r export binding isClusterScoped claims (errs_append errs e) (processed @ [key]) }))"

definition stop_unprocessed :: "(SyncContext \<Rightarrow> bool) \<Rightarrow> SyncContext list \<Rightarrow> ('w sync_world, unit) io" where
  "stop_unprocessed keep ctxs =
     for_each (\<lambda>c. if keep c then State_Monad.return () else store_delete (sc_key c)) ctxs"

definition ensureControllersForPermissionClaims :: "'w reconciler \<Rightarrow> APIServiceExport \<Rightarrow> APIServiceBinding \<Rightarrow>
    bool \<Rightarrow> ('w sync_world, err) io" where
  "ensureControllersForPermissionClaims r export binding isClusterScoped = do {
     res \<leftarrow> claims_loop r export binding isClusterScoped (bis_PermissionClaims (bi_Status binding)) [] [];
     (case res of (errs, processedClaims) \<Rightarrow> do {
        contexts \<leftarrow> store_list (NewKey (om_Namespace (ex_Meta export)) (om_Name (ex_Meta export)) [''claim'']);
        stop_unprocessed (\<lambda>c. sc_key c \<in> set processedClaims) contexts;
        State_Monad.return (NewAggregate errs) }) }"

section \<open>ensureControllers\<close>

text \<open>
  The loop over the resources; in its body \<open>name\<close> is the schema's name, also in the key whose
  syncers are stopped when the schema does not exist.
\<close>

fun schemas_loop :: "'w reconciler \<Rightarrow> string \<Rightarrow> APIServiceExport \<Rightarrow> APIServiceExportRequestResource list \<Rightarrow>
    go_error list \<Rightarrow> string list \<Rightarrow> bool \<Rightarrow> ('w sync_world, go_error list \<times> string list \<times> bool) io" where
  "schemas_loop r namespace export [] errs processed isClusterScoped =
     State_Monad.return (errs, processed, isClusterScoped)"
| "schemas_loop r namespace export (res # ress) errs processed isClusterScoped =
     (let name = ResourceGroupName res
      in do {
        g \<leftarrow> ext (getRemoteBoundSchema r name);
        (case g of
           Inl e \<Rightarrow>
             (if IsNotFound e then do {
                store_bulk_delete (NewKey namespace name [name]);
                schemas_loop r namespace export ress errs processed isClusterScoped }
              else schemas_loop r namespace export ress (errs @ [e]) processed isClusterScoped)
         | Inr schema \<Rightarrow> do {
             e \<leftarrow> ensureControllerForSchema r export schema;
             schemas_loop r namespace export ress (errs_append errs e) (processed @ [name]) (cluster_wide schema) }) })"

definition keep_schema :: "string \<Rightarrow> string list \<Rightarrow> SyncContext \<Rightarrow> bool" where
  "keep_schema exportKey processed c =
     (let schemaName = TrimPrefix (sc_key c) (exportKey @ ''.'')
      in HasPrefix schemaName ''claim.'' \<or> schemaName \<in> set processed)"

definition ensureControllers :: "'w reconciler \<Rightarrow> string \<Rightarrow> string \<Rightarrow> APIServiceExport option \<Rightarrow>
    ('w sync_world, err) io" where
  "ensureControllers r namespace name export =
     (let exportKey = namespace @ ''.'' @ name
      in case export of
           None \<Rightarrow> do { store_bulk_delete exportKey; State_Monad.return None }
         | Some ex \<Rightarrow> do {
             b \<leftarrow> ext (getServiceBinding r (om_Name (ex_Meta ex)));
             (case b of
                Inl e \<Rightarrow>
                  (if \<not> IsNotFound e then State_Monad.return (Some e)
                   else do { store_bulk_delete exportKey; State_Monad.return None })
              | Inr binding \<Rightarrow> do {
                  res \<leftarrow> schemas_loop r namespace ex (exs_Resources (ex_Spec ex)) [] [] False;
                  (case res of (errs, processedSchemas, isClusterScoped) \<Rightarrow> do {
                     e \<leftarrow> ensureControllersForPermissionClaims r ex binding isClusterScoped;
                     contexts \<leftarrow> store_list exportKey;
                     stop_unprocessed (keep_schema exportKey processedSchemas) contexts;
                     State_Monad.return (NewAggregate (errs_append errs e)) }) }) })"

section \<open>Conditions\<close>

definition copied_condition :: "CRDCondition \<Rightarrow> condition" where
  "copied_condition c = \<lparr>cond_Type = cc_Type c, cond_Status = cc_Status c,
     cond_Severity = (if cc_Status c = ConditionTrue then ConditionSeverityNone else ConditionSeverityError),
     cond_LastTransitionTime = cc_LastTransitionTime c, cond_Reason = cc_Reason c, cond_Message = cc_Message c\<rparr>"

text \<open>The index of the last condition of a type, as the loop that fills \<open>boundSchemaIndex\<close> leaves it.\<close>

definition boundSchemaIndex :: "condition list \<Rightarrow> string \<Rightarrow> nat option" where
  "boundSchemaIndex cs t = fold (\<lambda>i acc. if cond_Type (cs ! i) = t then Some i else acc) [0..<length cs] None"

fun copy_conditions :: "(string \<Rightarrow> nat option) \<Rightarrow> CRDCondition list \<Rightarrow> condition list \<Rightarrow> condition list" where
  "copy_conditions idx [] cs = cs"
| "copy_conditions idx (c # ccs) cs =
     (if cc_Type c = ReadyCondition then copy_conditions idx ccs cs
      else copy_conditions idx ccs
        (case idx (cc_Type c) of
           Some i \<Rightarrow> cs[i := copied_condition c]
         | None \<Rightarrow> cs @ [copied_condition c]))"

definition copy_crd_status :: "time \<Rightarrow> CustomResourceDefinition \<Rightarrow> BoundSchema \<Rightarrow> BoundSchema" where
  "copy_crd_status now crd bs =
     (let cs = copy_conditions (boundSchemaIndex (bs_Conditions bs)) (crd_Conditions crd) (bs_Conditions bs);
          bs' = SetSummary BoundSchema_setter now (bs\<lparr>bs_Conditions := cs\<rparr>) []
      in bs'\<lparr>bs_AcceptedNames := crd_AcceptedNames crd, bs_StoredVersions := crd_StoredVersions crd\<rparr>)"

fun crd_conditions_loop :: "'w reconciler \<Rightarrow> time \<Rightarrow> APIServiceExportRequestResource list \<Rightarrow> go_error list \<Rightarrow> bool \<Rightarrow>
    ('w sync_world, go_error list \<times> bool) io" where
  "crd_conditions_loop r now [] errs allValid = State_Monad.return (errs, allValid)"
| "crd_conditions_loop r now (res # ress) errs allValid = do {
     g \<leftarrow> ext (getRemoteBoundSchema r (ResourceGroupName res));
     (case g of
        Inl e \<Rightarrow> crd_conditions_loop r now ress (if IsNotFound e then errs else errs @ [e]) allValid
      | Inr boundSchema \<Rightarrow> do {
          k \<leftarrow> ext (getCRD r (om_Name (bs_Meta boundSchema)));
          (case k of
             Inl e \<Rightarrow> crd_conditions_loop r now ress (if IsNotFound e then errs else errs @ [e]) allValid
           | Inr crd \<Rightarrow> do {
               u \<leftarrow> ext (updateRemoteBoundSchema r (copy_crd_status now crd boundSchema));
               (case u of
                  Some e \<Rightarrow> crd_conditions_loop r now ress (errs @ [e]) False
                | None \<Rightarrow> crd_conditions_loop r now ress errs allValid) }) }) }"

definition ensureCRDConditionsCopiedToBoundSchema :: "'w reconciler \<Rightarrow> time \<Rightarrow> APIServiceExport \<Rightarrow>
    ('w sync_world, err \<times> APIServiceExport) io" where
  "ensureCRDConditionsCopiedToBoundSchema r now export = do {
     res \<leftarrow> crd_conditions_loop r now (exs_Resources (ex_Spec export)) [] True;
     (case res of (errs, allValid) \<Rightarrow>
        State_Monad.return (NewAggregate errs,
          if allValid then MarkTrue APIServiceExport_setter now export APIServiceExportConditionConnected
          else MarkFalse APIServiceExport_setter now export APIServiceExportConditionConnected
                 ''BoundSchemasNotValid'' ConditionSeverityWarning ''One or more BoundSchemas are not valid'')) }"

definition ensureServiceBindingConditionCopied :: "'w reconciler \<Rightarrow> time \<Rightarrow> APIServiceExport \<Rightarrow>
    ('w sync_world, err \<times> APIServiceExport) io" where
  "ensureServiceBindingConditionCopied r now export = do {
     b \<leftarrow> ext (getServiceBinding r (om_Name (ex_Meta export)));
     State_Monad.return
       (case b of
          Inl e \<Rightarrow>
            (if \<not> IsNotFound e then (Some e, export)
             else (None,
               MarkFalse APIServiceExport_setter now
                 (MarkFalse APIServiceExport_setter now export APIServiceExportConditionConnected
                    ''APIServiceBindingNotFound'' ConditionSeverityInfo ''No APIServiceBinding exists.'')
                 APIServiceExportConditionConsumerInSync ''NA'' ConditionSeverityInfo ''No APIServiceBinding exists.''))
        | Inr binding \<Rightarrow>
            (let export' = MarkTrue APIServiceExport_setter now export APIServiceExportConditionConnected
             in (None,
                 case Get APIServiceBinding_setter binding APIServiceBindingConditionSchemaInSync of
                   Some inSync \<Rightarrow> Set APIServiceExport_setter now export'
                     (Some (inSync\<lparr>cond_Type := APIServiceExportConditionConsumerInSync\<rparr>))
                 | None \<Rightarrow> MarkFalse APIServiceExport_setter now export' APIServiceExportConditionConsumerInSync
                     ''Unknown'' ConditionSeverityInfo
                     (''APIServiceBinding '' @ om_Name (bi_Meta binding) @
                      '' in the consumer cluster does not have a SchemaInSync condition.'')))) }"

definition reconcile :: "'w reconciler \<Rightarrow> time \<Rightarrow> string \<Rightarrow> string \<Rightarrow> APIServiceExport option \<Rightarrow>
    ('w sync_world, err \<times> APIServiceExport option) io" where
  "reconcile r now namespace name export = do {
     e1 \<leftarrow> ensureControllers r namespace name export;
     (case export of
        None \<Rightarrow> State_Monad.return (NewAggregate (errs_append [] e1), None)
      | Some ex \<Rightarrow> do {
          r2 \<leftarrow> ensureServiceBindingConditionCopied r now ex;
          r3 \<leftarrow> ensureCRDConditionsCopiedToBoundSchema r now (snd r2);
          State_Monad.return
            (NewAggregate (errs_append (errs_append (errs_append [] e1) (fst r2)) (fst r3)), Some (snd r3)) }) }"

text \<open>The end of a claim's goroutine: \<open>defer r.syncStore.Delete(claimKey)\<close>.\<close>

definition claim_goroutine_exit :: "string \<Rightarrow> ('w sync_world, unit) io" where
  "claim_goroutine_exit claimKey = store_delete claimKey"

section \<open>Rules for the calls\<close>

lemma wp_ext [wp_intros]: "(\<And>a w. run_state m (sw_ext s) = (a, w) \<Longrightarrow> Q a (s\<lparr>sw_ext := w\<rparr>)) \<Longrightarrow> wp (ext m) Q s"
  by (simp add: wp_def ext_def split: prod.split)

lemma wp_store [wp_intros]:
  "Q (cs_Get (sw_store s) k) s \<Longrightarrow> wp (store_get k) Q s"
  "R (ListPrefixed (sw_store s) p) s \<Longrightarrow> wp (store_list p) R s"
  "T () (s\<lparr>sw_store := cs_Set (sw_store s) k v\<rparr>) \<Longrightarrow> wp (store_set k v) T s"
  "T () (s\<lparr>sw_store := cs_Delete (sw_store s) k\<rparr>) \<Longrightarrow> wp (store_delete k) T s"
  "T () (s\<lparr>sw_store := snd (BulkDeletePrefixed (sw_store s) p)\<rparr>) \<Longrightarrow> wp (store_bulk_delete p) T s"
  "U (sw_next s) (s\<lparr>sw_next := Suc (sw_next s)\<rparr>) \<Longrightarrow> wp with_cancel U s"
  by (simp_all add: wp_def store_get_def store_list_def store_set_def store_delete_def
      store_bulk_delete_def with_cancel_def)

lemma preserves_wp: "preserves P m \<longleftrightarrow> (\<forall>s. P s \<longrightarrow> wp m (\<lambda>_. P) s)"
  by (simp add: preserves_def wp_def case_prod_beta)

section \<open>No syncer leaks\<close>

abbreviation inv :: "'w sync_world \<Rightarrow> bool" where
  "inv s \<equiv> sst.no_leak (sw_store s) (sw_next s)"

lemma preserves_inv_calls [preserves_intros]:
  "preserves inv (ext m)"
  "preserves inv (store_get k)"
  "preserves inv (store_list p)"
  "preserves inv (store_delete k)"
  "preserves inv (store_bulk_delete p)"
  by (simp_all add: preserves_def ext_def store_get_def store_list_def store_delete_def
      store_bulk_delete_def sst.no_leak_del sst.no_leak_bulk split: prod.split)

text \<open>A new context is stored under a key that is free.\<close>

lemma start_schema_syncer_inv:
  assumes "inv s" and "cs_Get (sw_store s) key = None"
  shows "wp (start_schema_syncer r export schema key) (\<lambda>_. inv) s"
  using assms unfolding start_schema_syncer_def
  by (intro wp_intros) (simp_all add: sst.no_leak_put)

lemma ensureControllerForPermissionClaim_inv:
  assumes "inv s" and "cs_Get (sw_store s) key = None"
  shows "wp (ensureControllerForPermissionClaim r binding claim export gvr b key) (\<lambda>_. inv) s"
  using assms unfolding ensureControllerForPermissionClaim_def
  by (intro wp_intros) (simp_all add: sst.no_leak_put)

lemma preserves_ensureControllerForSchema [preserves_intros]:
  "preserves inv (ensureControllerForSchema r export schema)"
  unfolding preserves_wp ensureControllerForSchema_def Let_def
  by (intro allI impI wp_intros start_schema_syncer_inv) (simp_all add: sst.no_leak_del sst.get_del)

lemma preserves_claims_loop [preserves_intros]:
  "preserves inv (claims_loop r export binding b claims errs processed)"
proof (induction claims arbitrary: errs processed)
  case (Cons claim claims)
  have start: "wp (do {
        c \<leftarrow> store_get key;
        (case c of
           Some ctx \<Rightarrow>
             (if sc_Generation ctx = g then State_Monad.return None
              else do { store_delete key; ensureControllerForPermissionClaim r binding claim export gvr b key })
         | None \<Rightarrow> ensureControllerForPermissionClaim r binding claim export gvr b key) }) (\<lambda>_. inv) s"
    if "inv s" for s g gvr key
    using that
    by (intro wp_intros ensureControllerForPermissionClaim_inv) (simp_all add: sst.no_leak_del sst.get_del)
  show ?case
  proof (cases "ResolveClaimableAPI claim")
    case (Inl e)
    then show ?thesis using Cons.IH by simp
  next
    case (Inr gvr)
    have rearrange: "State_Monad.bind m (\<lambda>c. State_Monad.bind (f c) h) = State_Monad.bind (State_Monad.bind m f) h"
      for m :: "('a sync_world, SyncContext option) io" and f and h :: "err \<Rightarrow> _" by simp
    show ?thesis
      unfolding claims_loop.simps Inr Let_def sum.case rearrange
      by (rule preserves_bind) (simp add: preserves_wp start, rule Cons.IH)
  qed
qed (simp add: preserves_intros)

lemma preserves_stop_unprocessed [preserves_intros]: "preserves inv (stop_unprocessed keep ctxs)"
  unfolding stop_unprocessed_def by (intro preserves_intros)

lemma preserves_ensureControllersForPermissionClaims [preserves_intros]:
  "preserves inv (ensureControllersForPermissionClaims r export binding b)"
  unfolding ensureControllersForPermissionClaims_def by (intro preserves_intros)

lemma preserves_schemas_loop [preserves_intros]:
  "preserves inv (schemas_loop r namespace export ress errs processed b)"
  by (induction ress arbitrary: errs processed b) (auto intro!: preserves_intros)

lemma preserves_ensureControllers [preserves_intros]:
  "preserves inv (ensureControllers r namespace name export)"
  unfolding ensureControllers_def Let_def by (intro preserves_intros)

lemma preserves_crd_conditions_loop [preserves_intros]:
  "preserves inv (crd_conditions_loop r now ress errs b)"
  by (induction ress arbitrary: errs b) (auto intro!: preserves_intros)

lemma preserves_reconcile: "preserves inv (reconcile r now namespace name export)"
  unfolding reconcile_def ensureServiceBindingConditionCopied_def ensureCRDConditionsCopiedToBoundSchema_def
  by (intro preserves_intros)

text \<open>
  The runs of the konnector: reconciliations of any export with any reconciler, ends of claim
  goroutines, and steps of everything else, in any order.
\<close>

inductive reachable :: "'w sync_world \<Rightarrow> bool" where
  start: "reachable \<lparr>sw_store = New, sw_next = 0, sw_ext = w\<rparr>"
| reconciled: "reachable s \<Longrightarrow> run_state (reconcile r now namespace name export) s = (res, s') \<Longrightarrow> reachable s'"
| claim_exit: "reachable s \<Longrightarrow> run_state (claim_goroutine_exit key) s = ((), s') \<Longrightarrow> reachable s'"
| environment: "reachable s \<Longrightarrow> reachable (s\<lparr>sw_ext := w\<rparr>)"

lemma reachable_inv: "reachable s \<Longrightarrow> inv s"
proof (induction rule: reachable.induct)
  case (start w)
  show ?case unfolding sst.no_leak_def sst.live_def by (simp add: cs_Get_def New_def wf_store_def)
next
  case (reconciled s r now namespace name export res s')
  then show ?case using preservesD [OF preserves_reconcile] by blast
next
  case (claim_exit s key s')
  then show ?case unfolding claim_goroutine_exit_def using preservesD [OF preserves_inv_calls(4)] by blast
next
  case (environment s w)
  then show ?case by simp
qed

text \<open>An instance whose calls all succeed, with one schema for every name.\<close>

definition example_schema :: "string \<Rightarrow> BoundSchema" where
  "example_schema n = \<lparr>bs_Kind = ''BoundSchema'', bs_Meta = zero_ObjectMeta\<lparr>om_Name := n\<rparr>,
     bs_Spec = \<lparr>bss_InformerScope = NamespacedScope, bss_Group = ''g'',
       bss_Names = zero_Names\<lparr>crn_Plural := ''foos''\<rparr>, bss_Scope = RS_NamespaceScoped,
       bss_Versions = [\<lparr>arv_Name = ''v1'', arv_Served = True, arv_Storage = True, arv_Deprecated = False,
         arv_DeprecationWarning = None, arv_Schema = None, arv_Subresources = zero_subresources,
         arv_AdditionalPrinterColumns = []\<rparr>], bss_Conversion = None\<rparr>,
     bs_AcceptedNames = zero_Names, bs_StoredVersions = [], bs_Conditions = [], bs_Instantiations = 0\<rparr>"

definition example_reconciler :: "unit reconciler" where
  "example_reconciler = \<lparr>
     providerNamespace = ''pns'',
     getCRD = (\<lambda>n. State_Monad.return (Inl (StatusError ReasonNotFound n))),
     getServiceBinding = (\<lambda>n. State_Monad.return (Inr (example_binding []))),
     getRemoteBoundSchema = (\<lambda>n. State_Monad.return (Inr (example_schema n))),
     updateRemoteBoundSchema = (\<lambda>_. State_Monad.return None),
     getProviderNamespaceUID = State_Monad.return (Inr ''uid''),
     newMultiNamespaceInformer = (\<lambda>_ _. State_Monad.return None),
     newSpecController = (\<lambda>_ _ _ _. State_Monad.return None),
     newStatusController = (\<lambda>_ _ _. State_Monad.return None),
     startSyncers = (\<lambda>_ _. State_Monad.return ()),
     labelSelectorAsSelector = (\<lambda>_. Inr ''x''),
     newClaimedController = (\<lambda>_ _ _ _. State_Monad.return None),
     newClaimedNamespacesController = (\<lambda>_ _ _. State_Monad.return None),
     startClaim = (\<lambda>_ _. State_Monad.return ()),
     gvr_String = gvr_Resource\<rparr>"

definition example_export :: "string \<Rightarrow> string list \<Rightarrow> APIServiceExport" where
  "example_export name resources = \<lparr>ex_Kind = ''APIServiceExport'', ex_Meta = zero_ObjectMeta\<lparr>om_Name := name, om_Namespace := ''ns'', om_Generation := 1\<rparr>,
     ex_Spec = \<lparr>exs_Resources = map (\<lambda>n. \<lparr>rr_GroupResource = \<lparr>gr_Group = ''g'', gr_Resource = n\<rparr>, rr_Versions = []\<rparr>) resources,
       exs_PermissionClaims = [], exs_InformerScope = NamespacedScope,
       exs_ClusterScopedIsolation = IsolationPrefixed\<rparr>, ex_Conditions = []\<rparr>"

lemmas call_defs = ext_def store_get_def store_list_def store_set_def store_delete_def
  store_bulk_delete_def with_cancel_def

lemmas store_defs = cs_Get_def cs_Set_def cs_Delete_def ListPrefixed_def BulkDeletePrefixed_def
  remove_key_def New_def NewKey_def

lemma export_example_run:
  "run_state (ensureControllers example_reconciler ''ns'' ''foo'' (Some (example_export ''foo'' [''foos''])))
     \<lparr>sw_store = New, sw_next = 0, sw_ext = ()\<rparr> =
   (None, \<lparr>sw_store = \<lparr>store = [(''ns.foo.foos.g'', \<lparr>sc_key = ''ns.foo.foos.g'', sc_Generation = 1, sc_Cancel = 0\<rparr>)],
             cancelled = []\<rparr>, sw_next = 1, sw_ext = ()\<rparr>)"
  by (simp add: ensureControllers_def ensureControllersForPermissionClaims_def ensureControllerForSchema_def
      start_schema_syncer_def stop_unprocessed_def keep_schema_def example_reconciler_def example_export_def
      example_schema_def example_binding_def call_defs store_defs syncVersion_def cluster_wide_def ResourceGroupName_def
      zero_ObjectMeta_def HasPrefix_def TrimPrefix_def NewAggregate_def errs_append_def Let_def)


definition example_state :: "unit sync_world" where
  "example_state = \<lparr>sw_store = \<lparr>store = [(''ns.foo.foos.g'', \<lparr>sc_key = ''ns.foo.foos.g'', sc_Generation = 1, sc_Cancel = 0\<rparr>)],
     cancelled = []\<rparr>, sw_next = 1, sw_ext = ()\<rparr>"

text \<open>The functions that copy conditions leave the store alone.\<close>

lemma conditions_keep_store:
  "preserves (\<lambda>s. sw_store s = st \<and> sw_next s = n) (ensureServiceBindingConditionCopied r now ex)"
  "preserves (\<lambda>s. sw_store s = st \<and> sw_next s = n) (ensureCRDConditionsCopiedToBoundSchema r now ex)"
proof -
  have ext: "preserves (\<lambda>s. sw_store s = st \<and> sw_next s = n) (ext m)" for m :: "('b, 'c) io"
    by (simp add: preserves_def ext_def split: prod.split)
  show "preserves (\<lambda>s. sw_store s = st \<and> sw_next s = n) (ensureServiceBindingConditionCopied r now ex)"
    unfolding ensureServiceBindingConditionCopied_def by (intro preserves_intros ext)
  have "preserves (\<lambda>s. sw_store s = st \<and> sw_next s = n) (crd_conditions_loop r now ress errs b)" for ress errs b
    by (induction ress arbitrary: errs b) (auto intro!: preserves_intros ext)
  then show "preserves (\<lambda>s. sw_store s = st \<and> sw_next s = n) (ensureCRDConditionsCopiedToBoundSchema r now ex)"
    unfolding ensureCRDConditionsCopiedToBoundSchema_def by (intro preserves_intros) auto
qed

lemma example_reachable: "reachable example_state"
proof -
  let ?ex = "example_export ''foo'' [''foos'']" and ?s = "\<lparr>sw_store = New, sw_next = 0, sw_ext = ()\<rparr>"
  let ?P = "\<lambda>s :: unit sync_world. sw_store s = sw_store example_state \<and> sw_next s = 1"
  let ?m = "reconcile example_reconciler 5 ''ns'' ''foo'' (Some ?ex)"
  have "preserves ?P (do {
          r2 \<leftarrow> ensureServiceBindingConditionCopied example_reconciler 5 ?ex;
          r3 \<leftarrow> ensureCRDConditionsCopiedToBoundSchema example_reconciler 5 (snd r2);
          State_Monad.return (f r2 r3) })" for f :: "_ \<Rightarrow> _ \<Rightarrow> err \<times> APIServiceExport option"
    by (intro preserves_intros conditions_keep_store)
  moreover have "?P (snd (run_state (ensureControllers example_reconciler ''ns'' ''foo'' (Some ?ex)) ?s))"
    by (simp add: export_example_run example_state_def)
  ultimately have "wp ?m (\<lambda>_. ?P) ?s"
    unfolding reconcile_def option.case preserves_wp
    by (intro wp_bind) (auto simp: wp_def [of "ensureControllers _ _ _ _"] split: prod.splits)
  then obtain res s' where run: "run_state ?m ?s = (res, s')" and s': "?P s'"
    by (auto simp: wp_def split: prod.splits)
  have "s' = example_state" using s' by (simp add: example_state_def)
  then show ?thesis using reachable.reconciled [OF reachable.start run] by simp
qed

text \<open>
  C3. No syncer is lost: in every state the konnector reaches, each of the contexts started so far
  is either cancelled or stored under exactly one key, and never both. So a syncer that runs can
  always be stopped through the store.
\<close>

theorem no_syncer_leaks:
  assumes "reachable s" and "h < sw_next s"
  shows "h \<notin> set (cancelled (sw_store s)) \<longleftrightarrow>
    (\<exists>!k. \<exists>v. cs_Get (sw_store s) k = Some v \<and> sc_Cancel v = h)"
proof -
  have inv: "inv s" by (rule reachable_inv [OF assms(1)])
  then have "h \<in> sst.live (sw_store s) \<or> h \<in> set (cancelled (sw_store s))"
    using assms(2) by (auto simp: sst.no_leak_def)
  moreover have "h \<in> sst.live (sw_store s) \<longleftrightarrow> (\<exists>k v. cs_Get (sw_store s) k = Some v \<and> sc_Cancel v = h)"
    by (auto simp: sst.live_def)
  ultimately show ?thesis
    using sst.no_leakD(1) [OF inv] sst.no_leak_inj [OF inv] by blast
qed



theorem no_syncer_leaks_witness:
  "\<exists>!k. \<exists>v. cs_Get (sw_store example_state) k = Some v \<and> sc_Cancel v = 0"
  using no_syncer_leaks [OF example_reachable, of 0] by (simp add: example_state_def)

section \<open>The syncers of an export\<close>

text \<open>What deleting the contexts of a listing leaves.\<close>

lemma run_stop_unprocessed:
  "\<exists>s'. run_state (stop_unprocessed keep ctxs) s = ((), s') \<and> sw_next s' = sw_next s \<and>
     (\<forall>k. cs_Get (sw_store s') k =
        (if \<exists>c \<in> set ctxs. \<not> keep c \<and> sc_key c = k then None else cs_Get (sw_store s) k))"
proof (induction ctxs arbitrary: s)
  case Nil
  then show ?case by (simp add: stop_unprocessed_def)
next
  case (Cons c cs)
  let ?t = "if keep c then s else s\<lparr>sw_store := cs_Delete (sw_store s) (sc_key c)\<rparr>"
  obtain s' where s': "run_state (stop_unprocessed keep cs) ?t = ((), s')" "sw_next s' = sw_next ?t"
    "\<And>k. cs_Get (sw_store s') k =
        (if \<exists>d \<in> set cs. \<not> keep d \<and> sc_key d = k then None else cs_Get (sw_store ?t) k)"
    using Cons.IH [of ?t] by blast
  have "run_state (stop_unprocessed keep (c # cs)) s = ((), s')"
    using s'(1) by (simp add: stop_unprocessed_def store_delete_def split: if_splits)
  moreover have "cs_Get (sw_store ?t) k = (if \<not> keep c \<and> sc_key c = k then None else cs_Get (sw_store s) k)" for k
    by (simp add: sst.get_del)
  ultimately show ?case using s'(2,3) by (intro exI [of _ s']) auto
qed

lemma wp_stop_listed:
  assumes "wf_store (sw_store s)"
    and "\<And>s'. sw_next s' = sw_next s \<Longrightarrow>
      (\<And>k. cs_Get (sw_store s') k =
        (if \<exists>v. cs_Get (sw_store s) k = Some v \<and> HasPrefix k p \<and> \<not> keep v then None
         else cs_Get (sw_store s) k)) \<Longrightarrow> Q () s'"
  shows "wp (stop_unprocessed keep (ListPrefixed (sw_store s) p)) Q s"
proof -
  obtain s' where s': "run_state (stop_unprocessed keep (ListPrefixed (sw_store s) p)) s = ((), s')"
    "sw_next s' = sw_next s" "\<And>k. cs_Get (sw_store s') k =
        (if \<exists>c \<in> set (ListPrefixed (sw_store s) p). \<not> keep c \<and> sc_key c = k then None
         else cs_Get (sw_store s) k)"
    using run_stop_unprocessed by blast
  have "(\<exists>c \<in> set (ListPrefixed (sw_store s) p). \<not> keep c \<and> sc_key c = k) \<longleftrightarrow>
      (\<exists>v. cs_Get (sw_store s) k = Some v \<and> HasPrefix k p \<and> \<not> keep v)" for k
    using sst.lst_mem [OF assms(1)] sst.get_key [OF assms(1)] by blast
  then show ?thesis using assms(2) [OF s'(2)] s'(1,3) by (simp add: wp_def)
qed

text \<open>
  C33. When an APIServiceExport is gone, or no APIServiceBinding exists for it, every syncer whose
  key starts with the export's key is stopped, and its context cancelled; every other syncer is left
  alone.
\<close>

theorem export_gone_stops_syncers:
  assumes "reachable s"
    and "export = None \<or> (\<exists>ex e. export = Some ex \<and> IsNotFound e \<and>
           fst (run_state (getServiceBinding r (om_Name (ex_Meta ex))) (sw_ext s)) = Inl e)"
    and "run_state (ensureControllers r namespace name export) s = (res, s')"
  shows "res = None \<and>
    (\<forall>k. cs_Get (sw_store s') k =
       (if HasPrefix k (namespace @ ''.'' @ name) then None else cs_Get (sw_store s) k)) \<and>
    (\<forall>k v. HasPrefix k (namespace @ ''.'' @ name) \<longrightarrow> cs_Get (sw_store s) k = Some v \<longrightarrow>
       sc_Cancel v \<in> set (cancelled (sw_store s')))"
proof -
  have s': "res = None \<and> sw_store s' = snd (BulkDeletePrefixed (sw_store s) (namespace @ ''.'' @ name))"
    using assms(2,3)
    by (auto simp: ensureControllers_def store_bulk_delete_def ext_def Let_def split: prod.splits sum.splits)
  have "wf_store (sw_store s)" using reachable_inv [OF assms(1)] unfolding sst.no_leak_def by blast
  from sst.cnc_bulk [OF this] show ?thesis using s' sst.get_bulk by auto
qed

theorem export_gone_stops_syncers_witness:
  "0 \<in> set (cancelled (sw_store (snd (run_state
     (ensureControllers example_reconciler ''ns'' ''foo'' None) example_state))))"
proof -
  let ?s' = "snd (run_state (ensureControllers example_reconciler ''ns'' ''foo'' None) example_state)"
  have "cs_Get (sw_store example_state) ''ns.foo.foos.g'' =
      Some \<lparr>sc_key = ''ns.foo.foos.g'', sc_Generation = 1, sc_Cancel = 0\<rparr>"
    by (simp add: cs_Get_def example_state_def)
  moreover have "HasPrefix ''ns.foo.foos.g'' (''ns'' @ ''.'' @ ''foo'')" by (simp add: HasPrefix_def)
  ultimately have "sc_Cancel \<lparr>sc_key = ''ns.foo.foos.g'', sc_Generation = 1, sc_Cancel = 0\<rparr> \<in>
      set (cancelled (sw_store ?s'))"
    using export_gone_stops_syncers [OF example_reachable _ surjective_pairing] by blast
  then show ?thesis by simp
qed

text \<open>
  An environment in which the provider has a BoundSchema with a served version for every resource,
  and controllers can be created.
\<close>

definition healthy :: "'w reconciler \<Rightarrow> (string \<Rightarrow> BoundSchema) \<Rightarrow> bool" where
  "healthy r schemas \<longleftrightarrow>
     (\<forall>n w. fst (run_state (getRemoteBoundSchema r n) w) = Inr (schemas n)) \<and>
     (\<forall>n. om_Name (bs_Meta (schemas n)) = n \<and> syncVersion (schemas n) \<noteq> '''') \<and>
     (\<forall>w. \<exists>uid. fst (run_state (getProviderNamespaceUID r) w) = Inr uid) \<and>
     (\<forall>g l w. fst (run_state (newMultiNamespaceInformer r g l) w) = None) \<and>
     (\<forall>ex g u b w. fst (run_state (newSpecController r ex g u b) w) = None) \<and>
     (\<forall>g u b w. fst (run_state (newStatusController r g u b) w) = None)"

definition runs_schema :: "APIServiceExport \<Rightarrow> string \<Rightarrow> 'w sync_world \<Rightarrow> bool" where
  "runs_schema ex n s \<longleftrightarrow>
     (\<exists>v. cs_Get (sw_store s) (NewKey (om_Namespace (ex_Meta ex)) (om_Name (ex_Meta ex)) [n]) = Some v \<and>
          sc_Generation v = om_Generation (ex_Meta ex))"

lemma ensureControllerForSchema_runs:
  assumes "healthy r schemas"
  shows "wp (ensureControllerForSchema r ex (schemas n)) (\<lambda>e s'. e = None \<and> runs_schema ex n s' \<and>
     (\<forall>k. k \<noteq> NewKey (om_Namespace (ex_Meta ex)) (om_Name (ex_Meta ex)) [n] \<longrightarrow>
        cs_Get (sw_store s') k = cs_Get (sw_store s) k)) s"
proof -
  have calls: "om_Name (bs_Meta (schemas n)) = n" "syncVersion (schemas n) \<noteq> ''''"
    "\<And>w a w'. run_state (getProviderNamespaceUID r) w = (a, w') \<Longrightarrow> \<exists>uid. a = Inr uid"
    "\<And>g l w a w'. run_state (newMultiNamespaceInformer r g l) w = (a, w') \<Longrightarrow> a = None"
    "\<And>ex g u b w a w'. run_state (newSpecController r ex g u b) w = (a, w') \<Longrightarrow> a = None"
    "\<And>g u b w a w'. run_state (newStatusController r g u b) w = (a, w') \<Longrightarrow> a = None"
    using assms unfolding healthy_def by (auto, (metis fst_conv)+)
  show ?thesis
    unfolding ensureControllerForSchema_def start_schema_syncer_def Let_def calls(1)
    by (intro wp_intros) (auto simp: runs_schema_def sst.get_put sst.get_del calls(2) dest: calls(3-6))
qed

lemma runs_schema_frame:
  assumes "runs_schema ex n s"
    and "\<And>k. k \<noteq> NewKey (om_Namespace (ex_Meta ex)) (om_Name (ex_Meta ex)) [m] \<Longrightarrow>
           cs_Get (sw_store s') k = cs_Get (sw_store s) k" and "runs_schema ex m s'"
  shows "runs_schema ex n s'"
  using assms by (cases "n = m") (auto simp: runs_schema_def NewKey_def)

lemma schemas_loop_runs:
  assumes "healthy r schemas" and "\<And>n. n \<in> set processed \<Longrightarrow> runs_schema ex n s"
  shows "wp (schemas_loop r ns ex ress errs processed b) (\<lambda>(errs', processed', _) s'.
     errs' = errs \<and> processed' = processed @ map ResourceGroupName ress \<and>
     (\<forall>n \<in> set processed'. runs_schema ex n s')) s"
  using assms(2)
proof (induction ress arbitrary: processed b s)
  case Nil
  then show ?case by (simp add: wp_def)
next
  case (Cons res ress)
  let ?n = "ResourceGroupName res"
  have found: "run_state (getRemoteBoundSchema r ?n) w = (a, w') \<Longrightarrow> a = Inr (schemas ?n)" for w a w'
    using assms(1) unfolding healthy_def by (metis fst_conv)
  have step: "wp (ensureControllerForSchema r ex (schemas ?n)) (\<lambda>e s'. e = None \<and>
      (\<forall>n \<in> set (processed @ [?n]). runs_schema ex n s')) t" if "\<forall>n \<in> set processed. runs_schema ex n t" for t
    by (rule wp_weaken [OF ensureControllerForSchema_runs [OF assms(1)]])
      (use that in \<open>auto intro: runs_schema_frame [where m = ?n and s = t]\<close>)
  have frame: "\<forall>n \<in> set processed. runs_schema ex n (s\<lparr>sw_ext := w\<rparr>)" for w
    using Cons.prems by (simp add: runs_schema_def)
  show ?case
    unfolding schemas_loop.simps Let_def
    apply (intro wp_intros)
    subgoal using found by blast
    subgoal using found by blast
    subgoal for g w schema
      using found [of "sw_ext s" g w]
      by (auto intro!: wp_weaken [OF step [OF frame]] wp_weaken [OF Cons.IH] simp: errs_append_def)
    done
qed

text \<open>The claim controllers live under the claim prefix.\<close>

lemma claim_key_prefix:
  "HasPrefix (claim_key r ex g) (NewKey (om_Namespace (ex_Meta ex)) (om_Name (ex_Meta ex)) [''claim''])"
  by (simp add: claim_key_def NewKey_def HasPrefix_def)

definition same_outside :: "string \<Rightarrow> 'w sync_world \<Rightarrow> 'w sync_world \<Rightarrow> bool" where
  "same_outside p s s' \<longleftrightarrow> (\<forall>k. \<not> HasPrefix k p \<longrightarrow> cs_Get (sw_store s') k = cs_Get (sw_store s) k)"

lemma claims_loop_frame:
  assumes "same_outside (NewKey (om_Namespace (ex_Meta ex)) (om_Name (ex_Meta ex)) [''claim'']) s0 s"
  shows "wp (claims_loop r ex binding b claims errs processed)
    (\<lambda>_. same_outside (NewKey (om_Namespace (ex_Meta ex)) (om_Name (ex_Meta ex)) [''claim'']) s0) s"
  using assms
proof (induction claims arbitrary: errs processed s)
  case Nil
  then show ?case by (simp add: wp_def)
next
  case (Cons claim claims)
  show ?case
  proof (cases "ResolveClaimableAPI claim")
    case (Inl e)
    then show ?thesis using Cons by simp
  next
    case (Inr g)
    show ?thesis
      unfolding claims_loop.simps Inr Let_def sum.case ensureControllerForPermissionClaim_def
      by (intro wp_intros Cons.IH)
        (use Cons.prems claim_key_prefix [of r ex g] in
          \<open>auto simp: same_outside_def sst.get_put sst.get_del\<close>)
  qed
qed

lemma claims_frame:
  assumes "inv s"
  shows "wp (ensureControllersForPermissionClaims r ex binding b) (\<lambda>_ s'. inv s' \<and>
    same_outside (NewKey (om_Namespace (ex_Meta ex)) (om_Name (ex_Meta ex)) [''claim'']) s s') s"
proof -
  let ?p = "NewKey (om_Namespace (ex_Meta ex)) (om_Name (ex_Meta ex)) [''claim'']"
  have "wp (ensureControllersForPermissionClaims r ex binding b) (\<lambda>_. inv) s"
    using assms preserves_ensureControllersForPermissionClaims unfolding preserves_wp by blast
  moreover have "wp (ensureControllersForPermissionClaims r ex binding b) (\<lambda>_ s'. same_outside ?p s s') s"
  proof -
    have loop: "wp (claims_loop r ex binding b claims [] []) (\<lambda>_ s'. inv s' \<and> same_outside ?p s s') s" for claims
    proof -
      have "wp (claims_loop r ex binding b claims [] []) (\<lambda>_. inv) s"
        using assms preserves_claims_loop unfolding preserves_wp by blast
      moreover have "wp (claims_loop r ex binding b claims [] []) (\<lambda>_ s'. same_outside ?p s s') s"
        by (rule claims_loop_frame) (simp add: same_outside_def)
      ultimately show ?thesis by (simp add: wp_conj)
    qed
    show ?thesis
      unfolding ensureControllersForPermissionClaims_def
      by (rule wp_bind, rule wp_weaken [OF loop])
        (auto intro!: wp_intros wp_stop_listed simp: sst.no_leak_def same_outside_def)
  qed
  ultimately show ?thesis by (simp add: wp_conj)
qed


lemma schema_key_not_claim:
  assumes "\<not> HasPrefix n ''claim''"
  shows "\<not> HasPrefix (NewKey ns name [n]) (NewKey ns name [''claim''])"
  using assms by (simp add: NewKey_def HasPrefix_def)

lemma keep_processed: "n \<in> set processed \<Longrightarrow> sc_key v = NewKey ns name [n] \<Longrightarrow>
    keep_schema (ns @ ''.'' @ name) processed v"
  using TrimPrefix_append [of "ns @ ''.'' @ name @ ''.''" n]
  by (simp add: keep_schema_def NewKey_def Let_def)

text \<open>The two halves of what is to hold: the wanted syncers run, and no unwanted one does.\<close>

definition wanted_run :: "APIServiceExport \<Rightarrow> string list \<Rightarrow> 'w sync_world \<Rightarrow> bool" where
  "wanted_run ex names s \<longleftrightarrow> (\<forall>n \<in> set names. \<not> HasPrefix n ''claim'' \<longrightarrow> runs_schema ex n s)"

definition only_wanted_run :: "string \<Rightarrow> string list \<Rightarrow> 'w sync_world \<Rightarrow> bool" where
  "only_wanted_run exportKey names s \<longleftrightarrow>
     (\<forall>k v. cs_Get (sw_store s) k = Some v \<longrightarrow> HasPrefix k exportKey \<longrightarrow> keep_schema exportKey names v)"

definition export_key :: "APIServiceExport \<Rightarrow> string" where
  "export_key ex = om_Namespace (ex_Meta ex) @ ''.'' @ om_Name (ex_Meta ex)"

lemma cleanup_exact:
  assumes "inv t" and "wanted_run ex names t"
  shows "wp (stop_unprocessed (keep_schema (export_key ex) names) (ListPrefixed (sw_store t) (export_key ex)))
    (\<lambda>_ u. wanted_run ex names u \<and> only_wanted_run (export_key ex) names u) t"
proof -
  have wf: "wf_store (sw_store t)" using assms(1) unfolding sst.no_leak_def by blast
  have "wanted_run ex names u \<and> only_wanted_run (export_key ex) names u"
    if u: "\<And>k. cs_Get (sw_store u) k = (if \<exists>v. cs_Get (sw_store t) k = Some v \<and>
          HasPrefix k (export_key ex) \<and> \<not> keep_schema (export_key ex) names v
        then None else cs_Get (sw_store t) k)" for u
  proof
    show "only_wanted_run (export_key ex) names u"
      unfolding only_wanted_run_def u by (auto split: if_splits)
    show "wanted_run ex names u"
      unfolding wanted_run_def
    proof (intro ballI impI)
      fix n
      assume n: "n \<in> set names" "\<not> HasPrefix n ''claim''"
      then obtain v where v: "cs_Get (sw_store t) (NewKey (om_Namespace (ex_Meta ex)) (om_Name (ex_Meta ex)) [n]) = Some v"
        "sc_Generation v = om_Generation (ex_Meta ex)"
        using assms(2) unfolding wanted_run_def runs_schema_def by blast
      then have "keep_schema (export_key ex) names v"
        using keep_processed [OF n(1)] sst.get_key [OF wf v(1)] unfolding export_key_def by blast
      then show "runs_schema ex n u" using v u by (simp add: runs_schema_def)
    qed
  qed
  then show ?thesis by (rule wp_stop_listed [OF wf])
qed

lemma claims_keep_wanted:
  assumes "inv t" and "\<forall>n \<in> set names. runs_schema ex n t"
  shows "wp (ensureControllersForPermissionClaims r ex binding b) (\<lambda>_ u. inv u \<and> wanted_run ex names u) t"
  by (rule wp_weaken [OF claims_frame [OF assms(1)]])
    (use assms(2) schema_key_not_claim in \<open>auto simp: same_outside_def runs_schema_def wanted_run_def\<close>)

lemma schemas_loop_exact:
  assumes "healthy r schemas" and "inv t"
  shows "wp (schemas_loop r ns ex ress [] [] False) (\<lambda>(errs, processed, _) u.
    inv u \<and> processed = map ResourceGroupName ress \<and> (\<forall>n \<in> set processed. runs_schema ex n u)) t"
proof -
  have "wp (schemas_loop r ns ex ress [] [] False) (\<lambda>_. inv) t"
    using assms(2) preserves_schemas_loop unfolding preserves_wp by blast
  moreover note schemas_loop_runs [OF assms(1), of "[]" ex t ns ress "[]" False]
  ultimately show ?thesis by (auto simp: wp_def split: prod.splits)
qed

lemma ensureControllers_tail:
  assumes "inv t" and "\<forall>n \<in> set names. runs_schema ex n t"
  shows "wp (do {
      e \<leftarrow> ensureControllersForPermissionClaims r ex binding b;
      contexts \<leftarrow> store_list (export_key ex);
      stop_unprocessed (keep_schema (export_key ex) names) contexts;
      State_Monad.return (NewAggregate (errs_append errs e)) })
    (\<lambda>_ u. wanted_run ex names u \<and> only_wanted_run (export_key ex) names u) t"
proof (rule wp_bind, rule wp_weaken [OF claims_keep_wanted [OF assms]])
  fix e u
  assume u: "inv u \<and> wanted_run ex names u"
  show "wp (do {
      contexts \<leftarrow> store_list (export_key ex);
      stop_unprocessed (keep_schema (export_key ex) names) contexts;
      State_Monad.return (NewAggregate (errs_append errs e)) })
    (\<lambda>_ u. wanted_run ex names u \<and> only_wanted_run (export_key ex) names u) u"
    by (rule wp_bind, rule wp_store(2), rule wp_bind,
        rule wp_weaken [OF cleanup_exact [OF conjunct1 [OF u] conjunct2 [OF u]]], rule wp_return)
qed

lemma ensureControllers_exact:
  assumes "inv s" and "healthy r schemas"
    and "\<And>w. \<exists>b. fst (run_state (getServiceBinding r (om_Name (ex_Meta ex))) w) = Inr b"
  shows "wp (ensureControllers r (om_Namespace (ex_Meta ex)) (om_Name (ex_Meta ex)) (Some ex))
    (\<lambda>_ u. wanted_run ex (map ResourceGroupName (exs_Resources (ex_Spec ex))) u \<and>
           only_wanted_run (export_key ex) (map ResourceGroupName (exs_Resources (ex_Spec ex))) u) s"
  unfolding ensureControllers_def Let_def option.case export_key_def [symmetric]
proof (intro wp_bind wp_ext)
  fix g w
  assume "run_state (getServiceBinding r (om_Name (ex_Meta ex))) (sw_ext s) = (g, w)"
  then obtain binding where g: "g = Inr binding" using assms(3) by (metis fst_conv)
  have "inv (s\<lparr>sw_ext := w\<rparr>)" using assms(1) by simp
  note loop = schemas_loop_exact [OF assms(2) this]
  show "wp (case g of
        Inl e \<Rightarrow> (if \<not> IsNotFound e then State_Monad.return (Some e)
           else do { store_bulk_delete (export_key ex); State_Monad.return None })
      | Inr binding \<Rightarrow> do {
          res \<leftarrow> schemas_loop r (om_Namespace (ex_Meta ex)) ex (exs_Resources (ex_Spec ex)) [] [] False;
          (case res of (errs, processedSchemas, isClusterScoped) \<Rightarrow> do {
             e \<leftarrow> ensureControllersForPermissionClaims r ex binding isClusterScoped;
             contexts \<leftarrow> store_list (export_key ex);
             stop_unprocessed (keep_schema (export_key ex) processedSchemas) contexts;
             State_Monad.return (NewAggregate (errs_append errs e)) }) })
      (\<lambda>_ u. wanted_run ex (map ResourceGroupName (exs_Resources (ex_Spec ex))) u \<and>
             only_wanted_run (export_key ex) (map ResourceGroupName (exs_Resources (ex_Spec ex))) u)
      (s\<lparr>sw_ext := w\<rparr>)"
    unfolding g sum.case
    by (rule wp_bind, rule wp_weaken [OF loop]) (use ensureControllers_tail in \<open>force split: prod.splits\<close>)
qed


lemma example_healthy: "healthy example_reconciler example_schema"
  by (simp add: healthy_def example_reconciler_def example_schema_def syncVersion_def)


section \<open>Syncers stopped by mistake\<close>

text \<open>
  The keys of another export whose name extends this export's name start with this export's key, so
  its syncers are stopped: \<open>ns.foobar.x\<close> when \<open>ns.foo\<close> is reconciled.
\<close>

lemma longer_export_stopped:
  assumes "only_wanted_run (ns @ ''.'' @ name) names s"
    and "k = ns @ ''.'' @ name @ suff" and "suff \<noteq> ''''" and "hd suff \<noteq> CHR ''.''"
    and "k \<notin> set names" and "\<not> HasPrefix k ''claim.''" and "wf_store (sw_store s)"
  shows "cs_Get (sw_store s) k = None"
proof (rule ccontr)
  assume "cs_Get (sw_store s) k \<noteq> None"
  then obtain v where v: "cs_Get (sw_store s) k = Some v" by blast
  have "TrimPrefix k ((ns @ ''.'' @ name) @ ''.'') = k"
    using assms(2-4) by (cases suff) (auto simp: TrimPrefix_def HasPrefix_def)
  moreover have "sc_key v = k" using sst.get_key [OF assms(7) v] .
  moreover have "keep_schema (ns @ ''.'' @ name) names v"
    using assms(1,2) v by (auto simp: only_wanted_run_def HasPrefix_def)
  ultimately show False using assms(5,6) by (simp add: keep_schema_def Let_def)
qed

text \<open>
  A syncer of a schema whose name starts with \<open>claim\<close> is stopped by the cleanup of the claims.
\<close>

lemma claims_cleanup_stops_schema:
  assumes "wf_store (sw_store s)" and "HasPrefix n ''claim''"
    and "NewKey ns name [n] \<notin> set processed"
    and "run_state (stop_unprocessed (\<lambda>c. sc_key c \<in> set processed)
           (ListPrefixed (sw_store s) (NewKey ns name [''claim'']))) s = (u, s')"
  shows "cs_Get (sw_store s') (NewKey ns name [n]) = None"
proof -
  have p: "HasPrefix (NewKey ns name [n]) (NewKey ns name [''claim''])"
    using assms(2) by (auto simp: NewKey_def HasPrefix_def)
  have "wp (stop_unprocessed (\<lambda>c. sc_key c \<in> set processed)
      (ListPrefixed (sw_store s) (NewKey ns name [''claim''])))
      (\<lambda>_ s'. cs_Get (sw_store s') (NewKey ns name [n]) = None) s"
    by (rule wp_stop_listed [OF assms(1)])
      (use p assms(3) sst.get_key [OF assms(1)] in \<open>auto\<close>)
  from wpD [OF this assms(4)] show ?thesis .
qed

text \<open>
  The end of an old claim goroutine cancels whatever is stored under its key by then, also the
  controller of the next generation.
\<close>

lemma late_exit_cancels_successor:
  assumes "cs_Get (sw_store s) key = Some v" and "run_state (claim_goroutine_exit key) s = ((), s')"
  shows "cs_Get (sw_store s') key = None \<and> sc_Cancel v \<in> set (cancelled (sw_store s'))"
  using assms by (auto simp: claim_goroutine_exit_def store_delete_def sst.get_del sst.cnc_del)

text \<open>
  Without a binding the export is first marked as not connected; if all BoundSchemas could be
  updated it is then marked as connected.
\<close>

lemma connected_without_binding:
  assumes "run_state (ensureCRDConditionsCopiedToBoundSchema r now ex) s = ((None, ex'), s')"
    and "exp.unique_types ex" and "run_state (crd_conditions_loop r now (exs_Resources (ex_Spec ex)) [] True) s = (([], True), s')"
  shows "IsTrue APIServiceExport_setter ex' APIServiceExportConditionConnected"
  using assms exp.IsTrue_MarkTrue by (auto simp: ensureCRDConditionsCopiedToBoundSchema_def)

end
