(* ===== verification/Committer.thy ===== *)
theory Committer
  imports Kube_Client
begin

text \<open>
  The generic committer (\<open>pkg/committer\<close>): the function every controller uses to write back what a
  reconciliation changed, as a merge patch of either the object (metadata and spec) or its status.
  Semantic equality, JSON encoding with the computation of the merge patch, and the patch request
  are parameters.
\<close>

record ('sp, 'st) Resource =
  rs_Meta :: ObjectMeta
  rs_Spec :: 'sp
  rs_Status :: 'st

record ('w, 'sp, 'st, 'p) committer =
  cm_metaEqual :: "ObjectMeta \<Rightarrow> ObjectMeta \<Rightarrow> bool"
  cm_specEqual :: "'sp \<Rightarrow> 'sp \<Rightarrow> bool"
  cm_statusEqual :: "'st \<Rightarrow> 'st \<Rightarrow> bool"
  cm_zeroSpec :: 'sp
  cm_zeroStatus :: 'st
  cm_focusType :: string
  cm_marshal :: "('sp, 'st) Resource \<Rightarrow> go_error + string"
  cm_createMergePatch :: "string \<Rightarrow> string \<Rightarrow> go_error + 'p"
  cm_patch :: "string \<Rightarrow> string \<Rightarrow> 'p \<Rightarrow> string list \<Rightarrow> ('w, err) io"

definition forPatch :: "('w, 'sp, 'st, 'p) committer \<Rightarrow> bool \<Rightarrow> ('sp, 'st) Resource \<Rightarrow> ('sp, 'st) Resource" where
  "forPatch c specOrObjectMetaChanged r =
     (if specOrObjectMetaChanged
      then \<lparr>rs_Meta = rs_Meta r, rs_Spec = rs_Spec r, rs_Status = cm_zeroStatus c\<rparr>
      else \<lparr>rs_Meta = zero_ObjectMeta, rs_Spec = cm_zeroSpec c, rs_Status = rs_Status r\<rparr>)"

definition with_preconditions :: "string \<Rightarrow> string \<Rightarrow> ('sp, 'st) Resource \<Rightarrow> ('sp, 'st) Resource" where
  "with_preconditions uid rv r = r\<lparr>rs_Meta := (rs_Meta r)\<lparr>om_UID := uid, om_ResourceVersion := rv\<rparr>\<rparr>"

definition commit :: "('w, 'sp, 'st, 'p) committer \<Rightarrow> ('sp, 'st) Resource \<Rightarrow> ('sp, 'st) Resource \<Rightarrow>
    ('w, err outcome) io" where
  "commit c old obj =
     (let objectMetaChanged = \<not> cm_metaEqual c (rs_Meta old) (rs_Meta obj);
          specChanged = \<not> cm_specEqual c (rs_Spec old) (rs_Spec obj);
          statusChanged = \<not> cm_statusEqual c (rs_Status old) (rs_Status obj);
          specOrObjectMetaChanged = (specChanged \<or> objectMetaChanged)
      in if specOrObjectMetaChanged \<and> statusChanged then State_Monad.return Panics
         else if \<not> specOrObjectMetaChanged \<and> \<not> statusChanged then State_Monad.return (Returns None)
         else
           let oldForPatch = with_preconditions '''' '''' (forPatch c specOrObjectMetaChanged old);
               newForPatch = with_preconditions (om_UID (rs_Meta old)) (om_ResourceVersion (rs_Meta old))
                 (forPatch c specOrObjectMetaChanged obj);
               wrap = (\<lambda>what e. Errorf (what @ cm_focusType c @ '' '' @ om_Namespace (rs_Meta old) @ ''/'' @
                 om_Name (rs_Meta old)) (Some e))
           in case cm_marshal c oldForPatch of
                Inl e \<Rightarrow> State_Monad.return (Returns (Some (wrap ''failed to Marshal old data for '' e)))
              | Inr oldData \<Rightarrow>
                  (case cm_marshal c newForPatch of
                     Inl e \<Rightarrow> State_Monad.return (Returns (Some (wrap ''failed to Marshal new data for '' e)))
                   | Inr newData \<Rightarrow>
                       (case cm_createMergePatch c oldData newData of
                          Inl e \<Rightarrow> State_Monad.return (Returns (Some (wrap ''failed to create patch for '' e)))
                        | Inr patchBytes \<Rightarrow> do {
                            e \<leftarrow> cm_patch c (om_Namespace (rs_Meta obj)) (om_Name (rs_Meta obj)) patchBytes
                                   (if statusChanged then [''status''] else []);
                            State_Monad.return (Returns (map_option (wrap ''failed to patch '') e)) })))"

section \<open>What a commit may write\<close>

text \<open>
  A patch request of the committer for the given objects: it addresses the new object. A change of the
  object patches the object with two documents without a status, a change of the status patches the
  subresource with two documents that have the status only. The UID and resource version are empty in
  the old document and those of the old object in the new one, so they differ and get into the merge
  patch, as preconditions.
\<close>

definition allowed_patch :: "('w, 'sp, 'st, 'p) committer \<Rightarrow> ('sp, 'st) Resource \<Rightarrow> ('sp, 'st) Resource \<Rightarrow>
    string \<Rightarrow> string \<Rightarrow> 'p \<Rightarrow> string list \<Rightarrow> bool" where
  "allowed_patch c old obj ns name p subs \<longleftrightarrow>
     ns = om_Namespace (rs_Meta obj) \<and> name = om_Name (rs_Meta obj) \<and>
     (\<exists>a b x y. cm_marshal c a = Inr x \<and> cm_marshal c b = Inr y \<and> cm_createMergePatch c x y = Inr p \<and>
        (subs = [] \<and> cm_statusEqual c (rs_Status old) (rs_Status obj) \<and>
         (\<not> cm_specEqual c (rs_Spec old) (rs_Spec obj) \<or> \<not> cm_metaEqual c (rs_Meta old) (rs_Meta obj)) \<and>
         a = \<lparr>rs_Meta = (rs_Meta old)\<lparr>om_UID := '''', om_ResourceVersion := ''''\<rparr>,
           rs_Spec = rs_Spec old, rs_Status = cm_zeroStatus c\<rparr> \<and>
         b = \<lparr>rs_Meta = (rs_Meta obj)\<lparr>om_UID := om_UID (rs_Meta old), om_ResourceVersion := om_ResourceVersion (rs_Meta old)\<rparr>,
           rs_Spec = rs_Spec obj, rs_Status = cm_zeroStatus c\<rparr> \<or>
         subs = [''status''] \<and> \<not> cm_statusEqual c (rs_Status old) (rs_Status obj) \<and>
         cm_specEqual c (rs_Spec old) (rs_Spec obj) \<and> cm_metaEqual c (rs_Meta old) (rs_Meta obj) \<and>
         a = \<lparr>rs_Meta = zero_ObjectMeta, rs_Spec = cm_zeroSpec c, rs_Status = rs_Status old\<rparr> \<and>
         b = \<lparr>rs_Meta = zero_ObjectMeta\<lparr>om_UID := om_UID (rs_Meta old), om_ResourceVersion := om_ResourceVersion (rs_Meta old)\<rparr>,
           rs_Spec = cm_zeroSpec c, rs_Status = rs_Status obj\<rparr>))"

lemma allowed_patchI:
  assumes "cm_marshal c (with_preconditions '''' '''' (forPatch c b old)) = Inr x"
    and "cm_marshal c (with_preconditions (om_UID (rs_Meta old)) (om_ResourceVersion (rs_Meta old)) (forPatch c b obj)) = Inr y"
    and "cm_createMergePatch c x y = Inr p"
    and "subs = (if \<not> cm_statusEqual c (rs_Status old) (rs_Status obj) then [''status''] else [])"
    and "b \<longleftrightarrow> \<not> cm_specEqual c (rs_Spec old) (rs_Spec obj) \<or> \<not> cm_metaEqual c (rs_Meta old) (rs_Meta obj)"
    and "b \<longleftrightarrow> cm_statusEqual c (rs_Status old) (rs_Status obj)"
  shows "allowed_patch c old obj (om_Namespace (rs_Meta obj)) (om_Name (rs_Meta obj)) p subs"
  unfolding allowed_patch_def
  by (intro conjI refl exI [of _ "with_preconditions '''' '''' (forPatch c b old)"]
      exI [of _ "with_preconditions (om_UID (rs_Meta old)) (om_ResourceVersion (rs_Meta old)) (forPatch c b obj)"]
      exI [of _ x] exI [of _ y] assms(1-3))
    (use assms(4-6) in \<open>auto simp: forPatch_def with_preconditions_def zero_ObjectMeta_def\<close>)

lemma commit_preserves:
  assumes "\<And>ns name p subs. allowed_patch c old obj ns name p subs \<Longrightarrow> preserves P (cm_patch c ns name p subs)"
  shows "preserves P (commit c old obj)"
  unfolding commit_def Let_def
  by (intro preserves_intros assms allowed_patchI) auto

text \<open>
  C25. A commit never writes spec and status together. Whatever property of the world is kept by the
  requests that patch either the status subresource, with two documents that have nothing but the old and the
  new status, or the object, with two documents without a status, is kept by the commit. In both cases the UID and
  resource version of the old object are in the new document and empty in the old one, which makes them
  preconditions of the merge patch. If both parts changed the commit panics without a request, if
  none changed it makes none.
\<close>

theorem commit_confined:
  assumes "\<And>ns name p subs. allowed_patch c old obj ns name p subs \<Longrightarrow> preserves P (cm_patch c ns name p subs)"
  shows "preserves P (commit c old obj) \<and>
    (\<forall>w. (\<not> cm_specEqual c (rs_Spec old) (rs_Spec obj) \<or> \<not> cm_metaEqual c (rs_Meta old) (rs_Meta obj)) \<longrightarrow>
       \<not> cm_statusEqual c (rs_Status old) (rs_Status obj) \<longrightarrow> run_state (commit c old obj) w = (Panics, w)) \<and>
    (\<forall>w. cm_specEqual c (rs_Spec old) (rs_Spec obj) \<longrightarrow> cm_metaEqual c (rs_Meta old) (rs_Meta obj) \<longrightarrow>
       cm_statusEqual c (rs_Status old) (rs_Status obj) \<longrightarrow> run_state (commit c old obj) w = (Returns None, w))"
  using commit_preserves [OF assms] by (auto simp: commit_def Let_def)


lemma commit_one_part:
  assumes "cm_statusEqual c (rs_Status old) (rs_Status obj) \<or>
    cm_metaEqual c (rs_Meta old) (rs_Meta obj) \<and> cm_specEqual c (rs_Spec old) (rs_Spec obj)"
  shows "wp (commit c old obj) (\<lambda>res _. res \<noteq> Panics) w"
  using assms by (auto simp: commit_def Let_def wp_def split: sum.split prod.split)

text \<open>A committer for integer specs and statuses on a world that records the patched subresources.\<close>

definition example_committer :: "(string list list, int, int, string) committer" where
  "example_committer = \<lparr>cm_metaEqual = (=), cm_specEqual = (=), cm_statusEqual = (=), cm_zeroSpec = 0,
     cm_zeroStatus = 0, cm_focusType = ''t'', cm_marshal = (\<lambda>_. Inr ''data''),
     cm_createMergePatch = (\<lambda>_ _. Inr ''patch''),
     cm_patch = (\<lambda>_ _ _ subs. State (\<lambda>w. (None, w @ [subs])))\<rparr>"

theorem commit_confined_witness:
  "preserves (\<lambda>w. set w \<subseteq> {[], [''status'']})
     (commit example_committer \<lparr>rs_Meta = zero_ObjectMeta, rs_Spec = 1, rs_Status = 1\<rparr>
        \<lparr>rs_Meta = zero_ObjectMeta, rs_Spec = 1, rs_Status = 2\<rparr>)"
proof -
  have "preserves (\<lambda>w. set w \<subseteq> {[], [''status'']}) (cm_patch example_committer ns name p subs)"
    if "allowed_patch example_committer old obj ns name p subs" for old obj ns name p subs
    using that by (auto simp: preserves_def example_committer_def allowed_patch_def)
  then show ?thesis using commit_confined by blast
qed

end
