(* ===== verification/Indexers.thy ===== *)
theory Indexers
  imports Bound_Schema
begin

text \<open>
  The index functions of \<open>pkg/indexers\<close>. An index function gives the keys of an object; a lookup in
  an informer's indexer gives the objects that have a key. Objects of another type than the
  function expects are \<open>None\<close>.
\<close>

section \<open>Index functions\<close>

definition IndexCRDByServiceBinding :: "CustomResourceDefinition option \<Rightarrow> string list" where
  "IndexCRDByServiceBinding obj =
     (case obj of
        None \<Rightarrow> []
      | Some crd \<Rightarrow>
          map or_Name (filter (\<lambda>ref. \<not> (hd (SplitN 2 (CHR ''/'') (or_APIVersion ref)) \<noteq> GroupName \<or>
            or_Kind ref \<noteq> ''APIServiceBinding'')) (om_OwnerReferences (crd_Meta crd))))"

definition ByServiceBindingKubeconfigSecretKey :: "APIServiceBinding \<Rightarrow> string" where
  "ByServiceBindingKubeconfigSecretKey binding =
     csk_Namespace (bi_KubeconfigSecretRef binding) @ ''/'' @ lsk_Name (csk_Local (bi_KubeconfigSecretRef binding))"

definition IndexServiceBindingByKubeconfigSecret :: "APIServiceBinding option \<Rightarrow> string list" where
  "IndexServiceBindingByKubeconfigSecret obj =
     (case obj of None \<Rightarrow> [] | Some binding \<Rightarrow> [ByServiceBindingKubeconfigSecretKey binding])"

definition IndexServiceExportByCustomResourceDefinition :: "APIServiceExport option \<Rightarrow> string list" where
  "IndexServiceExportByCustomResourceDefinition obj =
     (case obj of None \<Rightarrow> [] | Some export \<Rightarrow> [om_Name (ex_Meta export)])"

definition IndexServiceExportByBoundSchemaControllerRuntime :: "APIServiceExport option \<Rightarrow> string list" where
  "IndexServiceExportByBoundSchemaControllerRuntime obj =
     (case obj of None \<Rightarrow> [] | Some export \<Rightarrow> map ResourceGroupName (exs_Resources (ex_Spec export)))"

definition IndexServiceExportByBoundSchema :: "APIServiceExport option \<Rightarrow> string list" where
  "IndexServiceExportByBoundSchema obj =
     (case obj of None \<Rightarrow> [] | Some export \<Rightarrow> map ResourceGroupName (exs_Resources (ex_Spec export)))"

definition IndexServiceExportRequestByGroupResource :: "APIServiceExportRequest option \<Rightarrow> string list" where
  "IndexServiceExportRequestByGroupResource obj =
     (case obj of None \<Rightarrow> [] | Some r \<Rightarrow> map ResourceGroupName (ers_Resources (er_Spec r)))"

definition IndexServiceExportRequestByServiceExport :: "APIServiceExportRequest option \<Rightarrow> string list" where
  "IndexServiceExportRequestByServiceExport obj =
     (case obj of None \<Rightarrow> []
      | Some r \<Rightarrow> map (\<lambda>gr. om_Namespace (er_Meta r) @ ''/'' @ ResourceGroupName gr) (ers_Resources (er_Spec r)))"

definition IndexServiceNamespaceByNamespace :: "APIServiceNamespace option \<Rightarrow> string list" where
  "IndexServiceNamespaceByNamespace obj =
     (case obj of None \<Rightarrow> [] | Some sn \<Rightarrow> (if sn_StatusNamespace sn = '''' then [] else [sn_StatusNamespace sn]))"

section \<open>Sets of indexers\<close>

text \<open>Indexers are maps from names to index functions, here in some iteration order.\<close>

type_synonym 'f indexers = "(string \<times> 'f) list"

fun append_entries :: "'f indexers \<Rightarrow> 'f indexers \<Rightarrow> go_error + 'f indexers" where
  "append_entries ret [] = Inr ret"
| "append_entries ret ((k, v) # kvs) =
     (if map_of ret k \<noteq> None then Inl (Errorf (''duplicate indexer: '' @ k) None)
      else append_entries (ret @ [(k, v)]) kvs)"

fun append_loop :: "'f indexers \<Rightarrow> 'f indexers list \<Rightarrow> go_error + 'f indexers" where
  "append_loop ret [] = Inr ret"
| "append_loop ret (ind # inds) =
     (case append_entries ret ind of Inl e \<Rightarrow> Inl e | Inr ret' \<Rightarrow> append_loop ret' inds)"

definition Append :: "'f indexers list \<Rightarrow> go_error + 'f indexers" where
  "Append inds = append_loop [] inds"

definition AppendOrDie :: "'f indexers list \<Rightarrow> 'f indexers outcome" where
  "AppendOrDie inds = (case Append inds of Inl _ \<Rightarrow> Panics | Inr ret \<Rightarrow> Returns ret)"

text \<open>What \<open>AddIfNotPresentOrDie\<close> hands to \<open>AddIndexers\<close>, whose refusal is a panic.\<close>

definition AddIfNotPresentOrDie :: "('f indexers \<Rightarrow> 'f indexers \<Rightarrow> go_error + 'f indexers) \<Rightarrow>
    'f indexers \<Rightarrow> 'f indexers \<Rightarrow> 'f indexers outcome" where
  "AddIfNotPresentOrDie addIndexers existing toAdd =
     (case addIndexers existing (filter (\<lambda>(k, _). map_of existing k = None) toAdd) of
        Inl _ \<Rightarrow> Panics
      | Inr ret \<Rightarrow> Returns ret)"

definition ByIndex :: "('o option \<Rightarrow> string list) \<Rightarrow> string \<Rightarrow> 'o list \<Rightarrow> 'o list" where
  "ByIndex f key objs = filter (\<lambda>x. key \<in> set (f (Some x))) objs"

section \<open>Properties\<close>

text \<open>
  The index of CRDs by binding agrees with the ownership test: a binding's name is a key of a
  CRD exactly if the CRD is owned by a binding of that name, whatever its UID.
\<close>

lemma crd_index_is_ownership:
  "name \<in> set (IndexCRDByServiceBinding (Some crd)) \<longleftrightarrow>
     IsOwnedByBinding name '''' (om_OwnerReferences (crd_Meta crd))"
  by (auto simp: IndexCRDByServiceBinding_def IsOwnedByBinding_def list_ex_iff)

lemma append_entries_ok:
  "append_entries ret ind = Inr ret' \<longleftrightarrow>
     ret' = ret @ ind \<and> distinct (map fst ind) \<and> fst ` set ret \<inter> fst ` set ind = {}"
proof (induction ind arbitrary: ret)
  case (Cons kv ind)
  obtain k v where kv: "kv = (k, v)" by (cases kv)
  show ?case
    using Cons [of "ret @ [kv]"] by (auto simp: kv map_of_eq_None_iff)
qed auto

lemma append_loop_ok:
  "append_loop ret inds = Inr ret' \<Longrightarrow> distinct (map fst ret) \<Longrightarrow> ret' = ret @ concat inds \<and> distinct (map fst ret')"
proof (induction inds arbitrary: ret)
  case (Cons ind inds)
  then obtain r where r: "append_entries ret ind = Inr r" "append_loop r inds = Inr ret'"
    by (auto split: sum.splits)
  then have "r = ret @ ind" "distinct (map fst r)" using Cons.prems(2) by (auto simp: append_entries_ok)
  moreover from this have "ret' = r @ concat inds \<and> distinct (map fst ret')" using Cons.IH [OF r(2)] by blast
  ultimately show ?case by (metis append_assoc concat.simps(2))
qed auto

lemma append_loop_succeeds:
  "distinct (map fst (ret @ concat inds)) \<Longrightarrow> append_loop ret inds = Inr (ret @ concat inds)"
proof (induction inds arbitrary: ret)
  case (Cons ind inds)
  then have "append_entries ret ind = Inr (ret @ ind)" by (auto simp: append_entries_ok)
  moreover have "append_loop (ret @ ind) inds = Inr ((ret @ ind) @ concat inds)"
    using Cons.prems by (intro Cons.IH) (simp only: concat.simps append_assoc)
  ultimately show ?case by simp
qed auto

text \<open>
  Merging sets of indexers succeeds exactly if no name occurs twice, and then gives all of them;
  otherwise \<open>AppendOrDie\<close> panics.
\<close>

lemma append_indexers_iff:
  "AppendOrDie inds = (if distinct (map fst (concat inds)) then Returns (concat inds) else Panics)"
proof (cases "Append inds")
  case (Inl e)
  then show ?thesis using append_loop_succeeds [of "[]" inds] by (auto simp: AppendOrDie_def Append_def)
next
  case (Inr ret)
  then show ?thesis using append_loop_ok [of "[]" inds ret] by (auto simp: AppendOrDie_def Append_def)
qed

text \<open>
  A lookup by the name of a CRD misses every export that has another name, although one of its
  resources may be that CRD.
\<close>

lemma crd_lookup_misses:
  "om_Name (ex_Meta export) \<noteq> crdName \<Longrightarrow>
   export \<notin> set (ByIndex IndexServiceExportByCustomResourceDefinition crdName exports)"
  by (simp add: ByIndex_def IndexServiceExportByCustomResourceDefinition_def)

end
