(* ===== verification/Export_Controller.thy ===== *)
theory Export_Controller
  imports Service_Export Committer Indexers
begin

text \<open>
  The controller around the APIServiceExport reconciler of the konnector
  (\<open>serviceexport/serviceexport_controller.go\<close>): the handlers of informer events and \<open>process\<close>.
\<close>

section \<open>Controller\<close>

text \<open>\<open>xc_asBinding\<close> is the type assertion on the object of an event; a tombstone is no binding.\<close>

record ('w, 'e, 'p) export_controller =
  xc_keys :: "'e cache_keys"
  xc_queue :: "'w queue"
  xc_asBinding :: "'e \<Rightarrow> APIServiceBinding option"
  xc_serviceExport_Get :: "string \<Rightarrow> string \<Rightarrow> ('w, APIServiceExport) call"
  xc_serviceExport_ByBoundSchema :: "string \<Rightarrow> ('w, APIServiceExport list) call"
  xc_reconciler :: "'w reconciler"
  xc_committer :: "('w, APIServiceExportSpec, condition list, 'p) committer"

definition enqueueServiceExport :: "('w, 'e, 'p) export_controller \<Rightarrow> 'e \<Rightarrow> ('w, unit) io" where
  "enqueueServiceExport c obj =
     (case ck_DeletionHandlingKey (xc_keys c) obj of
        Inl _ \<Rightarrow> State_Monad.return ()
      | Inr key \<Rightarrow> q_Add (xc_queue c) key)"

definition enqueueServiceBinding :: "('w, 'e, 'p) export_controller \<Rightarrow> 'e \<Rightarrow> ('w, unit) io" where
  "enqueueServiceBinding c obj =
     (case xc_asBinding c obj of
        None \<Rightarrow> State_Monad.return ()
      | Some binding \<Rightarrow> q_Add (xc_queue c) (providerNamespace (xc_reconciler c) @ ''/'' @ om_Name (bi_Meta binding)))"

text \<open>The loop over the exports stops at the first one without a key.\<close>

fun enqueue_exports :: "('w, 'e, 'p) export_controller \<Rightarrow> APIServiceExport list \<Rightarrow> ('w, unit) io" where
  "enqueue_exports c [] = State_Monad.return ()"
| "enqueue_exports c (export # exports) =
     (case ck_Key (xc_keys c) (ex_Meta export) of
        Inl _ \<Rightarrow> State_Monad.return ()
      | Inr key \<Rightarrow> do { q_Add (xc_queue c) key; enqueue_exports c exports })"

definition enqueueCRD :: "('w, 'e, 'p) export_controller \<Rightarrow> 'e \<Rightarrow> ('w, unit) io" where
  "enqueueCRD c obj =
     (case ck_DeletionHandlingKey (xc_keys c) obj of
        Inl _ \<Rightarrow> State_Monad.return ()
      | Inr name \<Rightarrow> do {
          exports \<leftarrow> xc_serviceExport_ByBoundSchema c name;
          (case exports of
             Inl _ \<Rightarrow> State_Monad.return ()
           | Inr xs \<Rightarrow> enqueue_exports c xs) })"

definition export_resource :: "APIServiceExport \<Rightarrow> (APIServiceExportSpec, condition list) Resource" where
  "export_resource x = \<lparr>rs_Meta = ex_Meta x, rs_Spec = ex_Spec x, rs_Status = ex_Conditions x\<rparr>"

definition process :: "('w, 'e, 'p) export_controller \<Rightarrow> time \<Rightarrow> string \<Rightarrow> ('w sync_world, err outcome) io" where
  "process c now key =
     (case ck_Split (xc_keys c) key of
        Inl _ \<Rightarrow> State_Monad.return (Returns None)
      | Inr (namespace, name) \<Rightarrow> do {
          g \<leftarrow> ext (xc_serviceExport_Get c namespace name);
          (case g of
             Inl e \<Rightarrow>
               (if \<not> IsNotFound e then State_Monad.return (Returns (Some e))
                else do {
                  res \<leftarrow> reconcile (xc_reconciler c) now namespace name None;
                  State_Monad.return (Returns (fst res)) })
           | Inr old \<Rightarrow> do {
               res \<leftarrow> reconcile (xc_reconciler c) now namespace name (Some old);
               (case snd res of
                  None \<Rightarrow> State_Monad.return Panics
                | Some obj \<Rightarrow> do {
                    k \<leftarrow> ext (commit (xc_committer c) (export_resource old) (export_resource obj));
                    (case k of
                       Panics \<Rightarrow> State_Monad.return Panics
                     | Returns e \<Rightarrow> State_Monad.return
                         (Returns (NewAggregate (errs_append (errs_append [] (fst res)) e)))) }) }) })"

section \<open>Processing returns\<close>

lemma export_marks:
  "ex_Meta (Set APIServiceExport_setter now x co) = ex_Meta x"
  "ex_Spec (Set APIServiceExport_setter now x co) = ex_Spec x"
  by (cases co; simp add: Set_def APIServiceExport_setter_def)+

definition same_part :: "APIServiceExport \<Rightarrow> APIServiceExport \<Rightarrow> bool" where
  "same_part x y \<longleftrightarrow> ex_Meta x = ex_Meta y \<and> ex_Spec x = ex_Spec y"

lemma same_part_marks:
  "same_part (Set APIServiceExport_setter now x co) y = same_part x y"
  "same_part (MarkTrue APIServiceExport_setter now x t) y = same_part x y"
  "same_part (MarkFalse APIServiceExport_setter now x t reason sev m) y = same_part x y"
  by (simp_all add: same_part_def MarkTrue_def MarkFalse_def export_marks)

lemma reconcile_same_part:
  "wp (reconcile r now ns name (Some x)) (\<lambda>(_, y) _. \<exists>x'. y = Some x' \<and> same_part x' x) s"
proof -
  have copied: "wp (ensureServiceBindingConditionCopied r now x) (\<lambda>(_, x') _. same_part x' x) s" for s
    unfolding ensureServiceBindingConditionCopied_def Let_def
    by (intro wp_call wp_return) (auto simp: same_part_marks same_part_def [of x x] split: sum.splits option.splits)
  have crds: "wp (ensureCRDConditionsCopiedToBoundSchema r now y) (\<lambda>(_, y') _. same_part y' y) s" for y s
    unfolding ensureCRDConditionsCopiedToBoundSchema_def
    by (intro wp_call wp_prod wp_return) (auto simp: same_part_marks same_part_def [of y y])
  show ?thesis unfolding reconcile_def
    by (rule wp_call, simp, rule wp_chain [OF copied], clarsimp, rule wp_chain [OF crds], rule wp_return)
      (auto simp: same_part_def)
qed

lemma wp_ext_commit:
  assumes "\<And>m. cm_metaEqual k m m" and "\<And>sp. cm_specEqual k sp sp" and "same_part x y"
  shows "wp (ext (commit k (export_resource y) (export_resource x))) (\<lambda>res _. res \<noteq> Panics) s"
proof -
  have "wp (commit k (export_resource y) (export_resource x)) (\<lambda>res _. res \<noteq> Panics) (sw_ext s)"
    by (rule commit_one_part) (use assms in \<open>simp add: export_resource_def same_part_def\<close>)
  then show ?thesis by (simp add: wp_def ext_def split: prod.splits)
qed

lemma export_process_returns:
  assumes "\<And>m. cm_metaEqual (xc_committer c) m m" and "\<And>sp. cm_specEqual (xc_committer c) sp sp"
  shows "fst (run_state (process c now key) s) \<noteq> Panics"
proof -
  have "wp (process c now key) (\<lambda>res _. res \<noteq> Panics) s"
    unfolding process_def
    by (rule wp_sum, (auto intro!: wp_return)[1], rule wp_prod, rule wp_call, rule wp_sum,
        (intro wp_if wp_call wp_return; simp)[1], rule wp_chain [OF reconcile_same_part], clarsimp,
        rule wp_chain [OF wp_ext_commit [OF assms]], assumption)
      (auto intro!: wp_return split: outcome.splits)
  then show ?thesis by (simp add: wp_def split: prod.splits)
qed

section \<open>Events reach the exports\<close>

text \<open>
  A change of a CRD requeues exactly the exports that have a resource of its name, if the index and
  the key functions answer as documented.
\<close>

lemma crd_event_requeues:
  assumes "keys_documented (xc_keys c)" and "xc_queue c = list_queue"
    and "ck_DeletionHandlingKey (xc_keys c) obj = Inr name"
    and "xc_serviceExport_ByBoundSchema c name = State_Monad.return (Inr (ByIndex IndexServiceExportByBoundSchema name cache))"
  shows "run_state (enqueueCRD c obj) q = ((), q @
     map (\<lambda>x. MetaNamespaceKey (om_Namespace (ex_Meta x)) (om_Name (ex_Meta x)))
       (filter (\<lambda>x. name \<in> ResourceGroupName ` set (exs_Resources (ex_Spec x))) cache))"
proof -
  have loop: "run_state (enqueue_exports c xs) q = ((), q @
      map (\<lambda>x. MetaNamespaceKey (om_Namespace (ex_Meta x)) (om_Name (ex_Meta x))) xs)" for xs q
    using assms(1,2) by (induction xs arbitrary: q) (simp_all add: keys_documented_def list_queue_def)
  have "ByIndex IndexServiceExportByBoundSchema name cache = filter (\<lambda>x. name \<in> ResourceGroupName ` set (exs_Resources (ex_Spec x))) cache"
    by (simp add: ByIndex_def IndexServiceExportByBoundSchema_def)
  then show ?thesis using assms(3,4) by (simp add: enqueueCRD_def loop)
qed

text \<open>A binding deleted while the watch was interrupted arrives as a tombstone, and its export is not requeued.\<close>

lemma deleted_binding_dropped:
  "xc_asBinding c obj = None \<Longrightarrow> run_state (enqueueServiceBinding c obj) w = ((), w)"
  by (simp add: enqueueServiceBinding_def)

section \<open>A concrete controller\<close>

definition example_export_controller :: "(unit, ObjectMeta, string) export_controller" where
  "example_export_controller = \<lparr>xc_keys = example_keys,
     xc_queue = \<lparr>q_Add = (\<lambda>_. State_Monad.return ()), q_AddAfter = (\<lambda>_ _. State_Monad.return ())\<rparr>,
     xc_asBinding = (\<lambda>_. None),
     xc_serviceExport_Get = (\<lambda>ns n. State_Monad.return (Inr (example_export n [''foos'']))),
     xc_serviceExport_ByBoundSchema = (\<lambda>_. State_Monad.return (Inr [])),
     xc_reconciler = example_reconciler,
     xc_committer = \<lparr>cm_metaEqual = (=), cm_specEqual = (=), cm_statusEqual = (=),
       cm_zeroSpec = ex_Spec (example_export '''' []), cm_zeroStatus = [],
       cm_focusType = '''', cm_marshal = (\<lambda>_. Inr ''''), cm_createMergePatch = (\<lambda>_ _. Inr ''''),
       cm_patch = (\<lambda>_ _ _ _. State_Monad.return None)\<rparr>\<rparr>"

end
