(* ===== verification/Service_Binding.thy ===== *)
theory Service_Binding
  imports Bound_Schema Kube_Client Committer
begin

text \<open>
  The APIServiceBinding controller that the konnector runs per provider cluster
  (\<open>cluster/servicebinding\<close>): it makes sure that the CRDs of the bound schemas exist in the consumer
  cluster and reports in the conditions of the binding. The reconciler changes the binding it is
  given, so its functions give the new binding beside the error. A client may hand out an object
  together with an error; where the code looks at it, the call gives both.
\<close>

section \<open>The reconciler\<close>

record 'w reconciler =
  consumerSecretRefKey :: string
  providerNamespace :: string
  reconcileServiceBinding :: "APIServiceBinding \<Rightarrow> bool"
  getServiceExport :: "string \<Rightarrow> ('w, APIServiceExport) call"
  getServiceExportRequest :: "string \<Rightarrow> ('w, APIServiceExportRequest) call"
  getServiceBinding :: "string \<Rightarrow> ('w, APIServiceBinding) call"
  getClusterBinding :: "('w, ClusterBinding) call"
  getBoundSchema :: "string \<Rightarrow> ('w, (go_error \<times> BoundSchema option) + BoundSchema) io"
  updateServiceExportStatus :: "APIServiceExport \<Rightarrow> ('w, APIServiceExport) call"
  getCRD :: "string \<Rightarrow> ('w, CustomResourceDefinition) call"
  updateCRD :: "CustomResourceDefinition \<Rightarrow> ('w, CustomResourceDefinition) call"
  createCRD :: "CustomResourceDefinition \<Rightarrow> ('w, CustomResourceDefinition) call"
  decodeValidation :: "string \<Rightarrow> go_error + json option"
  decodeSchema :: "string \<Rightarrow> go_error + json"
  sprintf_verbs :: "string \<Rightarrow> string \<Rightarrow> string"

abbreviation bi_Name :: "APIServiceBinding \<Rightarrow> string" where "bi_Name b \<equiv> om_Name (bi_Meta b)"

definition mark_disconnected :: "time \<Rightarrow> APIServiceBinding \<Rightarrow> string \<Rightarrow> string \<Rightarrow> APIServiceBinding" where
  "mark_disconnected now b reason message =
     MarkFalse APIServiceBinding_setter now b APIServiceBindingConditionConnected reason ConditionSeverityError message"

definition ensureValidServiceExport :: "'w reconciler \<Rightarrow> time \<Rightarrow> APIServiceBinding \<Rightarrow>
    ('w, err \<times> APIServiceBinding) io" where
  "ensureValidServiceExport r now b = do {
     g \<leftarrow> getServiceExport r (bi_Name b);
     (case g of
        Inr _ \<Rightarrow> State_Monad.return
          (None, MarkTrue APIServiceBinding_setter now b APIServiceBindingConditionConnected)
      | Inl e \<Rightarrow>
          (if \<not> IsNotFound e then State_Monad.return (Some e, b)
           else do {
             q \<leftarrow> getServiceExportRequest r (bi_Name b);
             State_Monad.return
               (case q of
                  Inr request \<Rightarrow>
                    (if ert_Phase (er_Status request) = PhaseFailed
                     then (Some (Errorf (''APIServiceExportRequest '' @ bi_Name b @ '' is in failed state: '' @
                             ert_TerminalMessage (er_Status request)) None),
                           mark_disconnected now b ''APIServiceExportFailed''
                             (Sprintf1 (sprintf_verbs r) (ert_TerminalMessage (er_Status request)) (bi_Name b)))
                     else (None, mark_disconnected now b ''APIServiceExportNotFound''
                       (''APIServiceExport '' @ bi_Name b @
                        '' not found on the service provider cluster. Rerun kubectl bind for repair.'')))
                | Inl _ \<Rightarrow> (None, mark_disconnected now b ''APIServiceExportNotFound''
                       (''APIServiceExport '' @ bi_Name b @
                        '' not found on the service provider cluster. Rerun kubectl bind for repair.''))) })) }"

definition add_reference :: "GroupResource \<Rightarrow> APIServiceBinding \<Rightarrow> APIServiceBinding" where
  "add_reference gr b =
     (if gr \<in> set (bis_BoundSchemas (bi_Status b)) then b
      else b\<lparr>bi_Status := (bi_Status b)\<lparr>bis_BoundSchemas := bis_BoundSchemas (bi_Status b) @ [gr]\<rparr>\<rparr>)"

definition schema_reference :: "BoundSchema \<Rightarrow> GroupResource" where
  "schema_reference s = \<lparr>gr_Group = bss_Group (bs_Spec s), gr_Resource = crn_Plural (bss_Names (bs_Spec s))\<rparr>"

definition referenceBoundSchema :: "'w reconciler \<Rightarrow> APIServiceBinding \<Rightarrow> string \<Rightarrow>
    ('w, err \<times> APIServiceBinding) io" where
  "referenceBoundSchema r b name = do {
     g \<leftarrow> getBoundSchema r name;
     State_Monad.return
       (case g of
          Inr s \<Rightarrow> (None, add_reference (schema_reference s) b)
        | Inl (e, boundSchema) \<Rightarrow>
            (if \<not> IsNotFound e then (Some (Errorf (''failed to get BoundSchema '' @ name) (Some e)), b)
             else (case boundSchema of
                     None \<Rightarrow> (None, b)
                   | Some s \<Rightarrow> (None, add_reference (schema_reference s) b)))) }"

definition referencePermissionClaims :: "APIServiceBinding \<Rightarrow> APIServiceExport \<Rightarrow> err \<times> APIServiceBinding" where
  "referencePermissionClaims b export =
     (None, b\<lparr>bi_Status := (bi_Status b)\<lparr>bis_PermissionClaims := exs_PermissionClaims (ex_Spec export)\<rparr>\<rparr>)"

definition binding_reference :: "APIServiceBinding \<Rightarrow> OwnerReference" where
  "binding_reference b = \<lparr>or_APIVersion = SchemeGroupVersion, or_Kind = ''APIServiceBinding'',
     or_Name = bi_Name b, or_UID = om_UID (bi_Meta b), or_Controller = Some True, or_BlockOwnerDeletion = None\<rparr>"

definition wanted_crd :: "'w reconciler \<Rightarrow> APIServiceBinding \<Rightarrow> BoundSchema \<Rightarrow> CustomResourceDefinition" where
  "wanted_crd r b schema =
     (let crd = BoundSchemaToCRD (decodeValidation r) (decodeSchema r) schema
      in crd\<lparr>crd_Meta := (crd_Meta crd)\<lparr>om_OwnerReferences := om_OwnerReferences (crd_Meta crd) @ [binding_reference b]\<rparr>\<rparr>)"

text \<open>An error of the update other than an invalid object is dropped.\<close>

definition ensureCRDsFromBoundSchema :: "'w reconciler \<Rightarrow> time \<Rightarrow> APIServiceBinding \<Rightarrow> BoundSchema \<Rightarrow>
    ('w, err \<times> APIServiceBinding) io" where
  "ensureCRDsFromBoundSchema r now b schema =
     (let crd = wanted_crd r b schema; crdName = om_Name (crd_Meta crd)
      in do {
        g \<leftarrow> getCRD r crdName;
        (case g of
           Inl e \<Rightarrow>
             (if \<not> IsNotFound e then State_Monad.return (Some e, b)
              else do {
                c \<leftarrow> createCRD r crd;
                State_Monad.return
                  (case c of
                     Inr _ \<Rightarrow> (None, b)
                   | Inl e' \<Rightarrow>
                       (if \<not> IsInvalid e' then (Some e', b)
                        else (None, mark_disconnected now b ''CustomResourceDefinitionCreateFailed''
                          (''CustomResourceDefinition '' @ crdName @ '' cannot be created: '' @ Error e')))) })
         | Inr existing \<Rightarrow>
             (if \<not> IsOwnedByBinding (bi_Name b) (om_UID (bi_Meta b)) (om_OwnerReferences (crd_Meta existing))
              then State_Monad.return
                (None, mark_disconnected now b ''ForeignCustomResourceDefinition''
                   (''CustomResourceDefinition '' @ crdName @ '' is not owned by kube-bind.io.''))
              else do {
                u \<leftarrow> updateCRD r (crd\<lparr>crd_Meta := crd_Meta existing\<rparr>);
                State_Monad.return
                  (case u of
                     Inr _ \<Rightarrow> (None, b)
                   | Inl e' \<Rightarrow>
                       (if \<not> IsInvalid e' then (None, b)
                        else (None, mark_disconnected now b ''CustomResourceDefinitionUpdateFailed''
                          (''CustomResourceDefinition '' @ bi_Name b @ '' cannot be updated: '' @ Error e')))) })) })"

fun getSchemasFromExport :: "'w reconciler \<Rightarrow> APIServiceExportRequestResource list \<Rightarrow>
    ('w, BoundSchema list) call" where
  "getSchemasFromExport r [] = State_Monad.return (Inr [])"
| "getSchemasFromExport r (ref # refs) = do {
     g \<leftarrow> getBoundSchema r (ResourceGroupName ref);
     (case g of
        Inl (e, _) \<Rightarrow> State_Monad.return (Inl (Errorf (''failed to get Schema '' @ ResourceGroupName ref) (Some e)))
      | Inr schema \<Rightarrow> do {
          rest \<leftarrow> getSchemasFromExport r refs;
          State_Monad.return (case rest of Inl e \<Rightarrow> Inl e | Inr schemas \<Rightarrow> Inr (schema # schemas)) }) }"

fun process_schemas :: "'w reconciler \<Rightarrow> time \<Rightarrow> APIServiceExport \<Rightarrow> BoundSchema list \<Rightarrow> APIServiceBinding \<Rightarrow>
    go_error list \<Rightarrow> ('w, go_error list \<times> APIServiceBinding) io" where
  "process_schemas r now export [] b errs = State_Monad.return (errs, b)"
| "process_schemas r now export (s # ss) b errs = do {
     r1 \<leftarrow> referenceBoundSchema r b (om_Name (bs_Meta s));
     let r2 = referencePermissionClaims (snd r1) export;
     r3 \<leftarrow> ensureCRDsFromBoundSchema r now (snd r2) s;
     process_schemas r now export ss (snd r3)
       (errs_append (errs_append (errs_append errs (fst r1)) (fst r2)) (fst r3)) }"

definition ensureCRDs :: "'w reconciler \<Rightarrow> time \<Rightarrow> APIServiceBinding \<Rightarrow> ('w, err \<times> APIServiceBinding) io" where
  "ensureCRDs r now b = do {
     g \<leftarrow> getServiceExport r (bi_Name b);
     (case g of
        Inl e \<Rightarrow> State_Monad.return
          (if \<not> IsNotFound e then (Some e, b)
           else (None, mark_disconnected now b ''APIServiceExportNotFound''
             (''APIServiceExport '' @ bi_Name b @ '' not found on the service provider cluster.'')))
      | Inr export \<Rightarrow> do {
          ss \<leftarrow> getSchemasFromExport r (exs_Resources (ex_Spec export));
          (case ss of
             Inl e \<Rightarrow> State_Monad.return
               (Some e, mark_disconnected now b ''BoundSchemaFetchFailed''
                  (''Failed to fetch BoundSchema objects: '' @ Error e))
           | Inr schemas \<Rightarrow> do {
               res \<leftarrow> process_schemas r now export schemas b [];
               (case res of (errs, b') \<Rightarrow> State_Monad.return
                  (NewAggregate errs,
                   if errs = [] \<and> \<not> IsFalse APIServiceBinding_setter b' APIServiceBindingConditionConnected
                   then MarkTrue APIServiceBinding_setter now
                     (MarkTrue APIServiceBinding_setter now b' APIServiceBindingConditionConnected)
                     APIServiceBindingConditionSchemaInSync
                   else b')) }) }) }"

definition set_pretty_name :: "string \<Rightarrow> APIServiceBinding \<Rightarrow> APIServiceBinding" where
  "set_pretty_name n b = b\<lparr>bi_Status := (bi_Status b)\<lparr>bis_ProviderPrettyName := n\<rparr>\<rparr>"

definition ensurePrettyName :: "'w reconciler \<Rightarrow> APIServiceBinding \<Rightarrow> ('w, err \<times> APIServiceBinding) io" where
  "ensurePrettyName r b = do {
     g \<leftarrow> getClusterBinding r;
     State_Monad.return
       (case g of
          Inl e \<Rightarrow> (if \<not> IsNotFound e then (Some e, b) else (None, set_pretty_name '''' b))
        | Inr cb \<Rightarrow> (None, set_pretty_name (cbs_ProviderPrettyName (cb_Spec cb)) b)) }"

definition reconcile :: "'w reconciler \<Rightarrow> time \<Rightarrow> APIServiceBinding \<Rightarrow> ('w, err \<times> APIServiceBinding) io" where
  "reconcile r now b =
     (if \<not> reconcileServiceBinding r b then State_Monad.return (None, b)
      else do {
        r1 \<leftarrow> ensureValidServiceExport r now b;
        r2 \<leftarrow> ensureCRDs r now (snd r1);
        r3 \<leftarrow> ensurePrettyName r (snd r2);
        State_Monad.return
          (NewAggregate (errs_append (errs_append (errs_append [] (fst r1)) (fst r2)) (fst r3)),
           SetSummary APIServiceBinding_setter now (snd r3) []) })"

section \<open>The controller\<close>

record ('w, 'e, 'p) controller =
  c_keys :: "'e cache_keys"
  c_queue :: "'w queue"
  c_serviceBinding_Get :: "string \<Rightarrow> ('w, APIServiceBinding) call"
  c_serviceBinding_BySecret :: "string \<Rightarrow> ('w, APIServiceBinding list) call"
  c_serviceExport_ByCRD :: "string \<Rightarrow> ('w, APIServiceExport list) call"
  c_reconciler :: "'w reconciler"
  c_committer :: "('w, ClusterSecretKeyRef, APIServiceBindingStatus, 'p) committer"

definition enqueueServiceBinding :: "('w, 'e, 'p) controller \<Rightarrow> 'e \<Rightarrow> ('w, unit) io" where
  "enqueueServiceBinding c obj =
     (case ck_DeletionHandlingKey (c_keys c) obj of
        Inl _ \<Rightarrow> State_Monad.return ()
      | Inr key \<Rightarrow> q_Add (c_queue c) key)"

text \<open>The loop of \<open>enqueueServiceExport\<close> ends at the first binding without a key.\<close>

fun enqueue_bindings :: "('w, 'e, 'p) controller \<Rightarrow> APIServiceBinding list \<Rightarrow> ('w, unit) io" where
  "enqueue_bindings c [] = State_Monad.return ()"
| "enqueue_bindings c (b # bs) =
     (case ck_Key (c_keys c) (bi_Meta b) of
        Inl _ \<Rightarrow> State_Monad.return ()
      | Inr key \<Rightarrow> do { q_Add (c_queue c) key; enqueue_bindings c bs })"

definition enqueueServiceExport :: "('w, 'e, 'p) controller \<Rightarrow> 'e \<Rightarrow> ('w, unit) io" where
  "enqueueServiceExport c obj = do {
     g \<leftarrow> c_serviceBinding_BySecret c (consumerSecretRefKey (c_reconciler c));
     (case g of Inl _ \<Rightarrow> State_Monad.return () | Inr bs \<Rightarrow> enqueue_bindings c bs) }"

definition enqueueCRD :: "('w, 'e, 'p) controller \<Rightarrow> 'e \<Rightarrow> ('w, unit) io" where
  "enqueueCRD c obj =
     (case ck_DeletionHandlingKey (c_keys c) obj of
        Inl _ \<Rightarrow> State_Monad.return ()
      | Inr name \<Rightarrow> do {
          g \<leftarrow> c_serviceExport_ByCRD c name;
          (case g of
             Inl _ \<Rightarrow> State_Monad.return ()
           | Inr exports \<Rightarrow> for_each (\<lambda>ex. q_Add (c_queue c) (om_Name (ex_Meta ex))) exports) })"

definition resource_of :: "APIServiceBinding \<Rightarrow> (ClusterSecretKeyRef, APIServiceBindingStatus) Resource" where
  "resource_of b = \<lparr>rs_Meta = bi_Meta b, rs_Spec = bi_KubeconfigSecretRef b, rs_Status = bi_Status b\<rparr>"

definition process :: "('w, 'e, 'p) controller \<Rightarrow> time \<Rightarrow> string \<Rightarrow> ('w, err outcome) io" where
  "process c now key =
     (case ck_Split (c_keys c) key of
        Inl _ \<Rightarrow> State_Monad.return (Returns None)
      | Inr (_, name) \<Rightarrow> do {
          g \<leftarrow> c_serviceBinding_Get c name;
          (case g of
             Inl e \<Rightarrow> State_Monad.return (Returns (if IsNotFound e then None else Some e))
           | Inr old \<Rightarrow> do {
               res \<leftarrow> reconcile (c_reconciler c) now old;
               k \<leftarrow> commit (c_committer c) (resource_of old) (resource_of (snd res));
               State_Monad.return
                 (case k of
                    Panics \<Rightarrow> Panics
                  | Returns e \<Rightarrow> Returns (NewAggregate (errs_append (errs_append [] (fst res)) e))) }) })"

section \<open>The reconciler changes the status only\<close>

lemma binding_Set [simp]:
  "bi_Meta (Set APIServiceBinding_setter now b co) = bi_Meta b"
  "bi_KubeconfigSecretRef (Set APIServiceBinding_setter now b co) = bi_KubeconfigSecretRef b"
  by (simp_all add: Set_def APIServiceBinding_setter_def split: option.split)

lemma binding_Mark [simp]:
  "bi_Meta (MarkTrue APIServiceBinding_setter now b t) = bi_Meta b"
  "bi_KubeconfigSecretRef (MarkTrue APIServiceBinding_setter now b t) = bi_KubeconfigSecretRef b"
  "bi_Meta (MarkFalse APIServiceBinding_setter now b t r sv m) = bi_Meta b"
  "bi_KubeconfigSecretRef (MarkFalse APIServiceBinding_setter now b t r sv m) = bi_KubeconfigSecretRef b"
  "bi_Meta (SetSummary APIServiceBinding_setter now b opts) = bi_Meta b"
  "bi_KubeconfigSecretRef (SetSummary APIServiceBinding_setter now b opts) = bi_KubeconfigSecretRef b"
  by (simp_all add: MarkTrue_def MarkFalse_def SetSummary_def)

definition same_object :: "APIServiceBinding \<Rightarrow> APIServiceBinding \<Rightarrow> bool" where
  "same_object b b' \<longleftrightarrow> bi_Meta b' = bi_Meta b \<and> bi_KubeconfigSecretRef b' = bi_KubeconfigSecretRef b \<and>
     (bnd.unique_types b \<longrightarrow> bnd.unique_types b')"

lemma same_object_refl [simp]: "same_object b b"
  by (simp add: same_object_def)

lemma same_object_trans: "same_object a b \<Longrightarrow> same_object b c \<Longrightarrow> same_object a c"
  by (simp add: same_object_def)

lemma same_object_ops [simp]:
  "same_object b (mark_disconnected now b reason m)"
  "same_object b (MarkTrue APIServiceBinding_setter now b t)"
  "same_object b (SetSummary APIServiceBinding_setter now b opts)"
  by (simp_all add: same_object_def mark_disconnected_def del: unique_binding)

lemma same_object_status [simp]:
  "same_object b (add_reference gr b)"
  "same_object b (set_pretty_name n b)"
  "same_object b (snd (referencePermissionClaims b export))"
  by (simp_all add: same_object_def add_reference_def set_pretty_name_def referencePermissionClaims_def)

section \<open>The calls of a reconciliation\<close>

datatype event =
    EvGetServiceExport string "go_error + APIServiceExport"
  | EvGetBoundSchema string "(go_error \<times> BoundSchema option) + BoundSchema"
  | EvGetCRD string "go_error + CustomResourceDefinition"
  | EvUpdateCRD CustomResourceDefinition "go_error + CustomResourceDefinition"
  | EvCreateCRD CustomResourceDefinition "go_error + CustomResourceDefinition"
  | EvOther

definition traced :: "'w reconciler \<Rightarrow> ('w \<times> event list) reconciler" where
  "traced r = \<lparr>
     consumerSecretRefKey = consumerSecretRefKey r,
     providerNamespace = providerNamespace r,
     reconcileServiceBinding = reconcileServiceBinding r,
     getServiceExport = (\<lambda>n. logged (EvGetServiceExport n) (getServiceExport r n)),
     getServiceExportRequest = (\<lambda>n. logged (\<lambda>_. EvOther) (getServiceExportRequest r n)),
     getServiceBinding = (\<lambda>n. logged (\<lambda>_. EvOther) (getServiceBinding r n)),
     getClusterBinding = logged (\<lambda>_. EvOther) (getClusterBinding r),
     getBoundSchema = (\<lambda>n. logged (EvGetBoundSchema n) (getBoundSchema r n)),
     updateServiceExportStatus = (\<lambda>x. logged (\<lambda>_. EvOther) (updateServiceExportStatus r x)),
     getCRD = (\<lambda>n. logged (EvGetCRD n) (getCRD r n)),
     updateCRD = (\<lambda>x. logged (EvUpdateCRD x) (updateCRD r x)),
     createCRD = (\<lambda>x. logged (EvCreateCRD x) (createCRD r x)),
     decodeValidation = decodeValidation r,
     decodeSchema = decodeSchema r,
     sprintf_verbs = sprintf_verbs r\<rparr>"

lemma binding_traced_simps [simp]:
  "reconcileServiceBinding (traced r) = reconcileServiceBinding r"
  "getServiceExport (traced r) n = logged (EvGetServiceExport n) (getServiceExport r n)"
  "getServiceExportRequest (traced r) n = logged (\<lambda>_. EvOther) (getServiceExportRequest r n)"
  "getClusterBinding (traced r) = logged (\<lambda>_. EvOther) (getClusterBinding r)"
  "getBoundSchema (traced r) n = logged (EvGetBoundSchema n) (getBoundSchema r n)"
  "getCRD (traced r) n = logged (EvGetCRD n) (getCRD r n)"
  "updateCRD (traced r) x = logged (EvUpdateCRD x) (updateCRD r x)"
  "createCRD (traced r) x = logged (EvCreateCRD x) (createCRD r x)"
  "sprintf_verbs (traced r) = sprintf_verbs r"
  by (simp_all add: traced_def)

lemma wanted_crd_traced [simp]: "wanted_crd (traced r) b s = wanted_crd r b s"
  by (simp add: wanted_crd_def traced_def)

lemma wanted_crd_same: "same_object b b' \<Longrightarrow> wanted_crd r b' s = wanted_crd r b s"
  by (simp add: wanted_crd_def binding_reference_def same_object_def)

text \<open>
  When a CRD may be written: it is created only after a lookup of its name that did not find it,
  and updated only in place of one that the lookup gave and that the binding owns. In both cases it
  is the CRD of a schema that the provider gave, and a created one has the binding as its controller.
\<close>

definition fetched :: "event list \<Rightarrow> BoundSchema \<Rightarrow> bool" where
  "fetched h s \<longleftrightarrow> (\<exists>n. EvGetBoundSchema n (Inr s) \<in> set h)"

definition owned_crd :: "APIServiceBinding \<Rightarrow> CustomResourceDefinition \<Rightarrow> bool" where
  "owned_crd b crd \<longleftrightarrow> IsOwnedByBinding (bi_Name b) (om_UID (bi_Meta b)) (om_OwnerReferences (crd_Meta crd))"

fun policy :: "'w reconciler \<Rightarrow> APIServiceBinding \<Rightarrow> event list \<Rightarrow> event \<Rightarrow> bool" where
  "policy r b h (EvCreateCRD crd _) \<longleftrightarrow>
     (\<exists>s e. fetched h s \<and> crd = wanted_crd r b s \<and>
            EvGetCRD (om_Name (crd_Meta crd)) (Inl e) \<in> set h \<and> IsNotFound e)"
| "policy r b h (EvUpdateCRD crd _) \<longleftrightarrow>
     (\<exists>s existing. fetched h s \<and> crd = (wanted_crd r b s)\<lparr>crd_Meta := crd_Meta existing\<rparr> \<and>
            EvGetCRD (om_Name (crd_Meta (wanted_crd r b s))) (Inr existing) \<in> set h \<and> owned_crd b existing)"
| "policy r b h _ \<longleftrightarrow> reconcileServiceBinding r b"

text \<open>
  A schema whose CRD was created or updated, or whose update failed with an error that the code
  drops.
\<close>

definition crd_attempted :: "'w reconciler \<Rightarrow> APIServiceBinding \<Rightarrow> event list \<Rightarrow> BoundSchema \<Rightarrow> bool" where
  "crd_attempted r b tr s \<longleftrightarrow>
     (\<exists>x. EvCreateCRD (wanted_crd r b s) (Inr x) \<in> set tr) \<or>
     (\<exists>m x. EvUpdateCRD ((wanted_crd r b s)\<lparr>crd_Meta := m\<rparr>) (Inr x) \<in> set tr) \<or>
     (\<exists>m e. EvUpdateCRD ((wanted_crd r b s)\<lparr>crd_Meta := m\<rparr>) (Inl e) \<in> set tr \<and> \<not> IsInvalid e)"

lemma fetched_mono: "fetched tr s \<Longrightarrow> fetched (tr @ us) s"
  by (auto simp: fetched_def)

lemma crd_attempted_mono: "crd_attempted r b tr s \<Longrightarrow> set tr \<subseteq> set us \<Longrightarrow> crd_attempted r b us s"
  unfolding crd_attempted_def by blast

abbreviation disconnected :: "APIServiceBinding \<Rightarrow> bool" where
  "disconnected b \<equiv> IsFalse APIServiceBinding_setter b APIServiceBindingConditionConnected"

lemma disconnected_mark: "bnd.unique_types b \<Longrightarrow> disconnected (mark_disconnected now b reason m)"
  unfolding mark_disconnected_def by (rule bnd.IsFalse_MarkFalse)

lemma disconnected_status [simp]:
  "disconnected (add_reference gr b) = disconnected b"
  "disconnected (set_pretty_name n b) = disconnected b"
  "disconnected (snd (referencePermissionClaims b export)) = disconnected b"
  by (simp_all add: add_reference_def set_pretty_name_def referencePermissionClaims_def IsFalse_def Get_def
      APIServiceBinding_setter_def)

text \<open>What holds between the steps of a reconciliation of \<open>b0\<close>.\<close>

definition steps_ok :: "'w reconciler \<Rightarrow> APIServiceBinding \<Rightarrow> APIServiceBinding \<Rightarrow> event list \<Rightarrow> bool" where
  "steps_ok r b0 b tr \<longleftrightarrow> guarded (policy r b0) [] tr \<and> same_object b0 b \<and> reconcileServiceBinding r b0"

lemma steps_ok_log:
  "steps_ok r b0 b tr \<Longrightarrow> same_object b b' \<Longrightarrow> policy r b0 tr ev \<Longrightarrow> steps_ok r b0 b' (tr @ [ev])"
  unfolding steps_ok_def using same_object_trans by auto

lemma policy_writes:
  "fetched tr s \<Longrightarrow> IsNotFound e \<Longrightarrow>
   policy r b (tr @ [EvGetCRD (om_Name (crd_Meta (wanted_crd r b s))) (Inl e)]) (EvCreateCRD (wanted_crd r b s) res)"
  "fetched tr s \<Longrightarrow> owned_crd b existing \<Longrightarrow>
   policy r b (tr @ [EvGetCRD (om_Name (crd_Meta (wanted_crd r b s))) (Inr existing)])
     (EvUpdateCRD ((wanted_crd r b s)\<lparr>crd_Meta := crd_Meta existing\<rparr>) res)"
  using fetched_mono by fastforce+

lemma crd_attemptedI [simp]:
  "crd_attempted r b (tr @ [EvCreateCRD (wanted_crd r b s) (Inr x)]) s"
  "crd_attempted r b (tr @ [EvUpdateCRD ((wanted_crd r b s)\<lparr>crd_Meta := m\<rparr>) (Inr x)]) s"
  "\<not> IsInvalid e \<Longrightarrow> crd_attempted r b (tr @ [EvUpdateCRD ((wanted_crd r b s)\<lparr>crd_Meta := m\<rparr>) (Inl e)]) s"
  unfolding crd_attempted_def by fastforce+

lemma ensureCRDsFromBoundSchema_ok:
  assumes "steps_ok r b0 b tr" and "fetched tr s"
  shows "wp (ensureCRDsFromBoundSchema (traced r) now b s) (\<lambda>(e, b') (w', tr'). steps_ok r b0 b' tr' \<and>
    set tr \<subseteq> set tr' \<and>
    (bnd.unique_types b0 \<longrightarrow> e = None \<longrightarrow> \<not> disconnected b' \<longrightarrow> \<not> disconnected b \<and> crd_attempted r b0 tr' s)) (w, tr)"
proof -
  have same: "wanted_crd r b s = wanted_crd r b0 s" "bi_Meta b = bi_Meta b0" "reconcileServiceBinding r b0"
    "guarded (policy r b0) [] tr" "same_object b0 b"
    using assms(1) wanted_crd_same by (auto simp: steps_ok_def same_object_def)
  have uniq: "bnd.unique_types b0 \<Longrightarrow> bnd.unique_types b" using same(5) by (simp add: same_object_def)
  show ?thesis
    unfolding ensureCRDsFromBoundSchema_def binding_traced_simps wanted_crd_traced same(1,2) Let_def
    using same assms(2) uniq disconnected_mark same_object_trans [OF same(5)]
    by (intro wp_intros) (auto simp: steps_ok_def owned_crd_def policy_writes
        simp del: append_assoc unique_binding policy.simps(1,2) split: sum.splits)
qed

lemma referenceBoundSchema_ok:
  assumes "steps_ok r b0 b tr"
  shows "wp (referenceBoundSchema (traced r) b n) (\<lambda>(e, b') (w', tr'). steps_ok r b0 b' tr' \<and>
    set tr \<subseteq> set tr' \<and> disconnected b' = disconnected b) (w, tr)"
  using assms unfolding referenceBoundSchema_def binding_traced_simps
  by (intro wp_intros) (auto simp: steps_ok_def intro: same_object_trans split: sum.splits option.splits)

lemma process_schemas_ok:
  assumes "steps_ok r b0 b tr" and "\<forall>s \<in> set ss. fetched tr s"
  shows "wp (process_schemas (traced r) now export ss b errs) (\<lambda>(errs', b') (w', tr'). steps_ok r b0 b' tr' \<and>
    set tr \<subseteq> set tr' \<and>
    (bnd.unique_types b0 \<longrightarrow> errs' = [] \<longrightarrow> \<not> disconnected b' \<longrightarrow>
       errs = [] \<and> \<not> disconnected b \<and> (\<forall>s \<in> set ss. crd_attempted r b0 tr' s))) (w, tr)"
  using assms
proof (induction ss arbitrary: b errs w tr)
  case Nil
  then show ?case by (auto intro: wp_intros)
next
  case (Cons s ss)
  show ?case unfolding process_schemas.simps
  proof (rule wp_chain [OF referenceBoundSchema_ok [OF Cons.prems(1)]], goal_cases)
    case (1 a s1)
    then obtain e1 b1 w1 tr1 where 1: "a = (e1, b1)" "s1 = (w1, tr1)" "steps_ok r b0 b1 tr1"
      "set tr \<subseteq> set tr1" "disconnected b1 = disconnected b" by (auto split: prod.splits)
    let ?b2 = "snd (referencePermissionClaims b1 export)"
    have 2: "steps_ok r b0 ?b2 tr1" "fetched tr1 s"
      using 1 Cons.prems(2) same_object_trans [OF _ same_object_status(3)]
      by (auto simp: steps_ok_def fetched_def)
    show ?case unfolding 1(1,2) Let_def prod.sel
    proof (rule wp_chain [OF ensureCRDsFromBoundSchema_ok [OF 2]], goal_cases)
      case (1 c s3)
      then obtain e3 b3 w3 tr3 where 3: "c = (e3, b3)" "s3 = (w3, tr3)" "steps_ok r b0 b3 tr3" "set tr1 \<subseteq> set tr3"
        "bnd.unique_types b0 \<longrightarrow> e3 = None \<longrightarrow> \<not> disconnected b3 \<longrightarrow> \<not> disconnected ?b2 \<and> crd_attempted r b0 tr3 s"
        by (auto split: prod.splits)
      have "\<forall>s \<in> set ss. fetched tr3 s"
        using Cons.prems(2) \<open>set tr \<subseteq> set tr1\<close> 3(4) unfolding fetched_def by fastforce
      from Cons.IH [OF 3(3) this] show ?case unfolding 3(1,2) prod.sel
        by (rule wp_weaken) (use \<open>set tr \<subseteq> set tr1\<close> \<open>disconnected b1 = disconnected b\<close> 3(4,5)
            crd_attempted_mono in \<open>auto simp del: unique_binding\<close>)
    qed
  qed
qed

lemma getSchemasFromExport_ok:
  assumes "steps_ok r b0 b tr"
  shows "wp (getSchemasFromExport (traced r) refs) (\<lambda>res (w', tr'). steps_ok r b0 b tr' \<and> set tr \<subseteq> set tr' \<and>
    (\<forall>ss. res = Inr ss \<longrightarrow> list_all2 (\<lambda>ref s. EvGetBoundSchema (ResourceGroupName ref) (Inr s) \<in> set tr') refs ss)) (w, tr)"
  using assms
proof (induction refs arbitrary: w tr)
  case Nil
  then show ?case by (auto intro: wp_intros)
next
  case (Cons ref refs)
  have step: "steps_ok r b0 b (tr @ [EvGetBoundSchema n res])" for n res
    using Cons.prems by (simp add: steps_ok_def)
  show ?case unfolding getSchemasFromExport.simps binding_traced_simps
    by (intro wp_intros wp_weaken [OF Cons.IH [OF step]])
      (auto simp: step split: sum.splits elim: list_all2_mono)
qed

text \<open>The CRDs of all schemas of an export that the provider gave were attempted.\<close>

definition crds_attempted :: "'w reconciler \<Rightarrow> APIServiceBinding \<Rightarrow> event list \<Rightarrow> bool" where
  "crds_attempted r b tr \<longleftrightarrow>
     (\<exists>export ss. EvGetServiceExport (bi_Name b) (Inr export) \<in> set tr \<and>
        list_all2 (\<lambda>ref s. EvGetBoundSchema (ResourceGroupName ref) (Inr s) \<in> set tr)
          (exs_Resources (ex_Spec export)) ss \<and>
        (\<forall>s \<in> set ss. crd_attempted r b tr s))"

abbreviation bi_True :: "APIServiceBinding \<Rightarrow> string \<Rightarrow> bool" where
  "bi_True \<equiv> IsTrue APIServiceBinding_setter"

lemma marked_in_sync:
  assumes "bnd.unique_types b"
  shows "bi_True (MarkTrue APIServiceBinding_setter now
      (MarkTrue APIServiceBinding_setter now b APIServiceBindingConditionConnected)
      APIServiceBindingConditionSchemaInSync) APIServiceBindingConditionConnected"
    and "bi_True (MarkTrue APIServiceBinding_setter now
      (MarkTrue APIServiceBinding_setter now b APIServiceBindingConditionConnected)
      APIServiceBindingConditionSchemaInSync) APIServiceBindingConditionSchemaInSync"
proof -
  have "bnd.unique_types (MarkTrue APIServiceBinding_setter now b APIServiceBindingConditionConnected)"
    using assms by (rule bnd.unique_Mark)
  note other = bnd.Get_MarkTrue_other [OF this] and true = bnd.IsTrue_MarkTrue [OF this]
  show "bi_True (MarkTrue APIServiceBinding_setter now
      (MarkTrue APIServiceBinding_setter now b APIServiceBindingConditionConnected)
      APIServiceBindingConditionSchemaInSync) APIServiceBindingConditionSchemaInSync"
    by (rule true)
  show "bi_True (MarkTrue APIServiceBinding_setter now
      (MarkTrue APIServiceBinding_setter now b APIServiceBindingConditionConnected)
      APIServiceBindingConditionSchemaInSync) APIServiceBindingConditionConnected"
    using bnd.IsTrue_MarkTrue [OF assms] unfolding IsTrue_def
    by (subst other) (simp_all add: APIServiceBindingConditionConnected_def APIServiceBindingConditionSchemaInSync_def)
qed

lemma steps_ok_ops:
  "steps_ok r b0 b tr \<Longrightarrow> same_object b b' \<Longrightarrow> steps_ok r b0 b' tr"
  "steps_ok r b0 b tr \<Longrightarrow> bnd.unique_types b0 \<Longrightarrow> disconnected (mark_disconnected now b reason m)"
  "steps_ok r b0 b tr \<Longrightarrow> bnd.unique_types b0 \<Longrightarrow> bnd.unique_types b"
  unfolding steps_ok_def using same_object_trans disconnected_mark by (auto simp: same_object_def simp del: unique_binding)

lemma in_sync_same [simp]:
  "same_object b (MarkTrue APIServiceBinding_setter now
     (MarkTrue APIServiceBinding_setter now b APIServiceBindingConditionConnected)
     APIServiceBindingConditionSchemaInSync)"
  by (rule same_object_trans [OF same_object_ops(2) same_object_ops(2)])

text \<open>What a binding that is not marked as disconnected stands for after the steps.\<close>

definition bound_outcome :: "'w reconciler \<Rightarrow> APIServiceBinding \<Rightarrow> err \<Rightarrow> APIServiceBinding \<Rightarrow> event list \<Rightarrow> bool" where
  "bound_outcome r b0 e b tr \<longleftrightarrow> (bnd.unique_types b0 \<longrightarrow> e = None \<longrightarrow> \<not> disconnected b \<longrightarrow> crds_attempted r b0 tr \<and>
     bi_True b APIServiceBindingConditionConnected \<and> bi_True b APIServiceBindingConditionSchemaInSync)"

lemma ensureCRDs_ok:
  assumes "steps_ok r b0 b tr"
  shows "wp (ensureCRDs (traced r) now b) (\<lambda>(e, b') (w', tr'). steps_ok r b0 b' tr' \<and> bound_outcome r b0 e b' tr') (w, tr)"
  unfolding ensureCRDs_def binding_traced_simps bound_outcome_def
proof (intro wp_bind wp_logged wp_sum, goal_cases)
  case (1 a w' e)
  have "steps_ok r b0 b (tr @ [EvGetServiceExport (bi_Name b) a])" using assms by (simp add: steps_ok_def)
  then show ?case by (auto intro!: wp_intros intro: steps_ok_ops simp del: unique_binding)
next
  case (2 a w' export)
  let ?tr = "tr @ [EvGetServiceExport (bi_Name b) a]"
  have ok: "steps_ok r b0 b ?tr" and name: "bi_Name b = bi_Name b0"
    using assms by (simp_all add: steps_ok_def same_object_def)
  show ?case
  proof (rule wp_weaken [OF getSchemasFromExport_ok [OF ok]], goal_cases)
    case (1 res s1)
    then obtain w1 tr1 where 1: "s1 = (w1, tr1)" "steps_ok r b0 b tr1" "set ?tr \<subseteq> set tr1"
      "\<And>ss. res = Inr ss \<Longrightarrow> list_all2 (\<lambda>ref s. EvGetBoundSchema (ResourceGroupName ref) (Inr s) \<in> set tr1)
         (exs_Resources (ex_Spec export)) ss"
      by (auto split: prod.splits)
    show ?case unfolding 1(1)
    proof (intro wp_sum wp_return, goal_cases)
      case (2 ss)
      have "\<forall>s \<in> set ss. fetched tr1 s"
        using 1(4) [OF 2] unfolding fetched_def by (metis in_set_conv_nth list_all2_conv_all_nth)
      from process_schemas_ok [OF 1(2) this] show ?case
      proof (rule wp_chain, clarify, intro wp_return, goal_cases)
        case (1 errs b' w2 tr2)
        have "crds_attempted r b0 tr2" if "\<forall>s \<in> set ss. crd_attempted r b0 tr2 s"
          unfolding crds_attempted_def
        proof (intro exI [of _ export] exI [of _ ss] conjI)
          show "list_all2 (\<lambda>ref s. EvGetBoundSchema (ResourceGroupName ref) (Inr s) \<in> set tr2)
              (exs_Resources (ex_Spec export)) ss"
            by (rule list_all2_mono [OF \<open>res = Inr ss \<Longrightarrow> _\<close> [OF 2]]) (use \<open>set tr1 \<subseteq> set tr2\<close> in auto)
        qed (use that \<open>set ?tr \<subseteq> set tr1\<close> \<open>set tr1 \<subseteq> set tr2\<close> \<open>a = Inr export\<close> name in auto)
        moreover have "bnd.unique_types b'" if "bnd.unique_types b0"
          using steps_ok_ops(3) [OF \<open>steps_ok r b0 b' tr2\<close> that] .
        ultimately show ?case using \<open>steps_ok r b0 b' tr2\<close> \<open>bnd.unique_types b0 \<longrightarrow> errs = [] \<longrightarrow> _\<close> marked_in_sync
          by (auto intro: steps_ok_ops(1) simp del: unique_binding)
      qed
    qed (use 1 in \<open>auto intro: steps_ok_ops simp del: unique_binding\<close>)
  qed
qed

lemma ensureValidServiceExport_ok:
  assumes "reconcileServiceBinding r b"
  shows "wp (ensureValidServiceExport (traced r) now b) (\<lambda>(e, b') (w', tr'). steps_ok r b b' tr') (w, [])"
  using assms unfolding ensureValidServiceExport_def binding_traced_simps
  by (intro wp_intros) (auto simp: steps_ok_def split: sum.splits)

lemma ensurePrettyName_ok:
  assumes "steps_ok r b0 b tr"
  shows "wp (ensurePrettyName (traced r) b) (\<lambda>(e, b') (w', tr'). steps_ok r b0 b' tr' \<and> set tr \<subseteq> set tr' \<and>
    bis_Conditions (bi_Status b') = bis_Conditions (bi_Status b)) (w, tr)"
proof -
  have "steps_ok r b0 b (tr @ [EvOther])" using assms by (simp add: steps_ok_def)
  then show ?thesis unfolding ensurePrettyName_def binding_traced_simps
    by (intro wp_intros) (auto intro: steps_ok_ops simp: set_pretty_name_def same_object_def split: sum.splits)
qed

lemma condition_tests_status:
  assumes "bis_Conditions (bi_Status b') = bis_Conditions (bi_Status b)"
  shows "Get APIServiceBinding_setter b' t = Get APIServiceBinding_setter b t"
  using assms by (simp add: Get_def APIServiceBinding_setter_def)

lemma crds_attempted_mono:
  assumes "crds_attempted r b tr" and "set tr \<subseteq> set us"
  shows "crds_attempted r b us"
proof -
  obtain export ss where "EvGetServiceExport (bi_Name b) (Inr export) \<in> set tr"
    and *: "list_all2 (\<lambda>ref s. EvGetBoundSchema (ResourceGroupName ref) (Inr s) \<in> set tr) (exs_Resources (ex_Spec export)) ss"
    and "\<forall>s \<in> set ss. crd_attempted r b tr s"
    using assms(1) by (auto simp: crds_attempted_def)
  moreover have "list_all2 (\<lambda>ref s. EvGetBoundSchema (ResourceGroupName ref) (Inr s) \<in> set us) (exs_Resources (ex_Spec export)) ss"
    by (rule list_all2_mono [OF *]) (use assms(2) in auto)
  ultimately show ?thesis using assms(2) crd_attempted_mono unfolding crds_attempted_def by blast
qed

lemma bound_outcome_summary:
  assumes "bound_outcome r b0 e b tr" and "set tr \<subseteq> set us" and "steps_ok r b0 b' us"
    and "bis_Conditions (bi_Status b') = bis_Conditions (bi_Status b)" and "e' = None \<Longrightarrow> e = None"
  shows "bound_outcome r b0 e' (SetSummary APIServiceBinding_setter now b' []) us"
proof -
  have "Get APIServiceBinding_setter (SetSummary APIServiceBinding_setter now b' []) t = Get APIServiceBinding_setter b t"
    if "bnd.unique_types b0" "t \<noteq> ReadyCondition" for t
    using bnd.Get_SetSummary_other [OF steps_ok_ops(3) [OF assms(3) that(1)] that(2)]
      condition_tests_status [OF assms(4)] by simp
  moreover have "APIServiceBindingConditionConnected \<noteq> ReadyCondition" "APIServiceBindingConditionSchemaInSync \<noteq> ReadyCondition"
    by (simp_all add: APIServiceBindingConditionConnected_def APIServiceBindingConditionSchemaInSync_def ReadyCondition_def)
  ultimately show ?thesis
    using assms(1,5) crds_attempted_mono [OF _ assms(2)]
    by (simp add: bound_outcome_def IsFalse_def IsTrue_def del: unique_binding) blast
qed

lemma reconcile_own:
  "reconcileServiceBinding r b \<Longrightarrow> reconcile r now b = do {
      r1 \<leftarrow> ensureValidServiceExport r now b;
      r2 \<leftarrow> ensureCRDs r now (snd r1);
      r3 \<leftarrow> ensurePrettyName r (snd r2);
      State_Monad.return (NewAggregate (errs_append (errs_append (errs_append [] (fst r1)) (fst r2)) (fst r3)),
         SetSummary APIServiceBinding_setter now (snd r3) []) }"
  by (simp add: reconcile_def)

lemma reconcile_ok:
  assumes "reconcileServiceBinding r b"
  shows "wp (reconcile (traced r) now b) (\<lambda>(e, b') (w', tr'). steps_ok r b b' tr' \<and> bound_outcome r b e b' tr') (w, [])"
proof (subst reconcile_own, simp add: assms, rule wp_chain [OF ensureValidServiceExport_ok [OF assms]], goal_cases)
  case (1 r1 s1)
  then obtain e1 b1 w1 tr1 where 1: "r1 = (e1, b1)" "s1 = (w1, tr1)" "steps_ok r b b1 tr1"
    by (auto split: prod.splits)
  show ?case unfolding 1(1,2) prod.sel
  proof (rule wp_chain [OF ensureCRDs_ok [OF 1(3)]], goal_cases)
    case (1 r2 s2)
    then obtain e2 b2 w2 tr2 where 2: "r2 = (e2, b2)" "s2 = (w2, tr2)" "steps_ok r b b2 tr2" "bound_outcome r b e2 b2 tr2"
      by (auto split: prod.splits)
    show ?case unfolding 2(1,2) prod.sel
      by (rule wp_chain [OF ensurePrettyName_ok [OF 2(3)]])
        (auto intro!: wp_return bound_outcome_summary [OF 2(4)] intro: steps_ok_ops(1))
  qed
qed

section \<open>Properties\<close>

text \<open>
  C9. A reconciliation of a binding, whatever clients and caches answer, leaves bindings of other
  providers alone, changes nothing but the status of its own, and touches CRDs only as the policy
  allows: it creates a CRD only when none of that name exists, and never updates a CRD that the
  binding does not own.
\<close>

theorem binding_reconcile_policy:
  assumes "run_state (reconcile (traced r) now b) (w, []) = ((e, b'), (w', tr))"
  shows "guarded (policy r b) [] tr \<and> bi_Meta b' = bi_Meta b \<and>
    bi_KubeconfigSecretRef b' = bi_KubeconfigSecretRef b \<and>
    (\<not> reconcileServiceBinding r b \<longrightarrow> tr = [] \<and> b' = b)"
proof (cases "reconcileServiceBinding r b")
  case True
  from wpD [OF reconcile_ok [OF True] assms] True show ?thesis by (simp add: steps_ok_def same_object_def)
next
  case False
  then show ?thesis using assms by (simp add: reconcile_def)
qed

text \<open>
  What is written for a schema, field by field: a CRD with the schema's group, names, scope, versions and
  conversion. \<open>decoded\<close> is what the decoders make of a raw schema.
\<close>

definition decoded :: "'w reconciler \<Rightarrow> string option \<Rightarrow> json option option" where
  "decoded r raw =
     (if raw = None \<or> raw = Some '''' then None
      else case (decodeValidation r (the raw), decodeSchema r (the raw)) of
             (Inr (Some v), _) \<Rightarrow> Some (Some v)
           | (_, Inr s) \<Rightarrow> Some (Some s)
           | _ \<Rightarrow> None)"

definition version_for :: "'w reconciler \<Rightarrow> APIResourceVersion \<Rightarrow> CustomResourceDefinitionVersion \<Rightarrow> bool" where
  "version_for r v c \<longleftrightarrow> cdv_Name c = arv_Name v \<and> cdv_Served c = arv_Served v \<and> cdv_Storage c = arv_Storage v \<and>
     cdv_Deprecated c = arv_Deprecated v \<and> cdv_DeprecationWarning c = arv_DeprecationWarning v \<and>
     cdv_Schema c = decoded r (arv_Schema v) \<and> cdv_Subresources c = Some (arv_Subresources v) \<and>
     cdv_AdditionalPrinterColumns c = arv_AdditionalPrinterColumns v"

definition conversion_for :: "CustomResourceConversion \<Rightarrow> CRDConversion \<Rightarrow> bool" where
  "conversion_for v c \<longleftrightarrow> kcc_Strategy c = crc_Strategy v \<and>
     (if crc_Strategy v = ''Webhook''
      then rel_option (\<lambda>wv wc. kwh_ConversionReviewVersions wc = whc_ConversionReviewVersions wv \<and>
             rel_option (\<lambda>x y. kwc_URL y = wcc_URL x \<and> kwc_CABundle y = wcc_CABundle x)
               (whc_ClientConfig wv) (kwh_ClientConfig wc))
           (crc_Webhook v) (kcc_Webhook c)
      else kcc_Webhook c = None)"

definition crd_for :: "'w reconciler \<Rightarrow> BoundSchema \<Rightarrow> CustomResourceDefinition \<Rightarrow> bool" where
  "crd_for r s crd \<longleftrightarrow> crd_Group crd = bss_Group (bs_Spec s) \<and> crd_Names crd = bss_Names (bs_Spec s) \<and>
     crd_Scope crd = bss_Scope (bs_Spec s) \<and> list_all2 (version_for r) (bss_Versions (bs_Spec s)) (crd_Versions crd) \<and>
     rel_option conversion_for (bss_Conversion (bs_Spec s)) (crd_Conversion crd)"

definition crd_name_of :: "BoundSchema \<Rightarrow> string" where
  "crd_name_of s = crn_Plural (bss_Names (bs_Spec s)) @ ''.'' @ bss_Group (bs_Spec s)"

text \<open>
  The CRD of a schema was stored: created with the binding as its controller, or updated with the
  metadata of the CRD that was found under its name and that the binding owns.
\<close>

definition crd_stored :: "'w reconciler \<Rightarrow> APIServiceBinding \<Rightarrow> event list \<Rightarrow> BoundSchema \<Rightarrow> bool" where
  "crd_stored r b tr s \<longleftrightarrow> (\<exists>crd x. crd_for r s crd \<and>
     (EvCreateCRD crd (Inr x) \<in> set tr \<and> om_Name (crd_Meta crd) = crd_name_of s \<and>
      om_OwnerReferences (crd_Meta crd) = [\<lparr>or_APIVersion = ''kube-bind.io/v1alpha2'', or_Kind = ''APIServiceBinding'',
        or_Name = om_Name (bi_Meta b), or_UID = om_UID (bi_Meta b), or_Controller = Some True, or_BlockOwnerDeletion = None\<rparr>] \<or>
      EvUpdateCRD crd (Inr x) \<in> set tr \<and>
      (\<exists>existing. EvGetCRD (crd_name_of s) (Inr existing) \<in> set tr \<and> crd_Meta crd = crd_Meta existing \<and>
         (\<exists>ref \<in> set (om_OwnerReferences (crd_Meta existing)).
            or_Kind ref = ''APIServiceBinding'' \<and> or_Name ref = om_Name (bi_Meta b)))))"

text \<open>All schemas of the export, one for each of its resources, have their CRDs stored.\<close>

definition crds_stored :: "'w reconciler \<Rightarrow> APIServiceBinding \<Rightarrow> event list \<Rightarrow> bool" where
  "crds_stored r b tr \<longleftrightarrow>
     (\<exists>export ss. EvGetServiceExport (om_Name (bi_Meta b)) (Inr export) \<in> set tr \<and>
        list_all2 (\<lambda>ref s. EvGetBoundSchema (ResourceGroupName ref) (Inr s) \<in> set tr)
          (exs_Resources (ex_Spec export)) ss \<and>
        (\<forall>s \<in> set ss. crd_stored r b tr s))"

text \<open>An update of a CRD failed with an error that the code drops: any but that of an invalid object.\<close>

definition update_lost :: "event list \<Rightarrow> bool" where
  "update_lost tr \<longleftrightarrow> list_ex (\<lambda>ev. case ev of EvUpdateCRD _ (Inl e) \<Rightarrow> \<not> IsInvalid e | _ \<Rightarrow> False) tr"

lemma version_for_back: "version_for r v (convert_version_back (decodeValidation r) (decodeSchema r) v)"
  by (cases "arv_Schema v")
    (auto simp: version_for_def convert_version_back_def decode_schema_def decoded_def split: sum.splits option.splits)

lemma conversion_for_back: "conversion_for v (convert_conversion_back v)"
  by (simp add: conversion_for_def convert_conversion_back_def option.rel_map option.rel_refl)

lemma wanted_crd_for: "crd_for r s ((wanted_crd r b s)\<lparr>crd_Meta := m\<rparr>)" "crd_for r s (wanted_crd r b s)"
proof -
  show 1: "crd_for r s ((wanted_crd r b s)\<lparr>crd_Meta := m\<rparr>)" for m
    by (simp add: crd_for_def wanted_crd_def BoundSchemaToCRD_def Let_def list.rel_map list_all2_refl version_for_back
        option.rel_map option.rel_refl conversion_for_back)
  show "crd_for r s (wanted_crd r b s)" using 1 [of "crd_Meta (wanted_crd r b s)"] by simp
qed

lemma wanted_crd_meta:
  "om_Name (crd_Meta (wanted_crd r b s)) = crd_name_of s"
  "om_OwnerReferences (crd_Meta (wanted_crd r b s)) = [\<lparr>or_APIVersion = ''kube-bind.io/v1alpha2'', or_Kind = ''APIServiceBinding'',
     or_Name = om_Name (bi_Meta b), or_UID = om_UID (bi_Meta b), or_Controller = Some True, or_BlockOwnerDeletion = None\<rparr>]"
  by (simp_all add: wanted_crd_def BoundSchemaToCRD_def crd_name_of_def binding_reference_def
      SchemeGroupVersion_def GroupName_def GroupVersion_def zero_ObjectMeta_def Let_def)

lemma attempted_stored:
  assumes "crd_attempted r b tr s" and "guarded (policy r b) [] tr" and "\<not> update_lost tr"
  shows "crd_stored r b tr s"
proof -
  from assms(1) consider (create) x where "EvCreateCRD (wanted_crd r b s) (Inr x) \<in> set tr"
    | (update) m x where "EvUpdateCRD ((wanted_crd r b s)\<lparr>crd_Meta := m\<rparr>) (Inr x) \<in> set tr"
    | (lost) m e where "EvUpdateCRD ((wanted_crd r b s)\<lparr>crd_Meta := m\<rparr>) (Inl e) \<in> set tr" "\<not> IsInvalid e"
    unfolding crd_attempted_def by blast
  then show ?thesis
  proof cases
    case create
    then show ?thesis unfolding crd_stored_def using wanted_crd_for(2) [of r s b] wanted_crd_meta [of r b s] by blast
  next
    case (update m x)
    let ?crd = "(wanted_crd r b s)\<lparr>crd_Meta := m\<rparr>"
    obtain pre post where tr: "tr = pre @ EvUpdateCRD ?crd (Inr x) # post" using update by (meson split_list)
    then have "policy r b pre (EvUpdateCRD ?crd (Inr x))" using assms(2) unfolding guarded_iff by blast
    then obtain s' existing where p: "?crd = (wanted_crd r b s')\<lparr>crd_Meta := crd_Meta existing\<rparr>"
      "EvGetCRD (om_Name (crd_Meta (wanted_crd r b s'))) (Inr existing) \<in> set pre" "owned_crd b existing" by auto
    have "crd_Group ?crd = bss_Group (bs_Spec s')" "crd_Names ?crd = bss_Names (bs_Spec s')"
      using wanted_crd_for(1) [of r s' "crd_Meta existing" b] unfolding p(1) crd_for_def by simp_all
    moreover have "crd_Group ?crd = bss_Group (bs_Spec s)" "crd_Names ?crd = bss_Names (bs_Spec s)"
      using wanted_crd_for(1) [of r s m b] unfolding crd_for_def by simp_all
    ultimately have "crd_name_of s' = crd_name_of s" by (simp add: crd_name_of_def)
    moreover have "m = crd_Meta existing" using arg_cong [OF p(1), of crd_Meta] by simp
    moreover have "\<exists>ref \<in> set (om_OwnerReferences (crd_Meta existing)). or_Kind ref = ''APIServiceBinding'' \<and> or_Name ref = om_Name (bi_Meta b)"
      using p(3) by (auto simp: owned_crd_def IsOwnedByBinding_def list_ex_iff)
    moreover have "EvGetCRD (crd_name_of s) (Inr existing) \<in> set tr"
      using p(2) calculation(1) tr unfolding wanted_crd_meta by simp
    moreover have "crd_for r s ?crd" "crd_Meta ?crd = m" by (simp_all add: wanted_crd_for(1))
    ultimately show ?thesis unfolding crd_stored_def using update by metis
  next
    case lost
    then show ?thesis using assms(3) by (auto simp: update_lost_def list_ex_iff)
  qed
qed


text \<open>The same without the trace, for the committer's precondition.\<close>

lemma process_schemas_same: "wp (process_schemas r now export ss b errs) (\<lambda>(_, b') _. same_object b b') w"
proof (induction ss arbitrary: b errs w)
  case (Cons s ss)
  have 1: "wp (referenceBoundSchema r b n) (\<lambda>(_, b') _. same_object b b') w" for n w
    unfolding referenceBoundSchema_def by (intro wp_bind wp_any wp_return) (auto split: sum.splits option.splits)
  have 3: "wp (ensureCRDsFromBoundSchema r now b s) (\<lambda>(_, b') _. same_object b b') w" for b w
    unfolding ensureCRDsFromBoundSchema_def by (intro wp_intros wp_any) (auto intro!: wp_intros wp_any split: sum.splits)
  show ?case unfolding process_schemas.simps Let_def
    by (rule wp_chain [OF 1], rule wp_chain [OF 3], rule wp_weaken [OF Cons.IH])
      (auto intro: same_object_trans [OF same_object_trans [OF same_object_trans [OF _ same_object_status(3)]]])
qed (auto intro: wp_intros)

lemma reconcile_same: "wp (reconcile r now b) (\<lambda>(_, b') _. same_object b b') w"
proof -
  have 1: "wp (ensureValidServiceExport r now b) (\<lambda>(_, b') _. same_object b b') w" for w
    unfolding ensureValidServiceExport_def
    by (rule wp_call, rule wp_sum, rule wp_if, (auto intro!: wp_return)[1], rule wp_call)
      (auto intro!: wp_return split: sum.splits)
  have 2: "wp (ensureCRDs r now b) (\<lambda>(_, b') _. same_object b b') w" for b w
    unfolding ensureCRDs_def
    by (rule wp_call, rule wp_sum, (auto intro!: wp_return)[1], rule wp_call, rule wp_sum, (auto intro!: wp_return)[1],
        rule wp_chain [OF process_schemas_same])
      (auto intro!: wp_return intro: same_object_trans)
  have 3: "wp (ensurePrettyName r b) (\<lambda>(_, b') _. same_object b b') w" for b w
    unfolding ensurePrettyName_def by (intro wp_bind wp_any wp_return) (auto split: sum.splits)
  show ?thesis unfolding reconcile_def
    by (intro wp_if wp_chain [OF 1] wp_chain [OF 2] wp_chain [OF 3] wp_return)
      (auto intro: same_object_trans [OF same_object_trans [OF same_object_trans [OF _ _] _]])
qed

text \<open>
  Processing a key never runs into the committer's panic about a simultaneous change of spec and
  status: the reconciler changes the status only, and semantic equality is reflexive.
\<close>

lemma binding_process_returns:
  assumes "\<And>m. cm_metaEqual (c_committer c) m m" and "\<And>s. cm_specEqual (c_committer c) s s"
  shows "fst (run_state (process c now key) w) \<noteq> Panics"
proof -
  have commit: "wp (commit (c_committer c) (resource_of b) (resource_of b')) (\<lambda>k _. k \<noteq> Panics) w"
    if "same_object b b'" for b b' w
    by (rule commit_one_part) (use that assms in \<open>simp add: resource_of_def same_object_def\<close>)
  have "wp (process c now key) (\<lambda>res _. res \<noteq> Panics) w"
    unfolding process_def
    by (rule wp_sum, (auto intro!: wp_return)[1], rule wp_prod, rule wp_call, rule wp_sum, (auto intro!: wp_return)[1],
        rule wp_chain [OF reconcile_same], rule wp_chain [OF commit])
      (auto intro!: wp_return split: outcome.splits)
  then show ?thesis by (simp add: wp_def split: prod.splits)
qed

section \<open>A concrete binding\<close>

definition example_schema :: BoundSchema where
  "example_schema = \<lparr>bs_Kind = ''BoundSchema'', bs_Meta = zero_ObjectMeta\<lparr>om_Name := ''foos.g''\<rparr>,
     bs_Spec = \<lparr>bss_InformerScope = NamespacedScope, bss_Group = ''g'', bss_Names = zero_Names\<lparr>crn_Plural := ''foos''\<rparr>,
       bss_Scope = RS_NamespaceScoped, bss_Versions = [], bss_Conversion = None\<rparr>,
     bs_AcceptedNames = zero_Names, bs_StoredVersions = [], bs_Conditions = [], bs_Instantiations = 0\<rparr>"

definition example_export :: APIServiceExport where
  "example_export = \<lparr>ex_Kind = ''APIServiceExport'', ex_Meta = zero_ObjectMeta\<lparr>om_Name := ''b''\<rparr>,
     ex_Spec = \<lparr>exs_Resources = [\<lparr>rr_GroupResource = \<lparr>gr_Group = ''g'', gr_Resource = ''foos''\<rparr>, rr_Versions = []\<rparr>],
       exs_PermissionClaims = [], exs_InformerScope = NamespacedScope, exs_ClusterScopedIsolation = IsolationPrefixed\<rparr>,
     ex_Conditions = []\<rparr>"

text \<open>A provider with that export; the lookup and the update of CRDs are parameters.\<close>

definition example_reconciler :: "go_error + CustomResourceDefinition \<Rightarrow> err \<Rightarrow> unit reconciler" where
  "example_reconciler crd uerr = \<lparr>
     consumerSecretRefKey = ''n/s'', providerNamespace = ''pns'',
     reconcileServiceBinding = (\<lambda>b. csk_Namespace (bi_KubeconfigSecretRef b) = ''n''),
     getServiceExport = (\<lambda>n. State_Monad.return (Inr example_export)),
     getServiceExportRequest = (\<lambda>n. State_Monad.return (Inl (StatusError ReasonNotFound n))),
     getServiceBinding = (\<lambda>n. State_Monad.return (Inl (StatusError ReasonNotFound n))),
     getClusterBinding = State_Monad.return (Inl (StatusError ReasonNotFound ''cluster'')),
     getBoundSchema = (\<lambda>n. State_Monad.return (Inr example_schema)),
     updateServiceExportStatus = (\<lambda>x. State_Monad.return (Inr x)),
     getCRD = (\<lambda>n. State_Monad.return crd),
     updateCRD = (\<lambda>x. State_Monad.return (case uerr of None \<Rightarrow> Inr x | Some e \<Rightarrow> Inl e)),
     createCRD = (\<lambda>x. State_Monad.return (Inr x)),
     decodeValidation = (\<lambda>_. Inr None), decodeSchema = (\<lambda>_. Inr JNull), sprintf_verbs = (\<lambda>f _. f)\<rparr>"

lemmas example_defs = example_reconciler_def example_schema_def example_export_def example_binding_def
  zero_ObjectMeta_def

definition example_run :: "go_error + CustomResourceDefinition \<Rightarrow> err \<Rightarrow> (err \<times> APIServiceBinding) \<times> (unit \<times> event list)" where
  "example_run crd uerr = run_state (reconcile (traced (example_reconciler crd uerr)) 7 (example_binding [])) ((), [])"

definition example_missing :: "go_error + CustomResourceDefinition" where
  "example_missing = Inl (StatusError ReasonNotFound '''')"

definition creates_crd :: "event list \<Rightarrow> bool" where
  "creates_crd tr = list_ex (\<lambda>ev. case ev of EvCreateCRD _ (Inr _) \<Rightarrow> True | _ \<Rightarrow> False) tr"

theorem binding_reconcile_policy_witness:
  "guarded (policy (example_reconciler example_missing None) (example_binding [])) [] (snd (snd (example_run example_missing None))) \<and>
   creates_crd (snd (snd (example_run example_missing None)))"
proof
  show "guarded (policy (example_reconciler example_missing None) (example_binding [])) [] (snd (snd (example_run example_missing None)))"
    using binding_reconcile_policy [of "example_reconciler example_missing None" 7 "example_binding []" "()"]
    unfolding example_run_def by (metis prod.collapse)
  show "creates_crd (snd (snd (example_run example_missing None)))" by code_simp
qed


definition example_controller :: "(unit, ObjectMeta, string) controller" where
  "example_controller = \<lparr>c_keys = example_keys,
     c_queue = \<lparr>q_Add = (\<lambda>_. State_Monad.return ()), q_AddAfter = (\<lambda>_ _. State_Monad.return ())\<rparr>,
     c_serviceBinding_Get = (\<lambda>_. State_Monad.return (Inr (example_binding []))),
     c_serviceBinding_BySecret = (\<lambda>_. State_Monad.return (Inr [])),
     c_serviceExport_ByCRD = (\<lambda>_. State_Monad.return (Inr [])),
     c_reconciler = example_reconciler example_missing None,
     c_committer = \<lparr>cm_metaEqual = (\<lambda>x y. x = y), cm_specEqual = (\<lambda>x y. x = y), cm_statusEqual = (\<lambda>x y. x = y),
       cm_zeroSpec = bi_KubeconfigSecretRef (example_binding []), cm_zeroStatus = bi_Status (example_binding []),
       cm_focusType = '''', cm_marshal = (\<lambda>_. Inr ''''), cm_createMergePatch = (\<lambda>_ _. Inr ''''),
       cm_patch = (\<lambda>_ _ _ _. State_Monad.return None)\<rparr>\<rparr>"

section \<open>Deviations\<close>

text \<open>
  An update of a CRD that fails, for instance with a conflict, is not reported: the reconciliation
  returns no error and the binding is marked as in sync.
\<close>

definition example_owned :: "go_error + CustomResourceDefinition" where
  "example_owned = Inr (wanted_crd (example_reconciler example_missing None) (example_binding []) example_schema)"

lemma update_error_swallowed:
  "let run = example_run example_owned (Some (StatusError (ReasonOther ''Conflict'') ''''))
   in fst (fst run) = None \<and> bi_True (snd (fst run)) APIServiceBindingConditionSchemaInSync"
  by code_simp

text \<open>
  The terminal message of a failed request is used as a format string, so the binding reports the
  superfluous argument.
\<close>

lemma terminal_message_extra:
  assumes "CHR ''%'' \<notin> set (ert_TerminalMessage (er_Status request))"
    and "fst (run_state (getServiceExport r (bi_Name b)) w) = Inl e" and "IsNotFound e"
    and "\<And>w. fst (run_state (getServiceExportRequest r (bi_Name b)) w) = Inr request"
    and "ert_Phase (er_Status request) = PhaseFailed"
    and "distinct (map cond_Type (bis_Conditions (bi_Status b)))"
  shows "GetMessage APIServiceBinding_setter (snd (fst (run_state (ensureValidServiceExport r now b) w)))
    APIServiceBindingConditionConnected =
    ert_TerminalMessage (er_Status request) @ ''%!(EXTRA string='' @ bi_Name b @ '')''"
proof -
  obtain w1 w2 where "run_state (getServiceExport r (bi_Name b)) w = (Inl e, w1)"
    "run_state (getServiceExportRequest r (bi_Name b)) w1 = (Inr request, w2)"
    using assms(2,4) by (metis prod.collapse)
  then show ?thesis using assms(1,3,5,6)
    by (simp add: ensureValidServiceExport_def mark_disconnected_def Sprintf1_def bnd.GetMessage_MarkFalse)
qed

text \<open>
  A schema that is deleted between the two lookups is referenced with the group and name of the
  object that the client hands out beside the error.
\<close>

lemma deleted_schema_referenced:
  assumes "fst (run_state (getBoundSchema r n) w) = Inl (e, Some s)" and "IsNotFound e"
  shows "fst (run_state (referenceBoundSchema r b n) w) = (None, add_reference (schema_reference s) b)"
  using assms by (auto simp: referenceBoundSchema_def split: prod.splits)

end
