(* ===== verification/Claimed_Resources.thy ===== *)
theory Claimed_Resources
  imports Kube_Client
begin

text \<open>
  The controller that synchronizes the objects of permission claims between a consumer and a
  provider cluster (\<open>cluster/claimedresources\<close>), and the test whether an object is claimed
  (\<open>pkg/resources\<close>). Each object has an owner, the side whose copy counts; it is read off a label.
  The interpretation of label selectors belongs to apimachinery and is a parameter.
\<close>

section \<open>Claimed objects\<close>

type_synonym labels = "(string, string) fmap"
type_synonym as_selector = "LabelSelector \<Rightarrow> go_error + (labels \<Rightarrow> bool)"

fun named_match :: "NamedResource list \<Rightarrow> unstructured \<Rightarrow> bool" where
  "named_match [] obj = False"
| "named_match (nr # nrs) obj =
     (if nr_Namespace nr \<noteq> '''' \<and> nr_Namespace nr \<noteq> u_Namespace obj then named_match nrs obj
      else if nr_Name nr = u_Name obj then True
      else named_match nrs obj)"

definition IsClaimed :: "as_selector \<Rightarrow> Selector \<Rightarrow> unstructured option \<Rightarrow> bool" where
  "IsClaimed asSelector selector obj =
     (case obj of
        None \<Rightarrow> False
      | Some o' \<Rightarrow>
          (if sel_LabelSelector selector = None \<and> sel_NamedResources selector = [] then True
           else
             (case (case sel_LabelSelector selector of
                      None \<Rightarrow> Inr True
                    | Some ls \<Rightarrow>
                        (case asSelector ls of
                           Inl e \<Rightarrow> Inl e
                         | Inr matches \<Rightarrow> Inr (matches (om_Labels (u_Meta o'))))) of
                Inl _ \<Rightarrow> False
              | Inr labelSelectorMatches \<Rightarrow>
                  (let namedResourceMatches =
                         (if sel_NamedResources selector \<noteq> [] then named_match (sel_NamedResources selector) o' else True)
                   in labelSelectorMatches \<and> namedResourceMatches))))"

section \<open>Owners\<close>

definition owner_label :: "unstructured \<Rightarrow> string" where
  "owner_label obj = (case fmlookup (om_Labels (u_Meta obj)) ObjectOwnerLabel of None \<Rightarrow> '''' | Some l \<Rightarrow> l)"

definition label_owner :: "string \<Rightarrow> Owner option" where
  "label_owner l = (if l = Owner_String OwnerProvider then Some OwnerProvider
     else if l = Owner_String OwnerConsumer then Some OwnerConsumer else None)"

definition determineOwner :: "unstructured option \<Rightarrow> unstructured option \<Rightarrow> go_error + Owner" where
  "determineOwner providerObj consumerObj =
     (let from_consumer =
            (case consumerObj of
               None \<Rightarrow> Inl (Errorf ''unable to determine owner'' None)
             | Some c \<Rightarrow>
                 (case label_owner (owner_label c) of
                    Some ow \<Rightarrow> Inr ow
                  | None \<Rightarrow>
                      (if owner_label c = '''' \<and> providerObj = None then Inr OwnerConsumer
                       else Inl (Errorf ''unable to determine owner'' None))))
      in case providerObj of
           None \<Rightarrow> from_consumer
         | Some p \<Rightarrow>
             (case label_owner (owner_label p) of
                Some ow \<Rightarrow> Inr ow
              | None \<Rightarrow>
                  (if owner_label p = '''' \<and> consumerObj = None then Inr OwnerProvider else from_consumer)))"

definition set_labels :: "labels \<Rightarrow> unstructured \<Rightarrow> unstructured" where
  "set_labels ls obj = obj\<lparr>u_Meta := (u_Meta obj)\<lparr>om_Labels := ls\<rparr>\<rparr>"

definition makeConsumerOwner :: "unstructured \<Rightarrow> unstructured" where
  "makeConsumerOwner obj =
     set_labels (fmupd ObjectOwnerLabel (Owner_String OwnerConsumer) (om_Labels (u_Meta obj))) obj"

definition makeProviderOwner :: "unstructured \<Rightarrow> unstructured" where
  "makeProviderOwner obj =
     set_labels (fmupd ObjectOwnerLabel (Owner_String OwnerProvider) (om_Labels (u_Meta obj))) obj"

definition candidateFromOwnerObj :: "string \<Rightarrow> unstructured \<Rightarrow> unstructured" where
  "candidateFromOwnerObj downstreamNS obj = obj\<lparr>u_Meta := (u_Meta obj)\<lparr>
     om_UID := '''', om_ResourceVersion := '''', om_Namespace := downstreamNS, om_ManagedFields := [],
     om_DeletionTimestamp := None, om_DeletionGracePeriodSeconds := None, om_OwnerReferences := [],
     om_Finalizers := [], om_CreationTimestamp := 0,
     om_Labels := fmfilter (\<lambda>k. \<not> Contains k ''claimed.internal.apis.kcp.io'') (om_Labels (u_Meta obj)),
     om_Annotations := fmfilter (\<lambda>k. \<not> Contains k ''kcp.io/cluster'') (om_Annotations (u_Meta obj))\<rparr>\<rparr>"

section \<open>The reconciler\<close>

record 'w readReconciler =
  getServiceNamespace :: "string \<Rightarrow> ('w, APIServiceNamespace) call"
  getProviderObject :: "string \<Rightarrow> string \<Rightarrow> ('w, unstructured) call"
  createProviderObject :: "unstructured \<Rightarrow> ('w, err) io"
  updateProviderObject :: "unstructured \<Rightarrow> ('w, err) io"
  deleteProviderObject :: "string \<Rightarrow> string \<Rightarrow> ('w, err) io"
  getConsumerObject :: "string \<Rightarrow> string \<Rightarrow> ('w, unstructured) call"
  updateConsumerObject :: "unstructured \<Rightarrow> ('w, unstructured) call"
  createConsumerObject :: "unstructured \<Rightarrow> ('w, unstructured) call"
  deleteConsumerObject :: "string \<Rightarrow> string \<Rightarrow> ('w, err) io"

text \<open>\<open>errors.IsNotFound(err)\<close> is no error.\<close>

definition ignore_missing :: "err \<Rightarrow> err" where
  "ignore_missing e = (case e of Some x \<Rightarrow> (if IsNotFound x then None else e) | None \<Rightarrow> None)"

definition sync_provider_owned :: "'w readReconciler \<Rightarrow> string \<Rightarrow> string \<Rightarrow>
    unstructured option \<Rightarrow> unstructured option \<Rightarrow> ('w, err) io" where
  "sync_provider_owned r consumerNS name provider consumer =
     (case provider of
        None \<Rightarrow> do { e \<leftarrow> deleteConsumerObject r consumerNS name; State_Monad.return (ignore_missing e) }
      | Some providerObj \<Rightarrow>
          (let ownerCandidate = makeProviderOwner providerObj
           in do {
             e \<leftarrow> (if providerObj \<noteq> ownerCandidate then updateProviderObject r ownerCandidate
                   else State_Monad.return None);
             (case e of
                Some x \<Rightarrow> State_Monad.return (Some x)
              | None \<Rightarrow>
                  (case consumer of
                     None \<Rightarrow> do {
                       c \<leftarrow> createConsumerObject r (makeProviderOwner (candidateFromOwnerObj consumerNS providerObj));
                       State_Monad.return (err_of c) }
                   | Some consumerObj \<Rightarrow>
                       (if deleting (u_Meta providerObj) then deleteConsumerObject r consumerNS (u_Name providerObj)
                        else
                          let candidate = candidateFromOwnerObj consumerNS providerObj;
                              current = candidateFromOwnerObj consumerNS consumerObj
                          in if candidate \<noteq> current
                             then do { u \<leftarrow> updateConsumerObject r candidate; State_Monad.return (err_of u) }
                             else State_Monad.return None))) }))"

definition sync_consumer_owned :: "'w readReconciler \<Rightarrow> string \<Rightarrow> string \<Rightarrow>
    unstructured option \<Rightarrow> unstructured option \<Rightarrow> ('w, err) io" where
  "sync_consumer_owned r providerNamespace name provider consumer =
     (case consumer of
        None \<Rightarrow> do { e \<leftarrow> deleteProviderObject r providerNamespace name; State_Monad.return (ignore_missing e) }
      | Some consumerObj \<Rightarrow>
          (let ownerCandidate = makeConsumerOwner consumerObj
           in do {
             e \<leftarrow> (if consumerObj \<noteq> ownerCandidate
                   then do { u \<leftarrow> updateConsumerObject r ownerCandidate; State_Monad.return (err_of u) }
                   else State_Monad.return None);
             (case e of
                Some x \<Rightarrow> State_Monad.return (Some x)
              | None \<Rightarrow>
                  (let candidate = makeConsumerOwner (candidateFromOwnerObj providerNamespace ownerCandidate)
                   in case provider of
                        None \<Rightarrow> createProviderObject r candidate
                      | Some providerObj \<Rightarrow>
                          (if candidateFromOwnerObj providerNamespace providerObj \<noteq> candidate
                           then updateProviderObject r candidate
                           else State_Monad.return None))) }))"

text \<open>An error that only says that the object is missing counts as no object.\<close>

definition found :: "go_error + 'a \<Rightarrow> go_error + 'a option" where
  "found g = (case g of Inr x \<Rightarrow> Inr (Some x) | Inl e \<Rightarrow> (if IsNotFound e then Inr None else Inl e))"

definition sync_claimed :: "'w readReconciler \<Rightarrow> string \<Rightarrow> string \<Rightarrow> string \<Rightarrow> ('w, err) io" where
  "sync_claimed r providerNamespace consumerNS name = do {
     p \<leftarrow> getProviderObject r providerNamespace name;
     (case found p of
        Inl e \<Rightarrow> State_Monad.return (Some e)
      | Inr provider \<Rightarrow> do {
          c \<leftarrow> getConsumerObject r consumerNS name;
          (case found c of
             Inl e \<Rightarrow> State_Monad.return (Some e)
           | Inr consumer \<Rightarrow>
               (if provider = None \<and> consumer = None then State_Monad.return None
                else case determineOwner provider consumer of
                       Inl _ \<Rightarrow> State_Monad.return None
                     | Inr OwnerProvider \<Rightarrow> sync_provider_owned r consumerNS name provider consumer
                     | Inr OwnerConsumer \<Rightarrow> sync_consumer_owned r providerNamespace name provider consumer)) }) }"

definition reconcile :: "'w readReconciler \<Rightarrow> string \<Rightarrow> string \<Rightarrow> ('w, err) io" where
  "reconcile r providerNamespace name =
     (if providerNamespace = '''' then sync_claimed r '''' '''' name
      else do {
        g \<leftarrow> getServiceNamespace r providerNamespace;
        (case g of
           Inl e \<Rightarrow> State_Monad.return (Some e)
         | Inr sn \<Rightarrow>
             (if sn_StatusNamespace sn = ''''
              then State_Monad.return (Some (Errorf (''APIServiceNamespace '' @ providerNamespace @ '' has empty status.namespace'') None))
              else sync_claimed r providerNamespace (om_Name (sn_Meta sn)) name)) })"

section \<open>The controller\<close>

text \<open>
  \<open>c_eventObject\<close> takes the object out of an informer event, looking through tombstones; \<open>None\<close> if it
  is not an unstructured object.
\<close>

record ('w, 'e) controller =
  c_gvr :: GroupVersionResource
  c_claim :: PermissionClaim
  c_providerNamespace :: string
  c_consumerClient :: "'w dynamic_client"
  c_providerClient :: "'w dynamic_client"
  c_asSelector :: as_selector
  c_eventObject :: "'e \<Rightarrow> unstructured option"
  c_keys :: "'e cache_keys"
  c_queue :: "'w queue"
  c_providerInformer_Get :: "string \<Rightarrow> string \<Rightarrow> ('w, unstructured) call"
  c_providerInformer_List :: "string \<Rightarrow> ('w, unstructured list) call"
  c_consumerIndexer_GetByKey :: "string \<Rightarrow> ('w, unstructured option) call"
  c_consumerLister_List :: "(labels \<Rightarrow> bool) \<Rightarrow> ('w, unstructured list) call"
  c_serviceNamespace_Get :: "string \<Rightarrow> string \<Rightarrow> ('w, APIServiceNamespace) call"
  c_serviceNamespace_ByStatusNamespace :: "string \<Rightarrow> ('w, APIServiceNamespace list) call"

definition get_service_namespace :: "('w, 'e) controller \<Rightarrow> string \<Rightarrow> ('w, APIServiceNamespace) call" where
  "get_service_namespace c upstreamNamespace = do {
     g \<leftarrow> c_serviceNamespace_ByStatusNamespace c upstreamNamespace;
     State_Monad.return
       (case g of
          Inl e \<Rightarrow> Inl e
        | Inr [] \<Rightarrow> Inl (StatusError ReasonNotFound upstreamNamespace)
        | Inr (sn # _) \<Rightarrow> Inr sn) }"

definition new_reconciler :: "('w, 'e) controller \<Rightarrow> 'w readReconciler" where
  "new_reconciler c = \<lparr>
     getServiceNamespace = get_service_namespace c,
     getProviderObject = c_providerInformer_Get c,
     createProviderObject = (\<lambda>u. do {
       x \<leftarrow> dc_Create (c_providerClient c) (c_gvr c) (u_Namespace u) u; State_Monad.return (err_of x) }),
     updateProviderObject = (\<lambda>u. do {
       x \<leftarrow> dc_Update (c_providerClient c) (c_gvr c) (u_Namespace u) u; State_Monad.return (err_of x) }),
     deleteProviderObject = (\<lambda>ns n. dc_Delete (c_providerClient c) (c_gvr c) ns n),
     getConsumerObject = (\<lambda>ns n. dc_Get (c_consumerClient c) (c_gvr c) ns n),
     updateConsumerObject = (\<lambda>u. dc_Update (c_consumerClient c) (c_gvr c) (u_Namespace u) u),
     createConsumerObject = (\<lambda>u. dc_Create (c_consumerClient c) (c_gvr c) (u_Namespace u) u),
     deleteConsumerObject = (\<lambda>ns n. dc_Delete (c_consumerClient c) (c_gvr c) ns n)\<rparr>"

definition isClaimed :: "('w, 'e) controller \<Rightarrow> unstructured \<Rightarrow> bool" where
  "isClaimed c obj = IsClaimed (c_asSelector c) (pc_Selector (c_claim c)) (Some obj)"

definition enqueueConsumerByKey :: "('w, 'e) controller \<Rightarrow> string \<Rightarrow> ('w, unit) io" where
  "enqueueConsumerByKey c key =
     (case ck_Split (c_keys c) key of
        Inl _ \<Rightarrow> State_Monad.return ()
      | Inr (ns, name) \<Rightarrow>
          (if ns \<noteq> '''' then do {
             g \<leftarrow> c_serviceNamespace_Get c (c_providerNamespace c) ns;
             (case g of
                Inl _ \<Rightarrow> State_Monad.return ()
              | Inr sn \<Rightarrow>
                  (if sn_StatusNamespace sn = '''' then State_Monad.return ()
                   else if om_Namespace (sn_Meta sn) = c_providerNamespace c
                   then q_Add (c_queue c) (sn_StatusNamespace sn @ ''/'' @ name)
                   else State_Monad.return ())) }
           else q_Add (c_queue c) key))"

definition enqueueConsumer :: "('w, 'e) controller \<Rightarrow> 'e \<Rightarrow> ('w, unit) io" where
  "enqueueConsumer c obj =
     (case c_eventObject c obj of
        None \<Rightarrow> State_Monad.return ()
      | Some o' \<Rightarrow>
          (if \<not> isClaimed c o' then State_Monad.return ()
           else case ck_Key (c_keys c) (u_Meta o') of
                  Inl _ \<Rightarrow> State_Monad.return ()
                | Inr key \<Rightarrow> enqueueConsumerByKey c key))"

definition enqueueProvider :: "('w, 'e) controller \<Rightarrow> 'e \<Rightarrow> ('w, unit) io" where
  "enqueueProvider c obj =
     (case c_eventObject c obj of
        None \<Rightarrow> State_Monad.return ()
      | Some o' \<Rightarrow>
          (if \<not> isClaimed c o' then State_Monad.return ()
           else case ck_Key (c_keys c) (u_Meta o') of
                  Inl _ \<Rightarrow> State_Monad.return ()
                | Inr providerKey \<Rightarrow>
                    (case ck_Split (c_keys c) providerKey of
                       Inl _ \<Rightarrow> State_Monad.return ()
                     | Inr (ns, _) \<Rightarrow>
                         (if ns \<noteq> '''' then do {
                            g \<leftarrow> c_serviceNamespace_ByStatusNamespace c ns;
                            (case g of
                               Inl _ \<Rightarrow> State_Monad.return ()
                             | Inr sns \<Rightarrow>
                                 (if list_ex (\<lambda>sn. om_Namespace (sn_Meta sn) = c_providerNamespace c) sns
                                  then q_Add (c_queue c) providerKey else State_Monad.return ())) }
                          else q_Add (c_queue c) providerKey))))"

definition enqueue_named :: "('w, 'e) controller \<Rightarrow> APIServiceNamespace \<Rightarrow> NamedResource \<Rightarrow> ('w, unit) io" where
  "enqueue_named c sn nr =
     (let key = (if nr_Namespace nr \<noteq> '''' then nr_Namespace nr @ ''/'' @ nr_Name nr else nr_Name nr)
      in if nr_Namespace nr \<noteq> '''' \<and> nr_Namespace nr \<noteq> om_Name (sn_Meta sn) then State_Monad.return ()
         else do {
           g \<leftarrow> c_consumerIndexer_GetByKey c key;
           (case g of
              Inl _ \<Rightarrow> State_Monad.return ()
            | Inr None \<Rightarrow> State_Monad.return ()
            | Inr (Some u) \<Rightarrow>
                (if \<not> isClaimed c u then State_Monad.return ()
                 else q_Add (c_queue c) (sn_StatusNamespace sn @ ''/'' @ nr_Name nr))) })"

definition enqueue_listed :: "('w, 'e) controller \<Rightarrow> APIServiceNamespace \<Rightarrow> unstructured \<Rightarrow> ('w, unit) io" where
  "enqueue_listed c sn obj =
     (if \<not> isClaimed c obj then State_Monad.return ()
      else case ck_Key (c_keys c) (u_Meta obj) of
             Inl _ \<Rightarrow> State_Monad.return ()
           | Inr objKey \<Rightarrow>
               (case ck_Split (c_keys c) objKey of
                  Inl _ \<Rightarrow> State_Monad.return ()
                | Inr (objNamespace, name) \<Rightarrow>
                    (if objNamespace \<noteq> '''' \<and> objNamespace \<noteq> om_Name (sn_Meta sn) then State_Monad.return ()
                     else q_Add (c_queue c) (sn_StatusNamespace sn @ ''/'' @ name))))"

definition enqueue_consumer_objects :: "('w, 'e) controller \<Rightarrow> APIServiceNamespace \<Rightarrow> (labels \<Rightarrow> bool) \<Rightarrow> ('w, unit) io" where
  "enqueue_consumer_objects c sn sel = do {
     g \<leftarrow> c_consumerLister_List c sel;
     (case g of Inl _ \<Rightarrow> State_Monad.return () | Inr objects \<Rightarrow> for_each (enqueue_listed c sn) objects) }"

definition enqueue_provider_object :: "('w, 'e) controller \<Rightarrow> unstructured \<Rightarrow> ('w, unit) io" where
  "enqueue_provider_object c u =
     (if \<not> isClaimed c u then State_Monad.return ()
      else case ck_Key (c_keys c) (u_Meta u) of
             Inl _ \<Rightarrow> State_Monad.return ()
           | Inr key \<Rightarrow> q_Add (c_queue c) key)"

definition enqueueServiceNamespace :: "('w, 'e) controller \<Rightarrow> 'e \<Rightarrow> ('w, unit) io" where
  "enqueueServiceNamespace c obj =
     (case ck_DeletionHandlingKey (c_keys c) obj of
        Inl _ \<Rightarrow> State_Monad.return ()
      | Inr snKey \<Rightarrow>
          (case ck_Split (c_keys c) snKey of
             Inl _ \<Rightarrow> State_Monad.return ()
           | Inr (ns, name) \<Rightarrow>
               (if ns \<noteq> c_providerNamespace c then State_Monad.return ()
                else do {
                  g \<leftarrow> c_serviceNamespace_Get c ns name;
                  (case g of
                     Inl _ \<Rightarrow> State_Monad.return ()
                   | Inr sn \<Rightarrow>
                       (if sn_StatusNamespace sn = '''' then State_Monad.return ()
                        else do {
                          l \<leftarrow> c_providerInformer_List c (sn_StatusNamespace sn);
                          (case l of
                             Inl _ \<Rightarrow> State_Monad.return ()
                           | Inr objs \<Rightarrow> do {
                               for_each (enqueue_provider_object c) objs;
                               (let v = pc_Selector (c_claim c)
                                in case sel_LabelSelector v of
                                     Some ls \<Rightarrow>
                                       (case c_asSelector c ls of
                                          Inl _ \<Rightarrow> State_Monad.return ()
                                        | Inr sel \<Rightarrow> enqueue_consumer_objects c sn sel)
                                   | None \<Rightarrow>
                                       (if sel_NamedResources v = [] then enqueue_consumer_objects c sn (\<lambda>_. True)
                                        else for_each (enqueue_named c sn) (sel_NamedResources v))) }) })) })))"

definition process :: "('w, 'e) controller \<Rightarrow> string \<Rightarrow> ('w, err) io" where
  "process c key =
     (case ck_Split (c_keys c) key of
        Inl _ \<Rightarrow> State_Monad.return None
      | Inr (namespace, name) \<Rightarrow> reconcile (new_reconciler c) namespace name)"

section \<open>Labels and candidates\<close>

lemma owner_key_kept: "\<not> Contains ObjectOwnerLabel ''claimed.internal.apis.kcp.io''"
  by code_simp

lemma owner_label_ops [simp]:
  "owner_label (makeProviderOwner u) = Owner_String OwnerProvider"
  "owner_label (makeConsumerOwner u) = Owner_String OwnerConsumer"
  "owner_label (candidateFromOwnerObj ns u) = owner_label u"
  using owner_key_kept
  by (simp_all add: owner_label_def makeProviderOwner_def makeConsumerOwner_def set_labels_def candidateFromOwnerObj_def)

definition make_owner :: "Owner \<Rightarrow> unstructured \<Rightarrow> unstructured" where
  "make_owner ow = (case ow of OwnerProvider \<Rightarrow> makeProviderOwner | OwnerConsumer \<Rightarrow> makeConsumerOwner)"

lemma make_owner_unfold: "make_owner ow u = set_labels (fmupd ObjectOwnerLabel (Owner_String ow) (om_Labels (u_Meta u))) u"
  by (simp add: make_owner_def makeProviderOwner_def makeConsumerOwner_def split: Owner.split)

lemma make_owner_same:
  assumes "owner_label u = Owner_String ow"
  shows "make_owner ow u = u"
proof -
  have "fmlookup (om_Labels (u_Meta u)) ObjectOwnerLabel = Some (Owner_String ow)"
    using assms by (auto simp: owner_label_def Owner_String_def split: option.splits Owner.splits)
  then have "fmupd ObjectOwnerLabel (Owner_String ow) (om_Labels (u_Meta u)) = om_Labels (u_Meta u)"
    by (intro fmap_ext) auto
  then show ?thesis by (simp add: make_owner_unfold set_labels_def)
qed

lemma candidate_make_owner:
  "candidateFromOwnerObj ns (make_owner ow u) = make_owner ow (candidateFromOwnerObj ns u)"
proof -
  have "fmfilter (\<lambda>k. \<not> Contains k ''claimed.internal.apis.kcp.io'') (fmupd ObjectOwnerLabel l m) =
      fmupd ObjectOwnerLabel l (fmfilter (\<lambda>k. \<not> Contains k ''claimed.internal.apis.kcp.io'') m)" for l m
    using owner_key_kept by (intro fmap_ext) auto
  then show ?thesis
    by (intro unstructured.equality ObjectMeta.equality)
      (simp_all add: make_owner_unfold candidateFromOwnerObj_def set_labels_def owner_key_kept cong del: fmfilter_cong)
qed

lemma candidate_candidate [simp]:
  "candidateFromOwnerObj ns (candidateFromOwnerObj ns' u) = candidateFromOwnerObj ns u"
proof (intro unstructured.equality ObjectMeta.equality)
  show "om_Labels (u_Meta (candidateFromOwnerObj ns (candidateFromOwnerObj ns' u))) =
      om_Labels (u_Meta (candidateFromOwnerObj ns u))"
    by (intro fmap_ext) (simp add: candidateFromOwnerObj_def)
  show "om_Annotations (u_Meta (candidateFromOwnerObj ns (candidateFromOwnerObj ns' u))) =
      om_Annotations (u_Meta (candidateFromOwnerObj ns u))"
    by (intro fmap_ext) (simp add: candidateFromOwnerObj_def)
qed (simp_all add: candidateFromOwnerObj_def)

lemma candidate_cong: "candidateFromOwnerObj ns u = candidateFromOwnerObj ns v \<Longrightarrow>
    candidateFromOwnerObj ns' u = candidateFromOwnerObj ns' v"
  by (metis candidate_candidate)

lemma candidate_owner_label: "candidateFromOwnerObj ns u = candidateFromOwnerObj ns v \<Longrightarrow> owner_label u = owner_label v"
  by (metis owner_label_ops(3))

lemma label_owner_iff: "label_owner l = Some ow \<longleftrightarrow> l = Owner_String ow"
  by (cases ow) (auto simp: label_owner_def Owner_String_def)

section \<open>Two clusters\<close>

text \<open>
  A provider and a consumer cluster with at most one copy of the object each, whose caches are up to
  date and whose requests succeed: a lookup or a deletion finds the copy only under its own namespace
  and name.
\<close>

record pair_world =
  pw_provider :: "unstructured option"
  pw_consumer :: "unstructured option"

definition stored_at :: "string \<Rightarrow> string \<Rightarrow> unstructured option \<Rightarrow> unstructured option" where
  "stored_at ns n x = (case x of None \<Rightarrow> None
     | Some u \<Rightarrow> (if om_Namespace (u_Meta u) = ns \<and> om_Name (u_Meta u) = n then Some u else None))"

definition missing_or :: "unstructured option \<Rightarrow> go_error + unstructured" where
  "missing_or x = (case x of None \<Rightarrow> Inl (StatusError ReasonNotFound '''') | Some u \<Rightarrow> Inr u)"

definition pair_reconciler :: "(unstructured \<Rightarrow> unstructured) \<Rightarrow> string \<Rightarrow> pair_world readReconciler" where
  "pair_reconciler st cns = \<lparr>
     getServiceNamespace = (\<lambda>ns. State_Monad.return
       (Inr \<lparr>sn_Meta = zero_ObjectMeta\<lparr>om_Name := cns\<rparr>, sn_StatusNamespace = ns\<rparr>)),
     getProviderObject = (\<lambda>ns n. State (\<lambda>w. (missing_or (stored_at ns n (pw_provider w)), w))),
     createProviderObject = (\<lambda>u. State (\<lambda>w. (None, w\<lparr>pw_provider := Some (st u)\<rparr>))),
     updateProviderObject = (\<lambda>u. State (\<lambda>w. (None, w\<lparr>pw_provider := Some (st u)\<rparr>))),
     deleteProviderObject = (\<lambda>ns n. State (\<lambda>w.
       if stored_at ns n (pw_provider w) = None then (Some (StatusError ReasonNotFound n), w)
       else (None, w\<lparr>pw_provider := None\<rparr>))),
     getConsumerObject = (\<lambda>ns n. State (\<lambda>w. (missing_or (stored_at ns n (pw_consumer w)), w))),
     updateConsumerObject = (\<lambda>u. State (\<lambda>w. (Inr u, w\<lparr>pw_consumer := Some (st u)\<rparr>))),
     createConsumerObject = (\<lambda>u. State (\<lambda>w. (Inr u, w\<lparr>pw_consumer := Some (st u)\<rparr>))),
     deleteConsumerObject = (\<lambda>ns n. State (\<lambda>w.
       if stored_at ns n (pw_consumer w) = None then (Some (StatusError ReasonNotFound n), w)
       else (None, w\<lparr>pw_consumer := None\<rparr>)))\<rparr>"

section \<open>What the copies must be\<close>

text \<open>
  The specification, field by field. The labels of kcp's claims and its cluster annotation belong
  to one cluster; everything else of the payload, the labels and the annotations is shared.
\<close>

definition owner_word :: "Owner \<Rightarrow> string" where
  "owner_word ow = (case ow of OwnerProvider \<Rightarrow> ''provider'' | OwnerConsumer \<Rightarrow> ''consumer'')"

definition label_at :: "unstructured \<Rightarrow> string \<Rightarrow> string option" where
  "label_at u = fmlookup (om_Labels (u_Meta u))"

definition same_payload :: "unstructured \<Rightarrow> unstructured \<Rightarrow> bool" where
  "same_payload u v \<longleftrightarrow> u_APIVersion u = u_APIVersion v \<and> u_Kind u = u_Kind v \<and> u_Fields u = u_Fields v \<and>
     om_Name (u_Meta u) = om_Name (u_Meta v) \<and> om_Generation (u_Meta u) = om_Generation (u_Meta v) \<and>
     (\<forall>k. \<not> Contains k ''kcp.io/cluster'' \<longrightarrow>
        fmlookup (om_Annotations (u_Meta u)) k = fmlookup (om_Annotations (u_Meta v)) k)"

definition alike :: "unstructured \<Rightarrow> unstructured \<Rightarrow> bool" where
  "alike u v \<longleftrightarrow> same_payload u v \<and> (\<forall>k. \<not> Contains k ''claimed.internal.apis.kcp.io'' \<longrightarrow> label_at u k = label_at v k)"

text \<open>\<open>labelled_copy ow o v\<close>: \<open>v\<close> has the payload of \<open>o\<close>, its labels and the label of its owner.\<close>

definition labelled_copy :: "Owner \<Rightarrow> unstructured \<Rightarrow> unstructured \<Rightarrow> bool" where
  "labelled_copy ow o' v \<longleftrightarrow> same_payload o' v \<and> label_at v ''kube-bind.io/owner'' = Some (owner_word ow) \<and>
     (\<forall>k. k \<noteq> ''kube-bind.io/owner'' \<longrightarrow> \<not> Contains k ''claimed.internal.apis.kcp.io'' \<longrightarrow> label_at v k = label_at o' k)"

text \<open>
  The owner that the labels name: the provider's copy speaks first, then the consumer's, and an
  unlabelled object that is on one side only belongs to that side.
\<close>

definition named_owner :: "unstructured option \<Rightarrow> string" where
  "named_owner x = (case x of None \<Rightarrow> '''' | Some u \<Rightarrow>
     (case label_at u ''kube-bind.io/owner'' of None \<Rightarrow> '''' | Some l \<Rightarrow> l))"

definition owns :: "Owner \<Rightarrow> unstructured option \<Rightarrow> unstructured option \<Rightarrow> bool" where
  "owns ow p c \<longleftrightarrow> named_owner p = owner_word ow
     \<or> named_owner p \<notin> {''provider'', ''consumer''} \<and> named_owner c = owner_word ow
     \<or> ow = OwnerProvider \<and> p \<noteq> None \<and> named_owner p = '''' \<and> c = None
     \<or> ow = OwnerConsumer \<and> c \<noteq> None \<and> named_owner c = '''' \<and> p = None"

text \<open>
  An API server stores what it is given, up to the metadata it sets itself (the UID, the resource
  version, the managed fields, the time of creation). Claimed resources have no generation: with
  one, \<open>candidateFromOwnerObj\<close> would carry the owner's generation over.
\<close>

definition server :: "(unstructured \<Rightarrow> unstructured) \<Rightarrow> bool" where
  "server st \<longleftrightarrow> (\<forall>u. alike (st u) u \<and> om_Namespace (u_Meta (st u)) = om_Namespace (u_Meta u) \<and>
     om_DeletionTimestamp (u_Meta (st u)) = om_DeletionTimestamp (u_Meta u))"

definition placed :: "string \<Rightarrow> string \<Rightarrow> string \<Rightarrow> pair_world \<Rightarrow> bool" where
  "placed pns cns n w \<longleftrightarrow>
     (\<forall>p. pw_provider w = Some p \<longrightarrow> om_Namespace (u_Meta p) = pns \<and> om_Name (u_Meta p) = n) \<and>
     (\<forall>c. pw_consumer w = Some c \<longrightarrow> om_Namespace (u_Meta c) = cns \<and> om_Name (u_Meta c) = n)"

definition owner_copy :: "Owner \<Rightarrow> pair_world \<Rightarrow> unstructured option" where
  "owner_copy ow w = (case ow of OwnerProvider \<Rightarrow> pw_provider w | OwnerConsumer \<Rightarrow> pw_consumer w)"

text \<open>Both clusters have the owner's object, labelled with the owner, or none.\<close>

definition both_follow :: "Owner \<Rightarrow> unstructured option \<Rightarrow> pair_world \<Rightarrow> bool" where
  "both_follow ow x w \<longleftrightarrow> (case x of
       None \<Rightarrow> pw_provider w = None \<and> pw_consumer w = None
     | Some o' \<Rightarrow> \<exists>p c. w = \<lparr>pw_provider = Some p, pw_consumer = Some c\<rparr> \<and> labelled_copy ow o' p \<and> labelled_copy ow o' c)"

definition not_deleting :: "pair_world \<Rightarrow> bool" where
  "not_deleting w \<longleftrightarrow> (\<forall>p. pw_provider w = Some p \<longrightarrow> \<not> deleting (u_Meta p))"

section \<open>The specification and the candidates\<close>

definition essence :: "unstructured \<Rightarrow> unstructured" where
  "essence = candidateFromOwnerObj ''''"

lemma essence_eq_iff: "candidateFromOwnerObj ns u = candidateFromOwnerObj ns v \<longleftrightarrow> essence u = essence v"
  unfolding essence_def using candidate_cong by blast

lemma filter_eq_iff: "fmfilter P m = fmfilter P m' \<longleftrightarrow> (\<forall>k. P k \<longrightarrow> fmlookup m k = fmlookup m' k)"
proof
  assume eq: "fmfilter P m = fmfilter P m'"
  show "\<forall>k. P k \<longrightarrow> fmlookup m k = fmlookup m' k"
  proof (intro allI impI)
    fix k assume "P k"
    then show "fmlookup m k = fmlookup m' k"
      using arg_cong [OF eq, of "\<lambda>x. fmlookup x k"] by simp
  qed
next
  assume "\<forall>k. P k \<longrightarrow> fmlookup m k = fmlookup m' k"
  then show "fmfilter P m = fmfilter P m'" by (intro fmap_ext) simp
qed

lemma object_eq_iff: "(u :: unstructured) = v \<longleftrightarrow> u_APIVersion u = u_APIVersion v \<and> u_Kind u = u_Kind v \<and>
    u_Meta u = u_Meta v \<and> u_Fields u = u_Fields v"
  by (cases u; cases v) simp

lemma meta_eq_iff: "(u :: ObjectMeta) = v \<longleftrightarrow> om_Name u = om_Name v \<and> om_Namespace u = om_Namespace v \<and>
    om_UID u = om_UID v \<and> om_ResourceVersion u = om_ResourceVersion v \<and> om_Generation u = om_Generation v \<and>
    om_CreationTimestamp u = om_CreationTimestamp v \<and> om_DeletionTimestamp u = om_DeletionTimestamp v \<and>
    om_DeletionGracePeriodSeconds u = om_DeletionGracePeriodSeconds v \<and> om_Labels u = om_Labels v \<and>
    om_Annotations u = om_Annotations v \<and> om_OwnerReferences u = om_OwnerReferences v \<and>
    om_Finalizers u = om_Finalizers v \<and> om_ManagedFields u = om_ManagedFields v"
  by (cases u; cases v) simp

lemma alike_iff: "alike u v \<longleftrightarrow> essence u = essence v"
  by (auto simp: alike_def same_payload_def label_at_def essence_def candidateFromOwnerObj_def
      object_eq_iff meta_eq_iff filter_eq_iff simp del: fmfilter_cong)

lemma owner_word_label: "owner_word ow = Owner_String ow"
  by (simp add: owner_word_def Owner_String_def)

lemma labelled_copy_iff: "labelled_copy ow u v \<longleftrightarrow> essence v = make_owner ow (essence u)"
proof -
  have "essence v = make_owner ow (essence u) \<longleftrightarrow> alike v (make_owner ow u)"
    unfolding alike_iff essence_def candidate_make_owner ..
  also have "\<dots> \<longleftrightarrow> labelled_copy ow u v"
    unfolding alike_def labelled_copy_def same_payload_def label_at_def owner_word_label ObjectOwnerLabel_def [symmetric]
    using owner_key_kept by (auto simp: make_owner_unfold set_labels_def)
  finally show ?thesis by simp
qed

lemma named_owner_Some [simp]: "named_owner None = ''''" "named_owner (Some u) = owner_label u"
  by (simp_all add: named_owner_def label_at_def owner_label_def ObjectOwnerLabel_def)

lemma determineOwner_iff: "determineOwner p c = Inr ow \<longleftrightarrow> owns ow p c"
  by (cases ow; cases p; cases c)
    (auto simp: determineOwner_def owns_def label_owner_def owner_word_label Owner_String_def)

lemma stored_placed [simp]: "placed pns cns n w \<Longrightarrow> stored_at pns n (pw_provider w) = pw_provider w"
  "placed pns cns n w \<Longrightarrow> stored_at cns n (pw_consumer w) = pw_consumer w"
  by (auto simp: placed_def stored_at_def split: option.split)

lemma server_essence: "server st \<Longrightarrow> essence (st u) = essence u"
  by (simp add: server_def alike_iff)

lemma essence_simps [simp]:
  "owner_label (essence u) = owner_label u"
  "essence (candidateFromOwnerObj ns u) = essence u"
  "essence (make_owner ow u) = make_owner ow (essence u)"
  "server st \<Longrightarrow> essence (st u) = essence u"
  by (simp_all add: essence_def candidate_make_owner) (simp add: server_essence flip: essence_def)

abbreviation sync_once :: "(unstructured \<Rightarrow> unstructured) \<Rightarrow> string \<Rightarrow> string \<Rightarrow> string \<Rightarrow> pair_world \<Rightarrow> err \<times> pair_world" where
  "sync_once st pns cns n w \<equiv> run_state (reconcile (pair_reconciler st cns) pns n) w"

lemma essence_placed: "om_Name (u_Meta (essence u)) = om_Name (u_Meta u)"
  by (simp add: essence_def candidateFromOwnerObj_def)

text \<open>In a placed pair the specification is a property of the essences.\<close>

definition in_sync :: "Owner \<Rightarrow> unstructured option \<Rightarrow> pair_world \<Rightarrow> bool" where
  "in_sync ow x w \<longleftrightarrow> map_option essence (pw_provider w) = x \<and> map_option essence (pw_consumer w) = x \<and>
     (\<forall>u. x = Some u \<longrightarrow> owner_label u = Owner_String ow)"

definition wanted :: "Owner \<Rightarrow> pair_world \<Rightarrow> unstructured option" where
  "wanted ow w = map_option (\<lambda>u. make_owner ow (essence u)) (owner_copy ow w)"

lemma in_sync_follow: "in_sync ow (wanted ow w) w' \<Longrightarrow> both_follow ow (owner_copy ow w) w'"
  by (cases w') (auto simp: in_sync_def wanted_def both_follow_def labelled_copy_iff split: option.split)

lemma run_sync:
  assumes "pns = '''' \<longrightarrow> cns = ''''" and "placed pns cns n w" and "determineOwner (pw_provider w) (pw_consumer w) = Inr ow"
  shows "sync_once st pns cns n w =
    (case ow of
       OwnerProvider \<Rightarrow> run_state (sync_provider_owned (pair_reconciler st cns) cns n (pw_provider w) (pw_consumer w)) w
     | OwnerConsumer \<Rightarrow> run_state (sync_consumer_owned (pair_reconciler st cns) pns n (pw_provider w) (pw_consumer w)) w)"
proof -
  have "pw_provider w \<noteq> None \<or> pw_consumer w \<noteq> None"
    using assms(3) by (cases "pw_provider w"; cases "pw_consumer w") (simp_all add: determineOwner_def)
  moreover have "sync_once st pns cns n w = run_state (sync_claimed (pair_reconciler st cns) pns cns n) w"
    using assms(1) by (simp add: reconcile_def pair_reconciler_def)
  ultimately show ?thesis
    using assms(3) stored_placed [OF assms(2)]
    by (auto simp: sync_claimed_def pair_reconciler_def missing_or_def found_def split: option.splits Owner.splits)
qed

lemmas pair_defs = pair_reconciler_def sync_provider_owned_def sync_consumer_owned_def ignore_missing_def

lemma make_owner_simps:
  "makeProviderOwner = make_owner OwnerProvider" "makeConsumerOwner = make_owner OwnerConsumer"
  by (simp_all add: make_owner_def)

lemma meta_make_owner [simp]:
  "deleting (u_Meta (make_owner ow u)) = deleting (u_Meta u)"
  "om_Namespace (u_Meta (make_owner ow u)) = om_Namespace (u_Meta u)"
  "om_Name (u_Meta (make_owner ow u)) = om_Name (u_Meta u)"
  by (simp_all add: make_owner_unfold set_labels_def deleting_def)

lemma meta_candidate [simp]:
  "om_Namespace (u_Meta (candidateFromOwnerObj ns u)) = ns"
  "om_Name (u_Meta (candidateFromOwnerObj ns u)) = om_Name (u_Meta u)"
  "\<not> deleting (u_Meta (candidateFromOwnerObj ns u))"
  by (simp_all add: candidateFromOwnerObj_def deleting_def)

lemma meta_server:
  "server st \<Longrightarrow> deleting (u_Meta (st u)) = deleting (u_Meta u)"
  "server st \<Longrightarrow> om_Namespace (u_Meta (st u)) = om_Namespace (u_Meta u)"
  "server st \<Longrightarrow> om_Name (u_Meta (st u)) = om_Name (u_Meta u)"
  by (simp_all add: server_def deleting_def alike_def same_payload_def)

lemma owner_labelled: "owner_label (make_owner ow u) = Owner_String ow"
  by (simp add: make_owner_def split: Owner.split)

lemma determineOwner_in_sync:
  assumes "in_sync ow (Some x) w"
  shows "determineOwner (pw_provider w) (pw_consumer w) = Inr ow"
proof -
  obtain p where "pw_provider w = Some p" "essence p = x" using assms by (auto simp: in_sync_def)
  then have "label_owner (owner_label p) = Some ow"
    using assms essence_simps(1) [of p] by (simp add: in_sync_def label_owner_iff del: essence_simps)
  with \<open>pw_provider w = Some p\<close> show ?thesis by (simp add: determineOwner_def)
qed

lemma sync_empty: "in_sync ow None w \<Longrightarrow> sync_once st pns cns n w = (None, w)"
  by (simp add: in_sync_def reconcile_def sync_claimed_def pair_reconciler_def missing_or_def found_def stored_at_def)

lemma sync_stable:
  assumes "pns = '''' \<longrightarrow> cns = ''''" and "placed pns cns n w" and "in_sync ow x w" and "not_deleting w"
  shows "sync_once st pns cns n w = (None, w)"
proof (cases x)
  case None
  then show ?thesis using sync_empty assms by blast
next
  case (Some y)
  obtain p c where pc: "pw_provider w = Some p" "pw_consumer w = Some c" "essence p = y" "essence c = y"
    using assms(3) Some by (auto simp: in_sync_def)
  have lab: "owner_label p = Owner_String ow" "owner_label c = Owner_String ow"
    using assms(3) Some essence_simps(1) [of p] essence_simps(1) [of c] unfolding in_sync_def pc by simp_all
  have same: "candidateFromOwnerObj ns p = candidateFromOwnerObj ns c" for ns
    by (simp add: essence_eq_iff pc)
  have kept: "make_owner ow (candidateFromOwnerObj ns c) = candidateFromOwnerObj ns c" "make_owner ow p = p"
    "make_owner ow c = c" for ns
    using lab by (simp_all add: make_owner_same)
  have del: "\<not> deleting (u_Meta p)" using assms(4) pc by (simp add: not_deleting_def)
  have "determineOwner (pw_provider w) (pw_consumer w) = Inr ow"
    using determineOwner_in_sync assms(3) Some by blast
  note run_sync [OF assms(1,2) this, of st]
  then have run: "sync_once st pns cns n w = (case ow of
       OwnerProvider \<Rightarrow> run_state (sync_provider_owned (pair_reconciler st cns) cns n (Some p) (Some c)) w
     | OwnerConsumer \<Rightarrow> run_state (sync_consumer_owned (pair_reconciler st cns) pns n (Some p) (Some c)) w)"
    unfolding pc(1,2) by simp
  show ?thesis unfolding run using kept del
    by (cases ow) (simp_all add: pair_defs make_owner_simps same)
qed

lemma provider_step:
  assumes "pns = '''' \<longrightarrow> cns = ''''" and "placed pns cns n w"
    and "server st" and "determineOwner (pw_provider w) (pw_consumer w) = Inr OwnerProvider"
    and "pw_provider w = Some p" and "\<not> deleting (u_Meta p)"
  shows "\<exists>p' c'. sync_once st pns cns n w = (None, \<lparr>pw_provider = Some p', pw_consumer = Some c'\<rparr>) \<and>
    placed pns cns n \<lparr>pw_provider = Some p', pw_consumer = Some c'\<rparr> \<and>
    essence p' = make_owner OwnerProvider (essence p) \<and> \<not> deleting (u_Meta p') \<and>
    essence c' = (if pw_consumer w = None then make_owner OwnerProvider (essence p) else essence p)"
proof -
  let ?p = "if p \<noteq> make_owner OwnerProvider p then st (make_owner OwnerProvider p) else p"
  have p: "essence ?p = make_owner OwnerProvider (essence p)" "\<not> deleting (u_Meta ?p)"
    using assms(3,6) by (auto simp: meta_server) (metis essence_simps(3))
  have at: "om_Namespace (u_Meta p) = pns" "om_Name (u_Meta p) = n"
    using assms(2,5) by (auto simp: placed_def)
  have run: "sync_once st pns cns n w = run_state (sync_provider_owned (pair_reconciler st cns) cns n (Some p) (pw_consumer w)) w"
    using run_sync [OF assms(1,2,4)] assms(5) by simp
  show ?thesis
  proof (cases "pw_consumer w")
    case None
    have "sync_once st pns cns n w = (None, \<lparr>pw_provider = Some ?p,
        pw_consumer = Some (st (make_owner OwnerProvider (candidateFromOwnerObj cns p)))\<rparr>)"
      unfolding run None using assms(5) by (simp add: pair_defs make_owner_simps Let_def)
    with p at None assms(3) show ?thesis by (auto simp: placed_def meta_server)
  next
    case (Some c)
    let ?c = "if candidateFromOwnerObj cns p \<noteq> candidateFromOwnerObj cns c then st (candidateFromOwnerObj cns p) else c"
    have "om_Namespace (u_Meta c) = cns" "om_Name (u_Meta c) = n"
      using assms(2) Some by (auto simp: placed_def)
    with at have "placed pns cns n \<lparr>pw_provider = Some ?p, pw_consumer = Some ?c\<rparr>"
      using assms(3) by (simp add: placed_def meta_server)
    moreover have "sync_once st pns cns n w = (None, \<lparr>pw_provider = Some ?p, pw_consumer = Some ?c\<rparr>)"
      unfolding run Some using assms(5,6) Some by (simp add: pair_defs make_owner_simps Let_def)
    moreover have "essence ?c = essence p" using assms(3) essence_eq_iff [of cns p c] by simp
    ultimately show ?thesis using p Some by auto
  qed
qed

lemma consumer_step:
  assumes "pns = '''' \<longrightarrow> cns = ''''" and "placed pns cns n w"
    and "server st" and "determineOwner (pw_provider w) (pw_consumer w) = Inr OwnerConsumer"
    and "pw_consumer w = Some c" and "not_deleting w"
  shows "\<exists>p' c'. sync_once st pns cns n w = (None, \<lparr>pw_provider = Some p', pw_consumer = Some c'\<rparr>) \<and>
    placed pns cns n \<lparr>pw_provider = Some p', pw_consumer = Some c'\<rparr> \<and>
    essence c' = make_owner OwnerConsumer (essence c) \<and> essence p' = make_owner OwnerConsumer (essence c) \<and>
    \<not> deleting (u_Meta p')"
proof -
  let ?c = "if c \<noteq> make_owner OwnerConsumer c then st (make_owner OwnerConsumer c) else c"
  let ?k = "make_owner OwnerConsumer (candidateFromOwnerObj pns (make_owner OwnerConsumer c))"
  have k: "?k = candidateFromOwnerObj pns (make_owner OwnerConsumer c)"
    by (simp add: make_owner_same owner_labelled)
  have c: "essence ?c = make_owner OwnerConsumer (essence c)"
    using assms(3) by auto (metis essence_simps(3))
  have at: "om_Namespace (u_Meta c) = cns" "om_Name (u_Meta c) = n"
    using assms(2,5) by (auto simp: placed_def)
  have run: "sync_once st pns cns n w = run_state (sync_consumer_owned (pair_reconciler st cns) pns n (pw_provider w) (Some c)) w"
    using run_sync [OF assms(1,2,4)] assms(5) by simp
  show ?thesis
  proof (cases "pw_provider w")
    case None
    have "sync_once st pns cns n w = (None, \<lparr>pw_provider = Some (st ?k), pw_consumer = Some ?c\<rparr>)"
      unfolding run None using assms(5) by (simp add: pair_defs make_owner_simps Let_def)
    moreover have "placed pns cns n \<lparr>pw_provider = Some (st ?k), pw_consumer = Some ?c\<rparr>"
      using assms(3) at by (simp add: placed_def meta_server k)
    ultimately show ?thesis using c k assms(3) by (auto simp: meta_server)
  next
    case (Some p)
    let ?p = "if candidateFromOwnerObj pns p \<noteq> ?k then st ?k else p"
    have "om_Namespace (u_Meta p) = pns" "om_Name (u_Meta p) = n"
      using assms(2) Some by (auto simp: placed_def)
    with at have "placed pns cns n \<lparr>pw_provider = Some ?p, pw_consumer = Some ?c\<rparr>"
      using assms(3) by (simp add: placed_def meta_server k)
    moreover have "sync_once st pns cns n w = (None, \<lparr>pw_provider = Some ?p, pw_consumer = Some ?c\<rparr>)"
      unfolding run Some using assms(5) Some by (simp add: pair_defs make_owner_simps Let_def)
    moreover have "essence ?p = make_owner OwnerConsumer (essence c)"
      using assms(3) essence_eq_iff [of pns p "make_owner OwnerConsumer c"] unfolding k by simp
    moreover have "\<not> deleting (u_Meta ?p)"
      using assms(3,6) Some by (simp add: meta_server not_deleting_def k)
    ultimately show ?thesis using c by auto
  qed
qed

lemma gone_step:
  assumes "pns = '''' \<longrightarrow> cns = ''''" and "placed pns cns n w"
    and "determineOwner (pw_provider w) (pw_consumer w) = Inr ow" and "owner_copy ow w = None"
  shows "sync_once st pns cns n w = (None, \<lparr>pw_provider = None, pw_consumer = None\<rparr>)"
  using run_sync [OF assms(1-3), of st] assms(4) stored_placed [OF assms(2)]
  by (cases ow; cases w) (auto simp: owner_copy_def pair_defs stored_at_def)

lemma provider_follows:
  assumes "pns = '''' \<longrightarrow> cns = ''''" and "placed pns cns n w"
    and "server st" and "determineOwner (pw_provider w) (pw_consumer w) = Inr OwnerProvider"
    and "pw_provider w = Some p" and "\<not> deleting (u_Meta p)"
  shows "\<exists>w1 w2. sync_once st pns cns n w = (None, w1) \<and> sync_once st pns cns n w1 = (None, w2) \<and>
    placed pns cns n w2 \<and> in_sync OwnerProvider (wanted OwnerProvider w) w2 \<and> not_deleting w2"
proof -
  from provider_step [OF assms]
  obtain p1 c1 where 1: "sync_once st pns cns n w = (None, \<lparr>pw_provider = Some p1, pw_consumer = Some c1\<rparr>)"
    "placed pns cns n \<lparr>pw_provider = Some p1, pw_consumer = Some c1\<rparr>"
    "essence p1 = make_owner OwnerProvider (essence p)" "\<not> deleting (u_Meta p1)" by blast
  have lab: "owner_label p1 = Owner_String OwnerProvider" using 1(3) by (metis essence_simps(1) owner_labelled)
  then have "determineOwner (Some p1) (Some c1) = Inr OwnerProvider"
    using label_owner_iff [of "owner_label p1" OwnerProvider] by (simp add: determineOwner_def)
  from provider_step [OF assms(1) 1(2) assms(3), of p1] this 1(4)
  obtain p2 c2 where 2: "sync_once st pns cns n \<lparr>pw_provider = Some p1, pw_consumer = Some c1\<rparr> =
      (None, \<lparr>pw_provider = Some p2, pw_consumer = Some c2\<rparr>)"
    "placed pns cns n \<lparr>pw_provider = Some p2, pw_consumer = Some c2\<rparr>"
    "essence p2 = make_owner OwnerProvider (essence p1)" "\<not> deleting (u_Meta p2)" "essence c2 = essence p1"
    by auto
  have "essence p2 = essence p1" using 2(3) lab by (simp add: make_owner_same)
  then have "in_sync OwnerProvider (wanted OwnerProvider w) \<lparr>pw_provider = Some p2, pw_consumer = Some c2\<rparr>"
    using assms(5) 1(3) 2(5) by (simp add: in_sync_def wanted_def owner_copy_def owner_labelled)
  with 1(1) 2(1,2,4) show ?thesis by (auto simp: not_deleting_def)
qed

text \<open>
  C2. Claimed objects converge. Let the two copies stand in their namespaces, the labels name an
  owner, and the provider's copy not be deleting. Two reconciliations without an error bring both
  clusters to the owner's object: same API version, kind, payload and name, its annotations (kcp's
  cluster annotation apart) and labels (kcp's claim labels apart), labelled with the owner; or to no
  object if the owner's copy is gone. A third reconciliation changes nothing.
\<close>

theorem claimed_converges:
  assumes "pns = '''' \<longrightarrow> cns = ''''" and "placed pns cns n w" and "server st" and "not_deleting w"
    and "owns ow (pw_provider w) (pw_consumer w)"
  shows "\<exists>w1 w2. sync_once st pns cns n w = (None, w1) \<and> sync_once st pns cns n w1 = (None, w2) \<and>
    placed pns cns n w2 \<and> both_follow ow (owner_copy ow w) w2 \<and> sync_once st pns cns n w2 = (None, w2)"
proof -
  have own: "determineOwner (pw_provider w) (pw_consumer w) = Inr ow" using assms(5) by (simp add: determineOwner_iff)
  have stable: "sync_once st pns cns n w' = (None, w') \<and> both_follow ow (owner_copy ow w) w'"
    if "placed pns cns n w'" "in_sync ow (wanted ow w) w'" "not_deleting w'" for w'
    using sync_stable [OF assms(1) that] in_sync_follow [OF that(2)] by blast
  then have finish: ?thesis if "sync_once st pns cns n w = (None, w1)" "placed pns cns n w1"
    "in_sync ow (wanted ow w) w1" "not_deleting w1" for w1
    using that by blast
  show ?thesis
  proof (cases "owner_copy ow w")
    case None
    show ?thesis
      by (rule finish [OF gone_step [OF assms(1,2) own None]])
        (simp_all add: placed_def in_sync_def wanted_def None not_deleting_def)
  next
    case (Some o')
    show ?thesis
    proof (cases ow)
      case OwnerProvider
      then have "pw_provider w = Some o'" using Some by (simp add: owner_copy_def)
      moreover have "\<not> deleting (u_Meta o')" using assms(4) calculation by (simp add: not_deleting_def)
      ultimately show ?thesis
        using provider_follows [OF assms(1-3)] own stable OwnerProvider by blast
    next
      case OwnerConsumer
      then have c: "pw_consumer w = Some o'" using Some by (simp add: owner_copy_def)
      from consumer_step [OF assms(1-3) _ c assms(4)] own OwnerConsumer
      obtain p1 c1 where 1: "sync_once st pns cns n w = (None, \<lparr>pw_provider = Some p1, pw_consumer = Some c1\<rparr>)"
        "placed pns cns n \<lparr>pw_provider = Some p1, pw_consumer = Some c1\<rparr>"
        "essence c1 = make_owner ow (essence o')" "essence p1 = make_owner ow (essence o')" "\<not> deleting (u_Meta p1)"
        by blast
      show ?thesis
        by (rule finish [OF 1(1,2)]) (use 1(3-) Some in
            \<open>simp_all add: in_sync_def wanted_def owner_labelled not_deleting_def\<close>)
    qed
  qed
qed

section \<open>The calls of a reconciliation\<close>

datatype event =
    EvGetServiceNamespace string "go_error + APIServiceNamespace"
  | EvGetObject Owner string string "go_error + unstructured"
  | EvWrite Owner unstructured
  | EvDelete Owner string string

text \<open>Requests to the provider and to the consumer cluster carry that side in the event.\<close>

definition traced :: "'w readReconciler \<Rightarrow> ('w \<times> event list) readReconciler" where
  "traced r = \<lparr>
     getServiceNamespace = (\<lambda>n. logged (EvGetServiceNamespace n) (getServiceNamespace r n)),
     getProviderObject = (\<lambda>ns n. logged (EvGetObject OwnerProvider ns n) (getProviderObject r ns n)),
     createProviderObject = (\<lambda>u. logged (\<lambda>_. EvWrite OwnerProvider u) (createProviderObject r u)),
     updateProviderObject = (\<lambda>u. logged (\<lambda>_. EvWrite OwnerProvider u) (updateProviderObject r u)),
     deleteProviderObject = (\<lambda>ns n. logged (\<lambda>_. EvDelete OwnerProvider ns n) (deleteProviderObject r ns n)),
     getConsumerObject = (\<lambda>ns n. logged (EvGetObject OwnerConsumer ns n) (getConsumerObject r ns n)),
     updateConsumerObject = (\<lambda>u. logged (\<lambda>_. EvWrite OwnerConsumer u) (updateConsumerObject r u)),
     createConsumerObject = (\<lambda>u. logged (\<lambda>_. EvWrite OwnerConsumer u) (createConsumerObject r u)),
     deleteConsumerObject = (\<lambda>ns n. logged (\<lambda>_. EvDelete OwnerConsumer ns n) (deleteConsumerObject r ns n))\<rparr>"

lemma claimed_traced_simps [simp]:
  "getServiceNamespace (traced r) n = logged (EvGetServiceNamespace n) (getServiceNamespace r n)"
  "getProviderObject (traced r) ns n = logged (EvGetObject OwnerProvider ns n) (getProviderObject r ns n)"
  "createProviderObject (traced r) u = logged (\<lambda>_. EvWrite OwnerProvider u) (createProviderObject r u)"
  "updateProviderObject (traced r) u = logged (\<lambda>_. EvWrite OwnerProvider u) (updateProviderObject r u)"
  "deleteProviderObject (traced r) ns n = logged (\<lambda>_. EvDelete OwnerProvider ns n) (deleteProviderObject r ns n)"
  "getConsumerObject (traced r) ns n = logged (EvGetObject OwnerConsumer ns n) (getConsumerObject r ns n)"
  "updateConsumerObject (traced r) u = logged (\<lambda>_. EvWrite OwnerConsumer u) (updateConsumerObject r u)"
  "createConsumerObject (traced r) u = logged (\<lambda>_. EvWrite OwnerConsumer u) (createConsumerObject r u)"
  "deleteConsumerObject (traced r) ns n = logged (\<lambda>_. EvDelete OwnerConsumer ns n) (deleteConsumerObject r ns n)"
  by (simp_all add: traced_def)

text \<open>What the reconciler has seen of both copies: their namespaces, states and owner.\<close>

definition side_namespace :: "string \<Rightarrow> event list \<Rightarrow> Owner \<Rightarrow> string \<Rightarrow> bool" where
  "side_namespace pns h side ns \<longleftrightarrow>
     (case side of
        OwnerProvider \<Rightarrow> ns = pns
      | OwnerConsumer \<Rightarrow> (if pns = '''' then ns = ''''
          else \<exists>sn. EvGetServiceNamespace pns (Inr sn) \<in> set h \<and> sn_StatusNamespace sn \<noteq> '''' \<and> om_Name (sn_Meta sn) = ns))"

definition seen :: "string \<Rightarrow> string \<Rightarrow> event list \<Rightarrow> (Owner \<Rightarrow> unstructured option) \<Rightarrow> bool" where
  "seen pns n h copy \<longleftrightarrow> (\<forall>side. \<exists>ns g. side_namespace pns h side ns \<and> EvGetObject side ns n g \<in> set h \<and>
     (case copy side of Some u \<Rightarrow> g = Inr u | None \<Rightarrow> \<exists>e. g = Inl e \<and> IsNotFound e))"

lemma found_iff: "found g = Inr x \<longleftrightarrow> (case x of Some u \<Rightarrow> g = Inr u | None \<Rightarrow> \<exists>e. g = Inl e \<and> IsNotFound e)"
  by (auto simp: found_def split: sum.splits option.splits)

text \<open>
  What may be written: to the owner's side the owner's own copy with its owner label set and nothing
  else changed; to the other side an object with the owner's payload, name, annotations and labels
  (without those that belong to one cluster), and none of the metadata that a server assigns.
\<close>

definition only_labelled :: "Owner \<Rightarrow> unstructured \<Rightarrow> unstructured \<Rightarrow> bool" where
  "only_labelled ow o' u \<longleftrightarrow> u = o'\<lparr>u_Meta := (u_Meta o')\<lparr>om_Labels :=
     fmupd ''kube-bind.io/owner'' (owner_word ow) (om_Labels (u_Meta o'))\<rparr>\<rparr>"

definition clean_copy :: "Owner \<Rightarrow> unstructured \<Rightarrow> unstructured \<Rightarrow> bool" where
  "clean_copy ow o' u \<longleftrightarrow> u_APIVersion u = u_APIVersion o' \<and> u_Kind u = u_Kind o' \<and> u_Fields u = u_Fields o' \<and>
     (let m = u_Meta u; m' = u_Meta o'
      in om_Name m = om_Name m' \<and> om_Generation m = om_Generation m' \<and> om_UID m = '''' \<and> om_ResourceVersion m = '''' \<and>
         om_CreationTimestamp m = 0 \<and> om_DeletionTimestamp m = None \<and> om_DeletionGracePeriodSeconds m = None \<and>
         om_OwnerReferences m = [] \<and> om_Finalizers m = [] \<and> om_ManagedFields m = [] \<and>
         (\<forall>k. fmlookup (om_Annotations m) k =
            (if Contains k ''kcp.io/cluster'' then None else fmlookup (om_Annotations m') k)) \<and>
         label_at u ''kube-bind.io/owner'' \<in> {Some (owner_word ow), label_at o' ''kube-bind.io/owner''} \<and>
         (\<forall>k. k \<noteq> ''kube-bind.io/owner'' \<longrightarrow>
            label_at u k = (if Contains k ''claimed.internal.apis.kcp.io'' then None else label_at o' k)))"

lemma only_labelled_make_owner: "only_labelled ow o' (make_owner ow o')"
  by (simp add: only_labelled_def make_owner_unfold set_labels_def owner_word_label ObjectOwnerLabel_def)

lemma clean_candidate:
  "clean_copy ow o' (candidateFromOwnerObj ns o')"
  "clean_copy ow o' (make_owner ow (candidateFromOwnerObj ns o'))"
  using owner_key_kept unfolding clean_copy_def Let_def owner_word_label ObjectOwnerLabel_def [symmetric]
  by (simp_all add: make_owner_unfold set_labels_def candidateFromOwnerObj_def label_at_def)

text \<open>
  The owner's copy is never deleted and only ever labelled with its owner; the other copy gets the
  content of the owner's, in its own namespace, and is deleted only if the owner's copy is gone or
  being deleted.
\<close>

fun policy :: "string \<Rightarrow> string \<Rightarrow> event list \<Rightarrow> event \<Rightarrow> bool" where
  "policy pns n h (EvWrite side u) \<longleftrightarrow>
     (\<exists>copy ow o'. seen pns n h copy \<and> owns ow (copy OwnerProvider) (copy OwnerConsumer) \<and>
        copy ow = Some o' \<and>
        (if side = ow then only_labelled ow o' u
         else clean_copy ow o' u \<and> side_namespace pns h side (om_Namespace (u_Meta u))))"
| "policy pns n h (EvDelete side ns m) \<longleftrightarrow>
     (\<exists>copy ow. seen pns n h copy \<and> owns ow (copy OwnerProvider) (copy OwnerConsumer) \<and>
        side \<noteq> ow \<and> side_namespace pns h side ns \<and>
        (case copy ow of None \<Rightarrow> m = n | Some o' \<Rightarrow> m = om_Name (u_Meta o') \<and> deleting (u_Meta o')))"
| "policy pns n h (EvGetServiceNamespace m g) \<longleftrightarrow> m = pns"
| "policy pns n h (EvGetObject side ns m g) \<longleftrightarrow> m = n \<and> side_namespace pns h side ns"

definition copies :: "unstructured option \<Rightarrow> unstructured option \<Rightarrow> Owner \<Rightarrow> unstructured option" where
  "copies p c side = (case side of OwnerProvider \<Rightarrow> p | OwnerConsumer \<Rightarrow> c)"

lemma copies_simps [simp]: "copies p c OwnerProvider = p" "copies p c OwnerConsumer = c"
  by (simp_all add: copies_def)

lemma side_namespace_mono: "side_namespace pns h side ns \<Longrightarrow> side_namespace pns (h @ us) side ns"
  by (auto simp: side_namespace_def split: Owner.splits if_splits)

lemma seen_mono: "seen pns n h copy \<Longrightarrow> seen pns n (h @ us) copy"
  unfolding seen_def using side_namespace_mono by fastforce

lemma claimed_policy_write:
  assumes "seen pns n h (copies p c)" and "determineOwner p c = Inr ow" and "copies p c ow = Some o'"
  shows "policy pns n h (EvWrite ow (make_owner ow o'))"
    and "side \<noteq> ow \<Longrightarrow> clean_copy ow o' u \<Longrightarrow>
      side_namespace pns h side (om_Namespace (u_Meta u)) \<Longrightarrow> policy pns n h (EvWrite side u)"
  using assms by (auto intro!: exI [of _ "copies p c"] simp: determineOwner_iff only_labelled_make_owner)

lemma claimed_policy_delete:
  assumes "seen pns n h (copies p c)" and "determineOwner p c = Inr ow" and "side \<noteq> ow"
    and "side_namespace pns h side ns" and "case copies p c ow of None \<Rightarrow> m = n | Some o' \<Rightarrow> m = u_Name o' \<and> deleting (u_Meta o')"
  shows "policy pns n h (EvDelete side ns m)"
  using assms by (auto intro!: exI [of _ "copies p c"] simp: determineOwner_iff u_Name_def split: option.splits)

lemma cand_make_owner_once: "make_owner ow (candidateFromOwnerObj ns (make_owner ow u)) = make_owner ow (candidateFromOwnerObj ns u)"
  by (simp add: candidate_make_owner make_owner_same owner_labelled)

lemma sync_owned_policy:
  assumes "guarded (policy pns n) [] tr" and "seen pns n tr (copies p c)" and "side_namespace pns tr OwnerConsumer cns"
  shows "determineOwner p c = Inr OwnerProvider \<Longrightarrow>
      wp (sync_provider_owned (traced r) cns n p c) (\<lambda>_ (w, tr). guarded (policy pns n) [] tr) (w, tr)"
    and "determineOwner p c = Inr OwnerConsumer \<Longrightarrow>
      wp (sync_consumer_owned (traced r) pns n p c) (\<lambda>_ (w, tr). guarded (policy pns n) [] tr) (w, tr)"
proof -
  show "wp (sync_provider_owned (traced r) cns n p c) (\<lambda>_ (w, tr). guarded (policy pns n) [] tr) (w, tr)"
    if "determineOwner p c = Inr OwnerProvider"
    using assms that unfolding sync_provider_owned_def claimed_traced_simps make_owner_simps
    by (intro wp_intros) (auto simp del: append_assoc policy.simps intro: seen_mono side_namespace_mono clean_candidate
        intro!: claimed_policy_write [where p = p and c = c] claimed_policy_delete [where p = p and c = c and ow = OwnerProvider])
  have "side_namespace pns h OwnerProvider pns" for h by (simp add: side_namespace_def)
  then show "wp (sync_consumer_owned (traced r) pns n p c) (\<lambda>_ (w, tr). guarded (policy pns n) [] tr) (w, tr)"
    if "determineOwner p c = Inr OwnerConsumer"
    using assms that unfolding sync_consumer_owned_def claimed_traced_simps make_owner_simps
    by (intro wp_intros) (auto simp del: append_assoc policy.simps intro: seen_mono
        simp: cand_make_owner_once clean_candidate
        intro!: claimed_policy_write [where p = p and c = c] claimed_policy_delete [where p = p and c = c and ow = OwnerConsumer])
qed

lemma seen_both:
  assumes "side_namespace pns h OwnerProvider pns" and "side_namespace pns h OwnerConsumer cns"
    and "EvGetObject OwnerProvider pns n g \<in> set h" and "EvGetObject OwnerConsumer cns n g' \<in> set h"
    and "found g = Inr p" and "found g' = Inr c"
  shows "seen pns n h (copies p c)"
  unfolding seen_def found_iff [symmetric] by (rule allI, rename_tac side, case_tac side) (use assms in auto)

lemma sync_claimed_policy:
  assumes "guarded (policy pns n) [] tr" and "side_namespace pns tr OwnerConsumer cns"
  shows "wp (sync_claimed (traced r) pns cns n) (\<lambda>_ (w, tr). guarded (policy pns n) [] tr) (w, tr)"
proof -
  let ?t1 = "\<lambda>g. tr @ [EvGetObject OwnerProvider pns n g]"
  let ?t2 = "\<lambda>g g'. ?t1 g @ [EvGetObject OwnerConsumer cns n g']"
  have prov: "side_namespace pns h OwnerProvider pns" for h by (simp add: side_namespace_def)
  have cons: "side_namespace pns (?t1 g) OwnerConsumer cns" "side_namespace pns (?t2 g g') OwnerConsumer cns" for g g'
    using side_namespace_mono [OF assms(2)] by simp_all
  have ok: "guarded (policy pns n) [] (?t1 g)" "guarded (policy pns n) [] (?t2 g g')" for g g'
    using assms(1) prov cons by (auto simp del: append_assoc)
  have "seen pns n (?t2 g g') (copies p c)" if "found g = Inr p" "found g' = Inr c" for g g' p c
    by (rule seen_both [OF prov cons(2) _ _ that]) simp_all
  note owned = sync_owned_policy [OF ok(2) this cons(2)]
  show ?thesis unfolding sync_claimed_def claimed_traced_simps
    by (intro wp_bind wp_logged wp_sum wp_if wp_return)
      (auto simp del: append_assoc guarded_snoc simp: ok owned intro!: wp_return split: sum.split Owner.split)
qed

text \<open>
  C19. Whatever both clusters answer, a reconciliation of a claimed object respects the owner that
  its labels name. The owner's copy is never deleted, and is only written as it was read with the
  owner label set. The other copy is only given the owner's API version, kind, payload, name,
  annotations and labels, without what belongs to one cluster (UID, resource version, timestamps,
  owner references, finalizers, managed fields, kcp's cluster annotation and claim labels), in the
  namespace that belongs to it; and it is deleted only if the owner's copy is missing or being
  deleted.
\<close>

theorem claimed_owner_respected:
  assumes "run_state (reconcile (traced r) pns n) (w, []) = (res, (w', tr))"
  shows "guarded (policy pns n) [] tr"
proof -
  have "wp (reconcile (traced r) pns n) (\<lambda>_ (w, tr). guarded (policy pns n) [] tr) (w, [])"
  proof (cases "pns = ''''")
    case True
    then show ?thesis
      using sync_claimed_policy [of "''''" n "[]" "''''" r w] by (simp add: reconcile_def side_namespace_def)
  next
    case False
    then show ?thesis unfolding reconcile_def claimed_traced_simps
      by (intro wp_intros sync_claimed_policy) (auto simp: side_namespace_def)
  qed
  from wpD [OF this assms] show ?thesis by simp
qed

text \<open>A configmap of the provider without a copy at the consumer.\<close>

definition example_object :: unstructured where
  "example_object = zero_unstructured\<lparr>u_Kind := ''ConfigMap'',
     u_Meta := zero_ObjectMeta\<lparr>om_Name := ''cm'', om_Namespace := ''up'', om_UID := ''u1''\<rparr>\<rparr>"

definition example_pair :: pair_world where
  "example_pair = \<lparr>pw_provider = Some example_object, pw_consumer = None\<rparr>"

definition example_trace :: "event list" where
  "example_trace = snd (snd (run_state (reconcile (traced (pair_reconciler (\<lambda>u. u) ''ns'')) ''up'' ''cm'') (example_pair, [])))"

theorem claimed_owner_respected_witness:
  "guarded (policy ''up'' ''cm'') [] example_trace \<and> length example_trace = 5"
proof
  show "guarded (policy ''up'' ''cm'') [] example_trace"
    using claimed_owner_respected [of "pair_reconciler (\<lambda>u. u) ''ns''" "''up''" "''cm''" example_pair]
    unfolding example_trace_def by (metis prod.collapse)
  show "length example_trace = 5" by code_simp
qed

theorem claimed_converges_witness:
  "\<exists>w1 w2. sync_once (\<lambda>u. u) ''up'' ''ns'' ''cm'' example_pair = (None, w1) \<and>
     sync_once (\<lambda>u. u) ''up'' ''ns'' ''cm'' w1 = (None, w2) \<and> placed ''up'' ''ns'' ''cm'' w2 \<and>
     both_follow OwnerProvider (Some example_object) w2"
proof -
  have "server (\<lambda>u. u)" by (simp add: server_def alike_def same_payload_def)
  moreover have "not_deleting example_pair" "placed ''up'' ''ns'' ''cm'' example_pair"
    by (simp_all add: not_deleting_def placed_def example_pair_def example_object_def
        zero_unstructured_def zero_ObjectMeta_def deleting_def)
  moreover have "owns OwnerProvider (pw_provider example_pair) (pw_consumer example_pair)" by code_simp
  moreover have "owner_copy OwnerProvider example_pair = Some example_object"
    by (simp add: owner_copy_def example_pair_def)
  ultimately show ?thesis
    using claimed_converges [of "''up''" "''ns''" "''cm''" example_pair "\<lambda>u. u" OwnerProvider] by auto
qed

text \<open>
  An object of the provider that is being deleted, but still has finalizers, is created again at
  the consumer whenever its copy there is gone.
\<close>

lemma deleted_object_recreated:
  assumes "deleting (u_Meta p)" and "owner_label p = Owner_String OwnerProvider" and "pns \<noteq> ''''"
    and "u_Namespace p = pns" and "u_Name p = n"
  shows "\<exists>c. sync_once st pns cns n \<lparr>pw_provider = Some p, pw_consumer = None\<rparr> =
    (None, \<lparr>pw_provider = Some p, pw_consumer = Some c\<rparr>)"
proof -
  have own: "determineOwner (Some p) None = Inr OwnerProvider"
    using assms(2) label_owner_iff [of "owner_label p" OwnerProvider] by (simp add: determineOwner_def)
  have "placed pns cns n \<lparr>pw_provider = Some p, pw_consumer = None\<rparr>"
    using assms(4,5) by (simp add: placed_def u_Namespace_def u_Name_def)
  from run_sync [OF _ this, of OwnerProvider st] show ?thesis
    using own assms(2,3) by (simp add: pair_defs make_owner_simps make_owner_same)
qed

section \<open>Claims\<close>

text \<open>
  An object is claimed exactly if each criterion the selector has applies to it: the label
  selector, if any, is valid and matches its labels, and the list of named resources, if not empty,
  has an entry with its name and with its namespace or none.
\<close>

lemma IsClaimed_iff:
  "IsClaimed asSelector selector (Some obj) \<longleftrightarrow>
     (case sel_LabelSelector selector of None \<Rightarrow> True
      | Some ls \<Rightarrow> \<exists>m. asSelector ls = Inr m \<and> m (om_Labels (u_Meta obj))) \<and>
     (sel_NamedResources selector = [] \<or>
      (\<exists>nr. nr \<in> set (sel_NamedResources selector) \<and> nr_Name nr = u_Name obj \<and>
            (nr_Namespace nr = '''' \<or> nr_Namespace nr = u_Namespace obj)))"
proof -
  have "named_match nrs obj \<longleftrightarrow> (\<exists>nr. nr \<in> set nrs \<and> nr_Name nr = u_Name obj \<and>
      (nr_Namespace nr = '''' \<or> nr_Namespace nr = u_Namespace obj))" for nrs
    by (induction nrs) auto
  then show ?thesis by (auto simp: IsClaimed_def split: option.splits sum.splits)
qed
end
