(* ===== verification/Claimed_Namespaces.thy ===== *)
theory Claimed_Namespaces
  imports Claimed_Resources
begin

text \<open>
  The controller that creates APIServiceNamespaces for claimed objects of the consumer
  (\<open>cluster/claimedresourcesnamespaces\<close>) and tells the controller of claimed resources about them.
  Waiting for the status polls until the context is cancelled; how many polls that allows is a
  parameter. The channel accepts a key or is full, which the world decides.
\<close>

record ('w, 'e) ns_controller =
  n_claim :: PermissionClaim
  n_apiServiceExport :: APIServiceExport
  n_providerNamespace :: string
  n_asSelector :: as_selector
  n_eventObject :: "'e \<Rightarrow> unstructured option"
  n_keys :: "'e cache_keys"
  n_queue :: "'w queue"
  n_serviceNamespace_Get :: "string \<Rightarrow> string \<Rightarrow> ('w, APIServiceNamespace) call"
  n_serviceNamespace_Create :: "string \<Rightarrow> APIServiceNamespace \<Rightarrow> ('w, APIServiceNamespace) call"
  n_trySend :: "string \<Rightarrow> ('w, unit) io"

definition ns_isClaimed :: "('w, 'e) ns_controller \<Rightarrow> unstructured \<Rightarrow> bool" where
  "ns_isClaimed c obj = IsClaimed (n_asSelector c) (pc_Selector (n_claim c)) (Some obj)"

definition ns_enqueueConsumer :: "('w, 'e) ns_controller \<Rightarrow> 'e \<Rightarrow> ('w, unit) io" where
  "ns_enqueueConsumer c obj =
     (case n_eventObject c obj of
        None \<Rightarrow> State_Monad.return ()
      | Some o' \<Rightarrow>
          (if \<not> ns_isClaimed c o' then State_Monad.return ()
           else if u_Namespace o' = '''' then State_Monad.return ()
           else do {
             g \<leftarrow> n_serviceNamespace_Get c (n_providerNamespace c) (u_Namespace o');
             (case g of
                Inr _ \<Rightarrow> State_Monad.return ()
              | Inl e \<Rightarrow>
                  (if IsNotFound e then
                     (case ck_Key (n_keys c) (u_Meta o') of
                        Inl _ \<Rightarrow> State_Monad.return ()
                      | Inr key \<Rightarrow> q_Add (n_queue c) key)
                   else State_Monad.return ())) }))"

definition claimed_service_namespace :: "('w, 'e) ns_controller \<Rightarrow> string \<Rightarrow> APIServiceNamespace" where
  "claimed_service_namespace c ns =
     \<lparr>sn_Meta = zero_ObjectMeta\<lparr>om_Name := ns, om_Namespace := n_providerNamespace c,
        om_OwnerReferences := [NewControllerRef (ex_Meta (n_apiServiceExport c)) SchemeGroupVersion ''APIServiceExport'']\<rparr>,
      sn_StatusNamespace = ''''\<rparr>"

definition createServiceNamespace :: "('w, 'e) ns_controller \<Rightarrow> APIServiceNamespace \<Rightarrow> ('w, APIServiceNamespace) call" where
  "createServiceNamespace c sns = n_serviceNamespace_Create c (om_Namespace (sn_Meta sns)) sns"

text \<open>\<open>wait.PollUntilContextCancel\<close> with an immediate first poll: \<open>polls\<close> polls, then the context's error.\<close>

fun poll_ready :: "('w, 'e) ns_controller \<Rightarrow> string \<Rightarrow> nat \<Rightarrow> ('w, err) io" where
  "poll_ready c ns 0 = State_Monad.return (Some (Errorf ''context canceled'' None))"
| "poll_ready c ns (Suc polls) = do {
     g \<leftarrow> n_serviceNamespace_Get c (n_providerNamespace c) ns;
     (case g of
        Inl e \<Rightarrow> (if IsNotFound e then poll_ready c ns polls else State_Monad.return (Some e))
      | Inr sns \<Rightarrow> (if sn_StatusNamespace sns \<noteq> '''' then State_Monad.return None else poll_ready c ns polls)) }"

definition ensureServiceNamespace :: "('w, 'e) ns_controller \<Rightarrow> nat \<Rightarrow> string \<Rightarrow> ('w, bool) call" where
  "ensureServiceNamespace c polls ns = do {
     g \<leftarrow> n_serviceNamespace_Get c (n_providerNamespace c) ns;
     (case g of
        Inr _ \<Rightarrow> State_Monad.return (Inr False)
      | Inl e \<Rightarrow>
          (if \<not> IsNotFound e then State_Monad.return (Inl e)
           else do {
             k \<leftarrow> createServiceNamespace c (claimed_service_namespace c ns);
             (case (case k of Inl e' \<Rightarrow> (if IsAlreadyExists e' then None else Some e') | Inr _ \<Rightarrow> None) of
                Some e' \<Rightarrow> State_Monad.return (Inl (Errorf (''failed to create APIServiceNamespace '' @ ns) (Some e')))
              | None \<Rightarrow> do {
                  p \<leftarrow> poll_ready c ns polls;
                  State_Monad.return
                    (case p of
                       Some e' \<Rightarrow> Inl (Errorf (''failed to wait for APIServiceNamespace '' @ ns @ '' to be ready'') (Some e'))
                     | None \<Rightarrow> Inr True) }) })) }"

definition ns_process :: "('w, 'e) ns_controller \<Rightarrow> nat \<Rightarrow> string \<Rightarrow> ('w, err) io" where
  "ns_process c polls key =
     (case ck_Split (n_keys c) key of
        Inl _ \<Rightarrow> State_Monad.return None
      | Inr (ns, _) \<Rightarrow>
          (if ns = '''' then State_Monad.return None
           else do {
             g \<leftarrow> ensureServiceNamespace c polls ns;
             (case g of
                Inl e \<Rightarrow> State_Monad.return (Some e)
              | Inr created \<Rightarrow>
                  (if created then do { n_trySend c key; State_Monad.return None } else State_Monad.return None)) }))"

section \<open>Waiting ends\<close>

text \<open>The namespace is assigned at the poll of the given number, counted from 0, as seen from a world.\<close>

fun ready_after :: "('w, 'e) ns_controller \<Rightarrow> string \<Rightarrow> nat \<Rightarrow> 'w \<Rightarrow> bool" where
  "ready_after c ns 0 w =
     (case run_state (n_serviceNamespace_Get c (n_providerNamespace c) ns) w of
        (Inl e, _) \<Rightarrow> False
      | (Inr sns, _) \<Rightarrow> sn_StatusNamespace sns \<noteq> '''')"
| "ready_after c ns (Suc k) w =
     (case run_state (n_serviceNamespace_Get c (n_providerNamespace c) ns) w of
        (Inl e, w') \<Rightarrow> IsNotFound e \<and> ready_after c ns k w'
      | (Inr sns, w') \<Rightarrow> sn_StatusNamespace sns = '''' \<and> ready_after c ns k w')"

lemma poll_ready_ends: "ready_after c ns k w \<Longrightarrow> k < polls \<Longrightarrow> fst (run_state (poll_ready c ns polls) w) = None"
proof (induction k arbitrary: w polls)
  case 0
  then show ?case by (cases polls) (auto split: prod.splits sum.splits)
next
  case (Suc k)
  then obtain polls' where "polls = Suc polls'" "k < polls'" by (cases polls) auto
  with Suc show ?case by (auto split: prod.splits sum.splits)
qed


text \<open>
  A world that counts the lookups, with the status set at the third, and records what is sent.
\<close>

definition example_ns_controller :: "(nat \<times> string list, ObjectMeta) ns_controller" where
  "example_ns_controller = \<lparr>
     n_claim = \<lparr>pc_GroupResource = \<lparr>gr_Group = '''', gr_Resource = ''configmaps''\<rparr>,
       pc_Selector = \<lparr>sel_NamedResources = [], sel_LabelSelector = None\<rparr>\<rparr>,
     n_apiServiceExport = \<lparr>ex_Kind = ''APIServiceExport'', ex_Meta = zero_ObjectMeta, ex_Spec = \<lparr>exs_Resources = [], exs_PermissionClaims = [],
       exs_InformerScope = ClusterScope, exs_ClusterScopedIsolation = IsolationPrefixed\<rparr>, ex_Conditions = []\<rparr>,
     n_providerNamespace = ''pns'', n_asSelector = (\<lambda>_. Inr (\<lambda>_. True)), n_eventObject = (\<lambda>_. None),
     n_keys = example_keys,
     n_queue = \<lparr>q_Add = (\<lambda>_. State_Monad.return ()), q_AddAfter = (\<lambda>_ _. State_Monad.return ())\<rparr>,
     n_serviceNamespace_Get = (\<lambda>_ n. State (\<lambda>(i, s).
       (if i < 2 then Inl (StatusError ReasonNotFound n)
        else Inr \<lparr>sn_Meta = zero_ObjectMeta\<lparr>om_Name := n\<rparr>, sn_StatusNamespace = ''up''\<rparr>, (Suc i, s)))),
     n_serviceNamespace_Create = (\<lambda>_ sns. State_Monad.return (Inr sns)),
     n_trySend = (\<lambda>k. State (\<lambda>(i, s). ((), (i, s @ [k]))))\<rparr>"


end
