(* ===== verification/Konnector.thy ===== *)
theory Konnector
  imports Kube_Client Committer
begin

text \<open>
  The konnector proper: the reconciler that runs one cluster controller per kubeconfig and shares it
  among the APIServiceBindings with that kubeconfig (\<open>konnector_reconcile.go\<close>,
  \<open>konnector_controller.go\<close>), and the controller that reports whether the kubeconfig secret of a
  binding is valid (\<open>controllers/servicebinding\<close>). Parsing of kubeconfigs belongs to client-go and is
  a parameter, as are the creation and the start of a cluster controller.
\<close>

section \<open>Secrets and kubeconfigs\<close>

record Secret =
  sec_Meta :: ObjectMeta
  sec_Data :: "(string, string) fmap"
  sec_Type :: string

text \<open>The contexts of a kubeconfig, each with its namespace.\<close>

record kube_config =
  kc_CurrentContext :: string
  kc_Contexts :: "(string, string) fmap"

record kubeconfig_api =
  ka_Load :: "string \<Rightarrow> go_error + kube_config"
  ka_RESTConfig :: "string \<Rightarrow> err"

text \<open>The namespace of a kubeconfig that passes all checks.\<close>

definition usable_namespace :: "kubeconfig_api \<Rightarrow> string \<Rightarrow> string option" where
  "usable_namespace api kubeconfig =
     (case ka_Load api kubeconfig of
        Inl _ \<Rightarrow> None
      | Inr cfg \<Rightarrow>
          (case fmlookup (kc_Contexts cfg) (kc_CurrentContext cfg) of
             None \<Rightarrow> None
           | Some ns \<Rightarrow>
               (if ns = '''' then None
                else case ka_RESTConfig api kubeconfig of Some _ \<Rightarrow> None | None \<Rightarrow> Some ns)))"

section \<open>Validity of the secret\<close>

record 'w secret_reconciler =
  sr_getConsumerSecret :: "string \<Rightarrow> string \<Rightarrow> ('w, Secret) call"
  sr_api :: kubeconfig_api

text \<open>The verb \<open>%q\<close> for printable strings.\<close>

definition quoted :: "string \<Rightarrow> string" where
  "quoted s = CHR 0x22 # concat (map (\<lambda>c. if c = CHR 0x22 \<or> c = CHR 0x5C then [CHR 0x5C, c] else [c]) s) @ [CHR 0x22]"

definition mark_secret :: "time \<Rightarrow> APIServiceBinding \<Rightarrow> string \<Rightarrow> string \<Rightarrow> APIServiceBinding" where
  "mark_secret now b reason message =
     MarkFalse APIServiceBinding_setter now b APIServiceBindingConditionSecretValid reason ConditionSeverityError message"

definition ensureValidKubeconfigSecret :: "'w secret_reconciler \<Rightarrow> time \<Rightarrow> APIServiceBinding \<Rightarrow>
    ('w, err \<times> APIServiceBinding) io" where
  "ensureValidKubeconfigSecret r now b =
     (let ref = bi_KubeconfigSecretRef b; ns = csk_Namespace ref; name = lsk_Name (csk_Local ref); key = lsk_Key (csk_Local ref);
          secret_name = ''Kubeconfig secret '' @ ns @ ''/'' @ name
      in do {
        g \<leftarrow> sr_getConsumerSecret r ns name;
        State_Monad.return
          (case g of
             Inl e \<Rightarrow>
               (if \<not> IsNotFound e then (Some e, b)
                else (None, mark_secret now b ''KubeconfigSecretNotFound''
                  (secret_name @ '' not found. Rerun kubectl bind for repair.'')))
           | Inr secret \<Rightarrow>
               (case fmlookup (sec_Data secret) key of
                  None \<Rightarrow> (None, mark_secret now b ''KubeconfigSecretInvalid''
                    (secret_name @ '' is missing '' @ quoted key @ '' string key.''))
                | Some kubeconfig \<Rightarrow>
                    (case ka_Load (sr_api r) kubeconfig of
                       Inl e \<Rightarrow> (None, mark_secret now b ''KubeconfigSecretInvalid''
                         (secret_name @ '' has an invalid kubeconfig: '' @ Error e))
                     | Inr cfg \<Rightarrow>
                         (case fmlookup (kc_Contexts cfg) (kc_CurrentContext cfg) of
                            None \<Rightarrow> (None, mark_secret now b ''KubeconfigSecretInvalid''
                              (secret_name @ '' has an invalid kubeconfig: current context '' @
                               quoted (kc_CurrentContext cfg) @ '' not found''))
                          | Some namespace \<Rightarrow>
                              (if namespace = '''' then (None, mark_secret now b ''KubeconfigSecretInvalid''
                                (secret_name @ '' has an invalid kubeconfig: current context '' @
                                 quoted (kc_CurrentContext cfg) @ '' has no namespace set''))
                               else case ka_RESTConfig (sr_api r) kubeconfig of
                                      Some e \<Rightarrow> (None, mark_secret now b ''KubeconfigSecretInvalid''
                                        (secret_name @ '' has an invalid kubeconfig: '' @ Error e))
                                    | None \<Rightarrow> (None, MarkTrue APIServiceBinding_setter now b
                                        APIServiceBindingConditionSecretValid)))))) })"

definition secret_reconcile :: "'w secret_reconciler \<Rightarrow> time \<Rightarrow> APIServiceBinding \<Rightarrow> ('w, err \<times> APIServiceBinding) io" where
  "secret_reconcile r now b = do {
     res \<leftarrow> ensureValidKubeconfigSecret r now b;
     State_Monad.return (NewAggregate (errs_append [] (fst res)), SetSummary APIServiceBinding_setter now (snd res) []) }"

record ('w, 'e, 'p) secret_controller =
  sc_keys :: "'e cache_keys"
  sc_queue :: "'w queue"
  sc_serviceBinding_Get :: "string \<Rightarrow> ('w, APIServiceBinding) call"
  sc_serviceBinding_BySecret :: "string \<Rightarrow> ('w, APIServiceBinding list) call"
  sc_reconciler :: "'w secret_reconciler"
  sc_committer :: "('w, ClusterSecretKeyRef, APIServiceBindingStatus, 'p) committer"

definition sc_enqueueServiceBinding :: "('w, 'e, 'p) secret_controller \<Rightarrow> 'e \<Rightarrow> ('w, unit) io" where
  "sc_enqueueServiceBinding c obj =
     (case ck_DeletionHandlingKey (sc_keys c) obj of
        Inl _ \<Rightarrow> State_Monad.return ()
      | Inr key \<Rightarrow> q_Add (sc_queue c) key)"

fun sc_enqueue_bindings :: "('w, 'e, 'p) secret_controller \<Rightarrow> APIServiceBinding list \<Rightarrow> ('w, unit) io" where
  "sc_enqueue_bindings c [] = State_Monad.return ()"
| "sc_enqueue_bindings c (b # bs) =
     (case ck_Key (sc_keys c) (bi_Meta b) of
        Inl _ \<Rightarrow> State_Monad.return ()
      | Inr key \<Rightarrow> do { q_Add (sc_queue c) key; sc_enqueue_bindings c bs })"

definition enqueueConsumerSecret :: "('w, 'e, 'p) secret_controller \<Rightarrow> 'e \<Rightarrow> ('w, unit) io" where
  "enqueueConsumerSecret c obj =
     (case ck_DeletionHandlingKey (sc_keys c) obj of
        Inl _ \<Rightarrow> State_Monad.return ()
      | Inr secretKey \<Rightarrow> do {
          g \<leftarrow> sc_serviceBinding_BySecret c secretKey;
          (case g of Inl _ \<Rightarrow> State_Monad.return () | Inr bs \<Rightarrow> sc_enqueue_bindings c bs) })"

definition binding_resource :: "APIServiceBinding \<Rightarrow> (ClusterSecretKeyRef, APIServiceBindingStatus) Resource" where
  "binding_resource b = \<lparr>rs_Meta = bi_Meta b, rs_Spec = bi_KubeconfigSecretRef b, rs_Status = bi_Status b\<rparr>"

definition secret_process :: "('w, 'e, 'p) secret_controller \<Rightarrow> time \<Rightarrow> string \<Rightarrow> ('w, err outcome) io" where
  "secret_process c now key =
     (case ck_Split (sc_keys c) key of
        Inl _ \<Rightarrow> State_Monad.return (Returns None)
      | Inr (_, name) \<Rightarrow> do {
          g \<leftarrow> sc_serviceBinding_Get c name;
          (case g of
             Inl e \<Rightarrow> State_Monad.return (Returns (if IsNotFound e then None else Some e))
           | Inr old \<Rightarrow> do {
               res \<leftarrow> secret_reconcile (sc_reconciler c) now old;
               k \<leftarrow> commit (sc_committer c) (binding_resource old) (binding_resource (snd res));
               State_Monad.return
                 (case k of
                    Panics \<Rightarrow> Panics
                  | Returns e \<Rightarrow> Returns (NewAggregate (errs_append (errs_append [] (fst res)) e))) }) })"

section \<open>Cluster controllers\<close>

text \<open>
  A \<open>controllerContext\<close> is shared by the bindings in the map, so contexts live in a heap and the map
  has their addresses; the address also stands for the cancel function. \<open>kn_started\<close> lists the
  contexts whose cluster controller was started.
\<close>

record controllerContext =
  cx_kubeconfig :: string
  cx_serviceBindings :: "string list"

record 'w konnector_state =
  kn_controllers :: "(string \<times> nat) list"
  kn_heap :: "controllerContext list"
  kn_cancelled :: "nat list"
  kn_started :: "nat list"
  kn_ext :: 'w

record 'w reconciler =
  getSecret :: "string \<Rightarrow> string \<Rightarrow> ('w, Secret) call"
  newClusterController :: "string \<Rightarrow> string \<Rightarrow> string \<Rightarrow> ('w, err) io"
  api :: kubeconfig_api

definition ext :: "('w, 'a) io \<Rightarrow> ('w konnector_state, 'a) io" where
  "ext m = State (\<lambda>s. case run_state m (kn_ext s) of (a, w) \<Rightarrow> (a, s\<lparr>kn_ext := w\<rparr>))"

definition update_context :: "nat \<Rightarrow> (controllerContext \<Rightarrow> controllerContext) \<Rightarrow> 'w konnector_state \<Rightarrow> 'w konnector_state" where
  "update_context i f s = s\<lparr>kn_heap := (kn_heap s)[i := f (kn_heap s ! i)]\<rparr>"

text \<open>Stop using a controller with an old kubeconfig.\<close>

definition leave :: "string \<Rightarrow> string \<Rightarrow> 'w konnector_state \<Rightarrow> 'w konnector_state" where
  "leave name kubeconfig s =
     (case map_of (kn_controllers s) name of
        None \<Rightarrow> s
      | Some i \<Rightarrow>
          (if cx_kubeconfig (kn_heap s ! i) = kubeconfig then s
           else
             let s1 = update_context i (\<lambda>c. c\<lparr>cx_serviceBindings := removeAll name (cx_serviceBindings c)\<rparr>) s;
                 s2 = (if cx_serviceBindings (kn_heap s1 ! i) = [] then s1\<lparr>kn_cancelled := kn_cancelled s1 @ [i]\<rparr> else s1)
             in s2\<lparr>kn_controllers := remove_key name (kn_controllers s2)\<rparr>))"

definition find_context :: "string \<Rightarrow> 'w konnector_state \<Rightarrow> nat option" where
  "find_context kubeconfig s =
     map_option snd (List.find (\<lambda>(_, i). cx_kubeconfig (kn_heap s ! i) = kubeconfig) (kn_controllers s))"

definition join :: "string \<Rightarrow> nat \<Rightarrow> 'w konnector_state \<Rightarrow> 'w konnector_state" where
  "join name i s =
     update_context i (\<lambda>c. c\<lparr>cx_serviceBindings := List.insert name (cx_serviceBindings c)\<rparr>)
       (s\<lparr>kn_controllers := (name, i) # remove_key name (kn_controllers s)\<rparr>)"

definition new_context :: "string \<Rightarrow> string \<Rightarrow> 'w konnector_state \<Rightarrow> 'w konnector_state" where
  "new_context name kubeconfig s = s\<lparr>
     kn_heap := kn_heap s @ [\<lparr>cx_kubeconfig = kubeconfig, cx_serviceBindings = [name]\<rparr>],
     kn_controllers := (name, length (kn_heap s)) # remove_key name (kn_controllers s)\<rparr>"

definition start_controller :: "'w reconciler \<Rightarrow> APIServiceBinding \<Rightarrow> string \<Rightarrow> string \<Rightarrow> ('w konnector_state, err) io" where
  "start_controller r b kubeconfig providerNamespace =
     (let ref = bi_KubeconfigSecretRef b; name = om_Name (bi_Meta b)
      in do {
        i \<leftarrow> State (\<lambda>s. (length (kn_heap s), new_context name kubeconfig s));
        e \<leftarrow> ext (newClusterController r (csk_Namespace ref @ ''/'' @ lsk_Name (csk_Local ref)) providerNamespace name);
        (case e of
           Some x \<Rightarrow> State_Monad.return (Some x)
         | None \<Rightarrow> State (\<lambda>s. (None, s\<lparr>kn_started := kn_started s @ [i]\<rparr>))) })"

definition use_kubeconfig :: "'w reconciler \<Rightarrow> APIServiceBinding \<Rightarrow> string \<Rightarrow> ('w konnector_state, err) io" where
  "use_kubeconfig r b kubeconfig =
     (let name = om_Name (bi_Meta b)
      in do {
        State (\<lambda>s. ((), leave name kubeconfig s));
        (if kubeconfig = '''' then State_Monad.return None
         else do {
           f \<leftarrow> State (\<lambda>s. (find_context kubeconfig s, s));
           (case f of
              Some i \<Rightarrow> State (\<lambda>s. (None, join name i s))
            | None \<Rightarrow>
                (case usable_namespace (api r) kubeconfig of
                   None \<Rightarrow> State_Monad.return None
                 | Some providerNamespace \<Rightarrow> start_controller r b kubeconfig providerNamespace)) }) })"

definition reconcile :: "'w reconciler \<Rightarrow> APIServiceBinding \<Rightarrow> ('w konnector_state, err) io" where
  "reconcile r b =
     (let ref = bi_KubeconfigSecretRef b
      in do {
        g \<leftarrow> ext (getSecret r (csk_Namespace ref) (lsk_Name (csk_Local ref)));
        (case g of
           Inl e \<Rightarrow> (if IsNotFound e then use_kubeconfig r b '''' else State_Monad.return (Some e))
         | Inr secret \<Rightarrow>
             use_kubeconfig r b (case fmlookup (sec_Data secret) (lsk_Key (csk_Local ref)) of None \<Rightarrow> '''' | Some x \<Rightarrow> x)) })"

text \<open>
  The function a cluster controller is given to find out whether a binding is its own. It looks up
  the binding that started it; when that one has no controller any more it dereferences nil.
\<close>

definition reconcileServiceBinding :: "'w konnector_state \<Rightarrow> string \<Rightarrow> string \<Rightarrow> bool outcome" where
  "reconcileServiceBinding s starter svc =
     (case map_of (kn_controllers s) starter of
        None \<Rightarrow> Panics
      | Some i \<Rightarrow> Returns (svc \<in> set (cx_serviceBindings (kn_heap s ! i))))"

record ('w, 'e, 'p) Controller =
  kc_keys :: "'e cache_keys"
  kc_queue :: "'w queue"
  kc_serviceBinding_Get :: "string \<Rightarrow> ('w, APIServiceBinding) call"
  kc_serviceBinding_BySecret :: "string \<Rightarrow> ('w, APIServiceBinding list) call"
  kc_reconciler :: "'w reconciler"
  kc_committer :: "('w, ClusterSecretKeyRef, APIServiceBindingStatus, 'p) committer"

definition enqueueServiceBinding :: "('w, 'e, 'p) Controller \<Rightarrow> 'e \<Rightarrow> ('w, unit) io" where
  "enqueueServiceBinding c obj =
     (case ck_DeletionHandlingKey (kc_keys c) obj of
        Inl _ \<Rightarrow> State_Monad.return ()
      | Inr key \<Rightarrow> q_Add (kc_queue c) key)"

definition enqueueSecret :: "('w, 'e, 'p) Controller \<Rightarrow> 'e \<Rightarrow> ('w, unit) io" where
  "enqueueSecret c obj =
     (case ck_DeletionHandlingKey (kc_keys c) obj of
        Inl _ \<Rightarrow> State_Monad.return ()
      | Inr key \<Rightarrow>
          (case ck_Split (kc_keys c) key of
             Inl _ \<Rightarrow> State_Monad.return ()
           | Inr (ns, name) \<Rightarrow> do {
               g \<leftarrow> kc_serviceBinding_BySecret c (ns @ ''/'' @ name);
               (case g of
                  Inl _ \<Rightarrow> State_Monad.return ()
                | Inr bindings \<Rightarrow>
                    for_each (\<lambda>b. case ck_Key (kc_keys c) (bi_Meta b) of
                        Inl _ \<Rightarrow> State_Monad.return ()
                      | Inr bindingKey \<Rightarrow> q_Add (kc_queue c) bindingKey) bindings) }))"

definition process :: "('w, 'e, 'p) Controller \<Rightarrow> string \<Rightarrow> ('w konnector_state, err outcome) io" where
  "process c key =
     (case ck_Split (kc_keys c) key of
        Inl _ \<Rightarrow> State_Monad.return (Returns None)
      | Inr (_, name) \<Rightarrow> do {
          g \<leftarrow> ext (kc_serviceBinding_Get c name);
          (case g of
             Inl e \<Rightarrow> State_Monad.return (Returns (if IsNotFound e then None else Some e))
           | Inr b \<Rightarrow> do {
               e \<leftarrow> reconcile (kc_reconciler c) b;
               k \<leftarrow> ext (commit (kc_committer c) (binding_resource b) (binding_resource b));
               State_Monad.return
                 (case k of
                    Panics \<Rightarrow> Panics
                  | Returns e' \<Rightarrow> Returns (NewAggregate (errs_append (errs_append [] e) e'))) }) })"

section \<open>Invariant\<close>

text \<open>
  Each live context is used by the bindings in its set, which are those mapped to it; a context
  without bindings is cancelled, once, and only such contexts are; two live contexts have different
  kubeconfigs, and these are usable.
\<close>

definition live :: "'w konnector_state \<Rightarrow> nat \<Rightarrow> bool" where
  "live s i \<longleftrightarrow> i < length (kn_heap s) \<and> cx_serviceBindings (kn_heap s ! i) \<noteq> []"

definition kn_inv :: "kubeconfig_api \<Rightarrow> 'w konnector_state \<Rightarrow> bool" where
  "kn_inv ka s \<longleftrightarrow>
     distinct (map fst (kn_controllers s)) \<and>
     (\<forall>n i. map_of (kn_controllers s) n = Some i \<longrightarrow> i < length (kn_heap s)) \<and>
     (\<forall>i < length (kn_heap s). set (cx_serviceBindings (kn_heap s ! i)) = {n. map_of (kn_controllers s) n = Some i}) \<and>
     (\<forall>i. i \<in> set (kn_cancelled s) \<longleftrightarrow> i < length (kn_heap s) \<and> \<not> live s i) \<and>
     distinct (kn_cancelled s) \<and>
     (\<forall>i j. live s i \<longrightarrow> live s j \<longrightarrow> cx_kubeconfig (kn_heap s ! i) = cx_kubeconfig (kn_heap s ! j) \<longrightarrow> i = j) \<and>
     (\<forall>i. live s i \<longrightarrow> cx_kubeconfig (kn_heap s ! i) \<noteq> '''' \<and> usable_namespace ka (cx_kubeconfig (kn_heap s ! i)) \<noteq> None)"

lemma kn_invD:
  assumes "kn_inv ka s" and "map_of (kn_controllers s) n = Some i"
  shows "i < length (kn_heap s)" and "n \<in> set (cx_serviceBindings (kn_heap s ! i))" and "live s i"
proof -
  show i: "i < length (kn_heap s)" using assms unfolding kn_inv_def by blast
  then show n: "n \<in> set (cx_serviceBindings (kn_heap s ! i))" using assms unfolding kn_inv_def by blast
  show "live s i" using i n by (auto simp: live_def)
qed

lemma live_bound: "live s i \<Longrightarrow> i < length (kn_heap s)"
  by (simp add: live_def)

lemma kn_inv_parts:
  assumes "kn_inv ka s"
  shows kn_inv_users: "i < length (kn_heap s) \<Longrightarrow>
      set (cx_serviceBindings (kn_heap s ! i)) = {n. map_of (kn_controllers s) n = Some i}"
    and kn_inv_cancelled: "i \<in> set (kn_cancelled s) \<longleftrightarrow> i < length (kn_heap s) \<and> \<not> live s i"
    and kn_inv_distinct: "distinct (kn_cancelled s)" "distinct (map fst (kn_controllers s))"
    and kn_inv_unique: "live s i \<Longrightarrow> live s j \<Longrightarrow> cx_kubeconfig (kn_heap s ! i) = cx_kubeconfig (kn_heap s ! j) \<Longrightarrow> i = j"
    and kn_inv_usable: "live s i \<Longrightarrow> cx_kubeconfig (kn_heap s ! i) \<noteq> '''' \<and>
      usable_namespace ka (cx_kubeconfig (kn_heap s ! i)) \<noteq> None"
  using assms unfolding kn_inv_def by blast+

lemma kn_inv_ext [simp]: "kn_inv ka (s\<lparr>kn_ext := w\<rparr>) = kn_inv ka s" "kn_inv ka (s\<lparr>kn_started := x\<rparr>) = kn_inv ka s"
  by (simp_all add: kn_inv_def live_def)

lemma leave_entry:
  "map_of (kn_controllers (leave name kubeconfig s)) n =
     (if n = name \<and> (\<exists>i. map_of (kn_controllers s) name = Some i \<and> cx_kubeconfig (kn_heap s ! i) \<noteq> kubeconfig)
      then None else map_of (kn_controllers s) n)"
  by (auto simp: leave_def update_context_def Let_def map_of_remove_key split: option.split)

lemma leave_inv:
  assumes "kn_inv ka s"
  shows "kn_inv ka (leave name kubeconfig s)"
proof (cases "\<exists>i. map_of (kn_controllers s) name = Some i \<and> cx_kubeconfig (kn_heap s ! i) \<noteq> kubeconfig")
  case False
  then have "leave name kubeconfig s = s" by (auto simp: leave_def split: option.split)
  then show ?thesis using assms by simp
next
  case True
  then obtain i where i: "map_of (kn_controllers s) name = Some i" "cx_kubeconfig (kn_heap s ! i) \<noteq> kubeconfig" by blast
  note il = kn_invD [OF assms i(1)]
  let ?s = "leave name kubeconfig s"
  let ?bs = "removeAll name (cx_serviceBindings (kn_heap s ! i))"
  have s': "kn_controllers ?s = remove_key name (kn_controllers s)"
    "kn_heap ?s = (kn_heap s)[i := (kn_heap s ! i)\<lparr>cx_serviceBindings := ?bs\<rparr>]"
    "kn_cancelled ?s = (if ?bs = [] then kn_cancelled s @ [i] else kn_cancelled s)"
    using i il(1) by (simp_all add: leave_def update_context_def Let_def)
  have live': "live ?s j \<longleftrightarrow> live s j \<and> (j = i \<longrightarrow> ?bs \<noteq> [])" for j
    using il by (auto simp: live_def s' nth_list_update)
  have kc: "cx_kubeconfig (kn_heap ?s ! j) = cx_kubeconfig (kn_heap s ! j)" if "j < length (kn_heap s)" for j
    using that by (cases "j = i") (simp_all add: s')
  have len: "length (kn_heap ?s) = length (kn_heap s)" by (simp add: s')
  have users: "set (cx_serviceBindings (kn_heap ?s ! j)) = {n. map_of (kn_controllers ?s) n = Some j}"
    if "j < length (kn_heap s)" for j
    using kn_inv_users [OF assms that] that i(1) by (cases "j = i") (auto simp: s' map_of_remove_key)
  have "i \<notin> set (kn_cancelled s)" using kn_inv_cancelled [OF assms] il(3) by blast
  then have "distinct (kn_cancelled ?s)" "j \<in> set (kn_cancelled ?s) \<longleftrightarrow> j < length (kn_heap s) \<and> \<not> live ?s j" for j
    using kn_inv_cancelled [OF assms] kn_inv_distinct [OF assms] il unfolding live' by (auto simp: s'(3))
  moreover have "j < length (kn_heap s)" if "map_of (kn_controllers ?s) n = Some j" for n j
    using that kn_invD(1) [OF assms, of n j] by (simp add: s' map_of_remove_key split: if_splits)
  moreover have "j = k" if "live ?s j" "live ?s k" "cx_kubeconfig (kn_heap ?s ! j) = cx_kubeconfig (kn_heap ?s ! k)" for j k
    using that kn_inv_unique [OF assms] live_bound kc unfolding live' by metis
  moreover have "cx_kubeconfig (kn_heap ?s ! j) \<noteq> '''' \<and> usable_namespace ka (cx_kubeconfig (kn_heap ?s ! j)) \<noteq> None"
    if "live ?s j" for j
    using that kn_inv_usable [OF assms] live_bound kc unfolding live' by metis
  moreover have "distinct (map fst (kn_controllers ?s))" using kn_inv_distinct(2) [OF assms] by (simp add: s')
  ultimately show ?thesis unfolding kn_inv_def len using users by blast
qed

lemma distinct_put: "distinct (map fst xs) \<Longrightarrow> distinct (map fst ((k, v) # remove_key k xs))"
  using keys_remove_key [of k xs] by (simp add: image_image)

lemma join_inv:
  assumes "kn_inv ka s" and "i < length (kn_heap s)" and "live s i"
    and "\<And>j. map_of (kn_controllers s) name = Some j \<Longrightarrow> j = i"
  shows "kn_inv ka (join name i s)"
proof -
  let ?s = "join name i s"
  have s': "kn_controllers ?s = (name, i) # remove_key name (kn_controllers s)" "kn_cancelled ?s = kn_cancelled s"
    "kn_heap ?s = (kn_heap s)[i := (kn_heap s ! i)\<lparr>cx_serviceBindings := List.insert name (cx_serviceBindings (kn_heap s ! i))\<rparr>]"
    by (simp_all add: join_def update_context_def)
  have len: "length (kn_heap ?s) = length (kn_heap s)" by (simp add: s')
  have live': "live ?s j \<longleftrightarrow> live s j" for j
    using assms(2,3) by (cases "j = i") (auto simp: live_def s' List.insert_def)
  have kc: "cx_kubeconfig (kn_heap ?s ! j) = cx_kubeconfig (kn_heap s ! j)" if "j < length (kn_heap s)" for j
    using that by (cases "j = i") (simp_all add: s')
  have users: "set (cx_serviceBindings (kn_heap ?s ! j)) = {n. map_of (kn_controllers ?s) n = Some j}"
    if "j < length (kn_heap s)" for j
    using kn_inv_users [OF assms(1) that] that assms(4) by (cases "j = i") (auto simp: s' map_of_remove_key)
  moreover have "j < length (kn_heap s)" if "map_of (kn_controllers ?s) n = Some j" for n j
    using that kn_invD(1) [OF assms(1), of n j] assms(2) by (simp add: s' map_of_remove_key split: if_splits)
  moreover have "j = k" if "live ?s j" "live ?s k" "cx_kubeconfig (kn_heap ?s ! j) = cx_kubeconfig (kn_heap ?s ! k)" for j k
    using that kn_inv_unique [OF assms(1)] live_bound kc unfolding live' by metis
  moreover have "cx_kubeconfig (kn_heap ?s ! j) \<noteq> '''' \<and> usable_namespace ka (cx_kubeconfig (kn_heap ?s ! j)) \<noteq> None"
    if "live ?s j" for j
    using that kn_inv_usable [OF assms(1)] live_bound kc unfolding live' by metis
  moreover have "distinct (map fst (kn_controllers ?s))"
    unfolding s'(1) using kn_inv_distinct(2) [OF assms(1)] by (rule distinct_put)
  ultimately show ?thesis
    unfolding kn_inv_def len s'(2) live' using kn_inv_cancelled [OF assms(1)] kn_inv_distinct [OF assms(1)] by blast
qed

lemma new_context_inv:
  assumes "kn_inv ka s" and "map_of (kn_controllers s) name = None" and "kubeconfig \<noteq> ''''"
    and "usable_namespace ka kubeconfig \<noteq> None" and "\<And>i. live s i \<Longrightarrow> cx_kubeconfig (kn_heap s ! i) \<noteq> kubeconfig"
  shows "kn_inv ka (new_context name kubeconfig s)"
proof -
  let ?s = "new_context name kubeconfig s" and ?i = "length (kn_heap s)"
  have s': "kn_controllers ?s = (name, ?i) # remove_key name (kn_controllers s)" "kn_cancelled ?s = kn_cancelled s"
    "kn_heap ?s = kn_heap s @ [\<lparr>cx_kubeconfig = kubeconfig, cx_serviceBindings = [name]\<rparr>]"
    by (simp_all add: new_context_def)
  have len: "length (kn_heap ?s) = Suc ?i" by (simp add: s')
  have live': "live ?s j \<longleftrightarrow> j = ?i \<or> live s j" for j
    by (auto simp: live_def s' nth_append less_Suc_eq)
  have kc: "cx_kubeconfig (kn_heap ?s ! j) = (if j = ?i then kubeconfig else cx_kubeconfig (kn_heap s ! j))"
    if "live ?s j" for j
    using that live_bound [of s j] unfolding live' by (auto simp: s' nth_append)
  have bound: "j < ?i" if "map_of (kn_controllers s) n = Some j" for n j by (rule kn_invD(1) [OF assms(1) that])
  have users: "set (cx_serviceBindings (kn_heap ?s ! j)) = {n. map_of (kn_controllers ?s) n = Some j}"
    if "j < Suc ?i" for j
    using kn_inv_users [OF assms(1), of j] that assms(2) bound
    by (cases "j = ?i") (auto simp: s' map_of_remove_key nth_append)
  moreover have "j < Suc ?i" if "map_of (kn_controllers ?s) n = Some j" for n j
    using that bound [of n j] by (simp add: s' map_of_remove_key split: if_splits)
  moreover have "j = k" if "live ?s j" "live ?s k" "cx_kubeconfig (kn_heap ?s ! j) = cx_kubeconfig (kn_heap ?s ! k)" for j k
    using that(3) kn_inv_unique [OF assms(1)] assms(5) that(1,2) unfolding kc [OF that(1)] kc [OF that(2)]
    unfolding live' by (auto split: if_splits)
  moreover have "cx_kubeconfig (kn_heap ?s ! j) \<noteq> '''' \<and> usable_namespace ka (cx_kubeconfig (kn_heap ?s ! j)) \<noteq> None"
    if "live ?s j" for j
    using that kn_inv_usable [OF assms(1), of j] assms(3,4) unfolding kc [OF that] live' by auto
  moreover have "j \<in> set (kn_cancelled s) \<longleftrightarrow> j < Suc ?i \<and> \<not> live ?s j" for j
    using kn_inv_cancelled [OF assms(1), of j] unfolding live' by auto
  moreover have "distinct (map fst (kn_controllers ?s))"
    unfolding s'(1) using kn_inv_distinct(2) [OF assms(1)] by (rule distinct_put)
  ultimately show ?thesis unfolding kn_inv_def len s'(2) using kn_inv_distinct [OF assms(1)] by blast
qed

lemma find_in_set: "List.find P xs = Some x \<Longrightarrow> x \<in> set xs \<and> P x"
  by (induction xs) (auto split: if_splits)

lemma find_context_Some:
  assumes "kn_inv ka s" and "find_context k s = Some i"
  shows "live s i" and "i < length (kn_heap s)" and "cx_kubeconfig (kn_heap s ! i) = k"
proof -
  obtain n where n: "(n, i) \<in> set (kn_controllers s)" and k: "cx_kubeconfig (kn_heap s ! i) = k"
    using assms(2) by (auto simp: find_context_def dest!: find_in_set)
  from n have "map_of (kn_controllers s) n = Some i" using kn_inv_distinct(2) [OF assms(1)] by simp
  from kn_invD [OF assms(1) this] k show "live s i" "i < length (kn_heap s)" "cx_kubeconfig (kn_heap s ! i) = k" by auto
qed

lemma find_context_None:
  assumes "kn_inv ka s" and "find_context k s = None"
  shows "map_of (kn_controllers s) n = Some i \<Longrightarrow> cx_kubeconfig (kn_heap s ! i) \<noteq> k"
    and "live s i \<Longrightarrow> cx_kubeconfig (kn_heap s ! i) \<noteq> k"
proof -
  have none: "cx_kubeconfig (kn_heap s ! i) \<noteq> k" if "map_of (kn_controllers s) n = Some i" for n i
    using assms(2) map_of_SomeD [OF that] by (auto simp: find_context_def find_None_iff)
  then show "map_of (kn_controllers s) n = Some i \<Longrightarrow> cx_kubeconfig (kn_heap s ! i) \<noteq> k" .
  show "cx_kubeconfig (kn_heap s ! i) \<noteq> k" if "live s i"
  proof -
    obtain n where "n \<in> set (cx_serviceBindings (kn_heap s ! i))" using \<open>live s i\<close> by (metis live_def last_in_set)
    then have "map_of (kn_controllers s) n = Some i" using kn_inv_users [OF assms(1) live_bound [OF that]] by blast
    then show ?thesis by (rule none)
  qed
qed

text \<open>A binding has a controller for a kubeconfig.\<close>

definition attached :: "'w konnector_state \<Rightarrow> string \<Rightarrow> string \<Rightarrow> bool" where
  "attached s name k \<longleftrightarrow> (\<exists>i. map_of (kn_controllers s) name = Some i \<and> cx_kubeconfig (kn_heap s ! i) = k)"

definition usable :: "kubeconfig_api \<Rightarrow> string \<Rightarrow> bool" where
  "usable ka k \<longleftrightarrow> k \<noteq> '''' \<and> usable_namespace ka k \<noteq> None"

lemma wp_kn_ext: "(\<And>a w. run_state m (kn_ext s) = (a, w) \<Longrightarrow> Q a (s\<lparr>kn_ext := w\<rparr>)) \<Longrightarrow> wp (ext m) Q s"
  by (simp add: wp_def ext_def split: prod.split)

lemma wp_State: "(case f s of (a, s') \<Rightarrow> Q a s') \<Longrightarrow> wp (State f) Q s"
  by (simp add: wp_def)

lemma attached_ops [simp]:
  "attached (s\<lparr>kn_ext := w\<rparr>) = attached s" "attached (s\<lparr>kn_started := x\<rparr>) = attached s"
  by (simp_all add: attached_def fun_eq_iff)

lemma attached_join: "i < length (kn_heap s) \<Longrightarrow> cx_kubeconfig (kn_heap s ! i) = k \<Longrightarrow> attached (join name i s) name k"
  by (simp add: attached_def join_def update_context_def)

lemma attached_new: "attached (new_context name k s) name k"
  by (simp add: attached_def new_context_def)

lemma left_entry:
  assumes "map_of (kn_controllers (leave name k s)) name = Some j" and "kn_inv ka s"
  shows "cx_kubeconfig (kn_heap (leave name k s) ! j) = k"
proof -
  have "map_of (kn_controllers s) name = Some j" "cx_kubeconfig (kn_heap s ! j) = k"
    using assms(1) unfolding leave_entry by (auto split: if_splits)
  then have "leave name k s = s" by (simp add: leave_def)
  with \<open>cx_kubeconfig (kn_heap s ! j) = k\<close> show ?thesis by simp
qed

lemma use_kubeconfig_ok:
  assumes "kn_inv (api r) s"
  shows "wp (use_kubeconfig r b k) (\<lambda>e s'. kn_inv (api r) s' \<and>
    (if usable (api r) k then attached s' (om_Name (bi_Meta b)) k
     else map_of (kn_controllers s') (om_Name (bi_Meta b)) = None)) s"
proof -
  let ?n = "om_Name (bi_Meta b)" and ?s = "leave (om_Name (bi_Meta b)) k s"
  have inv: "kn_inv (api r) ?s" by (rule leave_inv [OF assms])
  note entry = left_entry [OF _ assms, of ?n k]
  have live: "usable (api r) k" if "map_of (kn_controllers ?s) ?n = Some j" for j
    using kn_inv_usable [OF inv kn_invD(3) [OF inv that]] entry [OF that] by (simp add: usable_def)
  then have gone: "map_of (kn_controllers ?s) ?n = None" if "\<not> usable (api r) k"
    using that by (cases "map_of (kn_controllers ?s) ?n") auto
  have found: "kn_inv (api r) (join ?n i ?s) \<and> usable (api r) k \<and> attached (join ?n i ?s) ?n k"
    if f: "find_context k ?s = Some i" for i
  proof -
    note i = find_context_Some [OF inv f]
    have "j = i" if "map_of (kn_controllers ?s) ?n = Some j" for j
      using kn_inv_unique [OF inv kn_invD(3) [OF inv that] i(1)] entry [OF that] i(3) by simp
    then have "kn_inv (api r) (join ?n i ?s)" by (rule join_inv [OF inv i(2,1)])
    moreover have "usable (api r) k" using kn_inv_usable [OF inv i(1)] i(3) by (simp add: usable_def)
    ultimately show ?thesis using attached_join [OF i(2,3)] by blast
  qed
  have new: "kn_inv (api r) (new_context ?n k ?s)"
    if "find_context k ?s = None" "k \<noteq> ''''" "usable_namespace (api r) k \<noteq> None"
  proof (rule new_context_inv [OF inv _ that(2,3)])
    show "map_of (kn_controllers ?s) ?n = None"
      using find_context_None(1) [OF inv that(1)] entry by (cases "map_of (kn_controllers ?s) ?n") auto
  qed (rule find_context_None(2) [OF inv that(1)])
  show ?thesis
  proof (cases "k = '''' \<or> find_context k ?s = None \<and> usable_namespace (api r) k = None")
    case True
    then have "\<not> usable (api r) k" by (auto simp: usable_def)
    then show ?thesis using True inv gone
      by (auto simp: use_kubeconfig_def Let_def intro!: wp_intros wp_State)
  next
    case False
    then show ?thesis
    proof (cases "find_context k ?s")
      case (Some i)
      with found [OF Some] False show ?thesis by (auto simp: use_kubeconfig_def Let_def intro!: wp_intros wp_State)
    next
      case None
      with False have "usable (api r) k" by (auto simp: usable_def)
      with new None False attached_new show ?thesis
        by (auto simp: use_kubeconfig_def start_controller_def Let_def intro!: wp_intros wp_State wp_kn_ext)
    qed
  qed
qed
text \<open>The kubeconfig a lookup of the secret yields; a missing secret or key counts as empty.\<close>

definition kubeconfig_of :: "APIServiceBinding \<Rightarrow> go_error + Secret \<Rightarrow> string" where
  "kubeconfig_of b g = (case g of Inl _ \<Rightarrow> ''''
     | Inr secret \<Rightarrow> (case fmlookup (sec_Data secret) (lsk_Key (csk_Local (bi_KubeconfigSecretRef b))) of None \<Rightarrow> '''' | Some k \<Rightarrow> k))"

definition lookup_ok :: "go_error + 'a \<Rightarrow> bool" where
  "lookup_ok g \<longleftrightarrow> (case g of Inl e \<Rightarrow> IsNotFound e | Inr _ \<Rightarrow> True)"

lemma reconcile_cases:
  assumes "run_state (getSecret r (csk_Namespace (bi_KubeconfigSecretRef b)) (lsk_Name (csk_Local (bi_KubeconfigSecretRef b)))) (kn_ext s) = (g, w)"
  shows "run_state (reconcile r b) s =
    (if lookup_ok g then run_state (use_kubeconfig r b (kubeconfig_of b g)) (s\<lparr>kn_ext := w\<rparr>)
     else (err_of g, s\<lparr>kn_ext := w\<rparr>))"
  using assms by (auto simp: reconcile_def Let_def ext_def lookup_ok_def kubeconfig_of_def err_of_def split: sum.split)

lemma kn_reconcile_ok:
  assumes "kn_inv (api r) s"
    and "fst (run_state (getSecret r (csk_Namespace (bi_KubeconfigSecretRef b)) (lsk_Name (csk_Local (bi_KubeconfigSecretRef b)))) (kn_ext s)) = g"
  shows "wp (reconcile r b) (\<lambda>e s'. kn_inv (api r) s' \<and> (lookup_ok g \<longrightarrow>
    (if usable (api r) (kubeconfig_of b g) then attached s' (om_Name (bi_Meta b)) (kubeconfig_of b g)
     else map_of (kn_controllers s') (om_Name (bi_Meta b)) = None))) s"
proof -
  obtain w where run: "run_state (getSecret r (csk_Namespace (bi_KubeconfigSecretRef b))
      (lsk_Name (csk_Local (bi_KubeconfigSecretRef b)))) (kn_ext s) = (g, w)"
    using assms(2) by (metis prod.collapse)
  have "kn_inv (api r) (s\<lparr>kn_ext := w\<rparr>)" using assms(1) by simp
  from use_kubeconfig_ok [OF this, of b "kubeconfig_of b g"] show ?thesis
    using assms(1) by (simp add: wp_def reconcile_cases [OF run] split: prod.splits)
qed

lemma distinct_count_list: "distinct xs \<Longrightarrow> count_list xs x = (if x \<in> set xs then 1 else 0)"
  by (induction xs) auto

section \<open>Reachable states\<close>

text \<open>
  The konnector starts without controllers; its worker processes keys, while everything outside,
  secrets and API objects included, may change at any time.
\<close>

inductive kn_reachable :: "('w, 'e, 'p) Controller \<Rightarrow> 'w konnector_state \<Rightarrow> bool" for c where
  start: "kn_reachable c \<lparr>kn_controllers = [], kn_heap = [], kn_cancelled = [], kn_started = [], kn_ext = w\<rparr>"
| work: "kn_reachable c s \<Longrightarrow> run_state (process c key) s = (res, s') \<Longrightarrow> kn_reachable c s'"
| other: "kn_reachable c s \<Longrightarrow> kn_reachable c (s\<lparr>kn_ext := w\<rparr>)"

lemma wp_kn_inv_ext: "kn_inv ka s \<Longrightarrow> wp (ext m) (\<lambda>_. kn_inv ka) s"
  by (rule wp_kn_ext) simp

lemma process_inv: "kn_inv (api (kc_reconciler c)) s \<Longrightarrow> wp (process c key) (\<lambda>_. kn_inv (api (kc_reconciler c))) s"
  unfolding process_def
  by (intro wp_sum wp_prod wp_return wp_chain [OF wp_kn_inv_ext] wp_chain [OF kn_reconcile_ok [OF _ refl]]) auto

lemma kn_reachable_inv:
  assumes "kn_reachable c s"
  shows "kn_inv (api (kc_reconciler c)) s"
  using assms
proof induction
  case (start w)
  show ?case by (simp add: kn_inv_def live_def)
next
  case (work s key res s')
  from wpD [OF process_inv [OF work.IH] work.hyps(2)] show ?case .
next
  case (other s w)
  then show ?case by simp
qed

text \<open>
  C5. In every reachable state of the konnector two bindings share a context exactly if the contexts
  have the same kubeconfig, which is usable; a binding is in the set of its context and in no other;
  and the contexts without bindings, and no others, have been cancelled, each once.
\<close>

theorem konnector_invariant:
  assumes "kn_reachable c s"
  shows "(\<forall>n i. map_of (kn_controllers s) n = Some i \<longrightarrow> i < length (kn_heap s) \<and> i \<notin> set (kn_cancelled s) \<and>
      usable (api (kc_reconciler c)) (cx_kubeconfig (kn_heap s ! i)) \<and>
      (\<forall>m j. map_of (kn_controllers s) m = Some j \<longrightarrow>
         (i = j \<longleftrightarrow> cx_kubeconfig (kn_heap s ! i) = cx_kubeconfig (kn_heap s ! j)))) \<and>
    (\<forall>i < length (kn_heap s).
      set (cx_serviceBindings (kn_heap s ! i)) = {n. map_of (kn_controllers s) n = Some i} \<and>
      count_list (kn_cancelled s) i = (if cx_serviceBindings (kn_heap s ! i) = [] then 1 else 0))"
    (is "?A \<and> ?B")
proof
  note inv = kn_reachable_inv [OF assms]
  show ?A
    using kn_invD [OF inv] kn_inv_cancelled [OF inv] kn_inv_usable [OF inv] kn_inv_unique [OF inv]
    unfolding usable_def by metis
  show ?B
    using kn_inv_users [OF inv] kn_inv_cancelled [OF inv] distinct_count_list [OF kn_inv_distinct(1) [OF inv]]
    by (simp add: live_def)
qed

section \<open>The two controllers agree\<close>

text \<open>The validity the secret controller reports for a lookup.\<close>

lemma secret_verdict:
  assumes "distinct (map cond_Type (bis_Conditions (bi_Status b)))" and "lookup_ok g"
    and "usable_namespace (sr_api r) '''' = None"
    and "fst (run_state (sr_getConsumerSecret r (csk_Namespace (bi_KubeconfigSecretRef b)) (lsk_Name (csk_Local (bi_KubeconfigSecretRef b)))) w) = g"
  shows "IsTrue APIServiceBinding_setter (snd (fst (run_state (secret_reconcile r now b) w))) APIServiceBindingConditionSecretValid
    \<longleftrightarrow> usable (sr_api r) (kubeconfig_of b g)"
proof -
  let ?t = APIServiceBindingConditionSecretValid
  obtain w' where run: "run_state (sr_getConsumerSecret r (csk_Namespace (bi_KubeconfigSecretRef b))
      (lsk_Name (csk_Local (bi_KubeconfigSecretRef b)))) w = (g, w')"
    using assms(4) by (metis prod.collapse)
  have ready: "?t \<noteq> ReadyCondition" by (simp add: APIServiceBindingConditionSecretValid_def ReadyCondition_def)
  have summary: "IsTrue APIServiceBinding_setter (SetSummary APIServiceBinding_setter now x []) ?t = IsTrue APIServiceBinding_setter x ?t"
    if "bnd.unique_types x" for x
    using bnd.Get_SetSummary_other [OF that ready] by (simp add: IsTrue_def)
  have b: "bnd.unique_types b" using assms(1) by simp
  have false: "\<not> IsTrue APIServiceBinding_setter (mark_secret now b reason m) ?t"
    "bnd.unique_types (mark_secret now b reason m)" for reason m
    using bnd.IsFalse_MarkFalse [OF b, of now ?t reason ConditionSeverityError m] bnd.unique_Mark(2) [OF b]
    by (auto simp: mark_secret_def IsTrue_def IsFalse_def split: option.splits)
  have true: "IsTrue APIServiceBinding_setter (MarkTrue APIServiceBinding_setter now b ?t) ?t"
    "bnd.unique_types (MarkTrue APIServiceBinding_setter now b ?t)"
    by (rule bnd.IsTrue_MarkTrue [OF b], rule bnd.unique_Mark(1) [OF b])
  note facts = summary [OF false(2)] summary [OF true(2)] false(1) true(1)
  show ?thesis
  proof (cases g)
    case (Inl e)
    with assms(2) show ?thesis
      by (simp add: secret_reconcile_def ensureValidKubeconfigSecret_def Let_def run lookup_ok_def kubeconfig_of_def
          usable_def facts)
  next
    case (Inr secret)
    let ?k = "fmlookup (sec_Data secret) (lsk_Key (csk_Local (bi_KubeconfigSecretRef b)))"
    show ?thesis
    proof (cases ?k)
      case None
      with Inr show ?thesis
        by (simp add: secret_reconcile_def ensureValidKubeconfigSecret_def Let_def run kubeconfig_of_def usable_def facts)
    next
      case (Some k)
      have "usable (sr_api r) k \<longleftrightarrow> usable_namespace (sr_api r) k \<noteq> None" using assms(3) by (auto simp: usable_def)
      with Inr Some show ?thesis
        by (simp add: secret_reconcile_def ensureValidKubeconfigSecret_def Let_def run kubeconfig_of_def
            usable_namespace_def facts split: sum.split option.split)
    qed
  qed
qed



section \<open>Processing never panics\<close>

lemma secret_reconcile_same:
  "wp (secret_reconcile r now b) (\<lambda>(_, b') _. bi_Meta b' = bi_Meta b \<and> bi_KubeconfigSecretRef b' = bi_KubeconfigSecretRef b) w"
proof -
  have mark: "bi_Meta (Set APIServiceBinding_setter now x co) = bi_Meta x"
    "bi_KubeconfigSecretRef (Set APIServiceBinding_setter now x co) = bi_KubeconfigSecretRef x" for x co
    by (cases co; simp add: Set_def APIServiceBinding_setter_def)+
  show ?thesis unfolding secret_reconcile_def ensureValidKubeconfigSecret_def Let_def
    by (intro wp_bind wp_any wp_return)
      (auto simp: mark_secret_def MarkTrue_def MarkFalse_def SetSummary_def mark split: sum.splits option.splits)
qed

text \<open>
  The controller for kubeconfig secrets writes the status of a binding only, so the committer does
  not panic, provided its equality tests are reflexive.
\<close>

lemma secret_process_returns:
  assumes "\<And>m. cm_metaEqual (sc_committer c) m m" and "\<And>x. cm_specEqual (sc_committer c) x x"
  shows "fst (run_state (secret_process c now key) w) \<noteq> Panics"
proof -
  have commit: "wp (commit (sc_committer c) (binding_resource b) (binding_resource b')) (\<lambda>k _. k \<noteq> Panics) w"
    if "bi_Meta b' = bi_Meta b \<and> bi_KubeconfigSecretRef b' = bi_KubeconfigSecretRef b" for b b' w
    by (rule commit_one_part) (use that assms in \<open>simp add: binding_resource_def\<close>)
  have "wp (secret_process c now key) (\<lambda>res _. res \<noteq> Panics) w"
    unfolding secret_process_def
    by (rule wp_sum, (auto intro!: wp_return)[1], rule wp_prod, rule wp_call, rule wp_sum, (auto intro!: wp_return)[1],
        rule wp_chain [OF secret_reconcile_same], rule wp_chain [OF commit])
      (auto intro!: wp_return split: outcome.splits)
  then show ?thesis by (simp add: wp_def split: prod.splits)
qed

section \<open>Concrete runs\<close>

text \<open>
  Kubeconfigs are their namespace here, with the empty one invalid. The world is the content of all
  secrets; a cluster controller starts if \<open>ok\<close> is true.
\<close>

definition example_api :: kubeconfig_api where
  "example_api = \<lparr>ka_Load = (\<lambda>k. if k = '''' then Inl (Errorf ''invalid configuration'' None)
       else Inr \<lparr>kc_CurrentContext = ''c'', kc_Contexts = fmupd ''c'' k fmempty\<rparr>),
     ka_RESTConfig = (\<lambda>_. None)\<rparr>"

definition example_secret :: "string \<Rightarrow> Secret" where
  "example_secret k = \<lparr>sec_Meta = zero_ObjectMeta, sec_Data = fmupd ''k'' k fmempty, sec_Type = ''Opaque''\<rparr>"

definition example_getSecret :: "string \<Rightarrow> string \<Rightarrow> (string, Secret) call" where
  "example_getSecret ns name = State (\<lambda>k. (if k = '''' then Inl (StatusError ReasonNotFound name) else Inr (example_secret k), k))"

definition example_reconciler :: "bool \<Rightarrow> string reconciler" where
  "example_reconciler ok = \<lparr>getSecret = example_getSecret,
     newClusterController = (\<lambda>_ _ _. State_Monad.return (if ok then None else Some (Errorf ''no controller'' None))),
     api = example_api\<rparr>"

definition example_committer :: "(string, ClusterSecretKeyRef, APIServiceBindingStatus, string) committer" where
  "example_committer = \<lparr>cm_metaEqual = (=), cm_specEqual = (=), cm_statusEqual = (=),
     cm_zeroSpec = bi_KubeconfigSecretRef (example_binding []), cm_zeroStatus = bi_Status (example_binding []),
     cm_focusType = '''', cm_marshal = (\<lambda>_. Inr ''''), cm_createMergePatch = (\<lambda>_ _. Inr ''''),
     cm_patch = (\<lambda>_ _ _ _. State_Monad.return None)\<rparr>"

definition named_binding :: "string \<Rightarrow> APIServiceBinding" where
  "named_binding n = (example_binding [])\<lparr>bi_Meta := zero_ObjectMeta\<lparr>om_Name := n\<rparr>\<rparr>"

definition example_Controller :: "bool \<Rightarrow> (string, ObjectMeta, string) Controller" where
  "example_Controller ok = \<lparr>kc_keys = example_keys,
     kc_queue = \<lparr>q_Add = (\<lambda>_. State_Monad.return ()), q_AddAfter = (\<lambda>_ _. State_Monad.return ())\<rparr>,
     kc_serviceBinding_Get = (\<lambda>n. State_Monad.return (Inr (named_binding n))),
     kc_serviceBinding_BySecret = (\<lambda>_. State_Monad.return (Inr [])),
     kc_reconciler = example_reconciler ok, kc_committer = example_committer\<rparr>"

definition example_start :: "string \<Rightarrow> string konnector_state" where
  "example_start k = \<lparr>kn_controllers = [], kn_heap = [], kn_cancelled = [], kn_started = [], kn_ext = k\<rparr>"

text \<open>Processing a list of bindings, each with the content of the secret at that time.\<close>

fun example_run :: "bool \<Rightarrow> (string \<times> string) list \<Rightarrow> string konnector_state \<Rightarrow> string konnector_state" where
  "example_run ok [] s = s"
| "example_run ok ((n, k) # evs) s = example_run ok evs (snd (run_state (process (example_Controller ok) n) (s\<lparr>kn_ext := k\<rparr>)))"

lemma example_run_reachable: "kn_reachable (example_Controller ok) s \<Longrightarrow> kn_reachable (example_Controller ok) (example_run ok evs s)"
proof (induction evs arbitrary: s)
  case (Cons ev evs)
  obtain n k where ev: "ev = (n, k)" by (cases ev)
  show ?case unfolding ev example_run.simps
    by (rule Cons.IH, rule kn_reachable.work [OF kn_reachable.other [OF Cons.prems]]) (rule prod.collapse [symmetric])
qed simp

lemma kn_example_reachable: "kn_reachable (example_Controller ok) (example_run ok evs (example_start k))"
  unfolding example_start_def by (rule example_run_reachable [OF kn_reachable.start])

text \<open>Two bindings share a controller until the secret of one changes; then that one gets its own.\<close>

definition example_state :: "string konnector_state" where
  "example_state = example_run True [(''a'', ''p''), (''b'', ''p''), (''a'', ''q'')] (example_start '''')"

theorem konnector_invariant_witness:
  "map_of (kn_controllers example_state) ''a'' = Some 1 \<and> map_of (kn_controllers example_state) ''b'' = Some 0 \<and>
   cx_kubeconfig (kn_heap example_state ! 1) \<noteq> cx_kubeconfig (kn_heap example_state ! 0) \<and>
   kn_started example_state = [0, 1] \<and>
   set (cx_serviceBindings (kn_heap example_state ! 0)) = {n. map_of (kn_controllers example_state) n = Some 0}"
proof -
  have facts: "map_of (kn_controllers example_state) ''a'' = Some 1" "map_of (kn_controllers example_state) ''b'' = Some 0"
    "kn_started example_state = [0, 1]" "length (kn_heap example_state) = 2"
    by code_simp+
  note inv = konnector_invariant [OF kn_example_reachable [of True "[(''a'', ''p''), (''b'', ''p''), (''a'', ''q'')]" "''''"],
      folded example_state_def]
  have "cx_kubeconfig (kn_heap example_state ! 1) \<noteq> cx_kubeconfig (kn_heap example_state ! 0)"
    using inv facts(1,2) by (metis zero_neq_one)
  moreover have "set (cx_serviceBindings (kn_heap example_state ! 0)) = {n. map_of (kn_controllers example_state) n = Some 0}"
    using inv facts(4) by (metis zero_less_numeral)
  ultimately show ?thesis using facts by blast
qed

definition example_secret_reconciler :: "string secret_reconciler" where
  "example_secret_reconciler = \<lparr>sr_getConsumerSecret = example_getSecret, sr_api = example_api\<rparr>"


definition example_secret_controller :: "(string, ObjectMeta, string) secret_controller" where
  "example_secret_controller = \<lparr>sc_keys = example_keys,
     sc_queue = \<lparr>q_Add = (\<lambda>_. State_Monad.return ()), q_AddAfter = (\<lambda>_ _. State_Monad.return ())\<rparr>,
     sc_serviceBinding_Get = (\<lambda>n. State_Monad.return (Inr (named_binding n))),
     sc_serviceBinding_BySecret = (\<lambda>_. State_Monad.return (Inr [])),
     sc_reconciler = example_secret_reconciler, sc_committer = example_committer\<rparr>"

section \<open>Deviations\<close>

text \<open>
  A cluster controller that could not be created is not created again: the entry of the failed
  attempt stays, and the retry returns no error and starts nothing.
\<close>

lemma failed_start_not_retried:
  "let s = snd (run_state (process (example_Controller False) ''b'') (example_start ''p''));
       r = run_state (process (example_Controller True) ''b'') s
   in fst r = Returns None \<and> kn_started (snd r) = []"
  by code_simp

text \<open>
  When the binding that started a shared controller gets another kubeconfig that cannot be used, the
  check of the remaining bindings dereferences nil.
\<close>

lemma starter_gone_panics:
  "let s = example_run True [(''a'', ''p''), (''b'', ''p''), (''a'', '''')] (example_start '''')
   in map_of (kn_controllers s) ''b'' = Some 0 \<and> reconcileServiceBinding s ''a'' ''b'' = Panics"
  by code_simp

text \<open>A deleted binding keeps its controller: nothing is done for a binding that does not exist.\<close>

lemma deleted_binding_keeps_controller:
  assumes "ck_Split (kc_keys c) key = Inr (ns, name)"
    and "fst (run_state (kc_serviceBinding_Get c name) (kn_ext s)) = Inl e" and "IsNotFound e"
  shows "fst (run_state (process c key) s) = Returns None \<and>
    kn_controllers (snd (run_state (process c key) s)) = kn_controllers s \<and>
    kn_cancelled (snd (run_state (process c key) s)) = kn_cancelled s"
  using assms by (auto simp: process_def ext_def split: prod.split)

end
