(* ===== verification/Cluster_Binding.thy ===== *)
theory Cluster_Binding
  imports Konnector
begin

text \<open>
  The ClusterBinding controller of the konnector (\<open>controllers/cluster/clusterbinding\<close>): it copies the
  kubeconfig secret of the provider to the consumer cluster, sends heartbeats, reports the version of
  the konnector (\<open>pkg/version\<close>) and tells the APIServiceBindings whether the heartbeat arrived.
\<close>

section \<open>Version of the binary\<close>

definition parse_failure :: "string \<Rightarrow> go_error" where
  "parse_failure s = Errorf (''failed to parse version '' @ quoted s) None"

definition BinaryVersion :: "string \<Rightarrow> go_error + string" where
  "BinaryVersion s =
     (if HasPrefix s ''v0.0.0-'' then Inr ''v0.0.0''
      else
        let parts = SplitN 2 (CHR ''+'') s; prefix = ''kube-bind''
        in if length parts < 2 then Inl (parse_failure s)
           else if \<not> HasPrefix (parts ! 1) prefix then Inl (parse_failure s)
           else Inr (SplitN 2 (CHR ''-'') (TrimPrefix (parts ! 1) (prefix @ ''-'')) ! 0))"

section \<open>Reconciler\<close>

text \<open>
  The lister hands out the object of its cache, so the assignments to the fields of the consumer
  secret change the cache: that is \<open>assignCachedSecret\<close>.
\<close>

record 'w reconciler =
  consumerSecretRefKey :: string
  providerNamespace :: string
  heartbeatInterval :: duration
  gitVersion :: string
  splitKey :: "string \<Rightarrow> go_error + (string \<times> string)"
  getProviderSecret :: "('w, Secret) call"
  getConsumerSecret :: "('w, Secret) call"
  assignCachedSecret :: "Secret \<Rightarrow> ('w, unit) io"
  updateConsumerSecret :: "Secret \<Rightarrow> ('w, Secret) call"
  createConsumerSecret :: "Secret \<Rightarrow> ('w, Secret) call"

definition set_status :: "(ClusterBindingStatus \<Rightarrow> ClusterBindingStatus) \<Rightarrow> ClusterBinding \<Rightarrow> ClusterBinding" where
  "set_status f b = b\<lparr>cb_Status := f (cb_Status b)\<rparr>"

definition heartbeat_due :: "'w reconciler \<Rightarrow> time \<Rightarrow> ClusterBinding \<Rightarrow> bool" where
  "heartbeat_due r now b \<longleftrightarrow>
     cbt_LastHeartbeatTime (cb_Status b) = 0 \<or>
     cbt_LastHeartbeatTime (cb_Status b) + go_div (heartbeatInterval r) 2 < now"

definition ensureHeartbeat :: "'w reconciler \<Rightarrow> time \<Rightarrow> ClusterBinding \<Rightarrow> ClusterBinding" where
  "ensureHeartbeat r now b =
     (let b1 = set_status (\<lambda>s. s\<lparr>cbt_HeartbeatInterval := heartbeatInterval r\<rparr>) b
      in if heartbeat_due r now b1 then set_status (\<lambda>s. s\<lparr>cbt_LastHeartbeatTime := now\<rparr>) b1 else b1)"

definition mark_provider_secret :: "time \<Rightarrow> ClusterBinding \<Rightarrow> string \<Rightarrow> string \<Rightarrow> ClusterBinding" where
  "mark_provider_secret now b reason message =
     MarkFalse ClusterBinding_setter now b ClusterBindingConditionSecretValid reason ConditionSeverityWarning message"

definition new_consumer_secret :: "string \<Rightarrow> string \<Rightarrow> Secret \<Rightarrow> Secret" where
  "new_consumer_secret ns name providerSecret =
     \<lparr>sec_Meta = zero_ObjectMeta\<lparr>om_Name := ns, om_Namespace := name\<rparr>,
      sec_Data = sec_Data providerSecret, sec_Type = sec_Type providerSecret\<rparr>"

definition copy_secret :: "Secret \<Rightarrow> Secret \<Rightarrow> Secret" where
  "copy_secret providerSecret s = s\<lparr>sec_Data := sec_Data providerSecret, sec_Type := sec_Type providerSecret\<rparr>"

definition write_consumer_secret :: "'w reconciler \<Rightarrow> Secret \<Rightarrow> Secret option \<Rightarrow> ('w, err) io" where
  "write_consumer_secret r providerSecret consumerSecret =
     (case consumerSecret of
        None \<Rightarrow>
          (case splitKey r (consumerSecretRefKey r) of
             Inl e \<Rightarrow> State_Monad.return (Some e)
           | Inr (ns, name) \<Rightarrow> do {
               c \<leftarrow> createConsumerSecret r (new_consumer_secret ns name providerSecret);
               State_Monad.return (err_of c) })
      | Some s \<Rightarrow> do {
          assignCachedSecret r (copy_secret providerSecret s);
          u \<leftarrow> updateConsumerSecret r (copy_secret providerSecret s);
          State_Monad.return (err_of u) })"

definition ensureConsumerSecret :: "'w reconciler \<Rightarrow> time \<Rightarrow> ClusterBinding \<Rightarrow> ('w, err \<times> ClusterBinding) io" where
  "ensureConsumerSecret r now b =
     (let ref = cbs_KubeconfigSecretRef (cb_Spec b)
      in do {
        p \<leftarrow> getProviderSecret r;
        (case p of
           Inl e \<Rightarrow> State_Monad.return
             (if \<not> IsNotFound e then (Some e, b)
              else (None, mark_provider_secret now b ''ProviderSecretNotFound''
                (''Provider secret '' @ om_Namespace (cb_Meta b) @ ''/'' @ lsk_Name ref @ '' not found'')))
         | Inr providerSecret \<Rightarrow>
             (if fmlookup (sec_Data providerSecret) (lsk_Key ref) = None
              then State_Monad.return (None, mark_provider_secret now b ''ProviderSecretInvalid''
                (''Provider secret '' @ providerNamespace r @ ''/'' @ lsk_Name ref @ '' is missing '' @ quoted (lsk_Key ref) @
                 '' string key.''))
              else do {
                g \<leftarrow> getConsumerSecret r;
                (case g of
                   Inl e \<Rightarrow>
                     (if \<not> IsNotFound e then State_Monad.return (Some e, b)
                      else do {
                        e' \<leftarrow> write_consumer_secret r providerSecret None;
                        State_Monad.return (case e' of Some x \<Rightarrow> (Some x, b)
                          | None \<Rightarrow> (None, MarkTrue ClusterBinding_setter now b ClusterBindingConditionSecretValid)) })
                 | Inr s \<Rightarrow> do {
                     e' \<leftarrow> write_consumer_secret r providerSecret (Some s);
                     State_Monad.return (case e' of Some x \<Rightarrow> (Some x, b)
                       | None \<Rightarrow> (None, MarkTrue ClusterBinding_setter now b ClusterBindingConditionSecretValid)) }) })) })"

definition ensureKonnectorVersion :: "'w reconciler \<Rightarrow> time \<Rightarrow> ClusterBinding \<Rightarrow> ClusterBinding" where
  "ensureKonnectorVersion r now b =
     (case BinaryVersion (gitVersion r) of
        Inl e \<Rightarrow>
          MarkFalse ClusterBinding_setter now (set_status (\<lambda>s. s\<lparr>cbt_KonnectorVersion := ''unknown''\<rparr>) b)
            ClusterBindingConditionValidVersion ''ParseError'' ConditionSeverityWarning
            (''Konnector binary version string '' @ quoted (gitVersion r) @ '' cannot be parsed: '' @ Error e)
      | Inr ver \<Rightarrow>
          MarkTrue ClusterBinding_setter now (set_status (\<lambda>s. s\<lparr>cbt_KonnectorVersion := ver\<rparr>) b)
            ClusterBindingConditionValidVersion)"

definition reconcile :: "'w reconciler \<Rightarrow> time \<Rightarrow> ClusterBinding \<Rightarrow> ('w, err \<times> ClusterBinding) io" where
  "reconcile r now b = do {
     res \<leftarrow> ensureConsumerSecret r now b;
     State_Monad.return
       (NewAggregate (errs_append [] (fst res)),
        SetSummary ClusterBinding_setter now (ensureKonnectorVersion r now (ensureHeartbeat r now (snd res))) []) }"

section \<open>Controller\<close>

record ('w, 'e, 'p) controller =
  cc_keys :: "'e cache_keys"
  cc_queue :: "'w queue"
  cc_asExport :: "'e \<Rightarrow> APIServiceExport option"
  cc_clusterBinding_Get :: "string \<Rightarrow> string \<Rightarrow> ('w, ClusterBinding) call"
  cc_providerSecret_Get :: "string \<Rightarrow> string \<Rightarrow> ('w, Secret) call"
  cc_consumerSecret_Get :: "string \<Rightarrow> string \<Rightarrow> ('w, Secret) call"
  cc_serviceBinding_BySecret :: "string \<Rightarrow> ('w, APIServiceBinding list) call"
  cc_serviceBinding_UpdateStatus :: "APIServiceBinding \<Rightarrow> ('w, APIServiceBinding) call"
  cc_reconciler :: "'w reconciler"
  cc_committer :: "('w, ClusterBindingSpec, ClusterBindingStatus, 'p) committer"

text \<open>The two lookups that \<open>NewController\<close> gives to the reconciler.\<close>

definition lookup_provider_secret :: "('w, 'e, 'p) controller \<Rightarrow> string \<Rightarrow> ('w, Secret) call" where
  "lookup_provider_secret c ns = do {
     g \<leftarrow> cc_clusterBinding_Get c ns ''cluster'';
     (case g of
        Inl e \<Rightarrow> State_Monad.return (Inl e)
      | Inr cb \<Rightarrow> cc_providerSecret_Get c ns (lsk_Name (cbs_KubeconfigSecretRef (cb_Spec cb)))) }"

definition lookup_consumer_secret :: "('w, 'e, 'p) controller \<Rightarrow> string \<Rightarrow> ('w, Secret) call" where
  "lookup_consumer_secret c key =
     (case ck_Split (cc_keys c) key of
        Inl e \<Rightarrow> State_Monad.return (Inl e)
      | Inr (ns, name) \<Rightarrow> cc_consumerSecret_Get c ns name)"

definition enqueueClusterBinding :: "('w, 'e, 'p) controller \<Rightarrow> 'e \<Rightarrow> ('w, unit) io" where
  "enqueueClusterBinding c obj =
     (case ck_DeletionHandlingKey (cc_keys c) obj of
        Inl _ \<Rightarrow> State_Monad.return ()
      | Inr key \<Rightarrow> q_Add (cc_queue c) key)"

definition enqueueConsumerSecret :: "('w, 'e, 'p) controller \<Rightarrow> 'e \<Rightarrow> ('w, unit) io" where
  "enqueueConsumerSecret c obj =
     (case ck_DeletionHandlingKey (cc_keys c) obj of
        Inl _ \<Rightarrow> State_Monad.return ()
      | Inr secretKey \<Rightarrow>
          (if secretKey = consumerSecretRefKey (cc_reconciler c)
           then q_Add (cc_queue c) (providerNamespace (cc_reconciler c) @ ''/cluster'')
           else State_Monad.return ()))"

definition enqueueProviderSecret :: "('w, 'e, 'p) controller \<Rightarrow> 'e \<Rightarrow> ('w, unit) io" where
  "enqueueProviderSecret c obj =
     (case ck_DeletionHandlingKey (cc_keys c) obj of
        Inl _ \<Rightarrow> State_Monad.return ()
      | Inr secretKey \<Rightarrow>
          (case ck_Split (cc_keys c) secretKey of
             Inl _ \<Rightarrow> State_Monad.return ()
           | Inr (ns, name) \<Rightarrow>
               (if ns \<noteq> providerNamespace (cc_reconciler c) then State_Monad.return ()
                else do {
                  g \<leftarrow> cc_clusterBinding_Get c ns ''cluster'';
                  (case g of
                     Inl _ \<Rightarrow> State_Monad.return ()
                   | Inr b \<Rightarrow>
                       (if lsk_Name (cbs_KubeconfigSecretRef (cb_Spec b)) \<noteq> name then State_Monad.return ()
                        else q_Add (cc_queue c) (ns @ ''/cluster''))) })))"

definition enqueueServiceExport :: "('w, 'e, 'p) controller \<Rightarrow> 'e \<Rightarrow> ('w, unit) io" where
  "enqueueServiceExport c obj =
     (case ck_DeletionHandlingKey (cc_keys c) obj of
        Inl _ \<Rightarrow> State_Monad.return ()
      | Inr seKey \<Rightarrow>
          (case ck_Split (cc_keys c) seKey of
             Inl _ \<Rightarrow> State_Monad.return ()
           | Inr (ns, _) \<Rightarrow> q_Add (cc_queue c) (ns @ ''/cluster'')))"

text \<open>The handler for updates of exports: both variables are read from the old object.\<close>

definition onServiceExportUpdate :: "('w, 'e, 'p) controller \<Rightarrow> 'e \<Rightarrow> 'e \<Rightarrow> ('w, unit) io" where
  "onServiceExportUpdate c old newObj =
     (case cc_asExport c old of
        None \<Rightarrow> State_Monad.return ()
      | Some oldExport \<Rightarrow>
          (case cc_asExport c old of
             None \<Rightarrow> State_Monad.return ()
           | Some newExport \<Rightarrow>
               (if ex_Conditions oldExport = ex_Conditions newExport then State_Monad.return ()
                else enqueueServiceExport c newObj)))"

text \<open>The periodic part of \<open>Start\<close>, run every half heartbeat interval.\<close>

definition heartbeat_tick :: "('w, 'e, 'p) controller \<Rightarrow> ('w, unit) io" where
  "heartbeat_tick c = q_Add (cc_queue c) (providerNamespace (cc_reconciler c) @ ''/cluster'')"

definition update_service_binding :: "(APIServiceBinding \<Rightarrow> ('w, APIServiceBinding) call) \<Rightarrow>
    (APIServiceBinding \<Rightarrow> APIServiceBinding) \<Rightarrow> APIServiceBinding \<Rightarrow> ('w, unit) io" where
  "update_service_binding updateStatus update orig =
     (let binding = update orig
      in if bis_Conditions (bi_Status binding) \<noteq> bis_Conditions (bi_Status orig)
         then do { updateStatus binding; State_Monad.return () }
         else State_Monad.return ())"

definition updateServiceBindings :: "('w, 'e, 'p) controller \<Rightarrow> (APIServiceBinding \<Rightarrow> APIServiceBinding) \<Rightarrow> ('w, unit) io" where
  "updateServiceBindings c update = do {
     g \<leftarrow> cc_serviceBinding_BySecret c (consumerSecretRefKey (cc_reconciler c));
     (case g of
        Inl _ \<Rightarrow> State_Monad.return ()
      | Inr objs \<Rightarrow> for_each (update_service_binding (cc_serviceBinding_UpdateStatus c) update) objs) }"

definition cluster_binding_resource :: "ClusterBinding \<Rightarrow> (ClusterBindingSpec, ClusterBindingStatus) Resource" where
  "cluster_binding_resource b = \<lparr>rs_Meta = cb_Meta b, rs_Spec = cb_Spec b, rs_Status = cb_Status b\<rparr>"

definition mark_heartbeating :: "time \<Rightarrow> err \<Rightarrow> APIServiceBinding \<Rightarrow> APIServiceBinding" where
  "mark_heartbeating now e b =
     (case e of
        Some x \<Rightarrow> MarkFalse APIServiceBinding_setter now b APIServiceBindingConditionHeartbeating
          ''ClusterBindingUpdateFailed'' ConditionSeverityWarning
          (''Failed to update service provider ClusterBinding: '' @ Error x)
      | None \<Rightarrow> MarkTrue APIServiceBinding_setter now b APIServiceBindingConditionHeartbeating)"

definition process :: "('w, 'e, 'p) controller \<Rightarrow> time \<Rightarrow> string \<Rightarrow> ('w, err outcome) io" where
  "process c now key =
     (case ck_Split (cc_keys c) key of
        Inl _ \<Rightarrow> State_Monad.return (Returns None)
      | Inr (ns, name) \<Rightarrow>
          (if name \<noteq> ''cluster'' then State_Monad.return (Returns None)
           else do {
             g \<leftarrow> cc_clusterBinding_Get c ns ''cluster'';
             (case g of
                Inl e \<Rightarrow> State_Monad.return (Returns (if IsNotFound e then None else Some e))
              | Inr old \<Rightarrow> do {
                  res \<leftarrow> reconcile (cc_reconciler c) now old;
                  k \<leftarrow> commit (cc_committer c) (cluster_binding_resource old) (cluster_binding_resource (snd res));
                  (case k of
                     Panics \<Rightarrow> State_Monad.return Panics
                   | Returns e \<Rightarrow> do {
                       updateServiceBindings c (mark_heartbeating now e);
                       State_Monad.return (Returns (NewAggregate (errs_append (errs_append [] (fst res)) e))) }) }) }))"

section \<open>Version strings\<close>

lemma SplitN_two:
  assumes "c \<notin> set a"
  shows "SplitN 2 c (a @ c # s) = [a, s]" and "SplitN 2 c a = [a]"
  using SplitN_sep [OF assms, of 0 s] SplitN_no_sep [OF assms, of 0] by (simp_all add: numeral_2_eq_2)

text \<open>
  C38. The version of the konnector survives its encoding in the version string of the binary: whatever
  Kubernetes version precedes it and whatever build suffix follows, the release is recovered.
\<close>

theorem binary_version_roundtrip:
  assumes "CHR ''+'' \<notin> set kube" and "CHR ''-'' \<notin> set release" and "\<not> HasPrefix kube ''v0.0.0-''"
    and "build = [] \<or> hd build = CHR ''-''"
  shows "BinaryVersion (kube @ ''+kube-bind-'' @ release @ build) = Inr release"
proof -
  let ?tail = "''kube-bind-'' @ release @ build"
  have "\<not> HasPrefix (kube @ CHR ''+'' # ?tail) ''v0.0.0-''"
  proof
    assume "HasPrefix (kube @ CHR ''+'' # ?tail) ''v0.0.0-''"
    then have "prefix ''v0.0.0-'' kube \<or> (\<exists>us. ''v0.0.0-'' = kube @ us \<and> prefix us (CHR ''+'' # ?tail))"
      by (simp add: HasPrefix_def prefix_append)
    then obtain us where us: "''v0.0.0-'' = kube @ us" "prefix us (CHR ''+'' # ?tail)" "us \<noteq> []"
      using assms(3) by (metis HasPrefix_def append_Nil2 prefix_order.refl)
    then have "CHR ''+'' \<in> set us" by (cases us) auto
    then have "CHR ''+'' \<in> set ''v0.0.0-''" unfolding us(1) by simp
    then show False by simp
  qed
  moreover have "SplitN 2 (CHR ''+'') (kube @ CHR ''+'' # ?tail) = [kube, ?tail]"
    by (rule SplitN_two(1) [OF assms(1)])
  moreover have "HasPrefix ?tail ''kube-bind''" by (simp add: HasPrefix_def)
  moreover have "TrimPrefix ?tail (''kube-bind'' @ ''-'') = release @ build"
    using TrimPrefix_append [of "''kube-bind-''" "release @ build"] by simp
  moreover have "SplitN 2 (CHR ''-'') (release @ build) ! 0 = release"
    using assms(4) SplitN_two [OF assms(2)] by (cases build) auto
  ultimately show ?thesis by (simp add: BinaryVersion_def Let_def)
qed

theorem binary_version_roundtrip_witness:
  "BinaryVersion (''v1.33.2'' @ ''+kube-bind-'' @ ''v0.5.1'' @ ''-3-gabc'') = Inr ''v0.5.1''"
  by (rule binary_version_roundtrip) (simp_all add: HasPrefix_def)

section \<open>Heartbeats\<close>

text \<open>A reconciliation leaves a heartbeat that is at most half an interval old.\<close>

lemma cluster_binding_marks [simp]:
  "cb_Meta (Set ClusterBinding_setter now b c) = cb_Meta b"
  "cb_Spec (Set ClusterBinding_setter now b c) = cb_Spec b"
  "cbt_LastHeartbeatTime (cb_Status (Set ClusterBinding_setter now b c)) = cbt_LastHeartbeatTime (cb_Status b)"
  "cbt_HeartbeatInterval (cb_Status (Set ClusterBinding_setter now b c)) = cbt_HeartbeatInterval (cb_Status b)"
  "cbt_KonnectorVersion (cb_Status (Set ClusterBinding_setter now b c)) = cbt_KonnectorVersion (cb_Status b)"
  by (cases c; simp add: Set_def ClusterBinding_setter_def)+

lemmas mark_defs = MarkTrue_def MarkFalse_def SetSummary_def

lemma ensureConsumerSecret_same:
  "wp (ensureConsumerSecret r now b) (\<lambda>(e, b') _. b' = b \<or>
     (\<exists>c. b' = Set ClusterBinding_setter now b (Some c) \<and> cond_Type c = ClusterBindingConditionSecretValid)) w"
  unfolding ensureConsumerSecret_def write_consumer_secret_def Let_def
  by (intro wp_intros wp_any)
    (auto simp: mark_provider_secret_def mark_defs TrueCondition_def FalseCondition_def
      intro!: wp_return split: option.splits)

lemma ensureHeartbeat_fresh:
  assumes "0 < now"
  shows "cbt_HeartbeatInterval (cb_Status (ensureHeartbeat r now b)) = heartbeatInterval r"
    and "cbt_LastHeartbeatTime (cb_Status (ensureHeartbeat r now b)) \<noteq> 0"
    and "0 \<le> heartbeatInterval r \<Longrightarrow>
      now - cbt_LastHeartbeatTime (cb_Status (ensureHeartbeat r now b)) \<le> heartbeatInterval r div 2"
    and "cb_Meta (ensureHeartbeat r now b) = cb_Meta b" "cb_Spec (ensureHeartbeat r now b) = cb_Spec b"
proof -
  have "go_div h 2 = h div 2" if "0 \<le> h" for h using that by (cases "h = 0") (simp_all add: go_div_def)
  then show "0 \<le> heartbeatInterval r \<Longrightarrow>
      now - cbt_LastHeartbeatTime (cb_Status (ensureHeartbeat r now b)) \<le> heartbeatInterval r div 2"
    by (simp add: ensureHeartbeat_def heartbeat_due_def set_status_def Let_def)
qed (use assms in \<open>auto simp: ensureHeartbeat_def heartbeat_due_def set_status_def Let_def\<close>)

lemma ensureKonnectorVersion_same:
  "cb_Meta (ensureKonnectorVersion r now b) = cb_Meta b" "cb_Spec (ensureKonnectorVersion r now b) = cb_Spec b"
  "cbt_LastHeartbeatTime (cb_Status (ensureKonnectorVersion r now b)) = cbt_LastHeartbeatTime (cb_Status b)"
  "cbt_HeartbeatInterval (cb_Status (ensureKonnectorVersion r now b)) = cbt_HeartbeatInterval (cb_Status b)"
  by (simp_all add: ensureKonnectorVersion_def mark_defs set_status_def split: sum.split)

definition heartbeat_fresh :: "duration \<Rightarrow> time \<Rightarrow> ClusterBinding \<Rightarrow> bool" where
  "heartbeat_fresh h now b \<longleftrightarrow> cbt_HeartbeatInterval (cb_Status b) = h \<and>
     cbt_LastHeartbeatTime (cb_Status b) \<noteq> 0 \<and> now - cbt_LastHeartbeatTime (cb_Status b) \<le> h div 2"

lemma reconcile_heartbeat:
  assumes "0 < now" and "0 \<le> heartbeatInterval r"
  shows "wp (reconcile r now b) (\<lambda>(_, b') _. heartbeat_fresh (heartbeatInterval r) now b' \<and>
    cb_Meta b' = cb_Meta b \<and> cb_Spec b' = cb_Spec b) w"
  unfolding reconcile_def
  by (rule wp_chain [OF ensureConsumerSecret_same], rule wp_return)
    (auto simp: SetSummary_def heartbeat_fresh_def ensureKonnectorVersion_same ensureHeartbeat_fresh assms)

section \<open>Copies of the secret\<close>

datatype secret_event = ProviderRead "go_error + Secret" | ConsumerRead "go_error + Secret" | CacheAssigned
  | SecretUpdated Secret err | SecretCreated Secret err

definition traced :: "'w reconciler \<Rightarrow> ('w \<times> secret_event list) reconciler" where
  "traced r = \<lparr>consumerSecretRefKey = consumerSecretRefKey r, providerNamespace = providerNamespace r,
     heartbeatInterval = heartbeatInterval r, gitVersion = gitVersion r, splitKey = splitKey r,
     getProviderSecret = logged ProviderRead (getProviderSecret r),
     getConsumerSecret = logged ConsumerRead (getConsumerSecret r),
     assignCachedSecret = (\<lambda>s. logged (\<lambda>_. CacheAssigned) (assignCachedSecret r s)),
     updateConsumerSecret = (\<lambda>s. logged (\<lambda>u. SecretUpdated s (err_of u)) (updateConsumerSecret r s)),
     createConsumerSecret = (\<lambda>s. logged (\<lambda>c. SecretCreated s (err_of c)) (createConsumerSecret r s))\<rparr>"

text \<open>
  The provider's secret was read and has the key, and one of two writes succeeded: the referenced
  secret was found, and was updated under its own name and namespace with the provider's data and type; or it was
  missing, and a secret with these was created, whose name is the namespace of the reference and whose
  namespace is its name (see \<open>created_secret_swapped\<close>).
\<close>

definition updated_in_place :: "Secret \<Rightarrow> secret_event list \<Rightarrow> bool" where
  "updated_in_place p tr \<longleftrightarrow> (\<exists>s s'. ConsumerRead (Inr s) \<in> set tr \<and> SecretUpdated s' None \<in> set tr \<and>
     sec_Meta s' = sec_Meta s \<and> sec_Data s' = sec_Data p \<and> sec_Type s' = sec_Type p)"

definition created_swapped :: "'w reconciler \<Rightarrow> Secret \<Rightarrow> secret_event list \<Rightarrow> bool" where
  "created_swapped r p tr \<longleftrightarrow> (\<exists>e s ns name. ConsumerRead (Inl e) \<in> set tr \<and> IsNotFound e \<and>
     splitKey r (consumerSecretRefKey r) = Inr (ns, name) \<and> SecretCreated s None \<in> set tr \<and>
     om_Name (sec_Meta s) = ns \<and> om_Namespace (sec_Meta s) = name \<and> sec_Data s = sec_Data p \<and> sec_Type s = sec_Type p)"

definition copied :: "'w reconciler \<Rightarrow> string \<Rightarrow> secret_event list \<Rightarrow> bool" where
  "copied r key tr \<longleftrightarrow> (\<exists>p. ProviderRead (Inr p) \<in> set tr \<and> fmlookup (sec_Data p) key \<noteq> None \<and>
     (updated_in_place p tr \<or> created_swapped r p tr))"

abbreviation secret_valid :: "ClusterBinding \<Rightarrow> bool" where
  "secret_valid b \<equiv> IsTrue ClusterBinding_setter b ClusterBindingConditionSecretValid"

lemma unique_cluster_binding [simp]:
  "clb.unique_types x \<longleftrightarrow> distinct (map cond_Type (cbt_Conditions (cb_Status x)))"
  unfolding clb.unique_types_def by (simp add: ClusterBinding_setter_def)

lemma secret_marks:
  assumes "clb.unique_types b"
  shows "secret_valid (MarkTrue ClusterBinding_setter now b ClusterBindingConditionSecretValid)"
    and "\<not> secret_valid (mark_provider_secret now b reason m)"
  using clb.IsTrue_MarkTrue [OF assms]
    clb.IsFalse_MarkFalse [OF assms, of now ClusterBindingConditionSecretValid reason ConditionSeverityWarning m]
  by (auto simp: mark_provider_secret_def IsTrue_def IsFalse_def split: option.splits)

lemma ensureConsumerSecret_copies:
  assumes "clb.unique_types b"
  shows "wp (ensureConsumerSecret (traced r) now b) (\<lambda>(e, b') (_, tr).
     e = None \<longrightarrow> (secret_valid b' \<longleftrightarrow> copied r (lsk_Key (cbs_KubeconfigSecretRef (cb_Spec b))) tr)) (w, [])"
  unfolding ensureConsumerSecret_def write_consumer_secret_def Let_def
  by (intro wp_intros)
    (auto simp: traced_def copied_def updated_in_place_def created_swapped_def secret_marks [OF assms] new_consumer_secret_def copy_secret_def err_of_def
      intro!: wp_intros split: option.splits sum.splits if_splits)

lemma secret_valid_kept:
  assumes "clb.unique_types b"
  shows "secret_valid (SetSummary ClusterBinding_setter now (ensureKonnectorVersion r now (ensureHeartbeat r now b)) []) = secret_valid b"
proof -
  let ?v = "ensureKonnectorVersion r now (ensureHeartbeat r now b)"
  have types: "ClusterBindingConditionSecretValid \<noteq> ReadyCondition"
    "ClusterBindingConditionSecretValid \<noteq> ClusterBindingConditionValidVersion"
    by (simp_all add: ClusterBindingConditionSecretValid_def ReadyCondition_def ClusterBindingConditionValidVersion_def)
  have same: "GetConditions ClusterBinding_setter (set_status f x) = GetConditions ClusterBinding_setter x"
    if "cbt_Conditions (f (cb_Status x)) = cbt_Conditions (cb_Status x)" for f x
    using that by (simp add: ClusterBinding_setter_def set_status_def)
  have h: "GetConditions ClusterBinding_setter (ensureHeartbeat r now b) = GetConditions ClusterBinding_setter b"
    by (simp add: ensureHeartbeat_def Let_def same)
  then have u: "clb.unique_types (set_status (\<lambda>s. s\<lparr>cbt_KonnectorVersion := ver\<rparr>) (ensureHeartbeat r now b))" for ver
    using assms unfolding clb.unique_types_def by (simp add: same)
  have "clb.unique_types ?v" and "secret_valid ?v = secret_valid b"
    using clb.unique_Mark(1,2) [OF u] clb.Get_MarkTrue_other [OF u types(2)] clb.Get_MarkFalse_other [OF u types(2)]
    by (simp_all add: ensureKonnectorVersion_def IsTrue_def Get_def same h split: sum.split)
  with clb.Get_SetSummary_other [OF _ types(1)] show ?thesis by (simp add: IsTrue_def)
qed

text \<open>
  C37. When a reconciliation of the ClusterBinding ends without error, the condition SecretValid is true
  exactly if the provider's secret was found with the key of the kubeconfig and, in this reconciliation, either the
  secret that the consumer's reference names was found and updated in place with its data and type, or none was found
  and one with its data and type was created. The created one does not have the referenced name: the
  code exchanges name and namespace.
\<close>

theorem cluster_secret_valid_iff_copied:
  assumes "distinct (map cond_Type (cbt_Conditions (cb_Status b)))"
    and "run_state (reconcile (traced r) now b) (w, []) = ((None, b'), (w', tr))"
  shows "secret_valid b' \<longleftrightarrow> copied r (lsk_Key (cbs_KubeconfigSecretRef (cb_Spec b))) tr"
proof -
  have u: "clb.unique_types b" using assms(1) by simp
  have "wp (ensureConsumerSecret (traced r) now b) (\<lambda>(e, b') _. clb.unique_types b') (w, [])"
    by (rule wp_weaken [OF ensureConsumerSecret_same]) (use u clb.Set_unique [OF u] in auto)
  then have "wp (ensureConsumerSecret (traced r) now b) (\<lambda>(e, b') (_, tr).
      clb.unique_types b' \<and> (e = None \<longrightarrow> (secret_valid b' \<longleftrightarrow> copied r (lsk_Key (cbs_KubeconfigSecretRef (cb_Spec b))) tr))) (w, [])"
    using ensureConsumerSecret_copies [OF u, of r now w]
    by (auto simp: wp_def split: prod.splits)
  then have "wp (reconcile (traced r) now b) (\<lambda>(e, b') (_, tr).
      e = None \<longrightarrow> (secret_valid b' \<longleftrightarrow> copied r (lsk_Key (cbs_KubeconfigSecretRef (cb_Spec b))) tr)) (w, [])"
    unfolding reconcile_def by (rule wp_chain) (auto intro!: wp_return simp: secret_valid_kept)
  from wpD [OF this assms(2)] show ?thesis by simp
qed

section \<open>Concrete runs\<close>

text \<open>
  A consumer cluster that stores secrets by namespace and name and refuses to create one twice; the
  provider has a secret with key \<open>k\<close>, and the reference of the consumer is \<open>n/s\<close>.
\<close>

type_synonym secret_store = "((string \<times> string) \<times> Secret) list"

definition stored_reconciler :: "secret_store reconciler" where
  "stored_reconciler = \<lparr>consumerSecretRefKey = ''n/s'', providerNamespace = ''p'', heartbeatInterval = 300 * Second,
     gitVersion = ''v1.33.2+kube-bind-v0.5.1'', splitKey = ck_Split example_keys,
     getProviderSecret = State_Monad.return (Inr (example_secret ''config'')),
     getConsumerSecret = State (\<lambda>w. (case map_of w (''n'', ''s'') of None \<Rightarrow> Inl (StatusError ReasonNotFound ''s'') | Some x \<Rightarrow> Inr x, w)),
     assignCachedSecret = (\<lambda>_. State_Monad.return ()),
     updateConsumerSecret = (\<lambda>x. State (\<lambda>w. (Inr x, ((om_Namespace (sec_Meta x), om_Name (sec_Meta x)), x) # w))),
     createConsumerSecret = (\<lambda>x. State (\<lambda>w. let k = (om_Namespace (sec_Meta x), om_Name (sec_Meta x))
       in case map_of w k of None \<Rightarrow> (Inr x, (k, x) # w) | Some _ \<Rightarrow> (Inl (StatusError ReasonAlreadyExists ''s''), w)))\<rparr>"

definition example_cluster_binding :: "duration \<Rightarrow> time \<Rightarrow> ClusterBinding" where
  "example_cluster_binding h t = \<lparr>cb_Kind = ''ClusterBinding'', cb_Meta = zero_ObjectMeta\<lparr>om_Name := ''cluster'', om_Namespace := ''p''\<rparr>,
     cb_Spec = \<lparr>cbs_KubeconfigSecretRef = \<lparr>lsk_Name = ''kubeconfig'', lsk_Key = ''k''\<rparr>, cbs_ProviderPrettyName = ''P'',
       cbs_ServiceProviderSpec = None\<rparr>,
     cb_Status = \<lparr>cbt_LastHeartbeatTime = t, cbt_HeartbeatInterval = h, cbt_KonnectorVersion = '''', cbt_Conditions = []\<rparr>\<rparr>"

theorem cluster_secret_valid_iff_copied_witness:
  "let run = run_state (reconcile (traced stored_reconciler) 7 (example_cluster_binding 0 0)) ([], [])
   in fst (fst run) = None \<and> (secret_valid (snd (fst run)) \<longleftrightarrow> copied stored_reconciler ''k'' (snd (snd run)))"
proof -
  let ?b = "example_cluster_binding 0 0"
  let ?run = "run_state (reconcile (traced stored_reconciler) 7 ?b) ([], [])"
  have none: "fst (fst ?run) = None" by code_simp
  then have "?run = ((None, snd (fst ?run)), (fst (snd ?run), snd (snd ?run)))" by (metis prod.collapse)
  from cluster_secret_valid_iff_copied [OF _ this] none show ?thesis
    by (simp add: Let_def example_cluster_binding_def)
qed

section \<open>Deviations\<close>

text \<open>
  A missing consumer secret is created under its namespace as name and its name as namespace: it is
  not found by the next reconciliation, which fails.
\<close>

lemma created_secret_swapped:
  "let w1 = snd (run_state (reconcile stored_reconciler 7 (example_cluster_binding 0 0)) []);
       r2 = run_state (reconcile stored_reconciler 8 (example_cluster_binding 0 0)) w1
   in map fst w1 = [(''s'', ''n'')] \<and>
      map_option error_messages (fst (fst r2)) = Some [''s'']"
  by code_simp

text \<open>The handler for updates of exports compares the old object with itself and never enqueues.\<close>

lemma export_updates_dropped: "run_state (onServiceExportUpdate c old newObj) w = ((), w)"
  by (simp add: onServiceExportUpdate_def split: option.split)

section \<open>Processing never panics\<close>

text \<open>
  The ClusterBinding controller changes the status of the ClusterBinding only, so that processing a
  key does not run into the panic of the committer, provided its equality tests are reflexive.
\<close>

lemma cluster_binding_process_returns:
  assumes "\<And>m. cm_metaEqual (cc_committer c) m m" and "\<And>x. cm_specEqual (cc_committer c) x x"
  shows "fst (run_state (process c now key) w) \<noteq> Panics"
proof -
  have same: "wp (reconcile r now b) (\<lambda>(_, b') _. cb_Meta b' = cb_Meta b \<and> cb_Spec b' = cb_Spec b) w" for r b w
    unfolding reconcile_def
    by (rule wp_chain [OF ensureConsumerSecret_same], rule wp_return)
      (auto simp: SetSummary_def ensureKonnectorVersion_same ensureHeartbeat_def set_status_def Let_def)
  have commit: "wp (commit (cc_committer c) (cluster_binding_resource b) (cluster_binding_resource b')) (\<lambda>k _. k \<noteq> Panics) w"
    if "cb_Meta b' = cb_Meta b \<and> cb_Spec b' = cb_Spec b" for b b' w
    by (rule commit_one_part) (use that assms in \<open>simp add: cluster_binding_resource_def\<close>)
  have "wp (process c now key) (\<lambda>res _. res \<noteq> Panics) w"
    unfolding process_def
    by (rule wp_sum, (auto intro!: wp_return)[1], rule wp_prod, rule wp_if, (auto intro!: wp_return)[1], rule wp_call,
        rule wp_sum, (auto intro!: wp_return)[1], rule wp_chain [OF same], rule wp_chain [OF commit])
      (auto intro!: wp_return wp_call split: outcome.splits)
  then show ?thesis by (simp add: wp_def split: prod.splits)
qed

definition example_controller :: "(secret_store, ObjectMeta, string) controller" where
  "example_controller = \<lparr>cc_keys = example_keys,
     cc_queue = \<lparr>q_Add = (\<lambda>_. State_Monad.return ()), q_AddAfter = (\<lambda>_ _. State_Monad.return ())\<rparr>,
     cc_asExport = (\<lambda>_. None),
     cc_clusterBinding_Get = (\<lambda>_ _. State_Monad.return (Inr (example_cluster_binding 0 0))),
     cc_providerSecret_Get = (\<lambda>_ _. State_Monad.return (Inr (example_secret ''config''))),
     cc_consumerSecret_Get = (\<lambda>_ n. State_Monad.return (Inl (StatusError ReasonNotFound n))),
     cc_serviceBinding_BySecret = (\<lambda>_. State_Monad.return (Inr [])),
     cc_serviceBinding_UpdateStatus = (\<lambda>b. State_Monad.return (Inr b)),
     cc_reconciler = stored_reconciler,
     cc_committer = \<lparr>cm_metaEqual = (=), cm_specEqual = (=), cm_statusEqual = (=),
       cm_zeroSpec = cb_Spec (example_cluster_binding 0 0), cm_zeroStatus = cb_Status (example_cluster_binding 0 0),
       cm_focusType = '''', cm_marshal = (\<lambda>_. Inr ''''), cm_createMergePatch = (\<lambda>_ _. Inr ''''),
       cm_patch = (\<lambda>_ _ _ _. State_Monad.return None)\<rparr>\<rparr>"

end
