(* ===== verification/Worker.thy ===== *)
theory Worker
  imports Kube_Client
begin

text \<open>
  The worker loop that the controllers of the konnector share (\<open>processNextWorkItem\<close> and
  \<open>startWorker\<close>, repeated in each of them with the same body). The work queue is a parameter.
  The loop may run for ever, so it is a partial function; \<open>None\<close> stands for not returning.
\<close>

section \<open>Definitions\<close>

text \<open>\<open>Get\<close> gives \<open>None\<close> for \<open>quit\<close>. While it blocks, the world may change in any way.\<close>

record 'w workqueue =
  wq_Get :: "('w, string option) io"
  wq_Done :: "string \<Rightarrow> ('w, unit) io"
  wq_AddRateLimited :: "string \<Rightarrow> ('w, unit) io"
  wq_Forget :: "string \<Rightarrow> ('w, unit) io"

text \<open>The deferred \<open>Done\<close> also runs when processing panics.\<close>

definition processNextWorkItem :: "'w workqueue \<Rightarrow> (string \<Rightarrow> ('w, err outcome) io) \<Rightarrow> ('w, bool outcome) io" where
  "processNextWorkItem q process = do {
     g \<leftarrow> wq_Get q;
     (case g of
        None \<Rightarrow> State_Monad.return (Returns False)
      | Some key \<Rightarrow> do {
          r \<leftarrow> process key;
          (case r of
             Panics \<Rightarrow> do { wq_Done q key; State_Monad.return Panics }
           | Returns e \<Rightarrow>
               (case e of
                  Some _ \<Rightarrow> do { wq_AddRateLimited q key; wq_Done q key; State_Monad.return (Returns True) }
                | None \<Rightarrow> do { wq_Forget q key; wq_Done q key; State_Monad.return (Returns True) })) }) }"

partial_function (option) startWorker :: "('w, bool outcome) io \<Rightarrow> 'w \<Rightarrow> (unit outcome \<times> 'w) option" where
  "startWorker item w =
     (case run_state item w of
        (r, w') \<Rightarrow>
          (case r of
             Panics \<Rightarrow> Some (Panics, w')
           | Returns b \<Rightarrow> if b then startWorker item w' else Some (Returns (), w')))"

text \<open>A process that does not panic.\<close>

definition returning :: "('w, err) io \<Rightarrow> ('w, err outcome) io" where
  "returning m = do { e \<leftarrow> m; State_Monad.return (Returns e) }"

section \<open>Shutdown\<close>

text \<open>
  What the package documents of a queue that was shut down: it ignores new items, hands out the
  ones it has, and then tells the workers to exit. \<open>pending\<close> counts the keys still to be handed out;
  other workers may take some of them.
\<close>

locale shut_queue =
  fixes q :: "'w workqueue" and shut :: "'w \<Rightarrow> bool" and pending :: "'w \<Rightarrow> nat"
  assumes get_shut: "shut w \<Longrightarrow> run_state (wq_Get q) w = (g, w') \<Longrightarrow>
      shut w' \<and> pending w' \<le> pending w \<and> (g \<noteq> None \<longrightarrow> pending w' < pending w)"
    and get_drained: "shut w \<Longrightarrow> pending w = 0 \<Longrightarrow> fst (run_state (wq_Get q) w) = None"
    and ops_shut: "preserves (\<lambda>w. shut w \<and> pending w \<le> n) (wq_Done q key)"
      "preserves (\<lambda>w. shut w \<and> pending w \<le> n) (wq_AddRateLimited q key)"
      "preserves (\<lambda>w. shut w \<and> pending w \<le> n) (wq_Forget q key)"
begin

definition quiet :: "('w, 'a) io \<Rightarrow> bool" where
  "quiet m \<longleftrightarrow> (\<forall>n. preserves (\<lambda>w. shut w \<and> pending w \<le> n) m)"

lemma item_shut:
  assumes "\<And>key. quiet (process key)" and "shut w"
    and "run_state (processNextWorkItem q process) w = (r, w')"
  shows "shut w' \<and> pending w' \<le> pending w \<and> (r = Returns True \<longrightarrow> pending w' < pending w)"
proof -
  obtain g w1 where g: "run_state (wq_Get q) w = (g, w1)" by (cases "run_state (wq_Get q) w")
  note s1 = get_shut [OF assms(2) g]
  show ?thesis
  proof (cases g)
    case None
    then show ?thesis using assms(3) g s1 by (auto simp: processNextWorkItem_def)
  next
    case (Some key)
    let ?m = "do {
       r \<leftarrow> process key;
       (case r of
          Panics \<Rightarrow> do { wq_Done q key; State_Monad.return Panics }
        | Returns e \<Rightarrow>
            (case e of
               Some _ \<Rightarrow> do { wq_AddRateLimited q key; wq_Done q key; State_Monad.return (Returns True) }
             | None \<Rightarrow> do { wq_Forget q key; wq_Done q key; State_Monad.return (Returns True) })) }"
    have "preserves (\<lambda>w. shut w \<and> pending w \<le> pending w1) ?m"
      using assms(1) unfolding quiet_def
      by (intro preserves_bind) (auto split: outcome.split option.split intro!: preserves_bind ops_shut)
    moreover have "run_state ?m w1 = (r, w')" using assms(3) g Some by (simp add: processNextWorkItem_def)
    ultimately have "shut w' \<and> pending w' \<le> pending w1"
      using preservesD [of "\<lambda>w. shut w \<and> pending w \<le> pending w1" ?m w1 r w'] s1 by blast
    then show ?thesis using s1 Some by auto
  qed
qed

lemma worker_returns:
  assumes "\<And>key. quiet (process key)" and "shut w"
  shows "\<exists>r w'. startWorker (processNextWorkItem q process) w = Some (r, w') \<and> shut w'"
  using assms(2)
proof (induction "pending w" arbitrary: w rule: less_induct)
  case less
  obtain r w' where step: "run_state (processNextWorkItem q process) w = (r, w')"
    by (cases "run_state (processNextWorkItem q process) w")
  note s = item_shut [OF assms(1) less.prems step]
  show ?case
  proof (cases "r = Returns True")
    case True
    then show ?thesis using less.hyps [of w'] s step by (subst startWorker.simps) simp
  next
    case False
    then show ?thesis using s step by (subst startWorker.simps) (auto split: outcome.split)
  qed
qed

end

section \<open>Every key is given back\<close>

datatype work_event = Got "string option" | Processed string "err outcome" | GaveBack string | Requeued string | Forgot string

definition traced_queue :: "'w workqueue \<Rightarrow> ('w \<times> work_event list) workqueue" where
  "traced_queue q = \<lparr>wq_Get = logged Got (wq_Get q),
     wq_Done = (\<lambda>k. logged (\<lambda>_. GaveBack k) (wq_Done q k)),
     wq_AddRateLimited = (\<lambda>k. logged (\<lambda>_. Requeued k) (wq_AddRateLimited q k)),
     wq_Forget = (\<lambda>k. logged (\<lambda>_. Forgot k) (wq_Forget q k))\<rparr>"

text \<open>The calls that belong to one key: it is retried exactly if processing failed, and given back last.\<close>

fun item_calls :: "string \<Rightarrow> err outcome \<Rightarrow> work_event list" where
  "item_calls key Panics = [Got (Some key), Processed key Panics, GaveBack key]"
| "item_calls key (Returns (Some e)) = [Got (Some key), Processed key (Returns (Some e)), Requeued key, GaveBack key]"
| "item_calls key (Returns None) = [Got (Some key), Processed key (Returns None), Forgot key, GaveBack key]"

text \<open>A complete run of a worker: items until a quit or a panic.\<close>

inductive worker_run :: "unit outcome \<Rightarrow> work_event list \<Rightarrow> bool" where
  quit: "worker_run (Returns ()) [Got None]"
| panic: "worker_run Panics (item_calls key Panics)"
| item: "worker_run r tr \<Longrightarrow> worker_run r (item_calls key (Returns e) @ tr)"

lemma traced_queue_simps:
  "wq_Get (traced_queue q) = logged Got (wq_Get q)"
  "wq_Done (traced_queue q) = (\<lambda>k. logged (\<lambda>_. GaveBack k) (wq_Done q k))"
  "wq_AddRateLimited (traced_queue q) = (\<lambda>k. logged (\<lambda>_. Requeued k) (wq_AddRateLimited q k))"
  "wq_Forget (traced_queue q) = (\<lambda>k. logged (\<lambda>_. Forgot k) (wq_Forget q k))"
  by (simp_all add: traced_queue_def)

lemma wp_outcome [wp_intros]:
  "(\<And>x. r = Returns x \<Longrightarrow> wp (f x) Q s) \<Longrightarrow> (r = Panics \<Longrightarrow> wp m Q s) \<Longrightarrow>
   wp (case r of Returns x \<Rightarrow> f x | Panics \<Rightarrow> m) Q s"
  by (cases r) simp_all

definition traced_item :: "'w workqueue \<Rightarrow> (string \<Rightarrow> ('w, err outcome) io) \<Rightarrow> ('w \<times> work_event list, bool outcome) io" where
  "traced_item q process = processNextWorkItem (traced_queue q) (\<lambda>k. logged (Processed k) (process k))"

lemma item_traced:
  "wp (traced_item q process)
     (\<lambda>r (_, tr'). (r = Returns False \<and> tr' = tr @ [Got None]) \<or>
        (\<exists>key. r = Panics \<and> tr' = tr @ item_calls key Panics) \<or>
        (\<exists>key e. r = Returns True \<and> tr' = tr @ item_calls key (Returns e))) (w, tr)"
  unfolding traced_item_def processNextWorkItem_def traced_queue_simps
  by (intro wp_intros)
    (use item_calls.simps(2,3) in \<open>auto, metis+\<close>)

lemma startWorker_induct [consumes 1, case_names quit panic item]:
  assumes "startWorker item w = Some (r, w')"
    and "\<And>w w'. run_state item w = (Returns False, w') \<Longrightarrow> P (Returns ()) w w'"
    and "\<And>w w'. run_state item w = (Panics, w') \<Longrightarrow> P Panics w w'"
    and "\<And>r w w1 w'. run_state item w = (Returns True, w1) \<Longrightarrow> P r w1 w' \<Longrightarrow> P r w w'"
  shows "P r w w'"
proof -
  have "item' = item \<longrightarrow> P (fst y) w (snd y)" if "startWorker item' w = Some y" for item' w y
  proof (rule startWorker.raw_induct [where P = "\<lambda>i w y. i = item \<longrightarrow> P (fst y) w (snd y)", OF _ that], rule impI)
    fix loop item' w y
    assume "\<And>i w y. loop i w = Some y \<Longrightarrow> i = item \<longrightarrow> P (fst y) w (snd y)" and "item' = item"
      and "(case run_state item' w of (r, w') \<Rightarrow>
        (case r of Panics \<Rightarrow> Some (Panics, w') | Returns b \<Rightarrow> if b then loop item' w' else Some (Returns (), w'))) = Some y"
    moreover obtain r w1 where "run_state item' w = (r, w1)" by (cases "run_state item' w")
    ultimately show "P (fst y) w (snd y)"
      using assms(2-4) by (cases "r = Returns True") (auto split: outcome.splits if_splits)
  qed
  then show ?thesis using assms(1) by fastforce
qed

text \<open>A worker that returns has given every key back, and retries exactly the keys that failed.\<close>

lemma worker_traced:
  assumes "startWorker (traced_item q process) (w, tr) = Some (r, (w', tr'))"
  shows "\<exists>us. tr' = tr @ us \<and> worker_run r us"
proof -
  have "\<exists>us. snd s' = snd s @ us \<and> worker_run r us" if "startWorker (traced_item q process) s = Some (r, s')" for s s'
    using that
  proof (induction rule: startWorker_induct)
    case (quit s s')
    then show ?case using wpD [OF item_traced [of q process "snd s" "fst s"], of "Returns False" s']
      by (auto simp: worker_run.quit split: prod.splits)
  next
    case (panic s s')
    then show ?case using wpD [OF item_traced [of q process "snd s" "fst s"], of Panics s']
      by (auto simp: worker_run.panic simp del: item_calls.simps split: prod.splits)
  next
    case (item r s s1 s')
    then obtain key e us where "snd s1 = snd s @ item_calls key (Returns e)" and "snd s' = snd s1 @ us" "worker_run r us"
      using wpD [OF item_traced [of q process "snd s" "fst s"], of "Returns True" s1]
      by (auto simp del: item_calls.simps split: prod.splits)
    then show ?case using worker_run.item by (metis append.assoc)
  qed
  then show ?thesis using assms by fastforce
qed

section \<open>Workers end after a shutdown\<close>

lemma preserves_logged: "preserves P m \<Longrightarrow> preserves (\<lambda>(w, _). P w) (logged ev m)"
  by (auto simp: preserves_def logged_def split: prod.splits)

lemma shut_queue_traced:
  fixes q :: "'w workqueue"
  assumes "shut_queue q shut pending"
  shows "shut_queue (traced_queue q) (\<lambda>(w, _). shut w) (\<lambda>(w, _). pending w)"
proof
  show "(case w' of (w, _) \<Rightarrow> shut w) \<and> (case w' of (w, _) \<Rightarrow> pending w) \<le> (case w of (w, _) \<Rightarrow> pending w) \<and>
      (g \<noteq> None \<longrightarrow> (case w' of (w, _) \<Rightarrow> pending w) < (case w of (w, _) \<Rightarrow> pending w))"
    if "case w of (w, _) \<Rightarrow> shut w" "run_state (wq_Get (traced_queue q)) w = (g, w')"
    for w :: "'w \<times> work_event list" and g w'
    using that shut_queue.get_shut [OF assms, of "fst w" g "fst w'"] by (auto simp: traced_queue_simps logged_def split: prod.splits)
  show "fst (run_state (wq_Get (traced_queue q)) w) = None"
    if "case w of (w, _) \<Rightarrow> shut w" "(case w of (w, _) \<Rightarrow> pending w) = 0" for w :: "'w \<times> work_event list"
    using that shut_queue.get_drained [OF assms, of "fst w"] by (auto simp: traced_queue_simps logged_def split: prod.splits)
  have eq: "(\<lambda>w :: 'w \<times> work_event list. (case w of (w, _) \<Rightarrow> shut w) \<and> (case w of (w, _) \<Rightarrow> pending w) \<le> n) =
      (\<lambda>(w, _). shut w \<and> pending w \<le> n)" for n by auto
  show "preserves (\<lambda>w. (case w of (w, _) \<Rightarrow> shut w) \<and> (case w of (w, _) \<Rightarrow> pending w) \<le> n) (wq_Done (traced_queue q) key)"
    "preserves (\<lambda>w. (case w of (w, _) \<Rightarrow> shut w) \<and> (case w of (w, _) \<Rightarrow> pending w) \<le> n) (wq_AddRateLimited (traced_queue q) key)"
    "preserves (\<lambda>w. (case w of (w, _) \<Rightarrow> shut w) \<and> (case w of (w, _) \<Rightarrow> pending w) \<le> n) (wq_Forget (traced_queue q) key)" for n key
    unfolding eq traced_queue_simps by (rule preserves_logged, rule shut_queue.ops_shut [OF assms])+
qed

context shut_queue
begin

lemma worker_ends:
  assumes "\<And>key. quiet (process key)" and "shut w"
  shows "\<exists>r w' tr. startWorker (traced_item q process) (w, []) = Some (r, (w', tr)) \<and> worker_run r tr"
proof -
  note traced = shut_queue_traced [OF shut_queue_axioms]
  have eq: "(\<lambda>s :: 'w \<times> work_event list. (case s of (w, _) \<Rightarrow> shut w) \<and> (case s of (w, _) \<Rightarrow> pending w) \<le> n) =
      (\<lambda>(w, _). shut w \<and> pending w \<le> n)" for n by auto
  have "shut_queue.quiet (\<lambda>(w, _). shut w) (\<lambda>(w, _). pending w) (logged (Processed key) (process key))" for key
    using assms(1) [of key] preserves_logged unfolding quiet_def shut_queue.quiet_def [OF traced] eq by fast
  then have "\<exists>r s'. startWorker (traced_item q process) (w, []) = Some (r, s') \<and> (case s' of (w, _) \<Rightarrow> shut w)"
    unfolding traced_item_def by (rule shut_queue.worker_returns [OF traced]) (use assms(2) in simp)
  then show ?thesis using worker_traced [of q process w "[]"] by fastforce
qed

end

section \<open>A queue\<close>

text \<open>
  A queue with the documented behaviour: keys are handed out in order, a key that is added while it
  is waiting is not added again, one that is added while it is processed is queued when it is
  given back, and after the shutdown additions are ignored.
\<close>

record queue_state =
  qs_queue :: "string list"
  qs_dirty :: "string list"
  qs_processing :: "string list"
  qs_shuttingDown :: bool

definition fifo_add :: "string \<Rightarrow> queue_state \<Rightarrow> queue_state" where
  "fifo_add k s = (if qs_shuttingDown s \<or> k \<in> set (qs_dirty s) then s
     else s\<lparr>qs_dirty := k # qs_dirty s, qs_queue := (if k \<in> set (qs_processing s) then qs_queue s else qs_queue s @ [k])\<rparr>)"

definition fifo_workqueue :: "queue_state workqueue" where
  "fifo_workqueue = \<lparr>
     wq_Get = State (\<lambda>s. case qs_queue s of
        [] \<Rightarrow> (None, s)
      | k # ks \<Rightarrow> (Some k, s\<lparr>qs_queue := ks, qs_processing := k # qs_processing s, qs_dirty := removeAll k (qs_dirty s)\<rparr>)),
     wq_Done = (\<lambda>k. State (\<lambda>s. ((), s\<lparr>qs_processing := removeAll k (qs_processing s),
        qs_queue := (if k \<in> set (qs_dirty s) \<and> k \<notin> set (qs_queue s) then qs_queue s @ [k] else qs_queue s)\<rparr>))),
     wq_AddRateLimited = (\<lambda>k. State (\<lambda>s. ((), fifo_add k s))),
     wq_Forget = (\<lambda>k. State_Monad.return ())\<rparr>"

text \<open>Waiting keys are dirty; the dirty ones are those still to be handed out.\<close>

definition fifo_shut :: "queue_state \<Rightarrow> bool" where
  "fifo_shut s \<longleftrightarrow> qs_shuttingDown s \<and> set (qs_queue s) \<subseteq> set (qs_dirty s) \<and> distinct (qs_queue s) \<and> distinct (qs_dirty s)"

interpretation fifo: shut_queue fifo_workqueue fifo_shut "\<lambda>s. length (qs_dirty s)"
proof
  show "fifo_shut s' \<and> length (qs_dirty s') \<le> length (qs_dirty s) \<and> (g \<noteq> None \<longrightarrow> length (qs_dirty s') < length (qs_dirty s))"
    if "fifo_shut s" "run_state (wq_Get fifo_workqueue) s = (g, s')" for s g s'
    using that length_pos_if_in_set [of "hd (qs_queue s)" "qs_dirty s"]
    by (auto simp: fifo_workqueue_def fifo_shut_def distinct_remove1_removeAll [symmetric] length_remove1 split: list.splits)
  show "fst (run_state (wq_Get fifo_workqueue) s) = None" if "fifo_shut s" "length (qs_dirty s) = 0" for s
    using that by (auto simp: fifo_workqueue_def fifo_shut_def split: list.splits)
qed (auto simp: preserves_def fifo_workqueue_def fifo_shut_def fifo_add_def)

section \<open>Processes without panics\<close>

lemma item_no_panic:
  assumes "\<And>key w. fst (run_state (process key) w) \<noteq> Panics"
  shows "fst (run_state (processNextWorkItem q process) w) \<noteq> Panics"
proof -
  obtain g w1 where g: "run_state (wq_Get q) w = (g, w1)" by (cases "run_state (wq_Get q) w")
  show ?thesis
  proof (cases g)
    case (Some key)
    obtain r w2 where "run_state (process key) w1 = (r, w2)" by (cases "run_state (process key) w1")
    then show ?thesis using assms [of key w1] g Some
      by (auto simp: processNextWorkItem_def split: prod.split outcome.split option.split)
  qed (use g in \<open>simp add: processNextWorkItem_def\<close>)
qed

lemma worker_no_panic:
  assumes "startWorker item w = Some (r, w')" and "\<And>w. fst (run_state item w) \<noteq> Panics"
  shows "r = Returns ()"
  using assms(1)
proof (induction rule: startWorker_induct)
  case (panic w w')
  then show ?case using assms(2) [of w] by simp
qed simp_all

lemma returning_no_panic: "fst (run_state (returning m) w) \<noteq> Panics" "fst (run_state (logged ev (returning m)) (w, tr)) \<noteq> Panics"
  by (simp_all add: returning_def logged_def split: prod.split)

lemma returning_worker:
  assumes "shut_queue q shut pending" and "\<And>key. shut_queue.quiet shut pending (returning (process key))" and "shut w"
  shows "(\<exists>w'. startWorker (processNextWorkItem q (\<lambda>key. returning (process key))) w = Some (Returns (), w')) \<and>
    (\<exists>w' tr. startWorker (traced_item q (\<lambda>key. returning (process key))) (w, []) = Some (Returns (), (w', tr)) \<and>
       worker_run (Returns ()) tr)"
proof -
  obtain r w' where run: "startWorker (processNextWorkItem q (\<lambda>key. returning (process key))) w = Some (r, w')"
    using shut_queue.worker_returns [OF assms(1), of "\<lambda>key. returning (process key)" w, OF assms(2,3)] by blast
  moreover have "r = Returns ()"
    by (rule worker_no_panic [OF run]) (rule item_no_panic, rule returning_no_panic)
  moreover obtain r' w'' tr where traced: "startWorker (traced_item q (\<lambda>key. returning (process key))) (w, []) = Some (r', (w'', tr))"
      "worker_run r' tr"
    using shut_queue.worker_ends [OF assms(1), of "\<lambda>key. returning (process key)" w, OF assms(2,3)] by blast
  moreover have "r' = Returns ()"
    by (rule worker_no_panic [OF traced(1)], unfold traced_item_def, rule item_no_panic) (metis returning_no_panic(2) prod.exhaust)
  ultimately show ?thesis by blast
qed

end
