(* ===== verification/Namespace_Lifecycle.thy ===== *)
theory Namespace_Lifecycle
  imports Worker
begin

text \<open>
  The controller that ties namespaces of the consumer to APIServiceNamespaces of the provider
  (\<open>cluster/namespacelifecycle\<close>): a service namespace of the provider gets a namespace, one of the
  consumer is deleted when its namespace is gone.
\<close>

section \<open>Controller\<close>

record ('w, 'e) controller =
  providerNamespace :: string
  keys :: "'e cache_keys"
  queue :: "'w queue"
  workers :: "'w workqueue"
  getNamespace :: "string \<Rightarrow> ('w, ObjectMeta) call"
  getServiceNamespace :: "string \<Rightarrow> string \<Rightarrow> ('w, APIServiceNamespace) call"
  deleteServiceNamespace :: "string \<Rightarrow> string \<Rightarrow> ('w, err) io"
  createNamespace :: "ObjectMeta \<Rightarrow> ('w, ObjectMeta) call"

definition enqueueServiceNamespace :: "('w, 'e) controller \<Rightarrow> 'e \<Rightarrow> ('w, unit) io" where
  "enqueueServiceNamespace c obj =
     (case ck_DeletionHandlingKey (keys c) obj of
        Inl _ \<Rightarrow> State_Monad.return ()
      | Inr key \<Rightarrow> q_Add (queue c) key)"

definition enqueueNamespace :: "('w, 'e) controller \<Rightarrow> 'e \<Rightarrow> ('w, unit) io" where
  "enqueueNamespace c obj =
     (case ck_DeletionHandlingKey (keys c) obj of
        Inl _ \<Rightarrow> State_Monad.return ()
      | Inr nsKey \<Rightarrow> q_Add (queue c) (providerNamespace c @ ''/'' @ nsKey))"

definition handleNamespaceDeletion :: "('w, 'e) controller \<Rightarrow> string \<Rightarrow> string \<Rightarrow> ('w, err) io" where
  "handleNamespaceDeletion c snsNamespace name = do {
     g \<leftarrow> getNamespace c name;
     (case g of
        Inl e \<Rightarrow> State_Monad.return (if \<not> IsNotFound e then Some e else None)
      | Inr _ \<Rightarrow> State_Monad.return None) }"

text \<open>A missing label reads as the empty string.\<close>

definition isConsumerOwned :: "APIServiceNamespace \<Rightarrow> bool" where
  "isConsumerOwned sns \<longleftrightarrow>
     (case fmlookup (om_Labels (sn_Meta sns)) ObjectOwnerLabel of None \<Rightarrow> '''' | Some l \<Rightarrow> l) \<noteq> Owner_String OwnerProvider"

definition provider_namespace :: "string \<Rightarrow> ObjectMeta" where
  "provider_namespace name = zero_ObjectMeta\<lparr>om_Name := name,
     om_Labels := fmupd ObjectOwnerLabel (Owner_String OwnerProvider) fmempty\<rparr>"

definition handleNamespaceLifecycle :: "('w, 'e) controller \<Rightarrow> APIServiceNamespace \<Rightarrow> ('w, err) io" where
  "handleNamespaceLifecycle c current =
     (if isConsumerOwned current then do {
        g \<leftarrow> getNamespace c (om_Name (sn_Meta current));
        (case g of
           Inl e \<Rightarrow>
             (if IsNotFound e then deleteServiceNamespace c (om_Namespace (sn_Meta current)) (om_Name (sn_Meta current))
              else State_Monad.return (Some e))
         | Inr _ \<Rightarrow> State_Monad.return None) }
      else do {
        g \<leftarrow> getNamespace c (om_Name (sn_Meta current));
        (case g of
           Inl e \<Rightarrow>
             (if IsNotFound e then do {
                k \<leftarrow> createNamespace c (provider_namespace (om_Name (sn_Meta current)));
                State_Monad.return (err_of k) }
              else State_Monad.return (Some e))
         | Inr _ \<Rightarrow> State_Monad.return None) })"

definition process :: "('w, 'e) controller \<Rightarrow> string \<Rightarrow> ('w, err) io" where
  "process c key =
     (case ck_Split (keys c) key of
        Inl _ \<Rightarrow> State_Monad.return None
      | Inr (snsNamespace, name) \<Rightarrow> do {
          g \<leftarrow> getServiceNamespace c snsNamespace name;
          (case g of
             Inl e \<Rightarrow> (if IsNotFound e then handleNamespaceDeletion c snsNamespace name else State_Monad.return (Some e))
           | Inr current \<Rightarrow> handleNamespaceLifecycle c current) })"

definition worker_item :: "('w, 'e) controller \<Rightarrow> ('w, bool outcome) io" where
  "worker_item c = processNextWorkItem (workers c) (\<lambda>key. returning (process c key))"

definition worker :: "('w, 'e) controller \<Rightarrow> 'w \<Rightarrow> (unit outcome \<times> 'w) option" where
  "worker c = startWorker (worker_item c)"

section \<open>Specification\<close>

text \<open>
  The labels of the objects in both clusters: the service namespaces of the provider by namespace
  and name, and the namespaces of the consumer by name.
\<close>

type_synonym labels = "(string, string) fmap"

record clusters =
  serviceNamespaces :: "string \<times> string \<Rightarrow> labels option"
  namespaces :: "string \<Rightarrow> labels option"

definition provider_labelled :: "labels \<Rightarrow> bool" where
  "provider_labelled l \<longleftrightarrow> fmlookup l ''kube-bind.io/owner'' = Some ''provider''"

definition lifecycle_spec :: "string \<Rightarrow> string \<Rightarrow> clusters \<Rightarrow> clusters" where
  "lifecycle_spec ns name s =
     (case (serviceNamespaces s (ns, name), namespaces s name) of
        (Some l, None) \<Rightarrow>
          (if provider_labelled l
           then s\<lparr>namespaces := (namespaces s)(name \<mapsto> fmupd ''kube-bind.io/owner'' ''provider'' fmempty)\<rparr>
           else s\<lparr>serviceNamespaces := (serviceNamespaces s)((ns, name) := None)\<rparr>)
      | _ \<Rightarrow> s)"

lemma isConsumerOwned_iff: "isConsumerOwned sns \<longleftrightarrow> \<not> provider_labelled (om_Labels (sn_Meta sns))"
  by (simp add: isConsumerOwned_def provider_labelled_def ObjectOwnerLabel_def Owner_String_def split: option.split)

lemma provider_namespace_simps:
  "om_Name (provider_namespace name) = name"
  "om_Labels (provider_namespace name) = fmupd ''kube-bind.io/owner'' ''provider'' fmempty"
  by (simp_all add: provider_namespace_def ObjectOwnerLabel_def Owner_String_def)

text \<open>
  What API servers and up-to-date caches promise: lookups find the stored object and change nothing,
  a creation of an object that is not there stores it, a deletion removes it.
\<close>

locale cluster_access =
  fixes c :: "('w, 'e) controller" and store :: "'w \<Rightarrow> clusters"
  assumes get_sns: "run_state (getServiceNamespace c ns name) w = (g, w') \<Longrightarrow> store w' = store w \<and>
      (case serviceNamespaces (store w) (ns, name) of
         Some l \<Rightarrow> \<exists>sns. g = Inr sns \<and> om_Namespace (sn_Meta sns) = ns \<and> om_Name (sn_Meta sns) = name \<and> om_Labels (sn_Meta sns) = l
       | None \<Rightarrow> \<exists>e. g = Inl e \<and> IsNotFound e)"
    and get_ns: "run_state (getNamespace c name) w = (h, w') \<Longrightarrow> store w' = store w \<and>
      (case namespaces (store w) name of Some l \<Rightarrow> \<exists>m. h = Inr m | None \<Rightarrow> \<exists>e. h = Inl e \<and> IsNotFound e)"
    and delete_sns: "serviceNamespaces (store w) (ns, name) \<noteq> None \<Longrightarrow>
      run_state (deleteServiceNamespace c ns name) w = (e, w') \<Longrightarrow>
      e = None \<and> store w' = (store w)\<lparr>serviceNamespaces := (serviceNamespaces (store w))((ns, name) := None)\<rparr>"
    and create_ns: "namespaces (store w) (om_Name m) = None \<Longrightarrow>
      run_state (createNamespace c m) w = (k, w') \<Longrightarrow>
      (\<exists>m'. k = Inr m') \<and> store w' = (store w)\<lparr>namespaces := (namespaces (store w))(om_Name m \<mapsto> om_Labels m)\<rparr>"
begin

lemma lifecycle_refines:
  assumes "serviceNamespaces (store w) (ns, name) = Some (om_Labels (sn_Meta sns))"
    and names: "om_Namespace (sn_Meta sns) = ns" "om_Name (sn_Meta sns) = name"
  shows "wp (handleNamespaceLifecycle c sns) (\<lambda>e w'. e = None \<and> store w' = lifecycle_spec ns name (store w)) w"
proof -
  obtain g w1 where g: "run_state (getNamespace c name) w = (g, w1)" by (cases "run_state (getNamespace c name) w")
  note s1 = get_ns [OF g]
  show ?thesis
  proof (cases "namespaces (store w) name")
    case (Some m)
    then show ?thesis using s1 g assms
      by (auto simp: wp_def handleNamespaceLifecycle_def lifecycle_spec_def)
  next
    case None
    then obtain e where e: "g = Inl e" "IsNotFound e" "store w1 = store w" using s1 by auto
    show ?thesis
    proof (cases "isConsumerOwned sns")
      case True
      obtain x w2 where x: "run_state (deleteServiceNamespace c ns name) w1 = (x, w2)"
        by (cases "run_state (deleteServiceNamespace c ns name) w1")
      show ?thesis using delete_sns [OF _ x] x True None e g assms
        by (simp add: wp_def handleNamespaceLifecycle_def lifecycle_spec_def isConsumerOwned_iff)
    next
      case False
      obtain k w2 where k: "run_state (createNamespace c (provider_namespace name)) w1 = (k, w2)"
        by (cases "run_state (createNamespace c (provider_namespace name)) w1")
      then show ?thesis using create_ns [OF _ k] False None e g assms
        by (auto simp: wp_def handleNamespaceLifecycle_def lifecycle_spec_def isConsumerOwned_iff provider_namespace_simps)
    qed
  qed
qed

lemma process_refines:
  assumes "ck_Split (keys c) key = Inr (ns, name)"
  shows "wp (process c key) (\<lambda>e w'. e = None \<and> store w' = lifecycle_spec ns name (store w)) w"
proof -
  obtain g w1 where g: "run_state (getServiceNamespace c ns name) w = (g, w1)"
    by (cases "run_state (getServiceNamespace c ns name) w")
  note s1 = get_sns [OF g]
  show ?thesis
  proof (cases "serviceNamespaces (store w) (ns, name)")
    case (Some l)
    then obtain sns where "g = Inr sns" "om_Namespace (sn_Meta sns) = ns" "om_Name (sn_Meta sns) = name"
      "om_Labels (sn_Meta sns) = l" "store w1 = store w" using s1 by auto
    then show ?thesis using Some g assms lifecycle_refines [of w1 ns name sns] by (simp add: process_def wp_def)
  next
    case None
    obtain h w2 where h: "run_state (getNamespace c name) w1 = (h, w2)" by (cases "run_state (getNamespace c name) w1")
    show ?thesis using None s1 g assms h get_ns [OF h]
      by (auto simp: process_def wp_def handleNamespaceDeletion_def lifecycle_spec_def split: option.splits)
  qed
qed

end

section \<open>Clusters as the world\<close>

text \<open>An instance: both clusters and the work queue as the state.\<close>

definition not_found :: go_error where "not_found = StatusError ReasonNotFound ''not found''"

definition example_controller :: "(clusters \<times> queue_state, ObjectMeta) controller" where
  "example_controller = \<lparr>
     providerNamespace = ''kube-bind-x'', keys = example_keys,
     queue = \<lparr>q_Add = (\<lambda>k. State (\<lambda>(s, q). ((), (s, fifo_add k q)))), q_AddAfter = (\<lambda>k d. State (\<lambda>(s, q). ((), (s, fifo_add k q))))\<rparr>,
     workers = \<lparr>wq_Get = State (\<lambda>(s, q). let (k, q') = run_state (wq_Get fifo_workqueue) q in (k, (s, q'))),
       wq_Done = (\<lambda>k. State (\<lambda>(s, q). ((), (s, snd (run_state (wq_Done fifo_workqueue k) q))))),
       wq_AddRateLimited = (\<lambda>k. State (\<lambda>(s, q). ((), (s, snd (run_state (wq_AddRateLimited fifo_workqueue k) q))))),
       wq_Forget = (\<lambda>k. State (\<lambda>(s, q). ((), (s, snd (run_state (wq_Forget fifo_workqueue k) q)))))\<rparr>,
     getNamespace = (\<lambda>name. State (\<lambda>(s, q). (case namespaces s name of
        None \<Rightarrow> Inl not_found | Some l \<Rightarrow> Inr (zero_ObjectMeta\<lparr>om_Name := name, om_Labels := l\<rparr>), (s, q)))),
     getServiceNamespace = (\<lambda>ns name. State (\<lambda>(s, q). (case serviceNamespaces s (ns, name) of
        None \<Rightarrow> Inl not_found
      | Some l \<Rightarrow> Inr \<lparr>sn_Meta = zero_ObjectMeta\<lparr>om_Name := name, om_Namespace := ns, om_Labels := l\<rparr>, sn_StatusNamespace = ''''\<rparr>, (s, q)))),
     deleteServiceNamespace = (\<lambda>ns name. State (\<lambda>(s, q). (None, (s\<lparr>serviceNamespaces := (serviceNamespaces s)((ns, name) := None)\<rparr>, q)))),
     createNamespace = (\<lambda>m. State (\<lambda>(s, q). (Inr m, (s\<lparr>namespaces := (namespaces s)(om_Name m \<mapsto> om_Labels m)\<rparr>, q))))\<rparr>"

interpretation example_clusters: cluster_access example_controller fst
  by unfold_locales
    (auto simp: example_controller_def not_found_def split: option.splits)

interpretation example_queue: shut_queue "workers example_controller" "\<lambda>(_, q). fifo_shut q" "\<lambda>(_, q). length (qs_dirty q)"
proof
  show "(case w' of (_, q) \<Rightarrow> fifo_shut q) \<and> (case w' of (_, q) \<Rightarrow> length (qs_dirty q)) \<le> (case w of (_, q) \<Rightarrow> length (qs_dirty q)) \<and>
      (g \<noteq> None \<longrightarrow> (case w' of (_, q) \<Rightarrow> length (qs_dirty q)) < (case w of (_, q) \<Rightarrow> length (qs_dirty q)))"
    if "case w of (_, q) \<Rightarrow> fifo_shut q" "run_state (wq_Get (workers example_controller)) w = (g, w')" for w g w'
    using that fifo.get_shut [of "snd w" g "snd w'"] by (auto simp: example_controller_def split: prod.splits)
  show "fst (run_state (wq_Get (workers example_controller)) w) = None"
    if "case w of (_, q) \<Rightarrow> fifo_shut q" "(case w of (_, q) \<Rightarrow> length (qs_dirty q)) = 0" for w
    using that fifo.get_drained [of "snd w"] by (auto simp: example_controller_def split: prod.splits)
qed (use fifo.ops_shut in \<open>force simp: example_controller_def preserves_def split: prod.splits\<close>)+

section \<open>Properties\<close>

text \<open>
  C8. On clusters that answer as documented, processing a key does to their objects what the
  specification says: a service namespace labelled as the provider's gets a labelled namespace if it
  has none, any other service namespace without a namespace is deleted, and nothing else changes. No
  error is returned, and processing the key again changes nothing. (The flowchart of the documentation deletes
  the service namespace of a missing namespace whoever owns it; here the provider's are kept.)
\<close>

theorem namespace_lifecycle_refines:
  assumes "cluster_access c store" and "ck_Split (keys c) key = Inr (ns, name)"
    and "run_state (process c key) w = (e, w1)" and "run_state (process c key) w1 = (e', w2)"
  shows "e = None \<and> store w1 = lifecycle_spec ns name (store w) \<and> e' = None \<and> store w2 = store w1"
proof -
  note refines = wpD [OF cluster_access.process_refines [OF assms(1,2)]]
  have "lifecycle_spec ns name (lifecycle_spec ns name s) = lifecycle_spec ns name s" for s
    by (auto simp: lifecycle_spec_def split: option.splits)
  then show ?thesis using refines [OF assms(3)] refines [OF assms(4)] by simp
qed

lemma process_quiet:
  assumes "shut_queue q shut pending"
    and "\<And>n name. preserves (\<lambda>w. shut w \<and> pending w \<le> n) (getNamespace c name)"
    and "\<And>n ns name. preserves (\<lambda>w. shut w \<and> pending w \<le> n) (getServiceNamespace c ns name)"
    and "\<And>n ns name. preserves (\<lambda>w. shut w \<and> pending w \<le> n) (deleteServiceNamespace c ns name)"
    and "\<And>n m. preserves (\<lambda>w. shut w \<and> pending w \<le> n) (createNamespace c m)"
  shows "shut_queue.quiet shut pending (returning (process c key))"
  unfolding shut_queue.quiet_def [OF assms(1)] returning_def process_def handleNamespaceDeletion_def handleNamespaceLifecycle_def
  by (intro allI preserves_intros assms)

text \<open>
  C24. A worker of the controller ends after the queue was shut down, if no call of the controller makes
  new keys wait then: it returns without a panic, having given back every key it got and retried
  exactly those that failed.
\<close>

theorem lifecycle_worker_stops:
  assumes "shut_queue (workers c) shut pending" and "shut w"
    and "\<And>n name. preserves (\<lambda>w. shut w \<and> pending w \<le> n) (getNamespace c name)"
    and "\<And>n ns name. preserves (\<lambda>w. shut w \<and> pending w \<le> n) (getServiceNamespace c ns name)"
    and "\<And>n ns name. preserves (\<lambda>w. shut w \<and> pending w \<le> n) (deleteServiceNamespace c ns name)"
    and "\<And>n m. preserves (\<lambda>w. shut w \<and> pending w \<le> n) (createNamespace c m)"
  shows "(\<exists>w'. worker c w = Some (Returns (), w')) \<and>
    (\<exists>w' tr. startWorker (traced_item (workers c) (\<lambda>key. returning (process c key))) (w, []) = Some (Returns (), (w', tr)) \<and>
       worker_run (Returns ()) tr)"
  unfolding worker_def worker_item_def
  by (rule returning_worker [OF assms(1) process_quiet [OF assms(1,3-6)] assms(2)])

section \<open>Examples\<close>

definition example_clusters :: clusters where
  "example_clusters = \<lparr>serviceNamespaces = (\<lambda>_. None)((''kube-bind-x'', ''a'') \<mapsto> fmupd ''kube-bind.io/owner'' ''provider'' fmempty,
     (''kube-bind-x'', ''b'') \<mapsto> fmempty), namespaces = (\<lambda>_. None)(''c'' \<mapsto> fmempty)\<rparr>"

definition example_world :: "clusters \<times> queue_state" where
  "example_world = (example_clusters, \<lparr>qs_queue = [''kube-bind-x/a'', ''kube-bind-x/b''],
     qs_dirty = [''kube-bind-x/b'', ''kube-bind-x/a''], qs_processing = [], qs_shuttingDown = True\<rparr>)"

theorem namespace_lifecycle_refines_witness:
  "let w1 = snd (run_state (process example_controller ''kube-bind-x/a'') example_world);
       w2 = snd (run_state (process example_controller ''kube-bind-x/a'') w1)
   in fst w1 = lifecycle_spec ''kube-bind-x'' ''a'' example_clusters \<and> fst w2 = fst w1 \<and>
      namespaces (fst w1) ''a'' = Some (fmupd ''kube-bind.io/owner'' ''provider'' fmempty)"
proof -
  let ?run = "run_state (process example_controller ''kube-bind-x/a'')"
  have split: "ck_Split (keys example_controller) ''kube-bind-x/a'' = Inr (''kube-bind-x'', ''a'')"
    by (simp add: example_controller_def example_keys_def numeral_3_eq_3)
  have "fst (?run example_world) = None \<and> fst (snd (?run example_world)) = lifecycle_spec ''kube-bind-x'' ''a'' (fst example_world) \<and>
      fst (?run (snd (?run example_world))) = None \<and> fst (snd (?run (snd (?run example_world)))) = fst (snd (?run example_world))"
    by (rule namespace_lifecycle_refines [OF example_clusters.cluster_access_axioms split]) simp_all
  moreover have "namespaces (lifecycle_spec ''kube-bind-x'' ''a'' example_clusters) ''a'' = Some (fmupd ''kube-bind.io/owner'' ''provider'' fmempty)"
    by (simp add: lifecycle_spec_def example_clusters_def provider_labelled_def)
  ultimately show ?thesis by (simp add: Let_def example_world_def)
qed

theorem lifecycle_worker_stops_witness:
  "(\<exists>w'. worker example_controller example_world = Some (Returns (), w')) \<and>
   (\<exists>w' tr. startWorker (traced_item (workers example_controller) (\<lambda>key. returning (process example_controller key))) (example_world, []) =
      Some (Returns (), (w', tr)) \<and> worker_run (Returns ()) tr)"
  by (rule lifecycle_worker_stops [OF example_queue.shut_queue_axioms])
    (auto simp: example_world_def fifo_shut_def example_controller_def preserves_def split: option.split)

section \<open>Deviations\<close>

text \<open>
  The comments say that the namespace is deleted with its service namespace, and that a namespace is
  deleted if the consumer owns the service namespace. No namespace is ever deleted.
\<close>

lemma no_namespace_deleted:
  "namespaces s n = Some l \<Longrightarrow> namespaces (lifecycle_spec ns name s) n = Some l"
  by (auto simp: lifecycle_spec_def split: option.splits)

end
