(* ===== verification/Controllers.thy ===== *)
theory Controllers
  imports Spec_Sync Status_Sync Export_Controller Service_Binding Claimed_Namespaces Cluster_Binding Namespace_Lifecycle
begin

text \<open>
  The workers of the konnector's controllers: each runs \<open>startWorker\<close> of \<open>Worker\<close> on its own queue with its
  own \<open>process\<close> (that of the namespace lifecycle is in its theory). The clock is read for every key.
\<close>

section \<open>Definitions\<close>

definition clocked :: "('w, time) io \<Rightarrow> (time \<Rightarrow> string \<Rightarrow> ('w, 'a) io) \<Rightarrow> string \<Rightarrow> ('w, 'a) io" where
  "clocked clock p key = do { now \<leftarrow> clock; p now key }"

definition spec_worker :: "'w workqueue \<Rightarrow> ('w, 'e) Spec_Sync.controller \<Rightarrow> 'w \<Rightarrow> (unit outcome \<times> 'w) option" where
  "spec_worker q c = startWorker (processNextWorkItem q (\<lambda>key. returning (Spec_Sync.process c key)))"

definition status_worker :: "'w workqueue \<Rightarrow> ('w, 'e) Status_Sync.controller \<Rightarrow> 'w \<Rightarrow> (unit outcome \<times> 'w) option" where
  "status_worker q c = startWorker (processNextWorkItem q (\<lambda>key. returning (Status_Sync.process c key)))"

definition claimed_worker :: "'w workqueue \<Rightarrow> ('w, 'e) Claimed_Resources.controller \<Rightarrow> 'w \<Rightarrow> (unit outcome \<times> 'w) option" where
  "claimed_worker q c = startWorker (processNextWorkItem q (\<lambda>key. returning (Claimed_Resources.process c key)))"

definition claimed_namespaces_worker :: "'w workqueue \<Rightarrow> ('w, 'e) ns_controller \<Rightarrow> nat \<Rightarrow> 'w \<Rightarrow> (unit outcome \<times> 'w) option" where
  "claimed_namespaces_worker q c polls = startWorker (processNextWorkItem q (\<lambda>key. returning (ns_process c polls key)))"

definition binding_worker :: "'w workqueue \<Rightarrow> ('w, time) io \<Rightarrow> ('w, 'e, 'p) Service_Binding.controller \<Rightarrow> 'w \<Rightarrow> (unit outcome \<times> 'w) option" where
  "binding_worker q clock c = startWorker (processNextWorkItem q (clocked clock (Service_Binding.process c)))"

definition secret_worker :: "'w workqueue \<Rightarrow> ('w, time) io \<Rightarrow> ('w, 'e, 'p) secret_controller \<Rightarrow> 'w \<Rightarrow> (unit outcome \<times> 'w) option" where
  "secret_worker q clock c = startWorker (processNextWorkItem q (clocked clock (secret_process c)))"

definition cluster_binding_worker :: "'w workqueue \<Rightarrow> ('w, time) io \<Rightarrow> ('w, 'e, 'p) Cluster_Binding.controller \<Rightarrow> 'w \<Rightarrow> (unit outcome \<times> 'w) option" where
  "cluster_binding_worker q clock c = startWorker (processNextWorkItem q (clocked clock (Cluster_Binding.process c)))"

definition export_worker :: "'w sync_world workqueue \<Rightarrow> ('w sync_world, time) io \<Rightarrow> ('w, 'e, 'p) export_controller \<Rightarrow> 'w sync_world \<Rightarrow>
    (unit outcome \<times> 'w sync_world) option" where
  "export_worker q clock c = startWorker (processNextWorkItem q (clocked clock (Export_Controller.process c)))"

definition konnector_worker :: "'w konnector_state workqueue \<Rightarrow> ('w, 'e, 'p) Controller \<Rightarrow> 'w konnector_state \<Rightarrow>
    (unit outcome \<times> 'w konnector_state) option" where
  "konnector_worker q c = startWorker (processNextWorkItem q (Konnector.process c))"

section \<open>No worker panics\<close>

definition reflexive_committer :: "('w, 'sp, 'st, 'p) committer \<Rightarrow> bool" where
  "reflexive_committer k \<longleftrightarrow> (\<forall>m. cm_metaEqual k m m) \<and> (\<forall>x. cm_specEqual k x x)"

lemma reflexive_committerD:
  "reflexive_committer k \<Longrightarrow> cm_metaEqual k m m" "reflexive_committer k \<Longrightarrow> cm_specEqual k x x"
  by (simp_all add: reflexive_committer_def)

lemma clocked_no_panic: "(\<And>now w. fst (run_state (p now key) w) \<noteq> Panics) \<Longrightarrow> fst (run_state (clocked clock p key) w) \<noteq> Panics"
  by (simp add: clocked_def split: prod.split)

text \<open>A worker whose process does not panic ends normally, if it ends.\<close>

lemma worker_ends_normally:
  "(\<And>key w. fst (run_state (p key) w) \<noteq> Panics) \<Longrightarrow> startWorker (processNextWorkItem q p) w \<noteq> Some (Panics, w')"
  using worker_no_panic item_no_panic by (metis outcome.distinct(1))

lemma konnector_process_returns:
  assumes "reflexive_committer (kc_committer c)"
  shows "fst (run_state (Konnector.process c key) s) \<noteq> Panics"
proof -
  have commit: "wp (Konnector.ext (commit (kc_committer c) (binding_resource b) (binding_resource b))) (\<lambda>k _. k \<noteq> Panics) s" for b s
    using commit_one_part [of "kc_committer c" "binding_resource b" "binding_resource b" "kn_ext s"] reflexive_committerD [OF assms]
    by (simp add: wp_def Konnector.ext_def split: prod.splits)
  have "wp (Konnector.process c key) (\<lambda>res _. res \<noteq> Panics) s"
    unfolding Konnector.process_def
    by (rule wp_sum, (auto intro!: wp_return)[1], rule wp_prod, rule wp_call, rule wp_sum, (auto intro!: wp_return)[1],
        rule wp_call, rule wp_chain [OF commit])
      (auto intro!: wp_return split: outcome.splits)
  then show ?thesis by (simp add: wp_def split: prod.splits)
qed

text \<open>A queue that hands out a key while the world says so, which \<open>Done\<close> ends.\<close>

definition once_queue :: "('w \<Rightarrow> bool) \<Rightarrow> ('w \<Rightarrow> 'w) \<Rightarrow> string \<Rightarrow> 'w workqueue" where
  "once_queue has off key = \<lparr>wq_Get = State (\<lambda>w. (if has w then Some key else None, w)),
     wq_Done = (\<lambda>_. State (\<lambda>w. ((), off w))), wq_AddRateLimited = (\<lambda>_. State_Monad.return ()),
     wq_Forget = (\<lambda>_. State_Monad.return ())\<rparr>"

definition example_clock :: "('w, time) io" where "example_clock = State_Monad.return 7"

definition string_queue :: "string workqueue" where
  "string_queue = once_queue (\<lambda>w. w \<noteq> '''') (\<lambda>_. '''') ''p/cluster''"

lemma example_secret_worker: "secret_worker string_queue example_clock example_secret_controller ''p'' = Some (Returns (), '''')"
proof -
  have "run_state (processNextWorkItem string_queue (clocked example_clock (secret_process example_secret_controller))) ''p'' = (Returns True, '''')"
    and "run_state (processNextWorkItem string_queue (clocked example_clock (secret_process example_secret_controller))) '''' = (Returns False, '''')"
    by code_simp+
  then show ?thesis by (simp add: secret_worker_def startWorker.simps [of _ "''p''"] startWorker.simps [of _ "''''"])
qed

end
