(* ===== verification/Multi_Informer.thy ===== *)
theory Multi_Informer
  imports Kube_Client
begin

text \<open>
  The dynamic multi-namespace informer (\<open>serviceexport/multinsinformer/informer.go\<close>): one informer
  per APIServiceNamespace, started and stopped as these come and go. The mutex makes each handler
  one step. Contexts are numbered as they are created; the listers of the single informers and the
  listers of APIServiceNamespaces are calls into an arbitrary world.
\<close>

section \<open>State\<close>

record 'h ns_informer =
  ni_Namespace :: string
  ni_ctx :: nat
  ni_handlers :: "'h list"

record ('h, 'w) DynamicMultiNamespaceInformer =
  namespaceInformers :: "(string \<times> 'h ns_informer) list"
  namespaceCancel :: "(string \<times> nat) list"
  handlers :: "'h list"
  mi_next :: nat
  mi_cancelled :: "nat list"
  mi_ext :: 'w

record ('h, 'w, 'e) informer_env =
  ie_providerNamespace :: string
  ie_keys :: "'e cache_keys"
  ie_serviceNamespace_Get :: "string \<Rightarrow> string \<Rightarrow> ('w, APIServiceNamespace) call"
  ie_serviceNamespace_ByStatusNamespace :: "string \<Rightarrow> ('w, APIServiceNamespace list) call"
  ie_attach :: "nat \<Rightarrow> 'h \<Rightarrow> err"
  ie_lister_Get :: "nat \<Rightarrow> string \<Rightarrow> string \<Rightarrow> ('w, unstructured) call"
  ie_lister_List :: "nat \<Rightarrow> string \<Rightarrow> ('w, unstructured list) call"

definition ext :: "('w, 'a) io \<Rightarrow> (('h, 'w) DynamicMultiNamespaceInformer, 'a) io" where
  "ext m = State (\<lambda>s. case run_state m (mi_ext s) of (a, w) \<Rightarrow> (a, s\<lparr>mi_ext := w\<rparr>))"

definition NewDynamicMultiNamespaceInformer :: "'w \<Rightarrow> ('h, 'w) DynamicMultiNamespaceInformer" where
  "NewDynamicMultiNamespaceInformer w = \<lparr>namespaceInformers = [], namespaceCancel = [], handlers = [],
     mi_next = 0, mi_cancelled = [], mi_ext = w\<rparr>"

section \<open>Operations\<close>

definition stop_informer :: "string \<Rightarrow> ('h, 'w) DynamicMultiNamespaceInformer \<Rightarrow> ('h, 'w) DynamicMultiNamespaceInformer" where
  "stop_informer name s =
     (case map_of (namespaceCancel s) name of
        None \<Rightarrow> s
      | Some cancel \<Rightarrow> s\<lparr>namespaceCancel := remove_key name (namespaceCancel s),
          namespaceInformers := remove_key name (namespaceInformers s),
          mi_cancelled := mi_cancelled s @ [cancel]\<rparr>)"

text \<open>A new informer gets every handler registered so far; failures to add one are ignored.\<close>

definition start_informer :: "('h, 'w, 'e) informer_env \<Rightarrow> string \<Rightarrow> string \<Rightarrow>
    ('h, 'w) DynamicMultiNamespaceInformer \<Rightarrow> ('h, 'w) DynamicMultiNamespaceInformer" where
  "start_informer env name ns s =
     (let ctx = mi_next s;
          newInf = \<lparr>ni_Namespace = ns, ni_ctx = ctx, ni_handlers = filter (\<lambda>h. ie_attach env ctx h = None) (handlers s)\<rparr>
      in s\<lparr>mi_next := Suc ctx,
           namespaceCancel := (name, ctx) # remove_key name (namespaceCancel s),
           namespaceInformers := (name, newInf) # remove_key name (namespaceInformers s)\<rparr>)"

text \<open>
  The event handler for APIServiceNamespaces. When the object does not exist the lister gives nil,
  and logging its status namespace before the informer is stopped dereferences it.
\<close>

definition enqueueServiceNamespace :: "('h, 'w, 'e) informer_env \<Rightarrow> 'e \<Rightarrow>
    (('h, 'w) DynamicMultiNamespaceInformer, unit outcome) io" where
  "enqueueServiceNamespace env obj =
     (case ck_DeletionHandlingKey (ie_keys env) obj of
        Inl _ \<Rightarrow> State_Monad.return (Returns ())
      | Inr key \<Rightarrow>
          (case ck_Split (ie_keys env) key of
             Inl _ \<Rightarrow> State_Monad.return (Returns ())
           | Inr (ns, name) \<Rightarrow>
               (if ns \<noteq> ie_providerNamespace env then State_Monad.return (Returns ())
                else do {
                  g \<leftarrow> ext (ie_serviceNamespace_Get env ns name);
                  (case g of
                     Inl e \<Rightarrow>
                       (if \<not> IsNotFound e then State_Monad.return (Returns ())
                        else State (\<lambda>s. case map_of (namespaceCancel s) name of
                            None \<Rightarrow> (Returns (), s)
                          | Some _ \<Rightarrow> (Panics, s)))
                   | Inr sns \<Rightarrow>
                       (if sn_StatusNamespace sns = '''' then State (\<lambda>s. (Returns (), stop_informer name s))
                        else State (\<lambda>s. case map_of (namespaceCancel s) name of
                            Some _ \<Rightarrow> (Returns (), s)
                          | None \<Rightarrow> (Returns (), start_informer env name (sn_StatusNamespace sns) s)))) })))"

text \<open>The loop of \<open>AddEventHandler\<close> stops at the first informer that refuses the handler.\<close>

fun attach_all :: "('h, 'w, 'e) informer_env \<Rightarrow> 'h \<Rightarrow> (string \<times> 'h ns_informer) list \<Rightarrow>
    err \<times> (string \<times> 'h ns_informer) list" where
  "attach_all env h [] = (None, [])"
| "attach_all env h ((n, i) # is) =
     (case ie_attach env (ni_ctx i) h of
        Some e \<Rightarrow> (Some e, (n, i) # is)
      | None \<Rightarrow> (let (e, is') = attach_all env h is in (e, (n, i\<lparr>ni_handlers := ni_handlers i @ [h]\<rparr>) # is')))"

definition AddEventHandler :: "('h, 'w, 'e) informer_env \<Rightarrow> 'h \<Rightarrow> (('h, 'w) DynamicMultiNamespaceInformer, err) io" where
  "AddEventHandler env h = State (\<lambda>s.
     case attach_all env h (namespaceInformers s) of
       (Some e, is) \<Rightarrow> (Some e, s\<lparr>namespaceInformers := is\<rparr>)
     | (None, is) \<Rightarrow> (None, s\<lparr>namespaceInformers := is, handlers := handlers s @ [h]\<rparr>))"

definition multi_Get :: "('h, 'w, 'e) informer_env \<Rightarrow> string \<Rightarrow> string \<Rightarrow>
    (('h, 'w) DynamicMultiNamespaceInformer, go_error + unstructured) io" where
  "multi_Get env ns name = do {
     g \<leftarrow> ext (ie_serviceNamespace_ByStatusNamespace env ns);
     (case g of
        Inl e \<Rightarrow> State_Monad.return (Inl e)
      | Inr [] \<Rightarrow> State_Monad.return (Inl (StatusError ReasonNotFound name))
      | Inr (sns # []) \<Rightarrow> do {
          i \<leftarrow> State (\<lambda>s. (map_of (namespaceInformers s) (om_Name (sn_Meta sns)), s));
          (case i of
             None \<Rightarrow> State_Monad.return (Inl (StatusError ReasonNotFound name))
           | Some i0 \<Rightarrow> ext (ie_lister_Get env (ni_ctx i0) ns name)) }
      | Inr _ \<Rightarrow> State_Monad.return (Inl (Errorf (''unexpected multiple APIServiceNamespaces for namespace '' @ ns) None))) }"

definition multi_List :: "('h, 'w, 'e) informer_env \<Rightarrow> string \<Rightarrow>
    (('h, 'w) DynamicMultiNamespaceInformer, go_error + unstructured list) io" where
  "multi_List env ns = do {
     g \<leftarrow> ext (ie_serviceNamespace_ByStatusNamespace env ns);
     (case g of
        Inl e \<Rightarrow> State_Monad.return (Inl e)
      | Inr [] \<Rightarrow> State_Monad.return (Inr [])
      | Inr (sns # []) \<Rightarrow> do {
          i \<leftarrow> State (\<lambda>s. (map_of (namespaceInformers s) (om_Name (sn_Meta sns)), s));
          (case i of
             None \<Rightarrow> State_Monad.return (Inr [])
           | Some i0 \<Rightarrow> ext (ie_lister_List env (ni_ctx i0) ns)) }
      | Inr _ \<Rightarrow> State_Monad.return (Inl (Errorf (''unexpected multiple APIServiceNamespaces for namespace '' @ ns) None))) }"

text \<open>The end of the context given to \<open>Start\<close>: every informer is cancelled.\<close>

definition shutdown :: "('h, 'w) DynamicMultiNamespaceInformer \<Rightarrow> ('h, 'w) DynamicMultiNamespaceInformer" where
  "shutdown s = s\<lparr>mi_cancelled := mi_cancelled s @ map snd (namespaceCancel s)\<rparr>"

section \<open>Invariant\<close>

text \<open>
  The two maps have the same unique keys and belong together, every running informer has all
  registered handlers, and every context is either that of a running informer or cancelled.
\<close>

definition mi_inv :: "('h, 'w) DynamicMultiNamespaceInformer \<Rightarrow> bool" where
  "mi_inv s \<longleftrightarrow>
     distinct (map fst (namespaceInformers s)) \<and>
     map (\<lambda>(n, i). (n, ni_ctx i)) (namespaceInformers s) = namespaceCancel s \<and>
     (\<forall>(n, i) \<in> set (namespaceInformers s). ni_handlers i = handlers s) \<and>
     distinct (map snd (namespaceCancel s) @ mi_cancelled s) \<and>
     set (map snd (namespaceCancel s) @ mi_cancelled s) = {..<mi_next s}"

lemma remove_key_map:
  "map (\<lambda>(n, i). (n, f i)) (remove_key k xs) = remove_key k (map (\<lambda>(n, i). (n, f i)) xs)"
  by (induction xs) (auto simp: remove_key_def)

lemma remove_key_absent: "map_of xs k = None \<Longrightarrow> remove_key k xs = xs"
  by (induction xs) (auto simp: remove_key_def split: if_splits)

lemma remove_key_Cons:
  "remove_key k ((a, b) # xs) = (if a = k then remove_key k xs else (a, b) # remove_key k xs)"
  by (simp add: remove_key_def)

lemma mset_remove_key:
  "distinct (map fst xs) \<Longrightarrow> map_of xs k = Some v \<Longrightarrow> mset (map snd xs) = add_mset v (mset (map snd (remove_key k xs)))"
proof (induction xs)
  case (Cons x xs)
  obtain a b where x: "x = (a, b)" by (cases x)
  show ?case
  proof (cases "a = k")
    case True
    then have "remove_key k xs = xs"
      using Cons.prems(1) x by (intro remove_key_absent) (simp add: map_of_eq_None_iff)
    then show ?thesis using Cons.prems(2) x True by (simp add: remove_key_Cons)
  next
    case False
    then show ?thesis using Cons x by (simp add: remove_key_Cons)
  qed
qed simp

lemma mi_inv_keys:
  assumes "mi_inv s"
  shows "map fst (namespaceCancel s) = map fst (namespaceInformers s)"
proof -
  have "namespaceCancel s = map (\<lambda>(n, i). (n, ni_ctx i)) (namespaceInformers s)"
    using assms by (simp add: mi_inv_def)
  then show ?thesis by (simp add: comp_def case_prod_unfold)
qed

lemma mi_inv_stop: "mi_inv s \<Longrightarrow> mi_inv (stop_informer name s)"
proof (cases "map_of (namespaceCancel s) name")
  case (Some c)
  assume s: "mi_inv s"
  let ?c' = "remove_key name (namespaceCancel s)"
  have "map fst (namespaceCancel s) = map fst (namespaceInformers s)" by (rule mi_inv_keys [OF s])
  then have "distinct (map fst (namespaceCancel s))" using s by (simp add: mi_inv_def)
  then have ms: "mset (map snd ?c' @ mi_cancelled s @ [c]) = mset (map snd (namespaceCancel s) @ mi_cancelled s)"
    using mset_remove_key [OF _ Some] by simp
  have "distinct (map snd ?c' @ mi_cancelled s @ [c])"
    using s mset_eq_imp_distinct_iff [OF ms] unfolding mi_inv_def by blast
  moreover have "set (map snd ?c' @ mi_cancelled s @ [c]) = {..<mi_next s}"
    using s mset_eq_setD [OF ms] unfolding mi_inv_def by blast
  moreover have "map (\<lambda>(n, i). (n, ni_ctx i)) (remove_key name (namespaceInformers s)) = ?c'"
    using s by (simp add: remove_key_map mi_inv_def)
  moreover have "set (remove_key name (namespaceInformers s)) \<subseteq> set (namespaceInformers s)"
    by (auto simp: remove_key_def)
  ultimately show ?thesis using s Some unfolding mi_inv_def stop_informer_def by auto
qed (simp add: stop_informer_def)

lemma mi_inv_start:
  assumes "mi_inv s" and "map_of (namespaceCancel s) name = None" and "\<And>h. ie_attach env (mi_next s) h = None"
  shows "mi_inv (start_informer env name ns s)"
proof -
  have "map fst (namespaceCancel s) = map fst (namespaceInformers s)" by (rule mi_inv_keys [OF assms(1)])
  then have free: "name \<notin> fst ` set (namespaceInformers s)"
    using assms(2) by (metis list.set_map map_of_eq_None_iff)
  then have "remove_key name (namespaceInformers s) = namespaceInformers s"
    by (simp add: remove_key_absent map_of_eq_None_iff)
  then show ?thesis
    using assms free remove_key_absent [OF assms(2)]
    by (auto simp: mi_inv_def start_informer_def Let_def)
qed

lemma attach_all_None:
  assumes "\<And>c h. ie_attach env c h = None"
  shows "attach_all env h is = (None, map (\<lambda>(n, i). (n, i\<lparr>ni_handlers := ni_handlers i @ [h]\<rparr>)) is)"
  by (induction "is") (auto simp: assms)

text \<open>
  C26. Events about APIServiceNamespaces and new handlers, in any order, keep the invariant of the
  multi-namespace informer, provided informers accept handlers: each running informer has every
  handler registered before or after it was started, the two maps agree, and each context created is
  that of exactly one running informer or was cancelled once.
\<close>

theorem multi_informer_invariant:
  assumes "mi_inv s" and "\<And>c h. ie_attach env c h = None"
  shows "mi_inv (snd (run_state (enqueueServiceNamespace env obj) s)) \<and>
    mi_inv (snd (run_state (AddEventHandler env h) s))"
proof
  have ext: "mi_inv (s\<lparr>mi_ext := w\<rparr>)" for w using assms(1) by (simp add: mi_inv_def)
  show "mi_inv (snd (run_state (enqueueServiceNamespace env obj) s))"
    using assms(1) mi_inv_stop [OF ext] mi_inv_start [OF ext _ assms(2)] ext
    by (auto simp: enqueueServiceNamespace_def ext_def split: sum.split prod.split option.split)
  show "mi_inv (snd (run_state (AddEventHandler env h) s))"
    using assms(1) by (auto simp: AddEventHandler_def attach_all_None [OF assms(2)] mi_inv_def comp_def
        case_prod_unfold)
qed

definition example_env :: "(nat, unit, ObjectMeta) informer_env" where
  "example_env = \<lparr>ie_providerNamespace = ''pns'', ie_keys = example_keys,
     ie_serviceNamespace_Get = (\<lambda>ns n. State_Monad.return
       (Inr \<lparr>sn_Meta = zero_ObjectMeta\<lparr>om_Name := n, om_Namespace := ns\<rparr>, sn_StatusNamespace = ''up''\<rparr>)),
     ie_serviceNamespace_ByStatusNamespace = (\<lambda>_. State_Monad.return (Inr [])),
     ie_attach = (\<lambda>_ _. None),
     ie_lister_Get = (\<lambda>_ _ _. State_Monad.return (Inl (StatusError ReasonNotFound ''''))),
     ie_lister_List = (\<lambda>_ _. State_Monad.return (Inr []))\<rparr>"

lemma mi_inv_New: "mi_inv (NewDynamicMultiNamespaceInformer w)"
  by (simp add: mi_inv_def NewDynamicMultiNamespaceInformer_def lessThan_def)

theorem multi_informer_invariant_witness:
  "mi_inv (snd (run_state (enqueueServiceNamespace example_env
     (zero_ObjectMeta\<lparr>om_Name := ''a'', om_Namespace := ''pns''\<rparr>)) (NewDynamicMultiNamespaceInformer ())))"
  using multi_informer_invariant [OF mi_inv_New, of example_env] by (simp add: example_env_def)

text \<open>
  The deletion of an APIServiceNamespace whose informer runs panics: the informer is not stopped.
\<close>

lemma deleted_service_namespace_panics:
  assumes "ck_DeletionHandlingKey (ie_keys env) obj = Inr key"
    and "ck_Split (ie_keys env) key = Inr (ie_providerNamespace env, name)"
    and "run_state (ie_serviceNamespace_Get env (ie_providerNamespace env) name) (mi_ext s) = (Inl e, w)"
    and "IsNotFound e" and "map_of (namespaceCancel s) name = Some c"
  shows "run_state (enqueueServiceNamespace env obj) s = (Panics, s\<lparr>mi_ext := w\<rparr>)"
  using assms by (simp add: enqueueServiceNamespace_def ext_def)

section \<open>Waiting for caches\<close>

text \<open>
  \<open>sy_HasSynced\<close> tells for the informer of a context whether it is in sync, and \<open>sy_others\<close> is what the
  other goroutines do between two polls. The number of polls is what the stop channel allows.
\<close>

record ('h, 'w) sync_env =
  sy_List :: "string \<Rightarrow> ('w, APIServiceNamespace list) call"
  sy_HasSynced :: "nat \<Rightarrow> 'w \<Rightarrow> bool"
  sy_others :: "(('h, 'w) DynamicMultiNamespaceInformer, unit) io"

fun check_synced :: "('h, 'w, 'e) informer_env \<Rightarrow> ('h, 'w) sync_env \<Rightarrow> APIServiceNamespace list \<Rightarrow>
    (('h, 'w) DynamicMultiNamespaceInformer, bool) io" where
  "check_synced env sy [] = State_Monad.return True"
| "check_synced env sy (sns # rest) = do {
     s \<leftarrow> State_Monad.get;
     (case map_of (namespaceInformers s) (om_Name (sn_Meta sns)) of
        None \<Rightarrow> do {
          g \<leftarrow> ext (ie_serviceNamespace_Get env (ie_providerNamespace env) (om_Name (sn_Meta sns)));
          (case g of
             Inl _ \<Rightarrow> check_synced env sy rest
           | Inr _ \<Rightarrow> State_Monad.return False) }
      | Some i \<Rightarrow>
          (if \<not> sy_HasSynced sy (ni_ctx i) (mi_ext s) then State_Monad.return False else check_synced env sy rest)) }"

fun poll_synced :: "('h, 'w, 'e) informer_env \<Rightarrow> ('h, 'w) sync_env \<Rightarrow> APIServiceNamespace list \<Rightarrow> nat \<Rightarrow>
    (('h, 'w) DynamicMultiNamespaceInformer, bool) io" where
  "poll_synced env sy snss 0 = State_Monad.return False"
| "poll_synced env sy snss (Suc polls) = do {
     done \<leftarrow> check_synced env sy snss;
     (if done then State_Monad.return True else do { sy_others sy; poll_synced env sy snss polls }) }"

text \<open>\<open>None\<close> is the nil map after an error; otherwise the value for the resource.\<close>

definition WaitForCacheSync :: "('h, 'w, 'e) informer_env \<Rightarrow> ('h, 'w) sync_env \<Rightarrow> nat \<Rightarrow>
    (('h, 'w) DynamicMultiNamespaceInformer, bool option) io" where
  "WaitForCacheSync env sy polls = do {
     l \<leftarrow> ext (sy_List sy (ie_providerNamespace env));
     (case l of
        Inl _ \<Rightarrow> State_Monad.return None
      | Inr snss \<Rightarrow> do { b \<leftarrow> poll_synced env sy snss polls; State_Monad.return (Some b) }) }"

text \<open>
  The other implementation of the interface, one informer for all namespaces. Its listers, for one
  namespace and for all, and its informer are parameters.
\<close>

record ('h, 'w) shared_informer =
  sh_Get :: "string \<Rightarrow> ('w, unstructured) call"
  sh_ByNamespace_Get :: "string \<Rightarrow> string \<Rightarrow> ('w, unstructured) call"
  sh_ByNamespace_List :: "string \<Rightarrow> ('w, unstructured list) call"
  sh_AddEventHandler :: "'h \<Rightarrow> ('w, err) io"
  sh_Start :: "('w, unit) io"
  sh_WaitForCacheSync :: "('w, bool option) io"

definition wrapper_Get :: "('h, 'w) shared_informer \<Rightarrow> string \<Rightarrow> string \<Rightarrow> ('w, unstructured) call" where
  "wrapper_Get w ns name = (if ns \<noteq> '''' then sh_ByNamespace_Get w ns name else sh_Get w name)"

definition wrapper_List :: "('h, 'w) shared_informer \<Rightarrow> string \<Rightarrow> ('w, unstructured list) call" where
  "wrapper_List w ns = sh_ByNamespace_List w ns"

definition wrapper_AddEventHandler :: "('h, 'w) shared_informer \<Rightarrow> 'h \<Rightarrow> ('w, err) io" where
  "wrapper_AddEventHandler w h = sh_AddEventHandler w h"

text \<open>
  When the wait succeeds, at the last poll every listed namespace had an informer in sync, or is gone.
\<close>

definition synced_or_gone :: "('h, 'w, 'e) informer_env \<Rightarrow> ('h, 'w) sync_env \<Rightarrow> ('h, 'w) DynamicMultiNamespaceInformer \<Rightarrow>
    APIServiceNamespace \<Rightarrow> bool" where
  "synced_or_gone env sy s sns \<longleftrightarrow>
     (case map_of (namespaceInformers s) (om_Name (sn_Meta sns)) of
        Some i \<Rightarrow> sy_HasSynced sy (ni_ctx i) (mi_ext s)
      | None \<Rightarrow> \<exists>e. fst (run_state (ie_serviceNamespace_Get env (ie_providerNamespace env) (om_Name (sn_Meta sns))) (mi_ext s)) = Inl e)"

lemma check_synced_true:
  assumes "\<And>ns n w. snd (run_state (ie_serviceNamespace_Get env ns n) w) = w"
    and "run_state (check_synced env sy snss) s = (True, s')"
  shows "s' = s \<and> (\<forall>sns \<in> set snss. synced_or_gone env sy s sns)"
  using assms(2)
proof (induction snss)
  case (Cons sns rest)
  let ?get = "run_state (ie_serviceNamespace_Get env (ie_providerNamespace env) (om_Name (sn_Meta sns))) (mi_ext s)"
  have "snd ?get = mi_ext s" by (rule assms(1))
  then obtain g where g: "?get = (g, mi_ext s)" by (cases ?get) auto
  then have "run_state (check_synced env sy rest) s = (True, s')" and "synced_or_gone env sy s sns"
    using Cons.prems
    by (cases g; cases "map_of (namespaceInformers s) (om_Name (sn_Meta sns))";
        auto simp: ext_def synced_or_gone_def split: if_splits)+
  with Cons.IH show ?case by simp
qed simp

lemma poll_synced_true:
  assumes "run_state (poll_synced env sy snss polls) s = (True, s')"
  shows "\<exists>s0. run_state (check_synced env sy snss) s0 = (True, s')"
  using assms
proof (induction polls arbitrary: s)
  case (Suc polls)
  then show ?case by (auto split: prod.splits if_splits)
qed simp

lemma WaitForCacheSync_true:
  assumes "\<And>ns n w. snd (run_state (ie_serviceNamespace_Get env ns n) w) = w"
    and "run_state (WaitForCacheSync env sy polls) s = (Some True, s')"
  shows "\<exists>snss w. fst (run_state (sy_List sy (ie_providerNamespace env)) w) = Inr snss \<and>
    (\<forall>sns \<in> set snss. synced_or_gone env sy s' sns)"
proof -
  obtain l w1 where l: "run_state (sy_List sy (ie_providerNamespace env)) (mi_ext s) = (l, w1)"
    by (cases "run_state (sy_List sy (ie_providerNamespace env)) (mi_ext s)")
  with assms(2) obtain snss where snss: "l = Inr snss" and p: "run_state (poll_synced env sy snss polls) (s\<lparr>mi_ext := w1\<rparr>) = (True, s')"
    by (auto simp: WaitForCacheSync_def ext_def split: sum.splits prod.splits)
  from poll_synced_true [OF p] obtain s0 where "run_state (check_synced env sy snss) s0 = (True, s')" by blast
  from check_synced_true [OF assms(1) this] l snss show ?thesis by (metis fst_conv)
qed

end
