(* ===== verification/Dynamic_Informer.thy ===== *)
theory Dynamic_Informer
  imports Kube_Client "HOL-Library.AList"
begin

text \<open>
  The dynamic informer of the konnector (\<open>dynamic/eventhandler.go\<close>): event handlers come and go with
  their contexts while the shared informer runs. Handlers are registered in two parts, first in the
  map of handlers and then with the objects that are in the store, and events arrive in between; the
  step relation has every order. The shared informer, a parameter of the code, changes its store first
  and tells its handler about each change later and in order.
\<close>

section \<open>State\<close>

datatype 'o event = OnAdd 'o bool | OnUpdate 'o 'o | OnDelete 'o

text \<open>
  The store by key; events not yet dispatched; the registrations that have not yet taken their list;
  what each registration still has to be told of the list it took, or \<open>None\<close> before it took
  one; and what was delivered to it.
\<close>

record 'o dynamicSharedIndexInformer =
  di_counter :: nat
  di_handlers :: "string list"
  di_store :: "(string \<times> 'o) list"
  di_pending :: "'o event list"
  di_waiting :: "string list"
  di_initial :: "string \<Rightarrow> 'o list option"
  di_delivered :: "(string \<times> 'o event) list"

definition NewDynamicInformer :: "(string \<times> 'o) list \<Rightarrow> 'o dynamicSharedIndexInformer" where
  "NewDynamicInformer store = \<lparr>di_counter = 0, di_handlers = [], di_store = store, di_pending = [], di_waiting = [],
     di_initial = (\<lambda>_. None), di_delivered = []\<rparr>"

definition handler_key :: "string \<Rightarrow> nat \<Rightarrow> string" where
  "handler_key handlerName counter = handlerName @ ''-'' @ string_of_nat counter"

section \<open>Operations\<close>

definition register :: "string \<Rightarrow> 'o dynamicSharedIndexInformer \<Rightarrow> 'o dynamicSharedIndexInformer" where
  "register handlerName s =
     (let key = handler_key handlerName (di_counter s)
      in s\<lparr>di_handlers := List.insert key (di_handlers s), di_waiting := key # di_waiting s, di_counter := Suc (di_counter s)\<rparr>)"

definition take_list :: "string \<Rightarrow> 'o dynamicSharedIndexInformer \<Rightarrow> 'o dynamicSharedIndexInformer" where
  "take_list key s = s\<lparr>di_waiting := removeAll key (di_waiting s), di_initial := (di_initial s)(key \<mapsto> map snd (di_store s))\<rparr>"

definition deliver_initial :: "string \<Rightarrow> 'o \<Rightarrow> 'o list \<Rightarrow> 'o dynamicSharedIndexInformer \<Rightarrow> 'o dynamicSharedIndexInformer" where
  "deliver_initial key obj rest s = s\<lparr>di_initial := (di_initial s)(key \<mapsto> rest),
     di_delivered := di_delivered s @ [(key, OnAdd obj True)]\<rparr>"

definition end_context :: "string \<Rightarrow> 'o dynamicSharedIndexInformer \<Rightarrow> 'o dynamicSharedIndexInformer" where
  "end_context key s = s\<lparr>di_handlers := removeAll key (di_handlers s)\<rparr>"

text \<open>The event goes to all handlers registered now, in any order of the map; the list has one.\<close>

definition dispatch :: "'o event \<Rightarrow> 'o dynamicSharedIndexInformer \<Rightarrow> 'o dynamicSharedIndexInformer" where
  "dispatch ev s = s\<lparr>di_delivered := di_delivered s @ map (\<lambda>key. (key, ev)) (di_handlers s)\<rparr>"

text \<open>The whole of \<open>AddDynamicEventHandler\<close> when nothing happens in between.\<close>

definition AddDynamicEventHandler :: "string \<Rightarrow> 'o dynamicSharedIndexInformer \<Rightarrow> 'o dynamicSharedIndexInformer" where
  "AddDynamicEventHandler handlerName s =
     (let key = handler_key handlerName (di_counter s); s1 = take_list key (register handlerName s)
      in s1\<lparr>di_initial := (di_initial s1)(key \<mapsto> []),
            di_delivered := di_delivered s1 @ map (\<lambda>obj. (key, OnAdd obj True)) (map snd (di_store s1))\<rparr>)"

definition AddEventHandler :: "unit outcome" where "AddEventHandler = Panics"

section \<open>Steps\<close>

definition store_set :: "string \<Rightarrow> 'o \<Rightarrow> 'o dynamicSharedIndexInformer \<Rightarrow> 'o dynamicSharedIndexInformer" where
  "store_set k obj s = s\<lparr>di_store := AList.update k obj (di_store s),
     di_pending := di_pending s @ [case map_of (di_store s) k of None \<Rightarrow> OnAdd obj False | Some old \<Rightarrow> OnUpdate old obj]\<rparr>"

definition store_delete :: "string \<Rightarrow> 'o \<Rightarrow> 'o dynamicSharedIndexInformer \<Rightarrow> 'o dynamicSharedIndexInformer" where
  "store_delete k obj s = s\<lparr>di_store := AList.delete k (di_store s), di_pending := di_pending s @ [OnDelete obj]\<rparr>"

inductive di_step :: "'o dynamicSharedIndexInformer \<Rightarrow> 'o dynamicSharedIndexInformer \<Rightarrow> bool" where
  registered: "di_step s (register handlerName s)"
| listed: "key \<in> set (di_waiting s) \<Longrightarrow> di_step s (take_list key s)"
| initial: "di_initial s key = Some (obj # rest) \<Longrightarrow> di_step s (deliver_initial key obj rest s)"
| ended: "di_step s (end_context key s)"
| dispatched: "di_pending s = ev # evs \<Longrightarrow> di_step s (dispatch ev (s\<lparr>di_pending := evs\<rparr>))"
| stored: "di_step s (store_set k obj s)"
| deleted: "map_of (di_store s) k = Some obj \<Longrightarrow> di_step s (store_delete k obj s)"

inductive di_reachable :: "'o dynamicSharedIndexInformer \<Rightarrow> bool" where
  start: "di_reachable (NewDynamicInformer store)"
| step: "di_reachable s \<Longrightarrow> di_step s s' \<Longrightarrow> di_reachable s'"

inductive_cases di_stepE: "di_step s s'"

text \<open>The atomic call is a run of the steps.\<close>

lemma initial_run:
  "di_initial s key = Some objs \<Longrightarrow>
   di_step\<^sup>*\<^sup>* s (s\<lparr>di_initial := (di_initial s)(key \<mapsto> []), di_delivered := di_delivered s @ map (\<lambda>obj. (key, OnAdd obj True)) objs\<rparr>)"
proof (induction objs arbitrary: s)
  case Nil
  then have "(di_initial s)(key \<mapsto> []) = di_initial s" by auto
  then show ?case by simp
next
  case (Cons obj objs)
  have "di_step s (deliver_initial key obj objs s)" using Cons.prems by (rule di_step.initial)
  moreover have "di_initial (deliver_initial key obj objs s) key = Some objs" by (simp add: deliver_initial_def)
  note Cons.IH [OF this]
  moreover have "((di_initial s)(key \<mapsto> objs))(key \<mapsto> []) = (di_initial s)(key \<mapsto> [])" by simp
  ultimately show ?case by (simp add: deliver_initial_def converse_rtranclp_into_rtranclp del: fun_upd_apply)
qed

lemma AddDynamicEventHandler_run:
  "di_step\<^sup>*\<^sup>* s (AddDynamicEventHandler handlerName s)"
proof -
  let ?key = "handler_key handlerName (di_counter s)" and ?s = "register handlerName s"
  have "di_step s ?s" by (rule di_step.registered)
  moreover have "di_step ?s (take_list ?key ?s)"
    by (intro di_step.listed) (simp_all add: register_def Let_def)
  moreover have "di_step\<^sup>*\<^sup>* (take_list ?key ?s) (AddDynamicEventHandler handlerName s)"
    using initial_run [of "take_list ?key ?s" ?key "map snd (di_store ?s)"]
    by (simp add: AddDynamicEventHandler_def take_list_def register_def Let_def)
  ultimately show ?thesis by (meson converse_rtranclp_into_rtranclp)
qed

section \<open>Keys are unique\<close>

lemma digit_code: "m < 10 \<Longrightarrow> of_char (char_of (48 + m) :: char) = 48 + m" for m :: nat
  by simp

lemma digit_inject: "a < 10 \<Longrightarrow> b < 10 \<Longrightarrow> (char_of (48 + a) :: char) = char_of (48 + b) \<longleftrightarrow> a = b" for a b :: nat
  using digit_code [of a] digit_code [of b] by auto

lemma digit_not_dash:
  fixes m :: nat
  assumes "m < 10"
  shows "(char_of (48 + m) :: char) \<noteq> CHR ''-''"
proof
  assume "(char_of (48 + m) :: char) = CHR ''-''"
  then have "of_char (char_of (48 + m) :: char) = (of_char (CHR ''-'') :: nat)" by simp
  then show False using digit_code [OF assms] by simp
qed

lemma decimal_digits: "CHR ''-'' \<notin> set (string_of_nat n)"
proof (induction n rule: string_of_nat.induct)
  case (1 n)
  then show ?case using digit_not_dash [of n] digit_not_dash [of "n mod 10"] by (subst string_of_nat.simps) auto
qed

lemma decimal_inject: "string_of_nat m = string_of_nat n \<Longrightarrow> m = n"
proof (induction m arbitrary: n rule: string_of_nat.induct)
  case (1 m)
  have ne: "string_of_nat k \<noteq> []" for k by (subst string_of_nat.simps) simp
  have small: "string_of_nat k = [char_of (48 + k)]" if "k < 10" for k using that by (subst string_of_nat.simps) simp
  have large: "string_of_nat k = string_of_nat (k div 10) @ [char_of (48 + k mod 10)]" if "\<not> k < 10" for k
    using that by (subst string_of_nat.simps) simp
  show ?case
  proof (cases "m < 10")
    case True
    have "n < 10"
    proof (rule ccontr)
      assume "\<not> n < 10"
      then show False using 1(2) small [OF True] large [of n] ne [of "n div 10"] by (cases "string_of_nat (n div 10)") auto
    qed
    then show ?thesis using 1(2) True small digit_inject by simp
  next
    case False
    have "\<not> n < 10"
    proof
      assume "n < 10"
      then show False using 1(2) small [of n] large [OF False] ne [of "m div 10"] by (cases "string_of_nat (m div 10)") auto
    qed
    then have "string_of_nat (m div 10) = string_of_nat (n div 10)" "(char_of (48 + m mod 10) :: char) = char_of (48 + n mod 10)"
      using 1(2) large False by simp_all
    then have "m div 10 = n div 10" "m mod 10 = n mod 10" using 1(1) [OF False] digit_inject by simp_all
    then show ?thesis by (metis div_mult_mod_eq)
  qed
qed

lemma handler_key_counter:
  assumes "handler_key a m = handler_key b n"
  shows "m = n"
proof -
  have "a @ CHR ''-'' # string_of_nat m = b @ CHR ''-'' # string_of_nat n" using assms by (simp add: handler_key_def)
  from decimal_inject [OF last_part_unique [OF decimal_digits decimal_digits this]] show ?thesis .
qed

section \<open>Nothing is missed\<close>

definition shows_object :: "'o \<Rightarrow> 'o event \<Rightarrow> bool" where
  "shows_object obj ev \<longleftrightarrow> (\<exists>b. ev = OnAdd obj b) \<or> (\<exists>old. ev = OnUpdate old obj)"

definition used_key :: "nat \<Rightarrow> string \<Rightarrow> bool" where
  "used_key c key \<longleftrightarrow> (\<exists>name n. n < c \<and> key = handler_key name n)"

lemma used_key_Suc: "used_key c key \<Longrightarrow> used_key (Suc c) key"
  unfolding used_key_def using less_SucI by blast

lemma used_key_new: "used_key (Suc c) (handler_key name c)"
  unfolding used_key_def by blast

lemma fresh_key: "\<not> used_key c (handler_key name c)"
  unfolding used_key_def using handler_key_counter by blast

definition keys_used :: "'o dynamicSharedIndexInformer \<Rightarrow> bool" where
  "keys_used s \<longleftrightarrow> (\<forall>key. key \<in> set (di_handlers s) \<or> key \<in> set (di_waiting s) \<or> di_initial s key \<noteq> None \<longrightarrow>
     used_key (di_counter s) key)"

definition accounted :: "'o event list \<Rightarrow> (string \<times> 'o event) list \<Rightarrow> string \<Rightarrow> 'o list \<Rightarrow> 'o \<Rightarrow> bool" where
  "accounted pending delivered key todo obj \<longleftrightarrow> obj \<in> set todo \<or> (\<exists>ev. ev \<in> set pending \<and> shows_object obj ev) \<or>
     (\<exists>ev. (key, ev) \<in> set delivered \<and> shows_object obj ev)"

definition covered :: "'o dynamicSharedIndexInformer \<Rightarrow> bool" where
  "covered s \<longleftrightarrow> (\<forall>key todo obj. key \<in> set (di_handlers s) \<longrightarrow> di_initial s key = Some todo \<longrightarrow> obj \<in> snd ` set (di_store s) \<longrightarrow>
     accounted (di_pending s) (di_delivered s) key todo obj)"

lemma coveredI:
  "(\<And>key todo obj. key \<in> set (di_handlers s) \<Longrightarrow> di_initial s key = Some todo \<Longrightarrow> obj \<in> snd ` set (di_store s) \<Longrightarrow>
     accounted (di_pending s) (di_delivered s) key todo obj) \<Longrightarrow> covered s"
  unfolding covered_def by blast

lemma coveredD:
  "covered s \<Longrightarrow> key \<in> set (di_handlers s) \<Longrightarrow> di_initial s key = Some todo \<Longrightarrow> obj \<in> snd ` set (di_store s) \<Longrightarrow>
     accounted (di_pending s) (di_delivered s) key todo obj"
  unfolding covered_def by blast

lemma accounted_listed: "obj \<in> snd ` set xs \<Longrightarrow> accounted pending delivered key (map snd xs) obj"
  by (simp add: accounted_def)

lemma accounted_pending: "accounted pending delivered key todo obj \<Longrightarrow> accounted (pending @ evs) delivered key todo obj"
  unfolding accounted_def by auto

lemma accounted_new: "shows_object obj ev \<Longrightarrow> accounted (pending @ [ev]) delivered key todo obj"
  unfolding accounted_def by auto

lemma accounted_initial:
  "accounted pending delivered key (obj # todo) x \<Longrightarrow> accounted pending (delivered @ [(key, OnAdd obj True)]) key todo x"
  unfolding accounted_def shows_object_def by auto

lemma accounted_delivered:
  "accounted pending delivered key todo x \<Longrightarrow> accounted pending (delivered @ evs) key todo x"
  unfolding accounted_def by auto

lemma accounted_dispatch:
  "accounted (ev # evs) delivered key todo x \<Longrightarrow> key \<in> set keys \<Longrightarrow>
   accounted evs (delivered @ map (\<lambda>key. (key, ev)) keys) key todo x"
  unfolding accounted_def by auto

lemma values_update: "v' \<in> snd ` set (AList.update k v xs) \<Longrightarrow> v' = v \<or> v' \<in> snd ` set xs"
  by (induction xs) (auto split: if_splits)

lemma values_delete: "v \<in> snd ` set (AList.delete k xs) \<Longrightarrow> v \<in> snd ` set xs"
  by (auto simp: AList.delete_eq)

definition di_inv :: "'o dynamicSharedIndexInformer \<Rightarrow> bool" where
  "di_inv s \<longleftrightarrow> keys_used s \<and> covered s \<and> distinct (di_handlers s)"

lemma keys_used_step: "di_step s s' \<Longrightarrow> keys_used s \<Longrightarrow> keys_used s'"
  by (induction rule: di_step.induct)
    (auto simp: keys_used_def register_def Let_def take_list_def deliver_initial_def end_context_def dispatch_def
      store_set_def store_delete_def used_key_Suc used_key_new)

lemma covered_step:
  assumes "di_step s s'" and "keys_used s" and "covered s"
  shows "covered s'"
  using assms
proof (induction rule: di_step.induct)
  case (registered s handlerName)
  have "di_initial s (handler_key handlerName (di_counter s)) = None"
    using registered(1) fresh_key unfolding keys_used_def by blast
  then show ?case using coveredD [OF registered(2)] by (intro coveredI) (auto simp: register_def Let_def)
next
  case (listed key s)
  show ?case
  proof (rule coveredI)
    fix key' todo obj
    assume "key' \<in> set (di_handlers (take_list key s))" "di_initial (take_list key s) key' = Some todo"
      "obj \<in> snd ` set (di_store (take_list key s))"
    then show "accounted (di_pending (take_list key s)) (di_delivered (take_list key s)) key' todo obj"
      using coveredD [OF listed(3), of key' todo obj] accounted_listed [of obj "di_store s"]
      by (cases "key' = key") (auto simp: take_list_def simp del: image_iff)
  qed
next
  case (initial s key obj rest)
  show ?case using coveredD [OF initial(3)] initial(1)
    by (intro coveredI) (simp add: deliver_initial_def accounted_initial accounted_delivered split: if_splits)
next
  case (ended s key)
  show ?case using coveredD [OF ended(2)] by (intro coveredI) (simp add: end_context_def)
next
  case (dispatched s ev evs)
  show ?case using coveredD [OF dispatched(3)] dispatched(1)
    by (intro coveredI) (simp add: dispatch_def accounted_dispatch)
next
  case (stored s k obj)
  have shown: "shows_object obj (case map_of (di_store s) k of None \<Rightarrow> OnAdd obj False | Some old \<Rightarrow> OnUpdate old obj)"
    by (cases "map_of (di_store s) k") (auto simp: shows_object_def)
  show ?case
  proof (rule coveredI)
    fix key todo x
    assume "key \<in> set (di_handlers (store_set k obj s))" "di_initial (store_set k obj s) key = Some todo"
      and "x \<in> snd ` set (di_store (store_set k obj s))"
    then have at: "key \<in> set (di_handlers s)" "di_initial s key = Some todo" and "x = obj \<or> x \<in> snd ` set (di_store s)"
      using values_update [of x k obj "di_store s"] by (simp_all add: store_set_def)
    then consider "x = obj" | "x \<in> snd ` set (di_store s)" by blast
    then show "accounted (di_pending (store_set k obj s)) (di_delivered (store_set k obj s)) key todo x"
    proof cases
      case 1
      with accounted_new [OF shown] show ?thesis by (simp add: store_set_def)
    next
      case 2
      from accounted_pending [OF coveredD [OF stored(2) at this]] show ?thesis by (simp add: store_set_def)
    qed
  qed
next
  case (deleted s k obj)
  show ?case using coveredD [OF deleted(3)] values_delete [of _ k "di_store s"]
    by (intro coveredI) (simp add: store_delete_def accounted_pending)
qed

lemma di_inv_reachable: "di_reachable s \<Longrightarrow> di_inv s"
proof (induction rule: di_reachable.induct)
  case (start store)
  then show ?case by (simp add: di_inv_def keys_used_def covered_def NewDynamicInformer_def)
next
  case (step s s')
  have "distinct (di_handlers s')" using step(2,3)
    by (induction rule: di_step.induct)
      (auto simp: di_inv_def register_def take_list_def deliver_initial_def end_context_def dispatch_def store_set_def
        store_delete_def Let_def distinct_removeAll)
  then show ?case using step keys_used_step covered_step by (auto simp: di_inv_def)
qed

text \<open>
  C17. No object is missed, whatever the order in which handlers are added and removed, the store changes and
  events are dispatched: a handler that took its list has seen every object that the store has
  now, or is about to, because the object is still in its list or in an event that is not yet
  dispatched. So once both are empty it has seen all objects.
\<close>

theorem no_object_missed:
  assumes "di_reachable s" and "key \<in> set (di_handlers s)" and "di_initial s key = Some todo" and "obj \<in> snd ` set (di_store s)"
  shows "(\<exists>ev. (key, ev) \<in> set (di_delivered s) \<and> shows_object obj ev) \<or> obj \<in> set todo \<or>
    (\<exists>ev. ev \<in> set (di_pending s) \<and> shows_object obj ev)"
  using di_inv_reachable [OF assms(1)] assms(2-4) unfolding di_inv_def covered_def accounted_def by blast

text \<open>After its context has ended a handler is told at most the rest of its list.\<close>

lemma ended_handler_silent:
  assumes "di_step s s'" and "keys_used s" and "key \<notin> set (di_handlers s)" and "used_key (di_counter s) key"
  shows "key \<notin> set (di_handlers s') \<and>
    (\<forall>ev. (key, ev) \<in> set (di_delivered s') - set (di_delivered s) \<longrightarrow> (\<exists>obj. ev = OnAdd obj True))"
  using assms
proof (induction rule: di_step.induct)
  case (registered s handlerName)
  then show ?case using fresh_key by (auto simp: register_def Let_def)
qed (auto simp: take_list_def deliver_initial_def end_context_def dispatch_def store_set_def store_delete_def)

text \<open>A run in which an object is stored and changed while the second handler is being added.\<close>

definition example_informer :: "nat dynamicSharedIndexInformer" where
  "example_informer = dispatch (OnAdd 5 False) ((store_set ''k'' 7 (take_list ''b-1'' (store_set ''k'' 5 (register ''b''
     (AddDynamicEventHandler ''a'' (NewDynamicInformer []))))))\<lparr>di_pending := [OnUpdate 5 7]\<rparr>)"

lemma no_object_missed_witness:
  "(''b-1'', OnAdd 5 False) \<in> set (di_delivered example_informer) \<and> di_initial example_informer ''b-1'' = Some [5] \<and>
   ((\<exists>ev. (''b-1'', ev) \<in> set (di_delivered example_informer) \<and> shows_object 7 ev) \<or> (7 :: nat) \<in> set [5] \<or>
    (\<exists>ev. ev \<in> set (di_pending example_informer) \<and> shows_object 7 ev))"
proof -
  let ?s1 = "AddDynamicEventHandler ''a'' (NewDynamicInformer [] :: nat dynamicSharedIndexInformer)"
  let ?s3 = "store_set ''k'' 5 (register ''b'' ?s1)" and ?s4 = "take_list ''b-1'' (store_set ''k'' 5 (register ''b'' ?s1))"
  let ?s5 = "store_set ''k'' 7 ?s4"
  have run: "di_reachable s' " if "di_step\<^sup>*\<^sup>* s s'" "di_reachable s" for s s' :: "nat dynamicSharedIndexInformer"
    using that by (induction rule: rtranclp_induct) (auto intro: di_reachable.step)
  have "di_reachable ?s1" by (rule run [OF AddDynamicEventHandler_run di_reachable.start])
  then have "di_reachable ?s3" by (intro di_reachable.step [OF _ di_step.stored] di_reachable.step [OF _ di_step.registered])
  then have "di_reachable ?s4" by (rule di_reachable.step) (rule di_step.listed, code_simp)
  then have "di_reachable ?s5" by (intro di_reachable.step [OF _ di_step.stored])
  moreover have pending: "di_pending ?s5 = OnAdd 5 False # [OnUpdate 5 7]" by code_simp
  ultimately have r: "di_reachable example_informer"
    unfolding example_informer_def using di_step.dispatched [OF pending] by (blast intro: di_reachable.step)
  have "''b-1'' \<in> set (di_handlers example_informer)" "7 \<in> snd ` set (di_store example_informer)"
    and at: "di_initial example_informer ''b-1'' = Some [5]"
    and "(''b-1'', OnAdd 5 False) \<in> set (di_delivered example_informer)" by code_simp+
  with no_object_missed [OF r this(1) at this(2)] show ?thesis by blast
qed

end
