(* ===== verification/Cluster_Controller.thy ===== *)
theory Cluster_Controller
  imports Cluster_Binding
begin

text \<open>
  The controller of one provider cluster (\<open>cluster/cluster_controller.go\<close>): it starts the informers of
  the provider, waits for their caches, tells the APIServiceBindings of the provider's kubeconfig and
  starts the controllers for that cluster. Informer factories and the context are parameters; a
  poll that never succeeds runs until the context ends, which the number of polls bounds.
\<close>

section \<open>Definitions\<close>

text \<open>\<open>WaitForCacheSync\<close> gives the informers that are in sync.\<close>

record 'w informer_factory =
  if_Start :: "('w, unit) io"
  if_WaitForCacheSync :: "('w, (string \<times> bool) list) io"

text \<open>
  \<open>ct_Done\<close> tells if the context has ended, \<open>ct_tick\<close> waits for the poll interval and gives \<open>False\<close> if the
  context ended before, \<open>ct_end\<close> blocks until it ends. Each controller is given by its \<open>Start\<close>.
\<close>

record 'w cluster_controller =
  ct_consumerSecretRefKey :: string
  ct_factories :: "'w informer_factory list"
  ct_BySecret :: "string \<Rightarrow> ('w, APIServiceBinding list) call"
  ct_UpdateStatus :: "APIServiceBinding \<Rightarrow> ('w, APIServiceBinding) call"
  ct_Done :: "('w, bool) io"
  ct_tick :: "('w, bool) io"
  ct_end :: "('w, unit) io"
  ct_clusterbinding :: "nat \<Rightarrow> ('w, unit) io"
  ct_namespacelifecycle :: "nat \<Rightarrow> ('w, unit) io"
  ct_servicebinding :: "nat \<Rightarrow> ('w, unit) io"
  ct_serviceresourcebinding :: "nat \<Rightarrow> ('w, unit) io"

definition heartbeatInterval :: duration where
  "heartbeatInterval = 5 * Minute"

definition updateServiceBindings :: "'w cluster_controller \<Rightarrow> (APIServiceBinding \<Rightarrow> APIServiceBinding) \<Rightarrow> ('w, unit) io" where
  "updateServiceBindings c update = do {
     g \<leftarrow> ct_BySecret c (ct_consumerSecretRefKey c);
     (case g of
        Inl _ \<Rightarrow> State_Monad.return ()
      | Inr objs \<Rightarrow> for_each (update_service_binding (ct_UpdateStatus c) update) objs) }"

text \<open>The interval of the message is half of \<open>heartbeatInterval\<close>.\<close>

definition mark_sync_timeout :: "time \<Rightarrow> APIServiceBinding \<Rightarrow> APIServiceBinding" where
  "mark_sync_timeout now b = MarkFalse APIServiceBinding_setter now b APIServiceBindingConditionInformersSynced
     ''InformerSyncTimeout'' ConditionSeverityError ''Informers did not sync within 2m30s''"

definition mark_synced :: "time \<Rightarrow> APIServiceBinding \<Rightarrow> APIServiceBinding" where
  "mark_synced now b = MarkTrue APIServiceBinding_setter now b APIServiceBindingConditionInformersSynced"

definition wait_for_caches :: "'w cluster_controller \<Rightarrow> ('w, unit) io" where
  "wait_for_caches c = for_each (\<lambda>f. do { if_WaitForCacheSync f; State_Monad.return () }) (ct_factories c)"

text \<open>One poll. The case for the timeout looks at the outer context.\<close>

definition caches_synced :: "'w cluster_controller \<Rightarrow> time \<Rightarrow> ('w, bool) io" where
  "caches_synced c now = do {
     wait_for_caches c;
     ended \<leftarrow> ct_Done c;
     (if ended then do { updateServiceBindings c (mark_sync_timeout now); State_Monad.return False }
      else State_Monad.return True) }"

fun poll_caches :: "'w cluster_controller \<Rightarrow> time \<Rightarrow> nat \<Rightarrow> ('w, err) io" where
  "poll_caches c now 0 = State_Monad.return (Some (Errorf ''context canceled'' None))"
| "poll_caches c now (Suc polls) = do {
     ok \<leftarrow> caches_synced c now;
     (if ok then State_Monad.return None
      else do {
        again \<leftarrow> ct_tick c;
        (if again then poll_caches c now polls
         else State_Monad.return (Some (Errorf ''context canceled'' None))) }) }"

definition start_controllers :: "'w cluster_controller \<Rightarrow> ('w, unit) io" where
  "start_controllers c = do {
     ct_clusterbinding c 2;
     ct_namespacelifecycle c 2;
     ct_servicebinding c 2;
     ct_serviceresourcebinding c 2 }"

definition Start :: "'w cluster_controller \<Rightarrow> time \<Rightarrow> nat \<Rightarrow> ('w, unit) io" where
  "Start c now polls = do {
     for_each if_Start (ct_factories c);
     e \<leftarrow> poll_caches c now polls;
     (case e of
        Some _ \<Rightarrow> State_Monad.return ()
      | None \<Rightarrow> do {
          updateServiceBindings c (mark_synced now);
          start_controllers c;
          ct_end c }) }"

section \<open>What start does\<close>

lemma run_ignored: "(\<And>w. run_state m w = (a, w)) \<Longrightarrow> State_Monad.bind m f = f a"
  by (cases "f a") (simp add: State_Monad.bind_def)

lemma message_interval: "go_div heartbeatInterval 2 = 2 * Minute + 30 * Second"
  by (simp add: heartbeatInterval_def go_div_def Minute_def Second_def)

text \<open>
  While the context lives, the first poll succeeds whatever the caches do: the bindings are told that
  the informers are in sync and all controllers are started.
\<close>

lemma Start_alive:
  assumes "\<And>w. run_state (ct_Done c) w = (False, w)"
  shows "Start c now (Suc polls) = do {
     for_each if_Start (ct_factories c);
     wait_for_caches c;
     updateServiceBindings c (mark_synced now);
     start_controllers c;
     ct_end c }"
  by (simp add: Start_def caches_synced_def run_ignored [OF assms])

text \<open>
  The false condition is set only after the context has ended, and then no controller is started.
\<close>

lemma Start_ended:
  assumes "\<And>w. run_state (ct_Done c) w = (True, w)" and "\<And>w. run_state (ct_tick c) w = (False, w)"
  shows "Start c now (Suc polls) = do {
     for_each if_Start (ct_factories c);
     wait_for_caches c;
     updateServiceBindings c (mark_sync_timeout now) }"
  by (simp add: Start_def caches_synced_def run_ignored [OF assms(1)] run_ignored [OF assms(2)])

end
