(* ===== verification/Rbac.thy ===== *)
theory Rbac
  imports Kube_Client
begin

text \<open>
  The RBAC objects of the provider cluster and what the backend does to them when a consumer binds
  (\<open>backend/kubernetes/resources/rbac.go\<close>): the service account of the consumer and the cluster role
  every consumer gets in its own namespace. Roles and cluster roles have the same fields, as have
  the two kinds of bindings.
\<close>

section \<open>Objects\<close>

record PolicyRule =
  pr_Verbs :: "string list"
  pr_APIGroups :: "string list"
  pr_Resources :: "string list"
  pr_ResourceNames :: "string list"
  pr_NonResourceURLs :: "string list"

record Role =
  ro_Meta :: ObjectMeta
  ro_Rules :: "PolicyRule list"

record Subject =
  sj_Kind :: string
  sj_Namespace :: string
  sj_Name :: string

record RoleRef =
  rf_APIGroup :: string
  rf_Kind :: string
  rf_Name :: string

record RoleBinding =
  rb_Meta :: ObjectMeta
  rb_Subjects :: "Subject list"
  rb_RoleRef :: RoleRef

record Namespace =
  nsp_Meta :: ObjectMeta

definition ServiceAccountName :: string where "ServiceAccountName = ''kube-binder''"

definition rule :: "string \<Rightarrow> string \<Rightarrow> string list \<Rightarrow> PolicyRule" where
  "rule grp resource verbs =
     \<lparr>pr_Verbs = verbs, pr_APIGroups = [grp], pr_Resources = [resource], pr_ResourceNames = [], pr_NonResourceURLs = []\<rparr>"

text \<open>The service account of a consumer lives in the namespace the provider gave to that consumer.\<close>

definition consumer_subject :: "string \<Rightarrow> Subject" where
  "consumer_subject ns = \<lparr>sj_Kind = ''ServiceAccount'', sj_Namespace = ns, sj_Name = ServiceAccountName\<rparr>"

definition role_ref :: "string \<Rightarrow> string \<Rightarrow> RoleRef" where
  "role_ref kind name = \<lparr>rf_APIGroup = ''rbac.authorization.k8s.io'', rf_Kind = kind, rf_Name = name\<rparr>"

section \<open>Access checks\<close>

text \<open>
  What the objects mean to the authorizer: a rule covers a request for a resource by group, resource
  and verb, where \<open>*\<close> stands for everything and an empty list of resource names for every name.
\<close>

definition covers :: "PolicyRule \<Rightarrow> string \<Rightarrow> string \<Rightarrow> string \<Rightarrow> string \<Rightarrow> bool" where
  "covers pr verb grp resource name \<longleftrightarrow>
     (''*'' \<in> set (pr_Verbs pr) \<or> verb \<in> set (pr_Verbs pr)) \<and>
     (''*'' \<in> set (pr_APIGroups pr) \<or> grp \<in> set (pr_APIGroups pr)) \<and>
     (''*'' \<in> set (pr_Resources pr) \<or> resource \<in> set (pr_Resources pr)) \<and>
     (pr_ResourceNames pr = [] \<or> name \<in> set (pr_ResourceNames pr))"

definition permits :: "Role \<Rightarrow> string \<Rightarrow> string \<Rightarrow> string \<Rightarrow> string \<Rightarrow> bool" where
  "permits role verb grp resource name \<longleftrightarrow> (\<exists>pr \<in> set (ro_Rules role). covers pr verb grp resource name)"

lemma covers_rule [simp]:
  "covers (rule g r vs) verb grp resource name \<longleftrightarrow>
     (''*'' \<in> set vs \<or> verb \<in> set vs) \<and> (g = ''*'' \<or> g = grp) \<and> (r = ''*'' \<or> r = resource)"
  by (auto simp: covers_def rule_def)

section \<open>Equality of rules\<close>

definition policyRuleEqual :: "PolicyRule \<Rightarrow> PolicyRule \<Rightarrow> bool" where
  "policyRuleEqual a b =
     (if pr_APIGroups a \<noteq> pr_APIGroups b then False
      else if pr_Resources a \<noteq> pr_Resources b then False
      else if pr_Verbs a \<noteq> pr_Verbs b then False
      else if pr_ResourceNames a \<noteq> pr_ResourceNames b then False
      else if pr_NonResourceURLs a \<noteq> pr_NonResourceURLs b then False
      else True)"

fun rules_loop :: "PolicyRule list \<Rightarrow> PolicyRule list \<Rightarrow> bool" where
  "rules_loop (a # as) (b # bs) = (if \<not> policyRuleEqual a b then False else rules_loop as bs)"
| "rules_loop _ _ = True"

definition rulesEqual :: "PolicyRule list \<Rightarrow> PolicyRule list \<Rightarrow> bool" where
  "rulesEqual a b = (if length a \<noteq> length b then False else rules_loop a b)"

lemma policyRuleEqual_iff [simp]: "policyRuleEqual a b \<longleftrightarrow> a = b"
  by (cases a; cases b) (auto simp: policyRuleEqual_def)

lemma rulesEqual_iff [simp]: "rulesEqual a b \<longleftrightarrow> a = b"
proof -
  have "length a = length b \<Longrightarrow> rules_loop a b \<longleftrightarrow> a = b" by (induction a b rule: list_induct2) auto
  then show ?thesis by (auto simp: rulesEqual_def)
qed

section \<open>Setup of a consumer\<close>

record ServiceAccount =
  sa_Meta :: ObjectMeta

record 'w setup_client =
  sc_GetServiceAccount :: "string \<Rightarrow> string \<Rightarrow> ('w, ServiceAccount) call"
  sc_CreateServiceAccount :: "ServiceAccount \<Rightarrow> ('w, err) io"
  sc_GetClusterRole :: "string \<Rightarrow> ('w, Role) call"
  sc_CreateClusterRole :: "Role \<Rightarrow> ('w, err) io"
  sc_UpdateClusterRole :: "Role \<Rightarrow> ('w, err) io"

text \<open>The account is returned even with an error, as a zero object when the lookup failed.\<close>

definition CreateServiceAccount :: "'w setup_client \<Rightarrow> string \<Rightarrow> string \<Rightarrow> ('w, ServiceAccount \<times> err) io" where
  "CreateServiceAccount cl ns name = do {
     g \<leftarrow> sc_GetServiceAccount cl ns name;
     (case g of
        Inr sa \<Rightarrow> State_Monad.return (sa, None)
      | Inl e \<Rightarrow>
          (if IsNotFound e then
             let sa = \<lparr>sa_Meta = zero_ObjectMeta\<lparr>om_Name := name, om_Namespace := ns\<rparr>\<rparr>
             in do { e' \<leftarrow> sc_CreateServiceAccount cl sa; State_Monad.return (sa, e') }
           else State_Monad.return (\<lparr>sa_Meta = zero_ObjectMeta\<rparr>, Some e))) }"

definition binder_rules :: "PolicyRule list" where
  "binder_rules =
    [rule ''kube-bind.io'' ''apiserviceexportrequests'' [''create'', ''delete'', ''patch'', ''update'', ''get'', ''list'', ''watch''],
     rule '''' ''namespaces'' [''get''],
     rule '''' ''secrets'' [''get'', ''watch'', ''list''],
     rule ''kube-bind.io'' ''clusterbindings'' [''get'', ''watch'', ''list''],
     rule ''kube-bind.io'' ''clusterbindings/status'' [''get'', ''patch'', ''update''],
     rule ''kube-bind.io'' ''apiserviceexports'' [''get'', ''watch'', ''list''],
     rule ''kube-bind.io'' ''apiserviceexports/status'' [''get'', ''patch'', ''update''],
     rule ''kube-bind.io'' ''apiservicenamespaces'' [''create'', ''delete'', ''patch'', ''update'', ''get'', ''list'', ''watch''],
     rule ''kube-bind.io'' ''boundschemas'' [''get'', ''list'', ''watch''],
     rule ''kube-bind.io'' ''boundschemas/status'' [''get'', ''list'', ''patch'', ''update'']]"

definition EnsureBinderClusterRole :: "'w setup_client \<Rightarrow> ('w, err) io" where
  "EnsureBinderClusterRole cl =
     (let clusterRole = \<lparr>ro_Meta = zero_ObjectMeta\<lparr>om_Name := ''kube-binder''\<rparr>, ro_Rules = binder_rules\<rparr>
      in do {
        g \<leftarrow> sc_GetClusterRole cl ''kube-binder'';
        (case g of
           Inl e \<Rightarrow> (if IsNotFound e then sc_CreateClusterRole cl clusterRole else State_Monad.return (Some e))
         | Inr existing \<Rightarrow>
             (if \<not> rulesEqual (ro_Rules existing) (ro_Rules clusterRole)
              then sc_UpdateClusterRole cl (existing\<lparr>ro_Rules := ro_Rules clusterRole\<rparr>)
              else State_Monad.return None)) })"

end
