(* ===== verification/Backend_Cluster_Binding.thy ===== *)
theory Backend_Cluster_Binding
  imports Rbac Cluster_Binding
begin

text \<open>
  The ClusterBinding controller of the backend (\<open>backend/controllers/clusterbinding\<close>): it judges the
  heartbeat of the konnector and maintains the RBAC objects that give a consumer access to the
  resources exported to it.
\<close>

section \<open>Reconciler\<close>

record 'w reconciler =
  scope :: InformerScope
  fmt_Duration :: "duration \<Rightarrow> string"
  fmt_Time :: "time \<Rightarrow> string"
  listServiceExports :: "string \<Rightarrow> ('w, APIServiceExport list) call"
  getBoundSchema :: "string \<Rightarrow> string \<Rightarrow> ('w, BoundSchema) call"
  getClusterRole :: "string \<Rightarrow> ('w, Role) call"
  createClusterRole :: "Role \<Rightarrow> ('w, err) io"
  updateClusterRole :: "Role \<Rightarrow> ('w, err) io"
  getClusterRoleBinding :: "string \<Rightarrow> ('w, RoleBinding) call"
  createClusterRoleBinding :: "RoleBinding \<Rightarrow> ('w, err) io"
  updateClusterRoleBinding :: "RoleBinding \<Rightarrow> ('w, err) io"
  deleteClusterRoleBinding :: "string \<Rightarrow> ('w, err) io"
  getRoleBinding :: "string \<Rightarrow> string \<Rightarrow> ('w, RoleBinding) call"
  createRoleBinding :: "RoleBinding \<Rightarrow> ('w, err) io"
  updateRoleBinding :: "RoleBinding \<Rightarrow> ('w, err) io"
  getNamespace :: "string \<Rightarrow> ('w, Namespace) call"

definition mark_unhealthy :: "time \<Rightarrow> ClusterBinding \<Rightarrow> string \<Rightarrow> condition_severity \<Rightarrow> string \<Rightarrow> ClusterBinding" where
  "mark_unhealthy now b reason severity message =
     MarkFalse ClusterBinding_setter now b ClusterBindingConditionHealthy reason severity message"

definition ensureClusterBindingConditions :: "'w reconciler \<Rightarrow> time \<Rightarrow> ClusterBinding \<Rightarrow> ClusterBinding" where
  "ensureClusterBindingConditions r now b =
     (let last = cbt_LastHeartbeatTime (cb_Status b); interval = cbt_HeartbeatInterval (cb_Status b); ago = time_Sub now last
      in if last = 0 then
           mark_unhealthy now b ''FirstHeartbeatPending'' ConditionSeverityInfo ''Waiting for first heartbeat''
         else if interval = 0 then
           mark_unhealthy now b ''HeartbeatIntervalMissing'' ConditionSeverityInfo
             ''Waiting for consumer cluster reporting its heartbeat interval''
         else if ago > wrap64 (interval * 2) then
           mark_unhealthy now b ''HeartbeatTimeout'' ConditionSeverityError
             (''Heartbeat timeout: expected heartbeat within '' @ fmt_Duration r interval @ '', but last one has been at '' @
              fmt_Time r last)
         else if ago < Second * 10 then
           mark_unhealthy now b ''HeartbeatTimeDrift'' ConditionSeverityWarning
             ''Clocks of consumer cluster and service account cluster seem to be off by more than 10s''
         else MarkTrue ClusterBinding_setter now b ClusterBindingConditionHealthy)"

definition binder_name :: "string \<Rightarrow> string" where
  "binder_name ns = ''kube-binder-'' @ ns"

definition namespace_owner :: "string \<Rightarrow> string \<Rightarrow> OwnerReference" where
  "namespace_owner name uid = \<lparr>or_APIVersion = ''v1'', or_Kind = ''Namespace'', or_Name = name, or_UID = uid,
     or_Controller = Some True, or_BlockOwnerDeletion = None\<rparr>"

definition base_rules :: "PolicyRule list" where
  "base_rules = [rule ''kube-bind.io'' ''boundschemas'' [''get'', ''list'', ''watch''],
     rule ''kube-bind.io'' ''boundschemas/status'' [''get'', ''update'', ''patch'']]"

definition access_verbs :: "string list" where
  "access_verbs = [''get'', ''list'', ''watch'', ''create'', ''update'', ''patch'', ''delete'']"

definition schema_rule :: "BoundSchema \<Rightarrow> PolicyRule" where
  "schema_rule s = rule (bss_Group (bs_Spec s)) (crn_Plural (bss_Names (bs_Spec s))) access_verbs"

text \<open>The names of the schemas of an export, without duplicates and in order.\<close>

definition schema_keys :: "APIServiceExport \<Rightarrow> string list" where
  "schema_keys export = sort (remdups (map ResourceGroupName (exs_Resources (ex_Spec export))))"

fun append_rules :: "'w reconciler \<Rightarrow> string \<Rightarrow> string list \<Rightarrow> PolicyRule list \<Rightarrow> ('w, PolicyRule list) call" where
  "append_rules r ns [] rules = State_Monad.return (Inr rules)"
| "append_rules r ns (k # ks) rules = do {
     g \<leftarrow> getBoundSchema r ns k;
     (case g of
        Inl e \<Rightarrow> State_Monad.return (Inl (Errorf (''failed to get BoundSchema '' @ quoted k) (Some e)))
      | Inr schema \<Rightarrow> append_rules r ns ks (rules @ [schema_rule schema])) }"

fun export_rules :: "'w reconciler \<Rightarrow> string \<Rightarrow> APIServiceExport list \<Rightarrow> PolicyRule list \<Rightarrow> ('w, PolicyRule list) call" where
  "export_rules r ns [] rules = State_Monad.return (Inr rules)"
| "export_rules r ns (x # xs) rules = do {
     g \<leftarrow> append_rules r ns (schema_keys x) rules;
     (case g of Inl e \<Rightarrow> State_Monad.return (Inl e) | Inr rules' \<Rightarrow> export_rules r ns xs rules') }"

text \<open>A lookup where \<open>NotFound\<close> means nil.\<close>

definition found :: "string \<Rightarrow> go_error + 'a \<Rightarrow> go_error + 'a option" where
  "found what g = (case g of Inr x \<Rightarrow> Inr (Some x)
     | Inl e \<Rightarrow> (if IsNotFound e then Inr None else Inl (Errorf what (Some e))))"

definition wrap_err :: "string \<Rightarrow> err \<Rightarrow> err" where
  "wrap_err what e = map_option (\<lambda>x. Errorf what (Some x)) e"

definition write_role :: "'w reconciler \<Rightarrow> Role option \<Rightarrow> Role \<Rightarrow> ('w, err) io" where
  "write_role r role expected =
     (case role of
        None \<Rightarrow> do {
          e \<leftarrow> createClusterRole r expected;
          State_Monad.return (wrap_err (''failed to create ClusterRole '' @ om_Name (ro_Meta expected)) e) }
      | Some ro \<Rightarrow>
          (if ro_Rules ro \<noteq> ro_Rules expected then do {
             e \<leftarrow> updateClusterRole r (ro\<lparr>ro_Rules := ro_Rules expected\<rparr>);
             State_Monad.return (wrap_err (''failed to create ClusterRole '' @ om_Name (ro_Meta ro)) e) }
           else State_Monad.return None))"

definition expected_role :: "string \<Rightarrow> string \<Rightarrow> PolicyRule list \<Rightarrow> Role" where
  "expected_role cns uid rules = \<lparr>ro_Meta = zero_ObjectMeta\<lparr>om_Name := binder_name cns,
     om_OwnerReferences := [namespace_owner cns uid]\<rparr>, ro_Rules = rules\<rparr>"

definition sync_role :: "'w reconciler \<Rightarrow> string \<Rightarrow> string \<Rightarrow> Role option \<Rightarrow> APIServiceExport list \<Rightarrow> ('w, err) io" where
  "sync_role r cns uid role exports = do {
     rs \<leftarrow> export_rules r cns exports base_rules;
     (case rs of
        Inl e \<Rightarrow> State_Monad.return (Some e)
      | Inr rules \<Rightarrow> write_role r role (expected_role cns uid rules)) }"

definition ensureRBACClusterRole :: "'w reconciler \<Rightarrow> ClusterBinding \<Rightarrow> ('w, err) io" where
  "ensureRBACClusterRole r b =
     (let cns = om_Namespace (cb_Meta b); name = binder_name cns
      in do {
        g \<leftarrow> getClusterRole r name;
        (case found (''failed to get ClusterRole '' @ name) g of
           Inl e \<Rightarrow> State_Monad.return (Some e)
         | Inr role \<Rightarrow> do {
             n \<leftarrow> getNamespace r cns;
             (case n of
                Inl e \<Rightarrow> State_Monad.return (Some (Errorf (''failed to get Namespace '' @ cns) (Some e)))
              | Inr ns \<Rightarrow> do {
                  l \<leftarrow> listServiceExports r cns;
                  (case l of
                     Inl e \<Rightarrow> State_Monad.return (Some (Errorf ''failed to list APIServiceExports'' (Some e)))
                   | Inr exports \<Rightarrow> sync_role r cns (om_UID (nsp_Meta ns)) role exports) }) }) })"

definition write_cluster_binding :: "'w reconciler \<Rightarrow> RoleBinding option \<Rightarrow> RoleBinding \<Rightarrow> ('w, err) io" where
  "write_cluster_binding r binding expected =
     (case binding of
        None \<Rightarrow> do {
          e \<leftarrow> createClusterRoleBinding r expected;
          State_Monad.return (wrap_err (''failed to create ClusterRoleBinding '' @ om_Name (rb_Meta expected)) e) }
      | Some rb \<Rightarrow>
          (if rb_Subjects rb \<noteq> rb_Subjects expected then do {
             e \<leftarrow> updateClusterRoleBinding r (rb\<lparr>rb_Subjects := rb_Subjects expected\<rparr>);
             State_Monad.return (wrap_err (''failed to create ClusterRoleBinding '' @ om_Namespace (rb_Meta expected)) e) }
           else State_Monad.return None))"

definition bind_cluster_role :: "'w reconciler \<Rightarrow> string \<Rightarrow> string \<Rightarrow> RoleBinding option \<Rightarrow> ('w, err) io" where
  "bind_cluster_role r cns name binding = do {
     n \<leftarrow> getNamespace r cns;
     (case n of
        Inl e \<Rightarrow> State_Monad.return (Some (Errorf (''failed to get Namespace '' @ cns) (Some e)))
      | Inr ns \<Rightarrow> write_cluster_binding r binding
          \<lparr>rb_Meta = zero_ObjectMeta\<lparr>om_Name := name,
             om_OwnerReferences := [namespace_owner cns (om_UID (nsp_Meta ns))]\<rparr>,
           rb_Subjects = [consumer_subject cns], rb_RoleRef = role_ref ''ClusterRole'' name\<rparr>) }"

text \<open>
  The deletion of the binding in a scope other than the cluster scope is not followed by a return:
  the rest of the function runs with the binding that was found before.
\<close>

definition ensureRBACClusterRoleBinding :: "'w reconciler \<Rightarrow> ClusterBinding \<Rightarrow> ('w, err) io" where
  "ensureRBACClusterRoleBinding r b =
     (let cns = om_Namespace (cb_Meta b); name = binder_name cns
      in do {
        g \<leftarrow> getClusterRoleBinding r name;
        (case found (''failed to get ClusterRoleBinding '' @ name) g of
           Inl e \<Rightarrow> State_Monad.return (Some e)
         | Inr binding \<Rightarrow> do {
             d \<leftarrow> (if scope r \<noteq> ClusterScope then deleteClusterRoleBinding r name else State_Monad.return None);
             (if (case d of Some e \<Rightarrow> \<not> IsNotFound e | None \<Rightarrow> False)
              then State_Monad.return (wrap_err (''failed to delete ClusterRoleBinding '' @ name) d)
              else bind_cluster_role r cns name binding) }) })"

definition expected_role_binding :: "string \<Rightarrow> RoleBinding" where
  "expected_role_binding cns = \<lparr>rb_Meta = zero_ObjectMeta\<lparr>om_Name := ServiceAccountName\<rparr>,
     rb_Subjects = [consumer_subject cns], rb_RoleRef = role_ref ''ClusterRole'' ''kube-binder''\<rparr>"

definition ensureRBACRoleBinding :: "'w reconciler \<Rightarrow> ClusterBinding \<Rightarrow> ('w, err) io" where
  "ensureRBACRoleBinding r b =
     (let cns = om_Namespace (cb_Meta b); expected = expected_role_binding cns
      in do {
        g \<leftarrow> getRoleBinding r cns ''kube-binder'';
        (case found (''failed to get RoleBinding '' @ quoted ''kube-binder'') g of
           Inl e \<Rightarrow> State_Monad.return (Some e)
         | Inr None \<Rightarrow> do {
             e \<leftarrow> createRoleBinding r (expected\<lparr>rb_Meta := (rb_Meta expected)\<lparr>om_Namespace := cns\<rparr>\<rparr>);
             State_Monad.return (wrap_err (''failed to create RoleBinding '' @ om_Name (rb_Meta expected)) e) }
         | Inr (Some binding) \<Rightarrow>
             (if rb_Subjects binding \<noteq> rb_Subjects expected then do {
                e \<leftarrow> updateRoleBinding r (binding\<lparr>rb_Subjects := rb_Subjects expected\<rparr>);
                State_Monad.return (wrap_err (''failed to create RoleBinding '' @ om_Namespace (rb_Meta expected)) e) }
              else State_Monad.return None)) })"

definition reconcile :: "'w reconciler \<Rightarrow> time \<Rightarrow> ClusterBinding \<Rightarrow> ('w, err \<times> ClusterBinding) io" where
  "reconcile r now b =
     (let b1 = ensureClusterBindingConditions r now b
      in do {
        e1 \<leftarrow> ensureRBACRoleBinding r b1;
        e2 \<leftarrow> ensureRBACClusterRole r b1;
        e3 \<leftarrow> ensureRBACClusterRoleBinding r b1;
        State_Monad.return (NewAggregate (errs_append (errs_append (errs_append [] e1) e2) e3),
          SetSummary ClusterBinding_setter now b1 []) })"

section \<open>Controller\<close>

record Request =
  rq_Cluster :: string
  rq_Namespace :: string
  rq_Name :: string

record 'w cluster =
  cl_Get :: "string \<Rightarrow> string \<Rightarrow> ('w, ClusterBinding) call"
  cl_Update :: "ClusterBinding \<Rightarrow> ('w, err) io"
  cl_reconciler :: "'w reconciler"

definition Reconcile :: "(string \<Rightarrow> ('w, 'w cluster) call) \<Rightarrow> time \<Rightarrow> Request \<Rightarrow> ('w, err) io" where
  "Reconcile getCluster now req = do {
     c \<leftarrow> getCluster (rq_Cluster req);
     (case c of
        Inl e \<Rightarrow> State_Monad.return (Some (Errorf (''failed to get client for cluster '' @ quoted (rq_Cluster req)) (Some e)))
      | Inr cl \<Rightarrow> do {
          g \<leftarrow> cl_Get cl (rq_Namespace req) (rq_Name req);
          (case g of
             Inl e \<Rightarrow> State_Monad.return (if IsNotFound e then None else Some (Errorf ''failed to get ClusterBinding'' (Some e)))
           | Inr original \<Rightarrow> do {
               res \<leftarrow> reconcile (cl_reconciler cl) now original;
               (case fst res of
                  Some e \<Rightarrow> State_Monad.return (Some e)
                | None \<Rightarrow>
                    (if snd res \<noteq> original then do {
                       e \<leftarrow> cl_Update cl (snd res);
                       State_Monad.return (wrap_err ''failed to update ClusterBinding status'' e) }
                     else State_Monad.return None)) }) }) }"

definition mapAPIResourceSchema :: "string \<Rightarrow> APIServiceExport option \<Rightarrow> Request list" where
  "mapAPIResourceSchema clusterName obj =
     (case obj of
        None \<Rightarrow> []
      | Some serviceExport \<Rightarrow>
          [\<lparr>rq_Cluster = clusterName, rq_Namespace = om_Namespace (ex_Meta serviceExport), rq_Name = ''cluster''\<rparr>])"

section \<open>Health\<close>

text \<open>Times are stored with a precision of one second.\<close>

definition stored :: "ClusterBinding \<Rightarrow> ClusterBinding" where
  "stored b = set_status (\<lambda>s. s\<lparr>cbt_LastHeartbeatTime := truncate_second (cbt_LastHeartbeatTime s)\<rparr>) b"

definition verdict :: "time \<Rightarrow> ClusterBinding \<Rightarrow> string" where
  "verdict now b =
     (let last = cbt_LastHeartbeatTime (cb_Status b); interval = cbt_HeartbeatInterval (cb_Status b)
      in if last = 0 then ''FirstHeartbeatPending'' else if interval = 0 then ''HeartbeatIntervalMissing''
         else if time_Sub now last > wrap64 (interval * 2) then ''HeartbeatTimeout''
         else if time_Sub now last < Second * 10 then ''HeartbeatTimeDrift'' else '''')"

abbreviation healthy :: "ClusterBinding \<Rightarrow> bool" where
  "healthy b \<equiv> IsTrue ClusterBinding_setter b ClusterBindingConditionHealthy"

abbreviation health_reason :: "ClusterBinding \<Rightarrow> string" where
  "health_reason b \<equiv> GetReason ClusterBinding_setter b ClusterBindingConditionHealthy"

lemma verdict_reported:
  assumes "clb.unique_types b"
  shows "healthy (ensureClusterBindingConditions r now b) \<longleftrightarrow> verdict now b = ''''"
    and "verdict now b \<noteq> '''' \<Longrightarrow> health_reason (ensureClusterBindingConditions r now b) = verdict now b"
    and "clb.unique_types (ensureClusterBindingConditions r now b)"
proof -
  have unhealthy: "\<not> healthy (mark_unhealthy now b reason sv m)" for reason sv m
    using clb.IsFalse_MarkFalse [OF assms, of now ClusterBindingConditionHealthy reason sv m]
    by (auto simp: mark_unhealthy_def IsTrue_def IsFalse_def split: option.splits)
  have reason: "health_reason (mark_unhealthy now b reason sv m) = reason" for reason sv m
    unfolding mark_unhealthy_def by (rule clb.GetReason_MarkFalse [OF assms])
  show "healthy (ensureClusterBindingConditions r now b) \<longleftrightarrow> verdict now b = ''''"
    using clb.IsTrue_MarkTrue [OF assms]
    by (simp add: ensureClusterBindingConditions_def verdict_def Let_def unhealthy)
  show "verdict now b \<noteq> '''' \<Longrightarrow> health_reason (ensureClusterBindingConditions r now b) = verdict now b"
    by (auto simp: ensureClusterBindingConditions_def verdict_def Let_def reason)
  show "clb.unique_types (ensureClusterBindingConditions r now b)"
    using clb.unique_Mark(1,2) [OF assms]
    by (simp add: ensureClusterBindingConditions_def Let_def mark_unhealthy_def)
qed

lemma reconcile_health:
  assumes "clb.unique_types b"
  shows "wp (reconcile r now b) (\<lambda>(_, b') _. (healthy b' \<longleftrightarrow> verdict now b = '''') \<and>
    (verdict now b \<noteq> '''' \<longrightarrow> health_reason b' = verdict now b)) w"
proof -
  have "ClusterBindingConditionHealthy \<noteq> ReadyCondition"
    by (simp add: ClusterBindingConditionHealthy_def ReadyCondition_def)
  from clb.Get_SetSummary_other [OF verdict_reported(3) [OF assms, of r now] this, of now]
  have "healthy (SetSummary ClusterBinding_setter now (ensureClusterBindingConditions r now b) []) =
      healthy (ensureClusterBindingConditions r now b)"
    "health_reason (SetSummary ClusterBinding_setter now (ensureClusterBindingConditions r now b) []) =
      health_reason (ensureClusterBindingConditions r now b)"
    by (simp_all add: IsTrue_def GetReason_def)
  with verdict_reported(1,2) [OF assms] show ?thesis
    unfolding reconcile_def Let_def by (intro wp_bind wp_any wp_return) auto
qed

lemma time_Sub_le: "t - u \<le> d \<Longrightarrow> minDuration \<le> d \<Longrightarrow> time_Sub t u \<le> d"
  by (simp add: time_Sub_def)

lemma fresh_verdict:
  assumes "heartbeat_fresh h t b" and "2 * Second \<le> h" and "h < 2 ^ 62" and "h \<le> t" and "now \<le> t + h"
  shows "verdict now (stored b) = (if time_Sub now (cbt_LastHeartbeatTime (cb_Status (stored b))) < 10 * Second
    then ''HeartbeatTimeDrift'' else '''')"
proof -
  let ?last = "cbt_LastHeartbeatTime (cb_Status b)"
  have fresh: "cbt_HeartbeatInterval (cb_Status b) = h" "t - ?last \<le> h div 2"
    using assms(1) by (auto simp: heartbeat_fresh_def)
  have s: "0 < Second" by (simp add: Second_def)
  have "Second \<le> ?last" using fresh(2) assms(2,4) by linarith
  then have pos: "0 < truncate_second ?last" using truncate_second_le(2) [of ?last] by linarith
  have "now - truncate_second ?last \<le> h * 2"
    using fresh(2) assms(2,5) truncate_second_le(2) [of ?last] by linarith
  then have "time_Sub now (truncate_second ?last) \<le> h * 2"
    using assms(2) s by (intro time_Sub_le) (simp_all add: minDuration_def)
  moreover have "wrap64 (h * 2) = h * 2" using assms(2,3) s by (intro wrap64_id) simp_all
  ultimately show ?thesis using pos fresh(1) assms(2) s
    by (simp add: verdict_def stored_def set_status_def Let_def mult.commute)
qed

text \<open>
  C29. Heartbeats keep a consumer alive. Take an interval of at least two seconds that can be doubled
  in 64 bits. After a reconciliation of the konnector at time \<open>t\<close>, whatever happened to the secret,
  the backend does not report a timeout before another full interval has passed, although times
  are stored with a precision of a second: it finds the consumer healthy exactly if the stored heartbeat is at least
  ten seconds old, and otherwise reports a drift of the clocks.
\<close>

theorem heartbeat_keeps_alive:
  assumes "run_state (Cluster_Binding.reconcile rk t b) w = ((e, b'), w')"
    and "h = heartbeatInterval rk" and "2 * Second \<le> h" and "h < 2 ^ 62" and "h \<le> t" and "now \<le> t + h"
    and "distinct (map cond_Type (cbt_Conditions (cb_Status b')))"
    and "run_state (reconcile rb now (stored b')) v = ((e'', b''), v')"
  shows "if 10 * Second \<le> time_Sub now (cbt_LastHeartbeatTime (cb_Status (stored b')))
    then healthy b'' else \<not> healthy b'' \<and> health_reason b'' = ''HeartbeatTimeDrift''"
proof -
  have "0 < Second" by (simp add: Second_def)
  then have "0 < t" "0 \<le> heartbeatInterval rk" using assms(2,3,5) by linarith+
  from wpD [OF reconcile_heartbeat [OF this] assms(1)] have "heartbeat_fresh h t b'" using assms(2) by simp
  note v = fresh_verdict [OF this assms(3-6)]
  have "clb.unique_types (stored b')" using assms(7) by (simp add: stored_def set_status_def)
  from wpD [OF reconcile_health [OF this] assms(8)] show ?thesis by (auto simp: v not_less)
qed

section \<open>Access of consumers\<close>

datatype rbac_event =
    EvExports string "go_error + APIServiceExport list"
  | EvSchema string string "go_error + BoundSchema"
  | EvGetClusterRole string "go_error + Role"
  | EvCreateClusterRole Role err
  | EvUpdateClusterRole Role err
  | EvGetClusterRoleBinding string "go_error + RoleBinding"
  | EvCreateClusterRoleBinding RoleBinding err
  | EvUpdateClusterRoleBinding RoleBinding err
  | EvDeleteClusterRoleBinding string err
  | EvGetRoleBinding string string "go_error + RoleBinding"
  | EvCreateRoleBinding RoleBinding err
  | EvUpdateRoleBinding RoleBinding err
  | EvGetNamespace string

definition traced :: "'w reconciler \<Rightarrow> ('w \<times> rbac_event list) reconciler" where
  "traced r = \<lparr>scope = scope r, fmt_Duration = fmt_Duration r, fmt_Time = fmt_Time r,
     listServiceExports = (\<lambda>ns. logged (EvExports ns) (listServiceExports r ns)),
     getBoundSchema = (\<lambda>ns n. logged (EvSchema ns n) (getBoundSchema r ns n)),
     getClusterRole = (\<lambda>n. logged (EvGetClusterRole n) (getClusterRole r n)),
     createClusterRole = (\<lambda>x. logged (EvCreateClusterRole x) (createClusterRole r x)),
     updateClusterRole = (\<lambda>x. logged (EvUpdateClusterRole x) (updateClusterRole r x)),
     getClusterRoleBinding = (\<lambda>n. logged (EvGetClusterRoleBinding n) (getClusterRoleBinding r n)),
     createClusterRoleBinding = (\<lambda>x. logged (EvCreateClusterRoleBinding x) (createClusterRoleBinding r x)),
     updateClusterRoleBinding = (\<lambda>x. logged (EvUpdateClusterRoleBinding x) (updateClusterRoleBinding r x)),
     deleteClusterRoleBinding = (\<lambda>n. logged (EvDeleteClusterRoleBinding n) (deleteClusterRoleBinding r n)),
     getRoleBinding = (\<lambda>ns n. logged (EvGetRoleBinding ns n) (getRoleBinding r ns n)),
     createRoleBinding = (\<lambda>x. logged (EvCreateRoleBinding x) (createRoleBinding r x)),
     updateRoleBinding = (\<lambda>x. logged (EvUpdateRoleBinding x) (updateRoleBinding r x)),
     getNamespace = (\<lambda>n. logged (\<lambda>_. EvGetNamespace n) (getNamespace r n))\<rparr>"

lemma rbac_traced_simps [simp]:
  "scope (traced r) = scope r"
  "listServiceExports (traced r) ns = logged (EvExports ns) (listServiceExports r ns)"
  "getBoundSchema (traced r) ns n = logged (EvSchema ns n) (getBoundSchema r ns n)"
  "getClusterRole (traced r) n = logged (EvGetClusterRole n) (getClusterRole r n)"
  "createClusterRole (traced r) x = logged (EvCreateClusterRole x) (createClusterRole r x)"
  "updateClusterRole (traced r) x = logged (EvUpdateClusterRole x) (updateClusterRole r x)"
  "getClusterRoleBinding (traced r) n = logged (EvGetClusterRoleBinding n) (getClusterRoleBinding r n)"
  "createClusterRoleBinding (traced r) b = logged (EvCreateClusterRoleBinding b) (createClusterRoleBinding r b)"
  "updateClusterRoleBinding (traced r) b = logged (EvUpdateClusterRoleBinding b) (updateClusterRoleBinding r b)"
  "deleteClusterRoleBinding (traced r) n = logged (EvDeleteClusterRoleBinding n) (deleteClusterRoleBinding r n)"
  "getRoleBinding (traced r) ns n = logged (EvGetRoleBinding ns n) (getRoleBinding r ns n)"
  "createRoleBinding (traced r) b = logged (EvCreateRoleBinding b) (createRoleBinding r b)"
  "updateRoleBinding (traced r) b = logged (EvUpdateRoleBinding b) (updateRoleBinding r b)"
  "getNamespace (traced r) n = logged (\<lambda>_. EvGetNamespace n) (getNamespace r n)"
  by (simp_all add: traced_def)

text \<open>A resource of an export in the namespace, with the schema found for it.\<close>

definition exported :: "string \<Rightarrow> rbac_event list \<Rightarrow> BoundSchema \<Rightarrow> bool" where
  "exported ns h schema \<longleftrightarrow> (\<exists>exports x res. EvExports ns (Inr exports) \<in> set h \<and> x \<in> set exports \<and>
     res \<in> set (exs_Resources (ex_Spec x)) \<and> EvSchema ns (ResourceGroupName res) (Inr schema) \<in> set h)"

definition granted_rules :: "string \<Rightarrow> rbac_event list \<Rightarrow> PolicyRule list \<Rightarrow> bool" where
  "granted_rules ns h rules \<longleftrightarrow> set rules \<subseteq> set base_rules \<union> schema_rule ` {s. exported ns h s}"

text \<open>
  What may be written for the consumer with namespace \<open>ns\<close>: its cluster role with rules for exported
  resources, bindings of the consumer's service account, and nothing under other names.
\<close>

fun policy :: "string \<Rightarrow> InformerScope \<Rightarrow> rbac_event list \<Rightarrow> rbac_event \<Rightarrow> bool" where
  "policy ns sc h (EvCreateClusterRole x _) = (om_Name (ro_Meta x) = binder_name ns \<and> granted_rules ns h (ro_Rules x))"
| "policy ns sc h (EvUpdateClusterRole x _) =
     ((\<exists>y. EvGetClusterRole (binder_name ns) (Inr y) \<in> set h \<and> ro_Meta x = ro_Meta y) \<and> granted_rules ns h (ro_Rules x))"
| "policy ns sc h (EvCreateClusterRoleBinding x _) =
     (om_Name (rb_Meta x) = binder_name ns \<and> rb_Subjects x = [consumer_subject ns] \<and>
      rb_RoleRef x = role_ref ''ClusterRole'' (binder_name ns))"
| "policy ns sc h (EvUpdateClusterRoleBinding x _) =
     (\<exists>y. EvGetClusterRoleBinding (binder_name ns) (Inr y) \<in> set h \<and> x = y\<lparr>rb_Subjects := [consumer_subject ns]\<rparr>)"
| "policy ns sc h (EvDeleteClusterRoleBinding n _) = (n = binder_name ns \<and> sc \<noteq> ClusterScope)"
| "policy ns sc h (EvCreateRoleBinding x _) =
     (om_Namespace (rb_Meta x) = ns \<and> om_Name (rb_Meta x) = ServiceAccountName \<and> rb_Subjects x = [consumer_subject ns] \<and>
      rb_RoleRef x = role_ref ''ClusterRole'' ''kube-binder'')"
| "policy ns sc h (EvUpdateRoleBinding x _) =
     (\<exists>y. EvGetRoleBinding ns ''kube-binder'' (Inr y) \<in> set h \<and> x = y\<lparr>rb_Subjects := [consumer_subject ns]\<rparr>)"
| "policy ns sc h _ = True"

lemma found_cases:
  "found what g = Inr None \<longleftrightarrow> (\<exists>e. g = Inl e \<and> IsNotFound e)"
  "found what g = Inr (Some x) \<longleftrightarrow> g = Inr x"
  by (auto simp: found_def split: sum.split if_splits)

abbreviation obeys :: "string \<Rightarrow> InformerScope \<Rightarrow> rbac_event list \<Rightarrow> bool" where
  "obeys ns sc \<equiv> guarded (policy ns sc) []"

lemma role_binding_policy:
  assumes "obeys (om_Namespace (cb_Meta b)) (scope r) tr"
  shows "wp (ensureRBACRoleBinding (traced r) b) (\<lambda>_ (_, tr'). obeys (om_Namespace (cb_Meta b)) (scope r) tr' \<and> set tr \<subseteq> set tr') (w, tr)"
  unfolding ensureRBACRoleBinding_def Let_def
  by (rule wp_bind, simp only: rbac_traced_simps, rule wp_logged)
    (auto simp: found_cases expected_role_binding_def assms guarded_append intro!: wp_intros split: sum.split option.split)

lemma bind_cluster_role_policy:
  assumes "obeys cns (scope r) tr" and "\<And>y. binding = Some y \<Longrightarrow> EvGetClusterRoleBinding (binder_name cns) (Inr y) \<in> set tr"
  shows "wp (bind_cluster_role (traced r) cns (binder_name cns) binding)
    (\<lambda>_ (_, tr'). obeys cns (scope r) tr' \<and> set tr \<subseteq> set tr') (w, tr)"
  unfolding bind_cluster_role_def write_cluster_binding_def rbac_traced_simps
  by (intro wp_bind wp_logged wp_sum wp_option wp_if wp_return) (use assms in \<open>auto simp: guarded_append\<close>)

lemma cluster_role_binding_policy:
  assumes "obeys (om_Namespace (cb_Meta b)) (scope r) tr"
  shows "wp (ensureRBACClusterRoleBinding (traced r) b) (\<lambda>_ (_, tr'). obeys (om_Namespace (cb_Meta b)) (scope r) tr' \<and> set tr \<subseteq> set tr') (w, tr)"
proof -
  let ?ns = "om_Namespace (cb_Meta b)"
  have bind: "wp (bind_cluster_role (traced r) ?ns (binder_name ?ns) binding)
      (\<lambda>_ (_, tr'). obeys ?ns (scope r) tr' \<and> set tr \<subseteq> set tr') (w', tr2)"
    if "found what g = Inr binding" "EvGetClusterRoleBinding (binder_name ?ns) g \<in> set tr2" "set tr \<subseteq> set tr2" "obeys ?ns (scope r) tr2"
    for what g tr2 w' and binding :: "RoleBinding option"
    by (rule wp_weaken [OF bind_cluster_role_policy]) (use that in \<open>auto simp: found_cases\<close>)
  show ?thesis unfolding ensureRBACClusterRoleBinding_def Let_def rbac_traced_simps
    by (intro wp_bind wp_logged wp_sum wp_if wp_return bind; (assumption | simp add: assms guarded_append)?) (use assms in auto)
qed

lemma granted_mono: "granted_rules ns h rules \<Longrightarrow> set h \<subseteq> set h' \<Longrightarrow> granted_rules ns h' rules"
  unfolding granted_rules_def exported_def by fast

lemma append_rules_ok:
  assumes "obeys ns (scope r) tr" and "EvExports ns (Inr exports) \<in> set tr" and "x \<in> set exports"
    and "set ks \<subseteq> ResourceGroupName ` set (exs_Resources (ex_Spec x))" and "granted_rules ns tr rules"
  shows "wp (append_rules (traced r) ns ks rules) (\<lambda>g (_, tr'). obeys ns (scope r) tr' \<and> set tr \<subseteq> set tr' \<and>
     (\<forall>rules'. g = Inr rules' \<longrightarrow> granted_rules ns tr' rules' \<and> set rules \<subseteq> set rules' \<and>
        (\<forall>k \<in> set ks. \<exists>s. EvSchema ns k (Inr s) \<in> set tr' \<and> schema_rule s \<in> set rules'))) (w, tr)"
  using assms
proof (induction ks arbitrary: tr w rules)
  case Nil
  then show ?case by (auto intro: wp_return)
next
  case (Cons k ks)
  have step: "wp (append_rules (traced r) ns ks (rules @ [schema_rule s])) (\<lambda>g (_, tr'). obeys ns (scope r) tr' \<and>
      set (tr @ [EvSchema ns k (Inr s)]) \<subseteq> set tr' \<and>
     (\<forall>rules'. g = Inr rules' \<longrightarrow> granted_rules ns tr' rules' \<and> set (rules @ [schema_rule s]) \<subseteq> set rules' \<and>
        (\<forall>k \<in> set ks. \<exists>s. EvSchema ns k (Inr s) \<in> set tr' \<and> schema_rule s \<in> set rules'))) (w', tr @ [EvSchema ns k (Inr s)])"
    for s w'
  proof (rule Cons.IH)
    have "exported ns (tr @ [EvSchema ns k (Inr s)]) s" using Cons.prems unfolding exported_def by fastforce
    with granted_mono [OF Cons.prems(5), of "tr @ [EvSchema ns k (Inr s)]"]
    show "granted_rules ns (tr @ [EvSchema ns k (Inr s)]) (rules @ [schema_rule s])"
      by (auto simp: granted_rules_def)
  qed (use Cons.prems in auto)
  show ?case unfolding append_rules.simps rbac_traced_simps
  proof (intro wp_bind wp_logged wp_sum)
    fix g w' e
    show "wp (State_Monad.return (Inl (Errorf (''failed to get BoundSchema '' @ quoted k) (Some e))))
      (\<lambda>g (_, tr'). obeys ns (scope r) tr' \<and> set tr \<subseteq> set tr' \<and>
       (\<forall>rules'. g = Inr rules' \<longrightarrow> granted_rules ns tr' rules' \<and> set rules \<subseteq> set rules' \<and>
        (\<forall>k \<in> set (k # ks). \<exists>s. EvSchema ns k (Inr s) \<in> set tr' \<and> schema_rule s \<in> set rules')))
      (w', tr @ [EvSchema ns k g])"
      using Cons.prems(1) by (auto intro: wp_return)
  next
    fix g :: "go_error + BoundSchema" and w' s
    assume "g = Inr s"
    then show "wp (append_rules (traced r) ns ks (rules @ [schema_rule s]))
      (\<lambda>g (_, tr'). obeys ns (scope r) tr' \<and> set tr \<subseteq> set tr' \<and>
       (\<forall>rules'. g = Inr rules' \<longrightarrow> granted_rules ns tr' rules' \<and> set rules \<subseteq> set rules' \<and>
        (\<forall>k \<in> set (k # ks). \<exists>s. EvSchema ns k (Inr s) \<in> set tr' \<and> schema_rule s \<in> set rules')))
      (w', tr @ [EvSchema ns k g])"
      by (auto intro!: wp_weaken [OF step])
  qed
qed

lemma set_schema_keys: "set (schema_keys x) = ResourceGroupName ` set (exs_Resources (ex_Spec x))"
  by (simp add: schema_keys_def)

text \<open>Every resource of the exports has a rule.\<close>

definition complete_rules :: "string \<Rightarrow> rbac_event list \<Rightarrow> APIServiceExport list \<Rightarrow> PolicyRule list \<Rightarrow> bool" where
  "complete_rules ns h exports rules \<longleftrightarrow> (\<forall>x \<in> set exports. \<forall>res \<in> set (exs_Resources (ex_Spec x)).
     \<exists>s. EvSchema ns (ResourceGroupName res) (Inr s) \<in> set h \<and> schema_rule s \<in> set rules)"

lemma complete_rules_mono:
  "complete_rules ns h xs rules \<Longrightarrow> set h \<subseteq> set h' \<Longrightarrow> set rules \<subseteq> set rules' \<Longrightarrow> complete_rules ns h' xs rules'"
  unfolding complete_rules_def by (meson subsetD)

lemma complete_rules_Cons: "complete_rules ns h (x # xs) rules \<longleftrightarrow> complete_rules ns h [x] rules \<and> complete_rules ns h xs rules"
  by (auto simp: complete_rules_def)

lemma export_rules_ok:
  assumes "obeys ns (scope r) tr" and "EvExports ns (Inr exports) \<in> set tr" and "set xs \<subseteq> set exports"
    and "granted_rules ns tr rules"
  shows "wp (export_rules (traced r) ns xs rules) (\<lambda>g (_, tr'). obeys ns (scope r) tr' \<and> set tr \<subseteq> set tr' \<and>
     (\<forall>rules'. g = Inr rules' \<longrightarrow> granted_rules ns tr' rules' \<and> set rules \<subseteq> set rules' \<and>
        complete_rules ns tr' xs rules')) (w, tr)"
  using assms
proof (induction xs arbitrary: tr w rules)
  case Nil
  then show ?case by (auto simp: complete_rules_def intro: wp_return)
next
  case (Cons x xs)
  have x: "wp (append_rules (traced r) ns (schema_keys x) rules) (\<lambda>g (_, tr'). obeys ns (scope r) tr' \<and> set tr \<subseteq> set tr' \<and>
     (\<forall>rules'. g = Inr rules' \<longrightarrow> granted_rules ns tr' rules' \<and> set rules \<subseteq> set rules' \<and>
        complete_rules ns tr' [x] rules')) (w, tr)"
    by (rule wp_weaken [OF append_rules_ok [OF Cons.prems(1,2), of x "schema_keys x" rules]])
      (use Cons.prems in \<open>auto simp: set_schema_keys complete_rules_def\<close>)
  show ?case unfolding export_rules.simps
  proof (rule wp_chain [OF x], clarify, rule wp_sum)
    fix g w1 tr1 e
    assume "obeys ns (scope r) tr1" "set tr \<subseteq> set tr1"
    then show "wp (State_Monad.return (Inl e)) (\<lambda>g (_, tr'). obeys ns (scope r) tr' \<and> set tr \<subseteq> set tr' \<and>
       (\<forall>rules'. g = Inr rules' \<longrightarrow> granted_rules ns tr' rules' \<and> set rules \<subseteq> set rules' \<and>
          complete_rules ns tr' (x # xs) rules')) (w1, tr1)"
      by (auto intro: wp_return)
  next
    fix g w1 tr1 rules1
    assume a: "obeys ns (scope r) tr1" "set tr \<subseteq> set tr1" "g = Inr rules1"
      "\<forall>rules'. g = Inr rules' \<longrightarrow> granted_rules ns tr1 rules' \<and> set rules \<subseteq> set rules' \<and> complete_rules ns tr1 [x] rules'"
    then have e: "EvExports ns (Inr exports) \<in> set tr1" "set xs \<subseteq> set exports" using Cons.prems by auto
    show "wp (export_rules (traced r) ns xs rules1) (\<lambda>g (_, tr'). obeys ns (scope r) tr' \<and> set tr \<subseteq> set tr' \<and>
       (\<forall>rules'. g = Inr rules' \<longrightarrow> granted_rules ns tr' rules' \<and> set rules \<subseteq> set rules' \<and>
          complete_rules ns tr' (x # xs) rules')) (w1, tr1)"
    proof (rule wp_weaken [OF Cons.IH [OF a(1) e, of rules1]])
      have rules1: "set rules \<subseteq> set rules1" "complete_rules ns tr1 [x] rules1" using a(3,4) by blast+
      show "granted_rules ns tr1 rules1" using a(3,4) by blast
      fix g' and s' :: "'w \<times> rbac_event list"
      obtain w2 tr2 where s': "s' = (w2, tr2)" by (cases s')
      assume "case s' of (_, tr') \<Rightarrow> obeys ns (scope r) tr' \<and> set tr1 \<subseteq> set tr' \<and>
        (\<forall>rules'. g' = Inr rules' \<longrightarrow> granted_rules ns tr' rules' \<and> set rules1 \<subseteq> set rules' \<and> complete_rules ns tr' xs rules')"
      then show "case s' of (_, tr') \<Rightarrow> obeys ns (scope r) tr' \<and> set tr \<subseteq> set tr' \<and>
        (\<forall>rules'. g' = Inr rules' \<longrightarrow> granted_rules ns tr' rules' \<and> set rules \<subseteq> set rules' \<and> complete_rules ns tr' (x # xs) rules')"
        using a(2) rules1 complete_rules_mono [OF rules1(2)] unfolding s' prod.case complete_rules_Cons [of ns tr2 x xs]
        by (metis subset_trans)
    qed
  qed
qed

text \<open>The cluster role that is in place at the end was read or written and has the rules.\<close>

definition in_place :: "string \<Rightarrow> rbac_event list \<Rightarrow> Role \<Rightarrow> bool" where
  "in_place name tr role \<longleftrightarrow> EvGetClusterRole name (Inr role) \<in> set tr \<or> EvCreateClusterRole role None \<in> set tr \<or>
     EvUpdateClusterRole role None \<in> set tr"

definition role_settled :: "string \<Rightarrow> rbac_event list \<Rightarrow> bool" where
  "role_settled ns tr \<longleftrightarrow> (\<exists>role exports. in_place (binder_name ns) tr role \<and> EvExports ns (Inr exports) \<in> set tr \<and>
     granted_rules ns tr (ro_Rules role) \<and> complete_rules ns tr exports (ro_Rules role))"

lemma role_settled_mono: "role_settled ns tr \<Longrightarrow> set tr \<subseteq> set tr' \<Longrightarrow> role_settled ns tr'"
  unfolding role_settled_def in_place_def by (metis complete_rules_mono granted_mono subsetD subset_refl)

lemma wrap_err_None [simp]: "wrap_err what e = None \<longleftrightarrow> e = None"
  by (simp add: wrap_err_def)

lemma write_role_ok:
  assumes "obeys ns (scope r) tr" and "\<And>y. role = Some y \<Longrightarrow> EvGetClusterRole (binder_name ns) (Inr y) \<in> set tr"
    and "om_Name (ro_Meta expected) = binder_name ns" and "granted_rules ns tr (ro_Rules expected)"
    and "EvExports ns (Inr exports) \<in> set tr" and "complete_rules ns tr exports (ro_Rules expected)"
  shows "wp (write_role (traced r) role expected) (\<lambda>e (_, tr'). obeys ns (scope r) tr' \<and> set tr \<subseteq> set tr' \<and>
    (e = None \<longrightarrow> role_settled ns tr')) (w, tr)"
proof -
  have written: "role_settled ns (tr @ [ev])"
    if "in_place (binder_name ns) (tr @ [ev]) x" "ro_Rules x = ro_Rules expected" for ev x
    unfolding role_settled_def
  proof (intro exI conjI)
    show "in_place (binder_name ns) (tr @ [ev]) x" "EvExports ns (Inr exports) \<in> set (tr @ [ev])"
      using that assms(5) by simp_all
    show "granted_rules ns (tr @ [ev]) (ro_Rules x)" using granted_mono [OF assms(4), of "tr @ [ev]"] that(2) by auto
    show "complete_rules ns (tr @ [ev]) exports (ro_Rules x)"
      using complete_rules_mono [OF assms(6), of "tr @ [ev]"] that(2) by auto
  qed
  have created: "role_settled ns (tr @ [EvCreateClusterRole expected None])"
    by (rule written [of _ expected]) (simp_all add: in_place_def)
  have updated: "role_settled ns (tr @ [EvUpdateClusterRole (x\<lparr>ro_Rules := ro_Rules expected\<rparr>) None])" for x
    by (rule written [of _ "x\<lparr>ro_Rules := ro_Rules expected\<rparr>"]) (simp_all add: in_place_def)
  have kept: "role_settled ns tr" if "role = Some x" "ro_Rules x = ro_Rules expected" for x
    using assms(2) [OF that(1)] assms(4-6) that(2) unfolding role_settled_def in_place_def by metis
  show ?thesis unfolding write_role_def rbac_traced_simps
    by (intro wp_option wp_bind wp_logged wp_if wp_return)
      (use assms in \<open>auto simp: created updated intro: kept\<close>)
qed

lemma sync_role_ok:
  assumes "obeys ns (scope r) tr" and "found what g = Inr role"
    and "EvGetClusterRole (binder_name ns) g \<in> set tr" and "EvExports ns (Inr exports) \<in> set tr"
  shows "wp (sync_role (traced r) ns uid role exports) (\<lambda>e (_, tr'). obeys ns (scope r) tr' \<and> set tr \<subseteq> set tr' \<and>
    (e = None \<longrightarrow> role_settled ns tr')) (w, tr)"
  unfolding sync_role_def
proof (rule wp_chain [OF export_rules_ok [OF assms(1,4) subset_refl]], goal_cases)
  case 1
  show ?case by (simp add: granted_rules_def)
next
  case (2 rs s')
  obtain w2 tr2 where s': "s' = (w2, tr2)" by (cases s')
  show ?case
  proof (cases rs)
    case (Inl e)
    with 2 s' show ?thesis by (auto intro: wp_return)
  next
    case (Inr rules)
    with 2 s' have "obeys ns (scope r) tr2" "set tr \<subseteq> set tr2" "granted_rules ns tr2 rules" "complete_rules ns tr2 exports rules"
      by auto
    then show ?thesis unfolding Inr s' sum.case
      by (intro wp_weaken [OF write_role_ok [of ns r tr2 role "expected_role ns uid rules" exports]])
        (use assms(2-4) in \<open>auto simp: found_cases expected_role_def\<close>)
  qed
qed

lemma cluster_role_ok:
  assumes "obeys (om_Namespace (cb_Meta b)) (scope r) tr"
  shows "wp (ensureRBACClusterRole (traced r) b) (\<lambda>e (_, tr'). obeys (om_Namespace (cb_Meta b)) (scope r) tr' \<and>
    set tr \<subseteq> set tr' \<and> (e = None \<longrightarrow> role_settled (om_Namespace (cb_Meta b)) tr')) (w, tr)"
proof -
  let ?ns = "om_Namespace (cb_Meta b)"
  have sync: "wp (sync_role (traced r) ?ns uid role exports) (\<lambda>e (_, tr'). obeys ?ns (scope r) tr' \<and> set tr \<subseteq> set tr' \<and>
      (e = None \<longrightarrow> role_settled ?ns tr')) (w', tr @ EvGetClusterRole (binder_name ?ns) g # us @ [EvExports ?ns (Inr exports)])"
    if "found what g = Inr role" "us = [EvGetNamespace ?ns]" for what g role us uid exports w'
    by (rule wp_weaken [OF sync_role_ok [OF _ that(1)]]) (use that(2) assms in \<open>auto simp: guarded_append\<close>)
  show ?thesis unfolding ensureRBACClusterRole_def Let_def rbac_traced_simps
    by (intro wp_bind wp_logged wp_sum wp_return)
      (use assms in \<open>auto simp: guarded_append intro: sync [of _ _ _ "[_]", simplified]\<close>)
qed


section \<open>Concrete runs\<close>

text \<open>A provider without RBAC objects whose consumer has one export of one resource.\<close>

definition example_export :: APIServiceExport where
  "example_export = \<lparr>ex_Kind = ''APIServiceExport'', ex_Meta = zero_ObjectMeta\<lparr>om_Name := ''b'', om_Namespace := ''p''\<rparr>,
     ex_Spec = \<lparr>exs_Resources = [\<lparr>rr_GroupResource = \<lparr>gr_Group = ''g'', gr_Resource = ''foos''\<rparr>, rr_Versions = []\<rparr>],
       exs_PermissionClaims = [], exs_InformerScope = NamespacedScope, exs_ClusterScopedIsolation = IsolationPrefixed\<rparr>,
     ex_Conditions = []\<rparr>"

definition example_schema :: BoundSchema where
  "example_schema = \<lparr>bs_Kind = ''BoundSchema'', bs_Meta = zero_ObjectMeta\<lparr>om_Name := ''foos.g''\<rparr>,
     bs_Spec = \<lparr>bss_InformerScope = NamespacedScope, bss_Group = ''g'', bss_Names = zero_Names\<lparr>crn_Plural := ''foos''\<rparr>,
       bss_Scope = RS_NamespaceScoped, bss_Versions = [], bss_Conversion = None\<rparr>,
     bs_AcceptedNames = zero_Names, bs_StoredVersions = [], bs_Conditions = [], bs_Instantiations = 0\<rparr>"

definition example_reconciler :: "InformerScope \<Rightarrow> 'w reconciler" where
  "example_reconciler sc = \<lparr>scope = sc, fmt_Duration = (\<lambda>_. ''''), fmt_Time = (\<lambda>_. ''''),
     listServiceExports = (\<lambda>_. State_Monad.return (Inr [example_export])),
     getBoundSchema = (\<lambda>_ _. State_Monad.return (Inr example_schema)),
     getClusterRole = (\<lambda>n. State_Monad.return (Inl (StatusError ReasonNotFound n))),
     createClusterRole = (\<lambda>_. State_Monad.return None), updateClusterRole = (\<lambda>_. State_Monad.return None),
     getClusterRoleBinding = (\<lambda>n. State_Monad.return (Inl (StatusError ReasonNotFound n))),
     createClusterRoleBinding = (\<lambda>_. State_Monad.return None), updateClusterRoleBinding = (\<lambda>_. State_Monad.return None),
     deleteClusterRoleBinding = (\<lambda>_. State_Monad.return None),
     getRoleBinding = (\<lambda>_ n. State_Monad.return (Inl (StatusError ReasonNotFound n))),
     createRoleBinding = (\<lambda>_. State_Monad.return None), updateRoleBinding = (\<lambda>_. State_Monad.return None),
     getNamespace = (\<lambda>n. State_Monad.return (Inr \<lparr>nsp_Meta = zero_ObjectMeta\<lparr>om_Name := n, om_UID := ''u''\<rparr>\<rparr>))\<rparr>"

definition example_run :: "InformerScope \<Rightarrow> (err \<times> ClusterBinding) \<times> (unit \<times> rbac_event list)" where
  "example_run sc = run_state (reconcile (traced (example_reconciler sc)) (9 * Minute) (example_cluster_binding 0 0)) ((), [])"

definition created_bindings :: "rbac_event list \<Rightarrow> string list" where
  "created_bindings tr = concat (map (\<lambda>ev. case ev of EvCreateClusterRoleBinding b _ \<Rightarrow> [om_Name (rb_Meta b)] | _ \<Rightarrow> []) tr)"


text \<open>A heartbeat at 400 seconds, judged 20 seconds later.\<close>

definition example_beat :: "(err \<times> ClusterBinding) \<times> secret_store" where
  "example_beat = run_state (Cluster_Binding.reconcile stored_reconciler (400 * Second) (example_cluster_binding 0 0)) []"

definition example_judged :: "(err \<times> ClusterBinding) \<times> unit" where
  "example_judged = run_state (reconcile (example_reconciler ClusterScope) (420 * Second) (stored (snd (fst example_beat)))) ()"

theorem heartbeat_keeps_alive_witness: "healthy (snd (fst example_judged))"
proof -
  let ?run = "run_state (Cluster_Binding.reconcile stored_reconciler (400 * Second) (example_cluster_binding 0 0)) []"
  have run: "?run = ((fst (fst ?run), snd (fst example_beat)), snd ?run)" unfolding example_beat_def by (metis prod.collapse)
  let ?run' = "run_state (reconcile (example_reconciler ClusterScope) (420 * Second) (stored (snd (fst example_beat)))) ()"
  have run': "?run' = ((fst (fst ?run'), snd (fst example_judged)), snd ?run')" unfolding example_judged_def by (metis prod.collapse)
  have "distinct (map cond_Type (cbt_Conditions (cb_Status (snd (fst example_beat)))))" by code_simp
  moreover have "10 * Second \<le> time_Sub (420 * Second) (cbt_LastHeartbeatTime (cb_Status (stored (snd (fst example_beat)))))"
    by code_simp
  ultimately show ?thesis
    using heartbeat_keeps_alive [OF run _ _ _ _ _ _ run', of "300 * Second"]
    by (simp add: stored_reconciler_def Second_def split: if_splits)
qed

section \<open>Deviations\<close>

text \<open>
  In the namespaced scope the cluster-wide binding of the consumer is created all the same, which
  gives the consumer access to the exported resources in all namespaces.
\<close>

lemma namespaced_scope_binds_cluster_role:
  "created_bindings (snd (snd (example_run NamespacedScope))) = [''kube-binder-p'']"
  by code_simp

text \<open>
  A heartbeat that arrived in the last ten seconds is reported as a drift of the clocks, although the
  clocks may agree.
\<close>

lemma fresh_heartbeat_is_drift:
  assumes "heartbeat_fresh h t b" and "2 * Second \<le> h" and "h < 2 ^ 62" and "h \<le> t" and "now \<le> t + h"
    and "now < truncate_second (cbt_LastHeartbeatTime (cb_Status b)) + 10 * Second"
  shows "verdict now (stored b) = ''HeartbeatTimeDrift''"
proof -
  have "time_Sub now (cbt_LastHeartbeatTime (cb_Status (stored b))) < 10 * Second"
    using assms(6) by (simp add: time_Sub_def minDuration_def Second_def stored_def set_status_def)
  with fresh_verdict [OF assms(1-5)] show ?thesis by simp
qed

text \<open>An interval of 2 to the power of 62 nanoseconds or more doubles to a negative number: every heartbeat times out.\<close>

lemma huge_interval_times_out:
  assumes "cbt_HeartbeatInterval (cb_Status b) = h" and "2 ^ 62 \<le> h" and "h < 2 ^ 63"
    and "0 < cbt_LastHeartbeatTime (cb_Status b)" and "cbt_LastHeartbeatTime (cb_Status b) \<le> now"
  shows "verdict now b = ''HeartbeatTimeout''"
proof -
  have "wrap64 (h * 2) = h * 2 - 2 ^ 64"
  proof -
    have "(h * 2 + 2 ^ 63) mod 2 ^ 64 = (h * 2 + 2 ^ 63 - 2 ^ 64) mod 2 ^ 64"
      by (metis minus_mod_self2)
    also have "\<dots> = h * 2 + 2 ^ 63 - 2 ^ 64" using assms(2,3) by (intro mod_pos_pos_trivial) simp_all
    finally show ?thesis by (simp add: wrap64_def)
  qed
  moreover have "0 \<le> time_Sub now (cbt_LastHeartbeatTime (cb_Status b))"
    using assms(5) by (simp add: time_Sub_def maxDuration_def)
  ultimately show ?thesis using assms by (simp add: verdict_def Let_def)
qed

text \<open>
  The status is written with an update of the object. A server that keeps the status of an object
  with a status subresource on such an update, as Kubernetes documents it, never stores the
  conditions that the controller found: here the world is the stored object.
\<close>

definition example_server :: "ClusterBinding cluster" where
  "example_server = \<lparr>cl_Get = (\<lambda>_ _. State (\<lambda>s. (Inr s, s))),
     cl_Update = (\<lambda>x. State (\<lambda>s. (None, x\<lparr>cb_Status := cb_Status s\<rparr>))),
     cl_reconciler = example_reconciler ClusterScope\<rparr>"

lemma conditions_never_stored:
  "let run = run_state (Reconcile (\<lambda>_. State_Monad.return (Inr example_server)) (420 * Second)
        \<lparr>rq_Cluster = '''', rq_Namespace = ''p'', rq_Name = ''cluster''\<rparr>) (example_cluster_binding (300 * Second) (400 * Second))
   in fst run = None \<and> cbt_Conditions (cb_Status (snd run)) = []"
  by code_simp

end
