(* ===== verification/Backend_Service_Namespace.thy ===== *)
theory Backend_Service_Namespace
  imports Backend_Cluster_Binding
begin

text \<open>
  The APIServiceNamespace controller of the backend (\<open>backend/controllers/servicenamespace\<close>): for every
  namespace a consumer asks for it creates a namespace on the provider cluster, binds the consumer's
  service account there, and grants what the permission claims of the exports ask for.
\<close>

section \<open>Reconciler\<close>

record 'w reconciler =
  scope :: InformerScope
  getNamespace :: "string \<Rightarrow> ('w, Namespace) call"
  createNamespace :: "Namespace \<Rightarrow> ('w, err) io"
  getRoleBinding :: "string \<Rightarrow> string \<Rightarrow> ('w, RoleBinding) call"
  createRoleBinding :: "RoleBinding \<Rightarrow> ('w, err) io"
  updateRoleBinding :: "RoleBinding \<Rightarrow> ('w, err) io"
  listAPIServiceExports :: "string \<Rightarrow> ('w, APIServiceExport list) call"
  getPermissionClaimsClusterRole :: "string \<Rightarrow> ('w, Role) call"
  createClusterRole :: "Role \<Rightarrow> ('w, err) io"
  updateClusterRole :: "Role \<Rightarrow> ('w, err) io"
  getPermissionClaimsClusterRoleBinding :: "string \<Rightarrow> ('w, RoleBinding) call"
  createClusterRoleBinding :: "RoleBinding \<Rightarrow> ('w, err) io"
  updateClusterRoleBinding :: "RoleBinding \<Rightarrow> ('w, err) io"
  getPermissionClaimsRole :: "string \<Rightarrow> string \<Rightarrow> ('w, Role) call"
  createRole :: "Role \<Rightarrow> ('w, err) io"
  updateRole :: "Role \<Rightarrow> ('w, err) io"
  getPermissionClaimsRoleBinding :: "string \<Rightarrow> string \<Rightarrow> ('w, RoleBinding) call"
  createClaimsRoleBinding :: "RoleBinding \<Rightarrow> ('w, err) io"
  updateClaimsRoleBinding :: "RoleBinding \<Rightarrow> ('w, err) io"

definition default_namespace :: "string \<Rightarrow> string \<Rightarrow> string" where
  "default_namespace ns name = ns @ ''-'' @ name"

definition target_namespace :: "APIServiceNamespace \<Rightarrow> string" where
  "target_namespace sns =
     (if sn_StatusNamespace sns \<noteq> '''' then sn_StatusNamespace sns
      else default_namespace (om_Namespace (sn_Meta sns)) (om_Name (sn_Meta sns)))"

definition new_namespace :: "APIServiceNamespace \<Rightarrow> Namespace" where
  "new_namespace sns = \<lparr>nsp_Meta = zero_ObjectMeta\<lparr>om_Name := target_namespace sns,
     om_Annotations := fmupd APIServiceNamespaceAnnotationKey
       (om_Namespace (sn_Meta sns) @ ''/'' @ om_Name (sn_Meta sns)) fmempty\<rparr>\<rparr>"

text \<open>The error of the lookup is dropped.\<close>

definition ensure_namespace :: "'w reconciler \<Rightarrow> APIServiceNamespace \<Rightarrow> ('w, err) io" where
  "ensure_namespace r sns = do {
     g \<leftarrow> (if sn_StatusNamespace sns \<noteq> '''' then getNamespace r (sn_StatusNamespace sns)
           else State_Monad.return (Inl (Errorf '''' None)));
     (case g of
        Inr _ \<Rightarrow> State_Monad.return None
      | Inl _ \<Rightarrow> do {
          e \<leftarrow> createNamespace r (new_namespace sns);
          State_Monad.return
            (case e of
               Some x \<Rightarrow> if IsAlreadyExists x then None
                 else wrap_err (''failed to create namespace '' @ quoted (target_namespace sns)) e
             | None \<Rightarrow> None) }) }"

definition expected_binding :: "string \<Rightarrow> APIServiceNamespace \<Rightarrow> RoleBinding" where
  "expected_binding ns sns = \<lparr>rb_Meta = zero_ObjectMeta\<lparr>om_Name := ''kube-binder'', om_Namespace := ns\<rparr>,
     rb_Subjects = [consumer_subject (om_Namespace (sn_Meta sns))],
     rb_RoleRef = role_ref ''ClusterRole'' (''kube-binder-'' @ om_Namespace (sn_Meta sns))\<rparr>"

text \<open>Create a binding, or update its subjects and its role where they differ.\<close>

definition sync_binding :: "(RoleBinding \<Rightarrow> ('w, err) io) \<Rightarrow> (RoleBinding \<Rightarrow> ('w, err) io) \<Rightarrow> string \<Rightarrow> string \<Rightarrow>
    RoleBinding option \<Rightarrow> RoleBinding \<Rightarrow> ('w, err) io" where
  "sync_binding create update createFailed updateFailed binding expected =
     (case binding of
        None \<Rightarrow> do { e \<leftarrow> create expected; State_Monad.return (wrap_err createFailed e) }
      | Some rb \<Rightarrow>
          (if rb_Subjects rb \<noteq> rb_Subjects expected \<or> rb_RoleRef rb \<noteq> rb_RoleRef expected then do {
             e \<leftarrow> update (rb\<lparr>rb_Subjects := rb_Subjects expected, rb_RoleRef := rb_RoleRef expected\<rparr>);
             State_Monad.return (wrap_err updateFailed e) }
           else State_Monad.return None))"

definition ensureRBACRoleBinding :: "'w reconciler \<Rightarrow> string \<Rightarrow> APIServiceNamespace \<Rightarrow> ('w, err) io" where
  "ensureRBACRoleBinding r ns sns =
     (let failed = ''failed to create role binding '' @ ns @ ''/kube-binder''
      in do {
        g \<leftarrow> getRoleBinding r ns ''kube-binder'';
        (case found (''failed to get role binding '' @ ns @ ''/kube-binder'') g of
           Inl e \<Rightarrow> State_Monad.return (Some e)
         | Inr binding \<Rightarrow>
             sync_binding (createRoleBinding r) (updateRoleBinding r) failed failed binding (expected_binding ns sns)) })"

definition claims_name :: "APIServiceNamespace \<Rightarrow> APIServiceExport \<Rightarrow> string" where
  "claims_name sns export = ''kube-binder-export-'' @ om_Name (sn_Meta sns) @ ''-'' @ om_Name (ex_Meta export)"

definition claim_rules :: "APIServiceExport \<Rightarrow> PolicyRule list" where
  "claim_rules export = map (\<lambda>claim. rule (gr_Group (pc_GroupResource claim)) (gr_Resource (pc_GroupResource claim)) [''*''])
     (exs_PermissionClaims (ex_Spec export))"

definition claims_binding :: "string \<Rightarrow> string \<Rightarrow> string \<Rightarrow> string \<Rightarrow> RoleBinding" where
  "claims_binding kind ns name consumer = \<lparr>rb_Meta = zero_ObjectMeta\<lparr>om_Name := name, om_Namespace := ns\<rparr>,
     rb_Subjects = [consumer_subject consumer], rb_RoleRef = role_ref kind name\<rparr>"

text \<open>
  The two branches for cluster roles and roles differ in the requests they make, in the kind they
  name, and in that a cluster role may exist already when it is created.
\<close>

record 'w grant_ops =
  go_Kind :: string
  go_Namespace :: string
  go_mayExist :: bool
  go_getRole :: "string \<Rightarrow> ('w, Role) call"
  go_createRole :: "Role \<Rightarrow> ('w, err) io"
  go_updateRole :: "Role \<Rightarrow> ('w, err) io"
  go_getBinding :: "string \<Rightarrow> ('w, RoleBinding) call"
  go_createBinding :: "RoleBinding \<Rightarrow> ('w, err) io"
  go_updateBinding :: "RoleBinding \<Rightarrow> ('w, err) io"

definition sync_claims_role :: "'w grant_ops \<Rightarrow> Role option \<Rightarrow> Role \<Rightarrow> ('w, err) io" where
  "sync_claims_role ops role expected =
     (let name = om_Name (ro_Meta expected)
      in case role of
           None \<Rightarrow> do {
             e \<leftarrow> go_createRole ops expected;
             State_Monad.return (case e of
                Some x \<Rightarrow> if go_mayExist ops \<and> IsAlreadyExists x then None
                  else wrap_err (''failed to create '' @ go_Kind ops @ '' '' @ name) e
              | None \<Rightarrow> None) }
         | Some ro \<Rightarrow> do {
             e \<leftarrow> go_updateRole ops (ro\<lparr>ro_Rules := ro_Rules expected\<rparr>);
             State_Monad.return (wrap_err (''failed to update '' @ go_Kind ops @ '' '' @ name) e) })"

definition sync_claims_binding :: "'w grant_ops \<Rightarrow> string \<Rightarrow> string \<Rightarrow> ('w, err) io" where
  "sync_claims_binding ops name consumer = do {
     b \<leftarrow> go_getBinding ops name;
     (case found (''failed to get '' @ go_Kind ops @ ''Binding '' @ name) b of
        Inl e \<Rightarrow> State_Monad.return (Some e)
      | Inr binding \<Rightarrow> sync_binding (go_createBinding ops) (go_updateBinding ops)
          (''failed to create '' @ go_Kind ops @ ''Binding '' @ name) (''failed to update '' @ go_Kind ops @ ''Binding '' @ name)
          binding (claims_binding (go_Kind ops) (go_Namespace ops) name consumer)) }"

definition grant :: "'w grant_ops \<Rightarrow> string \<Rightarrow> PolicyRule list \<Rightarrow> string \<Rightarrow> ('w, err) io" where
  "grant ops name permissions consumer = do {
     g \<leftarrow> go_getRole ops name;
     (case found (''failed to get '' @ go_Kind ops @ '' '' @ name) g of
        Inl e \<Rightarrow> State_Monad.return (Some e)
      | Inr role \<Rightarrow> do {
          e \<leftarrow> sync_claims_role ops role
            \<lparr>ro_Meta = zero_ObjectMeta\<lparr>om_Name := name, om_Namespace := go_Namespace ops\<rparr>, ro_Rules = permissions\<rparr>;
          (case e of Some x \<Rightarrow> State_Monad.return (Some x) | None \<Rightarrow> sync_claims_binding ops name consumer) }) }"

definition cluster_ops :: "'w reconciler \<Rightarrow> 'w grant_ops" where
  "cluster_ops r = \<lparr>go_Kind = ''ClusterRole'', go_Namespace = '''', go_mayExist = True,
     go_getRole = getPermissionClaimsClusterRole r, go_createRole = createClusterRole r, go_updateRole = updateClusterRole r,
     go_getBinding = getPermissionClaimsClusterRoleBinding r, go_createBinding = createClusterRoleBinding r,
     go_updateBinding = updateClusterRoleBinding r\<rparr>"

definition namespaced_ops :: "'w reconciler \<Rightarrow> string \<Rightarrow> 'w grant_ops" where
  "namespaced_ops r ns = \<lparr>go_Kind = ''Role'', go_Namespace = ns, go_mayExist = False,
     go_getRole = getPermissionClaimsRole r ns, go_createRole = createRole r, go_updateRole = updateRole r,
     go_getBinding = getPermissionClaimsRoleBinding r ns, go_createBinding = createClaimsRoleBinding r,
     go_updateBinding = updateClaimsRoleBinding r\<rparr>"

definition ops_for :: "'w reconciler \<Rightarrow> APIServiceNamespace \<Rightarrow> 'w grant_ops" where
  "ops_for r sns = (if scope r = ClusterScope then cluster_ops r else namespaced_ops r (sn_StatusNamespace sns))"

fun grant_claims :: "'w reconciler \<Rightarrow> APIServiceNamespace \<Rightarrow> APIServiceExport list \<Rightarrow> ('w, err) io" where
  "grant_claims r sns [] = State_Monad.return None"
| "grant_claims r sns (x # xs) = do {
     e \<leftarrow> grant (ops_for r sns) (claims_name sns x) (claim_rules x) (om_Namespace (sn_Meta sns));
     (case e of Some y \<Rightarrow> State_Monad.return (Some y) | None \<Rightarrow> grant_claims r sns xs) }"

text \<open>From the listing of the exports on; the status is set before.\<close>

definition grant_exports :: "'w reconciler \<Rightarrow> APIServiceNamespace \<Rightarrow> ('w, err) io" where
  "grant_exports r sns = do {
     l \<leftarrow> listAPIServiceExports r (om_Namespace (sn_Meta sns));
     (case l of
        Inl e \<Rightarrow> State_Monad.return (Some (Errorf ''failed to list APIServiceExports'' (Some e)))
      | Inr exports \<Rightarrow> grant_claims r sns exports) }"

definition bind_namespace :: "'w reconciler \<Rightarrow> APIServiceNamespace \<Rightarrow> ('w, err) io" where
  "bind_namespace r sns =
     (if scope r = NamespacedScope then do {
        e \<leftarrow> ensureRBACRoleBinding r (target_namespace sns) sns;
        State_Monad.return (wrap_err ''failed to ensure RBAC'' e) }
      else State_Monad.return None)"

definition reconcile :: "'w reconciler \<Rightarrow> APIServiceNamespace \<Rightarrow> ('w, err \<times> APIServiceNamespace) io" where
  "reconcile r sns = do {
     e1 \<leftarrow> ensure_namespace r sns;
     (case e1 of
        Some e \<Rightarrow> State_Monad.return (Some e, sns)
      | None \<Rightarrow> do {
          e2 \<leftarrow> bind_namespace r sns;
          (case e2 of
             Some e \<Rightarrow> State_Monad.return (Some e, sns)
           | None \<Rightarrow>
               let sns' = sns\<lparr>sn_StatusNamespace := target_namespace sns\<rparr>
               in do { e3 \<leftarrow> grant_exports r sns'; State_Monad.return (e3, sns') }) }) }"

section \<open>Controller\<close>

record 'w cluster =
  cl_GetServiceNamespace :: "string \<Rightarrow> string \<Rightarrow> ('w, APIServiceNamespace) call"
  cl_GetNamespace :: "string \<Rightarrow> ('w, Namespace) call"
  cl_DeleteNamespace :: "Namespace \<Rightarrow> ('w, err) io"
  cl_UpdateStatus :: "APIServiceNamespace \<Rightarrow> ('w, err) io"
  cl_ListServiceNamespaces :: "string \<Rightarrow> ('w, APIServiceNamespace list) call"
  cl_ListByStatusNamespace :: "string \<Rightarrow> ('w, APIServiceNamespace list) call"
  cl_reconciler :: "'w reconciler"

definition deleteNamespace :: "'w cluster \<Rightarrow> string \<Rightarrow> ('w, err) io" where
  "deleteNamespace cl name = do {
     g \<leftarrow> cl_GetNamespace cl name;
     (case g of Inl e \<Rightarrow> State_Monad.return (Some e) | Inr ns \<Rightarrow> cl_DeleteNamespace cl ns) }"

definition Reconcile :: "(string \<Rightarrow> ('w, 'w cluster) call) \<Rightarrow> Request \<Rightarrow> ('w, err) io" where
  "Reconcile getCluster req = do {
     c \<leftarrow> getCluster (rq_Cluster req);
     (case c of
        Inl e \<Rightarrow> State_Monad.return (Some (Errorf (''failed to get client for cluster '' @ quoted (rq_Cluster req)) (Some e)))
      | Inr cl \<Rightarrow> do {
          g \<leftarrow> cl_GetServiceNamespace cl (rq_Namespace req) (rq_Name req);
          (case g of
             Inl e \<Rightarrow>
               (if IsNotFound e then
                  let nsName = default_namespace (rq_Namespace req) (rq_Name req)
                  in do {
                    d \<leftarrow> deleteNamespace cl nsName;
                    State_Monad.return (case d of
                        Some x \<Rightarrow> if IsNotFound x then None else wrap_err (''failed to delete namespace '' @ quoted nsName) d
                      | None \<Rightarrow> None) }
                else State_Monad.return (Some (Errorf ''failed to get APIServiceNamespace'' (Some e))))
           | Inr original \<Rightarrow> do {
               res \<leftarrow> reconcile (cl_reconciler cl) original;
               (case fst res of
                  Some e \<Rightarrow> State_Monad.return (Some e)
                | None \<Rightarrow>
                    (if sn_StatusNamespace original \<noteq> sn_StatusNamespace (snd res) then do {
                       e \<leftarrow> cl_UpdateStatus cl (snd res);
                       State_Monad.return (wrap_err ''failed to update APIServiceNamespace status'' e) }
                     else State_Monad.return None)) }) }) }"

text \<open>The three mappers list APIServiceNamespaces, by the namespace in their status or by their own.\<close>

definition requests :: "string \<Rightarrow> go_error + APIServiceNamespace list \<Rightarrow> Request list" where
  "requests clusterName l = (case l of Inl _ \<Rightarrow> []
     | Inr items \<Rightarrow> map (\<lambda>sns. \<lparr>rq_Cluster = clusterName, rq_Namespace = om_Namespace (sn_Meta sns),
         rq_Name = om_Name (sn_Meta sns)\<rparr>) items)"

definition getNamespaceMapper :: "string \<Rightarrow> 'w cluster \<Rightarrow> Namespace \<Rightarrow> ('w, Request list) io" where
  "getNamespaceMapper clusterName cl ns = do {
     l \<leftarrow> cl_ListByStatusNamespace cl (om_Name (nsp_Meta ns));
     State_Monad.return (requests clusterName l) }"

definition getClusterBindingMapper :: "string \<Rightarrow> 'w cluster \<Rightarrow> ClusterBinding \<Rightarrow> ('w, Request list) io" where
  "getClusterBindingMapper clusterName cl b = do {
     l \<leftarrow> cl_ListServiceNamespaces cl (om_Namespace (cb_Meta b));
     State_Monad.return (requests clusterName l) }"

definition getServiceExportMapper :: "string \<Rightarrow> 'w cluster \<Rightarrow> APIServiceExport \<Rightarrow> ('w, Request list) io" where
  "getServiceExportMapper clusterName cl x = do {
     l \<leftarrow> cl_ListServiceNamespaces cl (om_Namespace (ex_Meta x));
     State_Monad.return (requests clusterName l) }"

section \<open>Isolation of consumers\<close>

text \<open>
  The namespaces created for two consumers are different, whatever names the consumers choose,
  unless the namespace of one consumer followed by a dash is a prefix of that of the other.
\<close>

lemma service_namespaces_disjoint:
  assumes "default_namespace a x = default_namespace b y" and "\<not> prefix (a @ ''-'') b" and "\<not> prefix (b @ ''-'') a"
  shows "a = b \<and> x = y"
  using joined_apart [of a "CHR ''-''" x b y] assms by (simp add: default_namespace_def)

section \<open>What is written\<close>

datatype kind = NamespaceBinding | ClusterKind | RoleKind

datatype event =
    GotExports string "go_error + APIServiceExport list"
  | PutNamespace Namespace err
  | GotRole kind string string "go_error + Role"
  | PutRole kind Role err
  | GotBinding kind string string "go_error + RoleBinding"
  | PutBinding kind RoleBinding err
  | GotNamespace

definition traced :: "'w reconciler \<Rightarrow> ('w \<times> event list) reconciler" where
  "traced r = \<lparr>scope = scope r,
     getNamespace = (\<lambda>n. logged (\<lambda>_. GotNamespace) (getNamespace r n)),
     createNamespace = (\<lambda>n. logged (PutNamespace n) (createNamespace r n)),
     getRoleBinding = (\<lambda>ns n. logged (GotBinding NamespaceBinding ns n) (getRoleBinding r ns n)),
     createRoleBinding = (\<lambda>b. logged (PutBinding NamespaceBinding b) (createRoleBinding r b)),
     updateRoleBinding = (\<lambda>b. logged (PutBinding NamespaceBinding b) (updateRoleBinding r b)),
     listAPIServiceExports = (\<lambda>ns. logged (GotExports ns) (listAPIServiceExports r ns)),
     getPermissionClaimsClusterRole = (\<lambda>n. logged (GotRole ClusterKind '''' n) (getPermissionClaimsClusterRole r n)),
     createClusterRole = (\<lambda>x. logged (PutRole ClusterKind x) (createClusterRole r x)),
     updateClusterRole = (\<lambda>x. logged (PutRole ClusterKind x) (updateClusterRole r x)),
     getPermissionClaimsClusterRoleBinding = (\<lambda>n. logged (GotBinding ClusterKind '''' n) (getPermissionClaimsClusterRoleBinding r n)),
     createClusterRoleBinding = (\<lambda>b. logged (PutBinding ClusterKind b) (createClusterRoleBinding r b)),
     updateClusterRoleBinding = (\<lambda>b. logged (PutBinding ClusterKind b) (updateClusterRoleBinding r b)),
     getPermissionClaimsRole = (\<lambda>ns n. logged (GotRole RoleKind ns n) (getPermissionClaimsRole r ns n)),
     createRole = (\<lambda>x. logged (PutRole RoleKind x) (createRole r x)),
     updateRole = (\<lambda>x. logged (PutRole RoleKind x) (updateRole r x)),
     getPermissionClaimsRoleBinding = (\<lambda>ns n. logged (GotBinding RoleKind ns n) (getPermissionClaimsRoleBinding r ns n)),
     createClaimsRoleBinding = (\<lambda>b. logged (PutBinding RoleKind b) (createClaimsRoleBinding r b)),
     updateClaimsRoleBinding = (\<lambda>b. logged (PutBinding RoleKind b) (updateClaimsRoleBinding r b))\<rparr>"

text \<open>
  The object written has the given namespace and name, or is an object that was read under them.
\<close>

definition role_at :: "event list \<Rightarrow> kind \<Rightarrow> string \<Rightarrow> string \<Rightarrow> Role \<Rightarrow> bool" where
  "role_at h k ns name x \<longleftrightarrow> om_Namespace (ro_Meta x) = ns \<and> om_Name (ro_Meta x) = name \<or>
     (\<exists>y. GotRole k ns name (Inr y) \<in> set h \<and> ro_Meta x = ro_Meta y)"

definition binding_at :: "event list \<Rightarrow> kind \<Rightarrow> string \<Rightarrow> string \<Rightarrow> RoleBinding \<Rightarrow> bool" where
  "binding_at h k ns name x \<longleftrightarrow> om_Namespace (rb_Meta x) = ns \<and> om_Name (rb_Meta x) = name \<or>
     (\<exists>y. GotBinding k ns name (Inr y) \<in> set h \<and> rb_Meta x = rb_Meta y)"

text \<open>Where the grants for the claims of an export go: cluster-wide, or to the service namespace.\<close>

definition grant_kind :: "InformerScope \<Rightarrow> kind" where
  "grant_kind sc = (if sc = ClusterScope then ClusterKind else RoleKind)"

definition grant_namespace :: "InformerScope \<Rightarrow> APIServiceNamespace \<Rightarrow> string" where
  "grant_namespace sc sns = (if sc = ClusterScope then '''' else target_namespace sns)"

definition grant_ref :: "InformerScope \<Rightarrow> string \<Rightarrow> RoleRef" where
  "grant_ref sc name = role_ref (if sc = ClusterScope then ''ClusterRole'' else ''Role'') name"

definition listed :: "APIServiceNamespace \<Rightarrow> event list \<Rightarrow> APIServiceExport \<Rightarrow> bool" where
  "listed sns h x \<longleftrightarrow> (\<exists>xs. GotExports (om_Namespace (sn_Meta sns)) (Inr xs) \<in> set h \<and> x \<in> set xs)"

fun policy :: "InformerScope \<Rightarrow> APIServiceNamespace \<Rightarrow> event list \<Rightarrow> event \<Rightarrow> bool" where
  "policy sc sns h (PutNamespace n _) = (n = new_namespace sns)"
| "policy sc sns h (PutRole k x _) =
     (k = grant_kind sc \<and> (\<exists>e. listed sns h e \<and> role_at h k (grant_namespace sc sns) (claims_name sns e) x \<and> ro_Rules x = claim_rules e))"
| "policy sc sns h (PutBinding k x _) =
     (rb_Subjects x = [consumer_subject (om_Namespace (sn_Meta sns))] \<and>
      (if k = NamespaceBinding
       then sc = NamespacedScope \<and> binding_at h k (target_namespace sns) ''kube-binder'' x \<and>
         rb_RoleRef x = role_ref ''ClusterRole'' (binder_name (om_Namespace (sn_Meta sns)))
       else k = grant_kind sc \<and> (\<exists>e. listed sns h e \<and> binding_at h k (grant_namespace sc sns) (claims_name sns e) x \<and>
         rb_RoleRef x = grant_ref sc (claims_name sns e))))"
| "policy sc sns h _ = True"

text \<open>
  The grant for an export is in place: the role was written with the rules of its claims (or lost a race with
  another writer), and the binding of the consumer to it was found or written.
\<close>

definition granted :: "InformerScope \<Rightarrow> APIServiceNamespace \<Rightarrow> event list \<Rightarrow> APIServiceExport \<Rightarrow> bool" where
  "granted sc sns tr x \<longleftrightarrow>
     (\<exists>ro e. PutRole (grant_kind sc) ro e \<in> set tr \<and> ro_Rules ro = claim_rules x \<and>
        (e = None \<or> sc = ClusterScope \<and> (\<exists>y. e = Some y \<and> IsAlreadyExists y))) \<and>
     (\<exists>rb. (GotBinding (grant_kind sc) (grant_namespace sc sns) (claims_name sns x) (Inr rb) \<in> set tr \<or>
            PutBinding (grant_kind sc) rb None \<in> set tr) \<and>
        rb_Subjects rb = [consumer_subject (om_Namespace (sn_Meta sns))] \<and> rb_RoleRef rb = grant_ref sc (claims_name sns x))"

lemma claims_granted_mono: "granted sc sns tr x \<Longrightarrow> set tr \<subseteq> set tr' \<Longrightarrow> granted sc sns tr' x"
  unfolding granted_def by blast

abbreviation obeys :: "InformerScope \<Rightarrow> APIServiceNamespace \<Rightarrow> event list \<Rightarrow> bool" where
  "obeys sc sns \<equiv> guarded (policy sc sns) []"

lemma sync_binding_ok:
  assumes "obeys sc sns tr" and "\<And>y. binding = Some y \<Longrightarrow> GotBinding k ns name (Inr y) \<in> set tr"
    and "om_Namespace (rb_Meta expected) = ns" "om_Name (rb_Meta expected) = name"
    and "\<And>x e. binding_at tr k ns name x \<Longrightarrow> rb_Subjects x = rb_Subjects expected \<Longrightarrow> rb_RoleRef x = rb_RoleRef expected \<Longrightarrow>
      policy sc sns tr (PutBinding k x e)"
  shows "wp (sync_binding (\<lambda>b. logged (PutBinding k b) (c b)) (\<lambda>b. logged (PutBinding k b) (u b)) m1 m2 binding expected)
    (\<lambda>e (_, tr'). obeys sc sns tr' \<and> set tr \<subseteq> set tr' \<and> (e = None \<longrightarrow>
       (\<exists>rb. (GotBinding k ns name (Inr rb) \<in> set tr' \<or> PutBinding k rb None \<in> set tr') \<and>
          rb_Subjects rb = rb_Subjects expected \<and> rb_RoleRef rb = rb_RoleRef expected))) (w, tr)"
proof -
  have put: "policy sc sns tr (PutBinding k expected e)" for e by (rule assms(5)) (simp_all add: binding_at_def assms(3,4))
  have upd: "policy sc sns tr (PutBinding k (y\<lparr>rb_Subjects := rb_Subjects expected, rb_RoleRef := rb_RoleRef expected\<rparr>) e)"
    if "binding = Some y" for y e
    by (rule assms(5)) (use assms(2) [OF that] in \<open>auto simp: binding_at_def\<close>)
  show ?thesis unfolding sync_binding_def
    by (intro wp_option wp_bind wp_logged wp_if wp_return)
      (use assms(1,2) put upd in \<open>auto simp del: policy.simps\<close>)
qed

lemma claims_traced_simps:
  "scope (traced r) = scope r"
  "getNamespace (traced r) n = logged (\<lambda>_. GotNamespace) (getNamespace r n)"
  "createNamespace (traced r) x = logged (PutNamespace x) (createNamespace r x)"
  "getRoleBinding (traced r) ns n = logged (GotBinding NamespaceBinding ns n) (getRoleBinding r ns n)"
  "createRoleBinding (traced r) = (\<lambda>b. logged (PutBinding NamespaceBinding b) (createRoleBinding r b))"
  "updateRoleBinding (traced r) = (\<lambda>b. logged (PutBinding NamespaceBinding b) (updateRoleBinding r b))"
  "listAPIServiceExports (traced r) ns = logged (GotExports ns) (listAPIServiceExports r ns)"
  "getPermissionClaimsClusterRole (traced r) n = logged (GotRole ClusterKind '''' n) (getPermissionClaimsClusterRole r n)"
  "createClusterRole (traced r) x1 = logged (PutRole ClusterKind x1) (createClusterRole r x1)"
  "updateClusterRole (traced r) x1 = logged (PutRole ClusterKind x1) (updateClusterRole r x1)"
  "getPermissionClaimsClusterRoleBinding (traced r) n = logged (GotBinding ClusterKind '''' n) (getPermissionClaimsClusterRoleBinding r n)"
  "createClusterRoleBinding (traced r) = (\<lambda>b. logged (PutBinding ClusterKind b) (createClusterRoleBinding r b))"
  "updateClusterRoleBinding (traced r) = (\<lambda>b. logged (PutBinding ClusterKind b) (updateClusterRoleBinding r b))"
  "getPermissionClaimsRole (traced r) ns n = logged (GotRole RoleKind ns n) (getPermissionClaimsRole r ns n)"
  "createRole (traced r) x1 = logged (PutRole RoleKind x1) (createRole r x1)"
  "updateRole (traced r) x1 = logged (PutRole RoleKind x1) (updateRole r x1)"
  "getPermissionClaimsRoleBinding (traced r) ns n = logged (GotBinding RoleKind ns n) (getPermissionClaimsRoleBinding r ns n)"
  "createClaimsRoleBinding (traced r) = (\<lambda>b. logged (PutBinding RoleKind b) (createClaimsRoleBinding r b))"
  "updateClaimsRoleBinding (traced r) = (\<lambda>b. logged (PutBinding RoleKind b) (updateClaimsRoleBinding r b))"
  by (simp_all add: traced_def)

text \<open>The service namespace with its status set.\<close>

definition settled_sns :: "APIServiceNamespace \<Rightarrow> APIServiceNamespace" where
  "settled_sns sns = sns\<lparr>sn_StatusNamespace := target_namespace sns\<rparr>"

lemma settled_sns_simps [simp]:
  "sn_Meta (settled_sns sns) = sn_Meta sns" "sn_StatusNamespace (settled_sns sns) = target_namespace sns"
  "claims_name (settled_sns sns) x = claims_name sns x"
  by (simp_all add: settled_sns_def claims_name_def)

text \<open>The role for the claims of an export has been written.\<close>

definition role_granted :: "InformerScope \<Rightarrow> event list \<Rightarrow> APIServiceExport \<Rightarrow> bool" where
  "role_granted sc tr x \<longleftrightarrow> (\<exists>ro e. PutRole (grant_kind sc) ro e \<in> set tr \<and> ro_Rules ro = claim_rules x \<and>
     (e = None \<or> sc = ClusterScope \<and> (\<exists>y. e = Some y \<and> IsAlreadyExists y)))"

lemma role_grantedI:
  "PutRole (grant_kind sc) ro e \<in> set tr \<Longrightarrow> ro_Rules ro = claim_rules x \<Longrightarrow>
   e = None \<or> sc = ClusterScope \<and> (\<exists>y. e = Some y \<and> IsAlreadyExists y) \<Longrightarrow> role_granted sc tr x"
  unfolding role_granted_def by blast

text \<open>The requests for grants record what they do, at the place for the scope.\<close>

definition grant_traced :: "InformerScope \<Rightarrow> APIServiceNamespace \<Rightarrow> ('w \<times> event list) grant_ops \<Rightarrow> bool" where
  "grant_traced sc sns ops \<longleftrightarrow> (\<exists>g c u gb cb ub.
     go_getRole ops = (\<lambda>n. logged (GotRole (grant_kind sc) (grant_namespace sc sns) n) (g n)) \<and>
     go_createRole ops = (\<lambda>x. logged (PutRole (grant_kind sc) x) (c x)) \<and>
     go_updateRole ops = (\<lambda>x. logged (PutRole (grant_kind sc) x) (u x)) \<and>
     go_getBinding ops = (\<lambda>n. logged (GotBinding (grant_kind sc) (grant_namespace sc sns) n) (gb n)) \<and>
     go_createBinding ops = (\<lambda>x. logged (PutBinding (grant_kind sc) x) (cb x)) \<and>
     go_updateBinding ops = (\<lambda>x. logged (PutBinding (grant_kind sc) x) (ub x))) \<and>
     go_Namespace ops = grant_namespace sc sns \<and> (go_mayExist ops \<longrightarrow> sc = ClusterScope) \<and>
     go_Kind ops = (if sc = ClusterScope then ''ClusterRole'' else ''Role'')"

lemma ops_for_traced: "grant_traced (scope r) sns (ops_for (traced r) (settled_sns sns))"
  by (simp add: grant_traced_def ops_for_def cluster_ops_def namespaced_ops_def claims_traced_simps grant_kind_def
      grant_namespace_def traced_def fun_eq_iff) blast

lemma sync_claims_role_ok:
  assumes "grant_traced sc sns ops" and "obeys sc sns tr" and "listed sns tr x" and "found m g = Inr role"
    and "GotRole (grant_kind sc) (grant_namespace sc sns) (claims_name sns x) g \<in> set tr"
    and "om_Namespace (ro_Meta expected) = grant_namespace sc sns" "om_Name (ro_Meta expected) = claims_name sns x"
      "ro_Rules expected = claim_rules x"
  shows "wp (sync_claims_role ops role expected) (\<lambda>e (_, tr'). obeys sc sns tr' \<and> set tr \<subseteq> set tr' \<and>
    (e = None \<longrightarrow> role_granted sc tr' x)) (w, tr)"
proof -
  obtain c u where ops: "go_createRole ops = (\<lambda>x. logged (PutRole (grant_kind sc) x) (c x))"
    "go_updateRole ops = (\<lambda>x. logged (PutRole (grant_kind sc) x) (u x))" "go_mayExist ops \<Longrightarrow> sc = ClusterScope"
    using assms(1) unfolding grant_traced_def by blast
  have put: "policy sc sns tr (PutRole (grant_kind sc) y e)"
    if "role_at tr (grant_kind sc) (grant_namespace sc sns) (claims_name sns x) y" "ro_Rules y = claim_rules x" for y e
    using that assms(3) by auto
  have put1: "policy sc sns tr (PutRole (grant_kind sc) expected e)" for e
    by (rule put) (simp_all add: role_at_def assms(6-8))
  have put2: "policy sc sns tr (PutRole (grant_kind sc) (y\<lparr>ro_Rules := claim_rules x\<rparr>) e)" if "role = Some y" for y e
    by (rule put) (use assms(4,5) that in \<open>auto simp: role_at_def found_cases\<close>)
  show ?thesis unfolding sync_claims_role_def Let_def ops(1,2)
    by (intro wp_option wp_bind wp_logged wp_return)
      (use assms(2,8) ops(3) put1 put2 in \<open>auto simp del: policy.simps intro: role_grantedI split: option.splits if_splits\<close>)
qed

lemma sync_claims_binding_ok:
  assumes "grant_traced sc sns ops" and "obeys sc sns tr" and "listed sns tr x" and "role_granted sc tr x"
  shows "wp (sync_claims_binding ops (claims_name sns x) (om_Namespace (sn_Meta sns)))
    (\<lambda>e (_, tr'). obeys sc sns tr' \<and> set tr \<subseteq> set tr' \<and> (e = None \<longrightarrow> granted sc sns tr' x)) (w, tr)"
proof -
  obtain gb cb ub where ops: "go_getBinding ops = (\<lambda>n. logged (GotBinding (grant_kind sc) (grant_namespace sc sns) n) (gb n))"
    "go_createBinding ops = (\<lambda>x. logged (PutBinding (grant_kind sc) x) (cb x))"
    "go_updateBinding ops = (\<lambda>x. logged (PutBinding (grant_kind sc) x) (ub x))"
    using assms(1) unfolding grant_traced_def by blast
  let ?name = "claims_name sns x" and ?k = "grant_kind sc" and ?ns = "grant_namespace sc sns"
  let ?expected = "claims_binding (go_Kind ops) (go_Namespace ops) ?name (om_Namespace (sn_Meta sns))"
  have k: "?k \<noteq> NamespaceBinding" by (simp add: grant_kind_def)
  have expected: "om_Namespace (rb_Meta ?expected) = ?ns" "om_Name (rb_Meta ?expected) = ?name"
    "rb_Subjects ?expected = [consumer_subject (om_Namespace (sn_Meta sns))]" "rb_RoleRef ?expected = grant_ref sc ?name"
    using assms(1) by (simp_all add: grant_traced_def claims_binding_def grant_ref_def)
  have sync: "wp (sync_binding (\<lambda>b. logged (PutBinding ?k b) (cb b)) (\<lambda>b. logged (PutBinding ?k b) (ub b)) m1 m2 binding ?expected)
      (\<lambda>e (_, tr'). obeys sc sns tr' \<and> set tr \<subseteq> set tr' \<and> (e = None \<longrightarrow> granted sc sns tr' x))
      (w', tr @ [GotBinding ?k ?ns ?name b])"
    if "found m b = Inr binding" for m b m1 m2 binding w'
  proof (rule wp_weaken [OF sync_binding_ok [of sc sns _ binding ?k ?ns ?name ?expected]])
    have "listed sns (tr @ [GotBinding ?k ?ns ?name b]) x" using assms(3) unfolding listed_def by auto
    then show "policy sc sns (tr @ [GotBinding ?k ?ns ?name b]) (PutBinding ?k y e)"
      if "binding_at (tr @ [GotBinding ?k ?ns ?name b]) ?k ?ns ?name y"
        "rb_Subjects y = rb_Subjects ?expected" "rb_RoleRef y = rb_RoleRef ?expected" for y e
      using that k unfolding expected by auto
    show "case s' of (_, tr') \<Rightarrow> obeys sc sns tr' \<and> set tr \<subseteq> set tr' \<and> (e = None \<longrightarrow> granted sc sns tr' x)"
      if "case s' of (_, tr') \<Rightarrow> obeys sc sns tr' \<and> set (tr @ [GotBinding ?k ?ns ?name b]) \<subseteq> set tr' \<and> (e = None \<longrightarrow>
         (\<exists>rb. (GotBinding ?k ?ns ?name (Inr rb) \<in> set tr' \<or> PutBinding ?k rb None \<in> set tr') \<and>
          rb_Subjects rb = rb_Subjects ?expected \<and> rb_RoleRef rb = rb_RoleRef ?expected))" for e s'
      using that assms(4) unfolding expected granted_def role_granted_def by (cases s') (simp, blast)
  qed (use that assms(2) expected in \<open>auto simp: found_cases\<close>)
  show ?thesis unfolding sync_claims_binding_def ops
    by (intro wp_bind wp_logged wp_sum wp_return sync) (use assms(2) in auto)
qed

lemma grant_ok:
  assumes "grant_traced sc sns ops" and "obeys sc sns tr" and "listed sns tr x"
  shows "wp (grant ops (claims_name sns x) (claim_rules x) (om_Namespace (sn_Meta sns)))
    (\<lambda>e (_, tr'). obeys sc sns tr' \<and> set tr \<subseteq> set tr' \<and> (e = None \<longrightarrow> granted sc sns tr' x)) (w, tr)"
proof -
  obtain gr where get: "go_getRole ops = (\<lambda>n. logged (GotRole (grant_kind sc) (grant_namespace sc sns) n) (gr n))"
    and ns: "go_Namespace ops = grant_namespace sc sns"
    using assms(1) unfolding grant_traced_def by blast
  have listed: "listed sns tr' x" if "set tr \<subseteq> set tr'" for tr' using assms(3) that unfolding listed_def by blast
  show ?thesis unfolding grant_def get
  proof (intro wp_bind [OF wp_logged] wp_sum, goal_cases)
    case (1 g w1 e)
    then show ?case using assms(2) by (auto intro: wp_return)
  next
    case (2 g w1 role)
    show ?case
    proof (rule wp_chain [OF sync_claims_role_ok [where x = x, OF assms(1) _ _ 2(2)]], goal_cases)
      case (7 e s')
      then show ?case
        by (cases s'; cases e) (auto intro!: wp_return wp_weaken [OF sync_claims_binding_ok [OF assms(1)]] listed)
    qed (use assms(2,3) listed ns in \<open>auto simp: listed_def\<close>)
  qed
qed

lemma grant_claims_ok:
  assumes "obeys (scope r) sns tr" and "\<And>x. x \<in> set xs \<Longrightarrow> listed sns tr x"
  shows "wp (grant_claims (traced r) (settled_sns sns) xs) (\<lambda>e (_, tr'). obeys (scope r) sns tr' \<and> set tr \<subseteq> set tr' \<and>
    (e = None \<longrightarrow> (\<forall>x \<in> set xs. granted (scope r) sns tr' x))) (w, tr)"
  using assms
proof (induction xs arbitrary: tr w)
  case Nil
  then show ?case by (auto intro: wp_return)
next
  case (Cons x xs)
  show ?case unfolding grant_claims.simps settled_sns_simps
  proof (rule wp_chain [OF grant_ok [where x = x, OF ops_for_traced Cons.prems(1)]], goal_cases)
    case 1
    show ?case using Cons.prems(2) by simp
  next
    case (2 e s')
    obtain w1 tr1 where s': "s' = (w1, tr1)" by (cases s')
    show ?case
    proof (cases e)
      case None
      have "obeys (scope r) sns tr1" and "listed sns tr1 y" if "y \<in> set xs" for y
        using 2 Cons.prems(2) [of y] that by (auto simp: s' listed_def)
      with 2 show ?thesis unfolding s' None
        by (auto intro!: wp_weaken [OF Cons.IH] intro: claims_granted_mono simp: listed_def)
    next
      case (Some y)
      with 2 show ?thesis by (auto simp: s' intro: wp_return)
    qed
  qed
qed

lemma grant_exports_ok:
  assumes "obeys (scope r) sns tr"
  shows "wp (grant_exports (traced r) (settled_sns sns)) (\<lambda>e (_, tr'). obeys (scope r) sns tr' \<and>
    (e = None \<longrightarrow> (\<exists>xs. GotExports (om_Namespace (sn_Meta sns)) (Inr xs) \<in> set tr' \<and>
       (\<forall>x \<in> set xs. granted (scope r) sns tr' x)))) (w, tr)"
  unfolding grant_exports_def claims_traced_simps settled_sns_simps
proof (intro wp_bind wp_logged wp_sum, goal_cases)
  case (1 l w1 e)
  then show ?case using assms by (auto intro: wp_return)
next
  case (2 l w1 xs)
  show ?case
    by (rule wp_weaken [OF grant_claims_ok]) (use assms 2 in \<open>auto simp: listed_def\<close>)
qed

lemma ensure_namespace_ok:
  assumes "obeys sc sns tr"
  shows "wp (ensure_namespace (traced r) sns) (\<lambda>_ (_, tr'). obeys sc sns tr') (w, tr)"
  unfolding ensure_namespace_def claims_traced_simps
  by (intro wp_bind wp_if wp_logged wp_return wp_sum) (use assms in \<open>auto simp: guarded_append\<close>)

lemma bind_namespace_ok:
  assumes "obeys (scope r) sns tr"
  shows "wp (bind_namespace (traced r) sns) (\<lambda>_ (_, tr'). obeys (scope r) sns tr') (w, tr)"
proof (cases "scope r = NamespacedScope")
  case True
  let ?ns = "target_namespace sns"
  have sync: "wp (sync_binding (\<lambda>b. logged (PutBinding NamespaceBinding b) (createRoleBinding r b))
      (\<lambda>b. logged (PutBinding NamespaceBinding b) (updateRoleBinding r b)) m1 m2 binding (expected_binding ?ns sns))
      (\<lambda>_ (_, tr'). obeys (scope r) sns tr') (w', tr @ [GotBinding NamespaceBinding ?ns ''kube-binder'' g])"
    if "found m g = Inr binding" for m g m1 m2 binding w'
    by (rule wp_weaken [OF sync_binding_ok [where ns = ?ns and name = "''kube-binder''"]])
      (use that assms True in \<open>auto simp: found_cases expected_binding_def binder_name_def\<close>)
  have "wp (ensureRBACRoleBinding (traced r) ?ns sns) (\<lambda>_ (_, tr'). obeys (scope r) sns tr') (w, tr)"
    unfolding ensureRBACRoleBinding_def Let_def claims_traced_simps
    by (intro wp_bind wp_logged wp_sum wp_return sync) (use assms in auto)
  then have "wp (do { e \<leftarrow> ensureRBACRoleBinding (traced r) ?ns sns; State_Monad.return (wrap_err ''failed to ensure RBAC'' e) })
      (\<lambda>_ (_, tr'). obeys (scope r) sns tr') (w, tr)"
    by (rule wp_chain) (auto intro: wp_return)
  with True show ?thesis by (simp add: bind_namespace_def claims_traced_simps)
next
  case False
  with assms show ?thesis by (auto simp: bind_namespace_def claims_traced_simps intro: wp_return)
qed


section \<open>Concrete runs\<close>

text \<open>
  A provider that stores cluster role bindings and namespaces by name; every consumer has an export
  named \<open>x\<close> with a claim for secrets.
\<close>

record store =
  st_bindings :: "(string \<times> RoleBinding) list"
  st_namespaces :: "(string \<times> Namespace) list"

definition example_claim :: PermissionClaim where
  "example_claim = \<lparr>pc_GroupResource = \<lparr>gr_Group = '''', gr_Resource = ''secrets''\<rparr>, 
     pc_Selector = \<lparr>sel_NamedResources = [], sel_LabelSelector = None\<rparr>\<rparr>"

definition claiming_export :: "string \<Rightarrow> APIServiceExport" where
  "claiming_export ns = \<lparr>ex_Kind = ''APIServiceExport'', ex_Meta = zero_ObjectMeta\<lparr>om_Name := ''x'', om_Namespace := ns\<rparr>,
     ex_Spec = \<lparr>exs_Resources = [], exs_PermissionClaims = [example_claim], exs_InformerScope = ClusterScope,
       exs_ClusterScopedIsolation = IsolationPrefixed\<rparr>,
     ex_Conditions = []\<rparr>"

definition not_found :: "string \<Rightarrow> go_error + 'a" where
  "not_found n = Inl (StatusError ReasonNotFound n)"

definition put_binding :: "RoleBinding \<Rightarrow> (store, err) io" where
  "put_binding b = State (\<lambda>s. (None, s\<lparr>st_bindings := (om_Name (rb_Meta b), b) # st_bindings s\<rparr>))"

definition store_reconciler :: "InformerScope \<Rightarrow> store reconciler" where
  "store_reconciler sc = \<lparr>scope = sc,
     getNamespace = (\<lambda>n. State (\<lambda>s. (case map_of (st_namespaces s) n of None \<Rightarrow> not_found n | Some x \<Rightarrow> Inr x, s))),
     createNamespace = (\<lambda>x. State (\<lambda>s. let n = om_Name (nsp_Meta x) in case map_of (st_namespaces s) n of
        None \<Rightarrow> (None, s\<lparr>st_namespaces := (n, x) # st_namespaces s\<rparr>)
      | Some _ \<Rightarrow> (Some (StatusError ReasonAlreadyExists n), s))),
     getRoleBinding = (\<lambda>_ n. State_Monad.return (not_found n)),
     createRoleBinding = (\<lambda>_. State_Monad.return None), updateRoleBinding = (\<lambda>_. State_Monad.return None),
     listAPIServiceExports = (\<lambda>ns. State_Monad.return (Inr [claiming_export ns])),
     getPermissionClaimsClusterRole = (\<lambda>n. State_Monad.return (not_found n)),
     createClusterRole = (\<lambda>_. State_Monad.return None), updateClusterRole = (\<lambda>_. State_Monad.return None),
     getPermissionClaimsClusterRoleBinding = (\<lambda>n. State (\<lambda>s. (case map_of (st_bindings s) n of None \<Rightarrow> not_found n | Some x \<Rightarrow> Inr x, s))),
     createClusterRoleBinding = put_binding, updateClusterRoleBinding = put_binding,
     getPermissionClaimsRole = (\<lambda>_ n. State_Monad.return (not_found n)),
     createRole = (\<lambda>_. State_Monad.return None), updateRole = (\<lambda>_. State_Monad.return None),
     getPermissionClaimsRoleBinding = (\<lambda>_ n. State_Monad.return (not_found n)),
     createClaimsRoleBinding = (\<lambda>_. State_Monad.return None), updateClaimsRoleBinding = (\<lambda>_. State_Monad.return None)\<rparr>"

definition example_sns :: "string \<Rightarrow> string \<Rightarrow> APIServiceNamespace" where
  "example_sns ns name = \<lparr>sn_Meta = zero_ObjectMeta\<lparr>om_Name := name, om_Namespace := ns\<rparr>, sn_StatusNamespace = ''''\<rparr>"

definition example_run :: "InformerScope \<Rightarrow> (err \<times> APIServiceNamespace) \<times> (store \<times> event list)" where
  "example_run sc = run_state (reconcile (traced (store_reconciler sc)) (example_sns ''a'' ''default''))
     (\<lparr>st_bindings = [], st_namespaces = []\<rparr>, [])"


section \<open>Deviations\<close>

text \<open>Reconcile the namespaces of the given consumers, one after the other, in the cluster scope.\<close>

fun reconcile_all :: "APIServiceNamespace list \<Rightarrow> store \<Rightarrow> store" where
  "reconcile_all [] s = s"
| "reconcile_all (x # xs) s = reconcile_all xs (snd (run_state (reconcile (store_reconciler ClusterScope) x) s))"

text \<open>
  The names of the cluster-wide grants do not contain the namespace of the consumer. Two consumers \<open>a\<close> and
  \<open>b\<close> with a namespace and an export of the same names share one binding, and the one reconciled last takes it over.
\<close>

lemma cluster_grants_collide:
  "map (\<lambda>(n, b). (n, map sj_Namespace (rb_Subjects b)))
     (st_bindings (reconcile_all [example_sns ''a'' ''default'', example_sns ''b'' ''default''] \<lparr>st_bindings = [], st_namespaces = []\<rparr>))
   = [(''kube-binder-export-default-x'', [''b'']), (''kube-binder-export-default-x'', [''a''])]"
  by code_simp

text \<open>
  A namespace that exists is taken as it is: two consumers may end up in one namespace, with the
  annotation of the first.
\<close>

lemma namespaces_collide:
  "map fst (st_namespaces (reconcile_all [example_sns ''a'' ''b-c'', example_sns ''a-b'' ''c''] \<lparr>st_bindings = [], st_namespaces = []\<rparr>))
     = [''a-b-c''] \<and> target_namespace (example_sns ''a'' ''b-c'') = target_namespace (example_sns ''a-b'' ''c'')"
  by code_simp

end
