(* ===== verification/Backend_Export_Request.thy ===== *)
theory Backend_Export_Request
  imports Bound_Schema Backend_Service_Namespace
begin

text \<open>
  The APIServiceExportRequest controller of the backend (\<open>backend/controllers/serviceexportrequest\<close>):
  it copies the requested schemas to the consumer's namespace, validates the request, and creates
  the APIServiceExport and the APIServiceNamespaces. The conversion of the listed objects, JSON
  encoding and hashing are parameters.
\<close>

section \<open>Reconciler\<close>

record ('w, 'u) reconciler =
  informerScope :: InformerScope
  clusterScopedIsolation :: Isolation
  schemaSource :: string
  listExported :: "string \<Rightarrow> string \<Rightarrow> string \<Rightarrow> ('w, 'u list) call"
  toBoundSchema :: "'u \<Rightarrow> go_error + BoundSchema"
  encodeSchema :: "BoundSchema \<Rightarrow> go_error + string"
  sha256_hex :: "string \<Rightarrow> string"
  getBoundSchema :: "string \<Rightarrow> string \<Rightarrow> ('w, BoundSchema) call"
  createBoundSchema :: "BoundSchema \<Rightarrow> ('w, err) io"
  getServiceExport :: "string \<Rightarrow> string \<Rightarrow> ('w, APIServiceExport) call"
  createServiceExport :: "APIServiceExport \<Rightarrow> ('w, err) io"
  deleteServiceExportRequest :: "string \<Rightarrow> string \<Rightarrow> ('w, err) io"
  clientGetServiceExport :: "string \<Rightarrow> string \<Rightarrow> ('w, APIServiceExport) call"
  getServiceNamespace :: "string \<Rightarrow> string \<Rightarrow> ('w, APIServiceNamespace) call"
  createServiceNamespace :: "APIServiceNamespace \<Rightarrow> ('w, err) io"

text \<open>The map of exported schemas by name, in some order; a later object replaces an earlier one.\<close>

fun exported_map :: "('u \<Rightarrow> go_error + BoundSchema) \<Rightarrow> 'u list \<Rightarrow> (string \<times> BoundSchema) list \<Rightarrow> go_error + (string \<times> BoundSchema) list" where
  "exported_map conv [] m = Inr m"
| "exported_map conv (u # us) m =
     (case conv u of
        Inl e \<Rightarrow> Inl e
      | Inr s \<Rightarrow> exported_map conv us
          ((BoundSchema_ResourceGroupName s, s) # remove_key (BoundSchema_ResourceGroupName s) m))"

definition list_kind :: "string \<Rightarrow> string" where
  "list_kind kind = (if HasSuffix kind ''List'' then kind else kind @ ''List'')"

definition getExportedSchemas :: "('w, 'u) reconciler \<Rightarrow> ('w, (string \<times> BoundSchema) list) call" where
  "getExportedSchemas r =
     (case SplitN 3 (CHR ''.'') (schemaSource r) of
        [kind, version, group'] \<Rightarrow> do {
          l \<leftarrow> listExported r (list_kind kind) version group';
          State_Monad.return (case l of Inl e \<Rightarrow> Inl e | Inr items \<Rightarrow> exported_map (toBoundSchema r) items []) }
      | _ \<Rightarrow> State_Monad.return (Inl (Errorf (''malformed schema source: '' @ quoted (schemaSource r)) None)))"

definition matches :: "APIServiceExportRequestResource \<Rightarrow> BoundSchema \<Rightarrow> bool" where
  "matches res s \<longleftrightarrow> bss_Group (bs_Spec s) = gr_Group (rr_GroupResource res) \<and>
     crn_Plural (bss_Names (bs_Spec s)) = gr_Resource (rr_GroupResource res)"

definition bound_copy :: "('w, 'u) reconciler \<Rightarrow> string \<Rightarrow> APIServiceExportRequestResource \<Rightarrow> BoundSchema \<Rightarrow> BoundSchema" where
  "bound_copy r ns res s = s\<lparr>
     bs_Meta := (bs_Meta s)\<lparr>om_Name := ResourceGroupName res, om_Namespace := ns, om_ResourceVersion := ''''\<rparr>,
     bs_Spec := (bs_Spec s)\<lparr>bss_InformerScope := informerScope r\<rparr>\<rparr>"

definition ensure_schema :: "('w, 'u) reconciler \<Rightarrow> string \<Rightarrow> APIServiceExportRequestResource \<Rightarrow> BoundSchema \<Rightarrow> ('w, err) io" where
  "ensure_schema r ns res s =
     (let boundSchema = bound_copy r ns res s
      in do {
        g \<leftarrow> getBoundSchema r ns (ResourceGroupName res);
        (case g of
           Inl e \<Rightarrow>
             (if \<not> IsNotFound e \<and> \<not> Contains (Error e) ''no matches for kind'' then State_Monad.return (Some e)
              else createBoundSchema r boundSchema)
         | Inr _ \<Rightarrow> State_Monad.return None) })"

text \<open>Run a step for each element until one fails.\<close>

fun for_each_err :: "('a \<Rightarrow> ('w, err) io) \<Rightarrow> 'a list \<Rightarrow> ('w, err) io" where
  "for_each_err f [] = State_Monad.return None"
| "for_each_err f (x # xs) = do {
     e \<leftarrow> f x;
     (case e of Some y \<Rightarrow> State_Monad.return (Some y) | None \<Rightarrow> for_each_err f xs) }"

text \<open>
  The assignments to a schema of the map are not visible to other resources: they do not change what
  \<open>matches\<close> reads, and are made again before each use.
\<close>

definition ensureBoundSchemas :: "('w, 'u) reconciler \<Rightarrow> APIServiceExportRequest \<Rightarrow> ('w, err) io" where
  "ensureBoundSchemas r req = do {
     m \<leftarrow> getExportedSchemas r;
     (case m of
        Inl e \<Rightarrow> State_Monad.return (Some e)
      | Inr exportedSchemas \<Rightarrow>
          for_each_err (\<lambda>res.
            if rr_Versions res = [] then State_Monad.return None
            else for_each_err (ensure_schema r (om_Namespace (er_Meta req)) res)
              (filter (matches res) (map snd exportedSchemas)))
            (ers_Resources (er_Spec req))) }"

subsection \<open>Validation\<close>

definition mark_exports :: "time \<Rightarrow> APIServiceExportRequest \<Rightarrow> string \<Rightarrow> string \<Rightarrow> APIServiceExportRequest" where
  "mark_exports now req reason message =
     MarkFalse APIServiceExportRequest_setter now req APIServiceExportRequestConditionExportsReady reason
       ConditionSeverityError message"

fun show_scope :: "ResourceScope \<Rightarrow> string" where
  "show_scope RS_ClusterScoped = ''Cluster''"
| "show_scope RS_NamespaceScoped = ''Namespaced''"
| "show_scope (RS_Other s) = s"

fun validate_resources :: "time \<Rightarrow> (string \<times> BoundSchema) list \<Rightarrow> ResourceScope \<Rightarrow> APIServiceExportRequestResource list \<Rightarrow>
    APIServiceExportRequest \<Rightarrow> err \<times> APIServiceExportRequest" where
  "validate_resources now m first [] req = (None, req)"
| "validate_resources now m first (res # rest) req =
     (case map_of m (ResourceGroupName res) of
        None \<Rightarrow> (Some (Errorf (''schema '' @ ResourceGroupName res @ '' not found'') None),
          mark_exports now req ''SchemaNotFound'' (''Schema '' @ ResourceGroupName res @ '' not found''))
      | Some s \<Rightarrow>
          (if first = RS_Other '''' then validate_resources now m (bss_Scope (bs_Spec s)) rest req
           else if bss_Scope (bs_Spec s) \<noteq> first then
             (Some (Errorf (''different scopes found for claimed resources: '' @ om_Name (bs_Meta s)) None),
              mark_exports now req ''DifferentScopes'' (''Different scopes found: '' @ show_scope (bss_Scope (bs_Spec s))))
           else validate_resources now m first rest req))"

definition isClaimableAPI :: "PermissionClaim \<Rightarrow> bool" where
  "isClaimableAPI claim = list_ex (\<lambda>api. gr_Group (pc_GroupResource claim) = gvr_Group (ia_GroupVersionResource api) \<and>
     gr_Resource (pc_GroupResource claim) = crn_Plural (ia_Names api)) ClaimableAPIs"

text \<open>A claim that is refused fails the request for good.\<close>

definition refuse_claim :: "time \<Rightarrow> APIServiceExportRequest \<Rightarrow> string \<Rightarrow> string \<Rightarrow> APIServiceExportRequest" where
  "refuse_claim now req reason message =
     (let req1 = MarkFalse APIServiceExportRequest_setter now req APIServiceExportConditionPermissionClaim reason
            ConditionSeverityError message
      in req1\<lparr>er_Status := (er_Status req1)\<lparr>ert_Phase := PhaseFailed,
           ert_TerminalMessage := GetMessage APIServiceExportRequest_setter req1 APIServiceExportConditionPermissionClaim\<rparr>\<rparr>)"

fun validate_claimable :: "time \<Rightarrow> PermissionClaim list \<Rightarrow> APIServiceExportRequest \<Rightarrow> err \<times> APIServiceExportRequest" where
  "validate_claimable now [] req = (None, req)"
| "validate_claimable now (c # cs) req =
     (if \<not> isClaimableAPI c then
        (Some (Errorf (''resource '' @ GroupResource_String (pc_GroupResource c) @ '' is not a valid claimable API'') None),
         refuse_claim now req ''InvalidPermissionClaim''
           (''Resource '' @ GroupResource_String (pc_GroupResource c) @ '' is not a valid claimable API''))
      else validate_claimable now cs req)"

definition claim_key :: "PermissionClaim \<Rightarrow> string" where
  "claim_key c = gr_Group (pc_GroupResource c) @ ''/'' @ gr_Resource (pc_GroupResource c)"

fun validate_duplicates :: "time \<Rightarrow> string list \<Rightarrow> PermissionClaim list \<Rightarrow> APIServiceExportRequest \<Rightarrow> err \<times> APIServiceExportRequest" where
  "validate_duplicates now seen [] req = (None, req)"
| "validate_duplicates now seen (c # cs) req =
     (if claim_key c \<in> set seen then
        (Some (Errorf (''duplicate permission claim found for group/resource '' @ GroupResource_String (pc_GroupResource c)) None),
         refuse_claim now req ''DuplicatePermissionClaim''
           (''Duplicate permission claim found for group/resource '' @ GroupResource_String (pc_GroupResource c)))
      else validate_duplicates now (claim_key c # seen) cs req)"

definition validate_request :: "time \<Rightarrow> (string \<times> BoundSchema) list \<Rightarrow> APIServiceExportRequest \<Rightarrow> err \<times> APIServiceExportRequest" where
  "validate_request now m req =
     (if m = [] then (Some (Errorf ''no exported schemas found'' None), mark_exports now req ''SchemaNotFound'' ''Schema not found'')
      else case validate_resources now m (RS_Other '''') (ers_Resources (er_Spec req)) req of
             (Some e, req1) \<Rightarrow> (Some e, req1)
           | (None, req1) \<Rightarrow>
               (case validate_claimable now (ers_PermissionClaims (er_Spec req1)) req1 of
                  (Some e, req2) \<Rightarrow> (Some e, req2)
                | (None, req2) \<Rightarrow> validate_duplicates now [] (ers_PermissionClaims (er_Spec req2)) req2))"

definition validate :: "('w, 'u) reconciler \<Rightarrow> time \<Rightarrow> APIServiceExportRequest \<Rightarrow> ('w, err \<times> APIServiceExportRequest) io" where
  "validate r now req = do {
     m \<leftarrow> getExportedSchemas r;
     State_Monad.return (case m of Inl e \<Rightarrow> (Some e, req) | Inr schemas \<Rightarrow> validate_request now schemas req) }"

subsection \<open>Exports\<close>

fun collect_schemas :: "('w, 'u) reconciler \<Rightarrow> time \<Rightarrow> APIServiceExportRequestResource list \<Rightarrow> BoundSchema list \<Rightarrow>
    APIServiceExportRequest \<Rightarrow> ('w, (go_error \<times> APIServiceExportRequest) + BoundSchema list) io" where
  "collect_schemas r now [] schemas req = State_Monad.return (Inr schemas)"
| "collect_schemas r now (res # rest) schemas req = do {
     g \<leftarrow> getBoundSchema r (om_Namespace (er_Meta req)) (ResourceGroupName res);
     (case g of
        Inl e \<Rightarrow> State_Monad.return (Inl (e,
          if IsNotFound e then mark_exports now req ''BoundSchemaNotFound''
            (''BoundSchema '' @ ResourceGroupName res @ '' in the service provider cluster not found'')
          else req))
      | Inr s \<Rightarrow> collect_schemas r now rest (schemas @ [s]) req) }"

definition last_scope :: "BoundSchema list \<Rightarrow> ResourceScope" where
  "last_scope schemas = (if schemas = [] then RS_Other '''' else bss_Scope (bs_Spec (last schemas)))"

definition new_export :: "('w, 'u) reconciler \<Rightarrow> APIServiceExportRequest \<Rightarrow> ResourceScope \<Rightarrow> string \<Rightarrow> APIServiceExport" where
  "new_export r req sc hash = \<lparr>
     ex_Kind = '''', ex_Meta = zero_ObjectMeta\<lparr>om_Name := om_Name (er_Meta req), om_Namespace := om_Namespace (er_Meta req),
       om_Annotations := fmupd SourceSpecHashAnnotationKey hash fmempty\<rparr>,
     ex_Spec = \<lparr>
       exs_Resources = map (\<lambda>res. \<lparr>rr_GroupResource = rr_GroupResource res, rr_Versions = rr_Versions res\<rparr>)
         (ers_Resources (er_Spec req)),
       exs_PermissionClaims = ers_PermissionClaims (er_Spec req),
       exs_InformerScope = informerScope r,
       exs_ClusterScopedIsolation = (if sc = RS_ClusterScoped then clusterScopedIsolation r else IsolationOther '''')\<rparr>,
     ex_Conditions = []\<rparr>"

definition set_phase :: "APIServiceExportRequestPhase \<Rightarrow> APIServiceExportRequest \<Rightarrow> APIServiceExportRequest" where
  "set_phase p req = req\<lparr>er_Status := (er_Status req)\<lparr>ert_Phase := p\<rparr>\<rparr>"

definition export_created :: "time \<Rightarrow> APIServiceExportRequest \<Rightarrow> APIServiceExportRequest" where
  "export_created now req =
     (let req1 = set_phase PhaseSucceeded (MarkTrue APIServiceExportRequest_setter now req APIServiceExportRequestConditionExportsReady)
      in if time_Sub now (om_CreationTimestamp (er_Meta req)) > Minute
         then (set_phase PhaseFailed req1)\<lparr>er_Status := (er_Status (set_phase PhaseFailed req1))\<lparr>
           ert_TerminalMessage := GetMessage APIServiceExportRequest_setter req1 APIServiceExportRequestConditionExportsReady\<rparr>\<rparr>
         else req1)"

definition delete_old :: "('w, 'u) reconciler \<Rightarrow> time \<Rightarrow> APIServiceExportRequest \<Rightarrow> ('w, err \<times> APIServiceExportRequest) io" where
  "delete_old r now req =
     (if time_Sub now (om_CreationTimestamp (er_Meta req)) > 10 * Minute then do {
        e \<leftarrow> deleteServiceExportRequest r (om_Namespace (er_Meta req)) (om_Name (er_Meta req));
        State_Monad.return (e, req) }
      else State_Monad.return (None, req))"

definition create_export :: "('w, 'u) reconciler \<Rightarrow> time \<Rightarrow> BoundSchema list \<Rightarrow> APIServiceExportRequest \<Rightarrow>
    ('w, err \<times> APIServiceExportRequest) io" where
  "create_export r now schemas req =
     (case BoundSchemasSpecHash (encodeSchema r) (sha256_hex r) schemas of
        Inl e \<Rightarrow> State_Monad.return (Some e, req)
      | Inr hash \<Rightarrow> do {
          e \<leftarrow> createServiceExport r (new_export r req (last_scope schemas) hash);
          (case e of
             Some x \<Rightarrow> State_Monad.return (if IsAlreadyExists x then None else Some x, req)
           | None \<Rightarrow> delete_old r now (export_created now req)) })"

definition ensureExports :: "('w, 'u) reconciler \<Rightarrow> time \<Rightarrow> APIServiceExportRequest \<Rightarrow> ('w, err \<times> APIServiceExportRequest) io" where
  "ensureExports r now req =
     (if ert_Phase (er_Status req) = PhasePending then do {
        c \<leftarrow> collect_schemas r now (ers_Resources (er_Spec req)) [] req;
        (case c of
           Inl (e, req') \<Rightarrow> State_Monad.return (Some e, req')
         | Inr schemas \<Rightarrow> do {
             g \<leftarrow> getServiceExport r (om_Namespace (er_Meta req)) (om_Name (er_Meta req));
             (case g of
                Inr _ \<Rightarrow> State_Monad.return (None,
                  MarkTrue APIServiceExportRequest_setter now req APIServiceExportRequestConditionExportsReady)
              | Inl e \<Rightarrow> (if \<not> IsNotFound e then State_Monad.return (Some e, req) else create_export r now schemas req)) }) }
      else delete_old r now req)"

definition ensure_service_namespace :: "('w, 'u) reconciler \<Rightarrow> APIServiceExport \<Rightarrow> string \<Rightarrow> ('w, err) io" where
  "ensure_service_namespace r export name =
     (let sns = APIServiceNamespaceFromExport export name
      in do {
        g \<leftarrow> getServiceNamespace r (om_Namespace (sn_Meta sns)) (om_Name (sn_Meta sns));
        (case g of
           Inr _ \<Rightarrow> State_Monad.return None
         | Inl e \<Rightarrow>
             (if IsNotFound e then do {
                c \<leftarrow> createServiceNamespace r sns;
                State_Monad.return (case c of Some x \<Rightarrow> if IsAlreadyExists x then None else Some x | None \<Rightarrow> None) }
              else State_Monad.return (Some e))) })"

definition ensureAPIServiceNamespaces :: "('w, 'u) reconciler \<Rightarrow> APIServiceExportRequest \<Rightarrow> ('w, err) io" where
  "ensureAPIServiceNamespaces r req = do {
     g \<leftarrow> clientGetServiceExport r (om_Namespace (er_Meta req)) (om_Name (er_Meta req));
     (case g of
        Inl e \<Rightarrow> State_Monad.return (Some (Errorf (''failed to get APIServiceExport '' @ om_Namespace (er_Meta req) @ ''/'' @
          om_Name (er_Meta req)) (Some e)))
      | Inr export \<Rightarrow> for_each_err (ensure_service_namespace r export) (ers_Namespaces (er_Spec req))) }"

definition finish :: "time \<Rightarrow> string \<Rightarrow> err \<Rightarrow> APIServiceExportRequest \<Rightarrow> err \<times> APIServiceExportRequest" where
  "finish now what e req = (wrap_err what e, SetSummary APIServiceExportRequest_setter now req [])"

definition reconcile :: "('w, 'u) reconciler \<Rightarrow> time \<Rightarrow> APIServiceExportRequest \<Rightarrow> ('w, err \<times> APIServiceExportRequest) io" where
  "reconcile r now req = do {
     e1 \<leftarrow> ensureBoundSchemas r req;
     (case e1 of
        Some _ \<Rightarrow> State_Monad.return (finish now ''failed to ensure bound schemas'' e1 req)
      | None \<Rightarrow> do {
          v \<leftarrow> validate r now req;
          (case v of
             (Some e, req1) \<Rightarrow> State_Monad.return (finish now ''failed to validate APIServiceExportRequest'' (Some e) req1)
           | (None, req1) \<Rightarrow> do {
               x \<leftarrow> ensureExports r now req1;
               (case x of
                  (Some e, req2) \<Rightarrow> State_Monad.return (finish now ''failed to ensure exports'' (Some e) req2)
                | (None, req2) \<Rightarrow> do {
                    e4 \<leftarrow> ensureAPIServiceNamespaces r req2;
                    State_Monad.return (finish now ''failed to ensure APIServiceNamespaces'' e4 req2) }) }) }) }"

section \<open>Controller\<close>

record ('w, 'u) cluster =
  cl_Get :: "string \<Rightarrow> string \<Rightarrow> ('w, APIServiceExportRequest) call"
  cl_UpdateStatus :: "APIServiceExportRequest \<Rightarrow> ('w, err) io"
  cl_ListByExport :: "string \<Rightarrow> ('w, APIServiceExportRequest list) call"
  cl_ListByGroupResource :: "string \<Rightarrow> ('w, APIServiceExportRequest list) call"
  cl_reconciler :: "('w, 'u) reconciler"

definition write_status :: "('w, 'u) cluster \<Rightarrow> bool \<Rightarrow> APIServiceExportRequest \<Rightarrow> err \<Rightarrow> ('w, err) io" where
  "write_status cl changed req e =
     (if changed then do {
        u \<leftarrow> cl_UpdateStatus cl req;
        State_Monad.return (case u of Some x \<Rightarrow> Some (Errorf ''failed to update APIServiceExportRequest status'' (Some x)) | None \<Rightarrow> e) }
      else State_Monad.return e)"

definition Reconcile :: "(string \<Rightarrow> ('w, ('w, 'u) cluster) call) \<Rightarrow> time \<Rightarrow> Request \<Rightarrow> ('w, err) io" where
  "Reconcile getCluster now req = do {
     c \<leftarrow> getCluster (rq_Cluster req);
     (case c of
        Inl e \<Rightarrow> State_Monad.return (Some (Errorf (''failed to get client for cluster '' @ quoted (rq_Cluster req)) (Some e)))
      | Inr cl \<Rightarrow> do {
          g \<leftarrow> cl_Get cl (rq_Namespace req) (rq_Name req);
          (case g of
             Inl e \<Rightarrow> State_Monad.return
               (if IsNotFound e then None else Some (Errorf ''failed to get APIServiceExportRequest'' (Some e)))
           | Inr original \<Rightarrow> do {
               res \<leftarrow> reconcile (cl_reconciler cl) now original;
               (case fst res of
                  Some e \<Rightarrow> write_status cl (ert_Phase (er_Status original) \<noteq> ert_Phase (er_Status (snd res))) (snd res) (Some e)
                | None \<Rightarrow> write_status cl (er_Status original \<noteq> er_Status (snd res)) (snd res) None) }) }) }"

definition request_list :: "string \<Rightarrow> go_error + APIServiceExportRequest list \<Rightarrow> Request list" where
  "request_list clusterName l = (case l of Inl _ \<Rightarrow> []
     | Inr items \<Rightarrow> map (\<lambda>req. \<lparr>rq_Cluster = clusterName, rq_Namespace = om_Namespace (er_Meta req),
         rq_Name = om_Name (er_Meta req)\<rparr>) items)"

definition getServiceExportRequestMapper :: "string \<Rightarrow> ('w, 'u) cluster \<Rightarrow> APIServiceExport \<Rightarrow> ('w, Request list) io" where
  "getServiceExportRequestMapper clusterName cl x = do {
     l \<leftarrow> cl_ListByExport cl (om_Namespace (ex_Meta x) @ ''/'' @ om_Name (ex_Meta x));
     State_Monad.return (request_list clusterName l) }"

definition getBoundSchemaMapper :: "string \<Rightarrow> ('w, 'u) cluster \<Rightarrow> BoundSchema \<Rightarrow> ('w, Request list) io" where
  "getBoundSchemaMapper clusterName cl s = do {
     l \<leftarrow> cl_ListByGroupResource cl (crn_Plural (bss_Names (bs_Spec s)) @ ''.'' @ bss_Group (bs_Spec s));
     State_Monad.return (request_list clusterName l) }"

section \<open>What validation accepts\<close>

lemma validate_resources_ok:
  "fst (validate_resources now m first rs req) = None \<longleftrightarrow>
     (\<forall>res \<in> set rs. map_of m (ResourceGroupName res) \<noteq> None) \<and>
     (\<exists>sc. (first \<noteq> RS_Other '''' \<longrightarrow> sc = first) \<and>
        (\<forall>res \<in> set rs. \<forall>s. map_of m (ResourceGroupName res) = Some s \<longrightarrow> bss_Scope (bs_Spec s) = sc))"
  if "\<And>n s. map_of m n = Some s \<Longrightarrow> bss_Scope (bs_Spec s) \<noteq> RS_Other ''''"
  using that
proof (induction now m first rs req rule: validate_resources.induct)
  case (2 now m first res rest req)
  show ?case
  proof (cases "map_of m (ResourceGroupName res)")
    case (Some s)
    then have "bss_Scope (bs_Spec s) \<noteq> RS_Other ''''" by (rule 2(3))
    with Some 2 show ?thesis by (cases "first = RS_Other ''''"; cases "bss_Scope (bs_Spec s) = first") auto
  qed simp
qed auto

lemma validate_resources_same: "fst (validate_resources now m first rs req) = None \<Longrightarrow> snd (validate_resources now m first rs req) = req"
  by (induction now m first rs req rule: validate_resources.induct) (auto split: option.splits if_splits)

lemma validate_claimable_iff:
  "validate_claimable now cs req = (None, req') \<longleftrightarrow> (\<forall>c \<in> set cs. isClaimableAPI c) \<and> req' = req"
  by (induction cs) auto

lemma validate_duplicates_iff:
  "validate_duplicates now seen cs req = (None, req') \<longleftrightarrow>
     distinct (map claim_key cs) \<and> (\<forall>c \<in> set cs. claim_key c \<notin> set seen) \<and> req' = req"
  by (induction cs arbitrary: seen) (auto, metis imageI)

lemma isClaimableAPI_iff:
  "isClaimableAPI c \<longleftrightarrow> gr_Group (pc_GroupResource c) = '''' \<and>
     gr_Resource (pc_GroupResource c) \<in> {''configmaps'', ''secrets'', ''serviceaccounts''}"
  by (auto simp: isClaimableAPI_def ClaimableAPIs_def core_api_def)

lemma claim_keys_distinct:
  assumes "\<forall>c \<in> set cs. isClaimableAPI c"
  shows "distinct (map claim_key cs) \<longleftrightarrow> distinct (map pc_GroupResource cs)"
proof -
  have "claim_key c = claim_key d \<longleftrightarrow> pc_GroupResource c = pc_GroupResource d" if "c \<in> set cs" "d \<in> set cs" for c d
    using assms that isClaimableAPI_iff [of c] isClaimableAPI_iff [of d]
    by (auto simp: claim_key_def intro: GroupResource.equality)
  then have "inj_on claim_key (set cs) \<longleftrightarrow> inj_on pc_GroupResource (set cs)" by (simp add: inj_on_def)
  then show ?thesis by (simp add: distinct_map)
qed

text \<open>
  C14. Validation accepts a request exactly if something is exported, each requested resource has an
  exported schema and all of these have one scope, and each permission claim asks for a claimable
  API that no other claim of the request asks for; an accepted request is left as it is.
\<close>

theorem request_valid_iff:
  assumes "\<And>n s. map_of m n = Some s \<Longrightarrow> bss_Scope (bs_Spec s) \<noteq> RS_Other ''''"
  shows "validate_request now m req = (None, req') \<longleftrightarrow> m \<noteq> [] \<and> req' = req \<and>
    (\<forall>res \<in> set (ers_Resources (er_Spec req)). map_of m (ResourceGroupName res) \<noteq> None) \<and>
    (\<exists>sc. \<forall>res \<in> set (ers_Resources (er_Spec req)). \<forall>s. map_of m (ResourceGroupName res) = Some s \<longrightarrow> bss_Scope (bs_Spec s) = sc) \<and>
    (\<forall>c \<in> set (ers_PermissionClaims (er_Spec req)). isClaimableAPI c) \<and>
    distinct (map pc_GroupResource (ers_PermissionClaims (er_Spec req)))"
proof (cases "validate_resources now m (RS_Other '''') (ers_Resources (er_Spec req)) req")
  case (Pair e req1)
  note rs = validate_resources_ok [of m now "RS_Other ''''" "ers_Resources (er_Spec req)" req, OF assms, unfolded Pair, simplified]
  show ?thesis
  proof (cases e)
    case (Some x)
    with rs have "\<not> ((\<forall>res \<in> set (ers_Resources (er_Spec req)). map_of m (ResourceGroupName res) \<noteq> None) \<and>
      (\<exists>sc. \<forall>res \<in> set (ers_Resources (er_Spec req)). \<forall>s. map_of m (ResourceGroupName res) = Some s \<longrightarrow> bss_Scope (bs_Spec s) = sc))"
      by simp
    then show ?thesis using Pair Some by (auto simp: validate_request_def)
  next
    case None
    have "req1 = req" using validate_resources_same [of now m "RS_Other ''''" "ers_Resources (er_Spec req)" req] Pair None by simp
    with Pair None have v: "validate_request now m req = (None, req') \<longleftrightarrow> m \<noteq> [] \<and>
      (\<forall>c \<in> set (ers_PermissionClaims (er_Spec req)). isClaimableAPI c) \<and>
      distinct (map claim_key (ers_PermissionClaims (er_Spec req))) \<and> req' = req"
      using validate_claimable_iff [of now "ers_PermissionClaims (er_Spec req)" req]
      by (auto simp: validate_request_def validate_duplicates_iff split: prod.splits option.splits)
    show ?thesis unfolding v using rs None claim_keys_distinct [of "ers_PermissionClaims (er_Spec req)"] by auto
  qed
qed

section \<open>What is created\<close>

datatype 'u event =
    Listed "go_error + 'u list"
  | GotSchema string string "go_error + BoundSchema"
  | CreatedSchema BoundSchema err
  | GotExport string string "go_error + APIServiceExport"
  | CreatedExport APIServiceExport err
  | DeletedRequest string string err
  | ReadExport string string "go_error + APIServiceExport"
  | GotServiceNamespace
  | CreatedServiceNamespace APIServiceNamespace err

definition traced :: "('w, 'u) reconciler \<Rightarrow> ('w \<times> 'u event list, 'u) reconciler" where
  "traced r = \<lparr>informerScope = informerScope r, clusterScopedIsolation = clusterScopedIsolation r, schemaSource = schemaSource r,
     listExported = (\<lambda>k v g. logged Listed (listExported r k v g)), toBoundSchema = toBoundSchema r,
     encodeSchema = encodeSchema r, sha256_hex = sha256_hex r,
     getBoundSchema = (\<lambda>ns n. logged (GotSchema ns n) (getBoundSchema r ns n)),
     createBoundSchema = (\<lambda>s. logged (CreatedSchema s) (createBoundSchema r s)),
     getServiceExport = (\<lambda>ns n. logged (GotExport ns n) (getServiceExport r ns n)),
     createServiceExport = (\<lambda>x. logged (CreatedExport x) (createServiceExport r x)),
     deleteServiceExportRequest = (\<lambda>ns n. logged (DeletedRequest ns n) (deleteServiceExportRequest r ns n)),
     clientGetServiceExport = (\<lambda>ns n. logged (ReadExport ns n) (clientGetServiceExport r ns n)),
     getServiceNamespace = (\<lambda>ns n. logged (\<lambda>_. GotServiceNamespace) (getServiceNamespace r ns n)),
     createServiceNamespace = (\<lambda>s. logged (CreatedServiceNamespace s) (createServiceNamespace r s))\<rparr>"

lemma request_traced_simps:
  "informerScope (traced r) = informerScope r" "clusterScopedIsolation (traced r) = clusterScopedIsolation r"
  "schemaSource (traced r) = schemaSource r" "toBoundSchema (traced r) = toBoundSchema r"
  "encodeSchema (traced r) = encodeSchema r" "sha256_hex (traced r) = sha256_hex r"
  "listExported (traced r) k v g = logged Listed (listExported r k v g)"
  "getBoundSchema (traced r) ns n = logged (GotSchema ns n) (getBoundSchema r ns n)"
  "createBoundSchema (traced r) s = logged (CreatedSchema s) (createBoundSchema r s)"
  "getServiceExport (traced r) ns n = logged (GotExport ns n) (getServiceExport r ns n)"
  "createServiceExport (traced r) x = logged (CreatedExport x) (createServiceExport r x)"
  "deleteServiceExportRequest (traced r) ns n = logged (DeletedRequest ns n) (deleteServiceExportRequest r ns n)"
  "clientGetServiceExport (traced r) ns n = logged (ReadExport ns n) (clientGetServiceExport r ns n)"
  "getServiceNamespace (traced r) ns n = logged (\<lambda>_. GotServiceNamespace) (getServiceNamespace r ns n)"
  "createServiceNamespace (traced r) sns = logged (CreatedServiceNamespace sns) (createServiceNamespace r sns)"
  by (simp_all add: traced_def)

lemma traced_values [simp]:
  "bound_copy (traced r) ns res s = bound_copy r ns res s" "new_export (traced r) req sc hash = new_export r req sc hash"
  by (simp_all add: bound_copy_def new_export_def request_traced_simps)

text \<open>
  What may happen. A resource has the name \<open>resource.group\<close>; \<open>schema_copy\<close>, \<open>requested_export\<close> and
  \<open>requested_namespace\<close> say field by field what the created objects are.
\<close>

definition resource_name :: "APIServiceExportRequestResource \<Rightarrow> string" where
  "resource_name res = gr_Resource (rr_GroupResource res) @ ''.'' @
     (if gr_Group (rr_GroupResource res) = '''' then ''core'' else gr_Group (rr_GroupResource res))"

definition exported_by :: "('w, 'u) reconciler \<Rightarrow> 'u event list \<Rightarrow> BoundSchema \<Rightarrow> bool" where
  "exported_by r h s \<longleftrightarrow> (\<exists>items. Listed (Inr items) \<in> set h \<and> Inr s \<in> toBoundSchema r ` set items)"

definition schema_copy :: "InformerScope \<Rightarrow> string \<Rightarrow> APIServiceExportRequestResource \<Rightarrow> BoundSchema \<Rightarrow> BoundSchema \<Rightarrow> bool" where
  "schema_copy sc ns res s x \<longleftrightarrow>
     bss_Group (bs_Spec s) = gr_Group (rr_GroupResource res) \<and>
     crn_Plural (bss_Names (bs_Spec s)) = gr_Resource (rr_GroupResource res) \<and>
     om_Name (bs_Meta x) = resource_name res \<and> om_Namespace (bs_Meta x) = ns \<and> om_ResourceVersion (bs_Meta x) = '''' \<and>
     om_Labels (bs_Meta x) = om_Labels (bs_Meta s) \<and> om_Annotations (bs_Meta x) = om_Annotations (bs_Meta s) \<and>
     bss_InformerScope (bs_Spec x) = sc \<and> bss_Group (bs_Spec x) = bss_Group (bs_Spec s) \<and>
     bss_Names (bs_Spec x) = bss_Names (bs_Spec s) \<and> bss_Scope (bs_Spec x) = bss_Scope (bs_Spec s) \<and>
     bss_Versions (bs_Spec x) = bss_Versions (bs_Spec s) \<and> bss_Conversion (bs_Spec x) = bss_Conversion (bs_Spec s)"

text \<open>
  The requested resources are exported with one scope, each claim asks for a core API that can be
  claimed, and no two claims ask for the same.
\<close>

definition acceptable :: "('w, 'u) reconciler \<Rightarrow> 'u event list \<Rightarrow> APIServiceExportRequest \<Rightarrow> bool" where
  "acceptable r h req \<longleftrightarrow>
     (\<exists>schema. \<forall>res \<in> set (ers_Resources (er_Spec req)).
        exported_by r h (schema res) \<and>
        crn_Plural (bss_Names (bs_Spec (schema res))) @ ''.'' @ bss_Group (bs_Spec (schema res)) = resource_name res \<and>
        (\<forall>res' \<in> set (ers_Resources (er_Spec req)).
           bss_Scope (bs_Spec (schema res)) \<noteq> RS_Other '''' \<longrightarrow> bss_Scope (bs_Spec (schema res')) \<noteq> RS_Other '''' \<longrightarrow>
           bss_Scope (bs_Spec (schema res')) = bss_Scope (bs_Spec (schema res)))) \<and>
     (\<forall>c \<in> set (ers_PermissionClaims (er_Spec req)). gr_Group (pc_GroupResource c) = '''' \<and>
        gr_Resource (pc_GroupResource c) \<in> {''configmaps'', ''secrets'', ''serviceaccounts''}) \<and>
     distinct (map pc_GroupResource (ers_PermissionClaims (er_Spec req)))"

text \<open>
  The export of a request for the schemas \<open>ss\<close> that were read, one for each resource: the annotation
  is the hash of their encodings in this order, and the isolation is set for cluster-scoped ones.
\<close>

definition requested_export :: "('w, 'u) reconciler \<Rightarrow> APIServiceExportRequest \<Rightarrow> BoundSchema list \<Rightarrow> APIServiceExport \<Rightarrow> bool" where
  "requested_export r req ss x \<longleftrightarrow>
     om_Name (ex_Meta x) = om_Name (er_Meta req) \<and> om_Namespace (ex_Meta x) = om_Namespace (er_Meta req) \<and>
     om_Labels (ex_Meta x) = fmempty \<and>
     (\<exists>codes. map (encodeSchema r) ss = map Inr codes \<and>
        om_Annotations (ex_Meta x) = fmupd ''kube-bind.io/source-spec-hash'' (sha256_hex r (concat codes)) fmempty) \<and>
     exs_Resources (ex_Spec x) = ers_Resources (er_Spec req) \<and>
     exs_PermissionClaims (ex_Spec x) = ers_PermissionClaims (er_Spec req) \<and>
     exs_InformerScope (ex_Spec x) = informerScope r \<and>
     exs_ClusterScopedIsolation (ex_Spec x) =
       (if ss \<noteq> [] \<and> bss_Scope (bs_Spec (last ss)) = RS_ClusterScoped then clusterScopedIsolation r else IsolationOther '''')"

definition requested_namespace :: "APIServiceExport \<Rightarrow> string \<Rightarrow> APIServiceNamespace \<Rightarrow> bool" where
  "requested_namespace x n sns \<longleftrightarrow> om_Name (sn_Meta sns) = n \<and> om_Namespace (sn_Meta sns) = om_Namespace (ex_Meta x) \<and>
     om_Labels (sn_Meta sns) = fmupd ''kube-bind.io/owner'' ''provider'' fmempty \<and> om_Annotations (sn_Meta sns) = fmempty \<and>
     om_OwnerReferences (sn_Meta sns) = [\<lparr>or_APIVersion = ''kube-bind.io/v1alpha2'', or_Kind = ''APIServiceExport'',
       or_Name = om_Name (ex_Meta x), or_UID = om_UID (ex_Meta x), or_Controller = Some True, or_BlockOwnerDeletion = Some True\<rparr>] \<and>
     sn_StatusNamespace sns = ''''"

fun policy :: "('w, 'u) reconciler \<Rightarrow> time \<Rightarrow> APIServiceExportRequest \<Rightarrow> 'u event list \<Rightarrow> 'u event \<Rightarrow> bool" where
  "policy r now req h (CreatedSchema x _) =
     (\<exists>s res e. exported_by r h s \<and> res \<in> set (ers_Resources (er_Spec req)) \<and> rr_Versions res \<noteq> [] \<and>
        GotSchema (om_Namespace (er_Meta req)) (resource_name res) (Inl e) \<in> set h \<and>
        schema_copy (informerScope r) (om_Namespace (er_Meta req)) res s x)"
| "policy r now req h (CreatedExport x _) =
     (ert_Phase (er_Status req) = PhasePending \<and> acceptable r h req \<and>
      (\<exists>e. GotExport (om_Namespace (er_Meta req)) (om_Name (er_Meta req)) (Inl e) \<in> set h \<and> IsNotFound e) \<and>
      (\<exists>ss. list_all2 (\<lambda>res s. GotSchema (om_Namespace (er_Meta req)) (resource_name res) (Inr s) \<in> set h)
           (ers_Resources (er_Spec req)) ss \<and>
         requested_export r req ss x))"
| "policy r now req h (DeletedRequest ns n _) =
     (ns = om_Namespace (er_Meta req) \<and> n = om_Name (er_Meta req) \<and> time_Sub now (om_CreationTimestamp (er_Meta req)) > 10 * Minute)"
| "policy r now req h (CreatedServiceNamespace sns _) =
     (\<exists>x n. ReadExport (om_Namespace (er_Meta req)) (om_Name (er_Meta req)) (Inr x) \<in> set h \<and>
        n \<in> set (ers_Namespaces (er_Spec req)) \<and> requested_namespace x n sns)"
| "policy r now req h _ = True"

text \<open>The same in terms of the code's own functions, which the proofs follow.\<close>

definition listed_map :: "('w, 'u) reconciler \<Rightarrow> 'u event list \<Rightarrow> (string \<times> BoundSchema) list \<Rightarrow> bool" where
  "listed_map r h m \<longleftrightarrow> (\<exists>items. Listed (Inr items) \<in> set h \<and> exported_map (toBoundSchema r) items [] = Inr m)"

definition schemas_read :: "APIServiceExportRequest \<Rightarrow> 'u event list \<Rightarrow> BoundSchema list \<Rightarrow> bool" where
  "schemas_read req h ss \<longleftrightarrow> list_all2 (\<lambda>res s. GotSchema (om_Namespace (er_Meta req)) (ResourceGroupName res) (Inr s) \<in> set h)
     (ers_Resources (er_Spec req)) ss"

fun steps_policy :: "('w, 'u) reconciler \<Rightarrow> time \<Rightarrow> APIServiceExportRequest \<Rightarrow> 'u event list \<Rightarrow> 'u event \<Rightarrow> bool" where
  "steps_policy r now req h (CreatedSchema x _) =
     (\<exists>m s res e. listed_map r h m \<and> s \<in> snd ` set m \<and> res \<in> set (ers_Resources (er_Spec req)) \<and> matches res s \<and>
        rr_Versions res \<noteq> [] \<and> GotSchema (om_Namespace (er_Meta req)) (ResourceGroupName res) (Inl e) \<in> set h \<and>
        x = bound_copy r (om_Namespace (er_Meta req)) res s)"
| "steps_policy r now req h (CreatedExport x _) =
     (ert_Phase (er_Status req) = PhasePending \<and>
      (\<exists>m req'. listed_map r h m \<and> validate_request now m req = (None, req')) \<and>
      (\<exists>e. GotExport (om_Namespace (er_Meta req)) (om_Name (er_Meta req)) (Inl e) \<in> set h \<and> IsNotFound e) \<and>
      (\<exists>ss hash. schemas_read req h ss \<and> BoundSchemasSpecHash (encodeSchema r) (sha256_hex r) ss = Inr hash \<and>
         x = new_export r req (last_scope ss) hash))"
| "steps_policy r now req h (DeletedRequest ns n _) =
     (ns = om_Namespace (er_Meta req) \<and> n = om_Name (er_Meta req) \<and> time_Sub now (om_CreationTimestamp (er_Meta req)) > 10 * Minute)"
| "steps_policy r now req h (CreatedServiceNamespace sns _) =
     (\<exists>x n. ReadExport (om_Namespace (er_Meta req)) (om_Name (er_Meta req)) (Inr x) \<in> set h \<and>
        n \<in> set (ers_Namespaces (er_Spec req)) \<and> sns = APIServiceNamespaceFromExport x n)"
| "steps_policy r now req h _ = True"

lemma resource_name_eq: "resource_name res = ResourceGroupName res"
  by (simp add: resource_name_def ResourceGroupName_def)

lemma exported_map_sound:
  assumes "exported_map conv us m = Inr m'" and "(n, s) \<in> set m'"
  shows "(n, s) \<in> set m \<or> Inr s \<in> conv ` set us \<and> n = BoundSchema_ResourceGroupName s"
  using assms
proof (induction conv us m rule: exported_map.induct)
  case (2 conv u us m)
  then obtain s' where s': "conv u = Inr s'" by (auto split: sum.splits)
  with 2 have "(n, s) \<in> set ((BoundSchema_ResourceGroupName s', s') # remove_key (BoundSchema_ResourceGroupName s') m) \<or>
      Inr s \<in> conv ` set us \<and> n = BoundSchema_ResourceGroupName s" by simp
  moreover have "set (remove_key k m) \<subseteq> set m" for k by (auto simp: remove_key_def)
  ultimately show ?case using s' by (auto simp: image_iff)
qed simp

lemma listed_exported:
  assumes "listed_map r h m" and "(n, s) \<in> set m"
  shows "exported_by r h s" and "n = BoundSchema_ResourceGroupName s"
  using assms exported_map_sound [of "toBoundSchema r" _ "[]" m n s]
  unfolding listed_map_def exported_by_def by auto

lemma validate_resources_sound:
  assumes "fst (validate_resources now m first rs req) = None"
  shows "(\<forall>res \<in> set rs. map_of m (ResourceGroupName res) \<noteq> None) \<and>
    (\<exists>sc. (first \<noteq> RS_Other '''' \<longrightarrow> sc = first) \<and>
      (\<forall>res \<in> set rs. \<forall>s. map_of m (ResourceGroupName res) = Some s \<longrightarrow> bss_Scope (bs_Spec s) \<noteq> RS_Other '''' \<longrightarrow>
         bss_Scope (bs_Spec s) = sc))"
  using assms
proof (induction now m first rs req rule: validate_resources.induct)
  case (2 now m first res rest req)
  then obtain s where s: "map_of m (ResourceGroupName res) = Some s" by (auto split: option.splits)
  show ?case
  proof (cases "first = RS_Other ''''")
    case True
    with 2 s show ?thesis by (cases "bss_Scope (bs_Spec s) = RS_Other ''''") auto
  next
    case False
    with 2 s show ?thesis by (cases "bss_Scope (bs_Spec s) = first") auto
  qed
qed auto

lemma validated_acceptable:
  assumes "listed_map r h m" and "validate_request now m req = (None, req')"
  shows "acceptable r h req"
proof -
  obtain e req1 where v: "validate_resources now m (RS_Other '''') (ers_Resources (er_Spec req)) req = (e, req1)" by fastforce
  then have e: "e = None" using assms(2) by (auto simp: validate_request_def split: if_splits option.splits)
  then have "req1 = req" using validate_resources_same [of now m "RS_Other ''''" "ers_Resources (er_Spec req)" req] v by simp
  then have c: "\<forall>c \<in> set (ers_PermissionClaims (er_Spec req)). isClaimableAPI c"
    "distinct (map claim_key (ers_PermissionClaims (er_Spec req)))"
    using assms(2) v e
    by (auto simp: validate_request_def validate_duplicates_iff validate_claimable_iff split: if_splits prod.splits option.splits)
  let ?schema = "\<lambda>res. the (map_of m (ResourceGroupName res))"
  obtain sc where sc: "\<forall>res \<in> set (ers_Resources (er_Spec req)). map_of m (ResourceGroupName res) \<noteq> None \<and>
      (bss_Scope (bs_Spec (?schema res)) \<noteq> RS_Other '''' \<longrightarrow> bss_Scope (bs_Spec (?schema res)) = sc)"
    using validate_resources_sound [of now m "RS_Other ''''" "ers_Resources (er_Spec req)" req] v e by fastforce
  have ex: "exported_by r h (?schema res) \<and>
      crn_Plural (bss_Names (bs_Spec (?schema res))) @ ''.'' @ bss_Group (bs_Spec (?schema res)) = resource_name res"
    if "res \<in> set (ers_Resources (er_Spec req))" for res
  proof -
    obtain s where s: "map_of m (ResourceGroupName res) = Some s" using sc \<open>res \<in> _\<close> by auto
    from listed_exported [OF assms(1) map_of_SomeD [OF s]] show ?thesis
      unfolding s resource_name_eq by (simp add: BoundSchema_ResourceGroupName_def)
  qed
  have "\<exists>schema. \<forall>res \<in> set (ers_Resources (er_Spec req)).
      exported_by r h (schema res) \<and>
      crn_Plural (bss_Names (bs_Spec (schema res))) @ ''.'' @ bss_Group (bs_Spec (schema res)) = resource_name res \<and>
      (\<forall>res' \<in> set (ers_Resources (er_Spec req)).
         bss_Scope (bs_Spec (schema res)) \<noteq> RS_Other '''' \<longrightarrow> bss_Scope (bs_Spec (schema res')) \<noteq> RS_Other '''' \<longrightarrow>
         bss_Scope (bs_Spec (schema res')) = bss_Scope (bs_Spec (schema res)))"
    by (rule exI [of _ ?schema]) (use ex sc in auto)
  then show ?thesis
    using c claim_keys_distinct [OF c(1)] unfolding acceptable_def isClaimableAPI_iff by blast
qed

lemma hash_codes:
  "BoundSchemasSpecHash enc sha ss = Inr hash \<Longrightarrow> \<exists>codes. map enc ss = map Inr codes \<and> hash = sha (concat codes)"
proof -
  have "\<exists>codes. map enc ss = map Inr codes \<and> x = concat codes" if "encode_all enc ss = Inr x" for x
    using that
  proof (induction ss arbitrary: x)
    case (Cons s ss)
    then obtain c y where "enc s = Inr c" "encode_all enc ss = Inr y" "x = c @ y" by (auto split: sum.splits)
    with Cons.IH [of y] show ?case by (metis concat.simps(2) list.simps(9))
  qed simp
  then show "BoundSchemasSpecHash enc sha ss = Inr hash \<Longrightarrow> \<exists>codes. map enc ss = map Inr codes \<and> hash = sha (concat codes)"
    by (auto simp: BoundSchemasSpecHash_def split: sum.splits)
qed

lemma created_as_requested:
  "matches res s \<Longrightarrow> schema_copy (informerScope r) ns res s (bound_copy r ns res s)"
  "BoundSchemasSpecHash (encodeSchema r) (sha256_hex r) ss = Inr hash \<Longrightarrow> requested_export r req ss (new_export r req (last_scope ss) hash)"
  "requested_namespace x n (APIServiceNamespaceFromExport x n)"
proof -
  show "schema_copy (informerScope r) ns res s (bound_copy r ns res s)" if "matches res s"
    using that by (simp add: schema_copy_def bound_copy_def matches_def resource_name_eq)
  show "requested_export r req ss (new_export r req (last_scope ss) hash)"
    if "BoundSchemasSpecHash (encodeSchema r) (sha256_hex r) ss = Inr hash"
    using hash_codes [OF that]
    by (auto simp: requested_export_def new_export_def last_scope_def SourceSpecHashAnnotationKey_def zero_ObjectMeta_def
        intro!: map_idI)
  show "requested_namespace x n (APIServiceNamespaceFromExport x n)"
    by (simp add: requested_namespace_def APIServiceNamespaceFromExport_def NewControllerRef_def SchemeGroupVersion_def
        GroupName_def GroupVersion_def ObjectOwnerLabel_def Owner_String_def zero_ObjectMeta_def)
qed

lemma steps_policy_policy: "steps_policy r now req h c \<Longrightarrow> policy r now req h c"
proof (cases c)
  case (CreatedSchema x e)
  assume "steps_policy r now req h c"
  with CreatedSchema show ?thesis
    using listed_exported(1) created_as_requested(1) resource_name_eq by fastforce
next
  case (CreatedExport x e)
  assume "steps_policy r now req h c"
  with CreatedExport show ?thesis
    using validated_acceptable created_as_requested(2) [of r _ _ req]
    unfolding CreatedExport policy.simps steps_policy.simps schemas_read_def resource_name_eq by blast
qed (auto intro: created_as_requested(3))

lemma guarded_policy: "guarded (steps_policy r now req) [] tr \<Longrightarrow> guarded (policy r now req) [] tr"
  unfolding guarded_iff using steps_policy_policy by blast

abbreviation obeys :: "('w, 'u) reconciler \<Rightarrow> time \<Rightarrow> APIServiceExportRequest \<Rightarrow> 'u event list \<Rightarrow> bool" where
  "obeys r now req \<equiv> guarded (steps_policy r now req) []"

lemma getExportedSchemas_ok:
  assumes "obeys r now req tr"
  shows "wp (getExportedSchemas (traced r)) (\<lambda>g (_, tr'). obeys r now req tr' \<and> set tr \<subseteq> set tr' \<and>
    (\<forall>m. g = Inr m \<longrightarrow> listed_map r tr' m)) (w, tr)"
proof -
  have "wp (do { l \<leftarrow> listExported (traced r) k v g;
      State_Monad.return (case l of Inl e \<Rightarrow> Inl e | Inr items \<Rightarrow> exported_map (toBoundSchema (traced r)) items []) })
    (\<lambda>g (_, tr'). obeys r now req tr' \<and> set tr \<subseteq> set tr' \<and> (\<forall>m. g = Inr m \<longrightarrow> listed_map r tr' m)) (w, tr)" for k v g
    unfolding request_traced_simps
    by (intro wp_bind wp_logged wp_return) (use assms in \<open>auto simp: listed_map_def split: sum.splits\<close>)
  then show ?thesis using assms
    by (auto simp: getExportedSchemas_def intro!: wp_return split: list.split)
qed

text \<open>A loop keeps what each of its steps keeps.\<close>

lemma for_each_err_ok:
  assumes "\<And>x w tr. x \<in> set xs \<Longrightarrow> I tr \<Longrightarrow> wp (f x) (\<lambda>_ (_, tr'). I tr') (w, tr)" and "I tr"
  shows "wp (for_each_err f xs) (\<lambda>_ (_, tr'). I tr') (w, tr)"
  using assms
proof (induction xs arbitrary: w tr)
  case (Cons x xs)
  have "wp (f x) (\<lambda>_ (_, tr'). I tr') (w, tr)" using Cons.prems by simp
  then show ?case
    by (auto intro!: wp_chain [OF \<open>wp (f x) _ _\<close>] wp_return Cons.IH Cons.prems split: option.split)
qed (auto intro: wp_return)

lemma ensureBoundSchemas_ok:
  assumes "obeys r now req tr"
  shows "wp (ensureBoundSchemas (traced r) req) (\<lambda>_ (_, tr'). obeys r now req tr') (w, tr)"
proof -
  let ?ns = "om_Namespace (er_Meta req)"
  have step: "wp (ensure_schema (traced r) ?ns res s) (\<lambda>_ (_, tr'). obeys r now req tr' \<and> listed_map r tr' m) (w', tr')"
    if "obeys r now req tr' \<and> listed_map r tr' m" "s \<in> snd ` set m" "matches res s" "res \<in> set (ers_Resources (er_Spec req))"
      "rr_Versions res \<noteq> []" for res s m w' tr'
  proof -
    have l: "listed_map r (tr' @ us) m" for us using that(1) unfolding listed_map_def by auto
    then show ?thesis unfolding ensure_schema_def Let_def request_traced_simps
      by (intro wp_bind wp_logged wp_sum wp_if wp_return) (use that l in \<open>auto simp: guarded_append\<close>)
  qed
  show ?thesis unfolding ensureBoundSchemas_def
  proof (rule wp_chain [OF getExportedSchemas_ok [OF assms]], clarify, rule wp_sum, goal_cases)
    case (1 g w1 tr1 e)
    then show ?case by (auto intro: wp_return)
  next
    case (2 g w1 tr1 m)
    have "wp (for_each_err (\<lambda>res. if rr_Versions res = [] then State_Monad.return None
        else for_each_err (ensure_schema (traced r) ?ns res) (filter (matches res) (map snd m))) (ers_Resources (er_Spec req)))
      (\<lambda>_ (_, tr'). obeys r now req tr' \<and> listed_map r tr' m) (w1, tr1)"
      by (rule for_each_err_ok [where I = "\<lambda>tr. obeys r now req tr \<and> listed_map r tr m"])
        (use 2 in \<open>auto intro!: wp_return for_each_err_ok [where I = "\<lambda>tr. obeys r now req tr \<and> listed_map r tr m"] step\<close>)
    then show ?case by (rule wp_weaken) auto
  qed
qed

lemma request_marks [simp]:
  "er_Meta (Set APIServiceExportRequest_setter now req c) = er_Meta req"
  "er_Spec (Set APIServiceExportRequest_setter now req c) = er_Spec req"
  "ert_Phase (er_Status (Set APIServiceExportRequest_setter now req c)) = ert_Phase (er_Status req)"
  by (cases c; simp add: Set_def APIServiceExportRequest_setter_def)+

definition same_request :: "APIServiceExportRequest \<Rightarrow> APIServiceExportRequest \<Rightarrow> bool" where
  "same_request a b \<longleftrightarrow> er_Meta a = er_Meta b \<and> er_Spec a = er_Spec b"

lemma mark_exports_simps [simp]:
  "same_request (mark_exports now req reason m) req'\<longleftrightarrow> same_request req req'"
  "ert_Phase (er_Status (mark_exports now req reason m)) = ert_Phase (er_Status req)"
  "same_request (refuse_claim now req reason m) req' \<longleftrightarrow> same_request req req'"
  "ert_Phase (er_Status (refuse_claim now req reason m)) = PhaseFailed"
  by (simp_all add: mark_exports_def refuse_claim_def MarkFalse_def same_request_def Let_def)

lemma same_request_refl [simp]: "same_request a a" by (simp add: same_request_def)

text \<open>Validation changes nothing of an accepted request, and the phase of a refused one to failed at most.\<close>

lemma validate_request_result:
  assumes "validate_request now m req = (e, req')"
  shows "same_request req' req" and "e = None \<Longrightarrow> req' = req"
    and "ert_Phase (er_Status req') \<noteq> ert_Phase (er_Status req) \<Longrightarrow> ert_Phase (er_Status req') = PhaseFailed"
proof -
  let ?ok = "\<lambda>p req. same_request (snd p) req \<and> (fst p = None \<longrightarrow> snd p = req) \<and>
    (ert_Phase (er_Status (snd p)) = ert_Phase (er_Status req) \<or> ert_Phase (er_Status (snd p)) = PhaseFailed)"
  have 1: "?ok (validate_resources now m sc rs req) req" for sc rs
    by (induction now m sc rs req rule: validate_resources.induct) (auto split: option.splits)
  have 2: "?ok (validate_claimable now cs req) req" for cs req by (induction cs) auto
  have 3: "?ok (validate_duplicates now seen cs req) req" for cs seen req by (induction cs arbitrary: seen) auto
  have "?ok (e, req') req"
    unfolding assms [symmetric] validate_request_def
    using 1 [of "RS_Other ''''" "ers_Resources (er_Spec req)"] 2 [of "ers_PermissionClaims (er_Spec req)" req]
      3 [of "[]" "ers_PermissionClaims (er_Spec req)" req]
    by (auto split: prod.split option.split)
  then show "same_request req' req" "e = None \<Longrightarrow> req' = req"
    "ert_Phase (er_Status req') \<noteq> ert_Phase (er_Status req) \<Longrightarrow> ert_Phase (er_Status req') = PhaseFailed" by auto
qed

lemma validate_ok:
  assumes "obeys r now req tr"
  shows "wp (validate (traced r) now req) (\<lambda>(e, req') (_, tr'). obeys r now req tr' \<and>
    (e = None \<longrightarrow> req' = req \<and> (\<exists>m. listed_map r tr' m \<and> validate_request now m req = (None, req))) \<and>
    (ert_Phase (er_Status req') = ert_Phase (er_Status req) \<or> ert_Phase (er_Status req') = PhaseFailed)) (w, tr)"
  unfolding validate_def
proof (rule wp_chain [OF getExportedSchemas_ok [OF assms]], clarify, rule wp_return, goal_cases)
  case (1 g w1 tr1)
  show ?case
  proof (cases g)
    case (Inl e)
    with 1 show ?thesis by simp
  next
    case (Inr m)
    obtain e req' where v: "validate_request now m req = (e, req')" by (cases "validate_request now m req")
    from validate_request_result [OF v] v Inr 1 show ?thesis by auto
  qed
qed

lemma collect_schemas_ok:
  assumes "obeys r now req tr"
  shows "wp (collect_schemas (traced r) now rs schemas req) (\<lambda>c (_, tr'). obeys r now req tr' \<and> set tr \<subseteq> set tr' \<and>
    (\<forall>e req'. c = Inl (e, req') \<longrightarrow> ert_Phase (er_Status req') = ert_Phase (er_Status req)) \<and>
    (\<forall>ss. c = Inr ss \<longrightarrow> (\<exists>ss'. ss = schemas @ ss' \<and>
      list_all2 (\<lambda>res s. GotSchema (om_Namespace (er_Meta req)) (ResourceGroupName res) (Inr s) \<in> set tr') rs ss'))) (w, tr)"
  using assms
proof (induction rs arbitrary: schemas tr w)
  case Nil
  then show ?case by (auto intro: wp_return)
next
  case (Cons res rs)
  show ?case unfolding collect_schemas.simps request_traced_simps
  proof (intro wp_bind wp_logged wp_sum, goal_cases)
    case (1 g w1 e)
    then show ?case using Cons.prems by (auto intro: wp_return)
  next
    case (2 g w1 s)
    show ?case by (rule wp_weaken [OF Cons.IH]) (use 2 Cons.prems in auto)
  qed
qed

lemma delete_old_ok:
  assumes "obeys r now req tr" and "er_Meta req1 = er_Meta req"
  shows "wp (delete_old (traced r) now req1) (\<lambda>(_, req') (_, tr'). obeys r now req tr' \<and> set tr \<subseteq> set tr' \<and> req' = req1) (w, tr)"
  unfolding delete_old_def request_traced_simps
  by (intro wp_if wp_bind wp_logged wp_return) (use assms in auto)

text \<open>The phase moves to succeeded only when the export was created, and to failed otherwise.\<close>

definition phase_step :: "APIServiceExportRequest \<Rightarrow> 'u event list \<Rightarrow> APIServiceExportRequest \<Rightarrow> bool" where
  "phase_step req tr req' \<longleftrightarrow> ert_Phase (er_Status req') = ert_Phase (er_Status req) \<or> ert_Phase (er_Status req') = PhaseFailed \<or>
     ert_Phase (er_Status req) = PhasePending \<and> ert_Phase (er_Status req') = PhaseSucceeded \<and> (\<exists>x. CreatedExport x None \<in> set tr)"

lemma export_created_simps [simp]:
  "er_Meta (export_created now req) = er_Meta req" "er_Spec (export_created now req) = er_Spec req"
  "ert_Phase (er_Status (export_created now req)) =
     (if time_Sub now (om_CreationTimestamp (er_Meta req)) > Minute then PhaseFailed else PhaseSucceeded)"
  by (simp_all add: export_created_def set_phase_def MarkTrue_def Let_def)

lemma create_export_ok:
  assumes "obeys r now req tr" and "ert_Phase (er_Status req) = PhasePending"
    and "\<And>hash e. BoundSchemasSpecHash (encodeSchema r) (sha256_hex r) schemas = Inr hash \<Longrightarrow>
      steps_policy r now req tr (CreatedExport (new_export r req (last_scope schemas) hash) e)"
  shows "wp (create_export (traced r) now schemas req) (\<lambda>(_, req') (_, tr'). obeys r now req tr' \<and> er_Spec req' = er_Spec req \<and>
    er_Meta req' = er_Meta req \<and> phase_step req tr' req') (w, tr)"
proof -
  have old: "wp (delete_old (traced r) now (export_created now req)) (\<lambda>(_, req') (_, tr'). obeys r now req tr' \<and>
      er_Spec req' = er_Spec req \<and> er_Meta req' = er_Meta req \<and> phase_step req tr' req')
      (w', tr @ [CreatedExport (new_export r req (last_scope schemas) hash) None])"
    if "BoundSchemasSpecHash (encodeSchema r) (sha256_hex r) schemas = Inr hash" for w' hash
    by (rule wp_weaken [OF delete_old_ok [of r now req]])
      (use assms that in \<open>auto simp: phase_step_def simp del: steps_policy.simps\<close>)
  show ?thesis unfolding create_export_def request_traced_simps traced_values
    by (intro wp_sum wp_bind wp_logged wp_option wp_return)
      (use assms old in \<open>auto simp: phase_step_def simp del: steps_policy.simps\<close>)
qed

lemma phase_step_marks [simp]:
  "phase_step req tr req"
  "phase_step req tr (MarkTrue APIServiceExportRequest_setter now req t)"
  "phase_step req tr (SetSummary APIServiceExportRequest_setter now req1 opts) \<longleftrightarrow> phase_step req tr req1"
  by (simp_all add: phase_step_def MarkTrue_def SetSummary_def)

lemma collect_schemas_same:
  "wp (collect_schemas r now rs schemas req) (\<lambda>c _. \<forall>e req'. c = Inl (e, req') \<longrightarrow> er_Meta req' = er_Meta req \<and> er_Spec req' = er_Spec req) s"
proof (induction rs arbitrary: schemas s)
  case (Cons res rs)
  show ?case unfolding collect_schemas.simps
    by (intro wp_bind wp_any wp_sum wp_return Cons.IH) (auto simp: mark_exports_def MarkFalse_def)
qed (auto intro: wp_return)

lemma request_mark:
  "er_Meta (MarkTrue APIServiceExportRequest_setter now req t) = er_Meta req"
  "er_Spec (MarkTrue APIServiceExportRequest_setter now req t) = er_Spec req"
  by (simp_all add: MarkTrue_def)

lemma ensureExports_ok:
  assumes "obeys r now req tr" and "listed_map r tr m" and "validate_request now m req = (None, req)"
  shows "wp (ensureExports (traced r) now req) (\<lambda>(_, req') (_, tr'). obeys r now req tr' \<and>
    (er_Meta req' = er_Meta req \<and> er_Spec req' = er_Spec req \<and> phase_step req tr' req')) (w, tr)"
proof (cases "ert_Phase (er_Status req) = PhasePending")
  case False
  then show ?thesis unfolding ensureExports_def
    by (simp, intro wp_weaken [OF delete_old_ok [OF assms(1) refl]]) (auto simp: phase_step_def)
next
  case True
  let ?ns = "om_Namespace (er_Meta req)" and ?n = "om_Name (er_Meta req)"
  let ?Q = "\<lambda>(_, req') (_, tr'). obeys r now req tr' \<and>
    (er_Meta req' = er_Meta req \<and> er_Spec req' = er_Spec req \<and> phase_step req tr' req')"
  have create: "wp (create_export (traced r) now schemas req) ?Q (w', tr' @ [GotExport ?ns ?n (Inl e)])"
    if "obeys r now req tr'" "set tr \<subseteq> set tr'" "IsNotFound e"
      "schemas_read req tr' schemas" for schemas w' tr' e
  proof (rule wp_weaken [OF create_export_ok [OF _ True]])
    have "listed_map r (tr' @ [GotExport ?ns ?n (Inl e)]) m" using assms(2) that(2) unfolding listed_map_def by auto
    moreover have "schemas_read req (tr' @ [GotExport ?ns ?n (Inl e)]) schemas"
      using that(4) unfolding schemas_read_def by (rule list_all2_mono) auto
    ultimately show "steps_policy r now req (tr' @ [GotExport ?ns ?n (Inl e)]) (CreatedExport (new_export r req (last_scope schemas) hash) e')"
      if "BoundSchemasSpecHash (encodeSchema r) (sha256_hex r) schemas = Inr hash" for hash e'
      using True assms(3) \<open>IsNotFound e\<close> that unfolding steps_policy.simps by (intro conjI) auto
  qed (use that in auto)
  have "wp (do { c \<leftarrow> collect_schemas (traced r) now (ers_Resources (er_Spec req)) [] req;
      (case c of
         Inl (e, req') \<Rightarrow> State_Monad.return (Some e, req')
       | Inr schemas \<Rightarrow> do {
           g \<leftarrow> getServiceExport (traced r) ?ns ?n;
           (case g of
              Inr _ \<Rightarrow> State_Monad.return (None, MarkTrue APIServiceExportRequest_setter now req APIServiceExportRequestConditionExportsReady)
            | Inl e \<Rightarrow> (if \<not> IsNotFound e then State_Monad.return (Some e, req) else create_export (traced r) now schemas req)) }) })
      ?Q (w, tr)"
  proof (rule wp_chain [OF wp_conj [THEN iffD2, OF conjI [OF collect_schemas_ok [OF assms(1)] collect_schemas_same]]], clarify,
      rule wp_sum, goal_cases)
    case (1 c w1 tr1 p)
    then show ?case by (cases p) (auto intro!: wp_return simp: phase_step_def)
  next
    case (2 c w1 tr1 schemas)
    show ?case unfolding request_traced_simps
      by (intro wp_bind wp_logged wp_sum wp_if wp_return) (use 2 in \<open>auto simp: request_mark schemas_read_def intro!: create\<close>)
  qed
  with True show ?thesis by (simp add: ensureExports_def)
qed

lemma ensureAPIServiceNamespaces_ok:
  assumes "obeys r now req tr" and "er_Meta req1 = er_Meta req" "er_Spec req1 = er_Spec req" and "set us \<subseteq> set tr"
  shows "wp (ensureAPIServiceNamespaces (traced r) req1) (\<lambda>_ (_, tr'). obeys r now req tr' \<and> set us \<subseteq> set tr') (w, tr)"
proof -
  let ?ns = "om_Namespace (er_Meta req)" and ?n = "om_Name (er_Meta req)"
  have step: "wp (ensure_service_namespace (traced r) x n) (\<lambda>_ (_, tr'). obeys r now req tr' \<and> ReadExport ?ns ?n (Inr x) \<in> set tr' \<and> set us \<subseteq> set tr')
      (w', tr')"
    if "obeys r now req tr' \<and> ReadExport ?ns ?n (Inr x) \<in> set tr' \<and> set us \<subseteq> set tr'" "n \<in> set (ers_Namespaces (er_Spec req))" for x n w' tr'
    unfolding ensure_service_namespace_def Let_def request_traced_simps
    by (intro wp_bind wp_logged wp_sum wp_if wp_return) (use that in \<open>auto simp: guarded_append\<close>)
  have loop: "wp (for_each_err (ensure_service_namespace (traced r) x) (ers_Namespaces (er_Spec req)))
      (\<lambda>_ (_, tr'). obeys r now req tr' \<and> set us \<subseteq> set tr') (w', tr @ [ReadExport ?ns ?n (Inr x)])" for x w'
    by (rule wp_weaken [OF for_each_err_ok [where I = "\<lambda>tr'. obeys r now req tr' \<and> ReadExport ?ns ?n (Inr x) \<in> set tr' \<and> set us \<subseteq> set tr'"]])
      (use assms(1,4) step in auto)
  show ?thesis unfolding ensureAPIServiceNamespaces_def assms(2,3) request_traced_simps
    by (intro wp_bind wp_logged wp_sum wp_return) (use assms(1,4) loop in auto)
qed

text \<open>
  C6. Processing a request creates only what was asked for and validated. BoundSchemas are copies of exported
  schemas of requested resources that were missing, named \<open>resource.group\<close>, in the consumer's namespace. An
  APIServiceExport is created for a pending request whose resources are exported with one scope and
  whose claims are claimable and distinct, when there is none and every schema was read; it is one for the whole request,
  with its name, resources, claims and the hash of the schemas. APIServiceNamespaces are those of the request, labelled and owned by the
  export, and only if it exists; only a request older than ten minutes is deleted. The phase becomes succeeded only
  for a pending request whose export was created, and otherwise stays or becomes failed. (The document
  of the interface asks for one export per resource, named \<open>resource.group\<close>.)
\<close>

theorem export_request_confined:
  assumes "run_state (reconcile (traced r) now req) (w, []) = ((e, req'), (w', tr))"
  shows "guarded (policy r now req) [] tr \<and> phase_step req tr req'"
proof -
  let ?Q = "\<lambda>(_, req') (_, tr'). obeys r now req tr' \<and> phase_step req tr' req'"
  have 1: "wp (ensureBoundSchemas (traced r) req) (\<lambda>_ (_, tr'). obeys r now req tr') (w, [])"
    by (rule ensureBoundSchemas_ok) simp
  have "wp (reconcile (traced r) now req) ?Q (w, [])"
    unfolding reconcile_def
  proof (rule wp_chain [OF 1], clarify, rule wp_option, goal_cases)
    case (1 e1 w1 tr1)
    show ?case
    proof (rule wp_chain [OF validate_ok [OF 1(1)]], goal_cases)
      case (1 v s')
      obtain e2 req1 w2 tr2 where v: "v = (e2, req1)" "s' = (w2, tr2)" by (cases v; cases s')
      show ?case
      proof (cases e2)
        case (Some y)
        with 1 v show ?thesis by (auto intro!: wp_return simp: finish_def) (auto simp: phase_step_def)
      next
        case None
        with 1 v obtain m where m: "obeys r now req tr2" "listed_map r tr2 m" "validate_request now m req = (None, req)" "req1 = req"
          by auto
        show ?thesis unfolding v None m(4) prod.case option.case
        proof (rule wp_chain [OF ensureExports_ok [OF m(1-3)]], goal_cases)
          case (1 x s')
          obtain e3 req2 w3 tr3 where x: "x = (e3, req2)" "s' = (w3, tr3)" by (cases x; cases s')
          show ?case
          proof (cases e3)
            case (Some y)
            with 1 x show ?thesis by (auto intro!: wp_return simp: finish_def)
          next
            case None
            from 1 x have q: "obeys r now req tr3" "er_Meta req2 = er_Meta req" "er_Spec req2 = er_Spec req" "phase_step req tr3 req2"
              by auto
            have mono: "phase_step req tr4 req2" if "set tr3 \<subseteq> set tr4" for tr4
              using q(4) that unfolding phase_step_def by blast
            show ?thesis unfolding x None prod.case option.case
              by (rule wp_chain [OF ensureAPIServiceNamespaces_ok [OF q(1-3) subset_refl]])
                (auto intro!: wp_return simp: finish_def mono)
          qed
        qed
      qed
    qed
  qed (auto intro!: wp_return simp: finish_def)
  from wpD [OF this assms] show ?thesis by (simp add: guarded_policy)
qed

section \<open>Concrete runs\<close>

text \<open>
  A provider that exports the given schemas; BoundSchemas and exports that were created are stored,
  in the worlds \<open>(schemas, exports)\<close>.
\<close>

type_synonym provider = "BoundSchema list \<times> APIServiceExport list"

definition lookup :: "('a \<Rightarrow> ObjectMeta) \<Rightarrow> string \<Rightarrow> 'a list \<Rightarrow> go_error + 'a" where
  "lookup meta n xs = (case List.find (\<lambda>x. om_Name (meta x) = n) xs of None \<Rightarrow> Inl (StatusError ReasonNotFound n) | Some x \<Rightarrow> Inr x)"

definition example_reconciler :: "BoundSchema list \<Rightarrow> (provider, BoundSchema) reconciler" where
  "example_reconciler schemas = \<lparr>informerScope = NamespacedScope, clusterScopedIsolation = IsolationPrefixed,
     schemaSource = ''CustomResourceDefinition.v1.apiextensions.k8s.io'',
     listExported = (\<lambda>_ _ _. State_Monad.return (Inr schemas)), toBoundSchema = Inr,
     encodeSchema = (\<lambda>s. Inr (om_Name (bs_Meta s))), sha256_hex = (\<lambda>x. x),
     getBoundSchema = (\<lambda>_ n. State (\<lambda>(ss, xs). (lookup bs_Meta n ss, (ss, xs)))),
     createBoundSchema = (\<lambda>s. State (\<lambda>(ss, xs). (None, (s # ss, xs)))),
     getServiceExport = (\<lambda>_ n. State (\<lambda>(ss, xs). (lookup ex_Meta n xs, (ss, xs)))),
     createServiceExport = (\<lambda>x. State (\<lambda>(ss, xs). (None, (ss, x # xs)))),
     deleteServiceExportRequest = (\<lambda>_ _. State_Monad.return None),
     clientGetServiceExport = (\<lambda>_ n. State (\<lambda>(ss, xs). (lookup ex_Meta n xs, (ss, xs)))),
     getServiceNamespace = (\<lambda>_ n. State_Monad.return (Inl (StatusError ReasonNotFound n))),
     createServiceNamespace = (\<lambda>_. State_Monad.return None)\<rparr>"

definition schema_of :: "string \<Rightarrow> string \<Rightarrow> BoundSchema" where
  "schema_of g plural = example_schema\<lparr>bs_Spec := (bs_Spec example_schema)\<lparr>bss_Group := g,
     bss_Names := zero_Names\<lparr>crn_Plural := plural\<rparr>\<rparr>\<rparr>"

definition example_request :: "string \<Rightarrow> string \<Rightarrow> string list \<Rightarrow> APIServiceExportRequest" where
  "example_request g plural versions = \<lparr>er_Kind = ''APIServiceExportRequest'', er_Meta = zero_ObjectMeta\<lparr>om_Name := ''x'', om_Namespace := ''p'', om_CreationTimestamp := 9 * Minute\<rparr>,
     er_Spec = \<lparr>ers_Parameters = None, ers_Resources = [\<lparr>rr_GroupResource = \<lparr>gr_Group = g, gr_Resource = plural\<rparr>, rr_Versions = versions\<rparr>],
       ers_PermissionClaims = [example_claim], ers_Namespaces = [''default'']\<rparr>,
     er_Status = \<lparr>ert_Phase = PhasePending, ert_TerminalMessage = '''', ert_Conditions = []\<rparr>\<rparr>"

text \<open>A request for \<open>foos.g\<close> and its provider, reconciled at the given time.\<close>

definition example_run :: "time \<Rightarrow> (err \<times> APIServiceExportRequest) \<times> (provider \<times> BoundSchema event list)" where
  "example_run now = run_state (reconcile (traced (example_reconciler [schema_of ''g'' ''foos''])) now (example_request ''g'' ''foos'' [''v1'']))
     (([], []), [])"

theorem request_valid_iff_witness:
  "validate_request 7 [(''foos.g'', schema_of ''g'' ''foos'')] (example_request ''g'' ''foos'' [''v1'']) =
     (None, example_request ''g'' ''foos'' [''v1''])"
proof -
  have "bss_Scope (bs_Spec s) \<noteq> RS_Other ''''" if "map_of [(''foos.g'', schema_of ''g'' ''foos'')] n = Some s" for n s
    using that by (auto simp: schema_of_def example_schema_def split: if_splits)
  note iff = request_valid_iff [where m = "[(''foos.g'', schema_of ''g'' ''foos'')]" and now = 7
      and req = "example_request ''g'' ''foos'' [''v1'']" and req' = "example_request ''g'' ''foos'' [''v1'']", OF this]
  show ?thesis
    by (rule iff [THEN iffD2]) (simp_all add: example_request_def ResourceGroupName_def isClaimableAPI_iff example_claim_def)
qed

theorem export_request_confined_witness:
  "guarded (policy (example_reconciler [schema_of ''g'' ''foos'']) (9 * Minute + 1) (example_request ''g'' ''foos'' [''v1''])) []
     (snd (snd (example_run (9 * Minute + 1)))) \<and>
   phase_step (example_request ''g'' ''foos'' [''v1'']) (snd (snd (example_run (9 * Minute + 1)))) (snd (fst (example_run (9 * Minute + 1)))) \<and>
   ert_Phase (er_Status (snd (fst (example_run (9 * Minute + 1))))) = PhaseSucceeded"
proof -
  let ?run = "example_run (9 * Minute + 1)"
  have "run_state (reconcile (traced (example_reconciler [schema_of ''g'' ''foos''])) (9 * Minute + 1) (example_request ''g'' ''foos'' [''v1'']))
      (([], []), []) = ((fst (fst ?run), snd (fst ?run)), (fst (snd ?run), snd (snd ?run)))"
    unfolding example_run_def by (metis prod.collapse)
  from export_request_confined [OF this] have "guarded (policy (example_reconciler [schema_of ''g'' ''foos'']) (9 * Minute + 1)
      (example_request ''g'' ''foos'' [''v1''])) [] (snd (snd ?run))"
    "phase_step (example_request ''g'' ''foos'' [''v1'']) (snd (snd ?run)) (snd (fst ?run))" by blast+
  moreover have "ert_Phase (er_Status (snd (fst ?run))) = PhaseSucceeded" by code_simp
  ultimately show ?thesis by blast
qed

section \<open>Deviations\<close>

text \<open>A request whose export is created after a minute is reported as failed, for good, without a message.\<close>

lemma late_success_is_failure:
  "let run = example_run (11 * Minute)
   in fst (fst run) = None \<and> length (snd (fst (snd run))) = 1 \<and> ert_Phase (er_Status (snd (fst run))) = PhaseFailed \<and>
      ert_TerminalMessage (er_Status (snd (fst run))) = ''''"
  by code_simp

text \<open>
  When the export exists but the phase was not stored, the request stays pending: here the reconciliation
  is repeated with the request as it was.
\<close>

lemma pending_forever:
  "let w1 = fst (snd (example_run (9 * Minute + 1)));
       run = run_state (reconcile (example_reconciler [schema_of ''g'' ''foos'']) (10 * Minute) (example_request ''g'' ''foos'' [''v1''])) w1
   in fst (fst run) = None \<and> ert_Phase (er_Status (snd (fst run))) = PhasePending"
  by code_simp

text \<open>
  A resource of the core group is never found among the exported schemas: its name is \<open>pods.core\<close>, the
  name of its schema is \<open>pods.\<close>.
\<close>

lemma core_resource_refused:
  "let run = run_state (reconcile (example_reconciler [schema_of '''' ''pods'']) (9 * Minute + 1) (example_request '''' ''pods'' [''v1''])) ([], [])
   in map_option error_messages (fst (fst run)) = Some [''failed to validate APIServiceExportRequest: schema pods.core not found'']"
  by code_simp

text \<open>A request without versions, for which a default is documented, fails as no BoundSchema is created for it.\<close>

lemma no_default_version:
  "let run = run_state (reconcile (example_reconciler [schema_of ''g'' ''foos'']) (9 * Minute + 1) (example_request ''g'' ''foos'' [])) ([], [])
   in fst (snd run) = [] \<and> fst (fst run) \<noteq> None \<and>
      GetReason APIServiceExportRequest_setter (snd (fst run)) APIServiceExportRequestConditionExportsReady = ''BoundSchemaNotFound''"
  by code_simp

end
