(* ===== verification/Backend_Service_Export.thy ===== *)
theory Backend_Service_Export
  imports Backend_Export_Request Indexers
begin

text \<open>
  The APIServiceExport controller of the backend (\<open>backend/controllers/serviceexport\<close>): it keeps the
  hash of the exported schemas in an annotation of the export and reports when both agree.
\<close>

section \<open>Reconciler\<close>

record 'w export_reconciler =
  xr_scope :: InformerScope
  xr_getBoundSchema :: "string \<Rightarrow> string \<Rightarrow> ('w, BoundSchema) call"
  xr_encodeSchema :: "BoundSchema \<Rightarrow> go_error + string"
  xr_sha256_hex :: "string \<Rightarrow> string"

text \<open>The loop over the resources ends with the schemas or with the error and the name of the schema it is about.\<close>

fun read_schemas :: "'w export_reconciler \<Rightarrow> string \<Rightarrow> APIServiceExportRequestResource list \<Rightarrow>
    ('w, (string \<times> go_error) + BoundSchema list) io" where
  "read_schemas r ns [] = State_Monad.return (Inr [])"
| "read_schemas r ns (res # rest) = do {
     g \<leftarrow> xr_getBoundSchema r ns (ResourceGroupName res);
     (case g of
        Inl e \<Rightarrow> State_Monad.return (Inl (ResourceGroupName res, e))
      | Inr s \<Rightarrow> do {
          more \<leftarrow> read_schemas r ns rest;
          State_Monad.return (case more of Inl x \<Rightarrow> Inl x | Inr ss \<Rightarrow> Inr (s # ss)) }) }"

definition hash_annotation :: "APIServiceExport \<Rightarrow> string" where
  "hash_annotation export = (case fmlookup (om_Annotations (ex_Meta export)) SourceSpecHashAnnotationKey of None \<Rightarrow> '''' | Some h \<Rightarrow> h)"

definition annotate :: "string \<Rightarrow> APIServiceExport \<Rightarrow> APIServiceExport" where
  "annotate hash export = export\<lparr>ex_Meta := (ex_Meta export)\<lparr>
     om_Annotations := fmupd SourceSpecHashAnnotationKey hash (om_Annotations (ex_Meta export))\<rparr>\<rparr>"

definition compare_hash :: "'w export_reconciler \<Rightarrow> time \<Rightarrow> BoundSchema list \<Rightarrow> APIServiceExport \<Rightarrow> err \<times> APIServiceExport" where
  "compare_hash r now schemas export =
     (case BoundSchemasSpecHash (xr_encodeSchema r) (xr_sha256_hex r) schemas of
        Inl e \<Rightarrow> (Some e, export)
      | Inr hash \<Rightarrow>
          (if hash_annotation export \<noteq> hash then (None, annotate hash export)
           else (None, MarkTrue APIServiceExport_setter now export APIServiceExportConditionProviderInSync)))"

definition ensureSchema :: "'w export_reconciler \<Rightarrow> time \<Rightarrow> APIServiceExport \<Rightarrow> ('w, err \<times> APIServiceExport) io" where
  "ensureSchema r now export = do {
     g \<leftarrow> read_schemas r (om_Namespace (ex_Meta export)) (exs_Resources (ex_Spec export));
     State_Monad.return
       (case g of
          Inl (name, e) \<Rightarrow>
            (if IsNotFound e then
               (None, MarkFalse APIServiceExport_setter now export APIServiceExportConditionProviderInSync ''BoundSchemaMissing''
                  ConditionSeverityError (''BoundSchema '' @ quoted name @ '' is not available: '' @ Error e))
             else (Some e, export))
        | Inr schemas \<Rightarrow> compare_hash r now schemas export) }"

definition ensureClusterPermissions :: "'w export_reconciler \<Rightarrow> APIServiceExport \<Rightarrow> ('w, err) io" where
  "ensureClusterPermissions r export = State_Monad.return None"

definition reconcile_export :: "'w export_reconciler \<Rightarrow> time \<Rightarrow> APIServiceExport \<Rightarrow> ('w, err \<times> APIServiceExport) io" where
  "reconcile_export r now export = do {
     res \<leftarrow> ensureSchema r now export;
     e \<leftarrow> (if xr_scope r = ClusterScope then ensureClusterPermissions r (snd res) else State_Monad.return None);
     State_Monad.return (NewAggregate (errs_append (errs_append [] (fst res)) e), snd res) }"

section \<open>Controller\<close>

record 'w export_cluster =
  xl_Get :: "string \<Rightarrow> string \<Rightarrow> ('w, APIServiceExport) call"
  xl_Update :: "APIServiceExport \<Rightarrow> ('w, err) io"
  xl_UpdateStatus :: "APIServiceExport \<Rightarrow> ('w, err) io"
  xl_ListByBoundSchema :: "string \<Rightarrow> ('w, APIServiceExport list) call"
  xl_reconciler :: "'w export_reconciler"

text \<open>The boolean is \<open>Requeue\<close>.\<close>

definition Reconcile_export :: "(string \<Rightarrow> ('w, 'w export_cluster) call) \<Rightarrow> time \<Rightarrow> Request \<Rightarrow> ('w, bool \<times> err) io" where
  "Reconcile_export getCluster now req = do {
     c \<leftarrow> getCluster (rq_Cluster req);
     (case c of
        Inl e \<Rightarrow> State_Monad.return (False, Some (Errorf (''failed to get client for cluster '' @ quoted (rq_Cluster req)) (Some e)))
      | Inr cl \<Rightarrow> do {
          g \<leftarrow> xl_Get cl (rq_Namespace req) (rq_Name req);
          (case g of
             Inl e \<Rightarrow> State_Monad.return (False,
               if IsNotFound e then None else Some (Errorf ''failed to get APIServiceExport'' (Some e)))
           | Inr original \<Rightarrow> do {
               res \<leftarrow> reconcile_export (xl_reconciler cl) now original;
               (case fst res of
                  Some e \<Rightarrow> State_Monad.return (False, Some e)
                | None \<Rightarrow>
                    (if om_Annotations (ex_Meta original) \<noteq> om_Annotations (ex_Meta (snd res)) then do {
                       u \<leftarrow> xl_Update cl (snd res);
                       State_Monad.return (case u of
                          Some x \<Rightarrow> (False, Some (Errorf ''failed to update APIServiceExport'' (Some x)))
                        | None \<Rightarrow> (True, None)) }
                     else if ex_Conditions original \<noteq> ex_Conditions (snd res) then do {
                       u \<leftarrow> xl_UpdateStatus cl (snd res);
                       State_Monad.return (False, map_option (\<lambda>x. Errorf ''failed to update APIServiceExport status'' (Some x)) u) }
                     else State_Monad.return (False, None))) }) }) }"

definition export_requests :: "string \<Rightarrow> go_error + APIServiceExport list \<Rightarrow> Request list" where
  "export_requests clusterName l = (case l of Inl _ \<Rightarrow> []
     | Inr items \<Rightarrow> map (\<lambda>x. \<lparr>rq_Cluster = clusterName, rq_Namespace = om_Namespace (ex_Meta x), rq_Name = om_Name (ex_Meta x)\<rparr>) items)"

definition getExportBoundSchemaMapper :: "string \<Rightarrow> 'w export_cluster \<Rightarrow> BoundSchema \<Rightarrow> ('w, Request list) io" where
  "getExportBoundSchemaMapper clusterName cl s = do {
     l \<leftarrow> xl_ListByBoundSchema cl (crn_Plural (bss_Names (bs_Spec s)) @ ''.'' @ bss_Group (bs_Spec s));
     State_Monad.return (export_requests clusterName l) }"

section \<open>Exports made for requests are in sync\<close>

lemma run_collect_schemas:
  assumes "\<And>n w. run_state (getBoundSchema r (om_Namespace (er_Meta req)) n) w = (Inr (schema n), w)"
  shows "run_state (collect_schemas r now rs acc req) w = (Inr (acc @ map (\<lambda>res. schema (ResourceGroupName res)) rs), w)"
  by (induction rs arbitrary: acc w) (simp_all add: assms)

lemma run_read_schemas:
  assumes "\<And>n w. run_state (xr_getBoundSchema r ns n) w = (Inr (schema n), w)"
  shows "run_state (read_schemas r ns rs) w = (Inr (map (\<lambda>res. schema (ResourceGroupName res)) rs), w)"
  by (induction rs arbitrary: w) (simp_all add: assms)

lemma hash_annotation_new [simp]: "hash_annotation (new_export r req sc hash) = hash"
  by (simp add: hash_annotation_def new_export_def)

lemma new_export_simps [simp]:
  "om_Namespace (ex_Meta (new_export r req sc hash)) = om_Namespace (er_Meta req)"
  "map ResourceGroupName (exs_Resources (ex_Spec (new_export r req sc hash))) = map ResourceGroupName (ers_Resources (er_Spec req))"
  "ex_Conditions (new_export r req sc hash) = []"
  by (simp_all add: new_export_def ResourceGroupName_def)

lemma collect_schemas_fixed:
  assumes "\<And>n w. fst (run_state (getBoundSchema r (om_Namespace (er_Meta req)) n) w) = Inr (schema n)"
    and "\<And>x e. CreatedExport x e \<notin> set tr"
  shows "wp (collect_schemas (traced r) now rs acc req) (\<lambda>c (_, tr').
     c = Inr (acc @ map (\<lambda>res. schema (ResourceGroupName res)) rs) \<and> (\<forall>x e. CreatedExport x e \<notin> set tr')) (w, tr)"
  using assms(2)
proof (induction rs arbitrary: acc w tr)
  case Nil
  then show ?case by (auto intro: wp_return)
next
  case (Cons res rs)
  have got: "g = Inr (schema n)" if "run_state (getBoundSchema r (om_Namespace (er_Meta req)) n) v = (g, v')" for g n v v'
    using assms(1) [of n v] that by simp
  show ?case unfolding collect_schemas.simps request_traced_simps
  proof (intro wp_bind wp_logged wp_sum, goal_cases)
    case (2 g w1 s)
    then have "s = schema (ResourceGroupName res)" using got by blast
    then show ?case using Cons.IH [of "tr @ [GotSchema (om_Namespace (er_Meta req)) (ResourceGroupName res) g]" "acc @ [s]" w1] Cons.prems
      by simp
  qed (use got in blast)
qed

text \<open>An export is created with the hash of the schemas that were read.\<close>

lemma created_export_hash:
  assumes "\<And>n w. fst (run_state (getBoundSchema r (om_Namespace (er_Meta req)) n) w) = Inr (schema n)"
  shows "wp (ensureExports (traced r) now req) (\<lambda>_ (_, tr). \<forall>x e. CreatedExport x e \<in> set tr \<longrightarrow>
     (\<exists>sc hash. x = new_export r req sc hash \<and>
        BoundSchemasSpecHash (encodeSchema r) (sha256_hex r) (map (\<lambda>res. schema (ResourceGroupName res)) (ers_Resources (er_Spec req))) = Inr hash)) (w, [])"
proof -
  let ?S = "map (\<lambda>res. schema (ResourceGroupName res)) (ers_Resources (er_Spec req))"
  define ok where "ok tr \<longleftrightarrow> (\<forall>x e. CreatedExport x e \<in> set tr \<longrightarrow> (\<exists>sc hash. x = new_export r req sc hash \<and>
      BoundSchemasSpecHash (encodeSchema r) (sha256_hex r) ?S = Inr hash))" for tr :: "'b event list"
  have old: "wp (delete_old (traced r) now req') (\<lambda>_ (_, tr'). ok tr') (v, tr)" if "ok tr" for req' v tr
    using that unfolding delete_old_def request_traced_simps by (intro wp_if wp_bind wp_logged wp_return) (auto simp: ok_def)
  have create: "wp (create_export (traced r) now ?S req) (\<lambda>_ (_, tr'). ok tr') (v, tr)" if "ok tr" for v tr
    unfolding create_export_def request_traced_simps traced_values
    by (intro wp_sum wp_bind wp_logged wp_option wp_return old) (use that in \<open>auto simp: ok_def\<close>)
  have "wp (ensureExports (traced r) now req) (\<lambda>_ (_, tr). ok tr) (w, [])" unfolding ensureExports_def
  proof (intro wp_if, goal_cases)
    case 1
    show ?case
    proof (rule wp_chain [OF collect_schemas_fixed [OF assms]], simp, goal_cases)
      case (1 c s)
      then show ?case unfolding request_traced_simps
        by (cases s) (auto simp: ok_def [of "_ @ _"] intro!: wp_bind wp_logged wp_sum wp_return wp_if create)
    qed
  qed (auto simp: ok_def [of "[]"] intro: old)
  then show ?thesis by (simp add: ok_def)
qed

text \<open>
  C39. The two controllers of the backend agree on the hash: an export that the request controller
  creates is in sync when the export controller first sees it, as long as the schemas are the
  same. No annotation changes, so nothing is requeued, and ProviderInSync becomes true.
\<close>

theorem created_export_in_sync:
  assumes "\<And>n w. fst (run_state (getBoundSchema r (om_Namespace (er_Meta req)) n) w) = Inr (schema n)"
    and "\<And>n v. run_state (xr_getBoundSchema r' (om_Namespace (er_Meta req)) n) v = (Inr (schema n), v)"
    and "xr_encodeSchema r' = encodeSchema r" and "xr_sha256_hex r' = sha256_hex r"
    and "run_state (ensureExports (traced r) now req) (w, []) = (res, (w', tr))" and "CreatedExport x None \<in> set tr"
    and "run_state (reconcile_export r' now' x) v = ((e, x'), v')"
  shows "e = None \<and> ex_Meta x' = ex_Meta x \<and> IsTrue APIServiceExport_setter x' APIServiceExportConditionProviderInSync"
proof -
  let ?S = "map (\<lambda>res. schema (ResourceGroupName res)) (ers_Resources (er_Spec req))"
  obtain sc hash where x: "x = new_export r req sc hash"
    and hash: "BoundSchemasSpecHash (encodeSchema r) (sha256_hex r) ?S = Inr hash"
    using wpD [OF created_export_hash [OF assms(1)] assms(5)] assms(6) by auto
  have "map (\<lambda>res. schema (ResourceGroupName res)) (exs_Resources (ex_Spec x)) = ?S"
    unfolding x by (simp add: new_export_def ResourceGroupName_def)
  then have "run_state (read_schemas r' (om_Namespace (ex_Meta x)) (exs_Resources (ex_Spec x))) v = (Inr ?S, v)"
    using run_read_schemas [of r' "om_Namespace (ex_Meta x)" schema] assms(2) x by simp
  then have "x' = MarkTrue APIServiceExport_setter now' x APIServiceExportConditionProviderInSync \<and> e = None"
    using assms(3,4,7) hash x
    by (auto simp: reconcile_export_def ensureSchema_def compare_hash_def ensureClusterPermissions_def NewAggregate_def errs_append_def split: if_splits)
  moreover have "exp.unique_types x" unfolding exp.unique_types_def by (simp add: x APIServiceExport_setter_def)
  ultimately show ?thesis using exp.IsTrue_MarkTrue
    by (auto simp: MarkTrue_def Set_def APIServiceExport_setter_def)
qed

section \<open>Example\<close>

definition fixed_reconciler :: "(provider, BoundSchema) reconciler" where
  "fixed_reconciler = (example_reconciler [])\<lparr>getBoundSchema := \<lambda>_ n. State_Monad.return (Inr (schema_of ''g'' n))\<rparr>"

definition fixed_export_reconciler :: "nat export_reconciler" where
  "fixed_export_reconciler = \<lparr>xr_scope = NamespacedScope, xr_getBoundSchema = (\<lambda>_ n. State_Monad.return (Inr (schema_of ''g'' n))),
     xr_encodeSchema = encodeSchema fixed_reconciler, xr_sha256_hex = sha256_hex fixed_reconciler\<rparr>"

definition fixed_request :: APIServiceExportRequest where
  "fixed_request = example_request ''g'' ''foos'' [''v1'']"

definition fixed_export :: APIServiceExport where
  "fixed_export = hd (snd (fst (snd (run_state (ensureExports (traced fixed_reconciler) (9 * Minute + 1) fixed_request) (([], []), [])))))"

theorem created_export_in_sync_witness:
  "let run = run_state (reconcile_export fixed_export_reconciler 9 fixed_export) 0
   in fst (fst run) = None \<and> ex_Meta (snd (fst run)) = ex_Meta fixed_export \<and>
      IsTrue APIServiceExport_setter (snd (fst run)) APIServiceExportConditionProviderInSync"
proof -
  let ?run = "run_state (reconcile_export fixed_export_reconciler 9 fixed_export) 0"
  let ?exports = "run_state (ensureExports (traced fixed_reconciler) (9 * Minute + 1) fixed_request) (([], []), [])"
  have created: "CreatedExport fixed_export None \<in> set (snd (snd ?exports))" by code_simp
  have "fst (fst ?run) = None \<and> ex_Meta (snd (fst ?run)) = ex_Meta fixed_export \<and>
      IsTrue APIServiceExport_setter (snd (fst ?run)) APIServiceExportConditionProviderInSync"
    by (rule created_export_in_sync [where r = fixed_reconciler and r' = fixed_export_reconciler and req = fixed_request and
          schema = "schema_of ''g''" and tr = "snd (snd ?exports)" and w' = "fst (snd ?exports)" and res = "fst ?exports" and
          v' = "snd ?run" and now' = 9])
      (use created in \<open>simp_all add: fixed_reconciler_def fixed_export_reconciler_def\<close>)
  then show ?thesis by (simp add: Let_def)
qed

section \<open>Deviations\<close>

text \<open>
  The mapper looks for exports by \<open>plural.group\<close>, the index has \<open>plural.core\<close> for the core group, so a
  change of such a schema reaches no export.
\<close>

lemma core_schema_unmapped:
  "let s = schema_of '''' ''pods''; x = new_export fixed_reconciler (example_request '''' ''pods'' []) RS_NamespaceScoped ''h''
   in ByIndex IndexServiceExportByBoundSchemaControllerRuntime (crn_Plural (bss_Names (bs_Spec s)) @ ''.'' @ bss_Group (bs_Spec s)) [x] = []"
  by code_simp

text \<open>
  The request controller looks for the requests of an export by its namespace and name; the index has
  the names of the requested resources there, so a change of the export reaches its request only if
  the request is named like a resource.
\<close>

lemma request_of_export_unmapped:
  "ByIndex IndexServiceExportRequestByServiceExport
     (om_Namespace (ex_Meta fixed_export) @ ''/'' @ om_Name (ex_Meta fixed_export)) [fixed_request] = []"
  by code_simp

end
