(* ===== verification/Base64.thy ===== *)
theory Base64
  imports Prelude
begin

text \<open>
  Package \<open>encoding/base64\<close> as the sources use it: the standard and the URL alphabet, with padding
  (\<open>StdEncoding\<close>, \<open>URLEncoding\<close>) and without (\<open>RawURLEncoding\<close>). Strings are byte strings; a decoder
  ignores line breaks and reports the first illegal character or a missing end as an error.
\<close>

section \<open>Encoding\<close>

definition std_alphabet :: string where
  "std_alphabet = ''ABCDEFGHIJKLMNOPQRSTUVWXYZabcdefghijklmnopqrstuvwxyz0123456789+/''"

definition url_alphabet :: string where
  "url_alphabet = ''ABCDEFGHIJKLMNOPQRSTUVWXYZabcdefghijklmnopqrstuvwxyz0123456789-_''"

fun sextets :: "nat list \<Rightarrow> nat list" where
  "sextets [] = []"
| "sextets [a] = [a div 4, a mod 4 * 16]"
| "sextets [a, b] = [a div 4, a mod 4 * 16 + b div 16, b mod 16 * 4]"
| "sextets (a # b # c # rest) =
     a div 4 # (a mod 4 * 16 + b div 16) # (b mod 16 * 4 + c div 64) # c mod 64 # sextets rest"

definition byte_values :: "string \<Rightarrow> nat list" where
  "byte_values s = map of_char s"

definition EncodeToString :: "string \<Rightarrow> bool \<Rightarrow> string \<Rightarrow> string" where
  "EncodeToString alphabet padded s =
     map ((!) alphabet) (sextets (byte_values s)) @
     (if padded then replicate ((3 - length s mod 3) mod 3) (CHR ''='') else [])"

section \<open>Decoding\<close>

definition CorruptInputError :: go_error where
  "CorruptInputError = Errorf ''illegal base64 data'' None"

definition sextet_of :: "string \<Rightarrow> char \<Rightarrow> nat option" where
  "sextet_of alphabet c = map_of (zip alphabet [0..<64]) c"

fun bytes_of_sextets :: "nat list \<Rightarrow> nat list option" where
  "bytes_of_sextets [] = Some []"
| "bytes_of_sextets [p, q] = Some [p * 4 + q div 16]"
| "bytes_of_sextets [p, q, r] = Some [p * 4 + q div 16, q mod 16 * 16 + r div 4]"
| "bytes_of_sextets (p # q # r # s # rest) =
     map_option (\<lambda>bs. (p * 4 + q div 16) # (q mod 16 * 16 + r div 4) # (r mod 4 * 64 + s) # bs) (bytes_of_sextets rest)"
| "bytes_of_sextets _ = None"

text \<open>
  The digits before the padding. With padding the input must come in groups of four, and one or two
  padding characters may end the last group; without, there is none.
\<close>

definition digits :: "bool \<Rightarrow> string \<Rightarrow> string option" where
  "digits padded s =
     (if \<not> padded then Some s
      else if length s mod 4 \<noteq> 0 then None
      else if length s \<ge> 2 \<and> drop (length s - 2) s = ''=='' then Some (take (length s - 2) s)
      else if length s \<ge> 1 \<and> drop (length s - 1) s = ''='' then Some (take (length s - 1) s)
      else Some s)"

definition DecodeString :: "string \<Rightarrow> bool \<Rightarrow> string \<Rightarrow> go_error + string" where
  "DecodeString alphabet padded s =
     (case digits padded (filter (\<lambda>c. c \<noteq> CHR 0x0A \<and> c \<noteq> CHR 0x0D) s) of
        None \<Rightarrow> Inl CorruptInputError
      | Some ds \<Rightarrow>
          (if list_all (\<lambda>c. sextet_of alphabet c \<noteq> None) ds then
             (case bytes_of_sextets (map (\<lambda>c. the (sextet_of alphabet c)) ds) of
                None \<Rightarrow> Inl CorruptInputError
              | Some bs \<Rightarrow> Inr (map char_of bs))
           else Inl CorruptInputError))"

section \<open>Round trip\<close>

lemma alphabet_facts:
  "length std_alphabet = 64" "length url_alphabet = 64" "distinct std_alphabet" "distinct url_alphabet"
  "CHR ''='' \<notin> set std_alphabet" "CHR ''='' \<notin> set url_alphabet"
  "set std_alphabet \<inter> {CHR 0x0A, CHR 0x0D} = {}" "set url_alphabet \<inter> {CHR 0x0A, CHR 0x0D} = {}"
  by code_simp+

lemma sextet_bounds:
  assumes "a < 256" "b < 256" "c < (256::nat)"
  shows "a div 4 < 64" "a mod 4 * 16 + b div 16 < 64" "b mod 16 * 4 + c div 64 < 64" "c mod 64 < 64"
    "a mod 4 * 16 < 64" "b mod 16 * 4 < 64"
proof -
  have "a mod 4 < 4" "b mod 16 < 16" "b div 16 < 16" "c div 64 < 4"
    using assms by (simp_all add: less_mult_imp_div_less)
  then show "a div 4 < 64" "a mod 4 * 16 + b div 16 < 64" "b mod 16 * 4 + c div 64 < 64" "c mod 64 < 64"
    "a mod 4 * 16 < 64" "b mod 16 * 4 < 64" using assms by (simp_all add: less_mult_imp_div_less)
qed

lemma byte_groups:
  assumes "a < 256" "b < 256" "c < (256::nat)"
  shows "a div 4 * 4 + (a mod 4 * 16 + b div 16) div 16 = a"
    "(a mod 4 * 16 + b div 16) mod 16 * 16 + (b mod 16 * 4 + c div 64) div 4 = b"
    "(b mod 16 * 4 + c div 64) mod 4 * 64 + c mod 64 = c"
    "a div 4 * 4 + a mod 4 * 16 div 16 = a" "(a mod 4 * 16 + b div 16) mod 16 * 16 + b mod 16 * 4 div 4 = b"
proof -
  have "b div 16 < 16" "c div 64 < 4" using assms by (simp_all add: less_mult_imp_div_less)
  then have "(a mod 4 * 16 + b div 16) div 16 = a mod 4" "(a mod 4 * 16 + b div 16) mod 16 = b div 16"
    "(b mod 16 * 4 + c div 64) div 4 = b mod 16" "(b mod 16 * 4 + c div 64) mod 4 = c div 64" by simp_all
  then show "a div 4 * 4 + (a mod 4 * 16 + b div 16) div 16 = a"
    "(a mod 4 * 16 + b div 16) mod 16 * 16 + (b mod 16 * 4 + c div 64) div 4 = b"
    "(b mod 16 * 4 + c div 64) mod 4 * 64 + c mod 64 = c"
    "a div 4 * 4 + a mod 4 * 16 div 16 = a" "(a mod 4 * 16 + b div 16) mod 16 * 16 + b mod 16 * 4 div 4 = b"
    by simp_all
qed

lemma sextets_bound: "(\<And>b. b \<in> set bs \<Longrightarrow> b < 256) \<Longrightarrow> n \<in> set (sextets bs) \<Longrightarrow> n < 64"
proof (induction bs rule: sextets.induct)
  case (2 a)
  then show ?case using sextet_bounds [of a 0 0] by auto
next
  case (3 a b)
  then show ?case using sextet_bounds [of a b 0] by auto
next
  case (4 a b c rest)
  then show ?case using sextet_bounds [of a b c] by auto
qed simp

lemma bytes_of_sextets_inverse:
  "(\<And>b. b \<in> set bs \<Longrightarrow> b < 256) \<Longrightarrow> bytes_of_sextets (sextets bs) = Some bs"
proof (induction bs rule: sextets.induct)
  case (2 a)
  then show ?case using byte_groups [of a 0 0] by simp
next
  case (3 a b)
  then show ?case using byte_groups [of a b 0] by (simp del: mod_mult_self3)
next
  case (4 a b c rest)
  then have "bytes_of_sextets (sextets rest) = Some rest" and "a < 256" "b < 256" "c < 256" by auto
  then show ?case by (simp only: sextets.simps bytes_of_sextets.simps option.map byte_groups)
qed simp

lemma length_sextets: "length (sextets bs) = (4 * length bs + 2) div 3"
  by (induction bs rule: sextets.induct) auto

lemma sextet_of_nth: "distinct alphabet \<Longrightarrow> length alphabet = 64 \<Longrightarrow> n < 64 \<Longrightarrow> sextet_of alphabet (alphabet ! n) = Some n"
  by (simp add: sextet_of_def map_of_zip_nth)

text \<open>The digits of an encoded string are what precedes the padding.\<close>

lemma digits_encoded:
  assumes "CHR ''='' \<notin> set ds" and "length ds = (4 * n + 2) div 3"
  shows "digits True (ds @ replicate ((3 - n mod 3) mod 3) (CHR ''='')) = Some ds"
proof -
  define k r where "k = n div 3" and "r = n mod 3"
  have n: "n = 3 * k + r" "r < 3" unfolding k_def r_def by simp_all
  have no: "CHR ''='' \<notin> set (drop j ds)" for j using assms(1) by (meson in_set_dropD)
  have div: "(4 * (3 * k) + 2) div 3 = 4 * k" "(4 * (3 * k + 1) + 2) div 3 = 4 * k + 2" "(4 * (3 * k + 2) + 2) div 3 = 4 * k + 3"
    by presburger+
  consider "r = 0" | "r = 1" | "r = 2" using n(2) by linarith
  then show ?thesis
  proof cases
    case 1
    then have "length ds = 4 * k" using assms(2) n div(1) by (metis add_0_right)
    then have "length ds mod 4 = 0" by simp
    moreover have "drop j ds \<noteq> ''==''" "drop j ds \<noteq> ''=''" for j using no [of j] by auto
    moreover have "replicate ((3 - n mod 3) mod 3) (CHR ''='') = []" using 1 r_def by simp
    ultimately show ?thesis by (simp add: digits_def)
  next
    case 2
    then have "length ds = 4 * k + 2" using assms(2) n div(2) by metis
    then have "(length ds + 2) mod 4 = 0" by simp
    moreover have "replicate ((3 - n mod 3) mod 3) (CHR ''='') = ''==''" using 2 r_def by (simp add: numeral_2_eq_2)
    ultimately show ?thesis by (simp add: digits_def)
  next
    case 3
    then have len: "length ds = 4 * k + 3" using assms(2) n div(3) by metis
    then have "(length ds + 1) mod 4 = 0" by simp
    moreover have "drop (length ds - 1) ds @ ''='' \<noteq> ''==''" using no [of "length ds - 1"] len
      by (cases "drop (length ds - 1) ds") auto
    moreover have "replicate ((3 - n mod 3) mod 3) (CHR ''='') = ''=''" using 3 r_def by simp
    ultimately show ?thesis using len by (simp add: digits_def)
  qed
qed

text \<open>The two alphabets as the package requires them.\<close>

definition alphabet_ok :: "string \<Rightarrow> bool" where
  "alphabet_ok a \<longleftrightarrow> length a = 64 \<and> distinct a \<and> CHR ''='' \<notin> set a \<and> CHR 0x0A \<notin> set a \<and> CHR 0x0D \<notin> set a"

lemma alphabets_ok: "alphabet_ok std_alphabet" "alphabet_ok url_alphabet"
  by code_simp+

lemma byte_values_bound: "b \<in> set (byte_values s) \<Longrightarrow> b < 256"
  by (auto simp: byte_values_def)

lemma encoded_bound: "n \<in> set (sextets (byte_values s)) \<Longrightarrow> n < 64"
  by (rule sextets_bound) (auto intro: byte_values_bound)

lemma encoded_digits:
  assumes "alphabet_ok a"
  shows "digits padded (filter (\<lambda>c. c \<noteq> CHR 0x0A \<and> c \<noteq> CHR 0x0D) (EncodeToString a padded s)) =
    Some (map ((!) a) (sextets (byte_values s)))"
proof -
  let ?ds = "map ((!) a) (sextets (byte_values s))"
  have sub: "set ?ds \<subseteq> set a"
    using encoded_bound [of _ s] assms by (auto simp: alphabet_ok_def)
  then have nl: "filter (\<lambda>c. c \<noteq> CHR 0x0A \<and> c \<noteq> CHR 0x0D) ?ds = ?ds"
    using assms by (intro filter_True) (auto simp: alphabet_ok_def)
  have "CHR ''='' \<notin> set ?ds" using sub assms by (auto simp: alphabet_ok_def)
  moreover have "length ?ds = (4 * length s + 2) div 3" by (simp add: length_sextets byte_values_def)
  ultimately have "digits True (?ds @ replicate ((3 - length s mod 3) mod 3) (CHR ''='')) = Some ?ds"
    by (intro digits_encoded)
  moreover have "digits False ?ds = Some ?ds" by (simp add: digits_def)
  ultimately show ?thesis using nl by (cases padded) (simp_all add: EncodeToString_def)
qed

lemma sextet_of_encoded:
  assumes "alphabet_ok a"
  shows "list_all (\<lambda>c. sextet_of a c \<noteq> None) (map ((!) a) (sextets (byte_values s)))"
    and "map (\<lambda>c. the (sextet_of a c)) (map ((!) a) (sextets (byte_values s))) = sextets (byte_values s)"
proof -
  have "sextet_of a (a ! n) = Some n" if "n \<in> set (sextets (byte_values s))" for n
    using sextet_of_nth [of a n] encoded_bound [OF that] assms by (simp add: alphabet_ok_def)
  then show "list_all (\<lambda>c. sextet_of a c \<noteq> None) (map ((!) a) (sextets (byte_values s)))"
    and "map (\<lambda>c. the (sextet_of a c)) (map ((!) a) (sextets (byte_values s))) = sextets (byte_values s)"
    by (auto simp: list_all_iff intro: map_idI)
qed

lemma decode_encode:
  assumes "alphabet_ok a"
  shows "DecodeString a padded (EncodeToString a padded s) = Inr s"
proof -
  have "bytes_of_sextets (sextets (byte_values s)) = Some (byte_values s)"
    by (rule bytes_of_sextets_inverse) (rule byte_values_bound)
  moreover have "map char_of (byte_values s) = s" by (simp add: byte_values_def comp_def)
  ultimately show ?thesis using encoded_digits [OF assms, of padded s] sextet_of_encoded [OF assms, of s]
    by (simp add: DecodeString_def del: map_map)
qed

text \<open>The standard decoder on the URL alphabet: it succeeds exactly if the last two digits do not occur.\<close>

lemma alphabets_agree: "n < 62 \<Longrightarrow> url_alphabet ! n = std_alphabet ! n"
proof -
  have "\<forall>n < 62. url_alphabet ! n = std_alphabet ! n" by code_simp
  then show "n < 62 \<Longrightarrow> url_alphabet ! n = std_alphabet ! n" by blast
qed

lemma std_decodes_url:
  "DecodeString std_alphabet True (EncodeToString url_alphabet True s) =
     (if list_all (\<lambda>n. n < 62) (sextets (byte_values s)) then Inr s else Inl CorruptInputError)"
proof (cases "list_all (\<lambda>n. n < 62) (sextets (byte_values s))")
  case True
  then have "map ((!) url_alphabet) (sextets (byte_values s)) = map ((!) std_alphabet) (sextets (byte_values s))"
    using alphabets_agree by (simp add: list_all_iff)
  then have "EncodeToString url_alphabet True s = EncodeToString std_alphabet True s" by (simp add: EncodeToString_def)
  then show ?thesis using decode_encode [OF alphabets_ok(1)] True by simp
next
  case False
  then obtain n where n: "n \<in> set (sextets (byte_values s))" "\<not> n < 62" by (auto simp: list_all_iff)
  then have "n = 62 \<or> n = 63" using encoded_bound [OF n(1)] by linarith
  moreover have "sextet_of std_alphabet (url_alphabet ! 62) = None" "sextet_of std_alphabet (url_alphabet ! 63) = None" by code_simp+
  ultimately have "\<not> list_all (\<lambda>c. sextet_of std_alphabet c \<noteq> None) (map ((!) url_alphabet) (sextets (byte_values s)))"
    using n(1) by (auto simp: list_all_iff)
  then show ?thesis using encoded_digits [OF alphabets_ok(2), of True s] False
    by (simp add: DecodeString_def del: map_map)
qed

end
