(* ===== verification/Backend_Manager.thy ===== *)
theory Backend_Manager
  imports Rbac Konnector Indexers
begin

text \<open>
  What the backend does when a user binds (\<open>backend/kubernetes\<close>): it finds or creates the namespace of
  the user's identity, and in it the ClusterBinding, the service account, its token and the
  kubeconfig secret for the konnector. Encoding of kubeconfigs and reading of files are parameters,
  as is the number of polls and of retries that the timeouts of client-go allow.
\<close>

section \<open>Namespaces of identities\<close>

definition IdentityAnnotationKey :: string where "IdentityAnnotationKey = ''backend.kube-bind.io/identity''"
definition legacyIdentityAnnotationKey :: string where "legacyIdentityAnnotationKey = ''example-backend.kube-bind.io/identity''"

text \<open>
  A failed creation also gives the name that the object has then; the index answers for one identity.
\<close>

record 'w manager_client =
  mc_ListNamespacesByIdentity :: "string \<Rightarrow> ('w, Namespace list) call"
  mc_CreateNamespace :: "string \<Rightarrow> (string, string) fmap \<Rightarrow> ('w, (go_error \<times> string) + Namespace) io"
  mc_GetNamespace :: "string \<Rightarrow> ('w, Namespace) call"
  mc_PatchNamespace :: "Namespace \<Rightarrow> Namespace \<Rightarrow> ('w, Namespace) call"
  mc_GetClusterBinding :: "string \<Rightarrow> string \<Rightarrow> ('w, ClusterBinding) call"
  mc_CreateClusterBinding :: "ClusterBinding \<Rightarrow> ('w, err) io"
  mc_GetSecret :: "string \<Rightarrow> string \<Rightarrow> ('w, Secret) call"
  mc_CreateSecret :: "Secret \<Rightarrow> ('w, err) io"
  mc_UpdateSecret :: "Secret \<Rightarrow> ('w, err) io"
  mc_setup :: "'w setup_client"

definition IndexNamespacesByIdentity :: "Namespace option \<Rightarrow> string list" where
  "IndexNamespacesByIdentity obj =
     (case obj of
        None \<Rightarrow> []
      | Some ns \<Rightarrow> (case fmlookup (om_Annotations (nsp_Meta ns)) IdentityAnnotationKey of Some i \<Rightarrow> [i] | None \<Rightarrow> []))"

definition annotation :: "Namespace \<Rightarrow> string \<Rightarrow> string" where
  "annotation ns key = (case fmlookup (om_Annotations (nsp_Meta ns)) key of Some v \<Rightarrow> v | None \<Rightarrow> '''')"

definition migrate_annotations :: "string \<Rightarrow> Namespace \<Rightarrow> Namespace" where
  "migrate_annotations i ns = ns\<lparr>nsp_Meta := (nsp_Meta ns)\<lparr>om_Annotations :=
     fmdrop legacyIdentityAnnotationKey (fmupd IdentityAnnotationKey i (om_Annotations (nsp_Meta ns)))\<rparr>\<rparr>"

definition handleLegacyAnnotations :: "'w manager_client \<Rightarrow> Namespace \<Rightarrow> string \<Rightarrow> ('w, Namespace) call" where
  "handleLegacyAnnotations cl ns i =
     (case fmlookup (om_Annotations (nsp_Meta ns)) legacyIdentityAnnotationKey of
        Some legacyValue \<Rightarrow>
          (if fmlookup (om_Annotations (nsp_Meta ns)) IdentityAnnotationKey \<noteq> Some i \<and> legacyValue = i
           then mc_PatchNamespace cl ns (migrate_annotations i ns)
           else State_Monad.return (Inr ns))
      | None \<Rightarrow> State_Monad.return (Inr ns))"

definition CreateNamespace :: "'w manager_client \<Rightarrow> string \<Rightarrow> string \<Rightarrow> ('w, Namespace) call" where
  "CreateNamespace cl generateName i = do {
     k \<leftarrow> mc_CreateNamespace cl (if HasSuffix generateName ''-'' then generateName else generateName @ ''-'')
            (fmupd IdentityAnnotationKey i fmempty);
     (case k of
        Inr ns \<Rightarrow> State_Monad.return (Inr ns)
      | Inl (e, name) \<Rightarrow>
          (if \<not> IsAlreadyExists e then State_Monad.return (Inl e)
           else do {
             g \<leftarrow> mc_GetNamespace cl name;
             (case g of
                Inl e' \<Rightarrow> State_Monad.return (Inl e')
              | Inr ns \<Rightarrow>
                  (if annotation ns IdentityAnnotationKey \<noteq> i \<and> annotation ns legacyIdentityAnnotationKey \<noteq> i
                   then State_Monad.return (Inl (StatusError ReasonAlreadyExists (om_Name (nsp_Meta ns))))
                   else handleLegacyAnnotations cl ns i)) })) }"

section \<open>Objects in the namespace\<close>

definition CreateClusterBinding :: "'w manager_client \<Rightarrow> string \<Rightarrow> string \<Rightarrow> string \<Rightarrow> ('w, err) io" where
  "CreateClusterBinding cl ns secretName providerPrettyName =
     mc_CreateClusterBinding cl \<lparr>
       cb_Kind = '''', cb_Meta = zero_ObjectMeta\<lparr>om_Name := ''cluster'', om_Namespace := ns\<rparr>,
       cb_Spec = \<lparr>cbs_KubeconfigSecretRef = \<lparr>lsk_Name = secretName, lsk_Key = ''kubeconfig''\<rparr>,
         cbs_ProviderPrettyName = providerPrettyName, cbs_ServiceProviderSpec = None\<rparr>,
       cb_Status = \<lparr>cbt_LastHeartbeatTime = 0, cbt_HeartbeatInterval = 0, cbt_KonnectorVersion = '''', cbt_Conditions = []\<rparr>\<rparr>"

definition sa_secret :: "string \<Rightarrow> string \<Rightarrow> Secret" where
  "sa_secret ns saName = \<lparr>sec_Meta = zero_ObjectMeta\<lparr>om_Name := saName, om_Namespace := ns,
       om_Annotations := fmupd ''kubernetes.io/service-account.name'' saName fmempty\<rparr>,
     sec_Data = fmempty, sec_Type = ''kubernetes.io/service-account-token''\<rparr>"

definition CreateSASecret :: "'w manager_client \<Rightarrow> string \<Rightarrow> string \<Rightarrow> ('w, Secret) call" where
  "CreateSASecret cl ns saName = do {
     g \<leftarrow> mc_GetSecret cl ns saName;
     (case g of
        Inr s \<Rightarrow> State_Monad.return (Inr s)
      | Inl e \<Rightarrow>
          (if IsNotFound e then do {
             e' \<leftarrow> mc_CreateSecret cl (sa_secret ns saName);
             State_Monad.return (case e' of Some x \<Rightarrow> Inl x | None \<Rightarrow> Inr (sa_secret ns saName)) }
           else State_Monad.return (Inl e))) }"

section \<open>Kubeconfigs\<close>

record rest_config =
  rc_Host :: string
  rc_CAData :: string
  rc_CAFile :: string

record kube_cluster =
  kcl_Server :: string
  kcl_TLSServerName :: string
  kcl_CertificateAuthorityData :: "string option"

record kube_context =
  kcx_Cluster :: string
  kcx_Namespace :: string
  kcx_AuthInfo :: string

record client_config =
  cf_Clusters :: "(string, kube_cluster) fmap"
  cf_Contexts :: "(string, kube_context) fmap"
  cf_AuthInfos :: "(string, string) fmap"
  cf_CurrentContext :: string

record 'w kubeconfig_env =
  ke_address :: "(rest_config \<Rightarrow> go_error + string) option"
  ke_externalCA :: "string option"
  ke_externalTLSServerName :: string
  ke_readFile :: "string \<Rightarrow> ('w, string) call"
  ke_write :: "client_config \<Rightarrow> go_error + string"
  ke_polls :: nat
  ke_retries :: nat

definition DefaultExternalAddreesGenerator :: "rest_config \<Rightarrow> go_error + string" where
  "DefaultExternalAddreesGenerator clusterConfig = Inr (rc_Host clusterConfig)"

definition external_ca :: "'w kubeconfig_env \<Rightarrow> rest_config \<Rightarrow> ('w, string option) call" where
  "external_ca env clusterConfig =
     (case ke_externalCA env of
        Some ca \<Rightarrow> State_Monad.return (Inr (Some ca))
      | None \<Rightarrow>
          (if rc_CAData clusterConfig \<noteq> '''' then State_Monad.return (Inr (Some (rc_CAData clusterConfig)))
           else if rc_CAFile clusterConfig \<noteq> '''' then do {
             f \<leftarrow> ke_readFile env (rc_CAFile clusterConfig);
             State_Monad.return (case f of
                Inl e \<Rightarrow> Inl (Errorf (''failed to read CA file at '' @ rc_CAFile clusterConfig) (Some e))
              | Inr ca \<Rightarrow> Inr (Some ca)) }
           else State_Monad.return (Inr None)))"

fun poll_token :: "'w manager_client \<Rightarrow> string \<Rightarrow> string \<Rightarrow> nat \<Rightarrow> ('w, Secret) call" where
  "poll_token cl ns name 0 = State_Monad.return (Inl (Errorf ''context deadline exceeded'' None))"
| "poll_token cl ns name (Suc polls) = do {
     g \<leftarrow> mc_GetSecret cl ns name;
     (case g of
        Inl e \<Rightarrow> (if IsNotFound e then poll_token cl ns name polls else State_Monad.return (Inl e))
      | Inr s \<Rightarrow>
          (if fmlookup (sec_Data s) ''token'' \<noteq> None \<and> fmlookup (sec_Data s) ''ca.crt'' \<noteq> None
           then State_Monad.return (Inr s) else poll_token cl ns name polls)) }"

definition token_of :: "Secret \<Rightarrow> string" where
  "token_of s = (case fmlookup (sec_Data s) ''token'' of Some t \<Rightarrow> t | None \<Rightarrow> '''')"

definition new_config :: "string \<Rightarrow> string \<Rightarrow> string option \<Rightarrow> string \<Rightarrow> string \<Rightarrow> client_config" where
  "new_config externalAddress tlsServerName ca ns token = \<lparr>
     cf_Clusters = fmupd ''default'' \<lparr>kcl_Server = externalAddress, kcl_TLSServerName = tlsServerName,
       kcl_CertificateAuthorityData = ca\<rparr> fmempty,
     cf_Contexts = fmupd ''default'' \<lparr>kcx_Cluster = ''default'', kcx_Namespace = ns, kcx_AuthInfo = ''default''\<rparr> fmempty,
     cf_AuthInfos = fmupd ''default'' token fmempty,
     cf_CurrentContext = ''default''\<rparr>"

definition kubeconfig_secret :: "string \<Rightarrow> string \<Rightarrow> string \<Rightarrow> Secret" where
  "kubeconfig_secret ns name kubeconfig = \<lparr>sec_Meta = zero_ObjectMeta\<lparr>om_Name := name, om_Namespace := ns\<rparr>,
     sec_Data = fmupd ''kubeconfig'' kubeconfig fmempty, sec_Type = ''''\<rparr>"

text \<open>\<open>retry.RetryOnConflict\<close>: a conflict is tried again until the steps are used up.\<close>

fun retry_update :: "'w manager_client \<Rightarrow> Secret \<Rightarrow> go_error \<Rightarrow> nat \<Rightarrow> ('w, Secret) call" where
  "retry_update cl want lastErr 0 = State_Monad.return (Inl lastErr)"
| "retry_update cl want lastErr (Suc steps) = do {
     g \<leftarrow> mc_GetSecret cl (om_Namespace (sec_Meta want)) (om_Name (sec_Meta want));
     (case g of
        Inl e \<Rightarrow> (if IsConflict e then retry_update cl want e steps else State_Monad.return (Inl e))
      | Inr existing \<Rightarrow>
          (let existing' = existing\<lparr>sec_Data := sec_Data want\<rparr>
           in do {
             u \<leftarrow> mc_UpdateSecret cl existing';
             (case u of
                None \<Rightarrow> State_Monad.return (Inr existing')
              | Some e \<Rightarrow> (if IsConflict e then retry_update cl want e steps else State_Monad.return (Inl e))) })) }"

definition store_kubeconfig :: "'w manager_client \<Rightarrow> nat \<Rightarrow> Secret \<Rightarrow> ('w, Secret) call" where
  "store_kubeconfig cl steps want = do {
     e \<leftarrow> mc_CreateSecret cl want;
     (case e of
        None \<Rightarrow> State_Monad.return (Inr want)
      | Some x \<Rightarrow>
          (if \<not> IsAlreadyExists x then State_Monad.return (Inl x)
           else retry_update cl want (Errorf ''timed out waiting for the condition'' None) steps)) }"

definition GenerateKubeconfig :: "'w manager_client \<Rightarrow> 'w kubeconfig_env \<Rightarrow> rest_config \<Rightarrow> string \<Rightarrow> string \<Rightarrow> string \<Rightarrow> ('w, Secret) call" where
  "GenerateKubeconfig cl env clusterConfig saSecretName ns kubeconfigSecretName =
     (case (case ke_address env of None \<Rightarrow> DefaultExternalAddreesGenerator | Some f \<Rightarrow> f) clusterConfig of
        Inl e \<Rightarrow> State_Monad.return (Inl (Errorf ''failed to generate external address'' (Some e)))
      | Inr externalAddress \<Rightarrow> do {
          c \<leftarrow> external_ca env clusterConfig;
          (case c of
             Inl e \<Rightarrow> State_Monad.return (Inl e)
           | Inr ca \<Rightarrow> do {
               s \<leftarrow> poll_token cl ns saSecretName (ke_polls env);
               (case s of
                  Inl e \<Rightarrow> State_Monad.return (Inl e)
                | Inr saSecret \<Rightarrow>
                    (case ke_write env (new_config externalAddress (ke_externalTLSServerName env) ca ns (token_of saSecret)) of
                       Inl e \<Rightarrow> State_Monad.return (Inl (Errorf ''failed to encode kubeconfig'' (Some e)))
                     | Inr kubeconfig \<Rightarrow>
                         store_kubeconfig cl (ke_retries env) (kubeconfig_secret ns kubeconfigSecretName kubeconfig))) }) })"

section \<open>Manager\<close>

record 'w manager =
  m_namespacePrefix :: string
  m_providerPrettyName :: string
  m_env :: "'w kubeconfig_env"
  m_GetCluster :: "string \<Rightarrow> ('w, 'w manager_client \<times> rest_config) call"

definition identity_namespace :: "'w manager \<Rightarrow> 'w manager_client \<Rightarrow> string \<Rightarrow> ('w, string) call" where
  "identity_namespace m cl identity = do {
     l \<leftarrow> mc_ListNamespacesByIdentity cl identity;
     (case l of
        Inl e \<Rightarrow> State_Monad.return (Inl e)
      | Inr [] \<Rightarrow> do {
          n \<leftarrow> CreateNamespace cl (m_namespacePrefix m) identity;
          State_Monad.return (case n of Inl e \<Rightarrow> Inl e | Inr ns \<Rightarrow> Inr (om_Name (nsp_Meta ns))) }
      | Inr [ns] \<Rightarrow> State_Monad.return (Inr (om_Name (nsp_Meta ns)))
      | Inr _ \<Rightarrow> State_Monad.return (Inl (Errorf (''found multiple namespaces for identity '' @ quoted identity) None))) }"

text \<open>The name of the kubeconfig secret, from an existing ClusterBinding or with a new one.\<close>

definition binding_secret_name :: "'w manager \<Rightarrow> 'w manager_client \<Rightarrow> string \<Rightarrow> ('w, string) call" where
  "binding_secret_name m cl ns = do {
     g \<leftarrow> mc_GetClusterBinding cl ns ''cluster'';
     (case g of
        Inr cb \<Rightarrow> State_Monad.return (Inr (lsk_Name (cbs_KubeconfigSecretRef (cb_Spec cb))))
      | Inl e \<Rightarrow>
          (if IsNotFound e then do {
             e' \<leftarrow> CreateClusterBinding cl ns ''kubeconfig'' (m_providerPrettyName m);
             State_Monad.return (case e' of Some x \<Rightarrow> Inl x | None \<Rightarrow> Inr ''kubeconfig'') }
           else State_Monad.return (Inl e))) }"

definition HandleResources :: "'w manager \<Rightarrow> string \<Rightarrow> string \<Rightarrow> ('w, string) call" where
  "HandleResources m identity cluster' = do {
     c \<leftarrow> m_GetCluster m cluster';
     (case c of
        Inl e \<Rightarrow> State_Monad.return (Inl e)
      | Inr (cl, config) \<Rightarrow> do {
          n \<leftarrow> identity_namespace m cl identity;
          (case n of
             Inl e \<Rightarrow> State_Monad.return (Inl e)
           | Inr ns \<Rightarrow> do {
               b \<leftarrow> binding_secret_name m cl ns;
               (case b of
                  Inl e \<Rightarrow> State_Monad.return (Inl e)
                | Inr kubeconfigSecretName \<Rightarrow> do {
                    sa \<leftarrow> CreateServiceAccount (mc_setup cl) ns ServiceAccountName;
                    (case snd sa of
                       Some e \<Rightarrow> State_Monad.return (Inl e)
                     | None \<Rightarrow> do {
                         r \<leftarrow> EnsureBinderClusterRole (mc_setup cl);
                         (case r of
                            Some e \<Rightarrow> State_Monad.return (Inl e)
                          | None \<Rightarrow> do {
                              s \<leftarrow> CreateSASecret cl ns (om_Name (sa_Meta (fst sa)));
                              (case s of
                                 Inl e \<Rightarrow> State_Monad.return (Inl e)
                               | Inr saSecret \<Rightarrow> do {
                                   k \<leftarrow> GenerateKubeconfig cl (m_env m) config (om_Name (sec_Meta saSecret)) ns kubeconfigSecretName;
                                   State_Monad.return (case k of
                                      Inl e \<Rightarrow> Inl e
                                    | Inr kfgSecret \<Rightarrow> Inr (case fmlookup (sec_Data kfgSecret) ''kubeconfig'' of Some x \<Rightarrow> x | None \<Rightarrow> '''')) }) }) }) }) }) }) }"

text \<open>The functions that list and get through the client of a cluster.\<close>

definition with_cluster :: "(string \<Rightarrow> ('w, 'c) call) \<Rightarrow> string \<Rightarrow> ('c \<Rightarrow> ('w, 'a) call) \<Rightarrow> ('w, 'a) call" where
  "with_cluster getCluster cluster' f = do {
     c \<leftarrow> getCluster cluster';
     (case c of Inl e \<Rightarrow> State_Monad.return (Inl e) | Inr cl \<Rightarrow> f cl) }"

record ('w, 'sel, 'crd, 'col, 'tpl) list_client =
  lc_ListCRDs :: "'sel \<Rightarrow> ('w, 'crd list) call"
  lc_ListCollections :: "('w, 'col list) call"
  lc_GetTemplate :: "string \<Rightarrow> ('w, 'tpl) call"
  lc_List :: "string \<Rightarrow> string \<Rightarrow> string \<Rightarrow> 'sel option \<Rightarrow> ('w, unstructured list) call"

definition ListCustomResourceDefinitions :: "(string \<Rightarrow> ('w, ('w, 'sel, 'crd, 'col, 'tpl) list_client) call) \<Rightarrow> string \<Rightarrow> 'sel \<Rightarrow> ('w, 'crd list) call" where
  "ListCustomResourceDefinitions getCluster cluster' selector = with_cluster getCluster cluster' (\<lambda>c. lc_ListCRDs c selector)"

definition ListCollections :: "(string \<Rightarrow> ('w, ('w, 'sel, 'crd, 'col, 'tpl) list_client) call) \<Rightarrow> string \<Rightarrow> ('w, 'col list) call" where
  "ListCollections getCluster cluster' = with_cluster getCluster cluster' lc_ListCollections"

definition GetTemplates :: "(string \<Rightarrow> ('w, ('w, 'sel, 'crd, 'col, 'tpl) list_client) call) \<Rightarrow> string \<Rightarrow> string \<Rightarrow> ('w, 'tpl) call" where
  "GetTemplates getCluster cluster' name = with_cluster getCluster cluster' (\<lambda>c. lc_GetTemplate c name)"

definition ListDynamicResources :: "(string \<Rightarrow> ('w, ('w, 'sel, 'crd, 'col, 'tpl) list_client) call) \<Rightarrow> string \<Rightarrow>
    string \<Rightarrow> string \<Rightarrow> string \<Rightarrow> 'sel option \<Rightarrow> ('w, unstructured list) call" where
  "ListDynamicResources getCluster cluster' kind version group' selector =
     with_cluster getCluster cluster' (\<lambda>c. lc_List c (if HasSuffix kind ''List'' then kind else kind @ ''List'') version group' selector)"

section \<open>What a bind may write\<close>

datatype bind_event =
    ListedNamespaces "go_error + Namespace list"
  | CreatedNamespace "(string, string) fmap" "(go_error \<times> string) + Namespace"
  | GotNamespace "go_error + Namespace"
  | PatchedNamespace Namespace Namespace "go_error + Namespace"
  | GotClusterBinding string string "go_error + ClusterBinding"
  | CreatedClusterBinding ClusterBinding err
  | GotSecret string string "go_error + Secret"
  | CreatedSecret Secret err
  | UpdatedSecret Secret err
  | GotServiceAccount
  | CreatedServiceAccount ServiceAccount err
  | GotClusterRole "go_error + Role"
  | WroteClusterRole Role err

definition traced_setup :: "'w setup_client \<Rightarrow> ('w \<times> bind_event list) setup_client" where
  "traced_setup cl = \<lparr>
     sc_GetServiceAccount = (\<lambda>ns n. logged (\<lambda>_. GotServiceAccount) (sc_GetServiceAccount cl ns n)),
     sc_CreateServiceAccount = (\<lambda>sa. logged (CreatedServiceAccount sa) (sc_CreateServiceAccount cl sa)),
     sc_GetClusterRole = (\<lambda>n. logged GotClusterRole (sc_GetClusterRole cl n)),
     sc_CreateClusterRole = (\<lambda>r. logged (WroteClusterRole r) (sc_CreateClusterRole cl r)),
     sc_UpdateClusterRole = (\<lambda>r. logged (WroteClusterRole r) (sc_UpdateClusterRole cl r))\<rparr>"

definition traced :: "'w manager_client \<Rightarrow> ('w \<times> bind_event list) manager_client" where
  "traced cl = \<lparr>
     mc_ListNamespacesByIdentity = (\<lambda>i. logged ListedNamespaces (mc_ListNamespacesByIdentity cl i)),
     mc_CreateNamespace = (\<lambda>g a. logged (CreatedNamespace a) (mc_CreateNamespace cl g a)),
     mc_GetNamespace = (\<lambda>n. logged GotNamespace (mc_GetNamespace cl n)),
     mc_PatchNamespace = (\<lambda>a b. logged (PatchedNamespace a b) (mc_PatchNamespace cl a b)),
     mc_GetClusterBinding = (\<lambda>ns n. logged (GotClusterBinding ns n) (mc_GetClusterBinding cl ns n)),
     mc_CreateClusterBinding = (\<lambda>b. logged (CreatedClusterBinding b) (mc_CreateClusterBinding cl b)),
     mc_GetSecret = (\<lambda>ns n. logged (GotSecret ns n) (mc_GetSecret cl ns n)),
     mc_CreateSecret = (\<lambda>s. logged (CreatedSecret s) (mc_CreateSecret cl s)),
     mc_UpdateSecret = (\<lambda>s. logged (UpdatedSecret s) (mc_UpdateSecret cl s)),
     mc_setup = traced_setup (mc_setup cl)\<rparr>"

lemma bind_traced_simps:
  "mc_ListNamespacesByIdentity (traced cl) i = logged ListedNamespaces (mc_ListNamespacesByIdentity cl i)"
  "mc_CreateNamespace (traced cl) g a = logged (CreatedNamespace a) (mc_CreateNamespace cl g a)"
  "mc_GetNamespace (traced cl) n = logged GotNamespace (mc_GetNamespace cl n)"
  "mc_PatchNamespace (traced cl) x y = logged (PatchedNamespace x y) (mc_PatchNamespace cl x y)"
  "mc_GetClusterBinding (traced cl) ns n = logged (GotClusterBinding ns n) (mc_GetClusterBinding cl ns n)"
  "mc_CreateClusterBinding (traced cl) b = logged (CreatedClusterBinding b) (mc_CreateClusterBinding cl b)"
  "mc_GetSecret (traced cl) ns n = logged (GotSecret ns n) (mc_GetSecret cl ns n)"
  "mc_CreateSecret (traced cl) s = logged (CreatedSecret s) (mc_CreateSecret cl s)"
  "mc_UpdateSecret (traced cl) s = logged (UpdatedSecret s) (mc_UpdateSecret cl s)"
  "sc_GetServiceAccount (mc_setup (traced cl)) ns n = logged (\<lambda>_. GotServiceAccount) (sc_GetServiceAccount (mc_setup cl) ns n)"
  "sc_CreateServiceAccount (mc_setup (traced cl)) sa = logged (CreatedServiceAccount sa) (sc_CreateServiceAccount (mc_setup cl) sa)"
  "sc_GetClusterRole (mc_setup (traced cl)) n = logged GotClusterRole (sc_GetClusterRole (mc_setup cl) n)"
  "sc_CreateClusterRole (mc_setup (traced cl)) r = logged (WroteClusterRole r) (sc_CreateClusterRole (mc_setup cl) r)"
  "sc_UpdateClusterRole (mc_setup (traced cl)) r = logged (WroteClusterRole r) (sc_UpdateClusterRole (mc_setup cl) r)"
  by (simp_all add: traced_def traced_setup_def)

text \<open>
  The namespace of an identity, as far as the calls so far tell: found by the index, created for it,
  or found under the name and carrying the identity in one of the two annotations.
\<close>

definition identified :: "string \<Rightarrow> Namespace \<Rightarrow> bool" where
  "identified i ns \<longleftrightarrow> annotation ns IdentityAnnotationKey = i \<or> annotation ns legacyIdentityAnnotationKey = i"

definition owned :: "string \<Rightarrow> bind_event list \<Rightarrow> string \<Rightarrow> bool" where
  "owned i h ns \<longleftrightarrow> (\<exists>n. om_Name (nsp_Meta n) = ns \<and>
     (ListedNamespaces (Inr [n]) \<in> set h \<or>
      CreatedNamespace (fmupd IdentityAnnotationKey i fmempty) (Inr n) \<in> set h \<or>
      GotNamespace (Inr n) \<in> set h \<and> identified i n \<or>
      (\<exists>old. PatchedNamespace old (migrate_annotations i old) (Inr n) \<in> set h \<and> identified i old)))"

fun bind_policy :: "string \<Rightarrow> bind_event list \<Rightarrow> bind_event \<Rightarrow> bool" where
  "bind_policy i h (CreatedNamespace a _) = (ListedNamespaces (Inr []) \<in> set h \<and> a = fmupd IdentityAnnotationKey i fmempty)"
| "bind_policy i h (PatchedNamespace old new _) = (GotNamespace (Inr old) \<in> set h \<and> identified i old \<and> new = migrate_annotations i old)"
| "bind_policy i h (CreatedClusterBinding b _) = (owned i h (om_Namespace (cb_Meta b)) \<and>
     (\<exists>e. GotClusterBinding (om_Namespace (cb_Meta b)) ''cluster'' (Inl e) \<in> set h \<and> IsNotFound e))"
| "bind_policy i h (CreatedSecret s _) = owned i h (om_Namespace (sec_Meta s))"
| "bind_policy i h (UpdatedSecret s _) = (\<exists>ns n old d. owned i h ns \<and> GotSecret ns n (Inr old) \<in> set h \<and> s = old\<lparr>sec_Data := d\<rparr>)"
| "bind_policy i h (CreatedServiceAccount sa _) = (owned i h (om_Namespace (sa_Meta sa)) \<and> om_Name (sa_Meta sa) = ServiceAccountName)"
| "bind_policy i h (WroteClusterRole r _) = (ro_Rules r = binder_rules \<and>
     (om_Name (ro_Meta r) = ''kube-binder'' \<or> (\<exists>old. GotClusterRole (Inr old) \<in> set h \<and> r = old\<lparr>ro_Rules := binder_rules\<rparr>)))"
| "bind_policy i h _ = True"

abbreviation bind_ok :: "string \<Rightarrow> bind_event list \<Rightarrow> bool" where
  "bind_ok i \<equiv> guarded (bind_policy i) []"

lemma owned_mono: "owned i h ns \<Longrightarrow> set h \<subseteq> set h' \<Longrightarrow> owned i h' ns"
  unfolding owned_def by blast

lemma owned_append [simp]: "owned i h ns \<Longrightarrow> owned i (h @ us) ns"
  by (rule owned_mono) auto

lemma handleLegacyAnnotations_ok:
  assumes "bind_ok i tr" and "GotNamespace (Inr ns) \<in> set tr" and "identified i ns"
  shows "wp (handleLegacyAnnotations (traced cl) ns i) (\<lambda>g (_, tr'). bind_ok i tr' \<and>
    (\<forall>n. g = Inr n \<longrightarrow> owned i tr' (om_Name (nsp_Meta n)))) (w, tr)"
  unfolding handleLegacyAnnotations_def bind_traced_simps
  by (intro wp_option wp_if wp_logged wp_return) (use assms in \<open>auto simp: owned_def\<close>)

lemma CreateNamespace_ok:
  assumes "bind_ok i tr" and "ListedNamespaces (Inr []) \<in> set tr"
  shows "wp (CreateNamespace (traced cl) g i) (\<lambda>r (_, tr'). bind_ok i tr' \<and>
    (\<forall>n. r = Inr n \<longrightarrow> owned i tr' (om_Name (nsp_Meta n)))) (w, tr)"
  unfolding CreateNamespace_def bind_traced_simps
  by (intro wp_bind wp_logged wp_sum wp_prod wp_if wp_return handleLegacyAnnotations_ok)
    (use assms in \<open>auto simp: guarded_append owned_def identified_def\<close>)

lemma identity_namespace_ok:
  "wp (identity_namespace m (traced cl) i) (\<lambda>r (_, tr'). bind_ok i tr' \<and> (\<forall>ns. r = Inr ns \<longrightarrow> owned i tr' ns)) (w, [])"
proof -
  have one: "wp (do { n \<leftarrow> CreateNamespace (traced cl) (m_namespacePrefix m) i;
      State_Monad.return (case n of Inl e \<Rightarrow> Inl e | Inr ns \<Rightarrow> Inr (om_Name (nsp_Meta ns))) })
      (\<lambda>r (_, tr'). bind_ok i tr' \<and> (\<forall>ns. r = Inr ns \<longrightarrow> owned i tr' ns)) (w1, [ListedNamespaces (Inr [])])" for w1
    by (rule wp_chain [OF CreateNamespace_ok], simp, simp, rule wp_return) (auto split: sum.splits)
  have listed: "owned i [ListedNamespaces (Inr [n])] (om_Name (nsp_Meta n))" for n by (auto simp: owned_def)
  show ?thesis unfolding identity_namespace_def bind_traced_simps
    by (intro wp_bind wp_logged) (auto simp: listed intro!: wp_return one split: sum.split list.split)
qed

lemma binding_secret_name_ok:
  assumes "bind_ok i tr" and "owned i tr ns"
  shows "wp (binding_secret_name m (traced cl) ns) (\<lambda>r (_, tr'). bind_ok i tr' \<and> owned i tr' ns) (w, tr)"
  unfolding binding_secret_name_def CreateClusterBinding_def bind_traced_simps
  by (intro wp_bind wp_logged wp_sum wp_if wp_return) (use assms in \<open>auto simp: guarded_append\<close>)

lemma CreateServiceAccount_ok:
  assumes "bind_ok i tr" and "owned i tr ns"
  shows "wp (CreateServiceAccount (mc_setup (traced cl)) ns ServiceAccountName) (\<lambda>r (_, tr'). bind_ok i tr' \<and> owned i tr' ns) (w, tr)"
  unfolding CreateServiceAccount_def bind_traced_simps Let_def
  by (intro wp_bind wp_logged wp_sum wp_if wp_return) (use assms in \<open>auto simp: guarded_append\<close>)

lemma EnsureBinderClusterRole_ok:
  assumes "bind_ok i tr" and "owned i tr ns"
  shows "wp (EnsureBinderClusterRole (mc_setup (traced cl))) (\<lambda>r (_, tr'). bind_ok i tr' \<and> owned i tr' ns) (w, tr)"
  unfolding EnsureBinderClusterRole_def bind_traced_simps Let_def
  by (intro wp_bind wp_logged wp_sum wp_if wp_return) (use assms in \<open>auto simp: guarded_append\<close>)

lemma CreateSASecret_ok:
  assumes "bind_ok i tr" and "owned i tr ns"
  shows "wp (CreateSASecret (traced cl) ns n) (\<lambda>r (_, tr'). bind_ok i tr' \<and> owned i tr' ns) (w, tr)"
  unfolding CreateSASecret_def bind_traced_simps
  by (intro wp_bind wp_logged wp_sum wp_if wp_return) (use assms in \<open>auto simp: guarded_append sa_secret_def\<close>)

lemma poll_token_ok:
  assumes "bind_ok i tr" and "owned i tr ns"
  shows "wp (poll_token (traced cl) ns n polls) (\<lambda>r (_, tr'). bind_ok i tr' \<and> owned i tr' ns) (w, tr)"
  using assms
proof (induction polls arbitrary: w tr)
  case (Suc polls)
  show ?case unfolding poll_token.simps bind_traced_simps
    by (intro wp_bind wp_logged wp_sum wp_if wp_return Suc.IH) (use Suc.prems in auto)
qed (auto intro: wp_return)

lemma retry_update_ok:
  assumes "bind_ok i tr" and "owned i tr (om_Namespace (sec_Meta want))"
  shows "wp (retry_update (traced cl) want e steps) (\<lambda>r (_, tr'). bind_ok i tr' \<and> owned i tr' (om_Namespace (sec_Meta want)) \<and>
    (\<forall>s. r = Inr s \<longrightarrow> sec_Data s = sec_Data want)) (w, tr)"
  using assms
proof (induction steps arbitrary: w tr e)
  case (Suc steps)
  have "bind_policy i (tr @ [GotSecret (om_Namespace (sec_Meta want)) (om_Name (sec_Meta want)) (Inr s)])
      (UpdatedSecret (s\<lparr>sec_Data := sec_Data want\<rparr>) x)" for s x
    using Suc.prems(2) by (fastforce intro: owned_append)
  then show ?case unfolding retry_update.simps bind_traced_simps Let_def
    by (intro wp_bind wp_logged wp_sum wp_if wp_option wp_return Suc.IH)
      (use Suc.prems in \<open>auto simp: guarded_append simp del: bind_policy.simps(5)\<close>)
qed (auto intro: wp_return)

text \<open>Calls that write nothing are not recorded.\<close>

definition traced_env :: "'w kubeconfig_env \<Rightarrow> ('w \<times> bind_event list) kubeconfig_env" where
  "traced_env e = \<lparr>ke_address = ke_address e, ke_externalCA = ke_externalCA e, ke_externalTLSServerName = ke_externalTLSServerName e,
     ke_readFile = (\<lambda>f. unlogged (ke_readFile e f)), ke_write = ke_write e, ke_polls = ke_polls e, ke_retries = ke_retries e\<rparr>"

definition traced_manager :: "'w manager \<Rightarrow> ('w \<times> bind_event list) manager" where
  "traced_manager m = \<lparr>m_namespacePrefix = m_namespacePrefix m, m_providerPrettyName = m_providerPrettyName m,
     m_env = traced_env (m_env m),
     m_GetCluster = (\<lambda>c. do {
       g \<leftarrow> unlogged (m_GetCluster m c);
       State_Monad.return (case g of Inl e \<Rightarrow> Inl e | Inr (cl, config) \<Rightarrow> Inr (traced cl, config)) })\<rparr>"

text \<open>The kubeconfig that a user gets leads to a namespace.\<close>

definition leads_to :: "(client_config \<Rightarrow> go_error + string) \<Rightarrow> string \<Rightarrow> string \<Rightarrow> bool" where
  "leads_to enc kubeconfig ns \<longleftrightarrow> (\<exists>addr tls ca token. enc (new_config addr tls ca ns token) = Inr kubeconfig)"

lemma store_kubeconfig_ok:
  assumes "bind_ok i tr" and "owned i tr (om_Namespace (sec_Meta want))"
  shows "wp (store_kubeconfig (traced cl) steps want) (\<lambda>r (_, tr'). bind_ok i tr' \<and> owned i tr' (om_Namespace (sec_Meta want)) \<and>
    (\<forall>s. r = Inr s \<longrightarrow> sec_Data s = sec_Data want)) (w, tr)"
  unfolding store_kubeconfig_def bind_traced_simps
  by (intro wp_bind wp_logged wp_option wp_if wp_return retry_update_ok) (use assms in auto)

lemma external_ca_ok:
  assumes "Q tr"
  shows "wp (external_ca (traced_env env) config) (\<lambda>_ (_, tr'). Q tr') (w, tr)"
  unfolding external_ca_def traced_env_def
  by (auto intro!: wp_bind wp_unlogged wp_return simp: assms split: option.split)

lemma GenerateKubeconfig_ok:
  assumes "bind_ok i tr" and "owned i tr ns"
  shows "wp (GenerateKubeconfig (traced cl) (traced_env env) config saName ns name) (\<lambda>r (_, tr'). bind_ok i tr' \<and> owned i tr' ns \<and>
    (\<forall>s. r = Inr s \<longrightarrow> (\<exists>k. fmlookup (sec_Data s) ''kubeconfig'' = Some k \<and> leads_to (ke_write env) k ns))) (w, tr)"
proof -
  let ?Q = "\<lambda>r (_, tr'). bind_ok i tr' \<and> owned i tr' ns \<and>
    (\<forall>s. r = Inr s \<longrightarrow> (\<exists>k. fmlookup (sec_Data s) ''kubeconfig'' = Some k \<and> leads_to (ke_write env) k ns))"
  have store: "wp (store_kubeconfig (traced cl) steps (kubeconfig_secret ns name k)) ?Q (v, us)"
    if "bind_ok i us \<and> owned i us ns" "leads_to (ke_write env) k ns" for v us k steps
    by (rule wp_weaken [OF store_kubeconfig_ok [of i]]) (use that in \<open>auto simp: kubeconfig_secret_def\<close>)
  have env: "ke_write (traced_env env) = ke_write env" by (simp add: traced_env_def)
  have written: "leads_to (ke_write env) k ns" if "ke_write env (new_config addr tls ca ns t) = Inr k" for addr tls ca t k
    using that by (auto simp: leads_to_def)
  have tail: "wp (do {
       s \<leftarrow> poll_token (traced cl) ns saName polls;
       (case s of
          Inl e \<Rightarrow> State_Monad.return (Inl e)
        | Inr saSecret \<Rightarrow>
            (case ke_write env (new_config addr tls ca ns (token_of saSecret)) of
               Inl e \<Rightarrow> State_Monad.return (Inl (Errorf ''failed to encode kubeconfig'' (Some e)))
             | Inr kubeconfig \<Rightarrow> store_kubeconfig (traced cl) steps (kubeconfig_secret ns name kubeconfig))) }) ?Q (v, us)"
    if "bind_ok i us \<and> owned i us ns" for v us polls steps addr tls ca
  proof (rule wp_chain [OF poll_token_ok [of i us ns]], use that in blast, use that in blast, clarsimp, goal_cases)
    case (1 s v' us')
    then show ?case by (intro wp_sum wp_return store written) auto
  qed
  show ?thesis unfolding GenerateKubeconfig_def env
    by (intro wp_sum wp_return wp_chain [OF external_ca_ok [of "\<lambda>us. bind_ok i us \<and> owned i us ns"]])
      (use assms in \<open>auto intro!: wp_return tail split: sum.split\<close>)
qed

section \<open>Binding\<close>

lemma HandleResources_ok:
  "wp (HandleResources (traced_manager m) identity cluster') (\<lambda>r (_, tr). bind_ok identity tr \<and>
     (\<forall>k. r = Inr k \<longrightarrow> (\<exists>ns. owned identity tr ns \<and> leads_to (ke_write (m_env m)) k ns))) (w, [])"
proof -
  let ?Q = "\<lambda>r (_, tr). bind_ok identity tr \<and> (\<forall>k. r = Inr k \<longrightarrow> (\<exists>ns. owned identity tr ns \<and> leads_to (ke_write (m_env m)) k ns))"
  have generate: "wp (do {
       k \<leftarrow> GenerateKubeconfig (traced cl) (traced_env (m_env m)) config sa ns name;
       State_Monad.return (case k of Inl e \<Rightarrow> Inl e
         | Inr s \<Rightarrow> Inr (case fmlookup (sec_Data s) ''kubeconfig'' of Some x \<Rightarrow> x | None \<Rightarrow> '''')) }) ?Q (v, us)"
    if "bind_ok identity us \<and> owned identity us ns" for cl config sa ns name v us
    by (rule wp_chain [OF GenerateKubeconfig_ok], use that in blast, use that in blast, rule wp_return)
      (auto split: sum.splits, blast)
  have get: "m_GetCluster (traced_manager m) c = State_Monad.bind (unlogged (m_GetCluster m c)) (\<lambda>g.
      State_Monad.return (case g of Inl e \<Rightarrow> Inl e | Inr (cl, config) \<Rightarrow> Inr (traced cl, config)))" for c
    by (simp add: traced_manager_def)
  have env: "m_env (traced_manager m) = traced_env (m_env m)" by (simp add: traced_manager_def)
  show ?thesis
    unfolding HandleResources_def get env
    apply (rule wp_bind, rule wp_bind, rule wp_unlogged, rule wp_return, rule wp_sum, (auto intro!: wp_return)[1])
    apply (rule wp_prod, clarsimp split: sum.splits prod.splits)
    apply (rule wp_chain [OF identity_namespace_ok [of _ _ identity]], clarsimp)
    apply (rule wp_sum, (auto intro!: wp_return)[1])
    apply (rule wp_chain [OF binding_secret_name_ok [of identity]], simp, simp, clarsimp)
    apply (rule wp_sum, (auto intro!: wp_return)[1])
    apply (rule wp_chain [OF CreateServiceAccount_ok [of identity]], simp, assumption, clarsimp)
    apply (rule wp_option [rotated], (auto intro!: wp_return)[1])
    apply (rule wp_chain [OF EnsureBinderClusterRole_ok [of identity]], simp, assumption, clarsimp)
    apply (rule wp_option [rotated], (auto intro!: wp_return)[1])
    apply (rule wp_chain [OF CreateSASecret_ok [of identity]], simp, assumption, clarsimp)
    apply (rule wp_sum, (auto intro!: wp_return)[1])
    apply (rule generate [unfolded Let_def], blast)
    done
qed


text \<open>References within a kubeconfig resolve; what is documented of clientcmd: \<open>Load\<close> reads what \<open>Write\<close> wrote.\<close>

definition config_wf :: "client_config \<Rightarrow> bool" where
  "config_wf c \<longleftrightarrow> (case fmlookup (cf_Contexts c) (cf_CurrentContext c) of
     None \<Rightarrow> False
   | Some ctx \<Rightarrow> fmlookup (cf_Clusters c) (kcx_Cluster ctx) \<noteq> None \<and> fmlookup (cf_AuthInfos c) (kcx_AuthInfo ctx) \<noteq> None)"

definition clientcmd_documented :: "kubeconfig_api \<Rightarrow> (client_config \<Rightarrow> go_error + string) \<Rightarrow> bool" where
  "clientcmd_documented ka enc \<longleftrightarrow> (\<forall>c k. enc c = Inr k \<longrightarrow>
     ka_Load ka k = Inr \<lparr>kc_CurrentContext = cf_CurrentContext c, kc_Contexts = fmmap kcx_Namespace (cf_Contexts c)\<rparr> \<and>
     (config_wf c \<longrightarrow> ka_RESTConfig ka k = None))"


section \<open>Example\<close>

text \<open>
  A provider whose world is the list of its secrets. Kubeconfigs are encoded by their namespace; the token
  controller is as fast as the creation of the secret.
\<close>

definition example_namespace :: Namespace where
  "example_namespace = \<lparr>nsp_Meta = zero_ObjectMeta\<lparr>om_Name := ''kube-bind-abc'',
     om_Annotations := fmupd IdentityAnnotationKey ''user'' fmempty\<rparr>\<rparr>"

definition find_secret :: "string \<Rightarrow> string \<Rightarrow> Secret list \<Rightarrow> go_error + Secret" where
  "find_secret ns n l = (case List.find (\<lambda>s. om_Namespace (sec_Meta s) = ns \<and> om_Name (sec_Meta s) = n) l of
     None \<Rightarrow> Inl (StatusError ReasonNotFound n) | Some s \<Rightarrow> Inr s)"

definition with_token :: "Secret \<Rightarrow> Secret" where
  "with_token s = (if sec_Type s = ''kubernetes.io/service-account-token''
     then s\<lparr>sec_Data := fmupd ''token'' ''t'' (fmupd ''ca.crt'' ''ca'' (sec_Data s))\<rparr> else s)"

definition example_client :: "Secret list manager_client" where
  "example_client = \<lparr>
     mc_ListNamespacesByIdentity = (\<lambda>i. State_Monad.return (Inr (if i = ''user'' then [example_namespace] else []))),
     mc_CreateNamespace = (\<lambda>g a. State_Monad.return (Inr \<lparr>nsp_Meta = zero_ObjectMeta\<lparr>om_Name := g @ ''new'', om_Annotations := a\<rparr>\<rparr>)),
     mc_GetNamespace = (\<lambda>n. State_Monad.return (Inl (StatusError ReasonNotFound n))),
     mc_PatchNamespace = (\<lambda>_ n. State_Monad.return (Inr n)),
     mc_GetClusterBinding = (\<lambda>_ n. State_Monad.return (Inl (StatusError ReasonNotFound n))),
     mc_CreateClusterBinding = (\<lambda>_. State_Monad.return None),
     mc_GetSecret = (\<lambda>ns n. State (\<lambda>l. (find_secret ns n l, l))),
     mc_CreateSecret = (\<lambda>s. State (\<lambda>l. (None, with_token s # l))),
     mc_UpdateSecret = (\<lambda>s. State_Monad.return None),
     mc_setup = \<lparr>sc_GetServiceAccount = (\<lambda>_ n. State_Monad.return (Inl (StatusError ReasonNotFound n))),
       sc_CreateServiceAccount = (\<lambda>_. State_Monad.return None),
       sc_GetClusterRole = (\<lambda>n. State_Monad.return (Inl (StatusError ReasonNotFound n))),
       sc_CreateClusterRole = (\<lambda>_. State_Monad.return None), sc_UpdateClusterRole = (\<lambda>_. State_Monad.return None)\<rparr>\<rparr>"

definition example_encode :: "client_config \<Rightarrow> go_error + string" where
  "example_encode c = (case fmlookup (cf_Contexts c) ''default'' of
     Some ctx \<Rightarrow> (if c = new_config ''https://host'' '''' None (kcx_Namespace ctx) ''t'' then Inr (kcx_Namespace ctx)
       else Inl (Errorf ''unsupported'' None))
   | None \<Rightarrow> Inl (Errorf ''no context'' None))"

definition example_kubeconfig_api :: kubeconfig_api where
  "example_kubeconfig_api = \<lparr>ka_Load = (\<lambda>k. Inr \<lparr>kc_CurrentContext = ''default'', kc_Contexts = fmupd ''default'' k fmempty\<rparr>),
     ka_RESTConfig = (\<lambda>_. None)\<rparr>"

definition example_manager :: "Secret list manager" where
  "example_manager = \<lparr>m_namespacePrefix = ''kube-bind'', m_providerPrettyName = ''P'',
     m_env = \<lparr>ke_address = None, ke_externalCA = None, ke_externalTLSServerName = '''',
       ke_readFile = (\<lambda>f. State_Monad.return (Inl (Errorf f None))), ke_write = example_encode, ke_polls = 20, ke_retries = 5\<rparr>,
     m_GetCluster = (\<lambda>_. State_Monad.return (Inr (example_client, \<lparr>rc_Host = ''https://host'', rc_CAData = '''', rc_CAFile = ''''\<rparr>)))\<rparr>"

definition example_bind :: "(go_error + string) \<times> (Secret list \<times> bind_event list)" where
  "example_bind = run_state (HandleResources (traced_manager example_manager) ''other'' '''') ([], [])"

lemma example_documented: "clientcmd_documented example_kubeconfig_api example_encode"
proof -
  have enc: "c = new_config ''https://host'' '''' None k ''t''" if "example_encode c = Inr k" for c k
    using that by (auto simp: example_encode_def split: option.splits if_splits)
  show ?thesis unfolding clientcmd_documented_def
  proof (intro allI impI)
    fix c k
    assume "example_encode c = Inr k"
    from enc [OF this] show "ka_Load example_kubeconfig_api k = Inr \<lparr>kc_CurrentContext = cf_CurrentContext c,
        kc_Contexts = fmmap kcx_Namespace (cf_Contexts c)\<rparr> \<and> (config_wf c \<longrightarrow> ka_RESTConfig example_kubeconfig_api k = None)"
      by (auto simp: example_kubeconfig_api_def new_config_def intro!: fmap_ext)
  qed
qed

lemma example_bind_result: "fst example_bind = Inr ''kube-bind-new''"
  by code_simp


text \<open>The only namespace that appears in the run has a name.\<close>

fun named_event :: "bind_event \<Rightarrow> bool" where
  "named_event (ListedNamespaces (Inr l)) = (l = [])"
| "named_event (GotNamespace _) = False"
| "named_event (PatchedNamespace _ _ _) = False"
| "named_event (CreatedNamespace _ (Inr n)) = (om_Name (nsp_Meta n) \<noteq> '''')"
| "named_event _ = True"


section \<open>Deviations\<close>

text \<open>
  Namespaces with the legacy annotation only are not in the index, so a new namespace is created for
  the identity; the migration is reached only if that creation reports a name that exists.
\<close>

lemma legacy_namespace_not_indexed:
  "fmlookup (om_Annotations (nsp_Meta ns)) IdentityAnnotationKey = None \<Longrightarrow> IndexNamespacesByIdentity (Some ns) = []"
  by (simp add: IndexNamespacesByIdentity_def)

end
