(* ===== verification/Backend_Http.thy ===== *)
theory Backend_Http
  imports Base64 Backend_Manager Cluster_Binding
begin

text \<open>
  The web handlers of the backend (\<open>backend/http/handler.go\<close>, \<open>backend/session\<close>): they describe the
  provider, send the user to the OIDC provider, turn its answer into a session cookie, list the templates
  and answer a bind with a kubeconfig and a request. JSON, secure cookies, URLs, the OIDC client and
  the HTML template are parameters; base64 is that of \<open>Base64\<close>.
\<close>

section \<open>Requests, responses and sessions\<close>

text \<open>
  A query or form gives the first value of a key, or the empty string. The router does not parse the
  form, so \<open>hr_Form\<close> is empty unless someone else did; \<open>hr_FormQuoted\<close> is the form printed with \<open>%q\<close>.
\<close>

record http_request =
  hr_Host :: string
  hr_Cluster :: string
  hr_Query :: "(string, string) fmap"
  hr_Form :: "(string, string) fmap"
  hr_FormQuoted :: string
  hr_Cookies :: "(string, string) fmap"

definition Values_Get :: "(string, string) fmap \<Rightarrow> string \<Rightarrow> string" where
  "Values_Get m k = (case fmlookup m k of Some v \<Rightarrow> v | None \<Rightarrow> '''')"

record cookie =
  ck_Name :: string
  ck_Value :: string
  ck_Path :: string
  ck_Expires :: time
  ck_HttpOnly :: bool
  ck_Secure :: bool

datatype http_response =
    HttpError string nat
  | HttpRedirect string "cookie list"
  | HttpContent string string
  | HttpStatus nat

definition MakeCookie :: "time \<Rightarrow> string \<Rightarrow> string \<Rightarrow> bool \<Rightarrow> duration \<Rightarrow> cookie" where
  "MakeCookie now name value secure expiration = \<lparr>ck_Name = name, ck_Value = value, ck_Path = ''/'',
     ck_Expires = now + expiration, ck_HttpOnly = True, ck_Secure = secure\<rparr>"

record AuthCode =
  ac_RedirectURL :: string
  ac_SessionID :: string
  ac_ClusterID :: string
  ac_ProviderClusterID :: string

record TokenInfo =
  ti_Subject :: string
  ti_Issuer :: string

record session_state =
  st_Token :: TokenInfo
  st_SessionID :: string
  st_ClusterID :: string
  st_RedirectURL :: string

section \<open>API objects of the handshake\<close>

record BindingProvider =
  bp_APIVersion :: string
  bp_Kind :: string
  bp_ProviderPrettyName :: string
  bp_Version :: string
  bp_AuthenticationMethods :: "(string \<times> string option) list"

record APIServiceExportRequestResponse =
  rrp_APIVersion :: string
  rrp_Kind :: string
  rrp_Name :: string
  rrp_Spec :: APIServiceExportRequestSpec

record BindingResponse =
  br_APIVersion :: string
  br_Kind :: string
  br_OAuth2CodeGrant :: "(string \<times> string) option"
  br_Kubeconfig :: string
  br_Requests :: "string list"

record APIServiceExportTemplate =
  tp_Name :: string
  tp_Scope :: InformerScope
  tp_Resources :: "APIServiceExportRequestResource list"
  tp_PermissionClaims :: "PermissionClaim list"
  tp_Namespaces :: "string list"

record Collection =
  co_Name :: string
  co_Templates :: "string list"

record UISchema =
  ui_Name :: string
  ui_Scope :: InformerScope
  ui_Resources :: "APIServiceExportRequestResource list"
  ui_PermissionClaims :: "PermissionClaim list"
  ui_Namespaces :: "string list"
  ui_SessionID :: string

section \<open>Handler\<close>

record ('w, 'tok) oidc =
  oi_AuthCodeURL :: "string list \<Rightarrow> string \<Rightarrow> string"
  oi_Exchange :: "string \<Rightarrow> ('w, 'tok) call"
  oi_idToken :: "'tok \<Rightarrow> string option"

record codecs =
  cd_marshalAuthCode :: "AuthCode \<Rightarrow> go_error + string"
  cd_unmarshalAuthCode :: "string \<Rightarrow> go_error + AuthCode"
  cd_unmarshalIDToken :: "string \<Rightarrow> go_error + TokenInfo"
  cd_cookie_Encode :: "string \<Rightarrow> session_state \<Rightarrow> go_error + string"
  cd_cookie_Decode :: "string \<Rightarrow> string \<Rightarrow> go_error + session_state"
  cd_marshalProvider :: "BindingProvider \<Rightarrow> go_error + string"
  cd_marshalRequest :: "APIServiceExportRequestResponse \<Rightarrow> go_error + string"
  cd_marshalResponse :: "BindingResponse \<Rightarrow> go_error + string"
  cd_addQuery :: "string \<Rightarrow> string \<Rightarrow> string \<Rightarrow> go_error + string"
  cd_template :: "string \<Rightarrow> UISchema list \<Rightarrow> go_error + string"

record ('w, 'tok) handler =
  h_oidc :: "('w, 'tok) oidc"
  h_codecs :: codecs
  h_scope :: InformerScope
  h_oidcAuthorizeURL :: string
  h_providerPrettyName :: string
  h_testingAutoSelect :: string
  h_gitVersion :: string
  h_manager :: "'w manager"
  h_clusters :: "string \<Rightarrow> ('w, ('w, unit, unit, Collection, APIServiceExportTemplate) list_client) call"

definition internal_error :: http_response where "internal_error = HttpError ''internal error'' 500"

definition handleHealthz :: http_response where "handleHealthz = HttpStatus 200"

definition handleServiceExport :: "('w, 'tok) handler \<Rightarrow> http_request \<Rightarrow> http_response" where
  "handleServiceExport h r =
     (let cluster' = hr_Cluster r;
          oidcAuthorizeURL = (if h_oidcAuthorizeURL h \<noteq> '''' then h_oidcAuthorizeURL h
            else if cluster' = '''' then ''http://'' @ hr_Host r @ ''/authorize''
            else ''http://'' @ hr_Host r @ ''/clusters/'' @ cluster' @ ''/authorize'');
          ver = (case BinaryVersion (h_gitVersion h) of Inl _ \<Rightarrow> ''v0.0.0'' | Inr v \<Rightarrow> v);
          prettyName = (if h_providerPrettyName h = '''' then ''backend'' else h_providerPrettyName h);
          provider = \<lparr>bp_APIVersion = GroupVersion, bp_Kind = ''BindingProvider'', bp_ProviderPrettyName = prettyName,
            bp_Version = ver, bp_AuthenticationMethods = [(''OAuth2CodeGrant'', Some oidcAuthorizeURL)]\<rparr>
      in case cd_marshalProvider (h_codecs h) provider of
           Inl e \<Rightarrow> HttpError (Error e) 500
         | Inr bs \<Rightarrow> HttpContent ''application/json'' bs)"

definition generateCookieName :: "string \<Rightarrow> string" where
  "generateCookieName clusterID = (if clusterID = '''' then ''kube-bind'' else ''kube-bind-'' @ clusterID)"

definition requested_code :: "http_request \<Rightarrow> AuthCode" where
  "requested_code r =
     (let u = Values_Get (hr_Query r) ''u''; p = Values_Get (hr_Query r) ''p''
      in \<lparr>ac_RedirectURL = (if p \<noteq> '''' \<and> u = '''' then ''http://127.0.0.1:'' @ p @ ''/callback'' else u),
          ac_SessionID = Values_Get (hr_Query r) ''s'', ac_ClusterID = Values_Get (hr_Query r) ''c'',
          ac_ProviderClusterID = hr_Cluster r\<rparr>)"

definition handleAuthorize :: "('w, 'tok) handler \<Rightarrow> http_request \<Rightarrow> http_response" where
  "handleAuthorize h r =
     (let code = requested_code r
      in if ac_RedirectURL code = '''' \<or> ac_SessionID code = '''' \<or> ac_ClusterID code = ''''
         then HttpError ''missing redirect_url, session_id or cluster_id'' 400
         else case cd_marshalAuthCode (h_codecs h) code of
                Inl e \<Rightarrow> HttpError (Error e) 500
              | Inr dataCode \<Rightarrow>
                  HttpRedirect (oi_AuthCodeURL (h_oidc h) [''openid'', ''profile'', ''email'', ''offline_access'']
                    (EncodeToString url_alphabet True dataCode)) [])"

text \<open>The count in the message is always 1.\<close>

definition unwrapJWT :: "string \<Rightarrow> go_error + string" where
  "unwrapJWT p =
     (let parts = Split (CHR ''.'') p
      in if length parts < 2 then Inl (Errorf ''OIDC: malformed JWT, expected 3 parts, got 1'' None)
         else case DecodeString url_alphabet False (parts ! 1) of
                Inl e \<Rightarrow> Inl (Errorf ''OIDC: malformed JWT payload'' (Some e))
              | Inr payload \<Rightarrow> Inr payload)"

definition createSessionState :: "('w, 'tok) handler \<Rightarrow> AuthCode \<Rightarrow> 'tok \<Rightarrow> go_error + session_state" where
  "createSessionState h authCode token =
     (case oi_idToken (h_oidc h) token of
        None \<Rightarrow> Inl (Errorf ''no id_token value found in token'' None)
      | Some jwtStr \<Rightarrow>
          (case unwrapJWT jwtStr of
             Inl e \<Rightarrow> Inl (Errorf ''failed to unpack ID token'' (Some e))
           | Inr jwt \<Rightarrow>
               (case cd_unmarshalIDToken (h_codecs h) jwt of
                  Inl e \<Rightarrow> Inl (Errorf ''failed to parse ID token'' (Some e))
                | Inr idToken \<Rightarrow> Inr \<lparr>st_Token = \<lparr>ti_Subject = ti_Subject idToken, ti_Issuer = ti_Issuer idToken\<rparr>,
                    st_SessionID = ac_SessionID authCode, st_ClusterID = ac_ClusterID authCode,
                    st_RedirectURL = ac_RedirectURL authCode\<rparr>)))"

definition form_or_query :: "http_request \<Rightarrow> string \<Rightarrow> string" where
  "form_or_query r k = (if Values_Get (hr_Form r) k = '''' then Values_Get (hr_Query r) k else Values_Get (hr_Form r) k)"

definition start_session :: "('w, 'tok) handler \<Rightarrow> time \<Rightarrow> AuthCode \<Rightarrow> 'tok \<Rightarrow> http_response" where
  "start_session h now authCode token =
     (let cookieName = generateCookieName (ac_ClusterID authCode)
      in case createSessionState h authCode token of
           Inl _ \<Rightarrow> internal_error
         | Inr sessionState \<Rightarrow>
             (case cd_cookie_Encode (h_codecs h) cookieName sessionState of
                Inl _ \<Rightarrow> internal_error
              | Inr encoded \<Rightarrow>
                  HttpRedirect
                    (if ac_ProviderClusterID authCode = '''' then ''/resources?s='' @ cookieName
                     else ''/clusters/'' @ ac_ProviderClusterID authCode @ ''/resources?s='' @ cookieName)
                    [MakeCookie now cookieName encoded False (60 * Minute)]))"

definition handleCallback :: "('w, 'tok) handler \<Rightarrow> time \<Rightarrow> http_request \<Rightarrow> ('w, http_response) io" where
  "handleCallback h now r =
     (let errMsg = Values_Get (hr_Form r) ''error''
      in if errMsg \<noteq> '''' then State_Monad.return (HttpError (errMsg @ '': '' @ Values_Get (hr_Form r) ''error_description'') 400)
         else if form_or_query r ''code'' = '''' then State_Monad.return (HttpError (''no code in request: '' @ hr_FormQuoted r) 400)
         else case DecodeString std_alphabet True (form_or_query r ''state'') of
                Inl e \<Rightarrow> State_Monad.return (HttpError (Error e) 400)
              | Inr decoded \<Rightarrow>
                  (case cd_unmarshalAuthCode (h_codecs h) decoded of
                     Inl e \<Rightarrow> State_Monad.return (HttpError (Error e) 400)
                   | Inr authCode \<Rightarrow> do {
                       t \<leftarrow> oi_Exchange (h_oidc h) (form_or_query r ''code'');
                       State_Monad.return (case t of Inl _ \<Rightarrow> internal_error | Inr token \<Rightarrow> start_session h now authCode token) }))"

section \<open>Resources and bind\<close>

fun get_templates :: "('w, 'tok) handler \<Rightarrow> string \<Rightarrow> string list \<Rightarrow> ('w, APIServiceExportTemplate list) call" where
  "get_templates h cluster' [] = State_Monad.return (Inr [])"
| "get_templates h cluster' (n # ns) = do {
     g \<leftarrow> GetTemplates (h_clusters h) cluster' n;
     (case g of
        Inl e \<Rightarrow> State_Monad.return (Inl (Errorf (''failed to get template '' @ quoted n) (Some e)))
      | Inr t \<Rightarrow> do {
          more \<leftarrow> get_templates h cluster' ns;
          State_Monad.return (case more of Inl e \<Rightarrow> Inl e | Inr ts \<Rightarrow> Inr (t # ts)) }) }"

definition listCollectionTemplates :: "('w, 'tok) handler \<Rightarrow> string \<Rightarrow> ('w, APIServiceExportTemplate list) call" where
  "listCollectionTemplates h cluster' = do {
     c \<leftarrow> ListCollections (h_clusters h) cluster';
     (case c of
        Inl e \<Rightarrow> State_Monad.return (Inl (Errorf ''failed to list collections'' (Some e)))
      | Inr collections \<Rightarrow> get_templates h cluster' (concat (map co_Templates collections))) }"

text \<open>Case folding of the scopes, which are ASCII.\<close>

fun scope_String :: "InformerScope \<Rightarrow> string" where
  "scope_String ClusterScope = ''Cluster''"
| "scope_String NamespacedScope = ''Namespaced''"
| "scope_String (InformerScopeOther s) = s"

definition to_lower :: "char \<Rightarrow> char" where
  "to_lower c = (if 65 \<le> (of_char c :: nat) \<and> (of_char c :: nat) \<le> 90 then char_of ((of_char c :: nat) + 32) else c)"

definition EqualFold :: "string \<Rightarrow> string \<Rightarrow> bool" where
  "EqualFold a b \<longleftrightarrow> map to_lower a = map to_lower b"

definition offered :: "InformerScope \<Rightarrow> APIServiceExportTemplate \<Rightarrow> bool" where
  "offered scope t \<longleftrightarrow> \<not> (\<not> EqualFold (scope_String scope) (scope_String (tp_Scope t)) \<and> scope \<noteq> ClusterScope)"

definition ui_schema :: "string \<Rightarrow> APIServiceExportTemplate \<Rightarrow> UISchema" where
  "ui_schema sessionID t = \<lparr>ui_Name = tp_Name t, ui_Scope = tp_Scope t, ui_Resources = tp_Resources t,
     ui_PermissionClaims = tp_PermissionClaims t, ui_Namespaces = tp_Namespaces t, ui_SessionID = sessionID\<rparr>"

text \<open>The automatic choice splits at the first dot and takes the second part, which panics if there is no dot.\<close>

definition handleResources :: "('w, 'tok) handler \<Rightarrow> http_request \<Rightarrow> ('w, http_response outcome) io" where
  "handleResources h r =
     (if h_testingAutoSelect h \<noteq> '''' then State_Monad.return
        (case SplitN 2 (CHR ''.'') (h_testingAutoSelect h) of
           [a, b] \<Rightarrow> Returns (HttpRedirect
             ((if hr_Cluster r = '''' then ''/resources/'' else ''/clusters/'' @ hr_Cluster r @ ''/resources/'') @ a @ ''/'' @ b) [])
         | _ \<Rightarrow> Panics)
      else do {
        l \<leftarrow> listCollectionTemplates h (hr_Cluster r);
        State_Monad.return
          (case l of
             Inl _ \<Rightarrow> Returns internal_error
           | Inr templates \<Rightarrow>
               (case cd_template (h_codecs h) (hr_Cluster r)
                  (map (ui_schema (Values_Get (hr_Query r) ''s'')) (filter (offered (h_scope h)) templates)) of
                  Inl _ \<Rightarrow> Returns internal_error
                | Inr bs \<Rightarrow> Returns (HttpContent ''text/html; charset=utf-8'' bs))) })"

definition bind_request :: "string \<Rightarrow> APIServiceExportTemplate \<Rightarrow> APIServiceExportRequestResponse" where
  "bind_request templateName t = \<lparr>rrp_APIVersion = SchemeGroupVersion, rrp_Kind = ''APIServiceExportRequest'', rrp_Name = templateName,
     rrp_Spec = \<lparr>ers_Parameters = None, ers_Resources = tp_Resources t, ers_PermissionClaims = tp_PermissionClaims t,
       ers_Namespaces = tp_Namespaces t\<rparr>\<rparr>"

definition bind_response :: "session_state \<Rightarrow> string \<Rightarrow> string \<Rightarrow> BindingResponse" where
  "bind_response st kfg requestBytes = \<lparr>br_APIVersion = SchemeGroupVersion, br_Kind = ''BindingResponse'',
     br_OAuth2CodeGrant = Some (st_SessionID st, ti_Issuer (st_Token st) @ ''/'' @ ti_Subject (st_Token st)),
     br_Kubeconfig = kfg, br_Requests = [requestBytes]\<rparr>"

definition session_identity :: "session_state \<Rightarrow> string" where
  "session_identity st = ti_Subject (st_Token st) @ ''#'' @ st_ClusterID st"

definition respond :: "('w, 'tok) handler \<Rightarrow> session_state \<Rightarrow> string \<Rightarrow> string \<Rightarrow> APIServiceExportTemplate \<Rightarrow> http_response" where
  "respond h st kfg templateName t =
     (case cd_marshalRequest (h_codecs h) (bind_request templateName t) of
        Inl _ \<Rightarrow> internal_error
      | Inr requestBytes \<Rightarrow>
          (case cd_marshalResponse (h_codecs h) (bind_response st kfg requestBytes) of
             Inl _ \<Rightarrow> internal_error
           | Inr payload \<Rightarrow>
               (case cd_addQuery (h_codecs h) (st_RedirectURL st) ''response'' (EncodeToString url_alphabet True payload) of
                  Inl _ \<Rightarrow> internal_error
                | Inr url \<Rightarrow> HttpRedirect url [])))"

definition handleBind :: "('w, 'tok) handler \<Rightarrow> http_request \<Rightarrow> ('w, http_response) io" where
  "handleBind h r =
     (let cookieName = Values_Get (hr_Query r) ''s''; templateName = Values_Get (hr_Query r) ''template''
      in case fmlookup (hr_Cookies r) cookieName of
           None \<Rightarrow> State_Monad.return (HttpError ''no session cookie found'' 400)
         | Some ck \<Rightarrow>
             (case cd_cookie_Decode (h_codecs h) cookieName ck of
                Inl _ \<Rightarrow> State_Monad.return internal_error
              | Inr st \<Rightarrow> do {
                  k \<leftarrow> HandleResources (h_manager h) (session_identity st) (hr_Cluster r);
                  (case k of
                     Inl _ \<Rightarrow> State_Monad.return internal_error
                   | Inr kfg \<Rightarrow> do {
                       t \<leftarrow> GetTemplates (h_clusters h) (hr_Cluster r) templateName;
                       State_Monad.return (case t of Inl _ \<Rightarrow> internal_error | Inr tpl \<Rightarrow> respond h st kfg templateName tpl) }) }))"

section \<open>Identities\<close>

text \<open>
  Different sessions get different identities, and with them different namespaces: if no subject
  contains a hash sign, two sessions have the same identity only if subject and cluster are the same.
\<close>

lemma session_identity_injective:
  assumes "CHR ''#'' \<notin> set (ti_Subject (st_Token a))" and "CHR ''#'' \<notin> set (ti_Subject (st_Token b))"
  shows "session_identity a = session_identity b \<longleftrightarrow>
    ti_Subject (st_Token a) = ti_Subject (st_Token b) \<and> st_ClusterID a = st_ClusterID b"
  using first_sep_unique [OF _ assms, of "st_ClusterID a" "st_ClusterID b"] by (auto simp: session_identity_def)

text \<open>Without that, the cluster identifier, which the user chooses, may complete the subject to another one's identity.\<close>

lemma identities_collide:
  "session_identity \<lparr>st_Token = \<lparr>ti_Subject = ''a'', ti_Issuer = i\<rparr>, st_SessionID = s, st_ClusterID = ''b#c'', st_RedirectURL = u\<rparr> =
   session_identity \<lparr>st_Token = \<lparr>ti_Subject = ''a#b'', ti_Issuer = i\<rparr>, st_SessionID = s', st_ClusterID = ''c'', st_RedirectURL = u'\<rparr>"
  by (simp add: session_identity_def)

section \<open>From the authorisation to the session\<close>

text \<open>
  What is documented of the codecs: JSON and secure cookies decode what they encoded.
\<close>

definition codecs_ok :: "codecs \<Rightarrow> bool" where
  "codecs_ok cd \<longleftrightarrow>
     (\<forall>c. \<exists>t. cd_marshalAuthCode cd c = Inr t \<and> cd_unmarshalAuthCode cd t = Inr c) \<and>
     (\<forall>n s. \<exists>v. cd_cookie_Encode cd n s = Inr v \<and> cd_cookie_Decode cd n v = Inr s)"

text \<open>The query of the OIDC provider's answer: the code and the state it was given.\<close>

definition answers :: "string \<Rightarrow> string \<Rightarrow> http_request \<Rightarrow> bool" where
  "answers code st r \<longleftrightarrow> hr_Form r = fmempty \<and> Values_Get (hr_Query r) ''code'' = code \<and> code \<noteq> '''' \<and> Values_Get (hr_Query r) ''state'' = st"

definition session_for :: "AuthCode \<Rightarrow> TokenInfo \<Rightarrow> session_state" where
  "session_for c i = \<lparr>st_Token = \<lparr>ti_Subject = ti_Subject i, ti_Issuer = ti_Issuer i\<rparr>, st_SessionID = ac_SessionID c,
     st_ClusterID = ac_ClusterID c, st_RedirectURL = ac_RedirectURL c\<rparr>"

definition identifies :: "('w, 'tok) handler \<Rightarrow> 'tok \<Rightarrow> TokenInfo \<Rightarrow> bool" where
  "identifies h token i \<longleftrightarrow> (\<exists>jwt p. oi_idToken (h_oidc h) token = Some jwt \<and> unwrapJWT jwt = Inr p \<and> cd_unmarshalIDToken (h_codecs h) p = Inr i)"

lemma createSessionState_ok: "identifies h token i \<Longrightarrow> createSessionState h c token = Inr (session_for c i)"
  by (auto simp: identifies_def createSessionState_def session_for_def)

lemma start_session_ok:
  assumes "codecs_ok (h_codecs h)" and "identifies h token i"
  shows "\<exists>loc v. start_session h now c token = HttpRedirect loc [MakeCookie now (generateCookieName (ac_ClusterID c)) v False (60 * Minute)] \<and>
    cd_cookie_Decode (h_codecs h) (generateCookieName (ac_ClusterID c)) v = Inr (session_for c i)"
proof -
  obtain v where "cd_cookie_Encode (h_codecs h) (generateCookieName (ac_ClusterID c)) (session_for c i) = Inr v"
    "cd_cookie_Decode (h_codecs h) (generateCookieName (ac_ClusterID c)) v = Inr (session_for c i)"
    using assms(1) unfolding codecs_ok_def by blast
  then show ?thesis using createSessionState_ok [OF assms(2), of c] by (simp add: start_session_def Let_def) blast
qed

text \<open>
  C21. Round trip of a session. The authorisation puts session, cluster and redirect URL of the user
  into the state that goes to the OIDC provider. When the provider answers with that state and a token,
  the callback sets one cookie, and the cookie decodes to a session of the token's user with the same
  session, cluster and redirect URL. This holds exactly if no sextet of the state's JSON is 62 or 63:
  the state is encoded with the URL alphabet and decoded with the standard one, and any other state is
  refused.
\<close>

theorem session_round_trip:
  assumes "codecs_ok (h_codecs h)" and "identifies h token i"
    and "ac_RedirectURL (requested_code r) \<noteq> ''''" "ac_SessionID (requested_code r) \<noteq> ''''" "ac_ClusterID (requested_code r) \<noteq> ''''"
    and "run_state (oi_Exchange (h_oidc h) code) w = (Inr token, w')"
  shows "\<exists>json. cd_marshalAuthCode (h_codecs h) (requested_code r) = Inr json \<and>
    handleAuthorize h r = HttpRedirect (oi_AuthCodeURL (h_oidc h) [''openid'', ''profile'', ''email'', ''offline_access'']
      (EncodeToString url_alphabet True json)) [] \<and>
    (\<forall>r'. answers code (EncodeToString url_alphabet True json) r' \<longrightarrow>
      (if list_all (\<lambda>n. n < 62) (sextets (byte_values json))
       then \<exists>loc v. run_state (handleCallback h now r') w =
              (HttpRedirect loc [MakeCookie now (generateCookieName (ac_ClusterID (requested_code r))) v False (60 * Minute)], w') \<and>
            cd_cookie_Decode (h_codecs h) (generateCookieName (ac_ClusterID (requested_code r))) v = Inr (session_for (requested_code r) i)
       else run_state (handleCallback h now r') w = (HttpError (Error CorruptInputError) 400, w)))"
proof -
  obtain json where json: "cd_marshalAuthCode (h_codecs h) (requested_code r) = Inr json"
    "cd_unmarshalAuthCode (h_codecs h) json = Inr (requested_code r)" using assms(1) unfolding codecs_ok_def by blast
  let ?st = "EncodeToString url_alphabet True json"
  have "handleAuthorize h r = HttpRedirect (oi_AuthCodeURL (h_oidc h) [''openid'', ''profile'', ''email'', ''offline_access''] ?st) []"
    using assms(3-5) json by (simp add: handleAuthorize_def Let_def)
  moreover have "run_state (handleCallback h now r') w =
      (if list_all (\<lambda>n. n < 62) (sextets (byte_values json)) then (start_session h now (requested_code r) token, w')
       else (HttpError (Error CorruptInputError) 400, w))" if "answers code ?st r'" for r'
    using that json(2) assms(6)
    by (simp add: answers_def handleCallback_def form_or_query_def Values_Get_def [of fmempty] std_decodes_url Let_def)
  ultimately show ?thesis using json(1) start_session_ok [OF assms(1,2), of now "requested_code r"] by auto
qed

text \<open>A codec for the example: each field follows its length in unary.\<close>

definition enc_field :: "string \<Rightarrow> string" where
  "enc_field s = replicate (length s) (CHR ''a'') @ CHR ''b'' # s"

definition dec_field :: "string \<Rightarrow> string \<times> string" where
  "dec_field t = (let n = length (takeWhile (\<lambda>c. c = CHR ''a'') t) in (take n (drop (Suc n) t), drop (Suc n + n) t))"

lemma dec_enc_field [simp]: "dec_field (enc_field s @ t) = (s, t)"
proof -
  have "length (takeWhile (\<lambda>c. c = CHR ''a'') (enc_field s @ t)) = length s"
    by (simp add: enc_field_def takeWhile_append)
  then show ?thesis by (simp add: dec_field_def enc_field_def)
qed

lemma dec_enc_last [simp]: "dec_field (enc_field s) = (s, [])"
  using dec_enc_field [of s "[]"] by simp

definition example_codecs :: codecs where
  "example_codecs = \<lparr>
     cd_marshalAuthCode = (\<lambda>c. Inr (enc_field (ac_RedirectURL c) @ enc_field (ac_SessionID c) @ enc_field (ac_ClusterID c) @ enc_field (ac_ProviderClusterID c) @ [])),
     cd_unmarshalAuthCode = (\<lambda>t. case dec_field t of (u, t1) \<Rightarrow> (case dec_field t1 of (s, t2) \<Rightarrow> (case dec_field t2 of (c, t3) \<Rightarrow>
       Inr \<lparr>ac_RedirectURL = u, ac_SessionID = s, ac_ClusterID = c, ac_ProviderClusterID = fst (dec_field t3)\<rparr>))),
     cd_unmarshalIDToken = (\<lambda>t. Inr \<lparr>ti_Subject = t, ti_Issuer = ''i''\<rparr>),
     cd_cookie_Encode = (\<lambda>_ s. Inr (enc_field (ti_Subject (st_Token s)) @ enc_field (ti_Issuer (st_Token s)) @ enc_field (st_SessionID s) @
       enc_field (st_ClusterID s) @ enc_field (st_RedirectURL s) @ [])),
     cd_cookie_Decode = (\<lambda>_ t. case dec_field t of (a, t1) \<Rightarrow> (case dec_field t1 of (b, t2) \<Rightarrow> (case dec_field t2 of (s, t3) \<Rightarrow> (case dec_field t3 of (c, t4) \<Rightarrow>
       Inr \<lparr>st_Token = \<lparr>ti_Subject = a, ti_Issuer = b\<rparr>, st_SessionID = s, st_ClusterID = c, st_RedirectURL = fst (dec_field t4)\<rparr>)))),
     cd_marshalProvider = (\<lambda>_. Inr ''p''), cd_marshalRequest = (\<lambda>r. Inr (rrp_Name r)), cd_marshalResponse = (\<lambda>_. Inr ''r''),
     cd_addQuery = (\<lambda>u k v. Inr (u @ ''?'' @ k @ ''='' @ v)), cd_template = (\<lambda>_ _. Inr ''t'')\<rparr>"

lemma example_codecs_ok: "codecs_ok example_codecs"
  by (auto simp: codecs_ok_def example_codecs_def)

definition example_handler :: "(nat, string) handler" where
  "example_handler = \<lparr>h_oidc = \<lparr>oi_AuthCodeURL = (\<lambda>_ st. ''https://idp?state='' @ st),
       oi_Exchange = (\<lambda>c. State (\<lambda>n. (Inr c, Suc n))), oi_idToken = Some\<rparr>,
     h_codecs = example_codecs, h_scope = ClusterScope, h_oidcAuthorizeURL = '''', h_providerPrettyName = '''',
     h_testingAutoSelect = '''', h_gitVersion = ''v0.0.0-x'', 
     h_manager = \<lparr>m_namespacePrefix = ''kube-bind-'', m_providerPrettyName = ''p'',
       m_env = \<lparr>ke_address = None, ke_externalCA = None, ke_externalTLSServerName = '''', ke_readFile = (\<lambda>f. State_Monad.return (Inr f)),
         ke_write = (\<lambda>_. Inr ''k''), ke_polls = 1, ke_retries = 1\<rparr>,
       m_GetCluster = (\<lambda>_. State_Monad.return (Inl (Errorf ''no cluster'' None)))\<rparr>,
     h_clusters = (\<lambda>_. State_Monad.return (Inl (Errorf ''no cluster'' None)))\<rparr>"

definition example_http :: "(string, string) fmap \<Rightarrow> http_request" where
  "example_http q = \<lparr>hr_Host = ''h'', hr_Cluster = '''', hr_Query = q, hr_Form = fmempty, hr_FormQuoted = '''', hr_Cookies = fmempty\<rparr>"

definition example_authorize :: http_request where
  "example_authorize = example_http (fmap_of_list [(''p'', ''8''), (''s'', ''sid''), (''c'', ''cid'')])"

definition example_state :: string where
  "example_state = (case cd_marshalAuthCode example_codecs (requested_code example_authorize) of Inr j \<Rightarrow> j | Inl _ \<Rightarrow> '''')"

definition example_answer :: http_request where
  "example_answer = example_http (fmap_of_list [(''code'', ''h.c3Vi.x''), (''state'', EncodeToString url_alphabet True example_state)])"

lemma example_state_facts:
  "cd_marshalAuthCode example_codecs (requested_code example_authorize) = Inr example_state"
  "list_all (\<lambda>n. n < 62) (sextets (byte_values example_state))"
  "ac_RedirectURL (requested_code example_authorize) = ''http://127.0.0.1:8/callback''"
  "ac_SessionID (requested_code example_authorize) = ''sid''" "ac_ClusterID (requested_code example_authorize) = ''cid''"
  "unwrapJWT ''h.c3Vi.x'' = Inr ''sub''"
  by code_simp+

theorem session_round_trip_witness:
  "\<exists>loc v. run_state (handleCallback example_handler 7 example_answer) 0 =
     (HttpRedirect loc [MakeCookie 7 ''kube-bind-cid'' v False (60 * Minute)], 1) \<and>
   cd_cookie_Decode example_codecs ''kube-bind-cid'' v = Inr (session_for (requested_code example_authorize) \<lparr>ti_Subject = ''sub'', ti_Issuer = ''i''\<rparr>)"
proof -
  have "identifies example_handler ''h.c3Vi.x'' \<lparr>ti_Subject = ''sub'', ti_Issuer = ''i''\<rparr>"
    using example_state_facts(6) by (simp add: identifies_def example_handler_def example_codecs_def)
  moreover have "run_state (oi_Exchange (h_oidc example_handler) ''h.c3Vi.x'') 0 = (Inr ''h.c3Vi.x'', 1)"
    by (simp add: example_handler_def)
  moreover have "answers ''h.c3Vi.x'' (EncodeToString url_alphabet True example_state) example_answer"
    by (simp add: answers_def example_answer_def example_http_def Values_Get_def fmlookup_of_list)
  moreover have "h_codecs example_handler = example_codecs" by (simp add: example_handler_def)
  ultimately show ?thesis
    using session_round_trip [of example_handler "''h.c3Vi.x''" "\<lparr>ti_Subject = ''sub'', ti_Issuer = ''i''\<rparr>" example_authorize "''h.c3Vi.x''" 0 1 7]
      example_codecs_ok example_state_facts by (auto simp: generateCookieName_def)
qed

end
