(* ===== verification/Backend_Options.thy ===== *)
theory Backend_Options
  imports Backend_Http
begin

text \<open>
  The command line of the backend (\<open>backend/options\<close>): defaults, flags, completion and validation. The
  flag library, URLs and files are parameters. Logging options and the help texts of flags are left out.
\<close>

section \<open>Options\<close>

record OIDC =
  oo_IssuerClientID :: string
  oo_IssuerClientSecret :: string
  oo_IssuerURL :: string
  oo_CallbackURL :: string
  oo_AuthorizeURL :: string

record Cookie =
  ck_SigningKey :: string
  ck_EncryptionKey :: string

record Serve =
  se_ListenIP :: string
  se_ListenPort :: int
  se_ListenAddress :: string
  se_CertFile :: string
  se_KeyFile :: string
  se_Listener :: "string option"

record ExtraOptions =
  eo_KubeConfig :: string
  eo_Provider :: string
  eo_ServerURL :: string
  eo_NamespacePrefix :: string
  eo_PrettyName :: string
  eo_ConsumerScope :: string
  eo_ClusterScopedIsolation :: string
  eo_ExternalAddress :: string
  eo_ExternalCAFile :: string
  eo_ExternalCA :: "string option"
  eo_TLSExternalServerName :: string
  eo_SchemaSource :: string
  eo_TestingAutoSelect :: string
  eo_TestingSkipNameValidation :: bool

record Options =
  op_OIDC :: OIDC
  op_Cookie :: Cookie
  op_Serve :: Serve
  op_Extra :: ExtraOptions

definition CustomResourceDefinitionSource :: string where
  "CustomResourceDefinitionSource = ''CustomResourceDefinition.v1.apiextensions.k8s.io''"

definition KCPAPIResourceSchemaSource :: string where
  "KCPAPIResourceSchemaSource = ''APIResourceSchema.v1alpha1.apis.kcp.io''"

definition providerAliases :: "string \<Rightarrow> string option" where
  "providerAliases = [''kcp'' \<mapsto> ''kcp'', ''kubernetes'' \<mapsto> ''kubernetes'', '''' \<mapsto> ''kubernetes'']"

definition schemaSourceAliases :: "string \<Rightarrow> string option" where
  "schemaSourceAliases = [CustomResourceDefinitionSource \<mapsto> CustomResourceDefinitionSource,
     ''customresourcedefinitions'' \<mapsto> CustomResourceDefinitionSource,
     ''apiresourceschemas'' \<mapsto> KCPAPIResourceSchemaSource,
     KCPAPIResourceSchemaSource \<mapsto> KCPAPIResourceSchemaSource]"

text \<open>A missing key of a map of strings reads as the empty string.\<close>

definition lookup_string :: "(string \<Rightarrow> string option) \<Rightarrow> string \<Rightarrow> string" where
  "lookup_string m k = (case m k of None \<Rightarrow> '''' | Some v \<Rightarrow> v)"

definition NewOIDC :: OIDC where
  "NewOIDC = \<lparr>oo_IssuerClientID = '''', oo_IssuerClientSecret = '''', oo_IssuerURL = '''', oo_CallbackURL = '''',
     oo_AuthorizeURL = ''''\<rparr>"

definition NewCookie :: Cookie where
  "NewCookie = \<lparr>ck_SigningKey = '''', ck_EncryptionKey = ''''\<rparr>"

definition NewServe :: Serve where
  "NewServe = \<lparr>se_ListenIP = '''', se_ListenPort = 0, se_ListenAddress = ''127.0.0.1:8080'', se_CertFile = '''',
     se_KeyFile = '''', se_Listener = None\<rparr>"

definition NewOptions :: Options where
  "NewOptions = \<lparr>op_OIDC = NewOIDC, op_Cookie = NewCookie, op_Serve = NewServe,
     op_Extra = \<lparr>eo_KubeConfig = '''', eo_Provider = ''kubernetes'', eo_ServerURL = '''',
       eo_NamespacePrefix = ''cluster'', eo_PrettyName = ''Backend'', eo_ConsumerScope = scope_String NamespacedScope,
       eo_ClusterScopedIsolation = ''Prefixed'', eo_ExternalAddress = '''', eo_ExternalCAFile = '''',
       eo_ExternalCA = None, eo_TLSExternalServerName = '''', eo_SchemaSource = CustomResourceDefinitionSource,
       eo_TestingAutoSelect = '''', eo_TestingSkipNameValidation = False\<rparr>\<rparr>"

section \<open>Flags\<close>

definition OIDC_flags :: "Options flag list" where
  "OIDC_flags =
     [StringVar ''oidc-issuer-client-id'' (\<lambda>v opts. opts\<lparr>op_OIDC := (op_OIDC opts)\<lparr>oo_IssuerClientID := v\<rparr>\<rparr>),
      StringVar ''oidc-issuer-client-secret'' (\<lambda>v opts. opts\<lparr>op_OIDC := (op_OIDC opts)\<lparr>oo_IssuerClientSecret := v\<rparr>\<rparr>),
      StringVar ''oidc-issuer-url'' (\<lambda>v opts. opts\<lparr>op_OIDC := (op_OIDC opts)\<lparr>oo_IssuerURL := v\<rparr>\<rparr>),
      StringVar ''oidc-callback-url'' (\<lambda>v opts. opts\<lparr>op_OIDC := (op_OIDC opts)\<lparr>oo_CallbackURL := v\<rparr>\<rparr>),
      StringVar ''oidc-authorize-url'' (\<lambda>v opts. opts\<lparr>op_OIDC := (op_OIDC opts)\<lparr>oo_AuthorizeURL := v\<rparr>\<rparr>)]"

definition Cookie_flags :: "Options flag list" where
  "Cookie_flags =
     [StringVar ''cookie-signing-key'' (\<lambda>v opts. opts\<lparr>op_Cookie := (op_Cookie opts)\<lparr>ck_SigningKey := v\<rparr>\<rparr>),
      StringVar ''cookie-encryption-key'' (\<lambda>v opts. opts\<lparr>op_Cookie := (op_Cookie opts)\<lparr>ck_EncryptionKey := v\<rparr>\<rparr>)]"

definition Serve_flags :: "Options flag list" where
  "Serve_flags =
     [StringVar ''listen-ip'' (\<lambda>v opts. opts\<lparr>op_Serve := (op_Serve opts)\<lparr>se_ListenIP := v\<rparr>\<rparr>),
      IntVar ''listen-port'' (\<lambda>v opts. opts\<lparr>op_Serve := (op_Serve opts)\<lparr>se_ListenPort := v\<rparr>\<rparr>),
      StringVar ''listen-address'' (\<lambda>v opts. opts\<lparr>op_Serve := (op_Serve opts)\<lparr>se_ListenAddress := v\<rparr>\<rparr>),
      StringVar ''tls-cert-file'' (\<lambda>v opts. opts\<lparr>op_Serve := (op_Serve opts)\<lparr>se_CertFile := v\<rparr>\<rparr>),
      StringVar ''tls-key-file'' (\<lambda>v opts. opts\<lparr>op_Serve := (op_Serve opts)\<lparr>se_KeyFile := v\<rparr>\<rparr>)]"

definition extra_flag :: "string \<Rightarrow> (string \<Rightarrow> ExtraOptions \<Rightarrow> ExtraOptions) \<Rightarrow> Options flag" where
  "extra_flag name upd = StringVar name (\<lambda>v opts. opts\<lparr>op_Extra := upd v (op_Extra opts)\<rparr>)"

definition AddFlags :: "Options flag list" where
  "AddFlags = OIDC_flags @ Cookie_flags @ Serve_flags @
     [extra_flag ''kubeconfig'' (\<lambda>v e. e\<lparr>eo_KubeConfig := v\<rparr>),
      extra_flag ''namespace-prefix'' (\<lambda>v e. e\<lparr>eo_NamespacePrefix := v\<rparr>),
      extra_flag ''pretty-name'' (\<lambda>v e. e\<lparr>eo_PrettyName := v\<rparr>),
      extra_flag ''consumer-scope'' (\<lambda>v e. e\<lparr>eo_ConsumerScope := v\<rparr>),
      extra_flag ''cluster-scoped-isolation'' (\<lambda>v e. e\<lparr>eo_ClusterScopedIsolation := v\<rparr>),
      extra_flag ''external-address'' (\<lambda>v e. e\<lparr>eo_ExternalAddress := v\<rparr>),
      extra_flag ''external-ca-file'' (\<lambda>v e. e\<lparr>eo_ExternalCAFile := v\<rparr>),
      extra_flag ''external-server-name'' (\<lambda>v e. e\<lparr>eo_TLSExternalServerName := v\<rparr>),
      extra_flag ''multicluster-runtime-provider'' (\<lambda>v e. e\<lparr>eo_Provider := v\<rparr>),
      extra_flag ''schema-source'' (\<lambda>v e. e\<lparr>eo_SchemaSource := v\<rparr>),
      extra_flag ''server-url'' (\<lambda>v e. e\<lparr>eo_ServerURL := v\<rparr>),
      extra_flag ''testing-auto-select'' (\<lambda>v e. e\<lparr>eo_TestingAutoSelect := v\<rparr>)]"

text \<open>A flag set that gets the same name twice panics.\<close>

lemma flag_names_distinct: "distinct (map flag_name AddFlags)"
  by (simp add: AddFlags_def OIDC_flags_def Cookie_flags_def Serve_flags_def extra_flag_def)

section \<open>Completion\<close>

definition ToLower :: "string \<Rightarrow> string" where
  "ToLower s = map to_lower s"

definition normal_scope :: "string \<Rightarrow> string" where
  "normal_scope scope =
     (let scope1 = (if ToLower scope = ''namespaced'' then ''Namespaced'' else scope)
      in if ToLower scope1 = ''cluster'' then ''Cluster'' else scope1)"

definition normal_isolation :: "string \<Rightarrow> string" where
  "normal_isolation isolation =
     (if ToLower isolation = ''prefixed'' then ''Prefixed''
      else if ToLower isolation = ''namespaced'' then ''Namespaced''
      else if ToLower isolation = ''none'' then ''None''
      else isolation)"

definition Complete :: "(string \<Rightarrow> go_error + string) \<Rightarrow> Options \<Rightarrow> go_error + Options" where
  "Complete readFile opts =
     (let e = op_Extra opts;
          e1 = e\<lparr>eo_ConsumerScope := normal_scope (eo_ConsumerScope e),
                 eo_ClusterScopedIsolation := normal_isolation (eo_ClusterScopedIsolation e)\<rparr>
      in if eo_ExternalCAFile e1 \<noteq> '''' \<and> eo_ExternalCA e1 \<noteq> None
         then Inl (Errorf ''cannot specify both --external-ca-file and set ExternalCA'' None)
         else if eo_ExternalCAFile e1 \<noteq> '''' then
           (case readFile (eo_ExternalCAFile e1) of
              Inl err \<Rightarrow> Inl (Errorf (''error reading external CA file: '' @ Error err) None)
            | Inr ca \<Rightarrow> Inr (opts\<lparr>op_Extra := e1\<lparr>eo_ExternalCA := Some ca\<rparr>\<rparr>))
         else Inr (opts\<lparr>op_Extra := e1\<rparr>))"

section \<open>Validation\<close>

definition OIDC_Validate :: "OIDC \<Rightarrow> err" where
  "OIDC_Validate o1 =
     (if oo_IssuerClientID o1 = '''' then Some (Errorf ''OIDC issuer client ID cannot be empty'' None)
      else if oo_IssuerClientSecret o1 = '''' then Some (Errorf ''OIDC issuer client secret cannot be empty'' None)
      else if oo_IssuerURL o1 = '''' then Some (Errorf ''OIDC issuer URL cannot be empty'' None)
      else if oo_CallbackURL o1 = '''' then Some (Errorf ''OIDC callback URL cannot be empty'' None)
      else None)"

definition checkKey :: "string \<Rightarrow> nat list \<Rightarrow> err" where
  "checkKey key validLengths =
     (case DecodeString std_alphabet True key of
        Inl e \<Rightarrow> Some e
      | Inr b \<Rightarrow> (if length b \<in> set validLengths then None
                  else Some (Errorf (''invalid key length: '' @ string_of_nat (length b)) None)))"

text \<open>The check of the encryption key is given the signing key.\<close>

definition Cookie_Validate :: "Cookie \<Rightarrow> err" where
  "Cookie_Validate c =
     (if ck_SigningKey c = '''' then Some (Errorf ''cookie signing key must not be empty'' None)
      else case checkKey (ck_SigningKey c) [32, 64] of
             Some e \<Rightarrow> Some (Errorf ''invalid signing key'' (Some e))
           | None \<Rightarrow>
               (if ck_EncryptionKey c \<noteq> '''' then
                  (case checkKey (ck_SigningKey c) [16, 24, 32] of
                     Some e \<Rightarrow> Some (Errorf ''invalid encryption key'' (Some e))
                   | None \<Rightarrow> None)
                else None))"

text \<open>Nothing calls this one.\<close>

definition Serve_Validate :: "Serve \<Rightarrow> err" where
  "Serve_Validate s =
     (if (se_ListenIP s = '''') \<noteq> (se_ListenAddress s = '''')
      then Some (Errorf ''either listen-ip or listen-address must be provided'' None)
      else if se_CertFile s = '''' \<and> se_KeyFile s \<noteq> ''''
      then Some (Errorf ''TLS key file cannot be specified without TLS cert file'' None)
      else if se_CertFile s \<noteq> '''' \<and> se_KeyFile s = ''''
      then Some (Errorf ''TLS cert file cannot be specified without TLS key file'' None)
      else None)"

definition check_address :: "(string \<Rightarrow> err) \<Rightarrow> string \<Rightarrow> err" where
  "check_address urlParse address =
     (if address \<noteq> '''' then
        (if \<not> HasPrefix address ''https://'' then Some (Errorf ''external hostname must start with https://'' None)
         else case urlParse address of
                Some e \<Rightarrow> Some (Errorf (''invalid external hostname: '' @ Error e) None)
              | None \<Rightarrow> None)
      else None)"

text \<open>Validation also replaces the provider and the schema source by what they stand for.\<close>

definition Validate :: "(string \<Rightarrow> err) \<Rightarrow> Options \<Rightarrow> go_error + Options" where
  "Validate urlParse opts =
     (let e = op_Extra opts in
      if eo_NamespacePrefix e = '''' then Inl (Errorf ''namespace prefix cannot be empty'' None)
      else if eo_PrettyName e = '''' then Inl (Errorf ''pretty name cannot be empty'' None)
      else case OIDC_Validate (op_OIDC opts) of
        Some err \<Rightarrow> Inl err
      | None \<Rightarrow>
      (case Cookie_Validate (op_Cookie opts) of
        Some err \<Rightarrow> Inl err
      | None \<Rightarrow>
      (if eo_ConsumerScope e \<noteq> ''Namespaced'' \<and> eo_ConsumerScope e \<noteq> ''Cluster''
       then Inl (Errorf (''consumer scope must be either '' @ quoted ''Namespaced'' @ '' or '' @ quoted ''Cluster'') None)
       else case check_address urlParse (eo_ExternalAddress e) of
        Some err \<Rightarrow> Inl err
      | None \<Rightarrow>
      (let provider = lookup_string providerAliases (eo_Provider e) in
       if provider = '''' then Inl (Errorf (''unknown provider '' @ quoted (eo_Provider e) @ '', must be one of [ kcp kubernetes]'') None)
       else let schemaSource = lookup_string schemaSourceAliases (eo_SchemaSource e) in
       if schemaSource = '''' then Inl (Errorf (''unknown schema source '' @ quoted (eo_SchemaSource e) @
         '', must be one of [APIResourceSchema.v1alpha1.apis.kcp.io CustomResourceDefinition.v1.apiextensions.k8s.io apiresourceschemas customresourcedefinitions]'') None)
       else if length (SplitN 3 (CHR ''.'') schemaSource) \<noteq> 3 then Inl (Errorf (''invalid schema source: '' @ quoted schemaSource) None)
       else Inr (opts\<lparr>op_Extra := e\<lparr>eo_Provider := provider, eo_SchemaSource := schemaSource\<rparr>\<rparr>)))))"

end
