(* ===== verification/Backend_Server.thy ===== *)
theory Backend_Server
  imports Backend_Options
begin

text \<open>
  The backend as a whole (\<open>backend/config.go\<close>, \<open>backend/server.go\<close>, \<open>backend/http/server.go\<close> and the routes of
  \<open>backend/http/handler.go\<close>): the configuration of a provider, the listener, the routes, and the parts
  that the server constructs from its options. Clients, managers, OIDC providers and the router
  library are parameters.
\<close>

section \<open>Configuration\<close>

record 'u url_api =
  ua_Parse :: "string \<Rightarrow> go_error + 'u"
  ua_Path :: "'u \<Rightarrow> string"
  ua_set_Path :: "string \<Rightarrow> 'u \<Rightarrow> 'u"
  ua_String :: "'u \<Rightarrow> string"

definition trim_slashes :: "string \<Rightarrow> string" where
  "trim_slashes s = rev (dropWhile (\<lambda>c. c = CHR ''/'') (rev (dropWhile (\<lambda>c. c = CHR ''/'') s)))"

text \<open>Five parts pass the check, but the sixth is read.\<close>

definition parseKCPServerURL :: "'u url_api \<Rightarrow> rest_config \<Rightarrow> (go_error + string) outcome" where
  "parseKCPServerURL urls clusterConfig =
     (case ua_Parse urls (rc_Host clusterConfig) of
        Inl e \<Rightarrow> Returns (Inl e)
      | Inr u \<Rightarrow>
          (let pathParts = Split (CHR ''/'') (trim_slashes (ua_Path urls u))
           in if length pathParts < 5 \<or> pathParts ! 4 \<noteq> ''clusters''
              then Returns (Inl (Errorf ''invalid apiexport URL format'' None))
              else if length pathParts = 5 then Panics
              else Returns (Inr (ua_String urls (ua_set_Path urls (''/clusters/'' @ pathParts ! 5) u)))))"

datatype address_generator = KCPServerURL | ServerHost

definition generate_address :: "'u url_api \<Rightarrow> address_generator \<Rightarrow> rest_config \<Rightarrow> (go_error + string) outcome" where
  "generate_address urls g config =
     (case g of KCPServerURL \<Rightarrow> parseKCPServerURL urls config | ServerHost \<Rightarrow> Returns (DefaultExternalAddreesGenerator config))"

record 'w config_env =
  ce_load :: "string \<Rightarrow> ('w, rest_config) call"
  ce_AddToScheme :: "string \<Rightarrow> ('w, err) io"
  ce_kcpProvider :: "rest_config \<Rightarrow> ('w, err) io"
  ce_manager :: "rest_config \<Rightarrow> bool \<Rightarrow> bool \<Rightarrow> ('w, err) io"

record Config =
  cf_Options :: Options
  cf_kcp :: bool
  cf_ExternalAddressGenerator :: address_generator
  cf_ClientConfig :: rest_config

fun add_to_scheme :: "'w config_env \<Rightarrow> (string \<times> string) list \<Rightarrow> ('w, err) io" where
  "add_to_scheme env [] = State_Monad.return None"
| "add_to_scheme env ((gv, what) # rest) = do {
     e \<leftarrow> ce_AddToScheme env gv;
     (case e of
        Some x \<Rightarrow> State_Monad.return (Some (Errorf (''error adding '' @ what @ '' scheme'') (Some x)))
      | None \<Rightarrow> add_to_scheme env rest) }"

definition set_provider :: "'w config_env \<Rightarrow> string \<Rightarrow> Config \<Rightarrow> ('w, Config) call" where
  "set_provider env provider config =
     (if provider = ''kcp'' then do {
        s \<leftarrow> add_to_scheme env [(''apis.kcp.io/v1alpha1'', ''apis''), (''apis.kcp.io/v1alpha2'', ''apis'')];
        (case s of
           Some e \<Rightarrow> State_Monad.return (Inl e)
         | None \<Rightarrow> do {
             p \<leftarrow> ce_kcpProvider env (cf_ClientConfig config);
             State_Monad.return (case p of
                Some e \<Rightarrow> Inl (Errorf ''error setting up kcp provider'' (Some e))
              | None \<Rightarrow> Inr (config\<lparr>cf_kcp := True, cf_ExternalAddressGenerator := KCPServerURL\<rparr>)) }) }
      else State_Monad.return (Inr (config\<lparr>cf_kcp := False, cf_ExternalAddressGenerator := ServerHost\<rparr>)))"

definition NewConfig :: "'w config_env \<Rightarrow> Options \<Rightarrow> ('w, Config) call" where
  "NewConfig env opts = do {
     l \<leftarrow> ce_load env (eo_KubeConfig (op_Extra opts));
     (case l of
        Inl e \<Rightarrow> State_Monad.return (Inl e)
      | Inr loaded \<Rightarrow>
          (let client = (if eo_ServerURL (op_Extra opts) \<noteq> '''' then loaded\<lparr>rc_Host := eo_ServerURL (op_Extra opts)\<rparr> else loaded)
           in do {
             s \<leftarrow> add_to_scheme env [(''client-go'', ''client-go''), (''apiextensions.k8s.io/v1'', ''apiextensions''),
               (''kube-bind.io/v1alpha1'', ''kubebind''), (''kube-bind.io/v1alpha2'', ''kubebind'')];
             (case s of
                Some e \<Rightarrow> State_Monad.return (Inl e)
              | None \<Rightarrow> do {
                  p \<leftarrow> set_provider env (eo_Provider (op_Extra opts))
                    \<lparr>cf_Options = opts, cf_kcp = False, cf_ExternalAddressGenerator = ServerHost, cf_ClientConfig = client\<rparr>;
                  (case p of
                     Inl e \<Rightarrow> State_Monad.return (Inl e)
                   | Inr config \<Rightarrow> do {
                       m \<leftarrow> ce_manager env client (cf_kcp config) (eo_TestingSkipNameValidation (op_Extra opts));
                       State_Monad.return (case m of
                          Some e \<Rightarrow> Inl (Errorf ''error setting up controller manager'' (Some e))
                        | None \<Rightarrow> Inr config) }) }) })) }"

section \<open>Listener and routes\<close>

definition string_of_int :: "int \<Rightarrow> string" where
  "string_of_int i = (if i < 0 then CHR ''-'' # string_of_nat (nat (- i)) else string_of_nat (nat i))"

definition JoinHostPort :: "string \<Rightarrow> string \<Rightarrow> string" where
  "JoinHostPort host port =
     (if CHR '':'' \<in> set host \<or> CHR ''%'' \<in> set host then ''['' @ host @ '']:'' @ port else host @ '':'' @ port)"

definition listen_address :: "Serve \<Rightarrow> string" where
  "listen_address s = (if se_ListenIP s \<noteq> '''' then JoinHostPort (se_ListenIP s) (string_of_int (se_ListenPort s)) else se_ListenAddress s)"

text \<open>The result is the address of the listener.\<close>

definition http_NewServer :: "(string \<Rightarrow> ('w, string) call) \<Rightarrow> Serve \<Rightarrow> ('w, string) call" where
  "http_NewServer listen s =
     (case se_Listener s of
        None \<Rightarrow> listen (listen_address s)
      | Some addr \<Rightarrow> State_Monad.return (Inr addr))"

datatype serving = ServeHTTP | ServeTLS string string

definition http_Start :: "Serve \<Rightarrow> serving" where
  "http_Start s = (if se_KeyFile s = '''' then ServeHTTP else ServeTLS (se_CertFile s) (se_KeyFile s))"

datatype endpoint = ServiceExports | Resources | Bind | Authorize | Callback | Healthz

definition cluster_endpoint :: "string \<Rightarrow> endpoint option" where
  "cluster_endpoint = [''exports'' \<mapsto> ServiceExports, ''resources'' \<mapsto> Resources, ''bind'' \<mapsto> Bind, ''authorize'' \<mapsto> Authorize]"

text \<open>The path by its segments; the result has the value of the path variable.\<close>

definition AddRoutes :: "string list \<Rightarrow> (endpoint \<times> string) option" where
  "AddRoutes path =
     (case path of
        [a, clusterID, p] \<Rightarrow>
          (if a = ''clusters'' \<and> clusterID \<noteq> '''' then map_option (\<lambda>x. (x, clusterID)) (cluster_endpoint p) else None)
      | [p] \<Rightarrow>
          (case cluster_endpoint p of
             Some x \<Rightarrow> Some (x, '''')
           | None \<Rightarrow> if p = ''callback'' then Some (Callback, '''')
                     else if p = ''healthz'' then Some (Healthz, '''') else None)
      | _ \<Rightarrow> None)"

definition serve_request :: "('w, 'tok) handler \<Rightarrow> time \<Rightarrow> string \<Rightarrow> string list \<Rightarrow> http_request \<Rightarrow> ('w, http_response outcome) io" where
  "serve_request h now verb path r =
     (case AddRoutes path of
        None \<Rightarrow> State_Monad.return (Returns (HttpStatus 404))
      | Some (x, clusterID) \<Rightarrow>
          (let r1 = r\<lparr>hr_Cluster := clusterID\<rparr>
           in if verb \<noteq> ''GET'' then State_Monad.return (Returns (HttpStatus 405))
              else case x of
                ServiceExports \<Rightarrow> State_Monad.return (Returns (handleServiceExport h r1))
              | Resources \<Rightarrow> handleResources h r1
              | Bind \<Rightarrow> do { a \<leftarrow> handleBind h r1; State_Monad.return (Returns a) }
              | Authorize \<Rightarrow> State_Monad.return (Returns (handleAuthorize h r1))
              | Callback \<Rightarrow> do { a \<leftarrow> handleCallback h now r1; State_Monad.return (Returns a) }
              | Healthz \<Rightarrow> State_Monad.return (Returns handleHealthz)))"

section \<open>Construction of the server\<close>

definition scope_of :: "string \<Rightarrow> InformerScope" where
  "scope_of s = (if s = ''Cluster'' then ClusterScope else if s = ''Namespaced'' then NamespacedScope else InformerScopeOther s)"

definition isolation_of :: "string \<Rightarrow> Isolation" where
  "isolation_of s = (if s = ''Prefixed'' then IsolationPrefixed else if s = ''Namespaced'' then IsolationNamespaced
     else if s = ''None'' then IsolationNone else IsolationOther s)"

text \<open>What the handler of the web server is made from.\<close>

record handler_config =
  hc_oidcAuthorizeURL :: string
  hc_backendCallbackURL :: string
  hc_providerPrettyName :: string
  hc_testingAutoSelect :: string
  hc_cookieSigningKey :: string
  hc_cookieEncryptionKey :: "string option"
  hc_schemaSource :: string
  hc_scope :: InformerScope

datatype controller_kind = ClusterBindingController | ServiceExportController | ServiceNamespaceController | ServiceExportRequestController

text \<open>
  The constructors that the server calls: the OIDC provider with client, secret, callback and issuer;
  the index of namespaces; a controller with its scope, isolation and schema source, where it takes
  them; and its registration.
\<close>

record 'w server_env =
  sv_Listen :: "string \<Rightarrow> ('w, string) call"
  sv_OIDC :: "string \<Rightarrow> string \<Rightarrow> string \<Rightarrow> string \<Rightarrow> ('w, err) io"
  sv_IndexNamespaces :: "('w, err) io"
  sv_NewController :: "controller_kind \<Rightarrow> bool \<Rightarrow> InformerScope \<Rightarrow> Isolation option \<Rightarrow> string option \<Rightarrow> ('w, err) io"
  sv_SetupWithManager :: "controller_kind \<Rightarrow> ('w, err) io"

record server =
  srv_Addr :: string
  srv_manager_prefix :: string
  srv_manager_prettyName :: string
  srv_manager_scope :: InformerScope
  srv_manager_generator :: address_generator
  srv_manager_externalCA :: "string option"
  srv_manager_TLSServerName :: string
  srv_handler :: handler_config

text \<open>\<open>failing what m f\<close>: an error of \<open>m\<close> is returned as \<open>what\<close>, else \<open>f\<close> follows.\<close>

definition failing :: "string \<Rightarrow> ('w, err) io \<Rightarrow> ('w, 'a) call \<Rightarrow> ('w, 'a) call" where
  "failing what m f = do {
     e \<leftarrow> m;
     (case e of Some x \<Rightarrow> State_Monad.return (Inl (Errorf what (Some x))) | None \<Rightarrow> f) }"

definition cookie_keys :: "Cookie \<Rightarrow> go_error + (string \<times> string option)" where
  "cookie_keys c =
     (case DecodeString std_alphabet True (ck_SigningKey c) of
        Inl e \<Rightarrow> Inl (Errorf ''error creating signing key'' (Some e))
      | Inr signingKey \<Rightarrow>
          (if ck_EncryptionKey c = '''' then Inr (signingKey, None)
           else case DecodeString std_alphabet True (ck_EncryptionKey c) of
                  Inl e \<Rightarrow> Inl (Errorf ''error creating encryption key'' (Some e))
                | Inr encryptionKey \<Rightarrow> Inr (signingKey, Some encryptionKey)))"

definition controllers :: "'w server_env \<Rightarrow> ExtraOptions \<Rightarrow> server \<Rightarrow> ('w, server) call" where
  "controllers env e s =
     (let skip = eo_TestingSkipNameValidation e; scope = scope_of (eo_ConsumerScope e);
          isolation = isolation_of (eo_ClusterScopedIsolation e)
      in failing ''error setting up ClusterBinding Controller'' (sv_NewController env ClusterBindingController skip scope None None)
        (failing ''error setting up ClusterBinding controller with manager'' (sv_SetupWithManager env ClusterBindingController)
        (failing ''error setting up APIServiceExport Controller'' (sv_NewController env ServiceExportController skip scope None None)
        (failing ''error setting up APIServiceExport controller with manager'' (sv_SetupWithManager env ServiceExportController)
        (failing ''error setting up APIServiceNamespace Controller'' (sv_NewController env ServiceNamespaceController skip scope (Some isolation) None)
        (failing ''error setting up APIServiceNamespace controller with manager'' (sv_SetupWithManager env ServiceNamespaceController)
        (failing ''error setting up ServiceExportRequest Controller''
          (sv_NewController env ServiceExportRequestController skip scope (Some isolation) (Some (eo_SchemaSource e)))
        (failing ''error setting up ServiceExportRequest controller with manager'' (sv_SetupWithManager env ServiceExportRequestController)
          (State_Monad.return (Inr s))))))))))"

definition callback_url :: "OIDC \<Rightarrow> string \<Rightarrow> string" where
  "callback_url o1 addr = (if oo_CallbackURL o1 = '''' then ''http://'' @ addr @ ''/callback'' else oo_CallbackURL o1)"

definition server_with :: "Config \<Rightarrow> string \<Rightarrow> string \<Rightarrow> string option \<Rightarrow> server" where
  "server_with c addr signingKey encryptionKey =
     (let e = op_Extra (cf_Options c); o1 = op_OIDC (cf_Options c); scope = scope_of (eo_ConsumerScope e)
      in \<lparr>srv_Addr = addr, srv_manager_prefix = eo_NamespacePrefix e, srv_manager_prettyName = eo_PrettyName e,
          srv_manager_scope = scope, srv_manager_generator = cf_ExternalAddressGenerator c,
          srv_manager_externalCA = eo_ExternalCA e, srv_manager_TLSServerName = eo_TLSExternalServerName e,
          srv_handler = \<lparr>hc_oidcAuthorizeURL = oo_AuthorizeURL o1, hc_backendCallbackURL = callback_url o1 addr,
            hc_providerPrettyName = eo_PrettyName e, hc_testingAutoSelect = eo_TestingAutoSelect e,
            hc_cookieSigningKey = signingKey, hc_cookieEncryptionKey = encryptionKey,
            hc_schemaSource = eo_SchemaSource e, hc_scope = scope\<rparr>\<rparr>)"

text \<open>The part that follows the listener, with its address.\<close>

definition connect :: "'w server_env \<Rightarrow> Config \<Rightarrow> string \<Rightarrow> ('w, server) call" where
  "connect env c addr =
     (let opts = cf_Options c; o1 = op_OIDC opts
      in failing ''error setting up OIDC''
           (sv_OIDC env (oo_IssuerClientID o1) (oo_IssuerClientSecret o1) (callback_url o1 addr) (oo_IssuerURL o1))
         (failing ''error setting up Kubernetes Manager'' (do {
            x \<leftarrow> sv_IndexNamespaces env;
            State_Monad.return (case x of None \<Rightarrow> None
              | Some y \<Rightarrow> Some (Errorf ''failed to setup NamespacesByIdentity indexer'' (Some y))) })
         (case cookie_keys (op_Cookie opts) of
            Inl err \<Rightarrow> State_Monad.return (Inl err)
          | Inr (signingKey, encryptionKey) \<Rightarrow>
              controllers env (op_Extra opts) (server_with c addr signingKey encryptionKey))))"

definition NewServer :: "'w server_env \<Rightarrow> Config \<Rightarrow> ('w, server) call" where
  "NewServer env c = do {
     l \<leftarrow> http_NewServer (sv_Listen env) (op_Serve (cf_Options c));
     (case l of
        Inl err \<Rightarrow> State_Monad.return (Inl (Errorf ''error setting up HTTP Server'' (Some err)))
      | Inr addr \<Rightarrow> connect env c addr) }"

section \<open>Addresses and routes\<close>

lemma Split_no_sep: "c \<notin> set s \<Longrightarrow> Split c s = [s]"
  by (induction s) auto

lemma Split_sep: "c \<notin> set a \<Longrightarrow> Split c (a @ c # s) = a # Split c s"
  by (induction a) auto

text \<open>The address of a workspace under the virtual workspace of an export.\<close>

lemma parseKCPServerURL_workspace:
  assumes "ua_Parse urls (rc_Host config) = Inr u"
    and "ua_Path urls u = ''/services/apiexport/'' @ exportID @ ''/kube-bind.io/clusters/'' @ clusterID"
    and "CHR ''/'' \<notin> set exportID" and "CHR ''/'' \<notin> set clusterID" and "clusterID \<noteq> ''''"
  shows "parseKCPServerURL urls config = Returns (Inr (ua_String urls (ua_set_Path urls (''/clusters/'' @ clusterID) u)))"
proof -
  have "trim_slashes (ua_Path urls u) = ''services/apiexport/'' @ exportID @ ''/kube-bind.io/clusters/'' @ clusterID"
    using assms(4,5) unfolding assms(2) trim_slashes_def
    by (cases clusterID rule: rev_cases) auto
  then have "Split (CHR ''/'') (trim_slashes (ua_Path urls u)) = [''services'', ''apiexport'', exportID, ''kube-bind.io'', ''clusters'', clusterID]"
    using assms(3,4) by (simp add: Split_sep Split_no_sep)
  then show ?thesis using assms(1) by (simp add: parseKCPServerURL_def)
qed

text \<open>Without the name of a workspace the function panics.\<close>

lemma parseKCPServerURL_panics:
  "parseKCPServerURL \<lparr>ua_Parse = Inr, ua_Path = id, ua_set_Path = (\<lambda>p _. p), ua_String = id\<rparr>
     \<lparr>rc_Host = ''/services/apiexport/x/kube-bind.io/clusters/'', rc_CAData = '''', rc_CAFile = ''''\<rparr> = Panics"
  by code_simp

text \<open>
  The routes with a cluster reach the same handlers as those without; login callbacks and health checks
  have none.
\<close>

lemma cluster_endpoint_kinds: "cluster_endpoint p = Some x \<Longrightarrow> x \<noteq> Callback \<and> x \<noteq> Healthz"
  by (auto simp: cluster_endpoint_def split: if_split_asm)

lemma routes_with_cluster:
  "clusterID \<noteq> '''' \<Longrightarrow> AddRoutes [''clusters'', clusterID, p] = Some (x, v) \<longleftrightarrow>
     AddRoutes [p] = Some (x, '''') \<and> v = clusterID \<and> x \<notin> {Callback, Healthz}"
  using cluster_endpoint_kinds [of p x]
  by (cases "cluster_endpoint p") (auto simp: AddRoutes_def split: if_split_asm)

section \<open>Validated options\<close>

lemma Inl_neq: "(if b then Inl x else y) = Inr z \<longleftrightarrow> \<not> b \<and> y = Inr z"
  by simp

lemma Validate_accepts:
  assumes "Validate urlParse opts = Inr valid"
  shows "OIDC_Validate (op_OIDC opts) = None \<and> Cookie_Validate (op_Cookie opts) = None \<and>
    (eo_ConsumerScope (op_Extra opts) = ''Namespaced'' \<or> eo_ConsumerScope (op_Extra opts) = ''Cluster'') \<and>
    lookup_string providerAliases (eo_Provider (op_Extra opts)) \<noteq> '''' \<and>
    length (SplitN 3 (CHR ''.'') (lookup_string schemaSourceAliases (eo_SchemaSource (op_Extra opts)))) = 3 \<and>
    valid = opts\<lparr>op_Extra := (op_Extra opts)\<lparr>eo_Provider := lookup_string providerAliases (eo_Provider (op_Extra opts)),
      eo_SchemaSource := lookup_string schemaSourceAliases (eo_SchemaSource (op_Extra opts))\<rparr>\<rparr>"
  using assms unfolding Validate_def Let_def
  by (simp only: Inl_neq split: option.split_asm) (simp_all add: Inl_neq split: if_split_asm)

lemma providerAliases_values: "lookup_string providerAliases p \<noteq> '''' \<Longrightarrow> lookup_string providerAliases p \<in> {''kcp'', ''kubernetes''}"
  by (auto simp: lookup_string_def providerAliases_def split: option.split_asm if_split_asm)

lemma Validate_facts:
  assumes "Validate urlParse opts = Inr valid"
  shows "OIDC_Validate (op_OIDC opts) = None" and "Cookie_Validate (op_Cookie opts) = None"
    and "op_OIDC valid = op_OIDC opts" and "op_Cookie valid = op_Cookie opts" and "op_Serve valid = op_Serve opts"
    and "eo_ConsumerScope (op_Extra valid) \<in> {''Namespaced'', ''Cluster''}"
    and "eo_Provider (op_Extra valid) \<in> {''kcp'', ''kubernetes''}"
    and "length (SplitN 3 (CHR ''.'') (eo_SchemaSource (op_Extra valid))) = 3"
  using Validate_accepts [OF assms] providerAliases_values [of "eo_Provider (op_Extra opts)"] by simp_all

lemma Cookie_Validate_iff:
  "Cookie_Validate c = None \<longleftrightarrow> ck_SigningKey c \<noteq> '''' \<and>
     (\<exists>k. DecodeString std_alphabet True (ck_SigningKey c) = Inr k \<and>
        (length k = 32 \<or> length k = 64 \<and> ck_EncryptionKey c = ''''))"
  by (auto simp: Cookie_Validate_def checkKey_def split: sum.splits option.splits if_splits)

text \<open>
  The encryption key itself is never looked at, and no signing key of 64 bytes goes with one.
\<close>

lemma encryption_key_unchecked:
  "key \<noteq> '''' \<Longrightarrow> ck_EncryptionKey c \<noteq> '''' \<Longrightarrow> Cookie_Validate (c\<lparr>ck_EncryptionKey := key\<rparr>) = Cookie_Validate c"
  by (auto simp: Cookie_Validate_def split: option.split)

section \<open>Start\<close>

definition healthy_env :: "'w server_env \<Rightarrow> bool" where
  "healthy_env env \<longleftrightarrow>
     (\<forall>addr w. \<exists>a. fst (run_state (sv_Listen env addr) w) = Inr a) \<and>
     (\<forall>i s cb u w. fst (run_state (sv_OIDC env i s cb u) w) = None) \<and>
     (\<forall>w. fst (run_state (sv_IndexNamespaces env) w) = None) \<and>
     (\<forall>k skip sc iso src w. fst (run_state (sv_NewController env k skip sc iso src) w) = None) \<and>
     (\<forall>k w. fst (run_state (sv_SetupWithManager env k) w) = None)"

lemma failing_run:
  "fst (run_state m w) = None \<Longrightarrow> fst (run_state (failing what m f) w) = fst (run_state f (snd (run_state m w)))"
  by (cases "run_state m w") (simp add: failing_def)

lemma failing_ok: "(\<And>w. fst (run_state m w) = None) \<Longrightarrow> (\<And>w. P (fst (run_state f w))) \<Longrightarrow> P (fst (run_state (failing what m f) w))"
  by (simp add: failing_run)

lemma controllers_ok:
  assumes "healthy_env env"
  shows "fst (run_state (controllers env e s) w) = Inr s"
proof -
  have "fst (run_state (sv_NewController env k skip sc iso src) w) = None" and "fst (run_state (sv_SetupWithManager env k) w) = None"
    for k skip sc iso src w using assms unfolding healthy_env_def by blast+
  then show ?thesis unfolding controllers_def Let_def by (simp only: failing_run) simp
qed

definition server_ok :: "Options \<Rightarrow> server \<Rightarrow> bool" where
  "server_ok opts s \<longleftrightarrow>
     srv_manager_scope s \<in> {ClusterScope, NamespacedScope} \<and> hc_scope (srv_handler s) = srv_manager_scope s \<and>
     hc_backendCallbackURL (srv_handler s) = oo_CallbackURL (op_OIDC opts) \<and>
     length (hc_cookieSigningKey (srv_handler s)) \<in> {32, 64} \<and>
     length (SplitN 3 (CHR ''.'') (hc_schemaSource (srv_handler s))) = 3"

text \<open>How the server starts.\<close>

definition started_as :: "Options \<Rightarrow> go_error + server \<Rightarrow> bool" where
  "started_as opts r \<longleftrightarrow>
     (case r of
        Inr s \<Rightarrow> server_ok opts s \<and>
          (case hc_cookieEncryptionKey (srv_handler s) of
             None \<Rightarrow> ck_EncryptionKey (op_Cookie opts) = ''''
           | Some key \<Rightarrow> DecodeString std_alphabet True (ck_EncryptionKey (op_Cookie opts)) = Inr key)
      | Inl _ \<Rightarrow> ck_EncryptionKey (op_Cookie opts) \<noteq> '''' \<and>
          (\<exists>x. DecodeString std_alphabet True (ck_EncryptionKey (op_Cookie opts)) = Inl x))"

lemma indexed_ok:
  "healthy_env env \<Longrightarrow> fst (run_state (do { x \<leftarrow> sv_IndexNamespaces env; State_Monad.return (case x of None \<Rightarrow> None
      | Some y \<Rightarrow> Some (Errorf ''failed to setup NamespacesByIdentity indexer'' (Some y))) }) w) = None"
  by (auto simp: healthy_env_def split: prod.split option.split) (metis fst_conv option.distinct(1))


text \<open>A signing key of 32 bytes and an encryption key that is not base64.\<close>

definition example_options :: Options where
  "example_options = NewOptions\<lparr>
     op_OIDC := \<lparr>oo_IssuerClientID = ''kube-bind'', oo_IssuerClientSecret = ''secret'', oo_IssuerURL = ''https://idp'',
       oo_CallbackURL = ''https://backend/callback'', oo_AuthorizeURL = ''''\<rparr>,
     op_Cookie := \<lparr>ck_SigningKey = replicate 43 (CHR ''A'') @ ''='', ck_EncryptionKey = ''-''\<rparr>\<rparr>"

definition example_env :: "unit server_env" where
  "example_env = \<lparr>sv_Listen = (\<lambda>addr. State_Monad.return (Inr addr)), sv_OIDC = (\<lambda>_ _ _ _. State_Monad.return None),
     sv_IndexNamespaces = State_Monad.return None, sv_NewController = (\<lambda>_ _ _ _ _. State_Monad.return None),
     sv_SetupWithManager = (\<lambda>_. State_Monad.return None)\<rparr>"

definition example_config :: Config where
  "example_config = \<lparr>cf_Options = example_options, cf_kcp = False, cf_ExternalAddressGenerator = ServerHost,
     cf_ClientConfig = \<lparr>rc_Host = ''https://cluster'', rc_CAData = '''', rc_CAFile = ''''\<rparr>\<rparr>"

lemma example_valid: "Validate (\<lambda>_. None) example_options = Inr example_options"
  by code_simp


end
