(* ===== verification/Cli_Kubeconfig.thy ===== *)
theory Cli_Kubeconfig
  imports Backend_Manager
begin

text \<open>
  The kubeconfig secrets of \<open>kubectl bind\<close> (\<open>cli/pkg/kubectl/base/kubeconfig.go\<close>): a secret of the namespace
  \<open>kube-bind\<close> is found by the host and namespace its kubeconfig leads to, created if there is none, and
  updated only if its kubeconfig leads to the same place. The loader of kubeconfigs is a parameter.
\<close>

section \<open>Operations\<close>

text \<open>The client for the secrets of namespace \<open>kube-bind\<close>; a creation takes the prefix of the generated name.\<close>

record 'w secrets_client =
  ks_List :: "('w, Secret list) call"
  ks_Get :: "string \<Rightarrow> ('w, Secret) call"
  ks_Create :: "string \<Rightarrow> Secret \<Rightarrow> ('w, Secret) call"
  ks_Update :: "Secret \<Rightarrow> ('w, Secret) call"

definition ParseRemoteKubeconfig :: "(string \<Rightarrow> go_error + client_config) \<Rightarrow> string \<Rightarrow> go_error + (string \<times> string)" where
  "ParseRemoteKubeconfig load kubeconfig =
     (case load kubeconfig of
        Inl e \<Rightarrow> Inl e
      | Inr config \<Rightarrow>
          (case fmlookup (cf_Contexts config) (cf_CurrentContext config) of
             None \<Rightarrow> Inl (Errorf (''current context '' @ quoted (cf_CurrentContext config) @ '' of remote kubeconfig not found'') None)
           | Some c \<Rightarrow>
               (case fmlookup (cf_Clusters config) (kcx_Cluster c) of
                  None \<Rightarrow> Inl (Errorf (''cluster '' @ quoted (kcx_Cluster c) @ '' in current context '' @
                    quoted (cf_CurrentContext config) @ '' of remote kubeconfig not found'') None)
                | Some cluster' \<Rightarrow> Inr (kcl_Server cluster', kcx_Namespace c))))"

text \<open>Where the kubeconfig of a secret leads to.\<close>

definition leads_to :: "(string \<Rightarrow> go_error + client_config) \<Rightarrow> Secret \<Rightarrow> (string \<times> string) option" where
  "leads_to load s =
     (case fmlookup (sec_Data s) ''kubeconfig'' of
        None \<Rightarrow> None
      | Some bs \<Rightarrow> (case ParseRemoteKubeconfig load bs of Inl _ \<Rightarrow> None | Inr d \<Rightarrow> Some d))"

fun find_kubeconfig :: "(string \<Rightarrow> go_error + client_config) \<Rightarrow> string \<Rightarrow> string \<Rightarrow> Secret list \<Rightarrow> string" where
  "find_kubeconfig load remoteNamespace remoteHost [] = ''''"
| "find_kubeconfig load remoteNamespace remoteHost (s # ss) =
     (case fmlookup (sec_Data s) ''kubeconfig'' of
        None \<Rightarrow> find_kubeconfig load remoteNamespace remoteHost ss
      | Some bs \<Rightarrow>
          (case ParseRemoteKubeconfig load bs of
             Inl _ \<Rightarrow> find_kubeconfig load remoteNamespace remoteHost ss
           | Inr (host, ns) \<Rightarrow>
               (if ns \<noteq> remoteNamespace then find_kubeconfig load remoteNamespace remoteHost ss
                else if host \<noteq> remoteHost then find_kubeconfig load remoteNamespace remoteHost ss
                else om_Name (sec_Meta s))))"

definition FindRemoteKubeconfig :: "(string \<Rightarrow> go_error + client_config) \<Rightarrow> 'w secrets_client \<Rightarrow> string \<Rightarrow> string \<Rightarrow> ('w, string) call" where
  "FindRemoteKubeconfig load cl remoteNamespace remoteHost = do {
     l \<leftarrow> ks_List cl;
     State_Monad.return (case l of Inl e \<Rightarrow> Inl e | Inr secrets \<Rightarrow> Inr (find_kubeconfig load remoteNamespace remoteHost secrets)) }"

definition new_kubeconfig_secret :: "string \<Rightarrow> Secret" where
  "new_kubeconfig_secret kubeconfig = \<lparr>sec_Meta = zero_ObjectMeta\<lparr>om_Namespace := ''kube-bind''\<rparr>,
     sec_Data = fmupd ''kubeconfig'' kubeconfig fmempty, sec_Type = ''''\<rparr>"

definition set_kubeconfig :: "string \<Rightarrow> Secret \<Rightarrow> Secret" where
  "set_kubeconfig kubeconfig s = s\<lparr>sec_Data := fmupd ''kubeconfig'' kubeconfig (sec_Data s)\<rparr>"

definition update_kubeconfig :: "(string \<Rightarrow> go_error + client_config) \<Rightarrow> 'w secrets_client \<Rightarrow> string \<Rightarrow> string \<Rightarrow>
    string \<times> string \<Rightarrow> ('w, Secret) call" where
  "update_kubeconfig load cl kubeconfig name remote = do {
     g \<leftarrow> ks_Get cl name;
     (case g of
        Inl e \<Rightarrow> State_Monad.return (Inl e)
      | Inr secret \<Rightarrow>
          (case fmlookup (sec_Data secret) ''kubeconfig'' of
             None \<Rightarrow> State_Monad.return (Inl (Errorf (''secret kube-bind/'' @ name @ '' does not contain a kubeconfig'') None))
           | Some bs \<Rightarrow>
               (case ParseRemoteKubeconfig load bs of
                  Inl e \<Rightarrow> State_Monad.return (Inl e)
                | Inr existing \<Rightarrow>
                    (if fst existing \<noteq> fst remote \<or> snd existing \<noteq> snd remote
                     then State_Monad.return (Inl (StatusError ReasonAlreadyExists (om_Name (sec_Meta secret))))
                     else do {
                       u \<leftarrow> ks_Update cl (set_kubeconfig kubeconfig secret);
                       State_Monad.return (case u of Inl e \<Rightarrow> Inl e | Inr _ \<Rightarrow> Inr (set_kubeconfig kubeconfig secret)) })))) }"

definition EnsureKubeconfigSecret :: "(string \<Rightarrow> go_error + client_config) \<Rightarrow> nat \<Rightarrow> string \<Rightarrow> string \<Rightarrow> 'w secrets_client \<Rightarrow>
    ('w, Secret \<times> bool) call" where
  "EnsureKubeconfigSecret load retries kubeconfig name cl =
     (case ParseRemoteKubeconfig load kubeconfig of
        Inl e \<Rightarrow> State_Monad.return (Inl e)
      | Inr remote \<Rightarrow>
          (if name = '''' then do {
             c \<leftarrow> ks_Create cl ''kubeconfig-'' (new_kubeconfig_secret kubeconfig);
             State_Monad.return (case c of Inl e \<Rightarrow> Inl e | Inr secret \<Rightarrow> Inr (secret, True)) }
           else do {
             u \<leftarrow> RetryOnConflict retries (update_kubeconfig load cl kubeconfig name remote);
             State_Monad.return (case u of Inl e \<Rightarrow> Inl e | Inr secret \<Rightarrow> Inr (secret, False)) }))"

section \<open>Which secrets are written\<close>

datatype kubeconfig_event =
    ListedSecrets "go_error + Secret list"
  | GotKubeconfig string "go_error + Secret"
  | CreatedKubeconfig string Secret "go_error + Secret"
  | UpdatedKubeconfig Secret "go_error + Secret"

definition traced_secrets :: "'w secrets_client \<Rightarrow> ('w \<times> kubeconfig_event list) secrets_client" where
  "traced_secrets cl = \<lparr>
     ks_List = logged ListedSecrets (ks_List cl),
     ks_Get = (\<lambda>n. logged (GotKubeconfig n) (ks_Get cl n)),
     ks_Create = (\<lambda>p s. logged (CreatedKubeconfig p s) (ks_Create cl p s)),
     ks_Update = (\<lambda>s. logged (UpdatedKubeconfig s) (ks_Update cl s))\<rparr>"

lemma traced_secrets_simps [simp]:
  "ks_List (traced_secrets cl) = logged ListedSecrets (ks_List cl)"
  "ks_Get (traced_secrets cl) n = logged (GotKubeconfig n) (ks_Get cl n)"
  "ks_Create (traced_secrets cl) p s = logged (CreatedKubeconfig p s) (ks_Create cl p s)"
  "ks_Update (traced_secrets cl) s = logged (UpdatedKubeconfig s) (ks_Update cl s)"
  by (simp_all add: traced_secrets_def)

text \<open>
  What may be written for a kubeconfig: a new secret with just this kubeconfig, or a secret read right
  before whose kubeconfig leads to the same host and namespace, with nothing but the kubeconfig changed.
\<close>

definition secret_write_ok :: "(string \<Rightarrow> go_error + client_config) \<Rightarrow> string \<Rightarrow> kubeconfig_event list \<Rightarrow> kubeconfig_event \<Rightarrow> bool" where
  "secret_write_ok load kubeconfig past ev =
     (case ev of
        ListedSecrets _ \<Rightarrow> True
      | GotKubeconfig _ _ \<Rightarrow> True
      | CreatedKubeconfig p s _ \<Rightarrow> s = new_kubeconfig_secret kubeconfig
      | UpdatedKubeconfig s _ \<Rightarrow>
          (case rev past of
             GotKubeconfig _ (Inr old) # _ \<Rightarrow>
               s = set_kubeconfig kubeconfig old \<and>
               (\<exists>d. leads_to load old = Some d \<and> ParseRemoteKubeconfig load kubeconfig = Inr d)
           | _ \<Rightarrow> False))"

lemma update_kubeconfig_guarded:
  assumes "ParseRemoteKubeconfig load kubeconfig = Inr remote" and "guarded (secret_write_ok load kubeconfig) [] tr"
  shows "wp (update_kubeconfig load (traced_secrets cl) kubeconfig name remote)
    (\<lambda>r s'. guarded (secret_write_ok load kubeconfig) [] (snd s') \<and>
      (\<forall>x. r = Inr x \<longrightarrow> fmlookup (sec_Data x) ''kubeconfig'' = Some kubeconfig)) (w, tr)"
  using assms unfolding update_kubeconfig_def traced_secrets_simps
  by (auto intro!: wp_intros
      simp: guarded_append secret_write_ok_def leads_to_def set_kubeconfig_def prod_eq_iff split: sum.splits)

lemma retried_update_guarded:
  assumes "ParseRemoteKubeconfig load kubeconfig = Inr remote" and "guarded (secret_write_ok load kubeconfig) [] tr"
  shows "wp (RetryOnConflict n (update_kubeconfig load (traced_secrets cl) kubeconfig name remote))
    (\<lambda>r s'. guarded (secret_write_ok load kubeconfig) [] (snd s') \<and>
      (\<forall>x. r = Inr x \<longrightarrow> fmlookup (sec_Data x) ''kubeconfig'' = Some kubeconfig)) (w, tr)"
proof (rule wp_retry [where I = "\<lambda>s. guarded (secret_write_ok load kubeconfig) [] (snd s)"])
  show "wp (update_kubeconfig load (traced_secrets cl) kubeconfig name remote)
    (\<lambda>r s'. guarded (secret_write_ok load kubeconfig) [] (snd s') \<and>
      (\<forall>x. r = Inr x \<longrightarrow> fmlookup (sec_Data x) ''kubeconfig'' = Some kubeconfig)) s"
    if "guarded (secret_write_ok load kubeconfig) [] (snd s)" for s :: "'a \<times> kubeconfig_event list"
    using update_kubeconfig_guarded [OF assms(1)] that by (cases s) simp
qed (use assms in simp_all)

lemma EnsureKubeconfigSecret_guarded:
  assumes "guarded (secret_write_ok load kubeconfig) [] tr"
  shows "wp (EnsureKubeconfigSecret load retries kubeconfig name (traced_secrets cl))
    (\<lambda>r s'. guarded (secret_write_ok load kubeconfig) [] (snd s') \<and>
      (\<forall>x. r = Inr (x, False) \<longrightarrow> fmlookup (sec_Data x) ''kubeconfig'' = Some kubeconfig)) (w, tr)"
proof (cases "ParseRemoteKubeconfig load kubeconfig")
  case (Inl e)
  then show ?thesis using assms by (simp add: EnsureKubeconfigSecret_def wp_return)
next
  case (Inr remote)
  show ?thesis
  proof (cases "name = ''''")
    case True
    then show ?thesis using assms Inr unfolding EnsureKubeconfigSecret_def traced_secrets_simps
      by (auto intro!: wp_intros simp: secret_write_ok_def split: sum.splits)
  next
    case False
    then show ?thesis using Inr unfolding EnsureKubeconfigSecret_def
      by simp (rule wp_chain [OF retried_update_guarded [OF Inr assms]], auto intro!: wp_return split: sum.splits)
  qed
qed

lemma find_kubeconfig_Cons:
  "find_kubeconfig load ns host (s # ss) =
     (if leads_to load s = Some (host, ns) then om_Name (sec_Meta s) else find_kubeconfig load ns host ss)"
  by (auto simp: leads_to_def split: option.split sum.split)

lemma find_kubeconfig_found:
  "find_kubeconfig load ns host ss \<noteq> '''' \<Longrightarrow>
   \<exists>s. s \<in> set ss \<and> om_Name (sec_Meta s) = find_kubeconfig load ns host ss \<and> leads_to load s = Some (host, ns)"
proof (induction ss)
  case (Cons s ss)
  then show ?case by (cases "leads_to load s = Some (host, ns)") (auto simp: find_kubeconfig_Cons simp del: find_kubeconfig.simps)
qed simp

end
