(* ===== verification/Bootstrap.thy ===== *)
theory Bootstrap
  imports Bound_Schema Kube_Client
begin

text \<open>
  Package \<open>pkg/bootstrap\<close> with \<open>deploy/konnector\<close> and \<open>deploy/crd\<close>: the embedded manifests are created in a
  cluster, or updated where they exist, until one round of all of them succeeds. Parameters: the
  splitting of a file into YAML documents, text templates, the decoder and the REST mapper, and the
  number of rounds until the context is cancelled.
\<close>

section \<open>Manifests\<close>

text \<open>
  A file with its documents, the last entry being the error of the reader if it failed. The
  environment: rendering of a template with the batteries, decoding, mapping of a kind to its
  resource, and invalidation of the mapper's cache.
\<close>

record manifest_file =
  mf_Name :: string
  mf_Raw :: "go_error + string"
  mf_Docs :: "(go_error + string) list"

record 'w bootstrap_env =
  be_client :: "'w dynamic_client"
  be_render :: "string list \<Rightarrow> string \<Rightarrow> go_error + string"
  be_decode :: "string \<Rightarrow> go_error + unstructured"
  be_RESTMapping :: "unstructured \<Rightarrow> ('w, GroupVersionResource) call"
  be_Invalidate :: "('w, unit) io"
  be_TrimSpace :: "string \<Rightarrow> string"

type_synonym transformer = "string \<Rightarrow> go_error + string"

text \<open>\<open>bytes.ReplaceAll\<close> for a pattern that is not empty.\<close>

function ReplaceAll :: "string \<Rightarrow> string \<Rightarrow> string \<Rightarrow> string" where
  "ReplaceAll s old new =
     (case s of
        [] \<Rightarrow> []
      | c # cs \<Rightarrow>
          (if old \<noteq> [] \<and> prefix old s then new @ ReplaceAll (drop (length old) s) old new
           else c # ReplaceAll cs old new))"
  by pat_completeness auto
termination by (relation "measure (\<lambda>(s, _). length s)") auto

declare ReplaceAll.simps [simp del]

fun replace_pairs :: "string list \<Rightarrow> string \<Rightarrow> string" where
  "replace_pairs (old # new # pairs) bs = replace_pairs pairs (ReplaceAll bs old new)"
| "replace_pairs _ bs = bs"

definition ReplaceOption :: "string list \<Rightarrow> transformer" where
  "ReplaceOption pairs bs =
     (if length pairs mod 2 \<noteq> 0 then Inl (Errorf (''odd number of arguments: ['' @ Join pairs '' '' @ '']'') None)
      else Inr (replace_pairs pairs bs))"

fun transform :: "transformer list \<Rightarrow> transformer" where
  "transform [] doc = Inr doc"
| "transform (t # ts) doc = (case t doc of Inl e \<Rightarrow> Inl e | Inr doc' \<Rightarrow> transform ts doc')"

section \<open>One object\<close>

definition annotationCreateOnlyKey :: string where "annotationCreateOnlyKey = ''bootstrap.kube-bind.io/create-only''"
definition annotationBattery :: string where "annotationBattery = ''bootstrap.kube-bind.io/battery''"

definition qualifiedObjectName :: "unstructured \<Rightarrow> string" where
  "qualifiedObjectName u = (if length (u_Namespace u) > 0 then u_Namespace u @ ''/'' @ u_Name u else u_Name u)"

definition excluded :: "(string \<Rightarrow> string) \<Rightarrow> string list \<Rightarrow> unstructured \<Rightarrow> bool" where
  "excluded trim batteries u =
     (case fmlookup (om_Annotations (u_Meta u)) annotationBattery of
        None \<Rightarrow> False
      | Some v \<Rightarrow> \<not> list_ex (\<lambda>p. trim p \<in> set batteries) (Split (CHR '','') v))"

definition SetResourceVersion :: "string \<Rightarrow> unstructured \<Rightarrow> unstructured" where
  "SetResourceVersion v u = u\<lparr>u_Meta := (u_Meta u)\<lparr>om_ResourceVersion := v\<rparr>\<rparr>"

definition upsert :: "'w dynamic_client \<Rightarrow> GroupVersionResource \<Rightarrow> unstructured \<Rightarrow> ('w, err) io" where
  "upsert cl gvr u = do {
     c \<leftarrow> dc_Create cl gvr (u_Namespace u) u;
     (case c of
        Inr _ \<Rightarrow> State_Monad.return None
      | Inl e \<Rightarrow>
          (if IsAlreadyExists e then do {
             g \<leftarrow> dc_Get cl gvr (u_Namespace u) (u_Name u);
             (case g of
                Inl e' \<Rightarrow> State_Monad.return (Some e')
              | Inr existing \<Rightarrow>
                  (if fmlookup (om_Annotations (u_Meta existing)) annotationCreateOnlyKey \<noteq> None
                   then State_Monad.return None
                   else do {
                     r \<leftarrow> dc_Update cl gvr (u_Namespace u) (SetResourceVersion (om_ResourceVersion (u_Meta existing)) u);
                     State_Monad.return (case r of
                        Inl e' \<Rightarrow> Some (Errorf (''could not update '' @ u_Kind u @ '' '' @ qualifiedObjectName existing) (Some e'))
                      | Inr _ \<Rightarrow> None) })) }
           else State_Monad.return (Some e))) }"

definition createResourceFromFS :: "'w bootstrap_env \<Rightarrow> string \<Rightarrow> string list \<Rightarrow> ('w, err) io" where
  "createResourceFromFS env raw batteries =
     (case be_render env batteries raw of
        Inl e \<Rightarrow> State_Monad.return (Some e)
      | Inr buf \<Rightarrow>
          (case be_decode env buf of
             Inl e \<Rightarrow> State_Monad.return (Some (Errorf ''could not decode raw'' (Some e)))
           | Inr u \<Rightarrow>
               (if excluded (be_TrimSpace env) batteries u then State_Monad.return None
                else do {
                  m \<leftarrow> be_RESTMapping env u;
                  (case m of
                     Inl e \<Rightarrow> State_Monad.return (Some (Errorf (''could not get REST mapping for '' @ u_Kind u) (Some e)))
                   | Inr gvr \<Rightarrow> upsert (be_client env) gvr u) })))"

section \<open>Files and rounds\<close>

text \<open>The documents of a file, with the errors so far; a failing reader or transformer drops them and returns at once.\<close>

fun create_docs :: "'w bootstrap_env \<Rightarrow> string list \<Rightarrow> transformer list \<Rightarrow> string \<Rightarrow> go_error list \<Rightarrow> (go_error + string) list \<Rightarrow>
    ('w, err) io" where
  "create_docs env batteries ts filename errs [] = State_Monad.return (NewAggregate errs)"
| "create_docs env batteries ts filename errs (d # ds) =
     (case d of
        Inl e \<Rightarrow> State_Monad.return (Some e)
      | Inr doc \<Rightarrow>
          (if be_TrimSpace env doc = '''' then create_docs env batteries ts filename errs ds
           else case transform ts doc of
                  Inl e \<Rightarrow> State_Monad.return (Some e)
                | Inr doc' \<Rightarrow> do {
                    r \<leftarrow> createResourceFromFS env doc' batteries;
                    create_docs env batteries ts filename
                      (case r of None \<Rightarrow> errs | Some e \<Rightarrow> errs @ [Errorf (''failed to create resource '' @ filename) (Some e)]) ds }))"

definition CreateResourceFromFS :: "'w bootstrap_env \<Rightarrow> string list \<Rightarrow> transformer list \<Rightarrow> manifest_file \<Rightarrow> ('w, err) io" where
  "CreateResourceFromFS env batteries ts f =
     (case mf_Raw f of
        Inl e \<Rightarrow> State_Monad.return (Some (Errorf (''could not read '' @ mf_Name f) (Some e)))
      | Inr raw \<Rightarrow>
          (if raw = '''' then State_Monad.return None else create_docs env batteries ts (mf_Name f) [] (mf_Docs f)))"

fun create_files :: "'w bootstrap_env \<Rightarrow> string list \<Rightarrow> transformer list \<Rightarrow> go_error list \<Rightarrow> manifest_file list \<Rightarrow> ('w, err) io" where
  "create_files env batteries ts errs [] = State_Monad.return (NewAggregate errs)"
| "create_files env batteries ts errs (f # fs) = do {
     e \<leftarrow> CreateResourceFromFS env batteries ts f;
     create_files env batteries ts (errs_append errs e) fs }"

definition CreateResourcesFromFS :: "'w bootstrap_env \<Rightarrow> string list \<Rightarrow> transformer list \<Rightarrow> go_error + manifest_file list \<Rightarrow> ('w, err) io" where
  "CreateResourcesFromFS env batteries ts dir =
     (case dir of Inl e \<Rightarrow> State_Monad.return (Some e) | Inr fs \<Rightarrow> create_files env batteries ts [] fs)"

fun Bootstrap :: "'w bootstrap_env \<Rightarrow> string list \<Rightarrow> transformer list \<Rightarrow> go_error + manifest_file list \<Rightarrow> nat \<Rightarrow> ('w, err) io" where
  "Bootstrap env batteries ts dir 0 = State_Monad.return (Some (Errorf ''context canceled'' None))"
| "Bootstrap env batteries ts dir (Suc rounds) = do {
     e \<leftarrow> CreateResourcesFromFS env batteries ts dir;
     (case e of
        None \<Rightarrow> State_Monad.return None
      | Some _ \<Rightarrow> do { be_Invalidate env; Bootstrap env batteries ts dir rounds }) }"

definition konnector_Bootstrap :: "'w bootstrap_env \<Rightarrow> go_error + manifest_file list \<Rightarrow> nat \<Rightarrow> string \<Rightarrow> ('w, err) io" where
  "konnector_Bootstrap env dir rounds img = Bootstrap env [] [ReplaceOption [''IMAGE'', img]] dir rounds"

section \<open>Custom resource definitions\<close>

text \<open>
  One goroutine per CRD bootstraps it; they work on different objects and share only the channel of
  errors, so they are run one after the other. The context's error takes precedence.
\<close>

record 'w crd_client =
  cl_Get :: "string \<Rightarrow> ('w, CustomResourceDefinition) call"
  cl_Create :: "CustomResourceDefinition \<Rightarrow> ('w, CustomResourceDefinition) call"
  cl_Update :: "CustomResourceDefinition \<Rightarrow> ('w, CustomResourceDefinition) call"
  cl_ctxErr :: "('w, err) io"
  cl_polls :: nat
  cl_retries :: nat

definition IsCRDConditionTrue :: "CustomResourceDefinition \<Rightarrow> string \<Rightarrow> bool" where
  "IsCRDConditionTrue crd t \<longleftrightarrow> (case List.find (\<lambda>c. cc_Type c = t) (crd_Conditions crd) of None \<Rightarrow> False | Some c \<Rightarrow> cc_Status c = ConditionTrue)"

fun wait_established :: "'w crd_client \<Rightarrow> string \<Rightarrow> nat \<Rightarrow> ('w, unit) call" where
  "wait_established cl name 0 = State_Monad.return (Inl (Errorf ''context canceled'' None))"
| "wait_established cl name (Suc polls) = do {
     g \<leftarrow> cl_Get cl name;
     (case g of
        Inl e \<Rightarrow> State_Monad.return (Inl
          (if IsNotFound e then Errorf (''CRD '' @ name @ '' was deleted before being established'') None
           else Errorf (''error fetching CRD '' @ name) (Some e)))
      | Inr crd \<Rightarrow>
          (if IsCRDConditionTrue crd ''Established'' then State_Monad.return (Inr ()) else wait_established cl name polls)) }"

definition crd_SetResourceVersion :: "string \<Rightarrow> CustomResourceDefinition \<Rightarrow> CustomResourceDefinition" where
  "crd_SetResourceVersion v crd = crd\<lparr>crd_Meta := (crd_Meta crd)\<lparr>om_ResourceVersion := v\<rparr>\<rparr>"

text \<open>The CRD to update, if there is one, after creating it otherwise.\<close>

definition find_or_create :: "'w crd_client \<Rightarrow> CustomResourceDefinition \<Rightarrow> ('w, CustomResourceDefinition option) call" where
  "find_or_create cl rawCRD =
     (let name = om_Name (crd_Meta rawCRD)
      in do {
        g \<leftarrow> cl_Get cl name;
        (case g of
           Inr crd \<Rightarrow> State_Monad.return (Inr (Some crd))
         | Inl e \<Rightarrow>
             (if IsNotFound e then do {
                c \<leftarrow> cl_Create cl rawCRD;
                (case c of
                   Inr _ \<Rightarrow> State_Monad.return (Inr None)
                 | Inl e' \<Rightarrow>
                     (if IsAlreadyExists e' then do {
                        g' \<leftarrow> cl_Get cl name;
                        State_Monad.return (case g' of
                           Inl e'' \<Rightarrow> Inl (Errorf (''error getting CRD '' @ name) (Some e''))
                         | Inr crd \<Rightarrow> Inr (Some crd)) }
                      else State_Monad.return (Inl (Errorf (''error creating CRD '' @ name) (Some e'))))) }
              else State_Monad.return (Inl (Errorf (''error fetching CRD '' @ name) (Some e))))) })"

definition CreateSingle :: "'w crd_client \<Rightarrow> CustomResourceDefinition \<Rightarrow> ('w, unit) call" where
  "CreateSingle cl rawCRD = do {
     f \<leftarrow> find_or_create cl rawCRD;
     (case f of
        Inl e \<Rightarrow> State_Monad.return (Inl e)
      | Inr None \<Rightarrow> wait_established cl (om_Name (crd_Meta rawCRD)) (cl_polls cl)
      | Inr (Some crd) \<Rightarrow> do {
          u \<leftarrow> cl_Update cl (crd_SetResourceVersion (om_ResourceVersion (crd_Meta crd)) rawCRD);
          (case u of
             Inl e \<Rightarrow> State_Monad.return (Inl e)
           | Inr _ \<Rightarrow> wait_established cl (om_Name (crd_Meta rawCRD)) (cl_polls cl)) }) }"

text \<open>
  The file of a group resource, decoded with its group, version and kind; \<open>None\<close> stands for an object of
  another type. The errors that are tried again besides conflicts are a parameter.
\<close>

record crd_files =
  fl_ReadFile :: "string \<Rightarrow> go_error + string"
  fl_Decode :: "string \<Rightarrow> go_error + ((string \<times> string \<times> string) \<times> CustomResourceDefinition option)"
  fl_retriable :: "go_error \<Rightarrow> bool"

definition CRD :: "crd_files \<Rightarrow> GroupResource \<Rightarrow> go_error + CustomResourceDefinition" where
  "CRD fs gr =
     (let name = (if gr_Group gr = '''' then gr_Resource gr else gr_Resource gr @ ''.'' @ gr_Group gr)
      in case fl_ReadFile fs (gr_Group gr @ ''_'' @ gr_Resource gr @ ''.yaml'') of
           Inl e \<Rightarrow> Inl (Errorf (''could not read CRD '' @ name) (Some e))
         | Inr raw \<Rightarrow>
             (case fl_Decode fs raw of
                Inl e \<Rightarrow> Inl (Errorf (''could not decode raw CRD '' @ name) (Some e))
              | Inr (gvk, crd) \<Rightarrow>
                  (if gvk \<noteq> (''apiextensions.k8s.io'', ''v1'', ''CustomResourceDefinition'')
                   then Inl (Errorf (''decoded CRD '' @ name @ '' into incorrect GroupVersionKind'') None)
                   else case crd of
                          None \<Rightarrow> Inl (Errorf (''decoded CRD '' @ name @ '' into incorrect type'') None)
                        | Some x \<Rightarrow> Inr x)))"

definition createSingleFromFS :: "'w crd_client \<Rightarrow> crd_files \<Rightarrow> GroupResource \<Rightarrow> ('w, unit) call" where
  "createSingleFromFS cl fs gr = (case CRD fs gr of Inl e \<Rightarrow> State_Monad.return (Inl e) | Inr crd \<Rightarrow> CreateSingle cl crd)"

definition retryRetryableErrors :: "'w crd_client \<Rightarrow> crd_files \<Rightarrow> ('w, unit) call \<Rightarrow> ('w, unit) call" where
  "retryRetryableErrors cl fs f = OnError (cl_retries cl) (\<lambda>e. fl_retriable fs e \<or> IsConflict e) f"

fun bootstrap_crds :: "'w crd_client \<Rightarrow> crd_files \<Rightarrow> GroupResource list \<Rightarrow> ('w, go_error list) io" where
  "bootstrap_crds cl fs [] = State_Monad.return []"
| "bootstrap_crds cl fs (gr # grs) = do {
     r \<leftarrow> retryRetryableErrors cl fs (createSingleFromFS cl fs gr);
     c \<leftarrow> cl_ctxErr cl;
     es \<leftarrow> bootstrap_crds cl fs grs;
     State_Monad.return ((case c of Some e \<Rightarrow> [e] | None \<Rightarrow> (case r of Inl e \<Rightarrow> [e] | Inr _ \<Rightarrow> [])) @ es) }"

definition CreateFromFS :: "'w crd_client \<Rightarrow> crd_files \<Rightarrow> GroupResource list \<Rightarrow> ('w, err) io" where
  "CreateFromFS cl fs grs = do {
     es \<leftarrow> bootstrap_crds cl fs grs;
     State_Monad.return (case NewAggregate es of Some e \<Rightarrow> Some (Errorf ''could not bootstrap CRDs'' (Some e)) | None \<Rightarrow> None) }"

section \<open>What bootstrapping writes\<close>

datatype bootstrap_event =
    CreatedObject GroupVersionResource string unstructured "go_error + unstructured"
  | GotObject GroupVersionResource string string "go_error + unstructured"
  | UpdatedObject GroupVersionResource string unstructured "go_error + unstructured"
  | MappedKind unstructured "go_error + GroupVersionResource"
  | OtherCall

definition traced_client :: "'w dynamic_client \<Rightarrow> ('w \<times> bootstrap_event list) dynamic_client" where
  "traced_client cl = \<lparr>
     dc_Get = (\<lambda>g ns n. logged (GotObject g ns n) (dc_Get cl g ns n)),
     dc_Create = (\<lambda>g ns u. logged (CreatedObject g ns u) (dc_Create cl g ns u)),
     dc_Update = (\<lambda>g ns u. logged (UpdatedObject g ns u) (dc_Update cl g ns u)),
     dc_UpdateStatus = (\<lambda>g ns u. logged (\<lambda>_. OtherCall) (dc_UpdateStatus cl g ns u)),
     dc_Apply = (\<lambda>g ns m u. logged (\<lambda>_. OtherCall) (dc_Apply cl g ns m u)),
     dc_Delete = (\<lambda>g ns n. logged (\<lambda>_. OtherCall) (dc_Delete cl g ns n))\<rparr>"

definition traced_env :: "'w bootstrap_env \<Rightarrow> ('w \<times> bootstrap_event list) bootstrap_env" where
  "traced_env env = \<lparr>be_client = traced_client (be_client env), be_render = be_render env, be_decode = be_decode env,
     be_RESTMapping = (\<lambda>u. logged (MappedKind u) (be_RESTMapping env u)), be_Invalidate = unlogged (be_Invalidate env),
     be_TrimSpace = be_TrimSpace env\<rparr>"

text \<open>
  The specification. An object of the manifests is left out if it is marked as part of batteries and
  none of the listed ones is included; any other object belongs into the cluster.
\<close>

definition left_out :: "(string \<Rightarrow> string) \<Rightarrow> string list \<Rightarrow> unstructured \<Rightarrow> bool" where
  "left_out trim batteries u \<longleftrightarrow>
     (\<exists>v. fmlookup (om_Annotations (u_Meta u)) ''bootstrap.kube-bind.io/battery'' = Some v \<and>
        (\<forall>p \<in> set (Split (CHR '','') v). trim p \<notin> set batteries))"

text \<open>The object of a document: all transformations in their order, then the template, then the decoder.\<close>

definition doc_object :: "'w bootstrap_env \<Rightarrow> string list \<Rightarrow> transformer list \<Rightarrow> string \<Rightarrow> unstructured option" where
  "doc_object env batteries ts doc =
     (case fold (\<lambda>t r. case r of Inl e \<Rightarrow> Inl e | Inr d \<Rightarrow> t d) ts (Inr doc) of
        Inl _ \<Rightarrow> None
      | Inr d \<Rightarrow> (case be_render env batteries d of Inl _ \<Rightarrow> None
          | Inr buf \<Rightarrow> (case be_decode env buf of Inl _ \<Rightarrow> None | Inr u \<Rightarrow> Some u)))"

definition documents :: "'w bootstrap_env \<Rightarrow> manifest_file list \<Rightarrow> string set" where
  "documents env fs = {doc. \<exists>f \<in> set fs. mf_Raw f \<noteq> Inr '''' \<and> Inr doc \<in> set (mf_Docs f) \<and> be_TrimSpace env doc \<noteq> ''''}"

definition objects_of :: "'w bootstrap_env \<Rightarrow> string list \<Rightarrow> transformer list \<Rightarrow> manifest_file list \<Rightarrow> unstructured set" where
  "objects_of env batteries ts fs =
     {u. (\<exists>doc \<in> documents env fs. doc_object env batteries ts doc = Some u) \<and> \<not> left_out (be_TrimSpace env) batteries u}"

text \<open>
  Objects are created as the manifests have them, as the resource that their kind maps to, and updated only
  after their creation failed because they exist and a look at the existing one, which has no create-only
  mark and gives its version.
\<close>

definition bootstrap_ok :: "unstructured set \<Rightarrow> bootstrap_event list \<Rightarrow> bootstrap_event \<Rightarrow> bool" where
  "bootstrap_ok objects past ev =
     (case ev of
        CreatedObject g ns u _ \<Rightarrow> u \<in> objects \<and> ns = om_Namespace (u_Meta u) \<and> MappedKind u (Inr g) \<in> set past
      | GotObject _ _ _ _ \<Rightarrow> True
      | UpdatedObject g ns u _ \<Rightarrow>
          (\<exists>u0 e existing. u0 \<in> objects \<and> ns = om_Namespace (u_Meta u0) \<and> IsAlreadyExists e \<and>
             suffix [CreatedObject g ns u0 (Inl e), GotObject g ns (om_Name (u_Meta u0)) (Inr existing)] past \<and>
             fmlookup (om_Annotations (u_Meta existing)) ''bootstrap.kube-bind.io/create-only'' = None \<and>
             u = u0\<lparr>u_Meta := (u_Meta u0)\<lparr>om_ResourceVersion := om_ResourceVersion (u_Meta existing)\<rparr>\<rparr>)
      | MappedKind _ _ \<Rightarrow> True
      | OtherCall \<Rightarrow> False)"

text \<open>An object is in the cluster: it was created, updated, or found there with the create-only mark.\<close>

definition settled :: "bootstrap_event list \<Rightarrow> unstructured \<Rightarrow> bool" where
  "settled tr u \<longleftrightarrow> (\<exists>g r. MappedKind u (Inr g) \<in> set tr \<and>
     (CreatedObject g (om_Namespace (u_Meta u)) u (Inr r) \<in> set tr \<or>
      (\<exists>v. UpdatedObject g (om_Namespace (u_Meta u)) (u\<lparr>u_Meta := (u_Meta u)\<lparr>om_ResourceVersion := v\<rparr>\<rparr>) (Inr r) \<in> set tr) \<or>
      GotObject g (om_Namespace (u_Meta u)) (om_Name (u_Meta u)) (Inr r) \<in> set tr \<and>
        fmlookup (om_Annotations (u_Meta r)) ''bootstrap.kube-bind.io/create-only'' \<noteq> None))"

text \<open>A document is done if its object is left out or in the cluster.\<close>

definition doc_done :: "'w bootstrap_env \<Rightarrow> string list \<Rightarrow> transformer list \<Rightarrow> bootstrap_event list \<Rightarrow> string \<Rightarrow> bool" where
  "doc_done env batteries ts tr doc \<longleftrightarrow>
     (\<exists>u. doc_object env batteries ts doc = Some u \<and> (left_out (be_TrimSpace env) batteries u \<or> settled tr u))"

lemma excluded_iff: "excluded trim batteries u \<longleftrightarrow> left_out trim batteries u"
  by (auto simp: excluded_def left_out_def annotationBattery_def list_ex_iff split: option.split)

lemma transform_fold: "transform ts doc = fold (\<lambda>t r. case r of Inl e \<Rightarrow> Inl e | Inr d \<Rightarrow> t d) ts (Inr doc)"
proof -
  have "fold (\<lambda>t r. case r of Inl e \<Rightarrow> Inl e | Inr d \<Rightarrow> t d) ts (Inl e) = Inl e" for e and ts :: "transformer list"
    by (induction ts) simp_all
  then show ?thesis by (induction ts arbitrary: doc) (auto split: sum.split)
qed

lemma doc_done_mono: "doc_done env batteries ts tr doc \<Longrightarrow> prefix tr tr' \<Longrightarrow> doc_done env batteries ts tr' doc"
  unfolding doc_done_def settled_def by (fastforce dest: set_mono_prefix)

lemma traced_client_simps [simp]:
  "dc_Get (traced_client cl) g ns n = logged (GotObject g ns n) (dc_Get cl g ns n)"
  "dc_Create (traced_client cl) g ns u = logged (CreatedObject g ns u) (dc_Create cl g ns u)"
  "dc_Update (traced_client cl) g ns u = logged (UpdatedObject g ns u) (dc_Update cl g ns u)"
  by (simp_all add: traced_client_def)

lemma traced_env_simps [simp]:
  "be_client (traced_env env) = traced_client (be_client env)" "be_render (traced_env env) = be_render env"
  "be_decode (traced_env env) = be_decode env" "be_TrimSpace (traced_env env) = be_TrimSpace env"
  "be_RESTMapping (traced_env env) u = logged (MappedKind u) (be_RESTMapping env u)"
  "be_Invalidate (traced_env env) = unlogged (be_Invalidate env)"
  by (simp_all add: traced_env_def)

definition ran :: "unstructured set \<Rightarrow> bootstrap_event list \<Rightarrow> bootstrap_event list \<Rightarrow> bool" where
  "ran objs tr tr' \<longleftrightarrow> guarded (bootstrap_ok objs) [] tr' \<and> prefix tr tr'"

lemma ran_trans: "ran objs tr tr' \<Longrightarrow> ran objs tr' tr'' \<Longrightarrow> ran objs tr tr''"
  by (auto simp: ran_def)

lemma upsert_wp:
  assumes "u \<in> objs" and "ran objs tr tr" and "MappedKind u (Inr gvr) \<in> set tr"
  shows "wp (upsert (traced_client cl) gvr u) (\<lambda>e s. ran objs tr (snd s) \<and> (e = None \<longrightarrow> settled (snd s) u)) (w, tr)"
  using assms unfolding upsert_def traced_client_simps
  by (intro wp_intros) (auto simp: ran_def guarded_append bootstrap_ok_def settled_def suffix_def annotationCreateOnlyKey_def SetResourceVersion_def
      u_Namespace_def u_Name_def split: sum.splits)

lemma createResource_wp:
  assumes "\<And>u. doc_object env batteries ts doc = Some u \<Longrightarrow> \<not> left_out (be_TrimSpace env) batteries u \<Longrightarrow> u \<in> objs"
    and "transform ts doc = Inr doc'" and "ran objs tr tr"
  shows "wp (createResourceFromFS (traced_env env) doc' batteries)
    (\<lambda>e s. ran objs tr (snd s) \<and> (e = None \<longrightarrow> doc_done env batteries ts (snd s) doc)) (w, tr)"
proof (cases "doc_object env batteries ts doc")
  case None
  then show ?thesis using assms(2,3)
    by (auto simp: createResourceFromFS_def doc_object_def transform_fold split: sum.splits intro!: wp_return)
next
  case (Some u)
  have "wp (upsert (traced_client (be_client env)) gvr u)
      (\<lambda>e s. ran objs tr (snd s) \<and> (e = None \<longrightarrow> doc_done env batteries ts (snd s) doc)) (w', tr @ [MappedKind u (Inr gvr)])"
    if "\<not> left_out (be_TrimSpace env) batteries u" for gvr w'
    by (rule wp_weaken [OF upsert_wp [OF assms(1) [OF Some that]]])
      (use Some assms(3) in \<open>auto simp: doc_done_def ran_def bootstrap_ok_def dest: append_prefixD\<close>)
  with Some assms(2,3) show ?thesis
    by (auto simp: createResourceFromFS_def doc_object_def doc_done_def transform_fold excluded_iff ran_def bootstrap_ok_def
        split: sum.splits intro!: wp_return wp_bind wp_logged wp_sum)
qed

definition docs_done :: "'w bootstrap_env \<Rightarrow> string list \<Rightarrow> transformer list \<Rightarrow> bootstrap_event list \<Rightarrow> (go_error + string) list \<Rightarrow> bool" where
  "docs_done env batteries ts tr ds \<longleftrightarrow>
     (\<forall>doc. Inr doc \<in> set ds \<longrightarrow> be_TrimSpace env doc \<noteq> '''' \<longrightarrow> doc_done env batteries ts tr doc)"

definition docs_within :: "'w bootstrap_env \<Rightarrow> string list \<Rightarrow> transformer list \<Rightarrow> unstructured set \<Rightarrow> (go_error + string) list \<Rightarrow> bool" where
  "docs_within env batteries ts objs ds \<longleftrightarrow>
     (\<forall>doc u. Inr doc \<in> set ds \<longrightarrow> be_TrimSpace env doc \<noteq> '''' \<longrightarrow> doc_object env batteries ts doc = Some u \<longrightarrow>
        \<not> left_out (be_TrimSpace env) batteries u \<longrightarrow> u \<in> objs)"

lemma docs_simps [simp]:
  "docs_done env batteries ts tr []"
  "docs_done env batteries ts tr (Inl e # ds) \<longleftrightarrow> docs_done env batteries ts tr ds"
  "docs_done env batteries ts tr (Inr doc # ds) \<longleftrightarrow>
     (be_TrimSpace env doc \<noteq> '''' \<longrightarrow> doc_done env batteries ts tr doc) \<and> docs_done env batteries ts tr ds"
  "docs_within env batteries ts objs (Inr doc # ds) \<longleftrightarrow>
     (be_TrimSpace env doc \<noteq> '''' \<longrightarrow> (\<forall>u. doc_object env batteries ts doc = Some u \<longrightarrow>
       \<not> left_out (be_TrimSpace env) batteries u \<longrightarrow> u \<in> objs)) \<and> docs_within env batteries ts objs ds"
  by (auto simp: docs_done_def docs_within_def)

lemma create_docs_wp:
  assumes "docs_within env batteries ts objs ds" and "ran objs tr tr"
  shows "wp (create_docs (traced_env env) batteries ts filename errs ds)
    (\<lambda>e s. ran objs tr (snd s) \<and> (e = None \<longrightarrow> errs = [] \<and> docs_done env batteries ts (snd s) ds)) (w, tr)"
  using assms
proof (induction ds arbitrary: errs tr w)
  case Nil
  then show ?case by (auto simp: NewAggregate_def intro!: wp_return)
next
  case (Cons d ds)
  consider (reader) e where "d = Inl e" | (blank) doc where "d = Inr doc" "be_TrimSpace env doc = ''''"
    | (bad) doc e where "d = Inr doc" "be_TrimSpace env doc \<noteq> ''''" "transform ts doc = Inl e"
    | (good) doc doc' where "d = Inr doc" "be_TrimSpace env doc \<noteq> ''''" "transform ts doc = Inr doc'"
    by (cases d; metis sum.exhaust)
  then show ?case
  proof cases
    case blank
    then show ?thesis using Cons.IH [OF _ Cons.prems(2)] Cons.prems(1) by simp
  next
    case good
    define more where "more e = (case e of None \<Rightarrow> errs | Some x \<Rightarrow> errs @ [Errorf (''failed to create resource '' @ filename) (Some x)])" for e
    have "wp (create_docs (traced_env env) batteries ts filename (more e) ds)
        (\<lambda>e s. ran objs tr (snd s) \<and> (e = None \<longrightarrow> errs = [] \<and> docs_done env batteries ts (snd s) (d # ds))) (w', tr')"
      if "ran objs tr tr' \<and> (e = None \<longrightarrow> doc_done env batteries ts tr' doc)" for e w' tr'
      by (rule wp_weaken [OF Cons.IH [of tr']])
        (use that Cons.prems good in \<open>auto simp: more_def ran_def intro: doc_done_mono split: option.splits\<close>)
    moreover have "wp (createResourceFromFS (traced_env env) doc' batteries)
        (\<lambda>e s. ran objs tr (snd s) \<and> (e = None \<longrightarrow> doc_done env batteries ts (snd s) doc)) (w, tr)"
      using good Cons.prems by (intro createResource_wp) auto
    ultimately have "wp (do { e \<leftarrow> createResourceFromFS (traced_env env) doc' batteries; create_docs (traced_env env) batteries ts filename (more e) ds })
        (\<lambda>e s. ran objs tr (snd s) \<and> (e = None \<longrightarrow> errs = [] \<and> docs_done env batteries ts (snd s) (d # ds))) (w, tr)"
      by (auto elim!: wp_chain)
    then show ?thesis using good by (simp add: more_def)
  qed (use Cons.prems in \<open>auto intro!: wp_return\<close>)
qed

definition file_done :: "'w bootstrap_env \<Rightarrow> string list \<Rightarrow> transformer list \<Rightarrow> bootstrap_event list \<Rightarrow> manifest_file \<Rightarrow> bool" where
  "file_done env batteries ts tr f \<longleftrightarrow> mf_Raw f = Inr '''' \<or> docs_done env batteries ts tr (mf_Docs f)"

definition file_within :: "'w bootstrap_env \<Rightarrow> string list \<Rightarrow> transformer list \<Rightarrow> unstructured set \<Rightarrow> manifest_file \<Rightarrow> bool" where
  "file_within env batteries ts objs f \<longleftrightarrow> mf_Raw f = Inr '''' \<or> docs_within env batteries ts objs (mf_Docs f)"

lemma file_done_mono: "file_done env batteries ts tr f \<Longrightarrow> prefix tr tr' \<Longrightarrow> file_done env batteries ts tr' f"
  unfolding file_done_def docs_done_def using doc_done_mono by blast

lemma CreateResourceFromFS_wp:
  assumes "file_within env batteries ts objs f" and "ran objs tr tr"
  shows "wp (CreateResourceFromFS (traced_env env) batteries ts f)
    (\<lambda>e s. ran objs tr (snd s) \<and> (e = None \<longrightarrow> file_done env batteries ts (snd s) f)) (w, tr)"
  using assms unfolding CreateResourceFromFS_def
  by (auto intro!: wp_intros wp_weaken [OF create_docs_wp] simp: file_done_def file_within_def)

lemma create_files_wp:
  assumes "list_all (file_within env batteries ts objs) fs" and "ran objs tr tr"
  shows "wp (create_files (traced_env env) batteries ts errs fs)
    (\<lambda>e s. ran objs tr (snd s) \<and> (e = None \<longrightarrow> errs = [] \<and> list_all (file_done env batteries ts (snd s)) fs)) (w, tr)"
  using assms
proof (induction fs arbitrary: errs tr w)
  case Nil
  then show ?case by (auto simp: NewAggregate_def intro!: wp_return)
next
  case (Cons f fs)
  have "wp (create_files (traced_env env) batteries ts (errs_append errs e) fs)
      (\<lambda>e s. ran objs tr (snd s) \<and> (e = None \<longrightarrow> errs = [] \<and> list_all (file_done env batteries ts (snd s)) (f # fs))) (w', tr')"
    if "ran objs tr tr' \<and> (e = None \<longrightarrow> file_done env batteries ts tr' f)" for e w' tr'
    by (rule wp_weaken [OF Cons.IH [of tr']])
      (use that Cons.prems in \<open>auto simp: errs_append_def ran_def intro: file_done_mono split: option.splits\<close>)
  moreover have "wp (CreateResourceFromFS (traced_env env) batteries ts f)
      (\<lambda>e s. ran objs tr (snd s) \<and> (e = None \<longrightarrow> file_done env batteries ts (snd s) f)) (w, tr)"
    using Cons.prems by (intro CreateResourceFromFS_wp) auto
  ultimately show ?case by (auto elim!: wp_chain)
qed

lemma Bootstrap_wp:
  assumes "list_all (file_within env batteries ts objs) fs" and "ran objs tr tr"
  shows "wp (Bootstrap (traced_env env) batteries ts (Inr fs) rounds)
    (\<lambda>e s. ran objs tr (snd s) \<and> (e = None \<longrightarrow> list_all (file_done env batteries ts (snd s)) fs)) (w, tr)"
  using assms(2)
proof (induction rounds arbitrary: tr w)
  case (Suc n)
  have again: "wp (case e of None \<Rightarrow> State_Monad.return None | Some _ \<Rightarrow> do { unlogged (be_Invalidate env); Bootstrap (traced_env env) batteries ts (Inr fs) n })
      (\<lambda>e s. ran objs tr (snd s) \<and> (e = None \<longrightarrow> list_all (file_done env batteries ts (snd s)) fs)) s'"
    if "ran objs tr (snd s') \<and> (e = None \<longrightarrow> list_all (file_done env batteries ts (snd s')) fs)" for e s'
    using that by (cases s') (auto intro!: wp_return wp_bind wp_unlogged wp_weaken [OF Suc.IH] simp: ran_def split: option.split)
  have "wp (CreateResourcesFromFS (traced_env env) batteries ts (Inr fs))
      (\<lambda>e s. ran objs tr (snd s) \<and> (e = None \<longrightarrow> list_all (file_done env batteries ts (snd s)) fs)) (w, tr)"
    unfolding CreateResourcesFromFS_def by (auto intro: wp_weaken [OF create_files_wp [OF assms(1) Suc.prems]])
  then show ?case unfolding Bootstrap.Bootstrap.simps traced_env_simps by (rule wp_chain) (rule again)
qed (auto intro!: wp_return)

text \<open>
  C20. Bootstrapping creates only the objects of the manifests that are not left out, as the resource
  their kind maps to, and updates an object only after a
  look at the existing one, which has no create-only mark and gives the version that is replaced. It
  returns without an error only if every document of every file is done: its object was created, updated or
  found to be create-only, or it is left out, because it is marked as part of batteries of which none is
  included.
\<close>

theorem bootstrap_complete:
  assumes "run_state (Bootstrap (traced_env env) batteries ts (Inr fs) rounds) (w, []) = (res, (w', tr))"
  shows "guarded (bootstrap_ok (objects_of env batteries ts fs)) [] tr \<and>
    (res = None \<longrightarrow> (\<forall>doc \<in> documents env fs. doc_done env batteries ts tr doc))"
proof -
  have "list_all (file_within env batteries ts (objects_of env batteries ts fs)) fs"
    by (auto simp: list_all_iff file_within_def docs_within_def objects_of_def documents_def)
  from wpD [OF Bootstrap_wp [OF this] assms]
  have "ran (objects_of env batteries ts fs) [] tr" "res = None \<longrightarrow> list_all (file_done env batteries ts tr) fs"
    by (simp_all add: ran_def)
  then show ?thesis by (auto simp: ran_def list_all_iff file_done_def docs_done_def documents_def)
qed

definition example_env :: "nat bootstrap_env" where
  "example_env = \<lparr>be_client = \<lparr>
       dc_Get = (\<lambda>_ _ n. State_Monad.return (Inr (zero_unstructured\<lparr>u_Meta := zero_ObjectMeta\<lparr>om_Name := n, om_ResourceVersion := ''7''\<rparr>\<rparr>))),
       dc_Create = (\<lambda>_ _ _. State_Monad.return (Inl (StatusError ReasonAlreadyExists ''''))),
       dc_Update = (\<lambda>_ _ u. State_Monad.return (Inr u)), dc_UpdateStatus = (\<lambda>_ _ u. State_Monad.return (Inr u)),
       dc_Apply = (\<lambda>_ _ _ u. State_Monad.return (Inr u)), dc_Delete = (\<lambda>_ _ _. State_Monad.return None)\<rparr>,
     be_render = (\<lambda>_. Inr), be_decode = (\<lambda>d. Inr (zero_unstructured\<lparr>u_Meta := zero_ObjectMeta\<lparr>om_Name := d\<rparr>\<rparr>)),
     be_RESTMapping = (\<lambda>_. State_Monad.return (Inr \<lparr>gvr_Group = '''', gvr_Version = ''v1'', gvr_Resource = ''things''\<rparr>)),
     be_Invalidate = State_Monad.return (), be_TrimSpace = id\<rparr>"

definition example_files :: "manifest_file list" where
  "example_files = [\<lparr>mf_Name = ''f.yaml'', mf_Raw = Inr ''a'', mf_Docs = [Inr ''a'']\<rparr>]"

definition example_round :: "err \<times> nat \<times> bootstrap_event list" where
  "example_round = run_state (Bootstrap (traced_env example_env) [] [] (Inr example_files) 1) (0, [])"

lemma example_round_succeeds: "fst example_round = None"
  by code_simp

theorem bootstrap_complete_witness:
  "guarded (bootstrap_ok (objects_of example_env [] [] example_files)) [] (snd (snd example_round)) \<and>
   doc_done example_env [] [] (snd (snd example_round)) ''a''"
proof -
  have run: "run_state (Bootstrap (traced_env example_env) [] [] (Inr example_files) 1) (0, []) =
      (fst example_round, (fst (snd example_round), snd (snd example_round)))" by (simp add: example_round_def)
  have "''a'' \<in> documents example_env example_files" by (simp add: documents_def example_files_def example_env_def)
  with bootstrap_complete [OF run] show ?thesis using example_round_succeeds by blast
qed

section \<open>Invariants of the cluster\<close>

text \<open>What the calls of the environment keep, bootstrapping keeps.\<close>

definition env_preserves :: "('w \<Rightarrow> bool) \<Rightarrow> 'w bootstrap_env \<Rightarrow> bool" where
  "env_preserves P env \<longleftrightarrow>
     (\<forall>g ns u. preserves P (dc_Create (be_client env) g ns u)) \<and> (\<forall>g ns n. preserves P (dc_Get (be_client env) g ns n)) \<and>
     (\<forall>g ns u. preserves P (dc_Update (be_client env) g ns u)) \<and> (\<forall>u. preserves P (be_RESTMapping env u)) \<and>
     preserves P (be_Invalidate env)"

lemma createResource_preserves [preserves_intros]:
  "env_preserves P env \<Longrightarrow> preserves P (createResourceFromFS env raw batteries)"
  unfolding createResourceFromFS_def upsert_def by (intro preserves_intros) (auto simp: env_preserves_def)

lemma create_docs_preserves [preserves_intros]:
  "env_preserves P env \<Longrightarrow> preserves P (create_docs env batteries ts filename errs ds)"
  by (induction ds arbitrary: errs) (auto intro!: preserves_intros split: sum.split)

lemma create_files_preserves [preserves_intros]:
  "env_preserves P env \<Longrightarrow> preserves P (create_files env batteries ts errs fs)"
  by (induction fs arbitrary: errs) (auto intro!: preserves_intros simp: CreateResourceFromFS_def split: sum.split)

lemma Bootstrap_preserves [preserves_intros]:
  "env_preserves P env \<Longrightarrow> preserves P (Bootstrap env batteries ts dir rounds)"
  by (induction rounds)
    (auto intro!: preserves_intros simp: CreateResourcesFromFS_def env_preserves_def split: sum.split option.split)

lemma konnector_Bootstrap_preserves [preserves_intros]:
  "env_preserves P env \<Longrightarrow> preserves P (konnector_Bootstrap env dir rounds img)"
  unfolding konnector_Bootstrap_def by (rule Bootstrap_preserves)

text \<open>An environment whose calls are not recorded.\<close>

definition unlogged_env :: "'w bootstrap_env \<Rightarrow> ('w \<times> 'c list) bootstrap_env" where
  "unlogged_env env = \<lparr>be_client = \<lparr>
       dc_Get = (\<lambda>g ns n. unlogged (dc_Get (be_client env) g ns n)),
       dc_Create = (\<lambda>g ns u. unlogged (dc_Create (be_client env) g ns u)),
       dc_Update = (\<lambda>g ns u. unlogged (dc_Update (be_client env) g ns u)),
       dc_UpdateStatus = (\<lambda>g ns u. unlogged (dc_UpdateStatus (be_client env) g ns u)),
       dc_Apply = (\<lambda>g ns m u. unlogged (dc_Apply (be_client env) g ns m u)),
       dc_Delete = (\<lambda>g ns n. unlogged (dc_Delete (be_client env) g ns n))\<rparr>,
     be_render = be_render env, be_decode = be_decode env, be_RESTMapping = (\<lambda>u. unlogged (be_RESTMapping env u)),
     be_Invalidate = unlogged (be_Invalidate env), be_TrimSpace = be_TrimSpace env\<rparr>"

lemma unlogged_preserves [preserves_intros]: "preserves (\<lambda>s. snd s = tr) (unlogged m)"
  by (auto simp: preserves_def unlogged_def split: prod.split)

lemma unlogged_env_preserves: "env_preserves (\<lambda>s. snd s = tr) (unlogged_env env)"
  by (simp add: env_preserves_def unlogged_env_def unlogged_preserves)

lemma wp_unrecorded: "preserves (\<lambda>s. snd s = tr) m \<Longrightarrow> (\<And>a w'. Q a (w', tr)) \<Longrightarrow> wp m Q (w, tr)"
  unfolding wp_def by (cases "run_state m (w, tr)") (use preservesD in force)

end
