(* ===== verification/Cli_Apiservice.thy ===== *)
theory Cli_Apiservice
  imports Cli_Kubeconfig Bootstrap Cluster_Binding
begin

text \<open>
  \<open>kubectl bind apiservice\<close> (\<open>cli/pkg/kubectl/bind-apiservice/plugin\<close>): it sends a request to the provider,
  waits for it, deploys the konnector, stores the kubeconfig of the provider and creates the
  APIServiceBinding that refers to it. Parameters: the loader and writer of kubeconfigs, REST
  configurations and the clients made from them, YAML, semantic versions, files and the network; the
  number of polls that the context and the timeout allow. Progress output is left out.
\<close>

section \<open>Options\<close>

record apiservice_options =
  ao_remoteKubeconfigFile :: string
  ao_remoteKubeconfigNamespace :: string
  ao_remoteKubeconfigName :: string
  ao_remoteNamespace :: string
  ao_file :: string
  ao_url :: string
  ao_OutputFormat :: string
  ao_SkipKonnector :: bool
  ao_KonnectorImageOverride :: string
  ao_DowngradeKonnector :: bool

definition Complete :: "err \<Rightarrow> string list \<Rightarrow> apiservice_options \<Rightarrow> go_error + apiservice_options" where
  "Complete base args b = (case base of Some e \<Rightarrow> Inl e | None \<Rightarrow> Inr (if args \<noteq> [] then b\<lparr>ao_url := hd args\<rparr> else b))"

definition Validate :: "(string \<Rightarrow> err) \<Rightarrow> string list \<Rightarrow> apiservice_options \<Rightarrow> err" where
  "Validate parseURL allowed b =
     (let bad = (\<lambda>m. Some (Errorf m None))
      in if ao_url b = '''' \<and> ao_file b = '''' then bad ''url or file is required''
         else if ao_url b \<noteq> '''' \<and> ao_file b \<noteq> '''' then bad ''url and file are mutually exclusive''
         else case (if ao_url b \<noteq> '''' then parseURL (ao_url b) else None) of
                Some e \<Rightarrow> Some (Errorf (''invalid url '' @ quoted (ao_url b)) (Some e))
              | None \<Rightarrow>
                  (if ao_OutputFormat b \<noteq> '''' \<and> ao_OutputFormat b \<notin> set allowed
                   then bad (''invalid output format '' @ quoted (ao_OutputFormat b) @ '' (allowed: '' @ Join allowed '', '' @ '')'')
                   else if (ao_remoteKubeconfigNamespace b = '''' \<and> ao_remoteKubeconfigName b \<noteq> '''') \<or>
                           (ao_remoteKubeconfigNamespace b \<noteq> '''' \<and> ao_remoteKubeconfigName b = '''')
                   then bad ''remote-kubeconfig-namespace and remote-kubeconfig-name must be specified together''
                   else if ao_remoteKubeconfigFile b = '''' \<and> ao_remoteKubeconfigNamespace b = '''' \<and> ao_remoteKubeconfigName b = ''''
                   then bad ''remote-kubeconfig or remote-kubeconfig-namespace and remote-kubeconfig-name are required''
                   else if ao_file b \<noteq> '''' \<and> ao_url b \<noteq> '''' then bad ''file and arguments are mutually exclusive''
                   else if ao_file b = '''' \<and> ao_url b = '''' then bad ''file or arguments are required''
                   else None))"

section \<open>Environment\<close>

text \<open>
  The clients for the consumer cluster, which are made from one configuration, and for the requests in
  the provider cluster. A creation takes the prefix of a generated name. A deployment has at least
  one container; its answer here are the images of the containers.
\<close>

record 'w consumer_client =
  cs_secrets :: "'w secrets_client"
  cs_GetSecret :: "string \<Rightarrow> string \<Rightarrow> ('w, Secret) call"
  cs_CreateNamespace :: "string \<Rightarrow> ('w, err) io"
  cs_GetBinding :: "string \<Rightarrow> ('w, APIServiceBinding) call"
  cs_CreateBinding :: "APIServiceBinding \<Rightarrow> ('w, APIServiceBinding) call"
  cs_UpdateBindingStatus :: "APIServiceBinding \<Rightarrow> ('w, APIServiceBinding) call"
  cs_ListBindings :: "('w, APIServiceBinding list) call"
  cs_GetCRD :: "string \<Rightarrow> ('w, CustomResourceDefinition) call"
  cs_GetDeployment :: "string \<Rightarrow> string \<Rightarrow> ('w, string \<times> string list) call"
  cs_bootstrap :: "'w bootstrap_env"
  cs_GetTable :: "string \<Rightarrow> ('w, string list) call"

record 'w request_client =
  rq_Create :: "string \<Rightarrow> string \<Rightarrow> APIServiceExportRequest \<Rightarrow> ('w, APIServiceExportRequest) call"
  rq_Get :: "string \<Rightarrow> string \<Rightarrow> ('w, APIServiceExportRequest) call"

record semver_api =
  sv_Parse :: "string \<Rightarrow> go_error + string"
  sv_LT :: "string \<Rightarrow> string \<Rightarrow> bool"

record 'w apiservice_env =
  ae_config :: "go_error + rest_config"
  ae_consumer :: "rest_config \<Rightarrow> go_error + 'w consumer_client"
  ae_provider :: "rest_config \<Rightarrow> go_error + 'w request_client"
  ae_Load :: "string \<Rightarrow> go_error + client_config"
  ae_Write :: "client_config \<Rightarrow> go_error + string"
  ae_ClientConfig :: "client_config \<Rightarrow> go_error + rest_config"
  ae_ReadFile :: "string \<Rightarrow> ('w, string) call"
  ae_HttpGet :: "string \<Rightarrow> ('w, go_error + string) call"
  ae_Stdin :: "('w, string) call"
  ae_yaml :: "string \<Rightarrow> go_error + (string \<times> string \<times> APIServiceExportRequest)"
  ae_semver :: semver_api
  ae_gitVersion :: string
  ae_manifests :: "go_error + manifest_file list"
  ae_second :: "('w, err) io"
  ae_now :: time
  ae_polls :: nat
  ae_retries :: nat
  ae_Print :: "string list \<Rightarrow> ('w, err) io"

section \<open>Input\<close>

definition set_namespace :: "string \<Rightarrow> client_config \<Rightarrow> client_config" where
  "set_namespace ns cfg =
     (case fmlookup (cf_Contexts cfg) (cf_CurrentContext cfg) of
        None \<Rightarrow> cfg
      | Some c \<Rightarrow> cfg\<lparr>cf_Contexts := fmupd (cf_CurrentContext cfg) (c\<lparr>kcx_Namespace := ns\<rparr>) (cf_Contexts cfg)\<rparr>)"

definition load_remote :: "'w apiservice_env \<Rightarrow> apiservice_options \<Rightarrow> rest_config \<Rightarrow> ('w, client_config) call" where
  "load_remote env b config =
     (if ao_remoteKubeconfigFile b \<noteq> '''' then do {
        f \<leftarrow> ae_ReadFile env (ao_remoteKubeconfigFile b);
        State_Monad.return (case f of Inl e \<Rightarrow> Inl e | Inr bs \<Rightarrow> ae_Load env bs) }
      else case ae_consumer env config of
             Inl e \<Rightarrow> State_Monad.return (Inl e)
           | Inr cl \<Rightarrow> do {
               g \<leftarrow> cs_GetSecret cl (ao_remoteKubeconfigNamespace b) (ao_remoteKubeconfigName b);
               State_Monad.return (case g of
                  Inl e \<Rightarrow> Inl e
                | Inr secret \<Rightarrow>
                    (case fmlookup (sec_Data secret) ''kubeconfig'' of
                       None \<Rightarrow> Inl (Errorf (''secret '' @ ao_remoteKubeconfigNamespace b @ ''/'' @ ao_remoteKubeconfigName b @
                         '' does not contain a kubeconfig'') None)
                     | Some bs \<Rightarrow> ae_Load env bs)) })"

text \<open>The kubeconfig as it is stored later, its namespace, and the REST configuration.\<close>

definition remote_of_config :: "'w apiservice_env \<Rightarrow> apiservice_options \<Rightarrow> client_config \<Rightarrow> go_error + (string \<times> string \<times> rest_config)" where
  "remote_of_config env b cfg0 =
     (case fmlookup (cf_Contexts cfg0) (cf_CurrentContext cfg0) of
        None \<Rightarrow> Inl (Errorf (''current context '' @ quoted (cf_CurrentContext cfg0) @ '' not found in remote kubeconfig'') None)
      | Some c0 \<Rightarrow>
          (let cfg = (if ao_remoteNamespace b \<noteq> '''' then set_namespace (ao_remoteNamespace b) cfg0 else cfg0);
               ns = (if ao_remoteNamespace b \<noteq> '''' then ao_remoteNamespace b else kcx_Namespace c0)
           in if ns = '''' then Inl (Errorf ''remote namespace is required, either as flag or in the passed remote kubeconfig'' None)
              else case ae_ClientConfig env cfg of
                     Inl e \<Rightarrow> Inl e
                   | Inr remoteConfig \<Rightarrow>
                       (case ae_Write env cfg of Inl e \<Rightarrow> Inl e | Inr kubeconfig \<Rightarrow> Inr (kubeconfig, ns, remoteConfig))))"

definition getRemoteKubeconfig :: "'w apiservice_env \<Rightarrow> apiservice_options \<Rightarrow> rest_config \<Rightarrow> ('w, string \<times> string \<times> rest_config) call" where
  "getRemoteKubeconfig env b config = do {
     l \<leftarrow> load_remote env b config;
     State_Monad.return (case l of Inl e \<Rightarrow> Inl e | Inr cfg \<Rightarrow> remote_of_config env b cfg) }"

definition getRequestManifest :: "'w apiservice_env \<Rightarrow> apiservice_options \<Rightarrow> ('w, string) call" where
  "getRequestManifest env b =
     (if ao_url b \<noteq> '''' then do {
        r \<leftarrow> ae_HttpGet env (ao_url b);
        State_Monad.return (case r of
           Inl e \<Rightarrow> Inl (Errorf (''failed to get '' @ ao_url b) (Some e))
         | Inr (Inl e) \<Rightarrow> Inl (Errorf ''failed to read response body'' (Some e))
         | Inr (Inr body) \<Rightarrow> Inr body) }
      else if ao_file b = ''-'' then do {
        r \<leftarrow> ae_Stdin env;
        State_Monad.return (case r of Inl e \<Rightarrow> Inl (Errorf ''failed to read from stdin'' (Some e)) | Inr body \<Rightarrow> Inr body) }
      else do {
        r \<leftarrow> ae_ReadFile env (ao_file b);
        State_Monad.return (case r of Inl e \<Rightarrow> Inl (Errorf (''failed to read file '' @ ao_file b) (Some e)) | Inr body \<Rightarrow> Inr body) })"

definition unmarshalManifest :: "'w apiservice_env \<Rightarrow> string \<Rightarrow> go_error + APIServiceExportRequest" where
  "unmarshalManifest env bs =
     (case ae_yaml env bs of
        Inl e \<Rightarrow> Inl (Errorf ''failed to unmarshal manifest'' (Some e))
      | Inr (apiVersion, kind, request) \<Rightarrow>
          (if apiVersion \<noteq> SchemeGroupVersion then Inl (Errorf (''invalid apiVersion '' @ quoted apiVersion) None)
           else if kind \<noteq> ''APIServiceExportRequest'' then Inl (Errorf (''invalid kind '' @ quoted kind) None)
           else Inr request))"

section \<open>Request\<close>

definition clear_name :: "APIServiceExportRequest \<Rightarrow> APIServiceExportRequest" where
  "clear_name r = r\<lparr>er_Meta := (er_Meta r)\<lparr>om_Name := ''''\<rparr>\<rparr>"

definition send_request :: "'w request_client \<Rightarrow> string \<Rightarrow> APIServiceExportRequest \<Rightarrow> ('w, APIServiceExportRequest) call" where
  "send_request cl ns request =
     (let name = om_Name (er_Meta request)
      in do {
        c \<leftarrow> rq_Create cl ns (if name = '''' then ''export-'' else '''') request;
        (case c of
           Inr created \<Rightarrow> State_Monad.return (Inr created)
         | Inl e \<Rightarrow>
             (if \<not> IsAlreadyExists e then State_Monad.return (Inl e)
              else if name = '''' then State_Monad.return (Inl e)
              else rq_Create cl ns (name @ ''-'') (clear_name request))) })"

fun poll_request :: "'w request_client \<Rightarrow> string \<Rightarrow> string \<Rightarrow> nat \<Rightarrow> ('w, APIServiceExportRequest) call" where
  "poll_request cl ns name 0 = State_Monad.return (Inl (Errorf ''context deadline exceeded'' None))"
| "poll_request cl ns name (Suc polls) = do {
     g \<leftarrow> rq_Get cl ns name;
     (case g of
        Inl e \<Rightarrow> State_Monad.return (Inl (if IsNotFound e
          then Errorf (''APIServiceExportRequest '' @ name @ '' was deleted by the service provider'') None else e))
      | Inr request \<Rightarrow>
          (if ert_Phase (er_Status request) = PhaseSucceeded then State_Monad.return (Inr request)
           else if ert_Phase (er_Status request) = PhaseFailed
           then State_Monad.return (Inl (Errorf (''binding request failed: '' @ ert_TerminalMessage (er_Status request)) None))
           else poll_request cl ns name polls)) }"

definition createServiceExportRequest :: "'w apiservice_env \<Rightarrow> rest_config \<Rightarrow> string \<Rightarrow> APIServiceExportRequest \<Rightarrow>
    ('w, APIServiceExportRequest) call" where
  "createServiceExportRequest env remoteConfig ns request =
     (case ae_provider env remoteConfig of
        Inl e \<Rightarrow> State_Monad.return (Inl e)
      | Inr cl \<Rightarrow> do {
          c \<leftarrow> send_request cl ns request;
          (case c of
             Inl e \<Rightarrow> State_Monad.return (Inl e)
           | Inr created \<Rightarrow> poll_request cl ns (om_Name (er_Meta created)) (ae_polls env)) })"

section \<open>Konnector\<close>

definition konnectorImage :: string where "konnectorImage = ''ghcr.io/kube-bind/konnector''"

definition currentKonnectorVersion :: "'w consumer_client \<Rightarrow> ('w, string option) call" where
  "currentKonnectorVersion cl = do {
     g \<leftarrow> cs_GetDeployment cl ''kube-bind'' ''konnector'';
     State_Monad.return (case g of
        Inl e \<Rightarrow> (if IsNotFound e then Inr None else Inl e)
      | Inr (img, _) \<Rightarrow>
          (if \<not> HasPrefix img (konnectorImage @ '':'') then Inr (Some ''unknown'')
           else Inr (Some (TrimPrefix img (konnectorImage @ '':''))))) }"

text \<open>\<open>strings.TrimLeft(s, "v")\<close>.\<close>

definition trim_v :: "string \<Rightarrow> string" where "trim_v s = dropWhile (\<lambda>c. c = CHR ''v'') s"

definition update_konnector :: "'w apiservice_env \<Rightarrow> 'w consumer_client \<Rightarrow> string \<Rightarrow> string option \<Rightarrow> ('w, err) io" where
  "update_konnector env cl bindVersion installed =
     (let img = konnectorImage @ '':'' @ bindVersion; sv = ae_semver env
      in case installed of
           None \<Rightarrow> konnector_Bootstrap (cs_bootstrap cl) (ae_manifests env) (ae_polls env) img
         | Some konnectorVersion \<Rightarrow>
             (if konnectorVersion = ''unknown'' \<or> konnectorVersion = ''latest'' then State_Monad.return None
              else case sv_Parse sv (trim_v konnectorVersion) of
                     Inl e \<Rightarrow> State_Monad.return (Some (Errorf (''failed to parse konnector SemVer version '' @ quoted konnectorVersion) (Some e)))
                   | Inr konnectorSemVer \<Rightarrow>
                       (case sv_Parse sv (trim_v bindVersion) of
                          Inl e \<Rightarrow> State_Monad.return (Some (Errorf (''failed to parse kubectl-bind SemVer version '' @ quoted bindVersion) (Some e)))
                        | Inr bindSemVer \<Rightarrow>
                            (if sv_LT sv konnectorSemVer bindSemVer
                             then konnector_Bootstrap (cs_bootstrap cl) (ae_manifests env) (ae_polls env) img
                             else State_Monad.return None))))"

fun poll_served :: "'w consumer_client \<Rightarrow> nat \<Rightarrow> ('w, err) io" where
  "poll_served cl 0 = State_Monad.return (Some (Errorf ''context canceled'' None))"
| "poll_served cl (Suc polls) = do {
     l \<leftarrow> cs_ListBindings cl;
     (case l of Inr _ \<Rightarrow> State_Monad.return None | Inl _ \<Rightarrow> poll_served cl polls) }"

definition deployKonnector :: "'w apiservice_env \<Rightarrow> apiservice_options \<Rightarrow> rest_config \<Rightarrow> ('w, err) io" where
  "deployKonnector env b config =
     (case ae_consumer env config of
        Inl e \<Rightarrow> State_Monad.return (Some e)
      | Inr cl \<Rightarrow>
          (case BinaryVersion (ae_gitVersion env) of
             Inl e \<Rightarrow> State_Monad.return (Some e)
           | Inr bindVersion \<Rightarrow> do {
               d \<leftarrow> (if ao_KonnectorImageOverride b \<noteq> ''''
                     then konnector_Bootstrap (cs_bootstrap cl) (ae_manifests env) (ae_polls env) (ao_KonnectorImageOverride b)
                     else if \<not> ao_SkipKonnector b then do {
                       v \<leftarrow> currentKonnectorVersion cl;
                       (case v of
                          Inl e \<Rightarrow> State_Monad.return (Some (Errorf ''failed to check current konnector version in the cluster'' (Some e)))
                        | Inr installed \<Rightarrow> update_konnector env cl bindVersion installed) }
                     else State_Monad.return None);
               (case d of
                  Some e \<Rightarrow> State_Monad.return (Some e)
                | None \<Rightarrow> poll_served cl (ae_polls env)) }))"

section \<open>Secret and binding\<close>

definition createKubeconfigSecret :: "'w apiservice_env \<Rightarrow> rest_config \<Rightarrow> string \<Rightarrow> string \<Rightarrow> string \<Rightarrow> ('w, string) call" where
  "createKubeconfigSecret env config remoteHost remoteNamespace kubeconfig =
     (case ae_consumer env config of
        Inl e \<Rightarrow> State_Monad.return (Inl e)
      | Inr cl \<Rightarrow> do {
          c \<leftarrow> cs_CreateNamespace cl ''kube-bind'';
          (case (case c of Some e \<Rightarrow> (if IsAlreadyExists e then None else Some e) | None \<Rightarrow> None) of
             Some e \<Rightarrow> State_Monad.return (Inl e)
           | None \<Rightarrow> do {
               f \<leftarrow> FindRemoteKubeconfig (ae_Load env) (cs_secrets cl) remoteNamespace remoteHost;
               (case f of
                  Inl e \<Rightarrow> State_Monad.return (Inl e)
                | Inr secretName \<Rightarrow>
                    (if secretName \<noteq> '''' then State_Monad.return (Inr secretName)
                     else do {
                       s \<leftarrow> EnsureKubeconfigSecret (ae_Load env) (ae_retries env) kubeconfig '''' (cs_secrets cl);
                       State_Monad.return (case s of
                          Inl e \<Rightarrow> Inl e
                        | Inr (secret, _) \<Rightarrow>
                            (case ParseRemoteKubeconfig (ae_Load env) kubeconfig of
                               Inl e \<Rightarrow> Inl e
                             | Inr _ \<Rightarrow> Inr (om_Name (sec_Meta secret)))) })) }) })"

fun check_crds :: "'w consumer_client \<Rightarrow> APIServiceBinding \<Rightarrow> APIServiceExportRequestResource list \<Rightarrow> ('w, err) io" where
  "check_crds cl existing [] = State_Monad.return None"
| "check_crds cl existing (r # rs) = do {
     g \<leftarrow> cs_GetCRD cl (ResourceGroupName r);
     (case g of
        Inl e \<Rightarrow> (if IsNotFound e then check_crds cl existing rs else State_Monad.return (Some e))
      | Inr crd \<Rightarrow>
          (if \<not> IsOwnedByBinding (om_Name (bi_Meta existing)) (om_UID (bi_Meta existing)) (om_OwnerReferences (crd_Meta crd))
           then State_Monad.return (Some (Errorf (''CustomResourceDefinition '' @ om_Name (crd_Meta crd) @
             '' exists, but is not owned by kube-bind'') None))
           else check_crds cl existing rs)) }"

definition new_binding :: "string \<Rightarrow> string \<Rightarrow> APIServiceBinding" where
  "new_binding bindingName secretName = \<lparr>bi_Kind = '''', bi_Meta = zero_ObjectMeta\<lparr>om_Name := bindingName\<rparr>,
     bi_KubeconfigSecretRef = \<lparr>csk_Local = \<lparr>lsk_Name = secretName, lsk_Key = ''kubeconfig''\<rparr>, csk_Namespace = ''kube-bind''\<rparr>,
     bi_Status = \<lparr>bis_ProviderPrettyName = '''', bis_Conditions = [], bis_BoundSchemas = [], bis_PermissionClaims = []\<rparr>\<rparr>"

definition create_binding :: "'w apiservice_env \<Rightarrow> 'w consumer_client \<Rightarrow> string \<Rightarrow> string \<Rightarrow> ('w, APIServiceBinding) call" where
  "create_binding env cl bindingName secretName = do {
     t \<leftarrow> ae_second env;
     (case t of
        Some e \<Rightarrow> State_Monad.return (Inl e)
      | None \<Rightarrow> do {
          c \<leftarrow> cs_CreateBinding cl (new_binding bindingName secretName);
          (case c of
             Inl e \<Rightarrow> State_Monad.return (Inl e)
           | Inr created \<Rightarrow>
               (let pending = MarkFalse APIServiceBinding_setter (ae_now env) created ReadyCondition ''Pending''
                                ConditionSeverityInfo ''Pending''
                in do {
                  cs_UpdateBindingStatus cl pending;
                  State_Monad.return (Inr pending) })) }) }"

definition createAPIServiceBindings :: "'w apiservice_env \<Rightarrow> rest_config \<Rightarrow> APIServiceExportRequest \<Rightarrow> string \<Rightarrow>
    ('w, APIServiceBinding list) call" where
  "createAPIServiceBindings env config request secretName =
     (case ae_consumer env config of
        Inl e \<Rightarrow> State_Monad.return (Inl e)
      | Inr cl \<Rightarrow>
          (let bindingName = om_Name (er_Meta request)
           in do {
             g \<leftarrow> cs_GetBinding cl bindingName;
             (case g of
                Inl e \<Rightarrow>
                  (if \<not> IsNotFound e then State_Monad.return (Inl e)
                   else do {
                     c \<leftarrow> create_binding env cl bindingName secretName;
                     State_Monad.return (case c of Inl e' \<Rightarrow> Inl e' | Inr created \<Rightarrow> Inr [created]) })
              | Inr existing \<Rightarrow>
                  (if csk_Namespace (bi_KubeconfigSecretRef existing) \<noteq> ''kube-bind'' \<or>
                      lsk_Name (csk_Local (bi_KubeconfigSecretRef existing)) \<noteq> secretName
                   then State_Monad.return (Inl (Errorf (''found existing APIServiceBinding '' @ bindingName @ '' not from this service provider'') None))
                   else do {
                     e \<leftarrow> check_crds cl existing (ers_Resources (er_Spec request));
                     State_Monad.return (case e of Some x \<Rightarrow> Inl x | None \<Rightarrow> Inr [existing]) })) }))"

text \<open>The rows of the result table.\<close>

fun table_rows :: "'w consumer_client \<Rightarrow> APIServiceBinding list \<Rightarrow> ('w, string list) call" where
  "table_rows cl [] = State_Monad.return (Inr [])"
| "table_rows cl (b # bs) = do {
     g \<leftarrow> cs_GetTable cl (om_Name (bi_Meta b));
     (case g of
        Inl e \<Rightarrow> State_Monad.return (Inl e)
      | Inr rows \<Rightarrow> do {
          m \<leftarrow> table_rows cl bs;
          State_Monad.return (case m of Inl e \<Rightarrow> Inl e | Inr rest \<Rightarrow> Inr (rows @ rest)) }) }"

definition printTable :: "'w apiservice_env \<Rightarrow> rest_config \<Rightarrow> APIServiceBinding list \<Rightarrow> ('w, err) io" where
  "printTable env config bindings =
     (case ae_consumer env config of
        Inl e \<Rightarrow> State_Monad.return (Some e)
      | Inr cl \<Rightarrow> do {
          r \<leftarrow> table_rows cl bindings;
          (case r of Inl e \<Rightarrow> State_Monad.return (Some e) | Inr rows \<Rightarrow> ae_Print env rows) })"

section \<open>Run\<close>

text \<open>The last steps, from a request that succeeded on.\<close>

definition finish_binding :: "'w apiservice_env \<Rightarrow> apiservice_options \<Rightarrow> rest_config \<Rightarrow> string \<Rightarrow> string \<Rightarrow> string \<Rightarrow>
    APIServiceExportRequest \<Rightarrow> ('w, APIServiceBinding list) call" where
  "finish_binding env b config remoteHost remoteNamespace kubeconfig result = do {
     d \<leftarrow> deployKonnector env b config;
     (case d of
        Some e \<Rightarrow> State_Monad.return (Inl e)
      | None \<Rightarrow> do {
          s \<leftarrow> createKubeconfigSecret env config remoteHost remoteNamespace kubeconfig;
          (case s of
             Inl e \<Rightarrow> State_Monad.return (Inl e)
           | Inr secretName \<Rightarrow> createAPIServiceBindings env config result secretName) }) }"

definition bind_apiservice :: "'w apiservice_env \<Rightarrow> apiservice_options \<Rightarrow> rest_config \<Rightarrow> ('w, APIServiceBinding list) call" where
  "bind_apiservice env b config = do {
     k \<leftarrow> getRemoteKubeconfig env b config;
     (case k of
        Inl e \<Rightarrow> State_Monad.return (Inl e)
      | Inr (kubeconfig, remoteNamespace, remoteConfig) \<Rightarrow> do {
          m \<leftarrow> getRequestManifest env b;
          (case m of
             Inl e \<Rightarrow> State_Monad.return (Inl e)
           | Inr bs \<Rightarrow>
               (case unmarshalManifest env bs of
                  Inl e \<Rightarrow> State_Monad.return (Inl e)
                | Inr request \<Rightarrow> do {
                    q \<leftarrow> createServiceExportRequest env remoteConfig remoteNamespace request;
                    (case q of
                       Inl e \<Rightarrow> State_Monad.return (Inl e)
                     | Inr result \<Rightarrow> finish_binding env b config (rc_Host remoteConfig) remoteNamespace kubeconfig result) })) }) }"

definition Run :: "'w apiservice_env \<Rightarrow> apiservice_options \<Rightarrow> ('w, err) io" where
  "Run env b =
     (case ae_config env of
        Inl e \<Rightarrow> State_Monad.return (Some e)
      | Inr config \<Rightarrow> do {
          r \<leftarrow> bind_apiservice env b config;
          (case r of Inl e \<Rightarrow> State_Monad.return (Some e) | Inr bindings \<Rightarrow> printTable env config bindings) })"

section \<open>What the command writes\<close>

datatype cli_event =
    SentRequest string string APIServiceExportRequest "go_error + APIServiceExportRequest"
  | GotRequest string string "go_error + APIServiceExportRequest"
  | SecretEvent kubeconfig_event
  | CreatedNamespace string err
  | GotBinding string "go_error + APIServiceBinding"
  | CreatedBinding APIServiceBinding "go_error + APIServiceBinding"
  | UpdatedBindingStatus APIServiceBinding "go_error + APIServiceBinding"
  | GotCRD string "go_error + CustomResourceDefinition"

definition traced_consumer :: "'w consumer_client \<Rightarrow> ('w \<times> cli_event list) consumer_client" where
  "traced_consumer cl = \<lparr>
     cs_secrets = \<lparr>
       ks_List = logged (\<lambda>r. SecretEvent (ListedSecrets r)) (ks_List (cs_secrets cl)),
       ks_Get = (\<lambda>n. logged (\<lambda>r. SecretEvent (GotKubeconfig n r)) (ks_Get (cs_secrets cl) n)),
       ks_Create = (\<lambda>p s. logged (\<lambda>r. SecretEvent (CreatedKubeconfig p s r)) (ks_Create (cs_secrets cl) p s)),
       ks_Update = (\<lambda>s. logged (\<lambda>r. SecretEvent (UpdatedKubeconfig s r)) (ks_Update (cs_secrets cl) s))\<rparr>,
     cs_GetSecret = (\<lambda>ns n. unlogged (cs_GetSecret cl ns n)),
     cs_CreateNamespace = (\<lambda>n. logged (CreatedNamespace n) (cs_CreateNamespace cl n)),
     cs_GetBinding = (\<lambda>n. logged (GotBinding n) (cs_GetBinding cl n)),
     cs_CreateBinding = (\<lambda>b. logged (CreatedBinding b) (cs_CreateBinding cl b)),
     cs_UpdateBindingStatus = (\<lambda>b. logged (UpdatedBindingStatus b) (cs_UpdateBindingStatus cl b)),
     cs_ListBindings = unlogged (cs_ListBindings cl),
     cs_GetCRD = (\<lambda>n. logged (GotCRD n) (cs_GetCRD cl n)),
     cs_GetDeployment = (\<lambda>ns n. unlogged (cs_GetDeployment cl ns n)),
     cs_bootstrap = unlogged_env (cs_bootstrap cl),
     cs_GetTable = (\<lambda>n. unlogged (cs_GetTable cl n))\<rparr>"

definition traced_provider :: "'w request_client \<Rightarrow> ('w \<times> cli_event list) request_client" where
  "traced_provider cl = \<lparr>
     rq_Create = (\<lambda>ns g r. logged (SentRequest ns g r) (rq_Create cl ns g r)),
     rq_Get = (\<lambda>ns n. logged (GotRequest ns n) (rq_Get cl ns n))\<rparr>"

definition traced_cli :: "'w apiservice_env \<Rightarrow> ('w \<times> cli_event list) apiservice_env" where
  "traced_cli env = \<lparr>ae_config = ae_config env,
     ae_consumer = (\<lambda>c. map_sum id traced_consumer (ae_consumer env c)),
     ae_provider = (\<lambda>c. map_sum id traced_provider (ae_provider env c)),
     ae_Load = ae_Load env, ae_Write = ae_Write env, ae_ClientConfig = ae_ClientConfig env,
     ae_ReadFile = (\<lambda>f. unlogged (ae_ReadFile env f)), ae_HttpGet = (\<lambda>u. unlogged (ae_HttpGet env u)),
     ae_Stdin = unlogged (ae_Stdin env), ae_yaml = ae_yaml env, ae_semver = ae_semver env,
     ae_gitVersion = ae_gitVersion env, ae_manifests = ae_manifests env, ae_second = unlogged (ae_second env),
     ae_now = ae_now env, ae_polls = ae_polls env, ae_retries = ae_retries env, ae_Print = (\<lambda>r. unlogged (ae_Print env r))\<rparr>"

text \<open>
  The kubeconfig, with the host and the namespace it stands for; a secret of that kubeconfig is one that
  was listed and leads to the same place, or one that was created with it.
\<close>

record target =
  tg_load :: "string \<Rightarrow> go_error + client_config"
  tg_host :: string
  tg_ns :: string
  tg_kubeconfig :: string
  tg_now :: time

definition secret_available :: "target \<Rightarrow> cli_event list \<Rightarrow> string \<Rightarrow> bool" where
  "secret_available t tr n \<longleftrightarrow>
     (\<exists>ss s. SecretEvent (ListedSecrets (Inr ss)) \<in> set tr \<and> s \<in> set ss \<and> om_Name (sec_Meta s) = n \<and>
        leads_to (tg_load t) s = Some (tg_host t, tg_ns t)) \<or>
     (\<exists>p r. SecretEvent (CreatedKubeconfig p (new_kubeconfig_secret (tg_kubeconfig t)) (Inr r)) \<in> set tr \<and> om_Name (sec_Meta r) = n)"

definition request_succeeded :: "target \<Rightarrow> cli_event list \<Rightarrow> APIServiceExportRequest \<Rightarrow> bool" where
  "request_succeeded t tr r \<longleftrightarrow> ert_Phase (er_Status r) = PhaseSucceeded \<and> (\<exists>n. GotRequest (tg_ns t) n (Inr r) \<in> set tr)"

definition cli_ok :: "target \<Rightarrow> cli_event list \<Rightarrow> cli_event \<Rightarrow> bool" where
  "cli_ok t past ev =
     (case ev of
        SentRequest ns _ _ _ \<Rightarrow> ns = tg_ns t
      | CreatedNamespace n _ \<Rightarrow> n = ''kube-bind''
      | SecretEvent (CreatedKubeconfig _ s _) \<Rightarrow> s = new_kubeconfig_secret (tg_kubeconfig t)
      | SecretEvent (UpdatedKubeconfig _ _) \<Rightarrow> False
      | CreatedBinding b _ \<Rightarrow>
          (\<exists>r n e. request_succeeded t past r \<and> secret_available t past n \<and> b = new_binding (om_Name (er_Meta r)) n \<and>
             GotBinding (om_Name (er_Meta r)) (Inl e) \<in> set past \<and> IsNotFound e)
      | UpdatedBindingStatus b _ \<Rightarrow>
          (\<exists>b0 c. suffix [CreatedBinding b0 (Inr c)] past \<and>
             b = MarkFalse APIServiceBinding_setter (tg_now t) c ReadyCondition ''Pending'' ConditionSeverityInfo ''Pending'')
      | _ \<Rightarrow> True)"

text \<open>The binding of a successful run: created for the request, or an existing one whose CRDs it owns.\<close>

definition bound :: "target \<Rightarrow> cli_event list \<Rightarrow> APIServiceExportRequest \<Rightarrow> bool" where
  "bound t tr r \<longleftrightarrow> (\<exists>n. secret_available t tr n \<and>
     ((\<exists>c. CreatedBinding (new_binding (om_Name (er_Meta r)) n) (Inr c) \<in> set tr) \<or>
      (\<exists>x. GotBinding (om_Name (er_Meta r)) (Inr x) \<in> set tr \<and>
         csk_Namespace (bi_KubeconfigSecretRef x) = ''kube-bind'' \<and> lsk_Name (csk_Local (bi_KubeconfigSecretRef x)) = n \<and>
         (\<forall>q \<in> set (ers_Resources (er_Spec r)). \<exists>g. GotCRD (ResourceGroupName q) g \<in> set tr \<and>
            (case g of Inl e \<Rightarrow> IsNotFound e | Inr crd \<Rightarrow>
               IsOwnedByBinding (om_Name (bi_Meta x)) (om_UID (bi_Meta x)) (om_OwnerReferences (crd_Meta crd)))))))"

definition extends :: "target \<Rightarrow> cli_event list \<Rightarrow> cli_event list \<Rightarrow> bool" where
  "extends t tr tr' \<longleftrightarrow> guarded (cli_ok t) [] tr' \<and> prefix tr tr'"

lemma available_mono: "secret_available t tr n \<Longrightarrow> prefix tr tr' \<Longrightarrow> secret_available t tr' n"
  unfolding secret_available_def using set_mono_prefix by blast

lemma succeeded_mono: "request_succeeded t tr r \<Longrightarrow> prefix tr tr' \<Longrightarrow> request_succeeded t tr' r"
  unfolding request_succeeded_def using set_mono_prefix by blast

lemma traced_cli_simps [simp]:
  "ae_consumer (traced_cli env) c = map_sum id traced_consumer (ae_consumer env c)"
  "ae_provider (traced_cli env) c = map_sum id traced_provider (ae_provider env c)"
  "ae_Load (traced_cli env) = ae_Load env" "ae_second (traced_cli env) = unlogged (ae_second env)"
  "ae_now (traced_cli env) = ae_now env" "ae_polls (traced_cli env) = ae_polls env"
  "ae_ClientConfig (traced_cli env) = ae_ClientConfig env" "ae_Write (traced_cli env) = ae_Write env"
  "ae_yaml (traced_cli env) = ae_yaml env" "ae_ReadFile (traced_cli env) f = unlogged (ae_ReadFile env f)"
  "ae_HttpGet (traced_cli env) u = unlogged (ae_HttpGet env u)" "ae_Stdin (traced_cli env) = unlogged (ae_Stdin env)"
  by (simp_all add: traced_cli_def)

lemma poll_request_wp:
  assumes "extends t tr tr" and "ns = tg_ns t"
  shows "wp (poll_request (traced_provider cl) ns name polls)
    (\<lambda>r s. extends t tr (snd s) \<and> (\<forall>q. r = Inr q \<longrightarrow> request_succeeded t (snd s) q)) (w, tr)"
  using assms(1)
proof (induction polls arbitrary: tr w)
  case (Suc polls)
  have "wp (poll_request (traced_provider cl) ns name polls)
      (\<lambda>r s. extends t tr (snd s) \<and> (\<forall>q. r = Inr q \<longrightarrow> request_succeeded t (snd s) q)) (w', tr @ [GotRequest ns name g])" for w' g
    by (rule wp_weaken [OF Suc.IH]) (use Suc.prems in \<open>auto simp: extends_def cli_ok_def dest: append_prefixD\<close>)
  then show ?case using Suc.prems assms(2) unfolding poll_request.simps
    by (intro wp_intros) (auto simp: traced_provider_def extends_def cli_ok_def request_succeeded_def intro!: wp_intros)
qed (auto intro!: wp_return)

lemma traced_consumer_simps [simp]:
  "ks_List (cs_secrets (traced_consumer cl)) = logged (\<lambda>r. SecretEvent (ListedSecrets r)) (ks_List (cs_secrets cl))"
  "ks_Create (cs_secrets (traced_consumer cl)) p s = logged (\<lambda>r. SecretEvent (CreatedKubeconfig p s r)) (ks_Create (cs_secrets cl) p s)"
  "cs_CreateNamespace (traced_consumer cl) n = logged (CreatedNamespace n) (cs_CreateNamespace cl n)"
  "cs_GetBinding (traced_consumer cl) n = logged (GotBinding n) (cs_GetBinding cl n)"
  "cs_CreateBinding (traced_consumer cl) b = logged (CreatedBinding b) (cs_CreateBinding cl b)"
  "cs_UpdateBindingStatus (traced_consumer cl) b = logged (UpdatedBindingStatus b) (cs_UpdateBindingStatus cl b)"
  "cs_GetCRD (traced_consumer cl) n = logged (GotCRD n) (cs_GetCRD cl n)"
  "cs_GetSecret (traced_consumer cl) ns n = unlogged (cs_GetSecret cl ns n)"
  by (simp_all add: traced_consumer_def)

lemma createServiceExportRequest_wp:
  assumes "extends t tr tr"
  shows "wp (createServiceExportRequest (traced_cli env) remoteConfig (tg_ns t) request)
    (\<lambda>r s. extends t tr (snd s) \<and> (\<forall>q. r = Inr q \<longrightarrow> request_succeeded t (snd s) q)) (w, tr)"
proof (cases "ae_provider env remoteConfig")
  case (Inl e)
  then show ?thesis using assms by (simp add: createServiceExportRequest_def wp_return)
next
  case (Inr cl)
  have send: "wp (send_request (traced_provider cl) (tg_ns t) request) (\<lambda>r s. extends t tr (snd s)) (w, tr)"
    using assms unfolding send_request_def traced_provider_def
    by (auto intro!: wp_intros simp: extends_def guarded_append cli_ok_def)
  have "wp (case c of Inl e \<Rightarrow> State_Monad.return (Inl e)
        | Inr created \<Rightarrow> poll_request (traced_provider cl) (tg_ns t) (om_Name (er_Meta created)) (ae_polls env))
      (\<lambda>r s. extends t tr (snd s) \<and> (\<forall>q. r = Inr q \<longrightarrow> request_succeeded t (snd s) q)) s"
    if "extends t tr (snd s)" for c s
    using that by (cases s) (auto intro!: wp_intros wp_weaken [OF poll_request_wp] simp: extends_def split: sum.split)
  then show ?thesis unfolding createServiceExportRequest_def using Inr by (auto intro!: wp_chain [OF send])
qed

lemma poll_served_preserves: "preserves P (cs_ListBindings cl) \<Longrightarrow> preserves P (poll_served cl n)"
  by (induction n) (auto intro!: preserves_intros split: sum.split)

lemma deployKonnector_unrecorded: "preserves (\<lambda>s. snd s = tr) (deployKonnector (traced_cli env) b config)"
proof (cases "ae_consumer env config")
  case (Inr cl)
  have "env_preserves (\<lambda>s. snd s = tr) (cs_bootstrap (traced_consumer cl))"
    by (simp add: traced_consumer_def unlogged_env_preserves)
  moreover have "preserves (\<lambda>s. snd s = tr) (cs_GetDeployment (traced_consumer cl) ns n)"
    "preserves (\<lambda>s. snd s = tr) (cs_ListBindings (traced_consumer cl))" for ns n
    by (simp_all add: traced_consumer_def unlogged_preserves)
  ultimately show ?thesis using Inr
    unfolding deployKonnector_def update_konnector_def currentKonnectorVersion_def
    by (auto intro!: preserves_intros poll_served_preserves simp: Let_def split: sum.split option.split)
qed (simp add: deployKonnector_def)

lemma find_wp:
  assumes "extends t tr tr"
  shows "wp (FindRemoteKubeconfig (tg_load t) (cs_secrets (traced_consumer cl)) (tg_ns t) (tg_host t))
    (\<lambda>r s. extends t tr (snd s) \<and> (\<forall>n. r = Inr n \<longrightarrow> n \<noteq> '''' \<longrightarrow> secret_available t (snd s) n)) (w, tr)"
proof -
  have "secret_available t (tr @ [SecretEvent (ListedSecrets (Inr ss))]) (find_kubeconfig (tg_load t) (tg_ns t) (tg_host t) ss)"
    if "find_kubeconfig (tg_load t) (tg_ns t) (tg_host t) ss \<noteq> ''''" for ss
    using find_kubeconfig_found [OF that] unfolding secret_available_def by fastforce
  then show ?thesis using assms unfolding FindRemoteKubeconfig_def traced_consumer_simps
    by (intro wp_intros) (auto simp: extends_def cli_ok_def split: sum.splits)
qed

lemma create_secret_wp:
  assumes "extends t tr tr"
  shows "wp (EnsureKubeconfigSecret (tg_load t) retries (tg_kubeconfig t) '''' (cs_secrets (traced_consumer cl)))
    (\<lambda>r s. extends t tr (snd s) \<and> (\<forall>x c. r = Inr (x, c) \<longrightarrow> secret_available t (snd s) (om_Name (sec_Meta x)))) (w, tr)"
  using assms unfolding EnsureKubeconfigSecret_def traced_consumer_simps
  by (intro wp_intros) (auto simp: extends_def cli_ok_def secret_available_def split: sum.splits)

lemma createKubeconfigSecret_wp:
  assumes "extends t tr tr" and "ae_Load env = tg_load t"
  shows "wp (createKubeconfigSecret (traced_cli env) config (tg_host t) (tg_ns t) (tg_kubeconfig t))
    (\<lambda>r s. extends t tr (snd s) \<and> (\<forall>n. r = Inr n \<longrightarrow> secret_available t (snd s) n)) (w, tr)"
proof (cases "ae_consumer env config")
  case (Inl e)
  then show ?thesis using assms by (simp add: createKubeconfigSecret_def wp_return)
next
  case (Inr cl)
  let ?Q = "\<lambda>r s. extends t tr (snd s) \<and> (\<forall>n. r = Inr n \<longrightarrow> secret_available t (snd s) n)"
  have ensure: "wp (do {
      s \<leftarrow> EnsureKubeconfigSecret (tg_load t) n (tg_kubeconfig t) '''' (cs_secrets (traced_consumer cl));
      State_Monad.return (case s of Inl e \<Rightarrow> Inl e | Inr (secret, _) \<Rightarrow>
        (case ParseRemoteKubeconfig (tg_load t) (tg_kubeconfig t) of Inl e \<Rightarrow> Inl e | Inr _ \<Rightarrow> Inr (om_Name (sec_Meta secret)))) }) ?Q s"
    if "extends t tr (snd s)" for s n
  proof (cases s)
    case (Pair w' tr')
    have "extends t tr' tr'" using that Pair by (simp add: extends_def)
    then show ?thesis unfolding Pair
      by (rule wp_chain [OF create_secret_wp]) (use that Pair in \<open>auto intro!: wp_return simp: extends_def split: sum.splits\<close>)
  qed
  have find: "wp (do {
      f \<leftarrow> FindRemoteKubeconfig (tg_load t) (cs_secrets (traced_consumer cl)) (tg_ns t) (tg_host t);
      (case f of Inl e \<Rightarrow> State_Monad.return (Inl e) | Inr secretName \<Rightarrow>
        (if secretName \<noteq> '''' then State_Monad.return (Inr secretName) else do {
           s \<leftarrow> EnsureKubeconfigSecret (tg_load t) (ae_retries (traced_cli env)) (tg_kubeconfig t) '''' (cs_secrets (traced_consumer cl));
           State_Monad.return (case s of Inl e \<Rightarrow> Inl e | Inr (secret, _) \<Rightarrow>
             (case ParseRemoteKubeconfig (tg_load t) (tg_kubeconfig t) of Inl e \<Rightarrow> Inl e | Inr _ \<Rightarrow> Inr (om_Name (sec_Meta secret)))) })) }) ?Q
      (w', tr @ [CreatedNamespace ''kube-bind'' x])" for w' x
  proof (rule wp_chain [OF find_wp])
    show "extends t (tr @ [CreatedNamespace ''kube-bind'' x]) (tr @ [CreatedNamespace ''kube-bind'' x])"
      using assms(1) by (simp add: extends_def cli_ok_def)
  qed (intro wp_intros ensure, auto simp: extends_def dest: append_prefixD)
  have stop: "?Q (Inl e) (w', tr @ [CreatedNamespace ''kube-bind'' x])" for e w' x
    using assms(1) by (simp add: extends_def cli_ok_def)
  show ?thesis unfolding createKubeconfigSecret_def traced_cli_simps Inr map_sum.simps sum.case traced_consumer_simps assms(2)
    by (rule wp_bind, rule wp_logged, rule wp_option) (rule find, rule wp_return, rule stop)
qed

definition crd_checked :: "APIServiceBinding \<Rightarrow> cli_event list \<Rightarrow> APIServiceExportRequestResource \<Rightarrow> bool" where
  "crd_checked x tr q \<longleftrightarrow> (\<exists>g. GotCRD (ResourceGroupName q) g \<in> set tr \<and>
     (case g of Inl e \<Rightarrow> IsNotFound e | Inr crd \<Rightarrow>
        IsOwnedByBinding (om_Name (bi_Meta x)) (om_UID (bi_Meta x)) (om_OwnerReferences (crd_Meta crd))))"

lemma crd_checked_mono: "crd_checked x tr q \<Longrightarrow> prefix tr tr' \<Longrightarrow> crd_checked x tr' q"
  unfolding crd_checked_def using set_mono_prefix by blast

lemma check_crds_wp:
  assumes "extends t tr tr"
  shows "wp (check_crds (traced_consumer cl) x qs)
    (\<lambda>e s. extends t tr (snd s) \<and> (e = None \<longrightarrow> (\<forall>q \<in> set qs. crd_checked x (snd s) q))) (w, tr)"
  using assms
proof (induction qs arbitrary: tr w)
  case (Cons q qs)
  have more: "wp (check_crds (traced_consumer cl) x qs)
      (\<lambda>e s. extends t tr (snd s) \<and> (e = None \<longrightarrow> (\<forall>q \<in> set (q # qs). crd_checked x (snd s) q))) (w', tr @ [GotCRD (ResourceGroupName q) g])"
    if "crd_checked x [GotCRD (ResourceGroupName q) g] q" for w' g
  proof (rule wp_weaken [OF Cons.IH])
    show "extends t (tr @ [GotCRD (ResourceGroupName q) g]) (tr @ [GotCRD (ResourceGroupName q) g])"
      using Cons.prems by (simp add: extends_def cli_ok_def)
    fix e s
    assume "extends t (tr @ [GotCRD (ResourceGroupName q) g]) (snd s) \<and> (e = None \<longrightarrow> (\<forall>q \<in> set qs. crd_checked x (snd s) q))"
    moreover have "crd_checked x (tr @ [GotCRD (ResourceGroupName q) g]) q" using that by (auto simp: crd_checked_def)
    ultimately show "extends t tr (snd s) \<and> (e = None \<longrightarrow> (\<forall>q \<in> set (q # qs). crd_checked x (snd s) q))"
      by (auto simp: extends_def intro: crd_checked_mono dest: append_prefixD)
  qed
  show ?case using Cons.prems unfolding check_crds.simps traced_consumer_simps
    by (intro wp_intros more) (auto simp: extends_def cli_ok_def crd_checked_def)
qed (auto intro!: wp_return)

lemma create_binding_wp:
  assumes "extends t tr tr" and "request_succeeded t tr r" and "secret_available t tr n"
    and "GotBinding (om_Name (er_Meta r)) (Inl e) \<in> set tr" and "IsNotFound e" and "ae_now env = tg_now t"
  shows "wp (create_binding (traced_cli env) (traced_consumer cl) (om_Name (er_Meta r)) n)
    (\<lambda>x s. extends t tr (snd s) \<and> (\<forall>c. x = Inr c \<longrightarrow> (\<exists>d. CreatedBinding (new_binding (om_Name (er_Meta r)) n) (Inr d) \<in> set (snd s)))) (w, tr)"
proof -
  have "cli_ok t tr (CreatedBinding (new_binding (om_Name (er_Meta r)) n) x)" for x
    using assms unfolding cli_ok_def by auto
  then show ?thesis using assms(1,6) unfolding create_binding_def traced_consumer_simps traced_cli_simps
    by (intro wp_intros wp_unlogged)
      (auto intro!: wp_intros simp: extends_def guarded_append suffix_def cli_ok_def [of t "_ @ _"])
qed

lemma fresh_binding_wp:
  assumes "extends t tr tr" and "request_succeeded t tr r" and "secret_available t tr n" and "ae_now env = tg_now t" and "IsNotFound e"
  shows "wp (create_binding (traced_cli env) (traced_consumer cl) (om_Name (er_Meta r)) n)
    (\<lambda>x s. extends t tr (snd s) \<and> (\<forall>c. x = Inr c \<longrightarrow> bound t (snd s) r)) (w, tr @ [GotBinding (om_Name (er_Meta r)) (Inl e)])"
    (is "wp _ _ (w, ?tr)")
proof (rule wp_weaken [OF create_binding_wp [OF _ _ _ _ assms(5,4)]])
  show "extends t ?tr ?tr" using assms(1) by (simp add: extends_def cli_ok_def)
  show "request_succeeded t ?tr r" "secret_available t ?tr n" using assms(2,3) by (auto intro: succeeded_mono available_mono)
next
  fix x s
  assume *: "extends t ?tr (snd s) \<and> (\<forall>c. x = Inr c \<longrightarrow> (\<exists>d. CreatedBinding (new_binding (om_Name (er_Meta r)) n) (Inr d) \<in> set (snd s)))"
  then have "prefix tr (snd s)" by (auto simp: extends_def dest: append_prefixD)
  with * available_mono [OF assms(3) this] show "extends t tr (snd s) \<and> (\<forall>c. x = Inr c \<longrightarrow> bound t (snd s) r)"
    by (auto simp: extends_def bound_def)
qed simp

lemma reused_binding_wp:
  assumes "extends t tr tr" and "secret_available t tr n"
    and "csk_Namespace (bi_KubeconfigSecretRef x) = ''kube-bind''" and "lsk_Name (csk_Local (bi_KubeconfigSecretRef x)) = n"
  shows "wp (check_crds (traced_consumer cl) x (ers_Resources (er_Spec r)))
    (\<lambda>e s. extends t tr (snd s) \<and> (e = None \<longrightarrow> bound t (snd s) r)) (w, tr @ [GotBinding (om_Name (er_Meta r)) (Inr x)])"
    (is "wp _ _ (w, ?tr)")
proof (rule wp_weaken [OF check_crds_wp])
  show "extends t ?tr ?tr" using assms(1) by (simp add: extends_def cli_ok_def)
next
  fix e s
  assume *: "extends t ?tr (snd s) \<and> (e = None \<longrightarrow> (\<forall>q \<in> set (ers_Resources (er_Spec r)). crd_checked x (snd s) q))"
  then have pre: "prefix ?tr (snd s)" by (simp add: extends_def)
  then have "prefix tr (snd s)" by (rule append_prefixD)
  moreover have "GotBinding (om_Name (er_Meta r)) (Inr x) \<in> set (snd s)" using set_mono_prefix [OF pre] by simp
  ultimately show "extends t tr (snd s) \<and> (e = None \<longrightarrow> bound t (snd s) r)"
    using * assms(3,4) available_mono [OF assms(2)] by (auto simp: extends_def bound_def crd_checked_def)
qed

lemma createAPIServiceBindings_wp:
  assumes "extends t tr tr" and "request_succeeded t tr r" and "secret_available t tr n" and "ae_now env = tg_now t"
  shows "wp (createAPIServiceBindings (traced_cli env) config r n)
    (\<lambda>x s. extends t tr (snd s) \<and> (\<forall>bs. x = Inr bs \<longrightarrow> bound t (snd s) r)) (w, tr)" (is "wp _ ?Q _")
proof (cases "ae_consumer env config")
  case (Inl e)
  then show ?thesis using assms(1) by (simp add: createAPIServiceBindings_def wp_return)
next
  case (Inr cl)
  let ?got = "GotBinding (om_Name (er_Meta r))"
  have stop: "?Q (Inl e) (w', tr @ [?got g])" for e w' g using assms(1) by (simp add: extends_def cli_ok_def)
  have fresh: "wp (do { c \<leftarrow> create_binding (traced_cli env) (traced_consumer cl) (om_Name (er_Meta r)) n;
      State_Monad.return (case c of Inl e' \<Rightarrow> Inl e' | Inr created \<Rightarrow> Inr [created]) }) ?Q (w', tr @ [?got (Inl e)])" if "IsNotFound e" for e w'
    by (rule wp_chain [OF fresh_binding_wp [OF assms that]]) (auto intro!: wp_return split: sum.splits)
  have reused: "wp (do { e \<leftarrow> check_crds (traced_consumer cl) x (ers_Resources (er_Spec r));
      State_Monad.return (case e of Some y \<Rightarrow> Inl y | None \<Rightarrow> Inr [x]) }) ?Q (w', tr @ [?got (Inr x)])"
    if "csk_Namespace (bi_KubeconfigSecretRef x) = ''kube-bind''" "lsk_Name (csk_Local (bi_KubeconfigSecretRef x)) = n" for x w'
    by (rule wp_chain [OF reused_binding_wp [OF assms(1,3) that]]) (auto intro!: wp_return split: option.splits)
  show ?thesis unfolding createAPIServiceBindings_def Let_def traced_cli_simps Inr map_sum.simps sum.case traced_consumer_simps
    by (rule wp_bind, rule wp_logged, (rule wp_sum; hypsubst))
      (rule wp_if, rule wp_return, rule stop, rule fresh, simp, rule wp_if, rule wp_return, rule stop, rule reused, simp_all)
qed

lemma finish_binding_wp:
  assumes "extends t tr tr" and "request_succeeded t tr r" and "ae_Load env = tg_load t" and "ae_now env = tg_now t"
  shows "wp (finish_binding (traced_cli env) b config (tg_host t) (tg_ns t) (tg_kubeconfig t) r)
    (\<lambda>x s. extends t tr (snd s) \<and> (\<forall>bs. x = Inr bs \<longrightarrow> bound t (snd s) r)) (w, tr)" (is "wp _ ?Q _")
proof -
  have bind: "wp (createAPIServiceBindings (traced_cli env) config r n) ?Q s"
    if "extends t tr (snd s)" "secret_available t (snd s) n" for n s
  proof (cases s)
    case (Pair w' tr')
    with that have ext: "extends t tr' tr'" "prefix tr tr'" by (auto simp: extends_def)
    show ?thesis unfolding Pair
      by (rule wp_weaken [OF createAPIServiceBindings_wp [OF ext(1) succeeded_mono [OF assms(2) ext(2)] _ assms(4)]])
        (use that Pair in \<open>auto simp: extends_def\<close>)
  qed
  have secret: "wp (do { s \<leftarrow> createKubeconfigSecret (traced_cli env) config (tg_host t) (tg_ns t) (tg_kubeconfig t);
      (case s of Inl e \<Rightarrow> State_Monad.return (Inl e) | Inr n \<Rightarrow> createAPIServiceBindings (traced_cli env) config r n) }) ?Q (w', tr)" for w'
    by (rule wp_chain [OF createKubeconfigSecret_wp [OF assms(1,3)]], rule wp_sum) (rule wp_return, simp, rule bind, simp_all)
  show ?thesis unfolding finish_binding_def
    by (rule wp_bind, rule wp_unrecorded [OF deployKonnector_unrecorded], rule wp_option) (rule secret, rule wp_return, use assms(1) in simp)
qed

lemma input_unrecorded:
  "preserves (\<lambda>s. snd s = tr) (load_remote (traced_cli env) b config)"
  "preserves (\<lambda>s. snd s = tr) (getRequestManifest (traced_cli env) b)"
proof -
  show "preserves (\<lambda>s. snd s = tr) (load_remote (traced_cli env) b config)"
    unfolding load_remote_def by (cases "ae_consumer env config") (auto intro!: preserves_intros)
  show "preserves (\<lambda>s. snd s = tr) (getRequestManifest (traced_cli env) b)"
    unfolding getRequestManifest_def by (auto intro!: preserves_intros)
qed

definition run_ok :: "target \<Rightarrow> go_error + APIServiceBinding list \<Rightarrow> cli_event list \<Rightarrow> bool" where
  "run_ok t res tr \<longleftrightarrow>
     guarded (cli_ok t) [] tr \<and> (\<forall>bs. res = Inr bs \<longrightarrow> (\<exists>r. request_succeeded t tr r \<and> bound t tr r))"

lemma requested_wp:
  assumes "ae_Load env = tg_load t" and "ae_now env = tg_now t"
  shows "wp (do { q \<leftarrow> createServiceExportRequest (traced_cli env) rc (tg_ns t) request;
      (case q of Inl e \<Rightarrow> State_Monad.return (Inl e)
       | Inr result \<Rightarrow> finish_binding (traced_cli env) b config (tg_host t) (tg_ns t) (tg_kubeconfig t) result) })
    (\<lambda>x s. run_ok t x (snd s)) (w, [])"
proof (rule wp_chain [OF createServiceExportRequest_wp], simp add: extends_def, rule wp_sum)
  fix q r and s :: "'a \<times> cli_event list"
  assume "extends t [] (snd s) \<and> (\<forall>r. q = Inr r \<longrightarrow> request_succeeded t (snd s) r)" and "q = Inr r"
  then have *: "extends t (snd s) (snd s)" "request_succeeded t (snd s) r" by (auto simp: extends_def)
  then have "wp (finish_binding (traced_cli env) b config (tg_host t) (tg_ns t) (tg_kubeconfig t) r)
      (\<lambda>x s. run_ok t x (snd s)) (fst s, snd s)"
    by (intro wp_weaken [OF finish_binding_wp [OF * assms]]) (auto simp: run_ok_def extends_def intro: succeeded_mono)
  then show "wp (finish_binding (traced_cli env) b config (tg_host t) (tg_ns t) (tg_kubeconfig t) r) (\<lambda>x s. run_ok t x (snd s)) s"
    by simp
qed (auto simp: extends_def run_ok_def intro!: wp_return)


definition example_request :: APIServiceExportRequest where
  "example_request = \<lparr>er_Kind = ''APIServiceExportRequest'', er_Meta = zero_ObjectMeta\<lparr>om_Name := ''r''\<rparr>,
     er_Spec = \<lparr>ers_Parameters = None, ers_Resources = [], ers_PermissionClaims = [], ers_Namespaces = []\<rparr>,
     er_Status = \<lparr>ert_Phase = PhaseSucceeded, ert_TerminalMessage = '''', ert_Conditions = []\<rparr>\<rparr>"

definition example_consumer :: "nat consumer_client" where
  "example_consumer = \<lparr>
     cs_secrets = \<lparr>ks_List = State_Monad.return (Inr []), ks_Get = (\<lambda>n. State_Monad.return (Inl (StatusError ReasonNotFound n))),
       ks_Create = (\<lambda>p s. State_Monad.return (Inr (s\<lparr>sec_Meta := (sec_Meta s)\<lparr>om_Name := p @ ''x''\<rparr>\<rparr>))),
       ks_Update = (\<lambda>s. State_Monad.return (Inr s))\<rparr>,
     cs_GetSecret = (\<lambda>_ n. State_Monad.return (Inl (StatusError ReasonNotFound n))),
     cs_CreateNamespace = (\<lambda>_. State_Monad.return None),
     cs_GetBinding = (\<lambda>n. State_Monad.return (Inl (StatusError ReasonNotFound n))),
     cs_CreateBinding = (\<lambda>b. State_Monad.return (Inr b)), cs_UpdateBindingStatus = (\<lambda>b. State_Monad.return (Inr b)),
     cs_ListBindings = State_Monad.return (Inr []), cs_GetCRD = (\<lambda>n. State_Monad.return (Inl (StatusError ReasonNotFound n))),
     cs_GetDeployment = (\<lambda>_ n. State_Monad.return (Inl (StatusError ReasonNotFound n))),
     cs_bootstrap = example_env, cs_GetTable = (\<lambda>n. State_Monad.return (Inr [n]))\<rparr>"

definition example_cli :: "nat apiservice_env" where
  "example_cli = \<lparr>ae_config = Inr \<lparr>rc_Host = ''c'', rc_CAData = '''', rc_CAFile = ''''\<rparr>,
     ae_consumer = (\<lambda>_. Inr example_consumer),
     ae_provider = (\<lambda>_. Inr \<lparr>rq_Create = (\<lambda>_ _ r. State_Monad.return (Inr r)), rq_Get = (\<lambda>_ _. State_Monad.return (Inr example_request))\<rparr>),
     ae_Load = (\<lambda>_. Inr (new_config ''h'' '''' None ''ns'' ''t'')), ae_Write = (\<lambda>_. Inr ''k''),
     ae_ClientConfig = (\<lambda>_. Inr \<lparr>rc_Host = ''h'', rc_CAData = '''', rc_CAFile = ''''\<rparr>),
     ae_ReadFile = (\<lambda>f. State_Monad.return (Inr f)), ae_HttpGet = (\<lambda>u. State_Monad.return (Inr (Inr u))),
     ae_Stdin = State_Monad.return (Inr ''''), ae_yaml = (\<lambda>_. Inr (SchemeGroupVersion, ''APIServiceExportRequest'', example_request)),
     ae_semver = \<lparr>sv_Parse = Inr, sv_LT = (\<lambda>_ _. False)\<rparr>, ae_gitVersion = ''v0.0.0-x'', ae_manifests = Inr [],
     ae_second = State_Monad.return None, ae_now = 7, ae_polls = 1, ae_retries = 4, ae_Print = (\<lambda>_. State_Monad.return None)\<rparr>"

definition example_options :: apiservice_options where
  "example_options = \<lparr>ao_remoteKubeconfigFile = ''k'', ao_remoteKubeconfigNamespace = '''', ao_remoteKubeconfigName = '''',
     ao_remoteNamespace = '''', ao_file = ''f'', ao_url = '''', ao_OutputFormat = '''', ao_SkipKonnector = False,
     ao_KonnectorImageOverride = '''', ao_DowngradeKonnector = False\<rparr>"

definition example_bind :: "(go_error + APIServiceBinding list) \<times> nat \<times> cli_event list" where
  "example_bind = run_state (bind_apiservice (traced_cli example_cli) example_options \<lparr>rc_Host = ''c'', rc_CAData = '''', rc_CAFile = ''''\<rparr>) (0, [])"

lemma example_bind_succeeds: "isl (fst example_bind) = False" "Validate (\<lambda>_. None) [''yaml''] example_options = None"
  by code_simp+


end
