(* ===== verification/Cli_Bind.thy ===== *)
theory Cli_Bind
  imports Cli_Apiservice Backend_Http
begin

text \<open>
  \<open>kubectl bind\<close> (\<open>cli/pkg/kubectl/bind\<close>): it asks the provider how to authenticate, opens a local callback
  server, sends the user to the provider, and from the response stores the kubeconfig and runs
  \<open>kubectl bind apiservice\<close> for every request. Parameters: HTTP, URLs, JSON and the deserializer, random
  bytes and SHA-224, the runner of commands. A wait is the list of outcomes that \<open>select\<close> may take.
\<close>

section \<open>Callback server\<close>

datatype runtime_object = ResponseObject BindingResponse | OtherObject string

type_synonym decoded = "runtime_object \<times> string \<times> string"

record LocalhostCallbackAuthenticator =
  au_server :: bool
  au_port :: string
  au_done :: bool
  au_response :: "decoded option"

definition NewLocalhostCallbackAuthenticator :: LocalhostCallbackAuthenticator where
  "NewLocalhostCallbackAuthenticator = \<lparr>au_server = False, au_port = ''0'', au_done = False, au_response = None\<rparr>"

text \<open>Resolving the address and listening give the port, or an error; the server is set in between.\<close>

definition Start :: "err \<Rightarrow> go_error + string \<Rightarrow> LocalhostCallbackAuthenticator \<Rightarrow> err \<times> LocalhostCallbackAuthenticator" where
  "Start resolve listen d =
     (if au_server d then (Some (Errorf ''already started'' None), d)
      else case resolve of
             Some e \<Rightarrow> (Some e, d)
           | None \<Rightarrow>
               (case listen of
                  Inl e \<Rightarrow> (Some e, d\<lparr>au_server := True\<rparr>)
                | Inr port \<Rightarrow> (None, d\<lparr>au_server := True, au_port := port\<rparr>)))"

definition Endpoint :: "LocalhostCallbackAuthenticator \<Rightarrow> string" where
  "Endpoint d = ''http://localhost:'' @ au_port d @ ''/callback''"

definition WaitForResponse :: "err \<Rightarrow> err \<Rightarrow> LocalhostCallbackAuthenticator \<Rightarrow> (go_error + decoded option) list" where
  "WaitForResponse ctxErr shutdownErr d =
     (if au_done d then [Inr (au_response d)] else []) @
     (case ctxErr of
        None \<Rightarrow> []
      | Some e \<Rightarrow>
          [Inl (case shutdownErr of
             Some e' \<Rightarrow> Errorf (''error while waiting for response: '' @ Error e @ '': error shutting down server: '' @ Error e') None
           | None \<Rightarrow> Errorf ''error while waiting for response'' (Some e))])"

definition callback :: "(string \<Rightarrow> go_error + decoded) \<Rightarrow> http_request \<Rightarrow> LocalhostCallbackAuthenticator \<Rightarrow>
    http_response \<times> LocalhostCallbackAuthenticator" where
  "callback decode r d =
     (if au_done d then (HttpContent '''' ''Already authenticated'', d)
      else case DecodeString std_alphabet True (Values_Get (hr_Query r) ''response'') of
             Inl _ \<Rightarrow> (internal_error, d)
           | Inr decoded \<Rightarrow>
               (case decode decoded of
                  Inl _ \<Rightarrow> (internal_error, d)
                | Inr x \<Rightarrow> (HttpContent '''' ''<h1>You have been authenticated successfully! Please head back to the command line</h1>'',
                    d\<lparr>au_response := Some x, au_done := True\<rparr>)))"

section \<open>Provider and authentication\<close>

definition validateProviderVersion :: "semver_api \<Rightarrow> string \<Rightarrow> err" where
  "validateProviderVersion sv providerVersion =
     (if providerVersion = ''''
      then Some (Errorf (''provider version '' @ quoted '''' @ '' is empty, please update the backend to v0.5.0+'') None)
      else if providerVersion = ''v0.0.0'' \<or> providerVersion = ''v0.0.0-master+$Format:%H$'' then None
      else case sv_Parse sv (TrimPrefix providerVersion ''v'') of
             Inl _ \<Rightarrow> Some (Errorf (''provider version '' @ quoted providerVersion @ '' cannot be parsed'') None)
           | Inr v \<Rightarrow>
               (if sv_LT sv v ''0.5.0''
                then Some (Errorf (''provider version '' @ providerVersion @ '' is not supported, must be at least v0.5.0'') None)
                else None))"

text \<open>\<open>semver.GE\<close> is the negation of \<open>LT\<close>, and a parsed version is its own normalised text.\<close>

definition check_versions :: "semver_api \<Rightarrow> string \<Rightarrow> BindingProvider \<Rightarrow> err" where
  "check_versions sv gitVersion' provider =
     (case BinaryVersion gitVersion' of
        Inl e \<Rightarrow> Some e
      | Inr bindVersion \<Rightarrow>
          (case sv_Parse sv (trim_v bindVersion) of
             Inl e \<Rightarrow> Some (Errorf (''failed to parse bind version '' @ quoted bindVersion) (Some e))
           | Inr v \<Rightarrow> (if \<not> sv_LT sv v ''0.5.0'' then validateProviderVersion sv (bp_Version provider) else None)))"

definition getProvider :: "(string \<Rightarrow> bool \<Rightarrow> ('w, string) call) \<Rightarrow> (string \<Rightarrow> go_error + BindingProvider) \<Rightarrow> semver_api \<Rightarrow> string \<Rightarrow>
    string \<Rightarrow> bool \<Rightarrow> ('w, BindingProvider) call" where
  "getProvider httpGet unmarshal sv gitVersion' url insecure = do {
     r \<leftarrow> httpGet url insecure;
     State_Monad.return (case r of
        Inl e \<Rightarrow> Inl e
      | Inr blob \<Rightarrow>
          (case unmarshal blob of
             Inl e \<Rightarrow> Inl e
           | Inr provider \<Rightarrow> (case check_versions sv gitVersion' provider of Some e \<Rightarrow> Inl e | None \<Rightarrow> Inr provider))) }"

text \<open>Parsing of a URL for its host, splitting of host and port, and parsing of a URL to add query values.\<close>

record url_api =
  ur_Parse :: "string \<Rightarrow> err"
  ur_Host :: "string \<Rightarrow> go_error + string"
  ur_SplitHostPort :: "string \<Rightarrow> go_error + (string \<times> string)"
  ur_AddQuery :: "string \<Rightarrow> (string \<times> string) list \<Rightarrow> string"

definition authenticate :: "url_api \<Rightarrow> BindingProvider \<Rightarrow> string \<Rightarrow> string \<Rightarrow> string \<Rightarrow> go_error + string" where
  "authenticate url provider callback' sessionID clusterID =
     (case (case List.find (\<lambda>m. fst m = ''OAuth2CodeGrant'') (bp_AuthenticationMethods provider) of
              Some m \<Rightarrow> snd m | None \<Rightarrow> None) of
        None \<Rightarrow> Inl (Errorf ''server does not support OAuth2 code grant flow'' None)
      | Some authenticatedURL \<Rightarrow>
          (case ur_Parse url authenticatedURL of
             Some e \<Rightarrow> Inl (Errorf ''failed to parse auth url'' (Some e))
           | None \<Rightarrow>
               (case ur_Host url callback' of
                  Inl e \<Rightarrow> Inl (Errorf ''failed to parse callback url'' (Some e))
                | Inr host \<Rightarrow>
                    (case ur_SplitHostPort url host of
                       Inl e \<Rightarrow> Inl (Errorf ''failed to parse callback port'' (Some e))
                     | Inr (_, cbPort) \<Rightarrow>
                         Inr (ur_AddQuery url authenticatedURL [(''p'', cbPort), (''s'', sessionID), (''c'', clusterID)])))))"

section \<open>Identifiers\<close>

definition base62_digits :: string where
  "base62_digits = ''0123456789abcdefghijklmnopqrstuvwxyzABCDEFGHIJKLMNOPQRSTUVWXYZ''"

fun base62_text :: "nat \<Rightarrow> string" where
  "base62_text n = (if n < 62 then [base62_digits ! n] else base62_text (n div 62) @ [base62_digits ! (n mod 62)])"

declare base62_text.simps [simp del]

definition SetBytes :: "nat list \<Rightarrow> nat" where
  "SetBytes bs = foldl (\<lambda>n b. n * 256 + b) 0 bs"

definition toBase62 :: "nat list \<Rightarrow> string" where
  "toBase62 hash = base62_text (SetBytes hash)"

text \<open>The slice of the first six characters panics if there are fewer.\<close>

definition first_six :: "string \<Rightarrow> string outcome" where
  "first_six s = (if length s < 6 then Panics else Returns (take 6 s))"

definition ClusterID :: "(string \<Rightarrow> nat list) \<Rightarrow> Namespace \<Rightarrow> string outcome" where
  "ClusterID sum224 ns = first_six (toBase62 (sum224 (om_UID (nsp_Meta ns))))"

definition SessionID :: "go_error + nat list \<Rightarrow> string outcome" where
  "SessionID rand = (case rand of Inl _ \<Rightarrow> Panics | Inr b \<Rightarrow> first_six (toBase62 b))"

section \<open>Response\<close>

definition verify_response :: "string \<Rightarrow> decoded \<Rightarrow> go_error + BindingResponse" where
  "verify_response sessionID response =
     (case response of
        (obj, groupVersion, kind) \<Rightarrow>
          (if groupVersion \<noteq> SchemeGroupVersion \<or> kind \<noteq> ''BindingResponse''
           then Inl (Errorf (''unexpected response type '' @ groupVersion @ '', Kind='' @ kind @ '', only supporting '' @
             SchemeGroupVersion @ '', Kind=BindingResponse'') None)
           else case obj of
                  OtherObject t \<Rightarrow> Inl (Errorf (''unexpected response type '' @ t) None)
                | ResponseObject r \<Rightarrow>
                    (case br_OAuth2CodeGrant r of
                       None \<Rightarrow> Inl (Errorf ''unexpected response: authentication.oauth2CodeGrant is nil'' None)
                     | Some (sid, _) \<Rightarrow>
                         (if sid \<noteq> sessionID then Inl (Errorf ''unexpected response: sessionID does not match'' None) else Inr r))))"

text \<open>The type of a request, and the request, from its JSON text.\<close>

record request_codec =
  rj_APIVersion :: "string \<Rightarrow> go_error + string"
  rj_Request :: "string \<Rightarrow> go_error + APIServiceExportRequestResponse"
  rj_Marshal :: "APIServiceExportRequestResponse \<Rightarrow> go_error + string"

fun extract_requests :: "request_codec \<Rightarrow> string list \<Rightarrow> go_error + APIServiceExportRequestResponse list" where
  "extract_requests js [] = Inr []"
| "extract_requests js (raw # raws) =
     (case rj_APIVersion js raw of
        Inl e \<Rightarrow> Inl (Errorf ''unexpected response: failed to unmarshal request'' (Some e))
      | Inr got \<Rightarrow>
          (if got \<noteq> SchemeGroupVersion
           then Inl (Errorf (''unexpected response: request is not '' @ SchemeGroupVersion @ '', got '' @ got) None)
           else case rj_Request js raw of
                  Inl e \<Rightarrow> Inl (Errorf ''failed to unmarshal api request'' (Some e))
                | Inr r \<Rightarrow> (case extract_requests js raws of Inl e \<Rightarrow> Inl e | Inr rs \<Rightarrow> Inr (r # rs))))"

section \<open>Run\<close>

definition PassOnFlags :: "string list" where
  "PassOnFlags = [''allow-missing-template-keys'', ''kubeconfig'', ''log-flush-frequency'', ''log-text-info-buffer-size'',
     ''log-text-split-stream'', ''logging-format'', ''o'', ''output'', ''show-managed-fields'', ''skip-konnector'', ''template'',
     ''v'', ''vmodule'', ''konnector-image'', ''insecure-skip-tls-verify'']"

definition LocalFlags :: "string list" where "LocalFlags = [''d'', ''dry-run'']"

text \<open>The flags that were set on the command line, in order, with their values.\<close>

record bind_options =
  bo_URL :: string
  bo_DryRun :: bool
  bo_SkipInsecure :: bool
  bo_KonnectorImageOverride :: string
  bo_changed :: "(string \<times> string) list"

record 'w bind_client =
  bc_GetNamespace :: "string \<Rightarrow> ('w, Namespace) call"
  bc_CreateNamespace :: "string \<Rightarrow> ('w, Namespace) call"
  bc_secrets :: "'w secrets_client"

record 'w bind_env =
  bn_config :: "go_error + rest_config"
  bn_client :: "rest_config \<Rightarrow> go_error + 'w bind_client"
  bn_url :: url_api
  bn_getProvider :: "string \<Rightarrow> bool \<Rightarrow> ('w, BindingProvider) call"
  bn_sum224 :: "string \<Rightarrow> nat list"
  bn_rand :: "('w, nat list) call"
  bn_Start :: "('w, LocalhostCallbackAuthenticator) call"
  bn_Show :: "string \<Rightarrow> ('w, unit) io"
  bn_Wait :: "('w, decoded) call"
  bn_Load :: "string \<Rightarrow> go_error + client_config"
  bn_requests :: request_codec
  bn_retries :: nat
  bn_Print :: "APIServiceExportRequestResponse \<Rightarrow> ('w, err) io"
  bn_Executable :: "go_error + string"
  bn_Runner :: "string \<Rightarrow> string list \<Rightarrow> string \<Rightarrow> ('w, err) io"

definition bind_Validate :: "url_api \<Rightarrow> bind_options \<Rightarrow> err" where
  "bind_Validate url b =
     (if bo_URL b = '''' then Some (Errorf ''url is required as an argument'' None)
      else case ur_Parse url (bo_URL b) of
             Some e \<Rightarrow> Some (Errorf (''invalid url '' @ quoted (bo_URL b)) (Some e))
           | None \<Rightarrow> None)"

definition ensure_namespace :: "'w bind_client \<Rightarrow> ('w, Namespace) call" where
  "ensure_namespace cl = do {
     g \<leftarrow> bc_GetNamespace cl ''kube-bind'';
     (case g of
        Inr ns \<Rightarrow> State_Monad.return (Inr ns)
      | Inl e \<Rightarrow> (if IsNotFound e then bc_CreateNamespace cl ''kube-bind'' else State_Monad.return (Inl e))) }"

definition apiservice_args :: "bind_options \<Rightarrow> Secret \<Rightarrow> string list" where
  "apiservice_args b secret =
     [''apiservice'', ''--remote-kubeconfig-namespace'', om_Namespace (sec_Meta secret),
      ''--remote-kubeconfig-name'', om_Name (sec_Meta secret), ''-f'', ''-''] @
     map (\<lambda>(n, v). ''--'' @ n @ ''='' @ v) (filter (\<lambda>(n, _). n \<in> set PassOnFlags) (bo_changed b)) @
     (if bo_KonnectorImageOverride b \<noteq> '''' then [''--konnector-image='' @ bo_KonnectorImageOverride b] else [])"

fun print_requests :: "'w bind_env \<Rightarrow> APIServiceExportRequestResponse list \<Rightarrow> ('w, err) io" where
  "print_requests env [] = State_Monad.return None"
| "print_requests env (r # rs) = do {
     e \<leftarrow> bn_Print env r;
     (case e of Some x \<Rightarrow> State_Monad.return (Some x) | None \<Rightarrow> print_requests env rs) }"

fun run_requests :: "'w bind_env \<Rightarrow> string \<Rightarrow> string list \<Rightarrow> APIServiceExportRequestResponse list \<Rightarrow> ('w, err) io" where
  "run_requests env executable args [] = State_Monad.return None"
| "run_requests env executable args (r # rs) =
     (case rj_Marshal (bn_requests env) r of
        Inl e \<Rightarrow> State_Monad.return (Some e)
      | Inr bs \<Rightarrow> do {
          e \<leftarrow> bn_Runner env executable (args @ [''--no-banner'']) bs;
          (case e of Some x \<Rightarrow> State_Monad.return (Some x) | None \<Rightarrow> run_requests env executable args rs) })"

definition store_response :: "'w bind_env \<Rightarrow> 'w bind_client \<Rightarrow> BindingResponse \<Rightarrow> ('w, Secret \<times> bool) call" where
  "store_response env cl response =
     (case ParseRemoteKubeconfig (bn_Load env) (br_Kubeconfig response) of
        Inl e \<Rightarrow> State_Monad.return (Inl e)
      | Inr (remoteHost, remoteNamespace) \<Rightarrow> do {
          f \<leftarrow> FindRemoteKubeconfig (bn_Load env) (bc_secrets cl) remoteNamespace remoteHost;
          (case f of
             Inl e \<Rightarrow> State_Monad.return (Inl e)
           | Inr secretName \<Rightarrow> EnsureKubeconfigSecret (bn_Load env) (bn_retries env) (br_Kubeconfig response) secretName (bc_secrets cl)) })"

definition use_response :: "'w bind_env \<Rightarrow> bind_options \<Rightarrow> 'w bind_client \<Rightarrow> string \<Rightarrow> decoded \<Rightarrow> ('w, err) io" where
  "use_response env b cl sessionID answer =
     (case verify_response sessionID answer of
        Inl e \<Rightarrow> State_Monad.return (Some e)
      | Inr response \<Rightarrow>
          (case extract_requests (bn_requests env) (br_Requests response) of
             Inl e \<Rightarrow> State_Monad.return (Some e)
           | Inr apiRequests \<Rightarrow> do {
               s \<leftarrow> store_response env cl response;
               (case s of
                  Inl e \<Rightarrow> State_Monad.return (Some e)
                | Inr (secret, _) \<Rightarrow>
                    (if bo_DryRun b then print_requests env apiRequests
                     else case bn_Executable env of
                            Inl e \<Rightarrow> State_Monad.return (Some e)
                          | Inr executable \<Rightarrow> run_requests env executable (apiservice_args b secret) apiRequests)) }))"

definition authenticate_user :: "'w bind_env \<Rightarrow> BindingProvider \<Rightarrow> Namespace \<Rightarrow> ('w, (go_error + string) outcome) io" where
  "authenticate_user env provider ns = do {
     a \<leftarrow> bn_Start env;
     (case a of
        Inl e \<Rightarrow> State_Monad.return (Returns (Inl e))
      | Inr auth \<Rightarrow> do {
          r \<leftarrow> bn_rand env;
          (case SessionID r of
             Panics \<Rightarrow> State_Monad.return Panics
           | Returns sessionID \<Rightarrow>
               (case ClusterID (bn_sum224 env) ns of
                  Panics \<Rightarrow> State_Monad.return Panics
                | Returns clusterID \<Rightarrow>
                    (case authenticate (bn_url env) provider (Endpoint auth) sessionID clusterID of
                       Inl e \<Rightarrow> State_Monad.return (Returns (Inl e))
                     | Inr u \<Rightarrow> do {
                         bn_Show env u;
                         State_Monad.return (Returns (Inr sessionID)) }))) }) }"

definition bind_Run :: "'w bind_env \<Rightarrow> bind_options \<Rightarrow> ('w, err outcome) io" where
  "bind_Run env b =
     (case bn_config env of
        Inl e \<Rightarrow> State_Monad.return (Returns (Some e))
      | Inr config \<Rightarrow>
          (case bn_client env config of
             Inl e \<Rightarrow> State_Monad.return (Returns (Some e))
           | Inr cl \<Rightarrow>
               (case ur_Parse (bn_url env) (bo_URL b) of
                  Some e \<Rightarrow> State_Monad.return (Returns (Some e))
                | None \<Rightarrow> do {
                    p \<leftarrow> bn_getProvider env (bo_URL b) (bo_SkipInsecure b);
                    (case p of
                       Inl e \<Rightarrow> State_Monad.return (Returns (Some (Errorf (''failed to fetch authentication url '' @ quoted (bo_URL b)) (Some e))))
                     | Inr provider \<Rightarrow>
                         (if bp_APIVersion provider \<noteq> GroupVersion
                          then State_Monad.return (Returns (Some (Errorf (''unsupported binding provider version '' @
                            quoted (bp_APIVersion provider) @ '', expected '' @ quoted GroupVersion) None)))
                          else do {
                            n \<leftarrow> ensure_namespace cl;
                            (case n of
                               Inl e \<Rightarrow> State_Monad.return (Returns (Some e))
                             | Inr ns \<Rightarrow> do {
                                 s \<leftarrow> authenticate_user env provider ns;
                                 (case s of
                                    Panics \<Rightarrow> State_Monad.return Panics
                                  | Returns (Inl e) \<Rightarrow> State_Monad.return (Returns (Some e))
                                  | Returns (Inr sessionID) \<Rightarrow> do {
                                      w \<leftarrow> bn_Wait env;
                                      (case w of
                                         Inl e \<Rightarrow> State_Monad.return (Returns (Some e))
                                       | Inr answer \<Rightarrow> do {
                                           e \<leftarrow> use_response env b cl sessionID answer;
                                           State_Monad.return (Returns e) }) }) }) })) })))"

section \<open>Identifiers are six letters and digits\<close>

lemma base62_length: "n < 62 ^ Suc k \<longleftrightarrow> length (base62_text n) \<le> Suc k"
proof (induction k arbitrary: n)
  case 0
  have "length (base62_text n) \<noteq> 0" for n by (subst base62_text.simps) simp
  then show ?case by (subst base62_text.simps) auto
next
  case (Suc k)
  show ?case
  proof (cases "n < 62")
    case True
    then have "n < 62 ^ Suc (Suc k)" by (rule order.strict_trans2) (simp add: self_le_power del: power_Suc)
    then show ?thesis using True by (subst base62_text.simps) simp
  next
    case False
    have "n < 62 ^ Suc (Suc k) \<longleftrightarrow> n div 62 < 62 ^ Suc k" by (simp add: div_less_iff_less_mult mult.commute)
    then show ?thesis using Suc.IH [of "n div 62"] False by (subst base62_text.simps) simp
  qed
qed

lemma base62_alphabet: "set (base62_text n) \<subseteq> set base62_digits"
proof (induction n rule: base62_text.induct)
  case (1 n)
  have "length base62_digits = 62" by code_simp
  then have "base62_digits ! (n mod 62) \<in> set base62_digits" by (simp add: nth_mem)
  then show ?case using 1 by (subst base62_text.simps) auto
qed

text \<open>An identifier is made exactly if the hash is at least the sixth power of the base, else the slice panics.\<close>

lemma first_six_base62:
  "first_six (toBase62 bs) = (if SetBytes bs < 62 ^ 5 then Panics else Returns (take 6 (toBase62 bs)))"
  using base62_length [of "SetBytes bs" 4] by (auto simp: first_six_def toBase62_def)

section \<open>Callback server\<close>

text \<open>The done channel is closed exactly when there is a response.\<close>

inductive authenticator_run :: "(string \<Rightarrow> go_error + decoded) \<Rightarrow> LocalhostCallbackAuthenticator \<Rightarrow> bool" for decode where
  new: "authenticator_run decode NewLocalhostCallbackAuthenticator"
| start: "authenticator_run decode d \<Longrightarrow> authenticator_run decode (snd (Start resolve listen d))"
| called: "authenticator_run decode d \<Longrightarrow> authenticator_run decode (snd (callback decode r d))"

inductive_cases authenticator_runE: "authenticator_run decode d"

lemma done_iff_response: "authenticator_run decode d \<Longrightarrow> au_done d \<longleftrightarrow> au_response d \<noteq> None"
proof (induction rule: authenticator_run.induct)
  case (start d resolve listen)
  then show ?case by (auto simp: Start_def split: sum.split option.split)
next
  case (called d r)
  then show ?case by (auto simp: callback_def split: sum.split)
qed (simp add: NewLocalhostCallbackAuthenticator_def)

lemma wait_gives_response:
  "authenticator_run decode d \<Longrightarrow> Inr x \<in> set (WaitForResponse ctxErr shutdownErr d) \<Longrightarrow> x = au_response d \<and> x \<noteq> None"
  using done_iff_response [of decode d] by (auto simp: WaitForResponse_def split: option.splits if_splits)

text \<open>Only the first response counts.\<close>

lemma callback_once: "au_done d \<Longrightarrow> snd (callback decode r d) = d"
  by (simp add: callback_def)

section \<open>Handshake\<close>

text \<open>
  The deserializer knows the type of a document by the TypeMeta in it, and reads back a BindingResponse
  that the backend's JSON encoder wrote with the TypeMeta of one; and the redirect URL with the response added is fetched
  from the callback server.
\<close>

definition response_ok :: "codecs \<Rightarrow> (string \<Rightarrow> go_error + decoded) \<Rightarrow> bool" where
  "response_ok cd decode \<longleftrightarrow> (\<forall>r. \<exists>t. cd_marshalResponse cd r = Inr t \<and>
     (\<forall>obj gv kind. decode t = Inr (obj, gv, kind) \<longrightarrow> gv = br_APIVersion r \<and> kind = br_Kind r) \<and>
     (br_APIVersion r = ''kube-bind.io/v1alpha2'' \<and> br_Kind r = ''BindingResponse'' \<longrightarrow>
        decode t = Inr (ResponseObject r, ''kube-bind.io/v1alpha2'', ''BindingResponse'')))"

definition delivers :: "codecs \<Rightarrow> string \<Rightarrow> string \<Rightarrow> http_request \<Rightarrow> bool" where
  "delivers cd u v r \<longleftrightarrow> (\<exists>loc. cd_addQuery cd u ''response'' v = Inr loc) \<and> Values_Get (hr_Query r) ''response'' = v"

text \<open>What the answer to a bind says, and the request in it.\<close>

definition answer_to :: "session_state \<Rightarrow> string \<Rightarrow> string \<Rightarrow> BindingResponse" where
  "answer_to st kfg req = \<lparr>br_APIVersion = ''kube-bind.io/v1alpha2'', br_Kind = ''BindingResponse'',
     br_OAuth2CodeGrant = Some (st_SessionID st, ti_Issuer (st_Token st) @ ''/'' @ ti_Subject (st_Token st)),
     br_Kubeconfig = kfg, br_Requests = [req]\<rparr>"

definition request_of :: "string \<Rightarrow> APIServiceExportTemplate \<Rightarrow> APIServiceExportRequestResponse" where
  "request_of name t = \<lparr>rrp_APIVersion = ''kube-bind.io/v1alpha2'', rrp_Kind = ''APIServiceExportRequest'', rrp_Name = name,
     rrp_Spec = \<lparr>ers_Parameters = None, ers_Resources = tp_Resources t, ers_PermissionClaims = tp_PermissionClaims t,
       ers_Namespaces = tp_Namespaces t\<rparr>\<rparr>"

lemma answer_values:
  "bind_response st kfg req = answer_to st kfg req" "bind_request name t = request_of name t"
  "session_identity st = ti_Subject (st_Token st) @ ''#'' @ st_ClusterID st" "SchemeGroupVersion = ''kube-bind.io/v1alpha2''"
  by (simp_all add: bind_response_def answer_to_def bind_request_def request_of_def session_identity_def
      SchemeGroupVersion_def GroupName_def GroupVersion_def)

text \<open>
  C12. End of the handshake. A bind of a session, when the kubeconfig for its subject and cluster and the template are there, redirects to the
  callback server of the command with a response of kind BindingResponse, by which the deserializer of the command knows it. If no sextet of its JSON is 62 or 63, the callback
  accepts it, a wait returns just this response, and the command accepts it for its session and no
  other: it has the kubeconfig of the bind and the request with the resources, claims and namespaces of the template. Otherwise the callback
  refuses it and keeps waiting, since it decodes with the standard alphabet what was encoded with the
  URL alphabet.
\<close>

theorem handshake_completes:
  assumes "response_ok (h_codecs h) decode"
    and "fmlookup (hr_Cookies r) (Values_Get (hr_Query r) ''s'') = Some ck"
    and "cd_cookie_Decode (h_codecs h) (Values_Get (hr_Query r) ''s'') ck = Inr st"
    and "run_state (HandleResources (h_manager h) (ti_Subject (st_Token st) @ ''#'' @ st_ClusterID st) (hr_Cluster r)) w = (Inr kfg, w1)"
    and "run_state (GetTemplates (h_clusters h) (hr_Cluster r) (Values_Get (hr_Query r) ''template'')) w1 = (Inr t, w2)"
    and "cd_marshalRequest (h_codecs h) (request_of (Values_Get (hr_Query r) ''template'') t) = Inr req"
    and "\<not> au_done d"
  shows "\<exists>json. cd_marshalResponse (h_codecs h) (answer_to st kfg req) = Inr json \<and>
    (\<forall>r'. delivers (h_codecs h) (st_RedirectURL st) (EncodeToString url_alphabet True json) r' \<longrightarrow>
      (\<exists>loc. cd_addQuery (h_codecs h) (st_RedirectURL st) ''response'' (EncodeToString url_alphabet True json) = Inr loc \<and>
        run_state (handleBind h r) w = (HttpRedirect loc [], w2)) \<and>
      (if list_all (\<lambda>n. n < 62) (sextets (byte_values json))
       then let d' = snd (callback decode r' d)
            in WaitForResponse None None d' = [Inr (Some (ResponseObject (answer_to st kfg req), ''kube-bind.io/v1alpha2'', ''BindingResponse''))] \<and>
               (\<forall>sid. verify_response sid (ResponseObject (answer_to st kfg req), ''kube-bind.io/v1alpha2'', ''BindingResponse'') =
                  (if sid = st_SessionID st then Inr (answer_to st kfg req)
                   else Inl (Errorf ''unexpected response: sessionID does not match'' None)))
       else callback decode r' d = (internal_error, d)))"
proof -
  let ?answer = "answer_to st kfg req"
  obtain json where json: "cd_marshalResponse (h_codecs h) ?answer = Inr json"
    "decode json = Inr (ResponseObject ?answer, ''kube-bind.io/v1alpha2'', ''BindingResponse'')"
    using assms(1) unfolding response_ok_def by (fastforce simp: answer_to_def)
  have "callback decode r' d =
      (if list_all (\<lambda>n. n < 62) (sextets (byte_values json))
       then (HttpContent '''' ''<h1>You have been authenticated successfully! Please head back to the command line</h1>'',
         d\<lparr>au_response := Some (ResponseObject ?answer, ''kube-bind.io/v1alpha2'', ''BindingResponse''), au_done := True\<rparr>)
       else (internal_error, d))" if "Values_Get (hr_Query r') ''response'' = EncodeToString url_alphabet True json" for r'
    using that assms(7) json(2) by (simp add: callback_def std_decodes_url)
  moreover have "run_state (handleBind h r) w = (HttpRedirect loc [], w2)"
    if "cd_addQuery (h_codecs h) (st_RedirectURL st) ''response'' (EncodeToString url_alphabet True json) = Inr loc" for loc
    using assms(2-6) that json(1) by (simp add: handleBind_def respond_def Let_def answer_values(1-3))
  moreover have "verify_response sid (ResponseObject ?answer, ''kube-bind.io/v1alpha2'', ''BindingResponse'') =
      (if sid = st_SessionID st then Inr ?answer
       else Inl (Errorf ''unexpected response: sessionID does not match'' None))" for sid
    by (simp add: verify_response_def answer_to_def answer_values(4))
  ultimately show ?thesis using json(1) by (auto simp: delivers_def WaitForResponse_def Let_def)
qed

text \<open>A codec for responses, with the encoding of fields of the other examples.\<close>

fun enc_list :: "string list \<Rightarrow> string" where
  "enc_list [] = ''''"
| "enc_list (x # xs) = CHR ''c'' # enc_field x @ enc_list xs"

fun dec_list :: "nat \<Rightarrow> string \<Rightarrow> string list" where
  "dec_list (Suc k) (c # t) = (case dec_field t of (x, t') \<Rightarrow> x # dec_list k t')"
| "dec_list _ _ = []"

lemma dec_enc_list: "length xs \<le> k \<Longrightarrow> dec_list k (enc_list xs) = xs"
proof (induction xs arbitrary: k)
  case (Cons x xs)
  then show ?case by (cases k) auto
qed (auto elim: dec_list.elims)

lemma length_enc_list: "length xs \<le> length (enc_list xs)"
  by (induction xs) auto

definition enc_response :: "BindingResponse \<Rightarrow> string" where
  "enc_response r = enc_list ([br_APIVersion r, br_Kind r, br_Kubeconfig r] @
     (case br_OAuth2CodeGrant r of None \<Rightarrow> ['''', '''', ''''] | Some (a, b) \<Rightarrow> [''1'', a, b]) @ br_Requests r)"

definition dec_response :: "string \<Rightarrow> BindingResponse" where
  "dec_response t =
     (case dec_list (length t) t of
        v # k # kfg # o' # a # b # reqs \<Rightarrow> \<lparr>br_APIVersion = v, br_Kind = k,
          br_OAuth2CodeGrant = (if o' = '''' then None else Some (a, b)), br_Kubeconfig = kfg, br_Requests = reqs\<rparr>
      | _ \<Rightarrow> \<lparr>br_APIVersion = '''', br_Kind = '''', br_OAuth2CodeGrant = None, br_Kubeconfig = '''', br_Requests = []\<rparr>)"

lemma dec_enc_response: "dec_response (enc_response r) = r"
  using dec_enc_list [OF length_enc_list] by (auto simp: enc_response_def dec_response_def simp del: enc_list.simps split: option.splits)

definition example_decode :: "string \<Rightarrow> go_error + decoded" where
  "example_decode t = (let r = dec_response t
     in Inr (if br_Kind r = ''BindingResponse'' then ResponseObject r else OtherObject (br_Kind r), br_APIVersion r, br_Kind r))"

definition example_template :: APIServiceExportTemplate where
  "example_template = \<lparr>tp_Name = ''t'', tp_Scope = ClusterScope, tp_Resources = [], tp_PermissionClaims = [], tp_Namespaces = []\<rparr>"

definition example_backend :: "(Secret list, string) handler" where
  "example_backend = \<lparr>h_oidc = \<lparr>oi_AuthCodeURL = (\<lambda>_ st. st), oi_Exchange = (\<lambda>c. State_Monad.return (Inr c)), oi_idToken = Some\<rparr>,
     h_codecs = example_codecs\<lparr>cd_marshalResponse := (\<lambda>r. Inr (enc_response r))\<rparr>, h_scope = ClusterScope, h_oidcAuthorizeURL = '''',
     h_providerPrettyName = '''', h_testingAutoSelect = '''', h_gitVersion = ''v0.0.0-x'', h_manager = example_manager,
     h_clusters = (\<lambda>_. State_Monad.return (Inr \<lparr>lc_ListCRDs = (\<lambda>_. State_Monad.return (Inr [])), lc_ListCollections = State_Monad.return (Inr []),
       lc_GetTemplate = (\<lambda>_. State_Monad.return (Inr example_template)), lc_List = (\<lambda>_ _ _ _. State_Monad.return (Inr []))\<rparr>))\<rparr>"

definition example_session :: session_state where
  "example_session = session_for (requested_code example_authorize) \<lparr>ti_Subject = ''sub'', ti_Issuer = ''i''\<rparr>"

definition example_cookie :: string where
  "example_cookie = (case cd_cookie_Encode example_codecs ''kube-bind-cid'' example_session of Inr v \<Rightarrow> v | Inl _ \<Rightarrow> '''')"

definition example_bind_request :: http_request where
  "example_bind_request = (example_http (fmap_of_list [(''s'', ''kube-bind-cid''), (''template'', ''t'')]))\<lparr>
     hr_Cookies := fmap_of_list [(''kube-bind-cid'', example_cookie)]\<rparr>"

definition example_resources :: "(go_error + string) \<times> Secret list" where
  "example_resources = run_state (HandleResources example_manager (ti_Subject (st_Token example_session) @ ''#'' @ st_ClusterID example_session) '''') []"

definition example_response :: BindingResponse where
  "example_response = answer_to example_session (case fst example_resources of Inr k \<Rightarrow> k | Inl _ \<Rightarrow> '''') ''t''"

definition example_delivery :: http_request where
  "example_delivery = example_http (fmap_of_list [(''response'', EncodeToString url_alphabet True (enc_response example_response))])"

lemma example_handshake_facts:
  "isl (fst example_resources) = False"
  "list_all (\<lambda>n. n < 62) (sextets (byte_values (enc_response example_response)))"
  "cd_cookie_Decode example_codecs ''kube-bind-cid'' example_cookie = Inr example_session"
  by code_simp+

theorem handshake_completes_witness:
  "WaitForResponse None None (snd (callback example_decode example_delivery NewLocalhostCallbackAuthenticator)) =
     [Inr (Some (ResponseObject example_response, ''kube-bind.io/v1alpha2'', ''BindingResponse''))] \<and>
   verify_response ''sid'' (ResponseObject example_response, ''kube-bind.io/v1alpha2'', ''BindingResponse'') = Inr example_response"
proof -
  obtain k w1 where run: "example_resources = (Inr k, w1)"
    using example_handshake_facts(1) by (cases "fst example_resources") (auto simp: prod_eq_iff)
  have resp: "answer_to example_session k ''t'' = example_response" unfolding example_response_def run by simp
  have q: "Values_Get (hr_Query example_bind_request) ''s'' = ''kube-bind-cid''"
    "Values_Get (hr_Query example_bind_request) ''template'' = ''t''" "hr_Cluster example_bind_request = ''''"
    "fmlookup (hr_Cookies example_bind_request) ''kube-bind-cid'' = Some example_cookie"
    by (simp_all add: example_bind_request_def example_http_def Values_Get_def fmlookup_of_list)
  have h: "h_manager example_backend = example_manager" "response_ok (h_codecs example_backend) example_decode"
    "cd_marshalResponse (h_codecs example_backend) r = Inr (enc_response r)"
    "cd_cookie_Decode (h_codecs example_backend) = cd_cookie_Decode example_codecs"
    "cd_marshalRequest (h_codecs example_backend) (request_of ''t'' example_template) = Inr ''t''"
    "run_state (GetTemplates (h_clusters example_backend) '''' ''t'') w1 = (Inr example_template, w1)" for r
    by (simp_all add: example_backend_def response_ok_def example_decode_def dec_enc_response example_codecs_def request_of_def Let_def
        GetTemplates_def with_cluster_def)
  have "delivers (h_codecs example_backend) (st_RedirectURL example_session) (EncodeToString url_alphabet True (enc_response example_response)) example_delivery"
    by (simp add: delivers_def example_delivery_def example_http_def Values_Get_def fmlookup_of_list example_backend_def example_codecs_def)
  moreover have "st_SessionID example_session = ''sid''" by code_simp
  ultimately show ?thesis
    using handshake_completes [of example_backend example_decode example_bind_request example_cookie example_session "[]" k w1
        example_template w1 "''t''" NewLocalhostCallbackAuthenticator]
      q h run example_handshake_facts resp
    by (simp add: example_resources_def NewLocalhostCallbackAuthenticator_def Let_def)
qed

end
