(* ===== verification/Export_V1alpha1.thy ===== *)
theory Export_V1alpha1
  imports Cli_Bind
begin

text \<open>
  The older API version: APIServiceExports that carry the schemas of their CRD
  (\<open>v1alpha1/apiserviceexport_types.go\<close>, \<open>v1alpha1/helpers/serviceexport.go\<close>). JSON and YAML of schemas and SHA-224
  are parameters.
\<close>

section \<open>Types\<close>

text \<open>An empty raw schema is no schema.\<close>

record APIServiceExportVersion =
  sev_Name :: string
  sev_Served :: bool
  sev_Storage :: bool
  sev_Deprecated :: bool
  sev_DeprecationWarning :: "string option"
  sev_Schema :: string
  sev_Subresources :: CustomResourceSubresources
  sev_AdditionalPrinterColumns :: "CustomResourceColumnDefinition list"

record APIServiceExportCRDSpec =
  ses_Group :: string
  ses_Names :: CustomResourceDefinitionNames
  ses_Scope :: ResourceScope
  ses_Versions :: "APIServiceExportVersion list"

section \<open>From export to CRD\<close>

definition crd_version :: "(string \<Rightarrow> go_error + json) \<Rightarrow> APIServiceExportVersion \<Rightarrow> go_error + CustomResourceDefinitionVersion" where
  "crd_version unmarshal v =
     (let base = \<lparr>cdv_Name = sev_Name v, cdv_Served = sev_Served v, cdv_Storage = sev_Storage v,
            cdv_Deprecated = sev_Deprecated v, cdv_DeprecationWarning = sev_DeprecationWarning v, cdv_Schema = None,
            cdv_Subresources = Some (sev_Subresources v), cdv_AdditionalPrinterColumns = sev_AdditionalPrinterColumns v,
            cdv_SelectableFields = []\<rparr>
      in if sev_Schema v = '''' then Inr base
         else case unmarshal (sev_Schema v) of
                Inl e \<Rightarrow> Inl (Errorf (''failed to unmarshal schema for version '' @ quoted (sev_Name v)) (Some e))
              | Inr s \<Rightarrow> Inr (base\<lparr>cdv_Schema := Some (Some s)\<rparr>))"

fun crd_versions :: "(string \<Rightarrow> go_error + json) \<Rightarrow> APIServiceExportVersion list \<Rightarrow> go_error + CustomResourceDefinitionVersion list" where
  "crd_versions unmarshal [] = Inr []"
| "crd_versions unmarshal (v # vs) =
     (case crd_version unmarshal v of
        Inl e \<Rightarrow> Inl e
      | Inr c \<Rightarrow> map_sum id ((#) c) (crd_versions unmarshal vs))"

definition ServiceExportToCRD :: "(string \<Rightarrow> go_error + json) \<Rightarrow> string \<Rightarrow> APIServiceExportCRDSpec \<Rightarrow> go_error + CustomResourceDefinition" where
  "ServiceExportToCRD unmarshal name spec =
     (case crd_versions unmarshal (ses_Versions spec) of
        Inl e \<Rightarrow> Inl e
      | Inr vs \<Rightarrow> Inr \<lparr>crd_Meta = zero_ObjectMeta\<lparr>om_Name := name\<rparr>, crd_Group = ses_Group spec, crd_Names = ses_Names spec,
          crd_Scope = ses_Scope spec, crd_Versions = vs, crd_Conversion = None, crd_PreserveUnknownFields = False,
          crd_Conditions = [], crd_AcceptedNames = zero_Names, crd_StoredVersions = []\<rparr>)"

section \<open>From CRD to export\<close>

definition export_version :: "(json \<Rightarrow> go_error + string) \<Rightarrow> string \<Rightarrow> CustomResourceDefinitionVersion \<Rightarrow> go_error + APIServiceExportVersion" where
  "export_version marshal name v =
     (let sub = (case cdv_Subresources v of None \<Rightarrow> zero_subresources | Some s \<Rightarrow> s);
          base = \<lparr>sev_Name = cdv_Name v, sev_Served = cdv_Served v, sev_Storage = cdv_Storage v,
            sev_Deprecated = cdv_Deprecated v, sev_DeprecationWarning = cdv_DeprecationWarning v, sev_Schema = '''',
            sev_Subresources = sub, sev_AdditionalPrinterColumns = cdv_AdditionalPrinterColumns v\<rparr>
      in case cdv_Schema v of
           Some (Some s) \<Rightarrow>
             (case marshal s of
                Inl e \<Rightarrow> Inl (Errorf (''failed to marshal CRD '' @ name @ '' schema for version '' @ quoted (cdv_Name v)) (Some e))
              | Inr raw \<Rightarrow> Inr (base\<lparr>sev_Schema := raw\<rparr>))
         | _ \<Rightarrow> Inr base)"

text \<open>With a webhook, the first served version is the only one, and becomes the storage version.\<close>

fun export_versions :: "(json \<Rightarrow> go_error + string) \<Rightarrow> string \<Rightarrow> bool \<Rightarrow> CustomResourceDefinitionVersion list \<Rightarrow>
    go_error + APIServiceExportVersion list" where
  "export_versions marshal name first [] = Inr []"
| "export_versions marshal name first (v # vs) =
     (if \<not> cdv_Served v then export_versions marshal name first vs
      else case export_version marshal name v of
             Inl e \<Rightarrow> Inl e
           | Inr a \<Rightarrow> (if first then Inr [a\<lparr>sev_Storage := True\<rparr>] else map_sum id ((#) a) (export_versions marshal name first vs)))"

definition only_first_version :: "CustomResourceDefinition \<Rightarrow> bool" where
  "only_first_version crd \<longleftrightarrow> (case crd_Conversion crd of None \<Rightarrow> False | Some cv \<Rightarrow> kcc_Strategy cv = ''Webhook'')"

definition CRDToServiceExport :: "(json \<Rightarrow> go_error + string) \<Rightarrow> CustomResourceDefinition \<Rightarrow> go_error + APIServiceExportCRDSpec" where
  "CRDToServiceExport marshal crd =
     (case export_versions marshal (om_Name (crd_Meta crd)) (only_first_version crd) (crd_Versions crd) of
        Inl e \<Rightarrow> Inl e
      | Inr vs \<Rightarrow> Inr \<lparr>ses_Group = crd_Group crd, ses_Names = crd_Names crd, ses_Scope = crd_Scope crd, ses_Versions = vs\<rparr>)"

definition APIServiceExportCRDSpecHash :: "(APIServiceExportCRDSpec \<Rightarrow> go_error + string) \<Rightarrow> (string \<Rightarrow> nat list) \<Rightarrow>
    APIServiceExportCRDSpec \<Rightarrow> string" where
  "APIServiceExportCRDSpecHash marshal sum224 spec =
     (case marshal spec of Inl _ \<Rightarrow> '''' | Inr bs \<Rightarrow> toBase62 (sum224 bs))"

section \<open>The round trip\<close>

text \<open>The versions that come back: the served ones, or the first of them as the storage version.\<close>

definition surviving :: "bool \<Rightarrow> CustomResourceDefinitionVersion list \<Rightarrow> CustomResourceDefinitionVersion list" where
  "surviving first vs =
     (let served = map normal_version (filter cdv_Served vs)
      in if first then map (\<lambda>v. v\<lparr>cdv_Storage := True\<rparr>) (take 1 served) else served)"

lemma version_round_trip:
  assumes "\<And>s raw. marshal s = Inr raw \<Longrightarrow> raw \<noteq> '''' \<and> unmarshal raw = Inr s" and "export_version marshal name v = Inr a"
  shows "crd_version unmarshal a = Inr (normal_version v)"
proof (cases "cdv_Schema v")
  case None
  with assms(2) show ?thesis by (auto simp: export_version_def crd_version_def normal_version_def zero_subresources_def Let_def split: option.splits)
next
  case (Some sch)
  then show ?thesis using assms
    by (cases sch) (auto simp: export_version_def crd_version_def normal_version_def zero_subresources_def Let_def split: sum.splits option.splits)
qed

lemma stored_version: "crd_version unmarshal a = Inr c \<Longrightarrow> crd_version unmarshal (a\<lparr>sev_Storage := True\<rparr>) = Inr (c\<lparr>cdv_Storage := True\<rparr>)"
  by (auto simp: crd_version_def Let_def split: if_splits sum.splits)

lemma versions_round_trip:
  assumes "\<And>s raw. marshal s = Inr raw \<Longrightarrow> raw \<noteq> '''' \<and> unmarshal raw = Inr s" and "export_versions marshal name first vs = Inr as"
  shows "crd_versions unmarshal as = Inr (surviving first vs)"
  using assms(2)
proof (induction vs arbitrary: as)
  case Nil
  then show ?case by (simp add: surviving_def)
next
  case (Cons v vs)
  show ?case
  proof (cases "cdv_Served v")
    case False
    with Cons show ?thesis by (simp add: surviving_def)
  next
    case True
    with Cons.prems obtain a where a: "export_version marshal name v = Inr a" by (auto split: sum.splits)
    note same = version_round_trip [OF assms(1) a]
    show ?thesis
    proof (cases first)
      case True
      with Cons.prems \<open>cdv_Served v\<close> a have "as = [a\<lparr>sev_Storage := True\<rparr>]" by simp
      with True \<open>cdv_Served v\<close> stored_version [OF same] show ?thesis by (simp add: surviving_def)
    next
      case False
      with Cons.prems \<open>cdv_Served v\<close> a obtain bs where "export_versions marshal name first vs = Inr bs" "as = a # bs"
        by (cases "export_versions marshal name first vs") auto
      with Cons.IH False \<open>cdv_Served v\<close> same show ?thesis by (simp add: surviving_def)
    qed
  qed
qed

text \<open>
  A CRD that goes through an export keeps its group, names and scope and the schemas of its served versions.
\<close>

lemma crd_export_round_trip:
  assumes "\<And>s raw. marshal s = Inr raw \<Longrightarrow> raw \<noteq> '''' \<and> unmarshal raw = Inr s" and "CRDToServiceExport marshal crd = Inr spec"
  shows "ServiceExportToCRD unmarshal name spec = Inr \<lparr>crd_Meta = zero_ObjectMeta\<lparr>om_Name := name\<rparr>, crd_Group = crd_Group crd,
    crd_Names = crd_Names crd, crd_Scope = crd_Scope crd, crd_Versions = surviving (only_first_version crd) (crd_Versions crd),
    crd_Conversion = None, crd_PreserveUnknownFields = False, crd_Conditions = [], crd_AcceptedNames = zero_Names,
    crd_StoredVersions = []\<rparr>"
proof -
  obtain vs where "export_versions marshal (om_Name (crd_Meta crd)) (only_first_version crd) (crd_Versions crd) = Inr vs"
    and "spec = \<lparr>ses_Group = crd_Group crd, ses_Names = crd_Names crd, ses_Scope = crd_Scope crd, ses_Versions = vs\<rparr>"
    using assms(2) by (auto simp: CRDToServiceExport_def split: sum.splits)
  with versions_round_trip [OF assms(1)] show ?thesis by (simp add: ServiceExportToCRD_def)
qed

end
