(* ===== verification/Konnector_Server.thy ===== *)
theory Konnector_Server
  imports Bootstrap
begin

text \<open>
  The konnector process (\<open>cmd/konnector\<close>, \<open>pkg/konnector/options\<close>, \<open>pkg/konnector/config.go\<close>,
  \<open>pkg/konnector/server.go\<close> and \<open>pkg/konnector/server\<close>): options, start, health checks and leader election.
  Clients, controllers, informers, the router and the elector of client-go are parameters; logging is left out.
\<close>

section \<open>Options\<close>

record KonnectorOptions =
  ko_KubeConfigPath :: string
  ko_LeaseLockName :: string
  ko_LeaseLockNamespace :: string
  ko_LeaseLockIdentity :: string
  ko_ServerAddr :: string

definition NewOptions :: "(string \<Rightarrow> string) \<Rightarrow> KonnectorOptions" where
  "NewOptions getenv = \<lparr>ko_KubeConfigPath = '''', ko_LeaseLockName = ''kube-bind'',
     ko_LeaseLockNamespace = (if getenv ''POD_NAMESPACE'' = '''' then ''kube-system'' else getenv ''POD_NAMESPACE''),
     ko_LeaseLockIdentity = getenv ''POD_NAME'', ko_ServerAddr = ''''\<rparr>"

definition AddFlags :: "KonnectorOptions flag list" where
  "AddFlags = [StringVar ''kubeconfig'' (\<lambda>v k. k\<lparr>ko_KubeConfigPath := v\<rparr>),
     StringVar ''lease-name'' (\<lambda>v k. k\<lparr>ko_LeaseLockName := v\<rparr>),
     StringVar ''lease-namespace'' (\<lambda>v k. k\<lparr>ko_LeaseLockNamespace := v\<rparr>),
     StringVar ''server-address'' (\<lambda>v k. k\<lparr>ko_ServerAddr := v\<rparr>)]"

text \<open>The random number becomes the identity of a process that does not know its pod.\<close>

definition Complete :: "nat \<Rightarrow> KonnectorOptions \<Rightarrow> KonnectorOptions" where
  "Complete random k = (if ko_LeaseLockIdentity k = '''' then k\<lparr>ko_LeaseLockIdentity := string_of_nat random\<rparr> else k)"

section \<open>Health checks\<close>

record 'w health_check =
  hk_Name :: string
  hk_Check :: "('w, err) io"

fun run_checks :: "'w health_check list \<Rightarrow> (string \<Rightarrow> string option) \<Rightarrow> bool \<Rightarrow> ('w, (string \<Rightarrow> string option) \<times> bool) io" where
  "run_checks [] status allOk = State_Monad.return (status, allOk)"
| "run_checks (c # cs) status allOk = do {
     e \<leftarrow> hk_Check c;
     (case e of
        Some _ \<Rightarrow> run_checks cs (status(hk_Name c \<mapsto> ''degraded'')) False
      | None \<Rightarrow> run_checks cs (status(hk_Name c \<mapsto> ''ok'')) allOk) }"

text \<open>The response: its code, and the map that is sent as JSON.\<close>

definition ServeHTTP :: "'w health_check list \<Rightarrow> ('w, nat \<times> (string \<Rightarrow> string option)) io" where
  "ServeHTTP checks = do {
     r \<leftarrow> run_checks checks (\<lambda>_. None) True;
     State_Monad.return (case r of (status, allOk) \<Rightarrow> (if allOk then 200 else 500, status)) }"

text \<open>
  The handler of a route is a copy of the checker at the time of its registration; the router takes the
  first route that matches.
\<close>

record 'w web_server =
  ws_Router :: "(string \<times> 'w health_check list) list"
  ws_Checker :: "'w health_check list"
  ws_ServerAddr :: string

definition NewWebServer :: "string \<Rightarrow> 'w web_server" where
  "NewWebServer addr = \<lparr>ws_Router = [(''/healthz'', [])], ws_Checker = [], ws_ServerAddr = (if addr = '''' then '':8090'' else addr)\<rparr>"

definition AddCheck :: "'w health_check \<Rightarrow> 'w web_server \<Rightarrow> 'w web_server" where
  "AddCheck check s = s\<lparr>ws_Checker := ws_Checker s @ [check]\<rparr>"

definition StartWebServer :: "'w web_server \<Rightarrow> 'w web_server" where
  "StartWebServer s = s\<lparr>ws_Router := ws_Router s @ [(''/healthz'', ws_Checker s)]\<rparr>"

definition serve_path :: "'w web_server \<Rightarrow> string \<Rightarrow> ('w, nat \<times> (string \<Rightarrow> string option)) io" where
  "serve_path s path =
     (case map_of (ws_Router s) path of
        None \<Rightarrow> State_Monad.return (404, \<lambda>_. None)
      | Some checks \<Rightarrow> ServeHTTP checks)"

section \<open>Leader election\<close>

record lease_lock =
  ll_Namespace :: string
  ll_Name :: string
  ll_Identity :: string

definition NewLock :: "string \<Rightarrow> string \<Rightarrow> string \<Rightarrow> lease_lock" where
  "NewLock namespace lockName podName = \<lparr>ll_Namespace = namespace, ll_Name = lockName, ll_Identity = podName\<rparr>"

text \<open>
  What the elector reports, and the end of the process's context. \<open>OnStartedLeading\<close> gets a context that
  ends with the leadership, but the controllers run with that of the process.
\<close>

datatype leader_event = StartedLeading | StoppedLeading | NewLeader string | ProcessDone

record leadership =
  ls_leading :: bool
  ls_running :: bool

fun leader_callback :: "leader_event \<Rightarrow> leadership \<Rightarrow> leadership" where
  "leader_callback StartedLeading s = \<lparr>ls_leading = True, ls_running = True\<rparr>"
| "leader_callback StoppedLeading s = s\<lparr>ls_leading := False\<rparr>"
| "leader_callback (NewLeader currentID) s = s"
| "leader_callback ProcessDone s = \<lparr>ls_leading = False, ls_running = False\<rparr>"

section \<open>Start\<close>

text \<open>
  Parameters: logging setup, a random number, the client configuration of a kubeconfig path, the
  clients by name, the constructor of the controllers, the CRD client, the informers, the elector of a
  lock (an error makes it panic), its health check, and its run until the end of the context.
\<close>

record 'w konnector_env =
  kv_logs :: "('w, err) io"
  kv_random :: "('w, nat) io"
  kv_load :: "string \<Rightarrow> ('w, err) io"
  kv_client :: "string \<Rightarrow> ('w, err) io"
  kv_New :: "('w, err) io"
  kv_crds :: "'w crd_client"
  kv_crd_files :: crd_files
  kv_startInformers :: "('w, unit) io"
  kv_NewLeaderElector :: "lease_lock \<Rightarrow> ('w, err) io"
  kv_healthz :: "'w health_check"
  kv_serve :: "'w web_server \<Rightarrow> ('w, unit) io"
  kv_lead :: "lease_lock \<Rightarrow> ('w, unit) io"

fun in_order :: "('w, err) io list \<Rightarrow> ('w, err) io" where
  "in_order [] = State_Monad.return None"
| "in_order (m # ms) = do { e \<leftarrow> m; (case e of Some x \<Rightarrow> State_Monad.return (Some x) | None \<Rightarrow> in_order ms) }"

definition NewConfig :: "'w konnector_env \<Rightarrow> KonnectorOptions \<Rightarrow> ('w, err) io" where
  "NewConfig env k = in_order
     [kv_load env (ko_KubeConfigPath k), kv_client env ''bind'', kv_client env ''kubernetes'', kv_client env ''apiextensions'']"

definition PrepareRun :: "'w konnector_env \<Rightarrow> ('w, err) io" where
  "PrepareRun env = CreateFromFS (kv_crds env) (kv_crd_files env) [\<lparr>gr_Group = ''kube-bind.io'', gr_Resource = ''apiservicebindings''\<rparr>]"

definition run_leader :: "'w konnector_env \<Rightarrow> KonnectorOptions \<Rightarrow> ('w, err outcome) io" where
  "run_leader env k =
     (let lock = NewLock (ko_LeaseLockNamespace k) (ko_LeaseLockName k) (ko_LeaseLockIdentity k)
      in do {
        kv_startInformers env;
        e \<leftarrow> kv_NewLeaderElector env lock;
        (case e of
           Some _ \<Rightarrow> State_Monad.return Panics
         | None \<Rightarrow> do {
             kv_serve env (StartWebServer (AddCheck (kv_healthz env) (NewWebServer (ko_ServerAddr k))));
             kv_lead env lock;
             State_Monad.return (Returns None) }) })"

definition run_konnector :: "'w konnector_env \<Rightarrow> KonnectorOptions \<Rightarrow> ('w, err outcome) io" where
  "run_konnector env opts = do {
     l \<leftarrow> kv_logs env;
     (case l of
        Some e \<Rightarrow> State_Monad.return (Returns (Some e))
      | None \<Rightarrow> do {
          n \<leftarrow> kv_random env;
          e \<leftarrow> in_order [NewConfig env (Complete n opts), kv_New env, PrepareRun env];
          (case e of
             Some x \<Rightarrow> State_Monad.return (Returns (Some x))
           | None \<Rightarrow> run_leader env (Complete n opts)) }) }"

section \<open>Facts\<close>

lemma konnector_flags_distinct: "distinct (map flag_name AddFlags)"
  by (simp add: AddFlags_def)

lemma lock_has_identity: "ko_LeaseLockIdentity (Complete n k) \<noteq> ''''"
proof -
  have "string_of_nat n \<noteq> []" by (subst string_of_nat.simps) simp
  then show ?thesis by (simp add: Complete_def)
qed

text \<open>The checker itself reports failures.\<close>

lemma run_checks_ok:
  assumes "\<And>c. c \<in> set checks \<Longrightarrow> \<exists>e. \<forall>w. run_state (hk_Check c) w = (e, w)"
  shows "fst (run_state (run_checks checks status allOk) w) = (m, b) \<Longrightarrow>
    b = (allOk \<and> (\<forall>c \<in> set checks. fst (run_state (hk_Check c) w) = None))"
  using assms
proof (induction checks arbitrary: status allOk)
  case (Cons c cs)
  from Cons.prems(2) [of c] obtain e where "\<And>w. run_state (hk_Check c) w = (e, w)" by auto
  then show ?case using Cons by (cases e) auto
qed simp

text \<open>
  The endpoint reports success whatever the checks say: the route that \<open>NewServer\<close> registers has a copy of
  the checker without any check and comes before the one that \<open>Start\<close> adds.
\<close>

lemma health_never_degraded:
  "serve_path (StartWebServer (foldr AddCheck checks (NewWebServer addr))) ''/healthz'' = State_Monad.return (200, \<lambda>_. None)"
proof -
  have "map_of (ws_Router (foldr AddCheck checks (NewWebServer addr))) ''/healthz'' = Some []"
    by (induction checks) (simp_all add: AddCheck_def NewWebServer_def)
  then show ?thesis by (simp add: serve_path_def StartWebServer_def ServeHTTP_def map_add_def)
qed

text \<open>
  After its lease is lost, the process goes on running its controllers, until the process ends.
\<close>

lemma runs_after_lost_lease:
  assumes "ls_running s" and "ProcessDone \<notin> set evs"
  shows "ls_running (fold leader_callback evs s)"
  using assms
proof (induction evs arbitrary: s)
  case (Cons ev evs)
  then show ?case by (cases ev) auto
qed simp

end
