(* ===== verification/Kcp_Bootstrap.thy ===== *)
theory Kcp_Bootstrap
  imports Kube_Client
begin

text \<open>
  The bootstrapping of a kcp server (\<open>contrib/kcp/bootstrap\<close>, \<open>contrib/kcp/deploy/bootstrap.go\<close>): three sets of
  manifests, then the binding of the workspace to its own export. The manifests are created by kcp's
  helpers, a parameter, as are the clients and URLs. The poll of the binding never gives up before its
  context ends; the number of polls that allows is a parameter.
\<close>

section \<open>Bindings\<close>

record AcceptedClaim =
  acl_Group :: string
  acl_Resource :: string
  acl_Verbs :: "string list"
  acl_MatchAll :: bool
  acl_Accepted :: bool

record APIBindingSpec =
  abs_ExportPath :: string
  abs_ExportName :: string
  abs_PermissionClaims :: "AcceptedClaim list"

record APIBinding =
  ab_Meta :: ObjectMeta
  ab_Spec :: APIBindingSpec

definition accepted :: "string \<times> string \<Rightarrow> AcceptedClaim" where
  "accepted gr = \<lparr>acl_Group = fst gr, acl_Resource = snd gr, acl_Verbs = [''*''], acl_MatchAll = True, acl_Accepted = True\<rparr>"

definition claimed_by_kube_bind :: "(string \<times> string) list" where
  "claimed_by_kube_bind =
     [(''rbac.authorization.k8s.io'', ''clusterrolebindings''), (''rbac.authorization.k8s.io'', ''clusterroles''),
      (''rbac.authorization.k8s.io'', ''roles''), (''rbac.authorization.k8s.io'', ''rolebindings''),
      ('''', ''serviceaccounts''), ('''', ''configmaps''), ('''', ''secrets''), (''apis.kcp.io'', ''apiexports''),
      (''apiextensions.k8s.io'', ''customresourcedefinitions''), ('''', ''namespaces''), (''apis.kcp.io'', ''apiresourceschemas'')]"

definition wanted_binding :: "string \<Rightarrow> string \<Rightarrow> APIBinding" where
  "wanted_binding exportName clusterPath = \<lparr>ab_Meta = zero_ObjectMeta\<lparr>om_Name := exportName\<rparr>,
     ab_Spec = \<lparr>abs_ExportPath = clusterPath, abs_ExportName = exportName, abs_PermissionClaims = map accepted claimed_by_kube_bind\<rparr>\<rparr>"

record 'w binding_client =
  bc_Create :: "APIBinding \<Rightarrow> ('w, APIBinding) call"
  bc_Get :: "string \<Rightarrow> ('w, APIBinding) call"
  bc_Update :: "APIBinding \<Rightarrow> ('w, APIBinding) call"

fun update_binding :: "'w binding_client \<Rightarrow> APIBinding \<Rightarrow> nat \<Rightarrow> ('w, err) io" where
  "update_binding cl wanted 0 = State_Monad.return (Some (Errorf ''context canceled'' None))"
| "update_binding cl wanted (Suc polls) = do {
     g \<leftarrow> bc_Get cl (om_Name (ab_Meta wanted));
     (case g of
        Inl _ \<Rightarrow> update_binding cl wanted polls
      | Inr existing \<Rightarrow> do {
          u \<leftarrow> bc_Update cl (existing\<lparr>ab_Spec := ab_Spec wanted\<rparr>);
          (case u of
             Inr _ \<Rightarrow> State_Monad.return None
           | Inl _ \<Rightarrow> update_binding cl wanted polls) }) }"

definition bindAPIExport :: "'w binding_client \<Rightarrow> nat \<Rightarrow> string \<Rightarrow> string \<Rightarrow> ('w, err) io" where
  "bindAPIExport cl polls exportName clusterPath =
     (let wanted = wanted_binding exportName clusterPath
      in do {
        c \<leftarrow> bc_Create cl wanted;
        (case c of
           Inr _ \<Rightarrow> State_Monad.return None
         | Inl e \<Rightarrow>
             (if \<not> IsAlreadyExists e then State_Monad.return (Some e) else update_binding cl wanted polls)) })"

section \<open>Start\<close>

text \<open>
  \<open>ke_Bootstrap\<close> creates the manifests of a set in a workspace, with or without replacing what is
  there. The last field is the client of a workspace.
\<close>

datatype manifests = RootWorkspaces | CoreResources | KubeBindResources

record 'w kcp_env =
  ke_Bootstrap :: "string \<Rightarrow> manifests \<Rightarrow> bool \<Rightarrow> ('w, err) io"
  ke_bindings :: "string \<Rightarrow> 'w binding_client"

definition KubeBindRootClusterName :: string where
  "KubeBindRootClusterName = ''root:kube-bind''"

definition config_Bootstrap :: "'w kcp_env \<Rightarrow> ('w, err) io" where
  "config_Bootstrap env = ke_Bootstrap env ''root'' RootWorkspaces False"

definition core_Bootstrap :: "'w kcp_env \<Rightarrow> ('w, err) io" where
  "core_Bootstrap env = ke_Bootstrap env KubeBindRootClusterName CoreResources True"

definition kube_bind_Bootstrap :: "'w kcp_env \<Rightarrow> nat \<Rightarrow> ('w, err) io" where
  "kube_bind_Bootstrap env polls = do {
     e \<leftarrow> ke_Bootstrap env KubeBindRootClusterName KubeBindResources True;
     (case e of
        Some x \<Rightarrow> State_Monad.return (Some x)
      | None \<Rightarrow> bindAPIExport (ke_bindings env KubeBindRootClusterName) polls ''kube-bind.io'' KubeBindRootClusterName) }"

text \<open>Errors are logged and end the start, which reports none.\<close>

definition Start :: "'w kcp_env \<Rightarrow> nat \<Rightarrow> ('w, err) io" where
  "Start env polls = do {
     e1 \<leftarrow> config_Bootstrap env;
     (case e1 of
        Some _ \<Rightarrow> State_Monad.return None
      | None \<Rightarrow> do {
          e2 \<leftarrow> core_Bootstrap env;
          (case e2 of
             Some _ \<Rightarrow> State_Monad.return None
           | None \<Rightarrow> do { kube_bind_Bootstrap env polls; State_Monad.return None }) }) }"

section \<open>Options and configuration\<close>

record KcpOptions =
  kc_KubeConfig :: string
  kc_Context :: string

definition AddFlags :: "KcpOptions flag list" where
  "AddFlags = [StringVar ''kcp-kubeconfig'' (\<lambda>v k. k\<lparr>kc_KubeConfig := v\<rparr>), StringVar ''context'' (\<lambda>v k. k\<lparr>kc_Context := v\<rparr>)]"

definition Complete :: "KcpOptions \<Rightarrow> go_error + KcpOptions" where
  "Complete k = (if kc_KubeConfig k = '''' then Inl (Errorf ''kcp kubeconfig must be specified'' None) else Inr k)"

text \<open>The host of a client configuration, without its path: \<open>parse\<close> and \<open>print\<close> are those of URLs.\<close>

definition newKCPRestConfig :: "(string \<Rightarrow> go_error + 'u) \<Rightarrow> (string \<Rightarrow> 'u \<Rightarrow> 'u) \<Rightarrow> ('u \<Rightarrow> string) \<Rightarrow> string \<Rightarrow> go_error + string" where
  "newKCPRestConfig parse set_path show_url host = map_sum id (\<lambda>u. show_url (set_path '''' u)) (parse host)"

text \<open>The clients are made from the host that the chosen context of the kubeconfig gives.\<close>

definition NewConfig :: "(string \<Rightarrow> string \<Rightarrow> ('w, string) call) \<Rightarrow> (string \<Rightarrow> go_error + string) \<Rightarrow> (string \<Rightarrow> string \<Rightarrow> ('w, err) io) \<Rightarrow>
    KcpOptions \<Rightarrow> ('w, string) call" where
  "NewConfig load restConfig newClient k = do {
     l \<leftarrow> load (kc_KubeConfig k) (kc_Context k);
     (case l of
        Inl e \<Rightarrow> State_Monad.return (Inl e)
      | Inr loaded \<Rightarrow>
          (case restConfig loaded of
             Inl e \<Rightarrow> State_Monad.return (Inl e)
           | Inr host \<Rightarrow> do {
               a \<leftarrow> newClient ''kcp'' host;
               (case a of
                  Some e \<Rightarrow> State_Monad.return (Inl e)
                | None \<Rightarrow> do {
                    b \<leftarrow> newClient ''apiextensions'' host;
                    (case b of
                       Some e \<Rightarrow> State_Monad.return (Inl e)
                     | None \<Rightarrow> do {
                         c \<leftarrow> newClient ''dynamic'' host;
                         State_Monad.return (case c of Some e \<Rightarrow> Inl e | None \<Rightarrow> Inr host) }) }) })) }"

section \<open>What the binding of the export does\<close>

datatype binding_event =
    CreatedBinding APIBinding "go_error + APIBinding"
  | GotBinding string "go_error + APIBinding"
  | UpdatedBinding APIBinding "go_error + APIBinding"

definition traced_bindings :: "'w binding_client \<Rightarrow> ('w \<times> binding_event list) binding_client" where
  "traced_bindings cl = \<lparr>bc_Create = (\<lambda>b. logged (CreatedBinding b) (bc_Create cl b)),
     bc_Get = (\<lambda>n. logged (GotBinding n) (bc_Get cl n)), bc_Update = (\<lambda>b. logged (UpdatedBinding b) (bc_Update cl b))\<rparr>"

text \<open>
  Only the wanted binding is created, and an existing one gets its spec and keeps all else. Without an
  error the last call was one of the two and succeeded.
\<close>

fun event_ok :: "APIBinding \<Rightarrow> binding_event list \<Rightarrow> binding_event \<Rightarrow> bool" where
  "event_ok wanted past (CreatedBinding b _) \<longleftrightarrow> b = wanted"
| "event_ok wanted past (GotBinding n _) \<longleftrightarrow> n = om_Name (ab_Meta wanted)"
| "event_ok wanted past (UpdatedBinding b _) \<longleftrightarrow> past \<noteq> [] \<and>
     (\<exists>existing. List.last past = GotBinding (om_Name (ab_Meta wanted)) (Inr existing) \<and> b = existing\<lparr>ab_Spec := ab_Spec wanted\<rparr>)"

definition bound :: "APIBinding \<Rightarrow> binding_event list \<Rightarrow> bool" where
  "bound wanted tr \<longleftrightarrow> tr \<noteq> [] \<and>
     (\<exists>b x. (List.last tr = CreatedBinding b (Inr x) \<or> List.last tr = UpdatedBinding b (Inr x)) \<and> ab_Spec b = ab_Spec wanted)"

lemma traced_bindings_calls:
  "bc_Create (traced_bindings cl) = (\<lambda>b. logged (CreatedBinding b) (bc_Create cl b))"
  "bc_Get (traced_bindings cl) = (\<lambda>n. logged (GotBinding n) (bc_Get cl n))"
  "bc_Update (traced_bindings cl) = (\<lambda>b. logged (UpdatedBinding b) (bc_Update cl b))"
  by (simp_all add: traced_bindings_def)

lemma bound_last:
  "us \<noteq> [] \<Longrightarrow> bound wanted (tr @ us) \<longleftrightarrow> bound wanted us"
  "bound wanted [a, ev] \<longleftrightarrow> bound wanted [ev]"
  "bound wanted [ev] \<longleftrightarrow> (\<exists>b x. (ev = CreatedBinding b (Inr x) \<or> ev = UpdatedBinding b (Inr x)) \<and> ab_Spec b = ab_Spec wanted)"
  by (simp_all add: bound_def)

lemma wp_update_binding:
  "guarded (event_ok wanted) [] tr \<Longrightarrow> wp (update_binding (traced_bindings cl) wanted polls)
     (\<lambda>e (_, tr'). guarded (event_ok wanted) [] tr' \<and> (e = None \<longrightarrow> bound wanted tr')) (w, tr)"
proof (induction polls arbitrary: w tr)
  case (Suc polls)
  then show ?case
    by (auto intro!: wp_intros Suc.IH simp: traced_bindings_calls guarded_append bound_last split: sum.split)
qed (auto intro!: wp_intros)

lemma bindAPIExport_ok:
  "wp (bindAPIExport (traced_bindings cl) polls exportName clusterPath)
     (\<lambda>e (_, tr). guarded (event_ok (wanted_binding exportName clusterPath)) [] tr \<and>
        (e = None \<longrightarrow> bound (wanted_binding exportName clusterPath) tr)) (w, [])"
  unfolding bindAPIExport_def Let_def
  by (auto intro!: wp_intros wp_update_binding simp: traced_bindings_calls bound_last split: sum.split)

end
