(* ===== verification/Spec2Isabelle.thy ===== *)
theory Spec2Isabelle
  imports Controllers Multi_Informer Indexers Dynamic_Informer Cluster_Controller
    Backend_Service_Export Backend_Server Export_V1alpha1 Konnector_Server Kcp_Bootstrap
begin

text \<open>
  Verification of kube-bind.

  kube-bind makes an API of a provider cluster available in the clusters of its consumers. The
  parts of the program, all in Go under \<open>src/\<close>, and how they interact:

  \<^item> The backend (\<open>backend\<close>) runs at the provider. Its web server describes the provider, lets the user
    log in and answers a bind with a kubeconfig for a namespace of the user's own. Its four controllers
    watch the objects of that namespace: a ClusterBinding with the heartbeat of the consumer,
    APIServiceExportRequests, which they validate and turn into APIServiceExports with copies of the
    bound schemas, and APIServiceNamespaces, for each of which they create a namespace and its roles.
  \<^item> The command \<open>kubectl bind\<close> (\<open>cli\<close>) runs at the consumer. It opens the login, receives the answer in a local
    callback server, stores the kubeconfig in a secret, sends the requests, deploys the konnector
    (\<open>pkg/bootstrap\<close>, \<open>deploy\<close>) and creates APIServiceBindings that refer to the secret.
  \<^item> The konnector (\<open>pkg/konnector\<close>, \<open>cmd/konnector\<close>) runs at the consumer. It starts one group of controllers per
    kubeconfig among the APIServiceBindings. They create the CRDs of the bound schemas, send
    heartbeats, and start, for each schema and permission claim of an export, syncers that copy
    specs to the provider, statuses back, and claimed objects in the direction of their owner.
  \<^item> Shared by all: the API types with their conditions (\<open>sdk/apis\<close>), the committer (\<open>pkg/committer\<close>), index
    functions (\<open>pkg/indexers\<close>).

  \<^bold>\<open>How the code is modelled.\<close> A struct is a record, an enumeration or union a datatype, an error
  the type \<open>go_error\<close>; \<open>err\<close> is an optional error, a call that gives a value or an error has type \<open>go_error + 'a\<close>, a panic is
  the constructor \<open>Panics\<close> of \<open>outcome\<close> where the code can panic. Calls with effects are state transformers over an arbitrary
  world \<open>'w\<close> (\<open>'w io\<close> of \<open>Prelude\<close>), so that every lookup may answer differently each time. A
  reconciler that is a Go struct of function fields is a record of such functions; \<open>new_\<dots>\<close>
  definitions are the closures that the constructors put there. Safety properties are stated over a
  traced world that logs every call with its answer (\<open>logged\<close>), as a policy that says which call may
  follow which history (\<open>guarded\<close>); the rules of the collection \<open>wp_intros\<close> carry these proofs. Durations are
  64-bit nanoseconds that wrap around as Go's do, times are integers. Go maps are finite maps, or association lists where their order shows.

  \<^bold>\<open>Theories.\<close> Foundations: \<open>Prelude\<close> (errors, package \<open>strings\<close>, sorting, clocks, effects and their rules, retries, flags);
  \<open>Kube_Client\<close> (interfaces of client-go); \<open>Worker\<close> (\<open>processNextWorkItem\<close>, \<open>startWorker\<close> over a work queue, with the contract
  \<open>shut_queue\<close>); \<open>Committer\<close>; \<open>Context_Store\<close>; \<open>Base64\<close>.
  API: \<open>Conditions\<close> (\<open>sdk/apis/third_party/conditions\<close>, contract \<open>condition_setter\<close>, which every API type interprets); \<open>Api_Types\<close>;
  \<open>Bound_Schema\<close> (\<open>helpers/boundschema.go\<close>); \<open>Export_V1alpha1\<close> (the older version); \<open>Indexers\<close>.
  Konnector: \<open>Konnector_Server\<close> (process, health, leader election); \<open>Konnector\<close> (\<open>konnector_reconcile.go\<close>, the secret controller);
  \<open>Cluster_Controller\<close>; \<open>Cluster_Binding\<close>; \<open>Service_Binding\<close>; \<open>Namespace_Lifecycle\<close>; \<open>Service_Export\<close> and \<open>Export_Controller\<close>
  (\<open>serviceexport\<close>); \<open>Cluster_Scoped\<close>, \<open>Spec_Sync\<close>, \<open>Status_Sync\<close> (its syncers); \<open>Claimed_Resources\<close>, \<open>Claimed_Namespaces\<close>;
  \<open>Multi_Informer\<close>, \<open>Dynamic_Informer\<close>; \<open>Controllers\<close> (the workers of all of these).
  Backend: \<open>Rbac\<close>, \<open>Backend_Cluster_Binding\<close>, \<open>Backend_Service_Namespace\<close>, \<open>Backend_Export_Request\<close>, \<open>Backend_Service_Export\<close>
  (\<open>backend/controllers\<close>); \<open>Backend_Manager\<close> (\<open>backend/kubernetes\<close>); \<open>Backend_Http\<close> (\<open>backend/http\<close>, \<open>backend/session\<close>);
  \<open>Backend_Options\<close>, \<open>Backend_Server\<close>. Command line: \<open>Cli_Bind\<close>, \<open>Cli_Apiservice\<close>, \<open>Cli_Kubeconfig\<close>, \<open>Bootstrap\<close>. \<open>Kcp_Bootstrap\<close> is
  the setup of a kcp server (\<open>contrib/kcp\<close>). Definitions have the names of the code where these are free.

  \<^bold>\<open>What is shown.\<close>

  \<^item> \<^emph>\<open>Synchronisation.\<close> The spec and status syncers touch only their object and its name at the provider, create it only
    after the finalizer is set, and delete only what is an orphan (\<open>Spec_Sync\<close>, \<open>Status_Sync\<close>); names and objects of
    cluster-scoped resources come back unchanged (\<open>Cluster_Scoped\<close>); the two copies of a claimed object converge to
    that of its owner (\<open>Claimed_Resources\<close>); a missing APIServiceNamespace is created and awaited (\<open>Claimed_Namespaces\<close>).
  \<^item> \<^emph>\<open>Life cycles.\<close> No syncer is leaked, and after a reconciliation exactly the wanted ones run (\<open>Service_Export\<close> on
    \<open>Context_Store\<close>); bindings share a context exactly if they share a kubeconfig (\<open>Konnector\<close>); the
    informers of namespaces keep their invariant (\<open>Multi_Informer\<close>), and handlers miss no object (\<open>Dynamic_Informer\<close>); workers do
    not panic (below) and end after a shutdown (\<open>Namespace_Lifecycle\<close>, whose controller also refines an
    abstract specification of the two clusters).
  \<^item> \<^emph>\<open>Confinement of consumers.\<close> What the backend creates and grants for a consumer stays in its namespace and within its
    exports, claims and requests (\<open>Backend_\<dots>\<close>); a bind and the command line write only where they should
    (\<open>Backend_Manager\<close>, \<open>Cli_Apiservice\<close>); CRDs of others are not touched (\<open>Service_Binding\<close>).
  \<^item> \<^emph>\<open>Agreement of components.\<close> Hashes of exports agree between two controllers (\<open>Backend_Service_Export\<close>); heartbeats arrive in
    time (\<open>Backend_Cluster_Binding\<close> with \<open>Cluster_Binding\<close>); the konnector accepts the kubeconfigs of the backend
    (\<open>Backend_Manager\<close>); the answer to a bind reaches the command (\<open>Cli_Bind\<close>), and the session its cookie (\<open>Backend_Http\<close>), exactly if the
    two base64 alphabets agree on the text; validated options are those with which the server starts (\<open>Backend_Server\<close>).
  \<^item> \<^emph>\<open>Conditions and commits.\<close> Conditions are canonical, patches are three-way merges (\<open>Conditions\<close>, \<open>Api_Types\<close>); a commit writes one of
    object and status with its preconditions (\<open>Committer\<close>).

  Where the code does not do what it means to, a lemma shows what it does instead; the manifest lists these findings.

  \<^bold>\<open>Parameters and hypotheses.\<close> client-go, controller-runtime, apimachinery, kcp, JSON, YAML, URLs, templates, OIDC, secure
  cookies, hashes, the network, files and terminals are parameters. Hypotheses about them are documented behaviour:
  key functions (\<open>keys_documented\<close>), queues after a shutdown (\<open>shut_queue\<close>), clusters that store what is written
  (\<open>cluster_access\<close>), inverse encoders (\<open>json_inverse\<close>), reflexive equality (\<open>reflexive_committer\<close>). Every property with hypotheses has a
  witness that instantiates them.

  \<^bold>\<open>Bounds.\<close> Waits that end with their context take the number of polls that the context allows as an argument: \<open>polls\<close> in
  \<open>Claimed_Namespaces\<close>, \<open>Cluster_Controller\<close>, \<open>Multi_Informer\<close> and \<open>Kcp_Bootstrap\<close>, \<open>ke_polls\<close> and \<open>ke_retries\<close> in \<open>Backend_Manager\<close>, the rounds of \<open>Bootstrap\<close>, \<open>cl_polls\<close> and
  \<open>cl_retries\<close> for CRDs, \<open>ae_polls\<close> in \<open>Cli_Apiservice\<close>. Running out is the error of the code for a cancelled context, so nothing is
  cut off; theorems about success say how many polls are enough (\<open>claimed_namespace_created\<close>) or hold for all numbers. The
  worker loop is a partial function, and that it returns is proved.

  \<^bold>\<open>Not modelled.\<close> Generated code (deep copies, clients, listers, informers, registration); types of v1alpha1 that no code reads;
  command definitions with their help texts and the flags of client-go; the wiring of clients, informers and handlers in
  the constructors and the \<open>Start\<close> methods of controllers (the handlers, closures and workers are modelled); matchers and constants of the conditions
  library that only tests use; logging and progress output; tests, documentation and build scripts. Goroutines appear where
  they share state: as steps of a relation (\<open>Service_Export\<close>, \<open>Dynamic_Informer\<close>), as changes between polls (\<open>Multi_Informer\<close>), or as an
  arbitrary world between calls.
\<close>

section \<open>Controllers and the committer\<close>

text \<open>
  C23. The committer panics when spec and status changed together. No worker of the controllers that use
  it ever ends that way, whatever its queue hands out and the clock says: the controllers of service
  bindings, of kubeconfig secrets, of cluster bindings, of service exports and the konnector itself,
  provided that equality of metadata and specs is reflexive.
\<close>

theorem workers_never_panic:
  assumes "reflexive_committer (c_committer b)" and "reflexive_committer (sc_committer s)"
    and "reflexive_committer (cc_committer k)" and "reflexive_committer (xc_committer x)" and "reflexive_committer (kc_committer n)"
  shows "binding_worker qb clock b w1 \<noteq> Some (Panics, w1') \<and> secret_worker qs clock' s w2 \<noteq> Some (Panics, w2') \<and>
    cluster_binding_worker qk clock'' k w3 \<noteq> Some (Panics, w3') \<and> export_worker qx clock''' x w4 \<noteq> Some (Panics, w4') \<and>
    konnector_worker qn n w5 \<noteq> Some (Panics, w5')"
  unfolding binding_worker_def secret_worker_def cluster_binding_worker_def export_worker_def konnector_worker_def
  by (intro conjI worker_ends_normally clocked_no_panic binding_process_returns secret_process_returns
      cluster_binding_process_returns export_process_returns konnector_process_returns reflexive_committerD assms)

theorem workers_never_panic_witness:
  "binding_worker (once_queue (\<lambda>_. False) id ''b'') example_clock Service_Binding.example_controller () \<noteq> Some (Panics, ()) \<and>
   secret_worker string_queue example_clock example_secret_controller ''p'' \<noteq> Some (Panics, '''') \<and>
   cluster_binding_worker (once_queue (\<lambda>_. False) id ''p/cluster'') example_clock Cluster_Binding.example_controller [] \<noteq> Some (Panics, []) \<and>
   export_worker (once_queue (\<lambda>_. False) id ''ns/foo'') example_clock example_export_controller Service_Export.example_state \<noteq>
     Some (Panics, Service_Export.example_state) \<and>
   konnector_worker (once_queue (\<lambda>s. kn_ext s \<noteq> '''') (\<lambda>s. s\<lparr>kn_ext := ''''\<rparr>) ''b'') (example_Controller True) Konnector.example_state \<noteq>
     Some (Panics, Konnector.example_state)"
  by (rule workers_never_panic)
    (simp_all add: reflexive_committer_def Service_Binding.example_controller_def example_secret_controller_def
      Konnector.example_committer_def Cluster_Binding.example_controller_def example_export_controller_def example_Controller_def)

end
